(* ===== verification/Prelude.thy ===== *)
theory Prelude
  imports
    Complex_Main
    "HOL-Library.AList"
    "HOL-Library.Char_ord"
    "HOL-Library.List_Lexorder"
    "HOL-Library.Multiset"
    "HOL-Library.Sublist"
begin

text \<open>
  What the component theories share: Python's dynamic values, dictionaries, strings and
  exceptions as HOL data, and the generic facts about them.

  \<^item> Exceptions are values of \<open>py_exn\<close>; a function that may raise returns \<open>py_exn + 'a\<close>, with
    \<open>Inl\<close> for the exception. \<open>except Exception\<close> does not catch a \<open>BaseException\<close>, which is
    what \<open>is_Exception\<close> decides.
  \<^item> JSON-like values (a task, an event, a manifest) are \<open>pyval\<close>; a dictionary is the list of
    its items in insertion order, \<open>AList.update\<close> being Python's item assignment (an existing
    key keeps its position, a new one goes to the end).
  \<^item> Integers are \<open>int\<close> (Python's are unbounded). Floating-point numbers (times, scores,
    percentages) are \<open>rat\<close>: the arithmetic is exact and rounding is not modelled. The value NaN,
    which \<open>json.loads\<close> and \<open>float\<close> can give, is \<open>PNaN\<close>; it counts as no number, since no comparison
    with it holds, and the infinities are left out.
  \<^item> A string is a list of characters, for ASCII text.
\<close>

section \<open>Exceptions\<close>

datatype py_exn =
    ValueError string
  | TypeError string
  | RuntimeError string
  | PermissionError string
  | FileNotFoundError string
  | TimeoutError string
  | NamedError string string
  | RequestError string string bool
  | BaseException string

type_synonym 'a result = "py_exn + 'a"

text \<open>\<open>NamedError cls msg\<close> is an exception of the class named \<open>cls\<close> of the repository or of a
  library, \<open>RequestError cls msg retryable\<close> one of the repository's classes that say whether a retry may
  help; \<open>BaseException\<close> stands for \<open>KeyboardInterrupt\<close>, \<open>SystemExit\<close> and their like.\<close>

fun is_Exception :: "py_exn \<Rightarrow> bool" where
  "is_Exception (BaseException _) = False"
| "is_Exception _ = True"

text \<open>\<open>str(e)\<close>.\<close>

fun exn_text :: "py_exn \<Rightarrow> string" where
  "exn_text (ValueError m) = m"
| "exn_text (TypeError m) = m"
| "exn_text (RuntimeError m) = m"
| "exn_text (PermissionError m) = m"
| "exn_text (FileNotFoundError m) = m"
| "exn_text (TimeoutError m) = m"
| "exn_text (NamedError c m) = m"
| "exn_text (RequestError c m r) = m"
| "exn_text (BaseException m) = m"

section \<open>Values\<close>

datatype pyval =
    PNone
  | PBool bool
  | PInt int
  | PFloat rat
  | PNaN
  | PStr string
  | PList "pyval list"
  | PDict "(string \<times> pyval) list"

type_synonym pydict = "(string \<times> pyval) list"

text \<open>\<open>d.get(k)\<close>, \<open>d.get(k, default)\<close>, \<open>k in d\<close> and the truth value of an object.\<close>

definition dget :: "pydict \<Rightarrow> string \<Rightarrow> pyval" where
  "dget d k = (case map_of d k of None \<Rightarrow> PNone | Some v \<Rightarrow> v)"

definition dget_or :: "pydict \<Rightarrow> string \<Rightarrow> pyval \<Rightarrow> pyval" where
  "dget_or d k v = (case map_of d k of None \<Rightarrow> v | Some w \<Rightarrow> w)"

definition has_key :: "pydict \<Rightarrow> string \<Rightarrow> bool" where
  "has_key d k \<longleftrightarrow> map_of d k \<noteq> None"

fun truthy :: "pyval \<Rightarrow> bool" where
  "truthy PNone = False"
| "truthy (PBool b) = b"
| "truthy (PInt i) = (i \<noteq> 0)"
| "truthy (PFloat q) = (q \<noteq> 0)"
| "truthy PNaN = True"
| "truthy (PStr s) = (s \<noteq> [])"
| "truthy (PList xs) = (xs \<noteq> [])"
| "truthy (PDict d) = (d \<noteq> [])"

text \<open>\<open>a or b\<close>.\<close>

definition py_or :: "pyval \<Rightarrow> pyval \<Rightarrow> pyval" where
  "py_or a b = (if truthy a then a else b)"

section \<open>Strings\<close>

definition is_space :: "char \<Rightarrow> bool" where
  "is_space c = (let n = of_char c :: nat in (9 \<le> n \<and> n \<le> 13) \<or> (28 \<le> n \<and> n \<le> 32))"

definition strip :: "string \<Rightarrow> string" where
  "strip s = rev (dropWhile is_space (rev (dropWhile is_space s)))"

definition lower_char :: "char \<Rightarrow> char" where
  "lower_char c = (let n = of_char c :: nat in if 65 \<le> n \<and> n \<le> 90 then char_of (n + 32) else c)"

definition lower :: "string \<Rightarrow> string" where
  "lower s = map lower_char s"

definition replace_char :: "char \<Rightarrow> char \<Rightarrow> string \<Rightarrow> string" where
  "replace_char a b s = map (\<lambda>c. if c = a then b else c) s"

text \<open>\<open>s.rstrip(ch)\<close> for a one-character argument.\<close>

definition rstrip_char :: "char \<Rightarrow> string \<Rightarrow> string" where
  "rstrip_char a s = rev (dropWhile (\<lambda>c. c = a) (rev s))"

text \<open>\<open>s.find(p)\<close>: the index of the first occurrence; \<open>None\<close> is Python's \<open>-1\<close>.\<close>

fun find_sub :: "string \<Rightarrow> string \<Rightarrow> nat option" where
  "find_sub p [] = (if p = [] then Some 0 else None)"
| "find_sub p (c # s) = (if prefix p (c # s) then Some 0 else map_option Suc (find_sub p s))"

definition contains :: "string \<Rightarrow> string \<Rightarrow> bool" where
  "contains p s \<longleftrightarrow> find_sub p s \<noteq> None"

text \<open>\<open>s.split(ch)\<close> for a one-character separator: always at least one piece.\<close>

fun split_char :: "char \<Rightarrow> string \<Rightarrow> string list" where
  "split_char a [] = [[]]"
| "split_char a (c # s) =
     (if c = a then [] # split_char a s
      else case split_char a s of [] \<Rightarrow> [[c]] | w # ws \<Rightarrow> (c # w) # ws)"

fun join :: "string \<Rightarrow> string list \<Rightarrow> string" where
  "join sep [] = []"
| "join sep [w] = w"
| "join sep (w # ws) = w @ sep @ join sep ws"

section \<open>Numbers as text\<close>

definition digit_char :: "nat \<Rightarrow> char" where
  "digit_char n = char_of (48 + n)"

definition digit_val :: "char \<Rightarrow> nat option" where
  "digit_val c = (let n = of_char c :: nat in if 48 \<le> n \<and> n \<le> 57 then Some (n - 48) else None)"

fun show_nat :: "nat \<Rightarrow> string" where
  "show_nat n = (if n < 10 then [digit_char n] else show_nat (n div 10) @ [digit_char (n mod 10)])"

declare show_nat.simps [simp del]

definition show_int :: "int \<Rightarrow> string" where
  "show_int i = (if i < 0 then CHR ''-'' # show_nat (nat (- i)) else show_nat (nat i))"

text \<open>\<open>int(s)\<close>: surrounding white space, one sign, digits with single underscores between
  them; \<open>None\<close> is the \<open>ValueError\<close>.\<close>

fun parse_digits :: "nat \<Rightarrow> string \<Rightarrow> nat option" where
  "parse_digits acc [] = Some acc"
| "parse_digits acc [c] =
     (case digit_val c of Some v \<Rightarrow> Some (10 * acc + v) | None \<Rightarrow> None)"
| "parse_digits acc (c # d # cs) =
     (case digit_val c of
        Some v \<Rightarrow> parse_digits (10 * acc + v) (d # cs)
      | None \<Rightarrow> (if c = CHR ''_''
                 then (case digit_val d of Some v \<Rightarrow> parse_digits (10 * acc + v) cs | None \<Rightarrow> None)
                 else None))"

definition parse_nat :: "string \<Rightarrow> nat option" where
  "parse_nat s = (case s of [] \<Rightarrow> None
     | c # cs \<Rightarrow> (case digit_val c of Some v \<Rightarrow> parse_digits v cs | None \<Rightarrow> None))"

definition parse_int :: "string \<Rightarrow> int option" where
  "parse_int s = (case strip s of [] \<Rightarrow> None
     | c # cs \<Rightarrow> (if c = CHR ''-'' then map_option (\<lambda>n. - int n) (parse_nat cs)
                 else if c = CHR ''+'' then map_option int (parse_nat cs)
                 else map_option int (parse_nat (c # cs))))"

text \<open>The digits after the point of a float's printed form, at most 17 of them: the exact decimal
  expansion, which is what Python prints for a number with a short expansion of ordinary size.\<close>

fun frac_digits :: "nat \<Rightarrow> rat \<Rightarrow> string" where
  "frac_digits 0 q = []"
| "frac_digits (Suc n) q =
     (let d = nat \<lfloor>10 * q\<rfloor>; r = 10 * q - of_nat d
      in digit_char d # (if r = 0 then [] else frac_digits n r))"

definition show_rat :: "rat \<Rightarrow> string" where
  "show_rat q = (let a = \<bar>q\<bar>; i = nat \<lfloor>a\<rfloor>
     in (if q < 0 then ''-'' else []) @ show_nat i @ ''.'' @ frac_digits 17 (a - of_nat i))"

text \<open>\<open>round(x)\<close> and \<open>round(x, n)\<close>: to the nearest, a tie to the even neighbour.\<close>

definition round_half_even :: "rat \<Rightarrow> int" where
  "round_half_even q =
     (let f = \<lfloor>q\<rfloor>; r = q - of_int f
      in if r < 1 / 2 then f else if r > 1 / 2 then f + 1 else if even f then f else f + 1)"

definition round_to :: "nat \<Rightarrow> rat \<Rightarrow> rat" where
  "round_to n q = of_int (round_half_even (q * 10 ^ n)) / 10 ^ n"

text \<open>\<open>f"{q:.nf}"\<close>: exactly \<open>n\<close> digits after the point (\<open>n\<close> at least 1).\<close>

fun fixed_digits :: "nat \<Rightarrow> nat \<Rightarrow> string" where
  "fixed_digits 0 k = []"
| "fixed_digits (Suc n) k = fixed_digits n (k div 10) @ [digit_char (k mod 10)]"

definition show_fixed :: "nat \<Rightarrow> rat \<Rightarrow> string" where
  "show_fixed n q =
     (let k = nat (round_half_even (\<bar>q\<bar> * 10 ^ n))
      in (if q < 0 then ''-'' else []) @ show_nat (k div 10 ^ n) @ ''.'' @ fixed_digits n (k mod 10 ^ n))"

section \<open>Bounded queues and means\<close>

text \<open>\<open>append\<close> on a \<open>deque(maxlen=n)\<close>, and \<open>xs[-n:]\<close>.\<close>

definition last_n :: "nat \<Rightarrow> 'a list \<Rightarrow> 'a list" where
  "last_n n xs = drop (length xs - n) xs"

definition push_bounded :: "nat \<Rightarrow> 'a \<Rightarrow> 'a list \<Rightarrow> 'a list" where
  "push_bounded n x xs = last_n n (xs @ [x])"

text \<open>\<open>statistics.mean\<close> of a non-empty list.\<close>

definition mean :: "rat list \<Rightarrow> rat" where
  "mean xs = sum_list xs / of_nat (length xs)"

section \<open>str() and repr()\<close>

definition repr_char :: "char \<Rightarrow> char \<Rightarrow> string" where
  "repr_char q c =
     (let n = of_char c :: nat; hex = (\<lambda>k. if k < 10 then digit_char k else char_of (87 + k))
      in if c = q \<or> n = 92 then [char_of (92 :: nat), c]
         else if n = 10 then [char_of (92 :: nat), CHR ''n'']
         else if n = 13 then [char_of (92 :: nat), CHR ''r'']
         else if n = 9 then [char_of (92 :: nat), CHR ''t'']
         else if n < 32 \<or> n = 127
              then [char_of (92 :: nat), CHR ''x'', hex (n div 16), hex (n mod 16)]
         else [c])"

definition repr_str :: "string \<Rightarrow> string" where
  "repr_str s =
     (let sq = char_of (39 :: nat); dq = char_of (34 :: nat);
          q = (if sq \<in> set s \<and> dq \<notin> set s then dq else sq)
      in [q] @ concat (map (repr_char q) s) @ [q])"

fun py_repr :: "pyval \<Rightarrow> string" where
  "py_repr PNone = ''None''"
| "py_repr (PBool b) = (if b then ''True'' else ''False'')"
| "py_repr (PInt i) = show_int i"
| "py_repr (PFloat q) = show_rat q"
| "py_repr PNaN = ''nan''"
| "py_repr (PStr s) = repr_str s"
| "py_repr (PList xs) = ''['' @ join '', '' (map py_repr xs) @ '']''"
| "py_repr (PDict d) =
     ''{'' @ join '', '' (map (\<lambda>(k, v). repr_str k @ '': '' @ py_repr v) d) @ ''}''"

definition py_str :: "pyval \<Rightarrow> string" where
  "py_str v = (case v of PStr s \<Rightarrow> s | _ \<Rightarrow> py_repr v)"

definition quote_text :: "string \<Rightarrow> string" where
  "quote_text s = [char_of (39 :: nat)] @ s @ [char_of (39 :: nat)]"

text \<open>\<open>type(v).__name__\<close>, and \<open>int(v)\<close> of any value (a container raises \<open>TypeError\<close>).\<close>

fun type_name :: "pyval \<Rightarrow> string" where
  "type_name PNone = ''NoneType''"
| "type_name (PBool _) = ''bool''"
| "type_name (PInt _) = ''int''"
| "type_name (PFloat _) = ''float''"
| "type_name PNaN = ''float''"
| "type_name (PStr _) = ''str''"
| "type_name (PList _) = ''list''"
| "type_name (PDict _) = ''dict''"

fun py_int :: "pyval \<Rightarrow> int result" where
  "py_int (PBool b) = Inr (if b then 1 else 0)"
| "py_int (PInt i) = Inr i"
| "py_int (PFloat q) = Inr (if q < 0 then \<lceil>q\<rceil> else \<lfloor>q\<rfloor>)"
| "py_int PNaN = Inl (ValueError ''cannot convert float NaN to integer'')"
| "py_int (PStr s) = (case parse_int s of Some i \<Rightarrow> Inr i
     | None \<Rightarrow> Inl (ValueError (''invalid literal for int() with base 10: '' @ repr_str s)))"
| "py_int v = Inl (TypeError (''int() argument must be a string, a bytes-like object or a real number, not ''
     @ [char_of (39 :: nat)] @ type_name v @ [char_of (39 :: nat)]))"

section \<open>Calls to a server\<close>

text \<open>How a call to a remote server goes: it may fail before the server saw the command, or after
  the server executed it, when only the reply is lost.\<close>

datatype link = LinkOk | LinkDown | ReplyLost

text \<open>One round trip: the reply, if it arrives, and the server afterwards.\<close>

fun round_trip :: "link \<Rightarrow> ('r \<Rightarrow> 'a \<times> 'r) \<Rightarrow> 'r \<Rightarrow> 'a option \<times> 'r" where
  "round_trip LinkOk f r = (let (b, r') = f r in (Some b, r'))"
| "round_trip LinkDown f r = (None, r)"
| "round_trip ReplyLost f r = (None, snd (f r))"

text \<open>The number a value counts as in arithmetic and comparisons, if it is one.\<close>

fun number_of :: "pyval \<Rightarrow> rat option" where
  "number_of (PBool b) = Some (if b then 1 else 0)"
| "number_of (PInt i) = Some (of_int i)"
| "number_of (PFloat q) = Some q"
| "number_of _ = None"

section \<open>Facts about dictionaries as lists\<close>

lemma set_alist_update: "x \<in> set (AList.update k v xs) \<Longrightarrow> x = (k, v) \<or> x \<in> set xs"
  by (induction xs) (auto split: if_splits)

lemma set_alist_delete: "set (AList.delete k xs) \<subseteq> set xs"
  by (auto simp: AList.delete_eq)

section \<open>Facts about sorting by a key\<close>

lemma insort_key_map: "insort_key f (g x) (map g xs) = map g (insort_key (\<lambda>y. f (g y)) x xs)"
  by (induction xs) auto

lemma sort_key_map: "sort_key f (map g xs) = map g (sort_key (\<lambda>y. f (g y)) xs)"
  by (induction xs) (simp_all add: insort_key_map comp_def)

lemma insort_key_cong_on:
  "(\<And>y. y \<in> insert x (set xs) \<Longrightarrow> f y = g y) \<Longrightarrow> insort_key f x xs = insort_key g x xs"
  by (induction xs) auto

lemma sort_key_cong_on: "(\<And>x. x \<in> set xs \<Longrightarrow> f x = g x) \<Longrightarrow> sort_key f xs = sort_key g xs"
proof (induction xs)
  case (Cons x xs)
  then have "insort_key f x (sort_key g xs) = insort_key g x (sort_key g xs)"
    by (intro insort_key_cong_on) simp
  with Cons show ?case by simp
qed simp

section \<open>Facts about strings and numbers\<close>

lemma of_char_of_nat [simp]: "n < 256 \<Longrightarrow> (of_char (char_of n) :: nat) = n"
  by (simp add: of_char_of)

lemma strip_Nil [simp]: "strip [] = []"
  by (simp add: strip_def)

lemma strip_id: "s \<noteq> [] \<Longrightarrow> \<not> is_space (hd s) \<Longrightarrow> \<not> is_space (last s) \<Longrightarrow> strip s = s"
proof -
  assume a: "s \<noteq> []" "\<not> is_space (hd s)" "\<not> is_space (last s)"
  then have "dropWhile is_space s = s" by (cases s) auto
  moreover from a have "dropWhile is_space (rev s) = rev s"
    by (cases "rev s") (auto simp: last_rev hd_rev[symmetric] split: if_splits)
  ultimately show ?thesis by (simp add: strip_def)
qed

lemma dropWhile_hd: "dropWhile P s \<noteq> [] \<Longrightarrow> \<not> P (hd (dropWhile P s))"
  by (induction s) auto

lemma strip_last: "strip s \<noteq> [] \<Longrightarrow> \<not> is_space (last (strip s))"
  unfolding strip_def by (simp add: last_rev dropWhile_hd)

lemma strip_hd: "strip s \<noteq> [] \<Longrightarrow> \<not> is_space (hd (strip s))"
proof -
  assume n: "strip s \<noteq> []"
  let ?t = "dropWhile is_space s"
  let ?u = "takeWhile is_space (rev ?t)"
  have split: "?t = strip s @ rev ?u"
    unfolding strip_def by (metis rev_append rev_rev_ident takeWhile_dropWhile_id)
  with n have "hd (strip s) = hd ?t" and "?t \<noteq> []" by (metis hd_append2, metis Nil_is_append_conv)
  then show ?thesis by (simp add: dropWhile_hd)
qed

lemma strip_strip [simp]: "strip (strip s) = strip s"
proof (cases "strip s = []")
  case True
  then show ?thesis by simp
next
  case False
  then show ?thesis by (intro strip_id strip_hd strip_last)
qed

lemma digit_val_digit_char [simp]: "n < 10 \<Longrightarrow> digit_val (digit_char n) = Some n"
  by (simp add: digit_val_def digit_char_def)

lemma digit_val_not_space: "digit_val c = Some v \<Longrightarrow> \<not> is_space c"
  by (auto simp: digit_val_def is_space_def Let_def split: if_splits)

lemma digit_val_not_sign: "digit_val c = Some v \<Longrightarrow> c \<noteq> CHR ''-'' \<and> c \<noteq> CHR ''+''"
  by (auto simp: digit_val_def Let_def split: if_splits)

definition digits_value :: "nat \<Rightarrow> string \<Rightarrow> nat" where
  "digits_value acc s = foldl (\<lambda>a c. 10 * a + the (digit_val c)) acc s"

lemma parse_digits_value:
  "\<forall>c\<in>set s. digit_val c \<noteq> None \<Longrightarrow> parse_digits acc s = Some (digits_value acc s)"
  by (induction acc s rule: parse_digits.induct) (auto simp: digits_value_def)

lemma show_nat_digits: "\<forall>c\<in>set (show_nat n). digit_val c \<noteq> None"
proof (induction n rule: show_nat.induct)
  case (1 n)
  then show ?case by (cases "n < 10") (auto simp: show_nat.simps [of n])
qed

lemma show_nat_nonempty [simp]: "show_nat n \<noteq> []"
  by (subst show_nat.simps) simp

lemma digits_value_show_nat: "digits_value 0 (show_nat n) = n"
proof (induction n rule: show_nat.induct)
  case (1 n)
  then show ?case
    by (cases "n < 10") (simp_all add: show_nat.simps [of n] digits_value_def)
qed

lemma parse_nat_show_nat [simp]: "parse_nat (show_nat n) = Some n"
proof -
  obtain c cs where s: "show_nat n = c # cs" by (cases "show_nat n") auto
  from show_nat_digits [of n] obtain v where v: "digit_val c = Some v" and
    cs: "\<forall>c\<in>set cs. digit_val c \<noteq> None" by (auto simp: s)
  have "digits_value v cs = n"
    using digits_value_show_nat [of n] by (simp add: s digits_value_def v)
  then show ?thesis by (simp add: parse_nat_def s v parse_digits_value [OF cs])
qed

lemma show_nat_ends:
  "\<not> is_space (hd (show_nat n)) \<and> \<not> is_space (last (show_nat n)) \<and>
   hd (show_nat n) \<noteq> CHR ''-'' \<and> hd (show_nat n) \<noteq> CHR ''+''"
proof -
  have "hd (show_nat n) \<in> set (show_nat n)" "last (show_nat n) \<in> set (show_nat n)" by simp_all
  then show ?thesis
    using show_nat_digits [of n] by (metis not_None_eq digit_val_not_space digit_val_not_sign)
qed

text \<open>Printing an integer and reading it back is the identity.\<close>

lemma parse_int_show_int [simp]: "parse_int (show_int i) = Some i"
proof (cases "i < 0")
  case True
  have "strip (show_int i) = show_int i"
    using True show_nat_ends [of "nat (- i)"]
    by (intro strip_id) (auto simp: show_int_def is_space_def)
  then show ?thesis using True by (simp add: parse_int_def show_int_def)
next
  case False
  have "strip (show_int i) = show_int i"
    using False show_nat_ends [of "nat i"] by (intro strip_id) (auto simp: show_int_def)
  moreover obtain c cs where "show_nat (nat i) = c # cs" by (cases "show_nat (nat i)") auto
  ultimately show ?thesis
    using False show_nat_ends [of "nat i"] parse_nat_show_nat [of "nat i"]
    by (simp add: parse_int_def show_int_def)
qed

section \<open>Facts about substrings\<close>

lemma split_char_single: "c \<notin> set w \<Longrightarrow> split_char c w = [w]"
  by (induction w) auto

lemma split_char_append: "c \<notin> set w \<Longrightarrow> split_char c (w @ c # s) = w # split_char c s"
  by (induction w) auto

lemma split_char_join:
  "ws \<noteq> [] \<Longrightarrow> \<forall>w\<in>set ws. c \<notin> set w \<Longrightarrow> split_char c (join [c] ws) = ws"
proof (induction ws)
  case (Cons w ws)
  then show ?case
    by (cases ws) (auto simp: split_char_single split_char_append)
qed simp

lemma split_char_nonempty [simp]: "split_char c s \<noteq> []"
  by (cases s) (auto split: list.splits)

lemma split_char_sep: "split_char c (a @ c # b) = split_char c a @ split_char c b"
proof (induction a)
  case (Cons x a)
  then show ?case by (cases "split_char c a") auto
qed simp

lemma find_sub_Some:
  "find_sub p s = Some i \<Longrightarrow> \<exists>u v. s = u @ p @ v \<and> length u = i"
proof (induction p s arbitrary: i rule: find_sub.induct)
  case (1 p)
  then show ?case by (auto split: if_splits)
next
  case (2 p c s)
  show ?case
  proof (cases "prefix p (c # s)")
    case True
    with 2 show ?thesis by (auto simp: prefix_def)
  next
    case False
    with 2 obtain j where j: "find_sub p s = Some j" "i = Suc j" by auto
    with 2(1)[OF False] obtain u v where "s = u @ p @ v" "length u = j" by blast
    with j show ?thesis by (intro exI [of _ "c # u"] exI [of _ v]) auto
  qed
qed

lemma find_sub_occurs: "find_sub p (u @ p @ v) \<noteq> None"
proof (induction u)
  case Nil
  have "prefix p (p @ v)" by simp
  then show ?case by (cases "p @ v") (simp_all del: append_eq_Cons_conv)
qed auto

lemma contains_iff: "contains p s \<longleftrightarrow> (\<exists>u v. s = u @ p @ v)"
  using find_sub_Some find_sub_occurs unfolding contains_def by blast

lemma contains_self [simp]: "contains p p"
  using contains_iff [of p p] by (metis append_Nil append_Nil2)

lemma contains_append: "contains p s \<Longrightarrow> contains p (a @ s @ b)"
  unfolding contains_iff by (metis append.assoc)

lemma lower_Nil [simp]: "lower [] = []"
  by (simp add: lower_def)

lemma lower_append [simp]: "lower (s @ t) = lower s @ lower t"
  by (simp add: lower_def)

lemma lower_char_idem [simp]: "lower_char (lower_char c) = lower_char c"
  by (simp add: lower_char_def Let_def)

lemma lower_lower [simp]: "lower (lower s) = lower s"
  by (simp add: lower_def)

lemma is_space_lower_char [simp]: "is_space (lower_char c) = is_space c"
  by (simp add: is_space_def lower_char_def Let_def)

lemma strip_lower: "strip (lower s) = lower (strip s)"
  by (simp add: strip_def lower_def dropWhile_map rev_map comp_def)

section \<open>Facts about dictionaries and sorting\<close>

lemma dget_update [simp]:
  "dget (AList.update k v d) k' = (if k' = k then v else dget d k')"
  by (simp add: dget_def update_conv')

lemma has_key_iff: "has_key d k \<longleftrightarrow> k \<in> fst ` set d"
  by (auto simp: has_key_def map_of_eq_None_iff)

text \<open>Python's sort is stable, with or without \<open>reverse=True\<close>; so is \<open>sort_key\<close>, on the key
  or on its negation.\<close>

definition sort_desc :: "('a \<Rightarrow> rat) \<Rightarrow> 'a list \<Rightarrow> 'a list" where
  "sort_desc f xs = sort_key (\<lambda>x. - f x) xs"

lemma mset_sort_desc [simp]: "mset (sort_desc f xs) = mset xs"
  by (simp add: sort_desc_def)

lemma set_sort_desc [simp]: "set (sort_desc f xs) = set xs"
  by (simp add: sort_desc_def)

lemma length_sort_desc [simp]: "length (sort_desc f xs) = length xs"
  by (simp add: sort_desc_def)

lemma sort_desc_sorted: "sorted_wrt (\<lambda>x y. f y \<le> f x) (sort_desc f xs)"
proof -
  have "sorted (map (\<lambda>x. - f x) (sort_desc f xs))"
    unfolding sort_desc_def by (rule sorted_sort_key)
  then show ?thesis by (simp add: sorted_wrt_map)
qed

text \<open>\<open>max(items, key=f)\<close> keeps the first of the items with the largest key.\<close>

fun max_by :: "('a \<Rightarrow> 'b::linorder) \<Rightarrow> 'a \<Rightarrow> 'a list \<Rightarrow> 'a" where
  "max_by f best [] = best"
| "max_by f best (x # xs) = max_by f (if f best < f x then x else best) xs"

lemma max_by_in: "max_by f best xs \<in> insert best (set xs)"
  by (induction xs arbitrary: best) auto

lemma max_by_ge: "y \<in> insert best (set xs) \<Longrightarrow> f y \<le> f (max_by f best xs)"
proof (induction xs arbitrary: best y)
  case (Cons x xs)
  let ?b = "if f best < f x then x else best"
  have "f best \<le> f ?b" "f x \<le> f ?b" by auto
  moreover have "f ?b \<le> f (max_by f ?b xs)" by (rule Cons.IH) simp
  moreover from Cons.prems consider "y = best" | "y = x" | "y \<in> set xs" by auto
  ultimately show ?case by cases (auto intro: order_trans Cons.IH)
qed simp

text \<open>\<open>min(items, key=f)\<close> keeps the first of the items with the smallest key.\<close>

fun min_by :: "('a \<Rightarrow> 'b::linorder) \<Rightarrow> 'a \<Rightarrow> 'a list \<Rightarrow> 'a" where
  "min_by f best [] = best"
| "min_by f best (x # xs) = min_by f (if f x < f best then x else best) xs"

lemma min_by_in: "min_by f best xs \<in> insert best (set xs)"
  by (induction xs arbitrary: best) auto

lemma min_by_le: "y \<in> insert best (set xs) \<Longrightarrow> f (min_by f best xs) \<le> f y"
proof (induction xs arbitrary: best y)
  case (Cons x xs)
  let ?b = "if f x < f best then x else best"
  have "f ?b \<le> f best" "f ?b \<le> f x" by auto
  moreover have "f (min_by f ?b xs) \<le> f ?b" by (rule Cons.IH) simp
  moreover from Cons.prems consider "y = best" | "y = x" | "y \<in> set xs" by auto
  ultimately show ?case by cases (auto intro: order_trans Cons.IH)
qed simp

end
