(* ===== verification/Circuit_Breaker.thy ===== *)
theory Circuit_Breaker
  imports Prelude
begin

text \<open>
  The circuit breaker of \<open>utils/circuit_breaker.py\<close> and the table of breakers, one for each
  plugin, of \<open>plugins/runtime.py\<close>.

  Each method that takes the lock is one step on the breaker's record. A reading of
  \<open>monotonic()\<close> is an argument. \<open>breaker_step\<close> lets the steps of any number of threads
  interleave: an operation is admitted, and later reports its success or its failure, with
  steps of other threads in between.
\<close>

section \<open>The breaker\<close>

datatype breaker_status = Closed | Open | HalfOpen

record breaker =
  cb_name :: string
  failure_threshold :: int
  recovery_timeout :: rat
  status :: breaker_status
  failure_count :: int
  opened_at :: rat

definition new_breaker :: "string \<Rightarrow> int \<Rightarrow> rat \<Rightarrow> breaker" where
  "new_breaker name threshold timeout =
     \<lparr>cb_name = (let n = strip name in if n = [] then ''default'' else n),
      failure_threshold = max 1 threshold,
      recovery_timeout = max 1 timeout,
      status = Closed, failure_count = 0, opened_at = 0\<rparr>"

definition open_error :: "breaker \<Rightarrow> py_exn" where
  "open_error b = NamedError ''CircuitBreakerOpenError'' (''circuit breaker open: '' @ cb_name b)"

definition before_call :: "rat \<Rightarrow> breaker \<Rightarrow> breaker result" where
  "before_call now b =
     (if status b \<noteq> Open then Inr b
      else if now - opened_at b \<ge> recovery_timeout b then Inr (b\<lparr>status := HalfOpen\<rparr>)
      else Inl (open_error b))"

definition after_success :: "breaker \<Rightarrow> breaker" where
  "after_success b = b\<lparr>status := Closed, failure_count := 0, opened_at := 0\<rparr>"

definition after_failure :: "rat \<Rightarrow> breaker \<Rightarrow> breaker" where
  "after_failure now b =
     (let b' = b\<lparr>failure_count := failure_count b + 1\<rparr>
      in if status b' = HalfOpen \<or> failure_count b' \<ge> failure_threshold b'
         then b'\<lparr>status := Open, opened_at := now\<rparr> else b')"

text \<open>\<open>call\<close>: \<open>t0\<close> is the clock when the call is admitted, \<open>t1\<close> when its failure is recorded.
  The operation returns its outcome and the breaker as it finds it when it ends, after what
  other threads did to it meanwhile. Only an \<open>Exception\<close> counts as a failure.\<close>

definition call ::
  "rat \<Rightarrow> rat \<Rightarrow> (breaker \<Rightarrow> 'a result \<times> breaker) \<Rightarrow> breaker \<Rightarrow> 'a result \<times> breaker" where
  "call t0 t1 operation b =
     (case before_call t0 b of
        Inl e \<Rightarrow> (Inl e, b)
      | Inr b1 \<Rightarrow>
          (case operation b1 of
             (Inl e, b2) \<Rightarrow> (Inl e, if is_Exception e then after_failure t1 b2 else b2)
           | (Inr v, b2) \<Rightarrow> (Inr v, after_success b2)))"

fun status_text :: "breaker_status \<Rightarrow> string" where
  "status_text Closed = ''closed''"
| "status_text Open = ''open''"
| "status_text HalfOpen = ''half_open''"

definition breaker_state :: "breaker \<Rightarrow> pydict" where
  "breaker_state b =
     [(''name'', PStr (cb_name b)),
      (''status'', PStr (status_text (status b))),
      (''failureCount'', PInt (failure_count b)),
      (''openedAt'', py_or (PFloat (opened_at b)) PNone)]"

section \<open>The table of plugin breakers\<close>

record runtime_manager =
  rt_threshold :: int
  rt_timeout :: rat
  breakers :: "string \<rightharpoonup> breaker"

text \<open>The environment variables are arguments; \<open>to_float\<close> is Python's \<open>float()\<close> on text.\<close>

definition resolve_failure_threshold :: "int option \<Rightarrow> string \<Rightarrow> int" where
  "resolve_failure_threshold value env =
     (case value of Some v \<Rightarrow> max 1 v
      | None \<Rightarrow> (let raw = strip env in
          if raw = [] then 3
          else case parse_int raw of Some n \<Rightarrow> max 1 n | None \<Rightarrow> 3))"

definition resolve_recovery_timeout ::
  "(string \<Rightarrow> rat option) \<Rightarrow> rat option \<Rightarrow> string \<Rightarrow> rat" where
  "resolve_recovery_timeout to_float value env =
     (case value of Some v \<Rightarrow> max 1 v
      | None \<Rightarrow> (let raw = strip env in
          if raw = [] then 30
          else case to_float raw of Some q \<Rightarrow> max 1 q | None \<Rightarrow> 30))"

definition new_runtime_manager ::
  "(string \<Rightarrow> rat option) \<Rightarrow> int option \<Rightarrow> rat option \<Rightarrow> string \<Rightarrow> string \<Rightarrow> runtime_manager" where
  "new_runtime_manager to_float threshold timeout env_threshold env_timeout =
     \<lparr>rt_threshold = resolve_failure_threshold threshold env_threshold,
      rt_timeout = resolve_recovery_timeout to_float timeout env_timeout,
      breakers = Map.empty\<rparr>"

definition safe_plugin_id :: "string \<Rightarrow> string" where
  "safe_plugin_id plugin_id = (let s = strip plugin_id in if s = [] then ''unknown-plugin'' else s)"

definition get_breaker :: "runtime_manager \<Rightarrow> string \<Rightarrow> breaker \<times> runtime_manager" where
  "get_breaker m plugin_id =
     (let k = safe_plugin_id plugin_id in
      case breakers m k of
        Some b \<Rightarrow> (b, m)
      | None \<Rightarrow>
          (let b = new_breaker (''plugin:'' @ k) (rt_threshold m) (rt_timeout m)
           in (b, m\<lparr>breakers := (breakers m)(k \<mapsto> b)\<rparr>)))"

text \<open>The table holds the breaker object itself: what \<open>call\<close> does to it is seen in the table.\<close>

definition execute ::
  "rat \<Rightarrow> rat \<Rightarrow> string \<Rightarrow> (breaker \<Rightarrow> 'a result \<times> breaker) \<Rightarrow> runtime_manager
    \<Rightarrow> 'a result \<times> runtime_manager" where
  "execute t0 t1 plugin_id operation m =
     (let (b, m1) = get_breaker m plugin_id; (r, b') = call t0 t1 operation b
      in (r, m1\<lparr>breakers := (breakers m1)(safe_plugin_id plugin_id \<mapsto> b')\<rparr>))"

definition plugin_state :: "runtime_manager \<Rightarrow> string \<Rightarrow> pydict \<times> runtime_manager" where
  "plugin_state m plugin_id =
     (let (b, m1) = get_breaker m plugin_id
      in (AList.update ''recoveryTimeoutSeconds'' (PFloat (rt_timeout m1))
           (AList.update ''failureThreshold'' (PInt (rt_threshold m1))
             (AList.update ''pluginId'' (PStr plugin_id) (breaker_state b))), m1))"

section \<open>The breaker's invariant and its steps\<close>

definition breaker_ok :: "breaker \<Rightarrow> bool" where
  "breaker_ok b \<longleftrightarrow> 1 \<le> failure_threshold b \<and> 1 \<le> recovery_timeout b \<and> 0 \<le> failure_count b \<and>
     (status b = Closed \<longleftrightarrow> failure_count b < failure_threshold b)"

lemma new_breaker_ok: "breaker_ok (new_breaker name n t)"
  by (simp add: breaker_ok_def new_breaker_def)

lemma before_call_ok: "breaker_ok b \<Longrightarrow> before_call t b = Inr b' \<Longrightarrow> breaker_ok b'"
  by (auto simp: breaker_ok_def before_call_def split: if_splits)

lemma after_success_ok: "breaker_ok b \<Longrightarrow> breaker_ok (after_success b)"
  by (simp add: breaker_ok_def after_success_def)

lemma after_failure_ok: "breaker_ok b \<Longrightarrow> breaker_ok (after_failure t b)"
  by (auto simp: breaker_ok_def after_failure_def Let_def)

lemmas breaker_ok_intros = new_breaker_ok before_call_ok after_success_ok after_failure_ok

lemma call_ok:
  assumes "breaker_ok b" and "\<And>b1. breaker_ok b1 \<Longrightarrow> breaker_ok (snd (operation b1))"
  shows "breaker_ok (snd (call t0 t1 operation b))"
proof (cases "before_call t0 b")
  case (Inl e)
  with assms show ?thesis by (simp add: call_def)
next
  case (Inr b1)
  with assms have "breaker_ok (snd (operation b1))" by (blast intro: before_call_ok)
  with Inr show ?thesis
    by (auto simp: call_def split: prod.splits sum.splits intro: breaker_ok_intros)
qed

inductive breaker_step :: "breaker \<Rightarrow> breaker \<Rightarrow> bool" where
  admit: "before_call now b = Inr b' \<Longrightarrow> breaker_step b b'"
| success: "breaker_step b (after_success b)"
| failure: "breaker_step b (after_failure now b)"

inductive breaker_reachable :: "breaker \<Rightarrow> bool" where
  init: "breaker_reachable (new_breaker name threshold timeout)"
| step: "breaker_reachable b \<Longrightarrow> breaker_step b b' \<Longrightarrow> breaker_reachable b'"

inductive_cases breaker_stepE: "breaker_step b b'"

lemma breaker_reachable_ok: "breaker_reachable b \<Longrightarrow> breaker_ok b"
  by (induction rule: breaker_reachable.induct)
    (auto intro: breaker_ok_intros elim: breaker_stepE)

section \<open>The contract between a table and its guarded objects\<close>

text \<open>What a table that creates its entries on demand needs of them: a fresh entry is good and a
  use of an entry keeps it good. The table stays good then, whichever entries are used.\<close>

locale guarded_entry =
  fixes make :: "string \<Rightarrow> 'b"
    and use_entry :: "'b \<Rightarrow> 'b"
    and good :: "'b \<Rightarrow> bool"
  assumes make_good: "good (make k)"
    and use_good: "good b \<Longrightarrow> good (use_entry b)"
begin

lemma table_good:
  assumes "\<forall>b\<in>ran tbl. good b"
  shows "\<forall>b\<in>ran (tbl(k \<mapsto> use_entry (case tbl k of Some b \<Rightarrow> b | None \<Rightarrow> make k))). good b"
  using assms make_good use_good
  by (auto simp: ran_def split: option.splits if_splits)

lemma table_created_good:
  "\<forall>b\<in>ran tbl. good b \<Longrightarrow> \<forall>b\<in>ran (tbl(k \<mapsto> make k)). good b"
  using make_good by (auto simp: ran_def)

end

definition runtime_ok :: "runtime_manager \<Rightarrow> bool" where
  "runtime_ok m \<longleftrightarrow> (\<forall>b\<in>ran (breakers m). breaker_ok b)"

definition returning :: "'a result \<Rightarrow> breaker \<Rightarrow> 'a result \<times> breaker" where
  "returning r b = (r, b)"

interpretation plugin_breaker: guarded_entry
  "\<lambda>k. new_breaker (''plugin:'' @ k) n t" "\<lambda>b. snd (call t0 t1 (returning r) b)" breaker_ok
  by unfold_locales (auto intro: new_breaker_ok call_ok simp: returning_def)

lemma execute_breakers:
  "breakers (snd (execute t0 t1 p operation m)) =
     (breakers m)(safe_plugin_id p \<mapsto> snd (call t0 t1 operation
        (case breakers m (safe_plugin_id p) of Some b \<Rightarrow> b
         | None \<Rightarrow> new_breaker (''plugin:'' @ safe_plugin_id p) (rt_threshold m) (rt_timeout m))))"
  by (auto simp: execute_def get_breaker_def Let_def split: option.splits prod.splits)

lemma execute_settings [simp]:
  "rt_threshold (snd (execute t0 t1 p operation m)) = rt_threshold m"
  "rt_timeout (snd (execute t0 t1 p operation m)) = rt_timeout m"
  by (auto simp: execute_def get_breaker_def Let_def split: option.splits prod.splits)

lemma execute_runtime_ok:
  "runtime_ok m \<Longrightarrow> runtime_ok (snd (execute t0 t1 p (returning r) m))"
  unfolding runtime_ok_def execute_breakers by (rule plugin_breaker.table_good)

section \<open>Properties\<close>

lemma after_failure_fields [simp]:
  "cb_name (after_failure t b) = cb_name b"
  "failure_threshold (after_failure t b) = failure_threshold b"
  "recovery_timeout (after_failure t b) = recovery_timeout b"
  "failure_count (after_failure t b) = failure_count b + 1"
  by (simp_all add: after_failure_def Let_def)

text \<open>Calls made one after the other: the clock when a call is admitted and when its end is recorded, and the
  outcome of its operation.\<close>

definition run_calls :: "(rat \<times> rat \<times> 'a result) list \<Rightarrow> breaker \<Rightarrow> breaker" where
  "run_calls calls b = fold (\<lambda>(t0, t1, r). snd \<circ> call t0 t1 (returning r)) calls b"

text \<open>The failures since the last success; an exception that is no \<open>Exception\<close> counts as neither.\<close>

definition failures_since_success :: "'a result list \<Rightarrow> nat" where
  "failures_since_success rs =
     length (takeWhile (\<lambda>r. case r of Inl e \<Rightarrow> True | Inr v \<Rightarrow> False)
       (rev (filter (\<lambda>r. case r of Inl e \<Rightarrow> is_Exception e | Inr v \<Rightarrow> True) rs)))"

lemma failures_since_success_simps [simp]:
  "failures_since_success [] = 0"
  "failures_since_success (rs @ [Inr v]) = 0"
  "failures_since_success (rs @ [Inl e]) = (if is_Exception e then Suc (failures_since_success rs) else failures_since_success rs)"
  by (simp_all add: failures_since_success_def)

definition outcomes :: "(rat \<times> rat \<times> 'a result) list \<Rightarrow> 'a result list" where
  "outcomes calls = map (\<lambda>(t0, t1, r). r) calls"

lemma calls_snoc:
  "run_calls (calls @ [(t0, t1, r)]) b = snd (call t0 t1 (returning r) (run_calls calls b))"
  "outcomes (calls @ [(t0, t1, r)]) = outcomes calls @ [r]"
  by (simp_all add: run_calls_def outcomes_def)

text \<open>The breaker that has admitted every call so far.\<close>

definition counting :: "int \<Rightarrow> rat \<Rightarrow> nat \<Rightarrow> breaker \<Rightarrow> bool" where
  "counting n timeout k b \<longleftrightarrow> status b = Closed \<and> failure_count b = int k \<and> failure_threshold b = n \<and>
     recovery_timeout b = timeout \<and> int k < n"

lemma counting_new: "counting (max 1 n) (max 1 timeout) 0 (new_breaker name n timeout)"
  by (simp add: counting_def new_breaker_def)

text \<open>One call on such a breaker.\<close>

lemma counting_call:
  assumes "counting n timeout (failures_since_success rs) b"
    and "b' = snd (call t0 t1 (returning r) b)"
  shows "if int (failures_since_success (rs @ [r])) < n
    then counting n timeout (failures_since_success (rs @ [r])) b'
    else status b' = Open \<and> opened_at b' = t1 \<and> failure_count b' = n \<and> recovery_timeout b' = timeout"
  using assms
  by (cases r) (auto simp: counting_def call_def before_call_def returning_def after_success_def after_failure_def Let_def)

lemma run_calls_counting:
  assumes "\<And>k. k \<le> length calls \<Longrightarrow> int (failures_since_success (outcomes (take k calls))) < max 1 n"
  shows "counting (max 1 n) (max 1 timeout) (failures_since_success (outcomes calls))
    (run_calls calls (new_breaker name n timeout))"
  using assms
proof (induction calls rule: rev_induct)
  case Nil
  then show ?case by (simp add: run_calls_def outcomes_def counting_new)
next
  case (snoc c calls)
  obtain t0 t1 r where c: "c = (t0, t1, r)" by (cases c)
  have "int (failures_since_success (outcomes (take k calls))) < max 1 n" if "k \<le> length calls" for k
    using snoc.prems [of k] that by simp
  from counting_call [OF snoc.IH [OF this] refl, where r = r and ?t0.0 = t0 and ?t1.0 = t1] snoc.prems [of "length (calls @ [c])"]
  show ?case by (simp add: c calls_snoc)
qed

text \<open>C25. A fresh breaker, called again and again with any outcomes at any times, trips exactly when the failures
  in a row reach its threshold (at least one). As long as no run of failures has reached it, the breaker is closed,
  counts the failures since the last success and admits every call. With the call that completes such a run it
  opens at the time this failure is recorded; from then on it rejects every call until the recovery time has
  passed, and then lets one through as a probe. A success in between starts the count again.\<close>

theorem breaker_trips_at_threshold:
  assumes "\<forall>k<length calls. int (failures_since_success (outcomes (take k calls))) < max 1 n"
    and "b = run_calls calls (new_breaker name n timeout)"
  shows "if int (failures_since_success (outcomes calls)) < max 1 n
    then status b = Closed \<and> failure_count b = int (failures_since_success (outcomes calls)) \<and> (\<forall>t. before_call t b = Inr b)
    else status b = Open \<and> failure_count b = max 1 n \<and> opened_at b = (case last calls of (t0, t1, r) \<Rightarrow> t1) \<and>
      (\<forall>t. before_call t b = (if t - opened_at b < max 1 timeout then Inl (open_error b) else Inr (b\<lparr>status := HalfOpen\<rparr>)))"
proof (cases calls rule: rev_cases)
  case Nil
  then show ?thesis
    using assms(2) counting_new [of n timeout name] by (simp add: run_calls_def outcomes_def counting_def before_call_def)
next
  case (snoc before c)
  obtain t0 t1 r where c: "c = (t0, t1, r)" by (cases c)
  have "int (failures_since_success (outcomes (take k before))) < max 1 n" if "k \<le> length before" for k
    using assms(1) that snoc by (auto dest!: spec [of _ k])
  from counting_call [OF run_calls_counting [OF this, of timeout name] refl, where r = r and ?t0.0 = t0 and ?t1.0 = t1]
  show ?thesis
    using assms(2) unfolding snoc c calls_snoc(1) [symmetric]
    by (simp add: counting_def before_call_def calls_snoc(2) not_less del: max.bounded_iff max_less_iff_conj split: if_splits)
qed

definition sample_outcomes :: "(rat \<times> rat \<times> unit result) list" where
  "sample_outcomes = [(0, 1, Inl (ValueError ''x'')), (2, 3, Inr ()), (4, 5, Inl (ValueError ''x'')), (6, 7, Inl (ValueError ''x''))]"

lemma breaker_trips_at_threshold_witness:
  "status (run_calls (take 3 sample_outcomes) (new_breaker ''b'' 2 30)) = Closed \<and>
   failure_count (run_calls (take 3 sample_outcomes) (new_breaker ''b'' 2 30)) = 1 \<and>
   status (run_calls sample_outcomes (new_breaker ''b'' 2 30)) = Open \<and>
   opened_at (run_calls sample_outcomes (new_breaker ''b'' 2 30)) = 7"
proof -
  have small: "failures_since_success (outcomes (take k sample_outcomes)) \<le> 1" if "k < 4" for k
  proof -
    have "k = 0 \<or> k = 1 \<or> k = 2 \<or> k = 3" using that by auto
    then show ?thesis by (auto simp: sample_outcomes_def outcomes_def failures_since_success_def numeral_eq_Suc)
  qed
  have counts: "failures_since_success (outcomes sample_outcomes) = 2" "failures_since_success (outcomes (take 3 sample_outcomes)) = 1"
    and len: "length sample_outcomes = 4"
    by (simp_all add: sample_outcomes_def outcomes_def failures_since_success_def numeral_eq_Suc)
  have "\<forall>k<length sample_outcomes. int (failures_since_success (outcomes (take k sample_outcomes))) < max 1 2"
    "\<forall>k<length (take 3 sample_outcomes). int (failures_since_success (outcomes (take k (take 3 sample_outcomes)))) < max 1 2"
    using small [THEN le_imp_less_Suc] by (auto simp: len take_take min_def numeral_2_eq_2)
  from this [THEN breaker_trips_at_threshold, OF refl, of "''b''" 30] show ?thesis
    by (simp add: counts) (simp add: sample_outcomes_def)
qed

text \<open>In every state that interleaved admissions, successes and failures of any number of
  threads can reach, the breaker is closed exactly while the failure count is below the
  threshold, so the count alone already says whether the next failure opens it.\<close>

theorem breaker_reachable_status:
  assumes "breaker_reachable b"
  shows "(status b = Closed \<longleftrightarrow> failure_count b < failure_threshold b) \<and>
    (status (after_failure t b) = Open \<longleftrightarrow> failure_threshold b \<le> failure_count b + 1)"
  using breaker_reachable_ok [OF assms]
  by (cases "status b") (auto simp: breaker_ok_def after_failure_def Let_def)

text \<open>A call whose operation fails and leaves the breaker open starts the recovery time:
  every call admitted before it has passed is rejected with \<open>CircuitBreakerOpenError\<close>, its
  operation not run and the breaker untouched; the first call after it is a probe, whose
  success closes the breaker with a zero count and whose failure opens it again at once.\<close>

theorem open_breaker_rejects_then_probes:
  fixes b b1 b' :: breaker and op2 :: "breaker \<Rightarrow> 'a result \<times> breaker"
  assumes "is_Exception e" "before_call t0 b = Inr b1"
    and b': "b' = snd (call t0 t1 (returning (Inl e :: 'b result)) b)" "status b' = Open"
  shows "if t - t1 < recovery_timeout b
     then call t t' op2 b' = (Inl (open_error b), b')
     else (let b2 = snd (call t t' (returning (Inr v :: 'a result)) b')
             in status b2 = Closed \<and> failure_count b2 = 0) \<and>
          (is_Exception e2 \<longrightarrow>
            (let b2 = snd (call t t' (returning (Inl e2 :: 'a result)) b')
             in status b2 = Open \<and> opened_at b2 = t'))"
proof -
  have same: "cb_name b1 = cb_name b" "recovery_timeout b1 = recovery_timeout b" "status b1 \<noteq> Open"
    using assms(2) by (auto simp: before_call_def split: if_splits)
  have eq: "b' = after_failure t1 b1"
    using assms(1-3) by (simp add: call_def returning_def)
  then have fields: "opened_at b' = t1" "cb_name b' = cb_name b"
      "recovery_timeout b' = recovery_timeout b"
    using b'(2) same by (auto simp: after_failure_def Let_def split: if_splits)
  show ?thesis
    using fields b'(2)
    by (simp add: call_def before_call_def open_error_def returning_def after_success_def
        after_failure_def Let_def)
qed

text \<open>Runs of the plugin table: each entry is a plugin, the two clock readings of its call and
  the outcome of its operation.\<close>

definition run_plugins ::
  "(string \<times> rat \<times> rat \<times> 'a result) list \<Rightarrow> runtime_manager \<Rightarrow> runtime_manager" where
  "run_plugins calls m = fold (\<lambda>(p, t0, t1, r). snd \<circ> execute t0 t1 p (returning r)) calls m"

lemma run_plugins_ok: "runtime_ok m \<Longrightarrow> runtime_ok (run_plugins calls m)"
  unfolding run_plugins_def
  by (induction calls arbitrary: m) (auto simp: execute_runtime_ok)

lemma run_plugins_frame:
  assumes "\<forall>(p, _)\<in>set calls. safe_plugin_id p \<noteq> safe_plugin_id q"
  shows "breakers (run_plugins calls m) (safe_plugin_id q) = breakers m (safe_plugin_id q) \<and>
    rt_threshold (run_plugins calls m) = rt_threshold m \<and>
    rt_timeout (run_plugins calls m) = rt_timeout m"
  using assms unfolding run_plugins_def
  by (induction calls arbitrary: m) (auto simp: execute_breakers)

text \<open>Plugins are isolated from each other: whatever any number of calls of other plugins
  did, a call of plugin \<open>q\<close> has the outcome, and leaves \<open>q\<close>'s breaker in the state, that it
  would have had without them. Two ids are the same plugin when they agree after stripping.\<close>

theorem plugin_breakers_isolated:
  assumes "\<forall>(p, _)\<in>set calls. safe_plugin_id p \<noteq> safe_plugin_id q"
  shows "fst (execute t0 t1 q operation (run_plugins calls m)) = fst (execute t0 t1 q operation m) \<and>
    breakers (snd (execute t0 t1 q operation (run_plugins calls m))) (safe_plugin_id q) =
    breakers (snd (execute t0 t1 q operation m)) (safe_plugin_id q)"
  using run_plugins_frame [OF assms, of m]
  by (auto simp: execute_def get_breaker_def Let_def split: option.splits prod.splits)

end
