(* ===== verification/Task_Lock.thy ===== *)
theory Task_Lock
  imports Prelude
begin

text \<open>
  The task lock of \<open>orchestrator/distributed_lock.py\<close>: leases in a table shared by the locks of
  one process (\<open>_LOCAL_LEASES\<close>), or on a Redis server.

  \<^item> A reading of \<open>time()\<close> and the random token of \<open>uuid4()\<close> are arguments. Each block under the
    lock is one step.
  \<^item> Redis is a parameter: \<open>lock_server\<close> collects the four commands the code and its Lua scripts
    use. \<open>link\<close> says how the round trip of one call goes: it may fail before the server saw the
    command, or after the server executed it, when only the reply is lost.
\<close>

section \<open>The process-local leases\<close>

type_synonym leases = "string \<rightharpoonup> string \<times> rat"

definition acquire_local :: "int \<Rightarrow> rat \<Rightarrow> string \<Rightarrow> string \<Rightarrow> leases \<Rightarrow> bool \<times> leases" where
  "acquire_local lease_seconds now key token store =
     (let expires_at = now + of_int lease_seconds in
      case store key of
        Some (t, e) \<Rightarrow> (if e > now then (False, store) else (True, store(key \<mapsto> (token, expires_at))))
      | None \<Rightarrow> (True, store(key \<mapsto> (token, expires_at))))"

definition renew_local :: "int \<Rightarrow> rat \<Rightarrow> string \<Rightarrow> string \<Rightarrow> leases \<Rightarrow> bool \<times> leases" where
  "renew_local lease_seconds now key token store =
     (case store key of
        None \<Rightarrow> (False, store)
      | Some (t, e) \<Rightarrow> (if t \<noteq> token then (False, store)
                       else (True, store(key \<mapsto> (token, now + of_int lease_seconds)))))"

definition release_local :: "string \<Rightarrow> string \<Rightarrow> leases \<Rightarrow> bool \<times> leases" where
  "release_local key token store =
     (case store key of
        None \<Rightarrow> (False, store)
      | Some (t, e) \<Rightarrow> (if t \<noteq> token then (False, store) else (True, store(key := None))))"

section \<open>The Redis side\<close>

record 'r lock_server =
  cmd_set_nx :: "string \<Rightarrow> string \<Rightarrow> int \<Rightarrow> 'r \<Rightarrow> bool \<times> 'r"
  cmd_get :: "string \<Rightarrow> 'r \<Rightarrow> string option"
  cmd_expire :: "string \<Rightarrow> int \<Rightarrow> 'r \<Rightarrow> bool \<times> 'r"
  cmd_del :: "string \<Rightarrow> 'r \<Rightarrow> bool \<times> 'r"

text \<open>The two Lua scripts: act only when the key holds the caller's token.\<close>

definition renew_script :: "'r lock_server \<Rightarrow> string \<Rightarrow> string \<Rightarrow> int \<Rightarrow> 'r \<Rightarrow> bool \<times> 'r" where
  "renew_script srv key token ttl r =
     (if cmd_get srv key r = Some token then cmd_expire srv key ttl r else (False, r))"

definition release_script :: "'r lock_server \<Rightarrow> string \<Rightarrow> string \<Rightarrow> 'r \<Rightarrow> bool \<times> 'r" where
  "release_script srv key token r =
     (if cmd_get srv key r = Some token then cmd_del srv key r else (False, r))"

section \<open>The lock object\<close>

record task_lock =
  lk_namespace :: string
  lease_seconds :: int
  renew_interval :: int
  redis_enabled :: bool

text \<open>\<open>__init__\<close>: \<open>env\<close> is the value of \<open>MVP_DISTRIBUTED_LOCK_BACKEND\<close> or its default. \<open>given\<close>
  says whether a client was passed in, \<open>connects\<close> whether connecting and \<open>ping()\<close> succeed,
  \<open>registers\<close> whether the two scripts can be registered.\<close>

definition normalized_backend :: "string option \<Rightarrow> string \<Rightarrow> string" where
  "normalized_backend backend env =
     (let raw = (case backend of Some b \<Rightarrow> if b = [] then env else b | None \<Rightarrow> env);
          s = lower (strip raw)
      in if s = [] then ''memory'' else s)"

definition init_redis :: "string \<Rightarrow> bool \<Rightarrow> bool \<Rightarrow> bool \<Rightarrow> bool" where
  "init_redis backend given connects registers =
     (if backend \<noteq> ''redis'' then False
      else if \<not> given \<and> \<not> connects then False
      else registers)"

definition new_task_lock ::
  "string option \<Rightarrow> string \<Rightarrow> string \<Rightarrow> int \<Rightarrow> int \<Rightarrow> bool \<Rightarrow> bool \<Rightarrow> bool \<Rightarrow> task_lock" where
  "new_task_lock backend env ns lease renewal given connects registers =
     (let ls = max 5 lease in
      \<lparr>lk_namespace = (let s = strip ns in if s = [] then ''autocode:tasklock'' else s),
       lease_seconds = ls,
       renew_interval = max 2 (min renewal (ls - 1)),
       redis_enabled = init_redis (normalized_backend backend env) given connects registers\<rparr>)"

definition lock_key :: "task_lock \<Rightarrow> string \<Rightarrow> string" where
  "lock_key lk task_id = lk_namespace lk @ '':'' @ strip task_id"

text \<open>What a call works on: the lock object, the process's leases and the server.\<close>

record 'r lock_world =
  lw_lock :: task_lock
  lw_leases :: leases
  lw_server :: 'r

definition lift_local :: "(leases \<Rightarrow> bool \<times> leases) \<Rightarrow> 'r lock_world \<Rightarrow> bool \<times> 'r lock_world" where
  "lift_local f w = (let (b, s) = f (lw_leases w) in (b, w\<lparr>lw_leases := s\<rparr>))"

definition acquire_redis ::
  "'r lock_server \<Rightarrow> link \<Rightarrow> rat \<Rightarrow> string \<Rightarrow> string \<Rightarrow> 'r lock_world \<Rightarrow> bool \<times> 'r lock_world" where
  "acquire_redis srv l now key token w =
     (let ls = lease_seconds (lw_lock w) in
      case round_trip l (cmd_set_nx srv key token ls) (lw_server w) of
        (Some b, r) \<Rightarrow> (b, w\<lparr>lw_server := r\<rparr>)
      | (None, r) \<Rightarrow>
          lift_local (acquire_local ls now key token)
            (w\<lparr>lw_server := r, lw_lock := (lw_lock w)\<lparr>redis_enabled := False\<rparr>\<rparr>))"

definition renew_redis ::
  "'r lock_server \<Rightarrow> link \<Rightarrow> string \<Rightarrow> string \<Rightarrow> 'r lock_world \<Rightarrow> bool \<times> 'r lock_world" where
  "renew_redis srv l key token w =
     (case round_trip l (renew_script srv key token (lease_seconds (lw_lock w))) (lw_server w) of
        (Some b, r) \<Rightarrow> (b, w\<lparr>lw_server := r\<rparr>)
      | (None, r) \<Rightarrow> (False, w\<lparr>lw_server := r\<rparr>))"

definition release_redis ::
  "'r lock_server \<Rightarrow> link \<Rightarrow> string \<Rightarrow> string \<Rightarrow> 'r lock_world \<Rightarrow> bool \<times> 'r lock_world" where
  "release_redis srv l key token w =
     (case round_trip l (release_script srv key token) (lw_server w) of
        (Some b, r) \<Rightarrow> (b, w\<lparr>lw_server := r\<rparr>)
      | (None, r) \<Rightarrow> (False, w\<lparr>lw_server := r\<rparr>))"

definition renew_lease ::
  "'r lock_server \<Rightarrow> link \<Rightarrow> rat \<Rightarrow> string \<Rightarrow> string \<Rightarrow> 'r lock_world \<Rightarrow> bool \<times> 'r lock_world" where
  "renew_lease srv l now key token w =
     (if redis_enabled (lw_lock w) then renew_redis srv l key token w
      else lift_local (renew_local (lease_seconds (lw_lock w)) now key token) w)"

definition release_lease ::
  "'r lock_server \<Rightarrow> link \<Rightarrow> string \<Rightarrow> string \<Rightarrow> 'r lock_world \<Rightarrow> bool \<times> 'r lock_world" where
  "release_lease srv l key token w =
     (if redis_enabled (lw_lock w) then release_redis srv l key token w
      else lift_local (release_local key token) w)"

section \<open>Leases handed to the caller\<close>

datatype renewal = NoRenewal | Renewing | RenewalStopped

record task_lease =
  tl_key :: string
  tl_token :: string
  tl_acquired :: bool
  tl_renewal :: renewal

definition start_renewal :: "task_lease \<Rightarrow> task_lease" where
  "start_renewal l =
     (if \<not> tl_acquired l \<or> tl_renewal l \<noteq> NoRenewal then l else l\<lparr>tl_renewal := Renewing\<rparr>)"

definition acquire_lease ::
  "'r lock_server \<Rightarrow> link \<Rightarrow> rat \<Rightarrow> string \<Rightarrow> string \<Rightarrow> 'r lock_world \<Rightarrow> task_lease \<times> 'r lock_world" where
  "acquire_lease srv l now token task_id w =
     (let key = lock_key (lw_lock w) task_id;
          (ok, w') = (if redis_enabled (lw_lock w) then acquire_redis srv l now key token w
                      else lift_local (acquire_local (lease_seconds (lw_lock w)) now key token) w);
          lease = \<lparr>tl_key = key, tl_token = token, tl_acquired = ok, tl_renewal = NoRenewal\<rparr>
      in (if ok then start_renewal lease else lease, w'))"

text \<open>One round of the renewal thread: it stops once \<open>release\<close> has set the event. (\<open>renew\<close>
  returns \<open>False\<close> when the lease is lost, and the thread goes on.)\<close>

definition renewal_tick ::
  "'r lock_server \<Rightarrow> link \<Rightarrow> rat \<Rightarrow> task_lease \<Rightarrow> 'r lock_world \<Rightarrow> 'r lock_world" where
  "renewal_tick srv l now lease w =
     (if tl_renewal lease = Renewing
      then snd (renew_lease srv l now (tl_key lease) (tl_token lease) w) else w)"

definition task_lease_release ::
  "'r lock_server \<Rightarrow> link \<Rightarrow> task_lease \<Rightarrow> 'r lock_world \<Rightarrow> task_lease \<times> 'r lock_world" where
  "task_lease_release srv l lease w =
     (let lease' = (if tl_renewal lease \<noteq> NoRenewal then lease\<lparr>tl_renewal := RenewalStopped\<rparr> else lease)
      in if tl_acquired lease'
         then (lease'\<lparr>tl_acquired := False\<rparr>, snd (release_lease srv l (tl_key lease) (tl_token lease) w))
         else (lease', w))"

section \<open>The contract of a lease store\<close>

text \<open>\<open>held s k a t\<close>: at time \<open>t\<close> the store \<open>s\<close> shows an unexpired lease of \<open>k\<close> under token \<open>a\<close>.\<close>

datatype lease_op = OpAcquire string string int | OpRenew string string int | OpRelease string string

fun op_token :: "lease_op \<Rightarrow> string" where
  "op_token (OpAcquire k a ls) = a"
| "op_token (OpRenew k a ls) = a"
| "op_token (OpRelease k a) = a"

fun lease_op_step ::
  "(int \<Rightarrow> rat \<Rightarrow> string \<Rightarrow> string \<Rightarrow> 's \<Rightarrow> bool \<times> 's) \<Rightarrow>
   (int \<Rightarrow> rat \<Rightarrow> string \<Rightarrow> string \<Rightarrow> 's \<Rightarrow> bool \<times> 's) \<Rightarrow>
   (string \<Rightarrow> string \<Rightarrow> 's \<Rightarrow> bool \<times> 's) \<Rightarrow> rat \<times> lease_op \<Rightarrow> 's \<Rightarrow> 's" where
  "lease_op_step acq ren rel (t, OpAcquire k a ls) s = snd (acq ls t k a s)"
| "lease_op_step acq ren rel (t, OpRenew k a ls) s = snd (ren ls t k a s)"
| "lease_op_step acq ren rel (t, OpRelease k a) s = snd (rel k a s)"

locale lease_store =
  fixes acquire :: "int \<Rightarrow> rat \<Rightarrow> string \<Rightarrow> string \<Rightarrow> 's \<Rightarrow> bool \<times> 's"
    and renew :: "int \<Rightarrow> rat \<Rightarrow> string \<Rightarrow> string \<Rightarrow> 's \<Rightarrow> bool \<times> 's"
    and release :: "string \<Rightarrow> string \<Rightarrow> 's \<Rightarrow> bool \<times> 's"
    and held :: "'s \<Rightarrow> string \<Rightarrow> string \<Rightarrow> rat \<Rightarrow> bool"
  assumes acquire_grants: "fst (acquire ls t k a s) \<Longrightarrow> t' < t + of_int ls \<Longrightarrow> held (snd (acquire ls t k a s)) k a t'"
    and acquire_refused: "held s k a t \<Longrightarrow> \<not> fst (acquire ls t k b s)"
    and renew_granted: "held s k a t \<Longrightarrow> fst (renew ls t k a s)"
    and held_earlier: "held s k a t' \<Longrightarrow> t \<le> t' \<Longrightarrow> held s k a t"
    and acquire_frame: "held s k a e \<Longrightarrow> t \<le> e \<Longrightarrow> held (snd (acquire ls t k' b s)) k a e"
    and renew_frame: "held s k a e \<Longrightarrow> b \<noteq> a \<Longrightarrow> held (snd (renew ls t k' b s)) k a e"
    and release_frame: "held s k a e \<Longrightarrow> b \<noteq> a \<Longrightarrow> held (snd (release k' b s)) k a e"
begin

lemma held_run:
  assumes "held s k a e" "\<forall>(t, x)\<in>set ops. t \<le> e \<and> op_token x \<noteq> a"
  shows "held (fold (lease_op_step acquire renew release) ops s) k a e"
  using assms
proof (induction ops arbitrary: s)
  case (Cons tx ops)
  obtain t x where tx: "tx = (t, x)" by (cases tx)
  with Cons.prems have "held (lease_op_step acquire renew release (t, x) s) k a e"
    by (cases x) (auto intro: acquire_frame renew_frame release_frame)
  with Cons tx show ?case by simp
qed simp

lemma exclusive:
  assumes "fst (acquire ls t0 k a s)" "t < t0 + of_int ls"
    and "\<forall>(u, x)\<in>set ops. u \<le> t \<and> op_token x \<noteq> a"
  defines "s' \<equiv> fold (lease_op_step acquire renew release) ops (snd (acquire ls t0 k a s))"
  shows "\<not> fst (acquire ls' t k b s') \<and> fst (renew ls' t k a s')"
proof -
  have "held s' k a t"
    unfolding s'_def using assms by (intro held_run acquire_grants) auto
  then show ?thesis by (blast intro: renew_granted dest: acquire_refused)
qed

end

definition local_held :: "leases \<Rightarrow> string \<Rightarrow> string \<Rightarrow> rat \<Rightarrow> bool" where
  "local_held s k a t \<longleftrightarrow> (\<exists>e. s k = Some (a, e) \<and> t < e)"

lemmas local_ops = acquire_local_def renew_local_def release_local_def

interpretation local_leases: lease_store acquire_local renew_local release_local local_held
  by unfold_locales
    (auto simp: local_ops local_held_def Let_def split: option.splits prod.splits if_splits)

section \<open>Workers competing for leases\<close>

text \<open>The clock, the leases and, for each key and token, the expiry its holder was last granted.
  Any worker may call any operation at any time, each with a lease time of its own.\<close>

inductive lease_run :: "rat \<Rightarrow> leases \<Rightarrow> (string \<times> string \<rightharpoonup> rat) \<Rightarrow> bool" where
  start: "lease_run t Map.empty Map.empty"
| tick: "lease_run t s g \<Longrightarrow> t \<le> t' \<Longrightarrow> lease_run t' s g"
| acquire: "lease_run t s g \<Longrightarrow> acquire_local ls t k a s = (ok, s') \<Longrightarrow>
     lease_run t s' (if ok then g((k, a) \<mapsto> t + of_int ls) else g)"
| renew: "lease_run t s g \<Longrightarrow> renew_local ls t k a s = (ok, s') \<Longrightarrow>
     lease_run t s' (if ok then g((k, a) \<mapsto> t + of_int ls) else g)"
| release: "lease_run t s g \<Longrightarrow> release_local k a s = (ok, s') \<Longrightarrow>
     lease_run t s' (g((k, a) := None))"

lemma lease_run_table:
  "lease_run t s g \<Longrightarrow> g (k, a) = Some e \<Longrightarrow> t < e \<Longrightarrow> s k = Some (a, e)"
proof (induction arbitrary: k a e rule: lease_run.induct)
  case (tick t s g t')
  then show ?case by (meson le_less_trans)
next
  case (acquire t s g ls k' b ok s')
  then show ?case
    by (fastforce simp: acquire_local_def Let_def split: option.splits prod.splits if_splits)
next
  case (renew t s g ls k' b ok s')
  then show ?case
    by (fastforce simp: renew_local_def split: option.splits prod.splits if_splits)
next
  case (release t s g k' b ok s')
  then show ?case
    by (fastforce simp: release_local_def split: option.splits prod.splits if_splits)
qed simp

section \<open>Properties\<close>

text \<open>C38. Mutual exclusion: however the workers of a process interleave acquiring, renewing and
  releasing, at no time do two of them hold an unexpired grant of the same key.\<close>

theorem lease_mutual_exclusion:
  assumes "lease_run t s g"
    and "g (k, a) = Some ea" "t < ea" and "g (k, b) = Some eb" "t < eb"
  shows "a = b"
  using lease_run_table [OF assms(1-3)] lease_run_table [OF assms(1,4,5)] by simp

lemma lease_mutual_exclusion_witness:
  "\<exists>s g. lease_run 0 s g \<and> g (''k'', ''w1'') = Some 60 \<and> g (''k'', ''w2'') \<noteq> Some 60"
proof -
  have a: "acquire_local 60 0 ''k'' ''w1'' Map.empty = (True, [''k'' \<mapsto> (''w1'', 60)])"
    by (simp add: acquire_local_def)
  have r: "lease_run 0 [''k'' \<mapsto> (''w1'', 60)] [(''k'', ''w1'') \<mapsto> 60]"
    using lease_run.acquire [OF lease_run.start a] by simp
  have g: "[(''k'', ''w1'') \<mapsto> 60 :: rat] (''k'', ''w1'') = Some 60" "(0 :: rat) < 60" by simp_all
  have "[(''k'', ''w1'') \<mapsto> 60 :: rat] (''k'', ''w2'') \<noteq> Some 60"
    using lease_mutual_exclusion [OF r g, of "''w2''" 60] by auto
  with r g(1) show ?thesis by blast
qed

text \<open>Once a worker is granted a lease, then until its lease time has passed, and whatever
  the other workers do meanwhile, every other acquisition of the key fails and its own renewal
  succeeds.\<close>

theorem lease_exclusive_until_expiry:
  assumes "fst (acquire_local ls t0 k a s)" "t < t0 + of_int ls"
    and "\<forall>(u, x)\<in>set ops. u \<le> t \<and> op_token x \<noteq> a"
  defines "s' \<equiv> fold (lease_op_step acquire_local renew_local release_local) ops
      (snd (acquire_local ls t0 k a s))"
  shows "\<not> fst (acquire_local ls' t k b s') \<and> fst (renew_local ls' t k a s')"
  unfolding s'_def using assms(1-3) by (rule local_leases.exclusive)

text \<open>Renewal: rounds of one renewal interval, each with the operations of others before its
  tick.\<close>

fun renewal_rounds ::
  "int \<Rightarrow> rat \<Rightarrow> rat \<Rightarrow> string \<Rightarrow> string \<Rightarrow> (rat \<times> lease_op) list list \<Rightarrow> leases \<Rightarrow> leases" where
  "renewal_rounds ls iv t k a [] s = s"
| "renewal_rounds ls iv t k a (ops # rounds) s =
     renewal_rounds ls iv (t + iv) k a rounds
       (snd (renew_local ls (t + iv) k a
          (fold (lease_op_step acquire_local renew_local release_local) ops s)))"

fun rounds_by_others :: "rat \<Rightarrow> rat \<Rightarrow> string \<Rightarrow> (rat \<times> lease_op) list list \<Rightarrow> bool" where
  "rounds_by_others iv t a [] \<longleftrightarrow> True"
| "rounds_by_others iv t a (ops # rounds) \<longleftrightarrow>
     (\<forall>(u, x)\<in>set ops. u \<le> t + iv \<and> op_token x \<noteq> a) \<and> rounds_by_others iv (t + iv) a rounds"

lemma new_task_lock_times:
  "5 \<le> lease_seconds (new_task_lock be env ns lease renewal gv cn rg) \<and>
   2 \<le> renew_interval (new_task_lock be env ns lease renewal gv cn rg) \<and>
   renew_interval (new_task_lock be env ns lease renewal gv cn rg)
     < lease_seconds (new_task_lock be env ns lease renewal gv cn rg)"
  by (auto simp: new_task_lock_def Let_def)

lemma renewal_rounds_held:
  assumes "iv < of_int ls" "rounds_by_others iv t a rounds"
    and "\<And>e. e < t + of_int ls \<Longrightarrow> local_held s k a e"
    and "e < t + of_nat (length rounds) * iv + of_int ls"
  shows "local_held (renewal_rounds ls iv t k a rounds s) k a e"
  using assms(2-)
proof (induction rounds arbitrary: t s)
  case (Cons ops rounds)
  let ?s1 = "fold (lease_op_step acquire_local renew_local release_local) ops s"
  have "local_held ?s1 k a (t + iv)"
    using assms(1) Cons.prems by (intro local_leases.held_run) auto
  then obtain e1 where "?s1 k = Some (a, e1)" by (auto simp: local_held_def)
  then have "\<And>e. e < t + iv + of_int ls \<Longrightarrow> local_held (snd (renew_local ls (t + iv) k a ?s1)) k a e"
    by (simp add: renew_local_def local_held_def)
  with Cons show ?case by (simp add: algebra_simps)
qed simp

text \<open>A lease that is renewed at the configured interval is never lost: for every lock that
  can be constructed, after any number of renewal rounds with any operations of other workers
  in between, the lease is still held for a whole lease time after the last renewal.\<close>

theorem renewal_keeps_lease:
  assumes "lk = new_task_lock be env ns lease renewal gv cn rg"
    and "fst (acquire_local (lease_seconds lk) t0 k a s)"
    and "rounds_by_others (of_int (renew_interval lk)) t0 a rounds"
    and "e < t0 + of_nat (length rounds) * of_int (renew_interval lk) + of_int (lease_seconds lk)"
  shows "local_held (renewal_rounds (lease_seconds lk) (of_int (renew_interval lk)) t0 k a rounds
      (snd (acquire_local (lease_seconds lk) t0 k a s))) k a e"
proof (rule renewal_rounds_held [OF _ assms(3) _ assms(4)])
  show "(of_int (renew_interval lk) :: rat) < of_int (lease_seconds lk)"
    using new_task_lock_times assms(1) by simp
  show "local_held (snd (acquire_local (lease_seconds lk) t0 k a s)) k a e"
    if "e < t0 + of_int (lease_seconds lk)" for e
    using local_leases.acquire_grants assms(2) that by blast
qed

text \<open>When the round trip that acquires a lease on Redis fails, the lock grants the lease
  from the process-local table instead, whoever holds the key on the server; and releasing it
  leaves the server as it is, also when the server had executed the command and only the reply
  was lost, so the key then stays taken there until it expires.\<close>

theorem redis_failure_grants_locally:
  fixes w :: "'r lock_world" and srv :: "'r lock_server"
  assumes "redis_enabled (lw_lock w)" "l \<noteq> LinkOk"
    and "lw_leases w (lock_key (lw_lock w) task_id) = None"
  shows "(case acquire_lease srv l now token task_id w of (lease, w1) \<Rightarrow>
     tl_acquired lease \<and> \<not> redis_enabled (lw_lock w1) \<and>
     lw_server (snd (task_lease_release srv l' lease w1)) =
       (if l = ReplyLost
        then snd (cmd_set_nx srv (lock_key (lw_lock w) task_id) token (lease_seconds (lw_lock w)) (lw_server w))
        else lw_server w))"
  using assms
  by (cases l)
    (simp_all add: acquire_lease_def acquire_redis_def lift_local_def acquire_local_def Let_def
      start_renewal_def task_lease_release_def release_lease_def release_local_def)

end
