(* ===== verification/Dag_Scheduler.thy ===== *)
theory Dag_Scheduler
  imports Prelude
begin

text \<open>
  The scheduler of \<open>orchestrator/dag_scheduler.py\<close>: nodes run in waves, each wave the nodes
  whose dependencies are completed.

  A node's \<open>run\<close> is the outcome it has when it is called. \<open>done_of ready\<close> is what \<open>wait(...,
  FIRST_EXCEPTION)\<close> returns for a wave, in the order the loop meets it: some of the submitted
  futures. The waves are returned beside the result, as the trace of what was submitted to the
  pool. (The number of workers of the pool bounds how much of a wave runs at once, and
  nothing else.)
\<close>

record 'a dag_node =
  node_name :: string
  node_run :: "'a result"
  depends_on :: "string list"

text \<open>The two checks before anything runs.\<close>

fun index_nodes ::
  "(string \<rightharpoonup> 'a dag_node) \<Rightarrow> 'a dag_node list \<Rightarrow> (string \<rightharpoonup> 'a dag_node) result" where
  "index_nodes by_name [] = Inr by_name"
| "index_nodes by_name (n # ns) =
     (if by_name (node_name n) \<noteq> None
      then Inl (ValueError (''duplicate DAG node name: '' @ node_name n))
      else index_nodes (by_name(node_name n \<mapsto> n)) ns)"

definition check_node :: "(string \<rightharpoonup> 'a dag_node) \<Rightarrow> 'a dag_node \<Rightarrow> py_exn option" where
  "check_node by_name n =
     (case find (\<lambda>d. by_name d = None) (depends_on n) of
        None \<Rightarrow> None
      | Some d \<Rightarrow> Some (ValueError (''DAG node '' @ node_name n @ '' depends on missing node: '' @ d)))"

fun check_deps :: "(string \<rightharpoonup> 'a dag_node) \<Rightarrow> 'a dag_node list \<Rightarrow> py_exn option" where
  "check_deps by_name [] = None"
| "check_deps by_name (n # ns) =
     (case check_node by_name n of Some e \<Rightarrow> Some e | None \<Rightarrow> check_deps by_name ns)"

text \<open>One wave. Among the futures that are done a failure is kept, a later one replacing an
  earlier one; without a failure there, the futures still pending are waited for.\<close>

definition failed_node :: "string \<Rightarrow> py_exn" where
  "failed_node n = RuntimeError (''DAG node failed: '' @ n)"

fun collect_done ::
  "(string \<Rightarrow> 'a result) \<Rightarrow> string list \<Rightarrow> (string \<rightharpoonup> 'a) \<Rightarrow> string option
    \<Rightarrow> (string \<rightharpoonup> 'a) \<times> string option" where
  "collect_done run [] results first_error = (results, first_error)"
| "collect_done run (n # ns) results first_error =
     (case run n of
        Inr v \<Rightarrow> collect_done run ns (results(n \<mapsto> v)) first_error
      | Inl e \<Rightarrow> collect_done run ns results (Some n))"

fun collect_pending ::
  "(string \<Rightarrow> 'a result) \<Rightarrow> string list \<Rightarrow> (string \<rightharpoonup> 'a) \<Rightarrow> (string \<rightharpoonup> 'a) result" where
  "collect_pending run [] results = Inr results"
| "collect_pending run (n # ns) results =
     (case run n of
        Inr v \<Rightarrow> collect_pending run ns (results(n \<mapsto> v))
      | Inl e \<Rightarrow> Inl (failed_node n))"

definition run_wave ::
  "(string list \<Rightarrow> string list) \<Rightarrow> (string \<Rightarrow> 'a result) \<Rightarrow> string list \<Rightarrow> (string \<rightharpoonup> 'a)
    \<Rightarrow> (string \<rightharpoonup> 'a) result" where
  "run_wave done_of run ready results =
     (let d = done_of ready in
      case collect_done run d results None of
        (res, Some n) \<Rightarrow> Inl (failed_node n)
      | (res, None) \<Rightarrow> collect_pending run (filter (\<lambda>n. n \<notin> set d) ready) res)"

definition ready_nodes :: "(string \<Rightarrow> string list) \<Rightarrow> string list \<Rightarrow> string list \<Rightarrow> string list" where
  "ready_nodes deps completed remaining =
     filter (\<lambda>n. list_all (\<lambda>d. d \<in> set completed) (deps n)) (sort remaining)"

definition cycle_error :: "string list \<Rightarrow> py_exn" where
  "cycle_error remaining =
     ValueError (''DAG has cycle or unresolved dependency among: '' @ join '','' (sort remaining))"

lemma ready_nodes_set:
  "set (ready_nodes deps completed remaining) = {n \<in> set remaining. set (deps n) \<subseteq> set completed}"
  by (auto simp: ready_nodes_def list_all_iff)

function dag_loop ::
  "(string list \<Rightarrow> string list) \<Rightarrow> (string \<Rightarrow> string list) \<Rightarrow> (string \<Rightarrow> 'a result)
    \<Rightarrow> string list \<Rightarrow> string list \<Rightarrow> (string \<rightharpoonup> 'a)
    \<Rightarrow> string list list \<times> (string \<rightharpoonup> 'a) result" where
  "dag_loop done_of deps run completed remaining results =
     (if remaining = [] then ([], Inr results)
      else
        let ready = ready_nodes deps completed remaining in
        if ready = [] then
          ([], Inl (cycle_error remaining))
        else
          case run_wave done_of run ready results of
            Inl e \<Rightarrow> ([ready], Inl e)
          | Inr res \<Rightarrow>
              let (waves, r) = dag_loop done_of deps run (completed @ ready)
                     (filter (\<lambda>n. n \<notin> set ready) remaining) res
              in (ready # waves, r))"
  by pat_completeness auto

termination
proof (relation "measure (\<lambda>(done_of, deps, run, completed, remaining, results). length remaining)", simp)
  fix done_of :: "string list \<Rightarrow> string list" and deps and run :: "string \<Rightarrow> 'a result"
    and completed remaining ready :: "string list" and results res :: "string \<rightharpoonup> 'a"
  assume r: "ready = ready_nodes deps completed remaining" "ready \<noteq> []"
  then obtain n where "n \<in> set ready" using hd_in_set by blast
  with r have "n \<in> set remaining" by (auto simp: ready_nodes_set)
  with \<open>n \<in> set ready\<close> have "length (filter (\<lambda>n. n \<notin> set ready) remaining) < length remaining"
    by (intro length_filter_less) auto
  then show "((done_of, deps, run, completed @ ready, filter (\<lambda>n. n \<notin> set ready) remaining, res),
        (done_of, deps, run, completed, remaining, results))
       \<in> measure (\<lambda>(done_of, deps, run, completed, remaining, results). length remaining)"
    by simp
qed

declare dag_loop.simps [simp del]

definition node_deps :: "(string \<rightharpoonup> 'a dag_node) \<Rightarrow> string \<Rightarrow> string list" where
  "node_deps by_name n = (case by_name n of Some nd \<Rightarrow> depends_on nd | None \<Rightarrow> [])"

definition node_outcome :: "(string \<rightharpoonup> 'a dag_node) \<Rightarrow> string \<Rightarrow> 'a result" where
  "node_outcome by_name n =
     (case by_name n of Some nd \<Rightarrow> node_run nd | None \<Rightarrow> Inl (NamedError ''KeyError'' n))"

text \<open>\<open>DagScheduler.run\<close>. The loop only ever looks up names of \<open>by_name\<close>.\<close>

definition dag_run ::
  "(string list \<Rightarrow> string list) \<Rightarrow> 'a dag_node list
    \<Rightarrow> string list list \<times> (string \<rightharpoonup> 'a) result" where
  "dag_run done_of nodes =
     (if nodes = [] then ([], Inr Map.empty)
      else case index_nodes Map.empty nodes of
        Inl e \<Rightarrow> ([], Inl e)
      | Inr by_name \<Rightarrow>
          (case check_deps by_name nodes of
             Some e \<Rightarrow> ([], Inl e)
           | None \<Rightarrow> dag_loop done_of (node_deps by_name) (node_outcome by_name)
                       [] (map node_name nodes) Map.empty))"

section \<open>Facts about the checks and one wave\<close>

lemma index_nodes_Inr:
  assumes "index_nodes m ns = Inr m'"
  shows "distinct (map node_name ns) \<and> (\<forall>n\<in>set ns. m (node_name n) = None) \<and>
    (\<forall>k. m' k = (case map_of (map (\<lambda>n. (node_name n, n)) ns) k of Some n \<Rightarrow> Some n | None \<Rightarrow> m k))"
  using assms
proof (induction ns arbitrary: m)
  case (Cons n ns)
  then have m: "m (node_name n) = None" and "index_nodes (m(node_name n \<mapsto> n)) ns = Inr m'"
    by (auto split: if_splits)
  from Cons.IH [OF this(2)]
  have d: "distinct (map node_name ns)"
    and fresh: "\<forall>x\<in>set ns. node_name x \<noteq> node_name n \<and> m (node_name x) = None"
    and m': "\<forall>k. m' k = (case map_of (map (\<lambda>n. (node_name n, n)) ns) k of
        Some n \<Rightarrow> Some n | None \<Rightarrow> (m(node_name n \<mapsto> n)) k)"
    by (auto split: if_splits)
  have "map_of (map (\<lambda>n. (node_name n, n)) ns) (node_name n) = None"
    using fresh by (fastforce simp: map_of_eq_None_iff)
  with m' have "\<forall>k. m' k = (case map_of (map (\<lambda>n. (node_name n, n)) (n # ns)) k of
        Some n \<Rightarrow> Some n | None \<Rightarrow> m k)"
    by (auto split: option.splits)
  with d fresh m show ?case by fastforce
qed simp

lemma index_nodes_exists:
  assumes "distinct (map node_name ns)" "\<forall>n\<in>set ns. m (node_name n) = None"
  shows "\<exists>m'. index_nodes m ns = Inr m'"
  using assms
proof (induction ns arbitrary: m)
  case (Cons n ns)
  have "node_name n \<notin> node_name ` set ns" using Cons.prems(1) by simp
  then have "\<forall>x\<in>set ns. node_name x \<noteq> node_name n" by (metis imageI)
  with Cons show ?case by simp
qed simp

lemma check_deps_None:
  "check_deps by_name ns = None \<longleftrightarrow> (\<forall>n\<in>set ns. \<forall>d\<in>set (depends_on n). by_name d \<noteq> None)"
proof (induction ns)
  case (Cons n ns)
  have "check_node by_name n = None \<longleftrightarrow> (\<forall>d\<in>set (depends_on n). by_name d \<noteq> None)"
    by (auto simp: check_node_def find_None_iff find_Some_iff split: option.splits)
  with Cons show ?case by (auto split: option.splits)
qed simp

lemma collect_done_spec:
  "collect_done run ns res err = (res', err') \<Longrightarrow>
     (err' = None \<longleftrightarrow> err = None \<and> (\<forall>n\<in>set ns. \<exists>v. run n = Inr v)) \<and>
     (err' = None \<longrightarrow> res' = (\<lambda>n. if n \<in> set ns then Some (projr (run n)) else res n)) \<and>
     (\<forall>n. err' = Some n \<longrightarrow> err = Some n \<or> (n \<in> set ns \<and> (\<exists>e. run n = Inl e)))"
proof (induction ns arbitrary: res err)
  case (Cons n ns)
  show ?case
  proof (cases "run n")
    case (Inl e)
    with Cons.prems Cons.IH [of res "Some n"] show ?thesis by auto
  next
    case (Inr v)
    with Cons.prems have "collect_done run ns (res(n \<mapsto> v)) err = (res', err')" by simp
    from Cons.IH [OF this] Inr show ?thesis by fastforce
  qed
qed (auto simp: fun_eq_iff)

lemma collect_pending_spec:
  "(\<forall>n\<in>set ns. \<exists>v. run n = Inr v) \<Longrightarrow>
     collect_pending run ns res = Inr (\<lambda>n. if n \<in> set ns then Some (projr (run n)) else res n)"
  by (induction ns arbitrary: res) (auto simp: fun_eq_iff)

lemma collect_pending_Inl:
  "n \<in> set ns \<Longrightarrow> run n = Inl e \<Longrightarrow> \<exists>m\<in>set ns. collect_pending run ns res = Inl (failed_node m) \<and> (\<exists>e. run m = Inl e)"
  by (induction ns arbitrary: res) (auto split: sum.splits)

text \<open>A wave succeeds exactly when each of its nodes does, and then adds their values.\<close>

lemma run_wave_ok:
  assumes "set (done_of ready) \<subseteq> set ready" "\<forall>n\<in>set ready. \<exists>v. run n = Inr v"
  shows "run_wave done_of run ready res =
    Inr (\<lambda>n. if n \<in> set ready then Some (projr (run n)) else res n)"
proof -
  obtain res' err' where c: "collect_done run (done_of ready) res None = (res', err')"
    by (cases "collect_done run (done_of ready) res None")
  have "err' = None" "res' = (\<lambda>n. if n \<in> set (done_of ready) then Some (projr (run n)) else res n)"
    using collect_done_spec [OF c] assms by auto
  moreover have "\<forall>n\<in>set (filter (\<lambda>n. n \<notin> set (done_of ready)) ready). \<exists>v. run n = Inr v"
    using assms by auto
  ultimately show ?thesis
    using assms c by (auto simp: run_wave_def Let_def collect_pending_spec fun_eq_iff)
qed

lemma run_wave_fail:
  assumes "set (done_of ready) \<subseteq> set ready" "n \<in> set ready" "run n = Inl e"
  shows "\<exists>m\<in>set ready. run_wave done_of run ready res = Inl (failed_node m) \<and> (\<exists>e. run m = Inl e)"
proof -
  obtain res' err' where c: "collect_done run (done_of ready) res None = (res', err')"
    by (cases "collect_done run (done_of ready) res None")
  show ?thesis
  proof (cases err')
    case None
    with collect_done_spec [OF c] assms(3) have "n \<notin> set (done_of ready)" by auto
    then have "n \<in> set (filter (\<lambda>n. n \<notin> set (done_of ready)) ready)" using assms(2) by simp
    from collect_pending_Inl [where run = run and res = res', OF this assms(3)] show ?thesis
      using None c by (auto simp: run_wave_def Let_def)
  next
    case (Some m)
    with collect_done_spec [OF c] assms(1) c show ?thesis
      by (auto simp: run_wave_def Let_def)
  qed
qed

section \<open>The loop\<close>

fun waves_ordered :: "(string \<Rightarrow> string list) \<Rightarrow> string list \<Rightarrow> string list list \<Rightarrow> bool" where
  "waves_ordered deps completed [] \<longleftrightarrow> True"
| "waves_ordered deps completed (w # ws) \<longleftrightarrow>
     (\<forall>n\<in>set w. set (deps n) \<subseteq> set completed) \<and> waves_ordered deps (completed @ w) ws"

lemma ready_nodes_distinct: "distinct remaining \<Longrightarrow> distinct (ready_nodes deps completed remaining)"
  by (simp add: ready_nodes_def)

text \<open>Unfolding the loop once, by the three ways an iteration can go.\<close>

lemma dag_loop_done [simp]: "dag_loop done_of deps run completed [] results = ([], Inr results)"
  by (simp add: dag_loop.simps)

lemma dag_loop_stuck:
  "remaining \<noteq> [] \<Longrightarrow> ready_nodes deps completed remaining = [] \<Longrightarrow>
   dag_loop done_of deps run completed remaining results =
     ([], Inl (cycle_error remaining))"
  by (simp add: dag_loop.simps [of done_of deps run completed remaining])

lemma dag_loop_wave:
  "ready_nodes deps completed remaining = ready \<Longrightarrow> ready \<noteq> [] \<Longrightarrow>
   dag_loop done_of deps run completed remaining results =
     (case run_wave done_of run ready results of
        Inl e \<Rightarrow> ([ready], Inl e)
      | Inr res \<Rightarrow> map_prod ((#) ready) id
          (dag_loop done_of deps run (completed @ ready) (filter (\<lambda>n. n \<notin> set ready) remaining) res))"
  by (cases "remaining = []")
    (auto simp: dag_loop.simps [of done_of deps run completed remaining] ready_nodes_def Let_def
      split: sum.splits prod.splits)

lemma dag_loop_ordered:
  "waves_ordered deps completed (fst (dag_loop done_of deps run completed remaining results)) \<and>
   set (concat (fst (dag_loop done_of deps run completed remaining results))) \<subseteq> set remaining \<and>
   (distinct remaining \<longrightarrow>
      distinct (concat (fst (dag_loop done_of deps run completed remaining results))))"
proof (induction done_of deps run completed remaining results rule: dag_loop.induct)
  case (1 done_of deps run completed remaining results)
  define ready where "ready = ready_nodes deps completed remaining"
  show ?case
  proof (cases "remaining = [] \<or> ready = []")
    case True
    then show ?thesis by (cases "remaining = []") (simp_all add: dag_loop_stuck flip: ready_def)
  next
    case False
    note w = dag_loop_wave [OF ready_def [symmetric], of done_of run results]
    have "\<forall>n\<in>set ready. set (deps n) \<subseteq> set completed" "set ready \<subseteq> set remaining"
      "distinct remaining \<longrightarrow> distinct ready"
      by (auto simp: ready_def ready_nodes_set ready_nodes_distinct)
    with False w "1.IH" [OF _ ready_def] show ?thesis
      by (cases "run_wave done_of run ready results") (auto simp: map_prod_def split: prod.splits)
  qed
qed

lemma run_wave_Inr:
  assumes "set (done_of ready) \<subseteq> set ready" "run_wave done_of run ready results = Inr res"
  shows "(\<forall>n\<in>set ready. \<exists>v. run n = Inr v) \<and>
    res = (\<lambda>n. if n \<in> set ready then Some (projr (run n)) else results n)"
proof -
  have "\<exists>v. run n = Inr v" if "n \<in> set ready" for n
    using run_wave_fail [where run = run and res = results and done_of = done_of and ready = ready and n = n]
      assms that by (cases "run n") auto
  with run_wave_ok [where run = run and res = results and done_of = done_of and ready = ready] assms
  show ?thesis by auto
qed

lemma dag_loop_results:
  assumes "\<And>r. set (done_of r) \<subseteq> set r"
    and "dag_loop done_of deps run completed remaining results = (waves, Inr res)"
  shows "set (concat waves) = set remaining \<and> (\<forall>n\<in>set remaining. \<exists>v. run n = Inr v) \<and>
    res = (\<lambda>n. if n \<in> set remaining then Some (projr (run n)) else results n)"
  using assms(2)
proof (induction "length remaining" arbitrary: completed remaining results waves rule: less_induct)
  case less
  define ready where "ready = ready_nodes deps completed remaining"
  show ?case
  proof (cases "remaining = []")
    case False
    with less.prems have "ready \<noteq> []"
      using dag_loop_stuck [of remaining deps completed done_of run results] by (auto simp: ready_def)
    note w = dag_loop_wave [OF ready_def [symmetric] this, of done_of run results]
    let ?rest = "filter (\<lambda>n. n \<notin> set ready) remaining"
    have sub: "set ready \<subseteq> set remaining" by (auto simp: ready_def ready_nodes_set)
    with \<open>ready \<noteq> []\<close> have len: "length ?rest < length remaining"
      using hd_in_set by (intro length_filter_less [of "hd ready"]) auto
    from less.prems w obtain res1 where res1: "run_wave done_of run ready results = Inr res1"
      by (auto split: sum.splits)
    with less.prems w obtain waves' where
      "dag_loop done_of deps run (completed @ ready) ?rest res1 = (waves', Inr res)"
      and ws: "waves = ready # waves'"
      by (cases "dag_loop done_of deps run (completed @ ready) ?rest res1") auto
    from less.hyps [OF len this(1)] have IH: "set (concat waves') = set ?rest"
      "\<forall>n\<in>set ?rest. \<exists>v. run n = Inr v"
      "res = (\<lambda>n. if n \<in> set ?rest then Some (projr (run n)) else res1 n)" by simp_all
    from run_wave_Inr [OF assms(1) res1] have W: "\<forall>n\<in>set ready. \<exists>v. run n = Inr v"
      "res1 = (\<lambda>n. if n \<in> set ready then Some (projr (run n)) else results n)" by simp_all
    have "set (concat waves) = set remaining" using IH(1) ws sub by auto
    moreover have "\<forall>n\<in>set remaining. \<exists>v. run n = Inr v" using IH(2) W(1) by auto
    moreover have "res = (\<lambda>n. if n \<in> set remaining then Some (projr (run n)) else results n)"
      using IH(3) W(2) sub by (auto simp: fun_eq_iff)
    ultimately show ?thesis by blast
  qed (use less.prems in auto)
qed

text \<open>A node that fails stops everything that depends on it from being submitted.\<close>

lemma dag_loop_failed:
  assumes "\<And>r. set (done_of r) \<subseteq> set r"
    and "run n = Inl e" "n \<in> set (deps m)" "n \<notin> set completed"
  shows "m \<notin> set (concat (fst (dag_loop done_of deps run completed remaining results)))"
  using assms(4)
proof (induction "length remaining" arbitrary: completed remaining results rule: less_induct)
  case less
  define ready where "ready = ready_nodes deps completed remaining"
  show ?case
  proof (cases "remaining = [] \<or> ready = []")
    case True
    then show ?thesis by (cases "remaining = []") (simp_all add: dag_loop_stuck flip: ready_def)
  next
    case False
    then have "ready \<noteq> []" by simp
    note w = dag_loop_wave [OF ready_def [symmetric] this, of done_of run results]
    let ?rest = "filter (\<lambda>n. n \<notin> set ready) remaining"
    have m: "m \<notin> set ready" using less.prems assms(3) by (auto simp: ready_def ready_nodes_set)
    have "set ready \<subseteq> set remaining" by (auto simp: ready_def ready_nodes_set)
    with \<open>ready \<noteq> []\<close> have len: "length ?rest < length remaining"
      using hd_in_set by (intro length_filter_less [of "hd ready"]) auto
    show ?thesis
    proof (cases "run_wave done_of run ready results")
      case (Inl e)
      with w m show ?thesis by simp
    next
      case (Inr res1)
      with run_wave_Inr [OF assms(1) Inr] assms(2) have "n \<notin> set (completed @ ready)"
        using less.prems by auto
      from less.hyps [OF len this, of res1] w m Inr show ?thesis by (simp add: map_prod_def split: prod.splits)
    qed
  qed
qed

text \<open>Progress: with an acyclic dependency relation some remaining node is always ready.\<close>

lemma dag_loop_progress:
  assumes done_of: "\<And>r. set (done_of r) \<subseteq> set r"
    and wf: "wf {(d, n). n \<in> N \<and> d \<in> set (deps n)}"
    and "set remaining \<subseteq> N" "\<forall>n\<in>set remaining. \<exists>v. run n = Inr v"
    and "\<forall>n\<in>set remaining. set (deps n) \<subseteq> set completed \<union> set remaining"
  shows "\<exists>waves res. dag_loop done_of deps run completed remaining results = (waves, Inr res)"
  using assms(3-)
proof (induction "length remaining" arbitrary: completed remaining results rule: less_induct)
  case less
  define ready where "ready = ready_nodes deps completed remaining"
  show ?case
  proof (cases "remaining = []")
    case False
    then have "hd remaining \<in> set remaining" by simp
    from wfE_min [OF wf this] obtain z where z: "z \<in> set remaining"
      "\<forall>y. (y, z) \<in> {(d, n). n \<in> N \<and> d \<in> set (deps n)} \<longrightarrow> y \<notin> set remaining"
      by blast
    then have "set (deps z) \<subseteq> set completed" using less.prems(1,3) by blast
    with z(1) have "z \<in> set ready" by (simp add: ready_def ready_nodes_set)
    then have "ready \<noteq> []" by auto
    note w = dag_loop_wave [OF ready_def [symmetric] this, of done_of run results]
    let ?rest = "filter (\<lambda>n. n \<notin> set ready) remaining"
    have sub: "set ready \<subseteq> set remaining" by (auto simp: ready_def ready_nodes_set)
    with \<open>z \<in> set ready\<close> have len: "length ?rest < length remaining"
      by (intro length_filter_less [of z]) auto
    obtain res1 where res1: "run_wave done_of run ready results = Inr res1"
      using run_wave_ok [where run = run and res = results and done_of = done_of and ready = ready]
        done_of less.prems(2) sub by blast
    have "\<exists>waves res. dag_loop done_of deps run (completed @ ready) ?rest res1 = (waves, Inr res)"
      using less.prems by (intro less.hyps len) auto
    with w res1 show ?thesis by auto
  qed simp
qed

text \<open>Conversely, nodes that wait for each other are never submitted.\<close>

lemma waves_ordered_cycle:
  assumes "waves_ordered deps completed ws" "\<forall>n\<in>C. \<exists>d\<in>C. d \<in> set (deps n)" "C \<inter> set completed = {}"
  shows "C \<inter> set (concat ws) = {}"
  using assms(1,3)
proof (induction ws arbitrary: completed)
  case (Cons w ws)
  then have "\<forall>n\<in>set w. set (deps n) \<subseteq> set completed" by simp
  then have "C \<inter> set w = {}" using assms(2) Cons.prems(2) by blast
  moreover have "C \<inter> set (concat ws) = {}"
    using Cons \<open>C \<inter> set w = {}\<close> by (intro Cons.IH [of "completed @ w"]) auto
  ultimately show ?case by auto
qed simp

section \<open>Properties\<close>

definition dep_graph :: "'a dag_node list \<Rightarrow> (string \<times> string) set" where
  "dep_graph nodes = {(d, n). \<exists>nd\<in>set nodes. node_name nd = n \<and> d \<in> set (depends_on nd)}"

definition names_of :: "'a dag_node list \<Rightarrow> string set" where
  "names_of nodes = node_name ` set nodes"

definition dag_valid :: "'a dag_node list \<Rightarrow> bool" where
  "dag_valid nodes \<longleftrightarrow> distinct (map node_name nodes) \<and>
     (\<forall>nd\<in>set nodes. set (depends_on nd) \<subseteq> names_of nodes)"

lemma finite_dep_graph: "finite (dep_graph nodes)"
proof (rule finite_subset)
  show "dep_graph nodes \<subseteq> (\<Union>nd\<in>set nodes. set (depends_on nd)) \<times> names_of nodes"
    by (auto simp: dep_graph_def names_of_def)
qed (simp add: names_of_def)

text \<open>What the two checks establish: the table that the loop works on.\<close>

lemma index_nodes_lookup:
  assumes "index_nodes Map.empty nodes = Inr m"
  shows "distinct (map node_name nodes) \<and> dom m = names_of nodes \<and>
    (\<forall>nd\<in>set nodes. m (node_name nd) = Some nd)"
proof -
  note spec = index_nodes_Inr [OF assms]
  then have m: "\<And>k. m k = map_of (map (\<lambda>n. (node_name n, n)) nodes) k" and
    d: "distinct (map node_name nodes)" by (simp_all add: option.case_eq_if)
  have "dom m = names_of nodes"
    by (auto simp: m dom_def names_of_def map_of_eq_None_iff image_iff dest!: map_of_SomeD)
  moreover have "m (node_name nd) = Some nd" if "nd \<in> set nodes" for nd
    using that d by (simp add: m map_of_eq_Some_iff comp_def)
  ultimately show ?thesis using d by simp
qed

lemma dag_run_valid:
  assumes "dag_valid nodes" "nodes \<noteq> []"
  obtains m where
    "dag_run done_of nodes =
       dag_loop done_of (node_deps m) (node_outcome m) [] (map node_name nodes) Map.empty"
    "\<And>nd. nd \<in> set nodes \<Longrightarrow> node_deps m (node_name nd) = depends_on nd"
    "\<And>nd. nd \<in> set nodes \<Longrightarrow> node_outcome m (node_name nd) = node_run nd"
proof -
  obtain m where m: "index_nodes Map.empty nodes = Inr m"
    using index_nodes_exists [of nodes Map.empty] assms(1) by (auto simp: dag_valid_def)
  note look = index_nodes_lookup [OF m]
  have "check_deps m nodes = None"
    using look assms(1) by (auto simp: check_deps_None dag_valid_def dom_def)
  with m assms(2) look that [of m] show ?thesis
    by (simp add: dag_run_def node_deps_def node_outcome_def)
qed

lemma dag_run_invalid:
  assumes "\<not> dag_valid nodes"
  shows "\<exists>e. dag_run done_of nodes = ([], Inl e)"
proof (cases "distinct (map node_name nodes)")
  case False
  then obtain e where "index_nodes Map.empty nodes = Inl e"
    using index_nodes_Inr [of Map.empty nodes] by (cases "index_nodes Map.empty nodes") auto
  with False show ?thesis by (auto simp: dag_run_def)
next
  case True
  then obtain m where m: "index_nodes Map.empty nodes = Inr m"
    using index_nodes_exists [of nodes Map.empty] by auto
  have "check_deps m nodes \<noteq> None"
    using index_nodes_lookup [OF m] assms True by (auto simp: check_deps_None dag_valid_def dom_def)
  with m assms show ?thesis by (auto simp: dag_run_def dag_valid_def)
qed

lemma wf_restrict_deps:
  assumes "acyclic (dep_graph nodes)"
    and "\<And>nd. nd \<in> set nodes \<Longrightarrow> dp (node_name nd) = depends_on nd"
  shows "wf {(d, n). n \<in> names_of nodes \<and> d \<in> set (dp n)}"
proof (rule wf_subset)
  show "wf (dep_graph nodes)" using finite_acyclic_wf finite_dep_graph assms(1) by blast
  show "{(d, n). n \<in> names_of nodes \<and> d \<in> set (dp n)} \<subseteq> dep_graph nodes"
    using assms(2) by (auto simp: names_of_def dep_graph_def)
qed

lemma waves_acyclic:
  assumes "waves_ordered dp [] ws" "set (concat ws) = names_of nodes"
    and dp: "\<And>nd. nd \<in> set nodes \<Longrightarrow> dp (node_name nd) = depends_on nd"
    and valid: "dag_valid nodes"
  shows "acyclic (dep_graph nodes)"
proof -
  have "wf (dep_graph nodes)"
  proof (rule wfI_min)
    fix x and Q :: "string set"
    assume "x \<in> Q"
    show "\<exists>z\<in>Q. \<forall>y. (y, z) \<in> dep_graph nodes \<longrightarrow> y \<notin> Q"
    proof (rule ccontr)
      assume no_min: "\<not> ?thesis"
      have "\<forall>n\<in>Q. \<exists>d\<in>Q. d \<in> set (dp n)"
      proof
        fix n assume "n \<in> Q"
        with no_min obtain d nd where "d \<in> Q" "nd \<in> set nodes" "node_name nd = n" "d \<in> set (depends_on nd)"
          by (auto simp: dep_graph_def)
        with dp [of nd] show "\<exists>d\<in>Q. d \<in> set (dp n)" by auto
      qed
      with waves_ordered_cycle [OF assms(1)] assms(2) have "Q \<inter> names_of nodes = {}" by auto
      moreover have "x \<in> names_of nodes"
        using no_min \<open>x \<in> Q\<close> by (auto simp: dep_graph_def names_of_def)
      ultimately show False using \<open>x \<in> Q\<close> by blast
    qed
  qed
  then show ?thesis by (rule wf_acyclic)
qed

text \<open>C5. The scheduler returns results exactly when the node names are distinct, every
  dependency names a node, the dependency graph has no cycle and every node's function returns:
  a cycle is always found (the loop never waits for ever), and a valid graph never reported.
  \<open>done_of\<close> is what \<open>wait\<close> reports as done, of which only that it is part of the wave matters.\<close>

theorem dag_run_succeeds_iff:
  assumes done_of: "\<And>r. set (done_of r) \<subseteq> set r"
  shows "(\<exists>res. snd (dag_run done_of nodes) = Inr res) \<longleftrightarrow>
    dag_valid nodes \<and> acyclic (dep_graph nodes) \<and> (\<forall>nd\<in>set nodes. \<exists>v. node_run nd = Inr v)"
proof (cases "dag_valid nodes \<and> nodes \<noteq> []")
  case False
  then show ?thesis
    using dag_run_invalid [of nodes done_of]
    by (cases "nodes = []")
      (auto simp: dag_run_def dag_valid_def names_of_def dep_graph_def acyclic_def)
next
  case True
  then obtain m where m: "dag_run done_of nodes =
       dag_loop done_of (node_deps m) (node_outcome m) [] (map node_name nodes) Map.empty"
    and deps: "\<And>nd. nd \<in> set nodes \<Longrightarrow> node_deps m (node_name nd) = depends_on nd"
    and run: "\<And>nd. nd \<in> set nodes \<Longrightarrow> node_outcome m (node_name nd) = node_run nd"
    using dag_run_valid [of nodes done_of] by metis
  show ?thesis
  proof
    assume "\<exists>res. snd (dag_run done_of nodes) = Inr res"
    then obtain ws res where loop: "dag_loop done_of (node_deps m) (node_outcome m) []
        (map node_name nodes) Map.empty = (ws, Inr res)" by (metis m prod.collapse)
    note ok = dag_loop_results [OF done_of loop]
    have "waves_ordered (node_deps m) [] ws" using dag_loop_ordered loop by (metis fst_conv)
    moreover have "set (concat ws) = names_of nodes" using ok by (simp add: names_of_def)
    ultimately have "acyclic (dep_graph nodes)"
      using True by (intro waves_acyclic [of "node_deps m" ws]) (simp_all add: deps)
    with ok run True show "dag_valid nodes \<and> acyclic (dep_graph nodes) \<and>
        (\<forall>nd\<in>set nodes. \<exists>v. node_run nd = Inr v)" by auto
  next
    assume ok: "dag_valid nodes \<and> acyclic (dep_graph nodes) \<and>
        (\<forall>nd\<in>set nodes. \<exists>v. node_run nd = Inr v)"
    have "\<exists>ws res. dag_loop done_of (node_deps m) (node_outcome m) [] (map node_name nodes)
        Map.empty = (ws, Inr res)"
    proof (rule dag_loop_progress [OF done_of])
      show "wf {(d, n). n \<in> names_of nodes \<and> d \<in> set (node_deps m n)}"
        using ok wf_restrict_deps deps by blast
    qed (use ok run deps in \<open>auto simp: names_of_def dag_valid_def\<close>)
    then show "\<exists>res. snd (dag_run done_of nodes) = Inr res" using m by auto
  qed
qed

definition sample_dag :: "int dag_node list" where
  "sample_dag =
     [\<lparr>node_name = ''test'', node_run = Inr 2, depends_on = [''review'']\<rparr>,
      \<lparr>node_name = ''review'', node_run = Inr 1, depends_on = []\<rparr>]"

definition cyclic_dag :: "int dag_node list" where
  "cyclic_dag =
     [\<lparr>node_name = ''a'', node_run = Inr 2, depends_on = [''b'']\<rparr>,
      \<lparr>node_name = ''b'', node_run = Inr 1, depends_on = [''a'']\<rparr>]"

lemma sample_dag_run:
  "fst (dag_run (\<lambda>r. r) sample_dag) = [[''review''], [''test'']]"
  "case snd (dag_run (\<lambda>r. r) sample_dag) of
     Inr res \<Rightarrow> res ''review'' = Some 1 \<and> res ''test'' = Some 2 | Inl e \<Rightarrow> False"
  by code_simp+

lemma dag_run_succeeds_iff_witness:
  "(\<exists>res. snd (dag_run (\<lambda>r. r) sample_dag) = Inr res) \<and> acyclic (dep_graph sample_dag) \<and>
   \<not> acyclic (dep_graph cyclic_dag)"
proof -
  have "\<exists>res. snd (dag_run (\<lambda>r. r) sample_dag) = Inr res"
    using sample_dag_run(2) by (auto split: sum.splits)
  moreover have "case snd (dag_run (\<lambda>r. r) cyclic_dag) of Inl e \<Rightarrow> True | Inr _ \<Rightarrow> False"
    by code_simp
  moreover have "dag_valid cyclic_dag" "\<forall>nd\<in>set cyclic_dag. \<exists>v. node_run nd = Inr v"
    by (simp_all add: cyclic_dag_def dag_valid_def names_of_def)
  ultimately show ?thesis
    using dag_run_succeeds_iff [of "\<lambda>r. r" sample_dag] dag_run_succeeds_iff [of "\<lambda>r. r" cyclic_dag]
    by (auto split: sum.splits)
qed

lemma waves_ordered_nth:
  assumes "waves_ordered dp completed ws" "i < length ws" "n \<in> set (ws ! i)" "d \<in> set (dp n)"
  shows "d \<in> set completed \<or> (\<exists>j<i. d \<in> set (ws ! j))"
  using assms
proof (induction ws arbitrary: completed i)
  case (Cons w ws)
  show ?case
  proof (cases i)
    case 0
    with Cons.prems show ?thesis by auto
  next
    case (Suc i')
    with Cons.prems have "d \<in> set (completed @ w) \<or> (\<exists>j<i'. d \<in> set (ws ! j))"
      by (intro Cons.IH) auto
    with Suc show ?thesis by auto
  qed
qed simp

text \<open>C9. Whatever the outcome of a run, each node is submitted at most once, and only in a wave
  after those of all its dependencies; no name that is not a node is ever submitted.\<close>

theorem dag_run_order:
  fixes nodes :: "'a dag_node list" and done_of :: "string list \<Rightarrow> string list"
  defines "waves \<equiv> fst (dag_run done_of nodes)"
  shows "distinct (concat waves) \<and> set (concat waves) \<subseteq> names_of nodes \<and>
    (\<forall>i<length waves. \<forall>nd\<in>set nodes. node_name nd \<in> set (waves ! i) \<longrightarrow>
      (\<forall>d\<in>set (depends_on nd). \<exists>j<i. d \<in> set (waves ! j)))"
proof (cases "dag_valid nodes \<and> nodes \<noteq> []")
  case False
  then have "waves = []"
    using dag_run_invalid [of nodes done_of] by (auto simp: waves_def dag_run_def)
  then show ?thesis by simp
next
  case True
  then obtain m where m: "dag_run done_of nodes =
       dag_loop done_of (node_deps m) (node_outcome m) [] (map node_name nodes) Map.empty"
    and deps: "\<And>nd. nd \<in> set nodes \<Longrightarrow> node_deps m (node_name nd) = depends_on nd"
    using dag_run_valid [of nodes done_of] by metis
  note L = dag_loop_ordered [of "node_deps m" "[]" done_of "node_outcome m" "map node_name nodes"
      Map.empty, folded m, folded waves_def]
  have "\<exists>j<i. d \<in> set (waves ! j)"
    if "i < length waves" "nd \<in> set nodes" "node_name nd \<in> set (waves ! i)" "d \<in> set (depends_on nd)"
    for i nd d
    using waves_ordered_nth [of "node_deps m" "[]" waves i "node_name nd" d] L that deps by auto
  with L True show ?thesis by (auto simp: dag_valid_def names_of_def)
qed

lemma dag_run_order_witness:
  "\<exists>j<1. ''review'' \<in> set (fst (dag_run (\<lambda>r. r) sample_dag) ! j)"
proof -
  have "\<forall>i<length (fst (dag_run (\<lambda>r. r) sample_dag)). \<forall>nd\<in>set sample_dag.
      node_name nd \<in> set (fst (dag_run (\<lambda>r. r) sample_dag) ! i) \<longrightarrow>
      (\<forall>d\<in>set (depends_on nd). \<exists>j<i. d \<in> set (fst (dag_run (\<lambda>r. r) sample_dag) ! j))"
    using dag_run_order [of "\<lambda>r. r" sample_dag] by blast
  moreover have "sample_dag ! 0 \<in> set sample_dag" "node_name (sample_dag ! 0) = ''test''"
    "depends_on (sample_dag ! 0) = [''review'']" by (simp_all add: sample_dag_def)
  ultimately show ?thesis by (force simp: sample_dag_run(1))
qed

text \<open>The results of a run that succeeds are exactly the values of the nodes, under their
  names.\<close>

theorem dag_run_results:
  assumes "\<And>r. set (done_of r) \<subseteq> set r" "snd (dag_run done_of nodes) = Inr res"
  shows "dom res = names_of nodes \<and>
    (\<forall>nd\<in>set nodes. \<exists>v. node_run nd = Inr v \<and> res (node_name nd) = Some v)"
proof (cases "nodes = []")
  case True
  with assms(2) show ?thesis by (auto simp: dag_run_def names_of_def)
next
  case False
  have "dag_valid nodes"
    using assms(2) dag_run_invalid [of nodes done_of] by (cases "dag_valid nodes") auto
  then obtain m where m: "dag_run done_of nodes =
       dag_loop done_of (node_deps m) (node_outcome m) [] (map node_name nodes) Map.empty"
    and run: "\<And>nd. nd \<in> set nodes \<Longrightarrow> node_outcome m (node_name nd) = node_run nd"
    using dag_run_valid [of nodes done_of] False by metis
  then obtain ws where "dag_loop done_of (node_deps m) (node_outcome m) []
      (map node_name nodes) Map.empty = (ws, Inr res)" using assms(2) by (metis prod.collapse)
  from dag_loop_results [OF assms(1) this] run show ?thesis
    by (auto simp: names_of_def dom_def split: if_splits)
qed

text \<open>When a node's function raises, nothing that depends on the node is ever run, whatever
  subset of a wave \<open>wait\<close> reports first.\<close>

theorem dag_run_failure_contained:
  assumes "\<And>r. set (done_of r) \<subseteq> set r"
    and "nd \<in> set nodes" "node_run nd = Inl e"
    and "nm \<in> set nodes" "node_name nd \<in> set (depends_on nm)"
  shows "node_name nm \<notin> set (concat (fst (dag_run done_of nodes))) \<and>
    (\<exists>e'. snd (dag_run done_of nodes) = Inl e')"
proof (cases "dag_valid nodes")
  case True
  then obtain m where m: "dag_run done_of nodes =
       dag_loop done_of (node_deps m) (node_outcome m) [] (map node_name nodes) Map.empty"
    and deps: "\<And>nd. nd \<in> set nodes \<Longrightarrow> node_deps m (node_name nd) = depends_on nd"
    and run: "\<And>nd. nd \<in> set nodes \<Longrightarrow> node_outcome m (node_name nd) = node_run nd"
    using dag_run_valid [of nodes done_of] assms(2) by (metis empty_iff list.set(1))
  have "\<not> (\<exists>res. snd (dag_run done_of nodes) = Inr res)"
    using dag_run_results [OF assms(1)] assms(2,3) by fastforce
  then have "\<exists>e'. snd (dag_run done_of nodes) = Inl e'"
    by (cases "snd (dag_run done_of nodes)") auto
  moreover have "node_name nm \<notin> set (concat (fst (dag_run done_of nodes)))"
    unfolding m using assms deps run
    by (intro dag_loop_failed [where n = "node_name nd" and e = e]) auto
  ultimately show ?thesis by blast
next
  case False
  then show ?thesis using dag_run_invalid [of nodes done_of] by auto
qed

definition failing_dag :: "int dag_node list" where
  "failing_dag =
     [\<lparr>node_name = ''review'', node_run = Inl (ValueError ''no diff''), depends_on = []\<rparr>,
      \<lparr>node_name = ''test'', node_run = Inr 2, depends_on = [''review'']\<rparr>]"

end
