(* ===== verification/Feature_Flags.thy ===== *)
theory Feature_Flags
  imports Prelude
begin

text \<open>
  Feature flags with canary rollout, \<open>utils/feature_flags.py\<close>, and the router of artifact
  requests built on them, \<open>utils/artifact_router.py\<close>.

  The Redis client is a parameter: \<open>get r k\<close> is \<open>GET\<close> in server state \<open>r\<close> (\<open>Inl\<close> an error of
  the client library, a subclass of \<open>Exception\<close>; \<open>Inr None\<close> a missing key), \<open>exec r kvs\<close> a
  pipeline of \<open>SET\<close>s. \<open>kv_laws\<close> is what is documented of them. \<open>md5\<close> is the MD5 digest of a text
  as a number, also a parameter.
\<close>

section \<open>Flags and keys\<close>

datatype feature_flag =
    LANGGRAPH_ENGINE
  | NEW_BACKEND_GENERATOR
  | SPRING_CLOUD_GATEWAY
  | ARTIFACT_MICROSERVICE
  | EVENT_MICROSERVICE
  | APPROVAL_MICROSERVICE
  | NEW_VALIDATION_GATE
  | DISTRIBUTED_LOCK_V2

fun flag_value :: "feature_flag \<Rightarrow> string" where
  "flag_value LANGGRAPH_ENGINE = ''langgraph_engine''"
| "flag_value NEW_BACKEND_GENERATOR = ''new_backend_generator''"
| "flag_value SPRING_CLOUD_GATEWAY = ''spring_cloud_gateway''"
| "flag_value ARTIFACT_MICROSERVICE = ''artifact_microservice''"
| "flag_value EVENT_MICROSERVICE = ''event_microservice''"
| "flag_value APPROVAL_MICROSERVICE = ''approval_microservice''"
| "flag_value NEW_VALIDATION_GATE = ''new_validation_gate''"
| "flag_value DISTRIBUTED_LOCK_V2 = ''distributed_lock_v2''"

definition all_flags :: "feature_flag list" where
  "all_flags = [LANGGRAPH_ENGINE, NEW_BACKEND_GENERATOR, SPRING_CLOUD_GATEWAY,
     ARTIFACT_MICROSERVICE, EVENT_MICROSERVICE, APPROVAL_MICROSERVICE, NEW_VALIDATION_GATE,
     DISTRIBUTED_LOCK_V2]"

definition flag_key :: "feature_flag \<Rightarrow> string \<Rightarrow> string" where
  "flag_key flag field = ''feature_flag:'' @ flag_value flag @ '':'' @ field"

definition enabled_key :: "feature_flag \<Rightarrow> string" where
  "enabled_key flag = flag_key flag ''enabled''"

definition canary_key :: "feature_flag \<Rightarrow> string" where
  "canary_key flag = flag_key flag ''canary_percentage''"

definition updated_at_key :: "feature_flag \<Rightarrow> string" where
  "updated_at_key flag = flag_key flag ''updated_at''"

definition updated_by_key :: "feature_flag \<Rightarrow> string" where
  "updated_by_key flag = flag_key flag ''updated_by''"

section \<open>The manager\<close>

definition canary_bucket :: "(string \<Rightarrow> nat) \<Rightarrow> string \<Rightarrow> int" where
  "canary_bucket md5 task_id = int (md5 task_id) mod 100"

text \<open>The decision once the percentage is read: the clamp and the three cases after it.\<close>

definition canary_decision :: "(string \<Rightarrow> nat) \<Rightarrow> int \<Rightarrow> string \<Rightarrow> bool" where
  "canary_decision md5 pct task_id =
     (let canary_pct = max 0 (min 100 pct) in
      if canary_pct = 0 then False
      else if canary_pct \<ge> 100 then True
      else (if task_id \<noteq> [] then canary_bucket md5 task_id else 0) < canary_pct)"

definition is_enabled ::
  "('r \<Rightarrow> string \<Rightarrow> string + string option) \<Rightarrow> (string \<Rightarrow> nat) \<Rightarrow> 'r \<Rightarrow> feature_flag \<Rightarrow> string \<Rightarrow> bool" where
  "is_enabled get md5 r flag task_id =
     (case get r (enabled_key flag) of
        Inl err \<Rightarrow> False
      | Inr None \<Rightarrow> False
      | Inr (Some raw) \<Rightarrow>
          if lower raw \<noteq> ''true'' then False
          else case get r (canary_key flag) of
            Inl err \<Rightarrow> False
          | Inr None \<Rightarrow> canary_decision md5 0 task_id
          | Inr (Some raw_pct) \<Rightarrow>
              canary_decision md5 (case parse_int raw_pct of Some n \<Rightarrow> n | None \<Rightarrow> 0) task_id)"

definition set_flag ::
  "('r \<Rightarrow> (string \<times> string) list \<Rightarrow> string + 'r) \<Rightarrow> 'r \<Rightarrow> feature_flag \<Rightarrow> bool \<Rightarrow> int \<Rightarrow> string
    \<Rightarrow> string \<Rightarrow> 'r result" where
  "set_flag exec r flag enabled pct updated_by now_iso =
     (if \<not> (0 \<le> pct \<and> pct \<le> 100)
      then Inl (ValueError (''canary_percentage must be between 0 and 100, got '' @ show_int pct))
      else case exec r
             [(enabled_key flag, if enabled then ''true'' else ''false''),
              (canary_key flag, show_int pct),
              (updated_at_key flag, now_iso),
              (updated_by_key flag, updated_by)] of
        Inl err \<Rightarrow> Inl (NamedError ''RedisError'' err)
      | Inr r' \<Rightarrow> Inr r')"

definition disable_flag ::
  "('r \<Rightarrow> (string \<times> string) list \<Rightarrow> string + 'r) \<Rightarrow> 'r \<Rightarrow> feature_flag \<Rightarrow> string \<Rightarrow> string \<Rightarrow> 'r result" where
  "disable_flag exec r flag updated_by now_iso = set_flag exec r flag False 0 updated_by now_iso"

text \<open>A value that is missing or empty reads as \<open>None\<close> (\<open>x.decode() if x else None\<close>).\<close>

definition text_or_none :: "string option \<Rightarrow> pyval" where
  "text_or_none x = (case x of Some s \<Rightarrow> if s = [] then PNone else PStr s | None \<Rightarrow> PNone)"

definition flag_state_dict :: "feature_flag \<Rightarrow> bool \<Rightarrow> int \<Rightarrow> pyval \<Rightarrow> pyval \<Rightarrow> pydict" where
  "flag_state_dict flag enabled pct updated_at updated_by =
     [(''flag'', PStr (flag_value flag)), (''enabled'', PBool enabled),
      (''canary_percentage'', PInt pct), (''updated_at'', updated_at), (''updated_by'', updated_by)]"

definition get_flag_state ::
  "('r \<Rightarrow> string \<Rightarrow> string + string option) \<Rightarrow> 'r \<Rightarrow> feature_flag \<Rightarrow> pydict" where
  "get_flag_state get r flag =
     (case (get r (enabled_key flag), get r (canary_key flag),
            get r (updated_at_key flag), get r (updated_by_key flag)) of
        (Inr raw_enabled, Inr raw_pct, Inr raw_at, Inr raw_by) \<Rightarrow>
          flag_state_dict flag
            (case raw_enabled of Some raw \<Rightarrow> lower raw = ''true'' | None \<Rightarrow> False)
            (case raw_pct of
               Some raw \<Rightarrow> if raw = [] then 0
                           else (case parse_int raw of Some n \<Rightarrow> n | None \<Rightarrow> 0)
             | None \<Rightarrow> 0)
            (text_or_none raw_at) (text_or_none raw_by)
      | _ \<Rightarrow> flag_state_dict flag False 0 PNone PNone)"

definition list_flags :: "('r \<Rightarrow> string \<Rightarrow> string + string option) \<Rightarrow> 'r \<Rightarrow> pydict list" where
  "list_flags get r = map (get_flag_state get r) all_flags"

section \<open>The artifact router\<close>

record artifact_router =
  control_plane_url :: string
  artifact_service_url :: string

definition new_artifact_router :: "string \<Rightarrow> string \<Rightarrow> artifact_router" where
  "new_artifact_router cp_url service_url =
     \<lparr>control_plane_url = rstrip_char CHR ''/'' cp_url,
      artifact_service_url = rstrip_char CHR ''/'' service_url\<rparr>"

definition is_using_microservice ::
  "('r \<Rightarrow> string \<Rightarrow> string + string option) \<Rightarrow> (string \<Rightarrow> nat) \<Rightarrow> 'r \<Rightarrow> string \<Rightarrow> bool" where
  "is_using_microservice get md5 r task_id = is_enabled get md5 r ARTIFACT_MICROSERVICE task_id"

definition get_artifact_base_url ::
  "('r \<Rightarrow> string \<Rightarrow> string + string option) \<Rightarrow> (string \<Rightarrow> nat) \<Rightarrow> artifact_router \<Rightarrow> 'r \<Rightarrow> string \<Rightarrow> string" where
  "get_artifact_base_url get md5 rt r task_id =
     (if is_enabled get md5 r ARTIFACT_MICROSERVICE task_id
      then artifact_service_url rt else control_plane_url rt)"

text \<open>The two URL methods read the flag twice: once inside \<open>get_artifact_base_url\<close>, in server
  state \<open>r1\<close>, and once themselves, in state \<open>r2\<close>.\<close>

definition get_artifact_upload_url ::
  "('r \<Rightarrow> string \<Rightarrow> string + string option) \<Rightarrow> (string \<Rightarrow> nat) \<Rightarrow> artifact_router \<Rightarrow> 'r \<Rightarrow> 'r \<Rightarrow> string \<Rightarrow> string" where
  "get_artifact_upload_url get md5 rt r1 r2 task_id =
     (let base = get_artifact_base_url get md5 rt r1 task_id in
      if is_enabled get md5 r2 ARTIFACT_MICROSERVICE task_id
      then base @ ''/artifacts''
      else base @ ''/api/v1/tasks/'' @ task_id @ ''/artifacts'')"

definition get_artifact_download_url ::
  "('r \<Rightarrow> string \<Rightarrow> string + string option) \<Rightarrow> (string \<Rightarrow> nat) \<Rightarrow> artifact_router \<Rightarrow> 'r \<Rightarrow> 'r
    \<Rightarrow> string \<Rightarrow> string \<Rightarrow> string" where
  "get_artifact_download_url get md5 rt r1 r2 task_id artifact_id =
     (let base = get_artifact_base_url get md5 rt r1 task_id in
      if is_enabled get md5 r2 ARTIFACT_MICROSERVICE task_id
      then base @ ''/artifacts/'' @ artifact_id @ ''/download?taskId='' @ task_id
      else base @ ''/api/v1/tasks/'' @ task_id @ ''/artifacts/'' @ artifact_id @ ''/download'')"

section \<open>What is documented of the store\<close>

definition kv_laws ::
  "('r \<Rightarrow> string \<Rightarrow> string + string option) \<Rightarrow> ('r \<Rightarrow> (string \<times> string) list \<Rightarrow> string + 'r) \<Rightarrow> bool" where
  "kv_laws get exec \<longleftrightarrow> (\<forall>r kvs r' k. exec r kvs = Inr r' \<longrightarrow>
     get r' k = (case map_of (rev kvs) k of Some v \<Rightarrow> Inr (Some v) | None \<Rightarrow> get r k))"

lemma flag_value_inj: "flag_value f = flag_value g \<Longrightarrow> f = g"
  by (cases f; cases g) simp_all

lemma flag_value_no_colon: "CHR '':'' \<notin> set (flag_value f)"
  by (cases f) simp_all

lemma append_colon_inject:
  "x \<notin> set a \<Longrightarrow> x \<notin> set b \<Longrightarrow> a @ [x] @ u = b @ [x] @ v \<Longrightarrow> a = b \<and> u = v"
  by (induction a arbitrary: b) (auto simp: Cons_eq_append_conv append_eq_Cons_conv)

lemma flag_key_inject [simp]: "flag_key f a = flag_key g b \<longleftrightarrow> f = g \<and> a = b"
  using append_colon_inject [OF flag_value_no_colon [of f] flag_value_no_colon [of g], of a b] flag_value_inj
  by (auto simp: flag_key_def)

lemmas flag_keys = enabled_key_def canary_key_def updated_at_key_def updated_by_key_def

section \<open>The contract of a percentage rollout\<close>

locale percentage_rollout =
  fixes decide :: "int \<Rightarrow> 'k \<Rightarrow> bool"
  assumes none: "\<not> decide 0 k"
    and everyone: "100 \<le> p \<Longrightarrow> decide p k"
    and monotone: "p \<le> q \<Longrightarrow> decide p k \<Longrightarrow> decide q k"
begin

lemma stays_routed: "sorted (p # ps) \<Longrightarrow> decide p k \<Longrightarrow> q \<in> set ps \<Longrightarrow> decide q k"
  using monotone by auto

lemma not_reached_before: "sorted (ps @ [q]) \<Longrightarrow> \<not> decide q k \<Longrightarrow> p \<in> set ps \<Longrightarrow> \<not> decide p k"
  using monotone by (auto simp: sorted_append)

end

interpretation canary: percentage_rollout "canary_decision md5"
proof unfold_locales
  fix p q :: int and k
  assume "p \<le> q" "canary_decision md5 p k"
  moreover have "canary_bucket md5 k < 100" by (simp add: canary_bucket_def)
  ultimately show "canary_decision md5 q k"
    by (auto simp: canary_decision_def Let_def split: if_splits)
qed (simp_all add: canary_decision_def)

section \<open>Properties\<close>

lemma set_flag_reads:
  assumes "kv_laws get exec" "set_flag exec r flag enabled pct by_whom now_iso = Inr r'"
  shows "get r' (flag_key f field) =
    (if f = flag \<and> field = ''enabled'' then Inr (Some (if enabled then ''true'' else ''false''))
     else if f = flag \<and> field = ''canary_percentage'' then Inr (Some (show_int pct))
     else if f = flag \<and> field = ''updated_at'' then Inr (Some now_iso)
     else if f = flag \<and> field = ''updated_by'' then Inr (Some by_whom)
     else get r (flag_key f field)) \<and> 0 \<le> pct \<and> pct \<le> 100"
  using assms by (auto simp: set_flag_def kv_laws_def flag_keys split: if_splits sum.splits)

lemma lower_true [simp]: "lower ''true'' = ''true''" and lower_false [simp]: "lower ''false'' = ''false''"
  by code_simp+

text \<open>After a flag was set, it is active for a task exactly when it was enabled and the task's
  bucket is below the percentage (100 takes every task), and every other flag is as before.\<close>

theorem set_flag_then_is_enabled:
  assumes "kv_laws get exec" "set_flag exec r flag enabled pct by_whom now_iso = Inr r'"
  shows "is_enabled get md5 r' f task_id =
    (if f = flag
     then enabled \<and> (pct = 100 \<or> (if task_id = [] then 0 else int (md5 task_id) mod 100) < pct)
     else is_enabled get md5 r f task_id)"
proof (cases "f = flag")
  case True
  have "get r' (enabled_key f) = Inr (Some (if enabled then ''true'' else ''false''))"
    "get r' (canary_key f) = Inr (Some (show_int pct))" "0 \<le> pct" "pct \<le> 100"
    using set_flag_reads [OF assms] True by (simp_all add: flag_keys)
  with True show ?thesis
    by (auto simp: is_enabled_def canary_decision_def canary_bucket_def Let_def)
next
  case False
  then have "get r' (enabled_key f) = get r (enabled_key f)"
    "get r' (canary_key f) = get r (canary_key f)"
    using set_flag_reads [OF assms] by (simp_all add: flag_keys)
  with False show ?thesis by (simp add: is_enabled_def split: sum.splits option.splits)
qed

text \<open>A store that keeps the laws: a map, whose operations never fail.\<close>

definition map_get :: "(string \<rightharpoonup> string) \<Rightarrow> string \<Rightarrow> string + string option" where
  "map_get m k = Inr (m k)"

definition map_exec :: "(string \<rightharpoonup> string) \<Rightarrow> (string \<times> string) list \<Rightarrow> string + (string \<rightharpoonup> string)" where
  "map_exec m kvs = Inr (m ++ map_of (rev kvs))"

lemma map_kv_laws: "kv_laws map_get map_exec"
  by (auto simp: kv_laws_def map_get_def map_exec_def map_add_def split: option.splits)

text \<open>What is written is read back: the state of a flag that was just set shows the values it
  was set to, and setting refuses exactly the percentages outside 0 to 100.\<close>

theorem set_flag_state_roundtrip:
  assumes "kv_laws get exec" "\<exists>r'. exec r
       [(enabled_key flag, if enabled then ''true'' else ''false''), (canary_key flag, show_int pct),
        (updated_at_key flag, now_iso), (updated_by_key flag, by_whom)] = Inr r'"
    and "now_iso \<noteq> []" "by_whom \<noteq> []"
  shows "if 0 \<le> pct \<and> pct \<le> 100
     then \<exists>r'. set_flag exec r flag enabled pct by_whom now_iso = Inr r' \<and>
       get_flag_state get r' flag = flag_state_dict flag enabled pct (PStr now_iso) (PStr by_whom)
     else \<exists>msg. set_flag exec r flag enabled pct by_whom now_iso = Inl (ValueError msg)"
proof (cases "0 \<le> pct \<and> pct \<le> 100")
  case True
  then obtain r' where r': "set_flag exec r flag enabled pct by_whom now_iso = Inr r'"
    using assms(2) by (auto simp: set_flag_def)
  have "show_int pct \<noteq> []" by (simp add: show_int_def)
  with set_flag_reads [OF assms(1) r'] assms(3,4) True r' show ?thesis
    by (simp add: get_flag_state_def flag_keys text_or_none_def)
qed (auto simp: set_flag_def)

text \<open>A rollout: the percentage is set again and again, each time on the state before.\<close>

fun rollout ::
  "('r \<Rightarrow> (string \<times> string) list \<Rightarrow> string + 'r) \<Rightarrow> feature_flag \<Rightarrow> string \<Rightarrow> string \<Rightarrow> int list \<Rightarrow> 'r \<Rightarrow> 'r result" where
  "rollout exec flag by_whom now_iso [] r = Inr r"
| "rollout exec flag by_whom now_iso (p # ps) r =
     (case set_flag exec r flag True p by_whom now_iso of
        Inl e \<Rightarrow> Inl e
      | Inr r' \<Rightarrow> rollout exec flag by_whom now_iso ps r')"

lemma rollout_last:
  assumes "kv_laws get exec" "rollout exec flag by_whom now_iso (p # ps) r = Inr r'"
  shows "is_enabled get md5 r' flag task_id = canary_decision md5 (last (p # ps)) task_id"
  using assms(2)
proof (induction ps arbitrary: p r)
  case Nil
  then have "set_flag exec r flag True p by_whom now_iso = Inr r'" by (simp split: sum.splits)
  from set_flag_reads [OF assms(1) this] show ?case by (simp add: is_enabled_def flag_keys)
qed (auto split: sum.splits)

text \<open>A rollout that only ever raises the percentage never takes a task back to the old
  component: a task routed to the new one after any stage is routed there after all later ones.\<close>

theorem rollout_never_moves_back:
  assumes "kv_laws get exec" "sorted (p # ps @ qs)"
    and "rollout exec flag by_whom now_iso (p # ps) r = Inr r1"
    and "rollout exec flag by_whom now_iso (p # ps @ qs) r = Inr r2"
    and "is_enabled get md5 r1 flag task_id"
  shows "is_enabled get md5 r2 flag task_id"
proof -
  have "last (p # ps) \<le> last (p # ps @ qs)"
    using assms(2) by (cases qs rule: rev_cases) (auto simp: sorted_append)
  with assms(5) rollout_last [OF assms(1,3)] rollout_last [OF assms(1,4)] canary.monotone
  show ?thesis by simp
qed

text \<open>The two reads of the flag in one URL: when they agree, the URL is one the chosen service
  serves; when the flag is switched between them, it joins the base of one service with the
  path of the other.\<close>

theorem upload_url_reads_flag_twice:
  "get_artifact_upload_url get md5 rt r1 r2 task_id =
     (if is_using_microservice get md5 r1 task_id then artifact_service_url rt else control_plane_url rt) @
     (if is_using_microservice get md5 r2 task_id then ''/artifacts''
      else ''/api/v1/tasks/'' @ task_id @ ''/artifacts'')"
  by (simp add: get_artifact_upload_url_def get_artifact_base_url_def is_using_microservice_def)

end
