(* ===== verification/Plugin_Policy.thy ===== *)
theory Plugin_Policy
  imports Prelude
begin

text \<open>
  Which plugins run: the manifests and permissions of \<open>plugins/contracts.py\<close>, the policy and the
  manifest reader of \<open>plugins/loader.py\<close>, and the selection of \<open>plugins/registry.py\<close>.

  Files are arguments in their parsed form (\<open>pyval\<close>). A path is the list of its components;
  \<open>resolve\<close>, which follows \<open>..\<close> and symbolic links on disk, and \<open>supports\<close>, the plugin's own
  code, are parameters.
\<close>

section \<open>Manifests\<close>

record plugin_permissions =
  workspace_read :: bool
  workspace_write :: bool
  sandbox_exec :: bool
  network_access :: bool

record plugin_manifest =
  plugin_id :: string
  version :: string
  plugin_type :: string
  entrypoint :: string
  class_name :: string
  enabled :: bool
  priority :: int
  capabilities :: "string list"
  supported_intents :: "string list"
  supported_assistants :: "string list"
  timeout_seconds :: int
  permissions :: plugin_permissions
  source_path :: "string list"

definition normalize_text_list :: "pyval \<Rightarrow> string list" where
  "normalize_text_list v =
     (case v of
        PList items \<Rightarrow> filter (\<lambda>s. s \<noteq> []) (map (\<lambda>item. strip (py_str item)) items)
      | _ \<Rightarrow> [])"

fun normalize_scope_items :: "pydict \<Rightarrow> (string \<times> string list) list \<Rightarrow> (string \<times> string list) list" where
  "normalize_scope_items [] acc = acc"
| "normalize_scope_items ((key, raw_items) # items) acc =
     (let safe_key = lower (strip key) in
      if safe_key = [] then normalize_scope_items items acc
      else normalize_scope_items items (AList.update safe_key (normalize_text_list raw_items) acc))"

definition normalize_scope_mapping :: "pyval \<Rightarrow> (string \<times> string list) list" where
  "normalize_scope_mapping v = (case v of PDict d \<Rightarrow> normalize_scope_items d [] | _ \<Rightarrow> [])"

definition attribute_error :: "pyval \<Rightarrow> py_exn" where
  "attribute_error v = NamedError ''AttributeError'' (type_name v @ '' object has no attribute get'')"

text \<open>\<open>str(payload.get(k, "")).strip()\<close>.\<close>

definition text_field :: "pydict \<Rightarrow> string \<Rightarrow> string" where
  "text_field payload k = strip (py_str (dget_or payload k (PStr [])))"

definition read_permissions :: "pyval \<Rightarrow> plugin_permissions result" where
  "read_permissions v =
     (case v of
        PDict p \<Rightarrow> Inr
          \<lparr>workspace_read = truthy (dget_or p ''workspace_read'' (PBool True)),
           workspace_write = truthy (dget_or p ''workspace_write'' (PBool False)),
           sandbox_exec = truthy (dget_or p ''sandbox_exec'' (PBool False)),
           network_access = truthy (dget_or p ''network_access'' (PBool False))\<rparr>
      | _ \<Rightarrow> Inl (attribute_error v))"

definition read_manifest :: "string list \<Rightarrow> pydict \<Rightarrow> plugin_manifest result" where
  "read_manifest path payload =
     (let pid = text_field payload ''plugin_id'';
          ver = text_field payload ''version'';
          entry = text_field payload ''entrypoint'';
          cls = text_field payload ''class_name'' in
      if pid = [] \<or> entry = [] \<or> cls = []
      then Inl (ValueError (''invalid plugin manifest: '' @ ''/'' @ join ''/'' path))
      else case py_int (dget_or payload ''priority'' (PInt 100)) of
        Inl e \<Rightarrow> Inl e
      | Inr prio \<Rightarrow>
          (case py_int (dget_or payload ''timeout_seconds'' (PInt 15)) of
             Inl e \<Rightarrow> Inl e
           | Inr timeout \<Rightarrow>
               (case read_permissions (py_or (dget payload ''permissions'') (PDict [])) of
                  Inl e \<Rightarrow> Inl e
                | Inr perms \<Rightarrow> Inr
                    \<lparr>plugin_id = pid,
                     version = (if ver = [] then ''0.1.0'' else ver),
                     plugin_type = lower (text_field payload ''plugin_type''),
                     entrypoint = entry,
                     class_name = cls,
                     enabled = truthy (dget_or payload ''enabled'' (PBool True)),
                     priority = prio,
                     capabilities = normalize_text_list (dget payload ''capabilities''),
                     supported_intents = normalize_text_list (dget payload ''supported_intents''),
                     supported_assistants = normalize_text_list (dget payload ''supported_assistants''),
                     timeout_seconds = max 1 timeout,
                     permissions = perms,
                     source_path = path\<rparr>)))"

section \<open>The policy\<close>

record capability_policy =
  allow_workspace_write :: bool
  allow_sandbox_exec :: bool
  allow_network_access :: bool

definition default_capabilities :: capability_policy where
  "default_capabilities =
     \<lparr>allow_workspace_write = True, allow_sandbox_exec = False, allow_network_access = False\<rparr>"

definition denial_reasons :: "capability_policy \<Rightarrow> plugin_permissions \<Rightarrow> string list" where
  "denial_reasons cp p =
     (if workspace_write p \<and> \<not> allow_workspace_write cp then [''workspace_write_not_allowed''] else []) @
     (if sandbox_exec p \<and> \<not> allow_sandbox_exec cp then [''sandbox_exec_not_allowed''] else []) @
     (if network_access p \<and> \<not> allow_network_access cp then [''network_access_not_allowed''] else [])"

definition capability_allowed :: "capability_policy \<Rightarrow> plugin_permissions \<Rightarrow> bool" where
  "capability_allowed cp p \<longleftrightarrow> denial_reasons cp p = []"

record plugin_policy =
  default_deny :: bool
  global_allow :: "string list"
  environment_allow :: "(string \<times> string list) list"
  project_allow :: "(string \<times> string list) list"
  capabilities_policy :: capability_policy

definition listed :: "string \<Rightarrow> string list \<Rightarrow> bool" where
  "listed pid allow \<longleftrightarrow> pid \<in> set allow \<or> ''*'' \<in> set allow"

definition scope_allow :: "(string \<times> string list) list \<Rightarrow> string \<Rightarrow> string list" where
  "scope_allow scopes k = (case map_of scopes k of Some xs \<Rightarrow> xs | None \<Rightarrow> [])"

definition policy_is_allowed :: "plugin_policy \<Rightarrow> string \<Rightarrow> string \<Rightarrow> string \<Rightarrow> bool" where
  "policy_is_allowed pol pid environment project_id =
     (let safe_environment = lower (strip environment); safe_project_id = strip project_id in
      if listed pid (global_allow pol) then True
      else if safe_environment \<noteq> [] \<and> listed pid (scope_allow (environment_allow pol) safe_environment)
      then True
      else if safe_project_id \<noteq> [] \<and> listed pid (scope_allow (project_allow pol) safe_project_id)
      then True
      else \<not> default_deny pol)"

text \<open>\<open>read_policy\<close>: \<open>raw\<close> is \<open>MVP_PLUGIN_ALLOWLIST\<close>, \<open>file\<close> the parsed allowlist file if there is
  one.\<close>

definition empty_policy :: "string list \<Rightarrow> plugin_policy" where
  "empty_policy allow =
     \<lparr>default_deny = True, global_allow = allow, environment_allow = [], project_allow = [],
      capabilities_policy = default_capabilities\<rparr>"

definition read_policy :: "string \<Rightarrow> pyval option \<Rightarrow> plugin_policy result" where
  "read_policy raw file =
     (let env = strip raw in
      if env \<noteq> []
      then Inr (empty_policy (filter (\<lambda>s. s \<noteq> []) (map strip (split_char CHR '','' env))))
      else case file of
        None \<Rightarrow> Inr (empty_policy [])
      | Some (PDict payload) \<Rightarrow>
          (case py_or (dget payload ''capability_policy'') (PDict []) of
             PDict cp \<Rightarrow> Inr
               \<lparr>default_deny = truthy (dget_or payload ''default_deny'' (PBool True)),
                global_allow = normalize_text_list (dget payload ''global_allow''),
                environment_allow = normalize_scope_mapping (dget payload ''environment_allow''),
                project_allow = normalize_scope_mapping (dget payload ''project_allow''),
                capabilities_policy =
                  \<lparr>allow_workspace_write = truthy (dget_or cp ''allow_workspace_write'' (PBool True)),
                   allow_sandbox_exec = truthy (dget_or cp ''allow_sandbox_exec'' (PBool False)),
                   allow_network_access = truthy (dget_or cp ''allow_network_access'' (PBool False))\<rparr>\<rparr>
           | v \<Rightarrow> Inl (attribute_error v))
      | Some v \<Rightarrow> Inl (attribute_error v))"

section \<open>The source file of a plugin\<close>

text \<open>\<open>Path(text)\<close>: empty and \<open>.\<close> components are dropped, \<open>..\<close> is kept.\<close>

definition path_parts :: "string \<Rightarrow> string list" where
  "path_parts s = filter (\<lambda>c. c \<noteq> [] \<and> c \<noteq> ''.'') (split_char CHR ''/'' s)"

definition path_name :: "string list \<Rightarrow> string" where
  "path_name p = (case rev p of [] \<Rightarrow> [] | c # _ \<Rightarrow> c)"

definition resolve_plugin_source ::
  "(string list \<Rightarrow> string list) \<Rightarrow> string list \<Rightarrow> plugin_manifest \<Rightarrow> string list result" where
  "resolve_plugin_source resolve plugin_dir m =
     (if prefix ''/'' (entrypoint m)
      then Inl (PermissionError (''plugin entrypoint must be relative: '' @ entrypoint m))
      else
        let source = resolve (plugin_dir @ path_parts (entrypoint m)) in
        if \<not> prefix plugin_dir source
        then Inl (PermissionError (''plugin entrypoint escapes plugin directory: '' @ entrypoint m))
        else if path_name source \<noteq> [] \<and> \<not> suffix ''_agent.py'' (path_name source)
        then Inl (PermissionError (''plugin entrypoint must target *_agent.py: '' @ entrypoint m))
        else Inr source)"

section \<open>The registry\<close>

definition in_texts :: "pyval \<Rightarrow> string list \<Rightarrow> bool" where
  "in_texts v xs = (case v of PStr s \<Rightarrow> s \<in> set xs | _ \<Rightarrow> False)"

definition resolve_assistant :: "pydict \<Rightarrow> string" where
  "resolve_assistant task =
     (let a = lower (strip (py_str (dget_or task ''assistant'' (PStr []))))
      in if a = [] then ''ai-agent'' else a)"

definition resolve_environment :: "pydict \<Rightarrow> string" where
  "resolve_environment task =
     (let e = lower (strip (py_str (py_or (dget task ''environment'') (py_or (dget task ''env'') (PStr [])))))
      in if e = [] then ''default'' else e)"

fun first_text_field :: "pydict \<Rightarrow> string list \<Rightarrow> string" where
  "first_text_field task [] = []"
| "first_text_field task (k # ks) =
     (let v = text_field task k in if v \<noteq> [] then v else first_text_field task ks)"

definition resolve_project_id :: "pydict \<Rightarrow> string" where
  "resolve_project_id task = first_text_field task [''projectId'', ''projectKey'', ''project_id'']"

definition is_allowed_for_context :: "plugin_policy \<Rightarrow> string \<Rightarrow> pydict \<Rightarrow> bool" where
  "is_allowed_for_context pol pid task =
     policy_is_allowed pol pid (resolve_environment task) (resolve_project_id task)"

text \<open>\<open>__init__\<close> keeps the enabled plugins of a type, by priority; \<open>load_*_plugins\<close> yields them in
  the order of their manifest files.\<close>

definition load_plugins_of_type :: "string \<Rightarrow> plugin_manifest list \<Rightarrow> plugin_manifest list" where
  "load_plugins_of_type t manifests = filter (\<lambda>m. plugin_type m = t) (filter enabled manifests)"

definition registry_plugins :: "string \<Rightarrow> plugin_manifest list \<Rightarrow> plugin_manifest list" where
  "registry_plugins t manifests = sort_key priority (load_plugins_of_type t manifests)"

fun resolve_reviewer_plugins ::
  "(plugin_manifest \<Rightarrow> bool) \<Rightarrow> plugin_policy \<Rightarrow> pydict \<Rightarrow> plugin_manifest list \<Rightarrow> plugin_manifest list" where
  "resolve_reviewer_plugins supports pol task [] = []"
| "resolve_reviewer_plugins supports pol task (m # ms) =
     (let rest = resolve_reviewer_plugins supports pol task ms in
      if \<not> is_allowed_for_context pol (plugin_id m) task then rest
      else if \<not> capability_allowed (capabilities_policy pol) (permissions m) then rest
      else if supported_intents m \<noteq> [] \<and> \<not> in_texts (dget task ''intent'') (supported_intents m) then rest
      else if supported_assistants m \<noteq> [] \<and> resolve_assistant task \<notin> set (supported_assistants m) then rest
      else if supports m then m # rest
      else rest)"

text \<open>\<open>resolve_tester_plugins\<close> has the same body over the tester plugins.\<close>

definition resolve_tester_plugins ::
  "(plugin_manifest \<Rightarrow> bool) \<Rightarrow> plugin_policy \<Rightarrow> pydict \<Rightarrow> plugin_manifest list \<Rightarrow> plugin_manifest list" where
  "resolve_tester_plugins supports pol task ms = resolve_reviewer_plugins supports pol task ms"

fun resolve_generator_plugins ::
  "(plugin_manifest \<Rightarrow> bool) \<Rightarrow> plugin_policy \<Rightarrow> pydict \<Rightarrow> string \<Rightarrow> plugin_manifest list
    \<Rightarrow> plugin_manifest list" where
  "resolve_generator_plugins supports pol task target [] = []"
| "resolve_generator_plugins supports pol task target (m # ms) =
     (let rest = resolve_generator_plugins supports pol task target ms;
          normalized_target = lower (strip target) in
      if \<not> is_allowed_for_context pol (plugin_id m) task then rest
      else if \<not> capability_allowed (capabilities_policy pol) (permissions m) then rest
      else if supported_intents m \<noteq> [] \<and> \<not> in_texts (dget task ''intent'') (supported_intents m) then rest
      else if normalized_target \<noteq> [] \<and>
              ''target:'' @ normalized_target \<notin> set (map (\<lambda>c. lower (strip c)) (capabilities m)) then rest
      else if supported_assistants m \<noteq> [] \<and> resolve_assistant task \<notin> set (supported_assistants m) then rest
      else if supports m then m # rest
      else rest)"

section \<open>Facts about the selection\<close>

lemma resolve_environment_normal [simp]:
  "lower (strip (resolve_environment task)) = resolve_environment task \<and> resolve_environment task \<noteq> []"
proof -
  have "lower (strip ''default'') = ''default''" by code_simp
  then show ?thesis by (auto simp: resolve_environment_def Let_def strip_lower)
qed

lemma first_text_field_strip [simp]: "strip (first_text_field task ks) = first_text_field task ks"
  by (induction ks) (auto simp: Let_def text_field_def)

lemma resolve_project_id_strip [simp]: "strip (resolve_project_id task) = resolve_project_id task"
  unfolding resolve_project_id_def by (rule first_text_field_strip)

lemma reviewer_filter:
  "resolve_reviewer_plugins supports pol task ms =
   filter (\<lambda>m. is_allowed_for_context pol (plugin_id m) task \<and>
     capability_allowed (capabilities_policy pol) (permissions m) \<and>
     (supported_intents m = [] \<or> in_texts (dget task ''intent'') (supported_intents m)) \<and>
     (supported_assistants m = [] \<or> resolve_assistant task \<in> set (supported_assistants m)) \<and>
     supports m) ms"
  by (induction ms) (auto simp: Let_def)

lemma generator_filter:
  "resolve_generator_plugins supports pol task target ms =
   filter (\<lambda>m. lower (strip target) = [] \<or>
       ''target:'' @ lower (strip target) \<in> set (map (\<lambda>c. lower (strip c)) (capabilities m)))
     (resolve_reviewer_plugins supports pol task ms)"
  by (induction ms) (auto simp: Let_def)

lemma sorted_filter_registry:
  "sorted (map priority (filter P (registry_plugins t ms)))"
  unfolding registry_plugins_def by (metis sorted_filter sorted_sort_key)

lemma capability_allowed_iff:
  "capability_allowed cp p \<longleftrightarrow> (workspace_write p \<longrightarrow> allow_workspace_write cp) \<and>
     (sandbox_exec p \<longrightarrow> allow_sandbox_exec cp) \<and> (network_access p \<longrightarrow> allow_network_access cp)"
  by (auto simp: capability_allowed_def denial_reasons_def)

lemma allowed_for_context_iff:
  "is_allowed_for_context pol pid task \<longleftrightarrow> \<not> default_deny pol \<or> listed pid (global_allow pol) \<or>
     listed pid (scope_allow (environment_allow pol) (resolve_environment task)) \<or>
     (resolve_project_id task \<noteq> [] \<and>
      listed pid (scope_allow (project_allow pol) (resolve_project_id task)))"
  by (auto simp: is_allowed_for_context_def policy_is_allowed_def Let_def)

section \<open>Properties\<close>

text \<open>Under a policy that denies by default, a plugin that is selected for a task is enabled, is
  listed (itself or by the wildcard) globally or for the task's environment or project, and
  has no permission beyond what the capability policy grants.\<close>

theorem selected_plugin_authorised:
  assumes "default_deny pol"
    and "m \<in> set (resolve_generator_plugins supports pol task target (registry_plugins t ms)) \<or>
         m \<in> set (resolve_reviewer_plugins supports pol task (registry_plugins t ms))"
  shows "m \<in> set ms \<and> enabled m \<and> plugin_type m = t \<and>
    (listed (plugin_id m) (global_allow pol) \<or>
     listed (plugin_id m) (scope_allow (environment_allow pol) (resolve_environment task)) \<or>
     listed (plugin_id m) (scope_allow (project_allow pol) (resolve_project_id task))) \<and>
    (workspace_write (permissions m) \<longrightarrow> allow_workspace_write (capabilities_policy pol)) \<and>
    (sandbox_exec (permissions m) \<longrightarrow> allow_sandbox_exec (capabilities_policy pol)) \<and>
    (network_access (permissions m) \<longrightarrow> allow_network_access (capabilities_policy pol))"
  using assms
  by (auto simp: generator_filter reviewer_filter registry_plugins_def load_plugins_of_type_def
      capability_allowed_iff allowed_for_context_iff)

definition lint_manifest :: plugin_manifest where
  "lint_manifest =
     \<lparr>plugin_id = ''lint'', version = ''1'', plugin_type = ''reviewer'', entrypoint = ''lint_agent.py'',
      class_name = ''Lint'', enabled = True, priority = 10, capabilities = [],
      supported_intents = [], supported_assistants = [], timeout_seconds = 15,
      permissions = \<lparr>workspace_read = True, workspace_write = False, sandbox_exec = False,
        network_access = False\<rparr>, source_path = []\<rparr>"

text \<open>Every selection keeps the plugins in the order of their priority, and selecting
  generators for a target selects among those that would be selected without one.\<close>

theorem selection_by_priority:
  "sorted (map priority (resolve_reviewer_plugins supports pol task (registry_plugins t ms))) \<and>
   sorted (map priority (resolve_generator_plugins supports pol task target (registry_plugins t ms))) \<and>
   set (resolve_generator_plugins supports pol task target (registry_plugins t ms))
     \<subseteq> set (resolve_generator_plugins supports pol task [] (registry_plugins t ms))"
  by (auto simp: generator_filter reviewer_filter sorted_filter_registry)

lemma scope_keys_lower:
  "fst ` set acc \<subseteq> range lower \<Longrightarrow> fst ` set (normalize_scope_items d acc) \<subseteq> range lower"
  by (induction d acc rule: normalize_scope_items.induct) (auto simp: Let_def dom_update)

lemma normalize_scope_mapping_lower:
  "lower k \<noteq> k \<Longrightarrow> map_of (normalize_scope_mapping v) k = None"
proof -
  assume k: "lower k \<noteq> k"
  then have "k \<notin> range lower" by (metis lower_lower rangeE)
  then show ?thesis
    using scope_keys_lower [of "[]"]
    by (cases v) (auto simp: normalize_scope_mapping_def map_of_eq_None_iff)
qed

text \<open>The allowlist file's project entries are stored under lower-case keys but looked up by
  the project id as it is: for a project whose id has an upper-case letter no entry of
  \<open>project_allow\<close> ever applies, so a plugin allowed only there is refused.\<close>

theorem project_allow_misses_upper_case:
  assumes "read_policy raw file = Inr pol" "default_deny pol"
    and "lower (resolve_project_id task) \<noteq> resolve_project_id task"
    and "\<not> listed pid (global_allow pol)"
    and "\<not> listed pid (scope_allow (environment_allow pol) (resolve_environment task))"
  shows "\<not> is_allowed_for_context pol pid task"
proof -
  have "scope_allow (project_allow pol) (resolve_project_id task) = []"
    using assms(1) normalize_scope_mapping_lower [OF assms(3)]
    by (auto simp: read_policy_def Let_def empty_policy_def scope_allow_def
        split: if_splits option.splits pyval.splits)
  with assms show ?thesis by (simp add: allowed_for_context_iff listed_def)
qed

text \<open>A manifest that is read has an id, an entry point, a class name and a version, a positive
  timeout, and stripped, non-empty intents, assistants and capabilities; without a
  \<open>permissions\<close> entry it may only read the workspace.\<close>

theorem read_manifest_well_formed:
  assumes "read_manifest path payload = Inr m"
  shows "plugin_id m \<noteq> [] \<and> entrypoint m \<noteq> [] \<and> class_name m \<noteq> [] \<and> version m \<noteq> [] \<and>
    1 \<le> timeout_seconds m \<and>
    (\<forall>s\<in>set (capabilities m) \<union> set (supported_intents m) \<union> set (supported_assistants m).
       s \<noteq> [] \<and> strip s = s) \<and>
    (\<not> has_key payload ''permissions'' \<longrightarrow>
       permissions m = \<lparr>workspace_read = True, workspace_write = False, sandbox_exec = False,
         network_access = False\<rparr>)"
proof -
  have texts: "[] \<notin> set (normalize_text_list v)"
    "s \<in> set (normalize_text_list v) \<Longrightarrow> strip s = s" for s v
    by (auto simp: normalize_text_list_def split: pyval.splits)
  have "\<not> has_key payload ''permissions'' \<Longrightarrow> py_or (dget payload ''permissions'') (PDict []) = PDict []"
    by (simp add: has_key_def dget_def py_or_def)
  then have perms: "\<not> has_key payload ''permissions'' \<Longrightarrow>
      read_permissions (py_or (dget payload ''permissions'') (PDict [])) = Inr p \<Longrightarrow>
      p = \<lparr>workspace_read = True, workspace_write = False, sandbox_exec = False,
         network_access = False\<rparr>" for p
    by (simp add: read_permissions_def dget_or_def)
  show ?thesis
    using assms texts perms by (auto simp: read_manifest_def Let_def split: if_splits sum.splits)
qed

end
