(* ===== verification/Plugin_Gates.thy ===== *)
theory Plugin_Gates
  imports Plugin_Policy
begin

text \<open>
  The gates between a selected plugin and its execution: the approval workflow of
  \<open>plugins/approval_workflow.py\<close>, the human gate of \<open>plugins/human_gate.py\<close>, the diff reviewer
  of \<open>plugins/diff_risk_reviewer_agent.py\<close>, the resource limits of
  \<open>plugins/resource_limits.py\<close> and the events of \<open>plugins/audit_trail.py\<close>.

  A fresh \<open>uuid4\<close> and a clock reading are arguments. The HTTP client and \<open>setrlimit\<close> are
  parameters; how a plugin's thread ends is an argument of \<open>execute_with_limits\<close>.
\<close>

section \<open>Approval of a plugin\<close>

record approval_request =
  ar_approval_id :: string
  ar_task_id :: string
  ar_trace_id :: string
  ar_run_id :: string
  ar_plugin_id :: string
  ar_plugin_version :: string
  ar_action :: string
  ar_reason :: string
  ar_risk_score :: rat
  ar_context :: pydict
  ar_required_policies :: "string list"
  ar_timeout_seconds :: int

definition request_to_dict :: "approval_request \<Rightarrow> pydict" where
  "request_to_dict r =
     [(''approvalId'', PStr (ar_approval_id r)),
      (''taskId'', PStr (ar_task_id r)),
      (''traceId'', PStr (ar_trace_id r)),
      (''runId'', PStr (ar_run_id r)),
      (''action'', PStr (ar_action r)),
      (''tool'', PStr (''plugin:'' @ ar_plugin_id r)),
      (''reason'', PStr (ar_reason r)),
      (''riskScore'', PFloat (ar_risk_score r)),
      (''context'', PDict (ar_context r)),
      (''requiredPolicies'', PList (map PStr (ar_required_policies r))),
      (''timeoutSeconds'', PInt (ar_timeout_seconds r))]"

record approval_decision =
  ad_approval_id :: string
  ad_decision :: pyval
  ad_message :: pyval
  ad_decided_by :: pyval

record approval_workflow =
  auto_approve_low_risk :: bool
  risk_threshold :: rat

definition default_workflow :: approval_workflow where
  "default_workflow = \<lparr>auto_approve_low_risk = True, risk_threshold = 1 / 2\<rparr>"

definition calculate_risk_score :: "plugin_manifest \<Rightarrow> rat" where
  "calculate_risk_score m =
     min 1 ((if sandbox_exec (permissions m) then 4 / 10 else 0) +
            (if network_access (permissions m) then 3 / 10 else 0) +
            (if workspace_write (permissions m) then 2 / 10 else 0) +
            (if \<not> prefix ''builtin.'' (plugin_id m) then 1 / 10 else 0))"

definition requires_approval :: "approval_workflow \<Rightarrow> plugin_manifest \<Rightarrow> bool" where
  "requires_approval w m =
     (if sandbox_exec (permissions m) then True
      else if network_access (permissions m) then True
      else if workspace_write (permissions m)
      then (if calculate_risk_score m \<ge> risk_threshold w then True
            else \<not> auto_approve_low_risk w)
      else False)"

definition determine_required_policies :: "plugin_manifest \<Rightarrow> string list" where
  "determine_required_policies m =
     [''plugin:execute''] @
     (if workspace_write (permissions m) then [''plugin:workspace_write''] else []) @
     (if sandbox_exec (permissions m) then [''plugin:sandbox_exec''] else []) @
     (if network_access (permissions m) then [''plugin:network_access''] else [])"

definition generate_approval_reason :: "plugin_manifest \<Rightarrow> string" where
  "generate_approval_reason m =
     (let ps = (if workspace_write (permissions m) then [''workspace write''] else []) @
               (if sandbox_exec (permissions m) then [''sandbox execution''] else []) @
               (if network_access (permissions m) then [''network access''] else []);
          perm_str = (if ps \<noteq> [] then join '', '' ps else ''read-only'')
      in ''Plugin '' @ quote_text (plugin_id m) @ '' (v'' @ version m @ '') requires approval for '' @
         perm_str @ '' permissions'')"

definition permissions_dict :: "plugin_permissions \<Rightarrow> pydict" where
  "permissions_dict p =
     [(''workspace_read'', PBool (workspace_read p)),
      (''workspace_write'', PBool (workspace_write p)),
      (''sandbox_exec'', PBool (sandbox_exec p)),
      (''network_access'', PBool (network_access p))]"

text \<open>\<open>request_approval\<close>: \<open>u1\<close> to \<open>u3\<close> are the fresh identifiers it draws, in this order.\<close>

definition request_plugin_approval ::
  "string \<Rightarrow> string \<Rightarrow> string \<Rightarrow> plugin_manifest \<Rightarrow> pydict \<Rightarrow> approval_request" where
  "request_plugin_approval u1 u2 u3 m task =
     \<lparr>ar_approval_id = u3,
      ar_task_id = py_str (dget_or task ''taskId'' (PStr ''unknown'')),
      ar_trace_id = py_str (dget_or task ''traceId'' (PStr u1)),
      ar_run_id = py_str (dget_or task ''runId'' (PStr u2)),
      ar_plugin_id = plugin_id m,
      ar_plugin_version = version m,
      ar_action = ''plugin_execution'',
      ar_reason = generate_approval_reason m,
      ar_risk_score = calculate_risk_score m,
      ar_context =
        [(''plugin_id'', PStr (plugin_id m)), (''plugin_version'', PStr (version m)),
         (''plugin_type'', PStr (plugin_type m)),
         (''permissions'', PDict (permissions_dict (permissions m))),
         (''capabilities'', PList (map PStr (capabilities m))),
         (''timeout_seconds'', PInt (timeout_seconds m))],
      ar_required_policies = determine_required_policies m,
      ar_timeout_seconds = 300\<rparr>"

text \<open>The client is a look-up of its methods by name: calling a method it does not have raises
  \<open>AttributeError\<close>. \<open>control_plane_methods\<close> are the methods \<open>ControlPlaneClient\<close> has.\<close>

type_synonym http_client = "string \<Rightarrow> (string \<Rightarrow> pyval \<Rightarrow> pyval result) option"

definition call_client :: "http_client \<Rightarrow> string \<Rightarrow> string \<Rightarrow> pyval \<Rightarrow> pyval result" where
  "call_client c method url body =
     (case c method of
        None \<Rightarrow> Inl (NamedError ''AttributeError'' (''object has no attribute '' @ quote_text method))
      | Some f \<Rightarrow> f url body)"

definition control_plane_methods :: "string list" where
  "control_plane_methods =
     [''__init__'', ''register'', ''heartbeat'', ''poll_next_task'', ''publish_event'',
      ''publish_event_with_retry'', ''publish_event_with_retry_result'',
      ''get_event_delivery_metrics'', ''extract_ack_response'', ''validate_ack_response'',
      ''publish_event_with_ack'', ''reset_metrics'', ''upload_artifact'', ''_obtain_jwt'',
      ''_get_auth_header'', ''_post_json'', ''_request_json'']"

definition control_plane_client :: "http_client \<Rightarrow> http_client" where
  "control_plane_client impl name = (if name \<in> set control_plane_methods then impl name else None)"

definition no_client_error :: py_exn where
  "no_client_error = RuntimeError ''Control plane client not configured''"

definition submit_approval_request :: "http_client option \<Rightarrow> approval_request \<Rightarrow> string result" where
  "submit_approval_request client r =
     (case client of
        None \<Rightarrow> Inl no_client_error
      | Some c \<Rightarrow>
          (case call_client c ''post'' ''/api/approvals'' (PDict (request_to_dict r)) of
             Inr response \<Rightarrow> Inr (ar_approval_id r)
           | Inl e \<Rightarrow> Inl (if is_Exception e
                        then RuntimeError (''Failed to submit approval request: '' @ exn_text e) else e)))"

text \<open>\<open>check_approval_status\<close>: what the client's \<open>get\<close> returns is the parsed body.\<close>

definition read_decision :: "string \<Rightarrow> pyval \<Rightarrow> approval_decision result" where
  "read_decision approval_id data =
     (case data of
        PDict d \<Rightarrow> Inr \<lparr>ad_approval_id = approval_id,
                       ad_decision = dget_or d ''decision'' (PStr ''PENDING''),
                       ad_message = dget d ''decisionMessage'',
                       ad_decided_by = dget d ''decidedBy''\<rparr>
      | v \<Rightarrow> Inl (attribute_error v))"

definition check_approval_status :: "http_client option \<Rightarrow> string \<Rightarrow> approval_decision result" where
  "check_approval_status client approval_id =
     (case client of
        None \<Rightarrow> Inl no_client_error
      | Some c \<Rightarrow>
          (case (case call_client c ''get'' (''/api/approvals/'' @ approval_id) PNone of
                   Inl e \<Rightarrow> Inl e | Inr data \<Rightarrow> read_decision approval_id data) of
             Inr d \<Rightarrow> Inr d
           | Inl e \<Rightarrow> Inl (if is_Exception e
                        then RuntimeError (''Failed to check approval status: '' @ exn_text e) else e)))"

section \<open>The human gate\<close>

datatype pipeline_stage = PLAN | CODE | TEST | DEPLOY

fun stage_value :: "pipeline_stage \<Rightarrow> string" where
  "stage_value PLAN = ''plan''"
| "stage_value CODE = ''code''"
| "stage_value TEST = ''test''"
| "stage_value DEPLOY = ''deploy''"

record gate_decision =
  approved :: bool
  feedback :: "string option"

record human_gate =
  has_client :: bool
  gate_pending :: "string \<rightharpoonup> pydict"

text \<open>\<open>env\<close> is the value of \<open>MVP_APPROVAL_STAGES\<close>, empty when unset.\<close>

definition should_gate :: "string \<Rightarrow> pipeline_stage \<Rightarrow> pydict \<Rightarrow> bool" where
  "should_gate env stage task =
     (case dget_or task ''approvalStages'' (PList []) of
        PList xs \<Rightarrow> PStr (stage_value stage) \<in> set xs
      | _ \<Rightarrow> stage_value stage \<in> set (map strip (split_char CHR '','' env)))"

definition request_gate_approval ::
  "string \<Rightarrow> pydict \<Rightarrow> pipeline_stage \<Rightarrow> string \<Rightarrow> pydict \<Rightarrow> human_gate \<Rightarrow> string \<times> human_gate" where
  "request_gate_approval uuid task stage summary details g =
     (uuid, g\<lparr>gate_pending := (gate_pending g)(uuid \<mapsto>
        [(''stage'', PStr (stage_value stage)), (''summary'', PStr summary),
         (''details'', PDict details), (''task'', PDict task)])\<rparr>)"

definition check_gate_approval :: "human_gate \<Rightarrow> string \<Rightarrow> gate_decision" where
  "check_gate_approval g approval_id =
     (if gate_pending g approval_id = None
      then \<lparr>approved = False, feedback = Some ''Unknown approval ID''\<rparr>
      else if \<not> has_client g
      then \<lparr>approved = True, feedback = Some ''Auto-approved (no client)''\<rparr>
      else \<lparr>approved = True, feedback = Some ''Approved''\<rparr>)"

section \<open>The diff reviewer\<close>

datatype risk_level = Low | Medium | High

fun risk_rank :: "risk_level \<Rightarrow> nat" where
  "risk_rank Low = 0"
| "risk_rank Medium = 1"
| "risk_rank High = 2"

instantiation risk_level :: linorder
begin

definition less_eq_risk_level :: "risk_level \<Rightarrow> risk_level \<Rightarrow> bool" where
  "less_eq_risk_level a b \<longleftrightarrow> risk_rank a \<le> risk_rank b"

definition less_risk_level :: "risk_level \<Rightarrow> risk_level \<Rightarrow> bool" where
  "less_risk_level a b \<longleftrightarrow> risk_rank a < risk_rank b"

instance
proof
  fix a b :: risk_level
  show "a \<le> b \<Longrightarrow> b \<le> a \<Longrightarrow> a = b"
    by (cases a; cases b) (auto simp: less_eq_risk_level_def)
qed (auto simp: less_eq_risk_level_def less_risk_level_def)

end

fun risk_text :: "risk_level \<Rightarrow> string" where
  "risk_text Low = ''low''"
| "risk_text Medium = ''medium''"
| "risk_text High = ''high''"

record review_result =
  rv_approved :: bool
  rv_summary :: string
  rv_issues :: "string list"
  rv_risk_level :: risk_level

definition review_text :: "pydict \<Rightarrow> string" where
  "review_text task =
     py_str (py_or (dget task ''latestDiff'')
       (py_or (dget task ''diff'') (py_or (dget task ''patch'') (PStr []))))"

definition reviewer_supports :: "pydict \<Rightarrow> bool" where
  "reviewer_supports task \<longleftrightarrow> strip (review_text task) \<noteq> []"

definition dangerous_tokens :: "string list" where
  "dangerous_tokens = [''rm -rf'', ''drop table'', ''truncate table'', ''chmod 777'']"

definition runtime_tokens :: "string list" where
  "runtime_tokens = [''subprocess'', ''os.system'', ''eval('', ''exec('']"

definition mentions :: "string list \<Rightarrow> string \<Rightarrow> bool" where
  "mentions tokens text \<longleftrightarrow> list_ex (\<lambda>t. contains t (lower text)) tokens"

definition review_diff :: "string \<Rightarrow> review_result" where
  "review_diff diff_text =
     (let (issues, risk) =
        (if mentions dangerous_tokens diff_text then ([''dangerous_diff_tokens''], High)
         else if mentions runtime_tokens diff_text then ([''runtime_execution_risk''], Medium)
         else ([], Low))
      in \<lparr>rv_approved = (risk \<noteq> High),
          rv_summary = (if risk = High then ''Plugin reviewer blocked dangerous diff.''
                        else ''Plugin reviewer completed risk scan.''),
          rv_issues = issues,
          rv_risk_level = risk\<rparr>)"

text \<open>\<open>review\<close>: the result, and the event it publishes.\<close>

definition diff_review :: "pydict \<Rightarrow> review_result \<times> pydict" where
  "diff_review task =
     (let r = review_diff (review_text task) in
      (r, [(''stage'', PStr ''ReviewerPlugin''), (''message'', PStr ''Plugin reviewer completed.''),
           (''pluginId'', dget task ''_activeReviewerPlugin''), (''approved'', PBool (rv_approved r)),
           (''summary'', PStr (rv_summary r)), (''riskLevel'', PStr (risk_text (rv_risk_level r))),
           (''issues'', PList (map PStr (rv_issues r)))]))"

section \<open>Resource limits\<close>

datatype rlimit = RLIMIT_AS | RLIMIT_CPU | RLIMIT_NOFILE | RLIMIT_NPROC

record resource_limits =
  max_memory_mb :: int
  max_cpu_time_seconds :: int
  max_wall_time_seconds :: int
  max_file_descriptors :: int
  max_processes :: int

definition parse_int_env :: "(string \<Rightarrow> string) \<Rightarrow> string \<Rightarrow> int \<Rightarrow> int" where
  "parse_int_env env key dflt =
     (let raw = strip (env key) in
      if raw = [] then dflt
      else case parse_int raw of Some n \<Rightarrow> max 1 n | None \<Rightarrow> dflt)"

definition limits_from_env :: "(string \<Rightarrow> string) \<Rightarrow> resource_limits" where
  "limits_from_env env =
     \<lparr>max_memory_mb = parse_int_env env ''MVP_PLUGIN_MAX_MEMORY_MB'' 512,
      max_cpu_time_seconds = parse_int_env env ''MVP_PLUGIN_MAX_CPU_TIME_SECONDS'' 30,
      max_wall_time_seconds = parse_int_env env ''MVP_PLUGIN_MAX_WALL_TIME_SECONDS'' 60,
      max_file_descriptors = parse_int_env env ''MVP_PLUGIN_MAX_FILE_DESCRIPTORS'' 100,
      max_processes = parse_int_env env ''MVP_PLUGIN_MAX_PROCESSES'' 10\<rparr>"

text \<open>The errors \<open>except (ValueError, OSError)\<close> catches.\<close>

fun is_limit_error :: "py_exn \<Rightarrow> bool" where
  "is_limit_error (ValueError _) = True"
| "is_limit_error (PermissionError _) = True"
| "is_limit_error (FileNotFoundError _) = True"
| "is_limit_error (TimeoutError _) = True"
| "is_limit_error (NamedError c _) = (c = ''OSError'')"
| "is_limit_error _ = False"

definition requested_limits :: "resource_limits \<Rightarrow> (rlimit \<times> int) list" where
  "requested_limits l =
     [(RLIMIT_AS, max_memory_mb l * 1024 * 1024), (RLIMIT_CPU, max_cpu_time_seconds l),
      (RLIMIT_NOFILE, max_file_descriptors l), (RLIMIT_NPROC, max_processes l)]"

text \<open>\<open>setrlimit\<close> acts on the limits \<open>'p\<close> of the process; the first error ends the sequence.\<close>

fun set_limits ::
  "(rlimit \<Rightarrow> int \<Rightarrow> 'p \<Rightarrow> 'p result) \<Rightarrow> (rlimit \<times> int) list \<Rightarrow> 'p \<Rightarrow> py_exn option \<times> 'p" where
  "set_limits setrlimit [] p = (None, p)"
| "set_limits setrlimit ((r, v) # ls) p =
     (case setrlimit r v p of Inl e \<Rightarrow> (Some e, p) | Inr p' \<Rightarrow> set_limits setrlimit ls p')"

definition apply_resource_limits ::
  "bool \<Rightarrow> (rlimit \<Rightarrow> int \<Rightarrow> 'p \<Rightarrow> 'p result) \<Rightarrow> resource_limits \<Rightarrow> 'p \<Rightarrow> py_exn option \<times> 'p" where
  "apply_resource_limits has_resource setrlimit limits p =
     (if \<not> has_resource then (None, p)
      else case set_limits setrlimit (requested_limits limits) p of
        (Some e, p') \<Rightarrow> (if is_limit_error e then None else Some e, p')
      | (None, p') \<Rightarrow> (None, p'))"

text \<open>The thread: its lists of results and errors when the operation, started under the limits
  then in force, ends with an outcome. A \<open>BaseException\<close> leaves both empty.\<close>

definition wrapped_operation ::
  "bool \<Rightarrow> (rlimit \<Rightarrow> int \<Rightarrow> 'p \<Rightarrow> 'p result) \<Rightarrow> resource_limits \<Rightarrow> ('p \<Rightarrow> 'a result) \<Rightarrow> 'p
    \<Rightarrow> ('a list \<times> py_exn list) \<times> 'p" where
  "wrapped_operation has_resource setrlimit limits operation p =
     (case apply_resource_limits has_resource setrlimit limits p of
        (Some e, p') \<Rightarrow> (([], if is_Exception e then [e] else []), p')
      | (None, p') \<Rightarrow>
          (case operation p' of
             Inr v \<Rightarrow> ([v], [])
           | Inl e \<Rightarrow> ([], if is_Exception e then [e] else []), p'))"

text \<open>\<open>in_time\<close> says, for the wall time limit, whether the thread ends within it.\<close>

definition wall_time_limit :: "resource_limits \<Rightarrow> int option \<Rightarrow> int" where
  "wall_time_limit limits timeout =
     (case timeout of Some t \<Rightarrow> if t \<noteq> 0 then t else max_wall_time_seconds limits
      | None \<Rightarrow> max_wall_time_seconds limits)"

definition execute_with_limits ::
  "bool \<Rightarrow> (rlimit \<Rightarrow> int \<Rightarrow> 'p \<Rightarrow> 'p result) \<Rightarrow> (int \<Rightarrow> bool) \<Rightarrow> resource_limits \<Rightarrow> string
    \<Rightarrow> ('p \<Rightarrow> 'a result) \<Rightarrow> int option \<Rightarrow> 'p \<Rightarrow> 'a result" where
  "execute_with_limits has_resource setrlimit in_time limits pid operation timeout p =
     (let wall = wall_time_limit limits timeout in
      if \<not> in_time wall
      then Inl (TimeoutError (''Plugin '' @ pid @ '' exceeded wall time limit of '' @ show_int wall @ ''s''))
      else case fst (wrapped_operation has_resource setrlimit limits operation p) of
        (results, e # es) \<Rightarrow> Inl e
      | ([], []) \<Rightarrow> Inl (RuntimeError (''Plugin '' @ pid @ '' completed without result''))
      | (v # vs, []) \<Rightarrow> Inr v)"

section \<open>Audit events\<close>

datatype log_level = INFO | WARNING | ERROR

record audit_event =
  ev_type :: string
  ev_plugin_id :: string
  ev_plugin_version :: string
  ev_task_id :: string
  ev_trace_id :: string
  ev_run_id :: string
  ev_timestamp :: string
  ev_user_id :: pyval
  ev_decision :: pyval
  ev_risk_score :: pyval
  ev_resource_usage :: pyval
  ev_error_message :: pyval
  ev_metadata :: pyval

definition audit_to_dict :: "audit_event \<Rightarrow> pydict" where
  "audit_to_dict e = filter (\<lambda>(k, v). v \<noteq> PNone)
     [(''event_type'', PStr (ev_type e)), (''plugin_id'', PStr (ev_plugin_id e)),
      (''plugin_version'', PStr (ev_plugin_version e)), (''task_id'', PStr (ev_task_id e)),
      (''trace_id'', PStr (ev_trace_id e)), (''run_id'', PStr (ev_run_id e)),
      (''timestamp'', PStr (ev_timestamp e)), (''user_id'', ev_user_id e),
      (''decision'', ev_decision e), (''risk_score'', ev_risk_score e),
      (''resource_usage'', ev_resource_usage e), (''error_message'', ev_error_message e),
      (''metadata'', ev_metadata e)]"

text \<open>The identifiers each \<open>log_*\<close> method is called with, and the event they start from.\<close>

record audit_ids =
  id_task :: string
  id_trace :: string
  id_run :: string
  id_now :: string

definition base_event :: "string \<Rightarrow> plugin_manifest \<Rightarrow> audit_ids \<Rightarrow> audit_event" where
  "base_event t m i =
     \<lparr>ev_type = t, ev_plugin_id = plugin_id m, ev_plugin_version = version m,
      ev_task_id = id_task i, ev_trace_id = id_trace i, ev_run_id = id_run i,
      ev_timestamp = id_now i, ev_user_id = PNone, ev_decision = PNone, ev_risk_score = PNone,
      ev_resource_usage = PNone, ev_error_message = PNone, ev_metadata = PNone\<rparr>"

definition log_plugin_loaded :: "plugin_manifest \<Rightarrow> audit_ids \<Rightarrow> audit_event \<times> log_level" where
  "log_plugin_loaded m i =
     ((base_event ''plugin_loaded'' m i)\<lparr>ev_metadata := PDict
        [(''plugin_type'', PStr (plugin_type m)), (''enabled'', PBool (enabled m)),
         (''priority'', PInt (priority m)), (''capabilities'', PList (map PStr (capabilities m))),
         (''permissions'', PDict (permissions_dict (permissions m)))]\<rparr>, INFO)"

definition log_plugin_execution_started :: "plugin_manifest \<Rightarrow> audit_ids \<Rightarrow> audit_event \<times> log_level" where
  "log_plugin_execution_started m i = (base_event ''plugin_execution_started'' m i, INFO)"

definition log_plugin_execution_completed ::
  "plugin_manifest \<Rightarrow> audit_ids \<Rightarrow> pyval \<Rightarrow> audit_event \<times> log_level" where
  "log_plugin_execution_completed m i usage =
     ((base_event ''plugin_execution_completed'' m i)\<lparr>ev_resource_usage := usage\<rparr>, INFO)"

definition log_plugin_execution_failed ::
  "plugin_manifest \<Rightarrow> audit_ids \<Rightarrow> string \<Rightarrow> pyval \<Rightarrow> audit_event \<times> log_level" where
  "log_plugin_execution_failed m i msg usage =
     ((base_event ''plugin_execution_failed'' m i)
        \<lparr>ev_error_message := PStr msg, ev_resource_usage := usage\<rparr>, ERROR)"

definition log_approval_requested ::
  "plugin_manifest \<Rightarrow> audit_ids \<Rightarrow> string \<Rightarrow> rat \<Rightarrow> audit_event \<times> log_level" where
  "log_approval_requested m i approval_id score =
     ((base_event ''plugin_approval_requested'' m i)\<lparr>ev_risk_score := PFloat score,
        ev_metadata := PDict [(''approval_id'', PStr approval_id)]\<rparr>, INFO)"

definition log_approval_decision ::
  "plugin_manifest \<Rightarrow> audit_ids \<Rightarrow> string \<Rightarrow> string \<Rightarrow> pyval \<Rightarrow> audit_event \<times> log_level" where
  "log_approval_decision m i approval_id decision decided_by =
     ((base_event ''plugin_approval_decision'' m i)\<lparr>ev_decision := PStr decision,
        ev_user_id := decided_by, ev_metadata := PDict [(''approval_id'', PStr approval_id)]\<rparr>, INFO)"

definition log_security_violation ::
  "plugin_manifest \<Rightarrow> audit_ids \<Rightarrow> string \<Rightarrow> string \<Rightarrow> audit_event \<times> log_level" where
  "log_security_violation m i violation details =
     ((base_event ''plugin_security_violation'' m i)\<lparr>ev_error_message := PStr details,
        ev_metadata := PDict [(''violation_type'', PStr violation)]\<rparr>, WARNING)"

definition log_resource_limit_exceeded ::
  "plugin_manifest \<Rightarrow> audit_ids \<Rightarrow> string \<Rightarrow> pyval \<Rightarrow> pyval \<Rightarrow> audit_event \<times> log_level" where
  "log_resource_limit_exceeded m i limit_type limit_value actual_value =
     ((base_event ''plugin_resource_limit_exceeded'' m i)
        \<lparr>ev_error_message := PStr (''Resource limit exceeded: '' @ limit_type),
         ev_metadata := PDict [(''limit_type'', PStr limit_type), (''limit_value'', limit_value),
           (''actual_value'', actual_value)]\<rparr>, WARNING)"

definition log_circuit_breaker_opened ::
  "plugin_manifest \<Rightarrow> audit_ids \<Rightarrow> int \<Rightarrow> audit_event \<times> log_level" where
  "log_circuit_breaker_opened m i failures =
     ((base_event ''plugin_circuit_breaker_opened'' m i)
        \<lparr>ev_metadata := PDict [(''failure_count'', PInt failures)]\<rparr>, WARNING)"

section \<open>Facts\<close>

lemma mentions_append: "mentions ts s \<Longrightarrow> mentions ts (s @ t)"
  by (auto simp: mentions_def list_ex_iff contains_iff) (metis append.assoc)

lemma review_risk:
  "rv_risk_level (review_diff s) =
     (if mentions dangerous_tokens s then High else if mentions runtime_tokens s then Medium else Low)"
  by (simp add: review_diff_def Let_def)

lemma set_limits_Inl:
  "setrlimit r v p = Inl e \<Longrightarrow> set_limits setrlimit ((r, v) # ls) p = (Some e, p)"
  by simp

lemma set_limits_all:
  "(\<And>r v q. (r, v) \<in> set ls \<Longrightarrow> setrlimit r v q = Inr (q(r := v))) \<Longrightarrow> distinct (map fst ls) \<Longrightarrow>
   set_limits setrlimit ls p = (None, override_on p (\<lambda>r. the (map_of ls r)) (fst ` set ls))"
proof (induction ls arbitrary: p)
  case (Cons l ls)
  obtain r v where l: "l = (r, v)" by fastforce
  have "set_limits setrlimit ls (p(r := v)) = (None, override_on (p(r := v)) (\<lambda>r. the (map_of ls r)) (fst ` set ls))"
    using Cons.prems by (intro Cons.IH) (auto simp: l)
  moreover have "override_on (p(r := v)) (\<lambda>r. the (map_of ls r)) (fst ` set ls) =
      override_on p (\<lambda>r. the (map_of (l # ls) r)) (fst ` set (l # ls))"
    using Cons.prems(2) by (auto simp: l override_on_def fun_eq_iff)
  ultimately show ?case using Cons.prems(1) [of r v p] by (simp add: l fun_upd_def)
qed simp

text \<open>Every event names its type, plugin, version, task, trace, run and time, and no entry of the
  logged dictionary is \<open>None\<close>.\<close>

lemma audit_event_complete:
  "has_key (audit_to_dict e) ''event_type'' \<and> dget (audit_to_dict e) ''plugin_id'' = PStr (ev_plugin_id e) \<and>
   dget (audit_to_dict e) ''task_id'' = PStr (ev_task_id e) \<and>
   dget (audit_to_dict e) ''timestamp'' = PStr (ev_timestamp e) \<and> PNone \<notin> snd ` set (audit_to_dict e)"
  by (auto simp: audit_to_dict_def has_key_def dget_def)

section \<open>Properties\<close>

definition permissions_le :: "plugin_permissions \<Rightarrow> plugin_permissions \<Rightarrow> bool" where
  "permissions_le p q \<longleftrightarrow> (workspace_write p \<longrightarrow> workspace_write q) \<and>
     (sandbox_exec p \<longrightarrow> sandbox_exec q) \<and> (network_access p \<longrightarrow> network_access q)"

text \<open>A plugin with more permissions, and no more trusted, needs approval whenever the other
  does, with at least its risk score, which stays within 0 and 1, and under all its policies. By
  default only sandbox execution and network access need approval: the score of a plugin that
  merely writes to the workspace never reaches the threshold.\<close>

theorem approval_monotone:
  assumes "permissions_le (permissions m) (permissions m')"
    and "prefix ''builtin.'' (plugin_id m') \<Longrightarrow> prefix ''builtin.'' (plugin_id m)"
  shows "(requires_approval w m \<longrightarrow> requires_approval w m') \<and>
    0 \<le> calculate_risk_score m \<and> calculate_risk_score m \<le> calculate_risk_score m' \<and>
    calculate_risk_score m' \<le> 1 \<and>
    set (determine_required_policies m) \<subseteq> set (determine_required_policies m') \<and>
    (requires_approval default_workflow m \<longleftrightarrow>
       sandbox_exec (permissions m) \<or> network_access (permissions m))"
proof -
  have score: "0 \<le> calculate_risk_score n" "calculate_risk_score n \<le> 1"
    "\<not> sandbox_exec (permissions n) \<Longrightarrow> \<not> network_access (permissions n) \<Longrightarrow> calculate_risk_score n < 1 / 2"
    for n by (simp_all add: calculate_risk_score_def min_def)
  have le: "calculate_risk_score m \<le> calculate_risk_score m'"
    using assms unfolding calculate_risk_score_def permissions_le_def
    by (intro min.mono add_mono) auto
  have "requires_approval w m \<longrightarrow> requires_approval w m'"
    using assms(1) le by (auto simp: requires_approval_def permissions_le_def)
  moreover have "set (determine_required_policies m) \<subseteq> set (determine_required_policies m')"
    using assms(1) by (auto simp: determine_required_policies_def permissions_le_def)
  moreover have "requires_approval default_workflow m \<longleftrightarrow>
      sandbox_exec (permissions m) \<or> network_access (permissions m)"
    using score(3) [of m]
    by (cases "sandbox_exec (permissions m)"; cases "network_access (permissions m)")
       (simp_all add: requires_approval_def default_workflow_def)
  ultimately show ?thesis using score le by blast
qed

definition writer_manifest :: plugin_manifest where
  "writer_manifest = lint_manifest\<lparr>permissions := (permissions lint_manifest)\<lparr>workspace_write := True\<rparr>\<rparr>"

text \<open>Requests of approval, one after the other.\<close>

fun gate_requests ::
  "(string \<times> pydict \<times> pipeline_stage \<times> string \<times> pydict) list \<Rightarrow> human_gate \<Rightarrow> human_gate" where
  "gate_requests [] g = g"
| "gate_requests ((uuid, task, stage, summary, details) # rs) g =
     gate_requests rs (snd (request_gate_approval uuid task stage summary details g))"

lemma gate_requests_pending:
  "gate_pending (gate_requests rs g) i \<noteq> None \<longleftrightarrow> i \<in> fst ` set rs \<or> gate_pending g i \<noteq> None"
  by (induction rs g rule: gate_requests.induct) (auto simp: request_gate_approval_def)

text \<open>The human gate withholds nothing that was asked for: an approval is granted exactly for the
  identifiers that were requested. And \<open>MVP_APPROVAL_STAGES\<close> is consulted only for a
  task whose \<open>approvalStages\<close> is there and is not a list: without the entry no stage is gated,
  whatever the variable says.\<close>

theorem human_gate_never_withholds:
  "(approved (check_gate_approval (gate_requests rs \<lparr>has_client = c, gate_pending = Map.empty\<rparr>) i) \<longleftrightarrow>
      i \<in> fst ` set rs) \<and>
   (\<not> has_key task ''approvalStages'' \<longrightarrow> \<not> should_gate env stage task) \<and>
   (should_gate env stage task \<noteq> should_gate env' stage task \<longrightarrow>
      has_key task ''approvalStages'' \<and> (\<forall>xs. dget task ''approvalStages'' \<noteq> PList xs))"
proof -
  have "approved (check_gate_approval g i) \<longleftrightarrow> gate_pending g i \<noteq> None" for g
    by (simp add: check_gate_approval_def)
  then show ?thesis
    using gate_requests_pending [of rs "\<lparr>has_client = c, gate_pending = Map.empty\<rparr>" i]
    by (auto simp: should_gate_def has_key_def dget_or_def dget_def split: option.splits pyval.splits)
qed

text \<open>The diff reviewer approves exactly the texts without a dangerous token; the case of the
  letters does not matter, and more text around a diff never lowers its risk level.\<close>

theorem diff_risk_monotone:
  "rv_risk_level (review_diff s) \<le> rv_risk_level (review_diff (t @ s @ u)) \<and>
   review_diff (lower s) = review_diff s \<and>
   (rv_approved (review_diff s) \<longleftrightarrow>
      list_all (\<lambda>w. \<not> contains w (lower s)) dangerous_tokens)"
proof -
  have m: "mentions ts s \<Longrightarrow> mentions ts (t @ s @ u)" for ts
    by (auto simp: mentions_def list_ex_iff contains_iff) (metis append.assoc)
  have "rv_risk_level (review_diff s) \<le> rv_risk_level (review_diff (t @ s @ u))"
    using m by (auto simp: review_risk less_eq_risk_level_def)
  moreover have "review_diff (lower s) = review_diff s"
    by (simp add: review_diff_def mentions_def)
  ultimately show ?thesis
    by (auto simp: review_diff_def Let_def mentions_def list_ex_iff list_all_iff)
qed

text \<open>What the caller gets from an operation that ended with an outcome.\<close>

fun thread_outcome :: "string \<Rightarrow> 'a result \<Rightarrow> 'a result" where
  "thread_outcome pid (Inr v) = Inr v"
| "thread_outcome pid (Inl e) =
     Inl (if is_Exception e then e else RuntimeError (''Plugin '' @ pid @ '' completed without result''))"

lemma execute_with_limits_outcome:
  "in_time (wall_time_limit limits timeout) \<Longrightarrow>
   apply_resource_limits has_resource setrlimit limits p = (None, q) \<Longrightarrow>
   execute_with_limits has_resource setrlimit in_time limits pid operation timeout p =
     thread_outcome pid (operation q)"
  by (cases "operation q") (auto simp: execute_with_limits_def wrapped_operation_def Let_def)

text \<open>A plugin that ends within its wall time runs under the four limits and its outcome is
  returned when the operating system accepts every limit; when it refuses the first one, the
  memory limit, the plugin runs all the same with none of the four in force.\<close>

theorem limits_applied_or_dropped:
  assumes "in_time (wall_time_limit limits timeout)"
  shows "((\<forall>r v q. setrlimit r v q = Inr (q(r := v))) \<longrightarrow>
      execute_with_limits True setrlimit in_time limits pid operation timeout p =
        thread_outcome pid (operation (\<lambda>r. the (map_of (requested_limits limits) r)))) \<and>
    ((\<exists>e. setrlimit RLIMIT_AS (max_memory_mb limits * 1024 * 1024) p = Inl e \<and> is_limit_error e) \<longrightarrow>
      execute_with_limits True setrlimit in_time limits pid operation timeout p =
        thread_outcome pid (operation p))"
proof (intro conjI impI)
  assume ok: "\<forall>r v q. setrlimit r v q = Inr (q(r := v))"
  have all: "override_on p (\<lambda>r. the (map_of (requested_limits limits) r)) (fst ` set (requested_limits limits)) =
      (\<lambda>r. the (map_of (requested_limits limits) r))"
  proof
    fix r show "override_on p (\<lambda>r. the (map_of (requested_limits limits) r))
      (fst ` set (requested_limits limits)) r = the (map_of (requested_limits limits) r)"
      by (cases r) (auto simp: override_on_def requested_limits_def)
  qed
  have "set_limits setrlimit (requested_limits limits) p =
      (None, \<lambda>r. the (map_of (requested_limits limits) r))"
    using set_limits_all [of "requested_limits limits" setrlimit p] ok
    by (simp add: all) (simp add: requested_limits_def)
  then show "execute_with_limits True setrlimit in_time limits pid operation timeout p =
      thread_outcome pid (operation (\<lambda>r. the (map_of (requested_limits limits) r)))"
    using assms by (intro execute_with_limits_outcome) (auto simp: apply_resource_limits_def)
next
  assume "\<exists>e. setrlimit RLIMIT_AS (max_memory_mb limits * 1024 * 1024) p = Inl e \<and> is_limit_error e"
  then show "execute_with_limits True setrlimit in_time limits pid operation timeout p =
      thread_outcome pid (operation p)"
    using assms
    by (intro execute_with_limits_outcome) (auto simp: apply_resource_limits_def requested_limits_def)
qed

end
