(* ===== verification/Outbox.thy ===== *)
theory Outbox
  imports Prelude
begin

text \<open>
  The persistent outbox of \<open>outbox/redis_outbox.py\<close>: events are stored before they are delivered
  and removed when they are acknowledged, in Redis or in the memory of the process.

  \<^item> Redis is the record \<open>outbox_server\<close> of the commands the two Lua scripts and the code use;
    what is assumed of it is \<open>outbox_server_laws\<close>. A call goes over a \<open>link\<close>. Every list has a time to
    live, which \<open>EXPIRE\<close> renews; how time passes on the server is \<open>server_clock\<close> with \<open>expiry_laws\<close>.
  \<^item> The JSON schema check (\<open>jsonschema.validate\<close> against \<open>EVENT_SCHEMA\<close>) is the parameter
    \<open>validate\<close>, giving the message of the error if there is one; \<open>dumps\<close> and \<open>loads\<close> are the
    JSON printer and parser.
  \<^item> Lua's \<open>unpack\<close> fails beyond a number of results that depends on how the interpreter was
    built: the parameter \<open>max_unpack\<close>.
\<close>

section \<open>The store in memory\<close>

record outbox =
  ob_namespace :: string
  ob_ttl_seconds :: int
  ob_redis_enabled :: bool
  local_store :: "(string \<times> pydict list) list"
  local_seq :: "(string \<times> int) list"

definition store_events :: "outbox \<Rightarrow> string \<Rightarrow> pydict list" where
  "store_events ob task_id = (case map_of (local_store ob) task_id of Some es \<Rightarrow> es | None \<Rightarrow> [])"

definition get_next_sequence_local :: "string \<Rightarrow> outbox \<Rightarrow> int" where
  "get_next_sequence_local task_id ob =
     (case map_of (local_seq ob) task_id of Some n \<Rightarrow> n | None \<Rightarrow> 0)"

definition store_event_local :: "string \<Rightarrow> pydict \<Rightarrow> outbox \<Rightarrow> outbox" where
  "store_event_local task_id event ob =
     ob\<lparr>local_store := AList.update task_id (store_events ob task_id @ [event]) (local_store ob),
        local_seq := AList.update task_id (get_next_sequence_local task_id ob + 1) (local_seq ob)\<rparr>"

definition has_event_id :: "string \<Rightarrow> pydict \<Rightarrow> bool" where
  "has_event_id event_id event \<longleftrightarrow> dget event ''eventId'' = PStr event_id"

definition ack_event_local :: "string \<Rightarrow> string \<Rightarrow> outbox \<Rightarrow> bool \<times> outbox" where
  "ack_event_local task_id event_id ob =
     (let original_count = length (store_events ob task_id);
          kept = filter (\<lambda>e. \<not> has_event_id event_id e) (store_events ob task_id);
          st = AList.update task_id kept (local_store ob);
          ob' = ob\<lparr>local_store := (if kept = [] then AList.delete task_id st else st)\<rparr>
      in (length (store_events ob' task_id) < original_count, ob'))"

text \<open>\<open>sort(key=lambda e: e.get("seq", 0))\<close>: a stable sort, defined when the keys are comparable
  (numbers, or text).\<close>

definition seq_key :: "pydict \<Rightarrow> pyval" where
  "seq_key event = dget_or event ''seq'' (PInt 0)"

definition seq_number :: "pydict \<Rightarrow> rat" where
  "seq_number event = (case number_of (seq_key event) of Some q \<Rightarrow> q | None \<Rightarrow> 0)"

definition sort_events :: "pydict list \<Rightarrow> pydict list result" where
  "sort_events events =
     (if length events \<le> 1 then Inr events
      else if list_all (\<lambda>e. number_of (seq_key e) \<noteq> None) events then Inr (sort_key seq_number events)
      else if list_all (\<lambda>e. type_name (seq_key e) = ''str'') events
      then Inr (sort_key (\<lambda>e. py_str (seq_key e)) events)
      else Inl (TypeError ''unorderable sequence numbers''))"

definition get_pending_local :: "string \<Rightarrow> outbox \<Rightarrow> pydict list result" where
  "get_pending_local task_id ob = sort_events (store_events ob task_id)"

definition get_all_pending_tasks_local :: "outbox \<Rightarrow> string list" where
  "get_all_pending_tasks_local ob = map fst (local_store ob)"

definition cleanup_task_local :: "string \<Rightarrow> outbox \<Rightarrow> outbox" where
  "cleanup_task_local task_id ob =
     ob\<lparr>local_store := AList.delete task_id (local_store ob),
        local_seq := AList.delete task_id (local_seq ob)\<rparr>"

section \<open>The store in Redis\<close>

record 'r outbox_server =
  cmd_rpush :: "string \<Rightarrow> string list \<Rightarrow> 'r \<Rightarrow> 'r"
  cmd_lrange :: "string \<Rightarrow> 'r \<Rightarrow> string list"
  cmd_delete :: "string \<Rightarrow> 'r \<Rightarrow> 'r"
  cmd_expire_in :: "string \<Rightarrow> int \<Rightarrow> 'r \<Rightarrow> 'r"
  cmd_incr :: "string \<Rightarrow> 'r \<Rightarrow> 'r"
  cmd_get_text :: "string \<Rightarrow> 'r \<Rightarrow> string option"
  cmd_keys :: "string \<Rightarrow> 'r \<Rightarrow> string list"

text \<open>The JSON functions the outbox uses: \<open>json.dumps\<close>, \<open>json.loads\<close> (\<open>None\<close> for a decode error)
  and, in the script, \<open>cjson.decode\<close>.\<close>

record json_codec =
  dumps :: "pydict \<Rightarrow> string"
  loads :: "string \<Rightarrow> pyval option"

definition events_key :: "outbox \<Rightarrow> string \<Rightarrow> string" where
  "events_key ob task_id = ob_namespace ob @ '':events:'' @ task_id"

definition outbox_seq_key :: "outbox \<Rightarrow> string \<Rightarrow> string" where
  "outbox_seq_key ob task_id = ob_namespace ob @ '':seq:'' @ task_id"

definition store_script ::
  "'r outbox_server \<Rightarrow> string \<Rightarrow> string \<Rightarrow> string \<Rightarrow> int \<Rightarrow> 'r \<Rightarrow> 'r" where
  "store_script srv ekey skey event_data ttl r =
     (let r1 = cmd_expire_in srv ekey ttl (cmd_rpush srv ekey [event_data] r)
      in cmd_expire_in srv skey ttl (cmd_incr srv skey r1))"

text \<open>Indexing a decoded value with \<open>eventId\<close> in Lua: an error (\<open>None\<close>) for a number, a boolean
  or null.\<close>

fun lua_event_id :: "pyval \<Rightarrow> pyval option" where
  "lua_event_id (PDict d) = Some (dget d ''eventId'')"
| "lua_event_id (PList _) = Some PNone"
| "lua_event_id (PStr _) = Some PNone"
| "lua_event_id _ = None"

fun ack_scan ::
  "json_codec \<Rightarrow> string \<Rightarrow> string list \<Rightarrow> (string list \<times> bool) option" where
  "ack_scan js event_id [] = Some ([], False)"
| "ack_scan js event_id (d # ds) =
     (case loads js d of
        None \<Rightarrow> None
      | Some v \<Rightarrow>
          (case (lua_event_id v, ack_scan js event_id ds) of
             (Some i, Some (kept, found)) \<Rightarrow>
               (if i \<noteq> PStr event_id then Some (d # kept, found) else Some (kept, True))
           | _ \<Rightarrow> None))"

text \<open>The script's answer, \<open>None\<close> when it fails, and the server: a script that fails midway keeps
  what it has done.\<close>

definition ack_script ::
  "nat \<Rightarrow> json_codec \<Rightarrow> 'r outbox_server \<Rightarrow> string \<Rightarrow> string \<Rightarrow> int \<Rightarrow> 'r \<Rightarrow> bool option \<times> 'r" where
  "ack_script max_unpack js srv ekey event_id ttl r =
     (case ack_scan js event_id (cmd_lrange srv ekey r) of
        None \<Rightarrow> (None, r)
      | Some (new_events, found) \<Rightarrow>
          if found then
            (let r1 = cmd_delete srv ekey r in
             if new_events \<noteq> []
             then (if length new_events > max_unpack then (None, r1)
                   else (Some True, cmd_expire_in srv ekey ttl (cmd_rpush srv ekey new_events r1)))
             else (Some True, r1))
          else (Some False, r))"

fun decode_events :: "json_codec \<Rightarrow> string list \<Rightarrow> pyval list" where
  "decode_events js [] = []"
| "decode_events js (d # ds) =
     (case loads js d of Some v \<Rightarrow> v # decode_events js ds | None \<Rightarrow> decode_events js ds)"

fun as_dicts :: "pyval list \<Rightarrow> pydict list result" where
  "as_dicts [] = Inr []"
| "as_dicts (PDict d # vs) = (case as_dicts vs of Inr ds \<Rightarrow> Inr (d # ds) | Inl e \<Rightarrow> Inl e)"
| "as_dicts (v # vs) = Inl (NamedError ''AttributeError'' (type_name v @ '' object has no attribute get''))"

definition get_pending_redis ::
  "json_codec \<Rightarrow> 'r outbox_server \<Rightarrow> outbox \<Rightarrow> string \<Rightarrow> 'r \<Rightarrow> pydict list result" where
  "get_pending_redis js srv ob task_id r =
     (case as_dicts (decode_events js (cmd_lrange srv (events_key ob task_id) r)) of
        Inl e \<Rightarrow> Inl e
      | Inr ds \<Rightarrow> sort_events ds)"

definition get_all_pending_tasks_redis :: "'r outbox_server \<Rightarrow> outbox \<Rightarrow> 'r \<Rightarrow> string list" where
  "get_all_pending_tasks_redis srv ob r =
     (let pre = ob_namespace ob @ '':events:'' in
      filter (\<lambda>t. t \<noteq> []) (map (drop (length pre)) (filter (prefix pre) (cmd_keys srv (pre @ ''*'') r))))"

definition get_next_sequence_redis :: "'r outbox_server \<Rightarrow> outbox \<Rightarrow> string \<Rightarrow> 'r \<Rightarrow> int option" where
  "get_next_sequence_redis srv ob task_id r =
     (case cmd_get_text srv (outbox_seq_key ob task_id) r of
        None \<Rightarrow> Some 0
      | Some s \<Rightarrow> parse_int s)"

definition cleanup_task_redis :: "'r outbox_server \<Rightarrow> outbox \<Rightarrow> string \<Rightarrow> 'r \<Rightarrow> 'r" where
  "cleanup_task_redis srv ob task_id r =
     cmd_delete srv (outbox_seq_key ob task_id) (cmd_delete srv (events_key ob task_id) r)"

section \<open>The outbox object\<close>

text \<open>What a call works on. The environment of a call: the codec, the server's commands, the limit of
  \<open>unpack\<close>, the schema check and the link.\<close>

record 'r outbox_world =
  ow_box :: outbox
  ow_server :: 'r

record 'r outbox_env =
  oe_codec :: json_codec
  oe_server :: "'r outbox_server"
  oe_max_unpack :: nat
  oe_validate :: "pydict \<Rightarrow> string option"

definition outbox_error :: "string \<Rightarrow> py_exn" where
  "outbox_error m = NamedError ''RedisOutboxError'' m"

definition event_validation_error :: "string \<Rightarrow> py_exn" where
  "event_validation_error m = NamedError ''EventValidationError'' m"

definition init_outbox_redis :: "string \<Rightarrow> bool \<Rightarrow> bool \<Rightarrow> bool \<Rightarrow> bool" where
  "init_outbox_redis backend given connects registers =
     (if backend \<noteq> ''redis'' then False
      else if \<not> given \<and> \<not> connects then False
      else registers)"

definition new_outbox ::
  "string option \<Rightarrow> string \<Rightarrow> string \<Rightarrow> int \<Rightarrow> bool \<Rightarrow> bool \<Rightarrow> bool \<Rightarrow> outbox" where
  "new_outbox backend env ns ttl given connects registers =
     (let raw = (case backend of Some b \<Rightarrow> if b = [] then env else b | None \<Rightarrow> env);
          s = lower (strip raw);
          backend' = (if s = [] then ''redis'' else s);
          n = strip ns
      in \<lparr>ob_namespace = (if n = [] then ''autocode:outbox'' else n),
          ob_ttl_seconds = max 300 ttl,
          ob_redis_enabled = init_outbox_redis backend' given connects registers,
          local_store = [], local_seq = []\<rparr>)"

text \<open>\<open>store_event\<close>: an error of the link is reported, never hidden.\<close>

definition store_event ::
  "'r outbox_env \<Rightarrow> link \<Rightarrow> string \<Rightarrow> pydict \<Rightarrow> 'r outbox_world \<Rightarrow> unit result \<times> 'r outbox_world" where
  "store_event env l task_id event w =
     (let t = strip task_id; ob = ow_box w in
      if t = [] then (Inl (outbox_error ''task_id is required''), w)
      else case oe_validate env event of
        Some m \<Rightarrow> (Inl (event_validation_error (''Event validation failed: '' @ m)), w)
      | None \<Rightarrow>
          if \<not> truthy (dget_or event ''eventId'' (PStr []))
          then (Inl (event_validation_error ''Event must have eventId''), w)
          else if ob_redis_enabled ob then
            (case round_trip l (\<lambda>r. ((), store_script (oe_server env) (events_key ob t) (outbox_seq_key ob t)
                     (dumps (oe_codec env) event) (ob_ttl_seconds ob) r)) (ow_server w) of
               (Some u, r) \<Rightarrow> (Inr (), w\<lparr>ow_server := r\<rparr>)
             | (None, r) \<Rightarrow> (Inl (outbox_error ''Failed to store event in Redis''), w\<lparr>ow_server := r\<rparr>))
          else (Inr (), w\<lparr>ow_box := store_event_local t event ob\<rparr>))"

definition acknowledge_event ::
  "'r outbox_env \<Rightarrow> link \<Rightarrow> string \<Rightarrow> string \<Rightarrow> 'r outbox_world \<Rightarrow> bool \<times> 'r outbox_world" where
  "acknowledge_event env l task_id event_id w =
     (let t = strip task_id; i = strip event_id; ob = ow_box w;
          ack_local = (\<lambda>w. let (b, ob') = ack_event_local t i (ow_box w) in (b, w\<lparr>ow_box := ob'\<rparr>)) in
      if t = [] then (False, w)
      else if i = [] then (False, w)
      else if ob_redis_enabled ob then
        (case round_trip l (ack_script (oe_max_unpack env) (oe_codec env) (oe_server env)
                (events_key ob t) i (ob_ttl_seconds ob)) (ow_server w) of
           (Some (Some b), r) \<Rightarrow> (b, w\<lparr>ow_server := r\<rparr>)
         | (_, r) \<Rightarrow> ack_local (w\<lparr>ow_server := r\<rparr>))
      else ack_local w)"

text \<open>The reads: \<open>up\<close> says whether the link works.\<close>

definition get_pending_events ::
  "'r outbox_env \<Rightarrow> bool \<Rightarrow> string \<Rightarrow> 'r outbox_world \<Rightarrow> pydict list result" where
  "get_pending_events env up task_id w =
     (let t = strip task_id; ob = ow_box w in
      if t = [] then Inr []
      else if ob_redis_enabled ob \<and> up then
        (case get_pending_redis (oe_codec env) (oe_server env) ob t (ow_server w) of
           Inr es \<Rightarrow> Inr es
         | Inl e \<Rightarrow> get_pending_local t ob)
      else get_pending_local t ob)"

definition get_all_pending_tasks :: "'r outbox_env \<Rightarrow> bool \<Rightarrow> 'r outbox_world \<Rightarrow> string list" where
  "get_all_pending_tasks env up w =
     (if ob_redis_enabled (ow_box w) \<and> up
      then get_all_pending_tasks_redis (oe_server env) (ow_box w) (ow_server w)
      else get_all_pending_tasks_local (ow_box w))"

definition get_next_sequence :: "'r outbox_env \<Rightarrow> bool \<Rightarrow> string \<Rightarrow> 'r outbox_world \<Rightarrow> int" where
  "get_next_sequence env up task_id w =
     (let t = strip task_id; ob = ow_box w in
      if t = [] then 0
      else if ob_redis_enabled ob \<and> up then
        (case get_next_sequence_redis (oe_server env) ob t (ow_server w) of
           Some n \<Rightarrow> n
         | None \<Rightarrow> get_next_sequence_local t ob)
      else get_next_sequence_local t ob)"

definition cleanup_task :: "'r outbox_env \<Rightarrow> link \<Rightarrow> string \<Rightarrow> 'r outbox_world \<Rightarrow> 'r outbox_world" where
  "cleanup_task env l task_id w =
     (let t = strip task_id; ob = ow_box w in
      if t = [] then w
      else
        let w' = (if ob_redis_enabled ob
                  then w\<lparr>ow_server := snd (round_trip l (\<lambda>r. ((), cleanup_task_redis (oe_server env) ob t r)) (ow_server w))\<rparr>
                  else w)
        in w'\<lparr>ow_box := cleanup_task_local t (ow_box w')\<rparr>)"

section \<open>What an outbox promises\<close>

text \<open>A call that changes the outbox, and the promise: for each task the events that were stored and
  neither acknowledged nor cleaned up since, in the order of their storing.\<close>

datatype outbox_op = StoreOp string pydict | AckOp string string | CleanupOp string

fun outstanding_step :: "(pydict \<Rightarrow> string option) \<Rightarrow> string \<Rightarrow> outbox_op \<Rightarrow> pydict list \<Rightarrow> pydict list" where
  "outstanding_step validate t (StoreOp u e) es =
     (if strip u = t \<and> t \<noteq> [] \<and> validate e = None \<and> truthy (dget_or e ''eventId'' (PStr [])) then es @ [e] else es)"
| "outstanding_step validate t (AckOp u i) es =
     (if strip u = t \<and> strip i \<noteq> [] then filter (\<lambda>e. \<not> has_event_id (strip i) e) es else es)"
| "outstanding_step validate t (CleanupOp u) es = (if strip u = t then [] else es)"

definition outstanding :: "(pydict \<Rightarrow> string option) \<Rightarrow> string \<Rightarrow> outbox_op list \<Rightarrow> pydict list" where
  "outstanding validate t ops = fold (outstanding_step validate t) ops []"

text \<open>The same calls on a store with the three operations.\<close>

fun store_step ::
  "(string \<Rightarrow> pydict \<Rightarrow> 's \<Rightarrow> 's) \<Rightarrow> (string \<Rightarrow> string \<Rightarrow> 's \<Rightarrow> bool \<times> 's) \<Rightarrow> (string \<Rightarrow> 's \<Rightarrow> 's)
    \<Rightarrow> (pydict \<Rightarrow> string option) \<Rightarrow> outbox_op \<Rightarrow> 's \<Rightarrow> 's" where
  "store_step store ack cleanup validate (StoreOp u e) s =
     (if strip u \<noteq> [] \<and> validate e = None \<and> truthy (dget_or e ''eventId'' (PStr []))
      then store (strip u) e s else s)"
| "store_step store ack cleanup validate (AckOp u i) s =
     (if strip u \<noteq> [] \<and> strip i \<noteq> [] then snd (ack (strip u) (strip i) s) else s)"
| "store_step store ack cleanup validate (CleanupOp u) s =
     (if strip u \<noteq> [] then cleanup (strip u) s else s)"

locale event_outbox =
  fixes content :: "'s \<Rightarrow> string \<Rightarrow> pydict list"
    and store :: "string \<Rightarrow> pydict \<Rightarrow> 's \<Rightarrow> 's"
    and ack :: "string \<Rightarrow> string \<Rightarrow> 's \<Rightarrow> bool \<times> 's"
    and cleanup :: "string \<Rightarrow> 's \<Rightarrow> 's"
  assumes content_store: "content (store t e s) u = (if u = t then content s t @ [e] else content s u)"
    and content_ack: "content (snd (ack t i s)) u =
      (if u = t then filter (\<lambda>e. \<not> has_event_id i e) (content s t) else content s u)"
    and ack_answer: "fst (ack t i s) \<longleftrightarrow> (\<exists>e\<in>set (content s t). has_event_id i e)"
    and content_cleanup: "content (cleanup t s) u = (if u = t then [] else content s u)"
begin

lemma content_step:
  "t \<noteq> [] \<Longrightarrow> content (store_step store ack cleanup validate op s) t =
     outstanding_step validate t op (content s t)"
  by (cases op) (auto simp: content_store content_ack content_cleanup)

lemma content_run:
  "t \<noteq> [] \<Longrightarrow> content (fold (store_step store ack cleanup validate) ops s) t =
     fold (outstanding_step validate t) ops (content s t)"
  by (induction ops arbitrary: s) (simp_all add: content_step)

lemma ack_idempotent: "\<not> fst (ack t i (snd (ack t i s)))"
  by (auto simp: ack_answer content_ack)

lemma ack_after_store: "has_event_id i e \<Longrightarrow> fst (ack t i (store t e s))"
  by (auto simp: ack_answer content_store)

end

interpretation memory_outbox: event_outbox store_events store_event_local ack_event_local cleanup_task_local
proof
  fix t u i and e :: pydict and s
  show "store_events (store_event_local t e s) u =
      (if u = t then store_events s t @ [e] else store_events s u)"
    by (simp add: store_events_def store_event_local_def update_conv')
  have ack: "store_events (snd (ack_event_local t i s)) u =
      (if u = t then filter (\<lambda>e. \<not> has_event_id i e) (store_events s t) else store_events s u)" for u
    by (simp add: store_events_def ack_event_local_def Let_def update_conv' delete_conv')
  then show "store_events (snd (ack_event_local t i s)) u =
      (if u = t then filter (\<lambda>e. \<not> has_event_id i e) (store_events s t) else store_events s u)" .
  have "fst (ack_event_local t i s) \<longleftrightarrow>
      length (store_events (snd (ack_event_local t i s)) t) < length (store_events s t)"
    by (simp add: ack_event_local_def Let_def)
  also have "\<dots> \<longleftrightarrow> length (filter (\<lambda>e. \<not> has_event_id i e) (store_events s t)) < length (store_events s t)"
    by (simp add: ack)
  also have "\<dots> \<longleftrightarrow> (\<exists>e\<in>set (store_events s t). has_event_id i e)"
    by (metis (mono_tags, lifting) filter_True length_filter_less less_irrefl)
  finally show "fst (ack_event_local t i s) \<longleftrightarrow> (\<exists>e\<in>set (store_events s t). has_event_id i e)" .
  show "store_events (cleanup_task_local t s) u = (if u = t then [] else store_events s u)"
    by (simp add: store_events_def cleanup_task_local_def delete_conv')
qed

section \<open>Calls on the object\<close>

fun outbox_call :: "'r outbox_env \<Rightarrow> link \<times> outbox_op \<Rightarrow> 'r outbox_world \<Rightarrow> 'r outbox_world" where
  "outbox_call env (l, StoreOp t e) w = snd (store_event env l t e w)"
| "outbox_call env (l, AckOp t i) w = snd (acknowledge_event env l t i w)"
| "outbox_call env (l, CleanupOp t) w = cleanup_task env l t w"

lemma outbox_call_memory:
  "\<not> ob_redis_enabled (ow_box w) \<Longrightarrow> outbox_call env (l, op) w =
     w\<lparr>ow_box := store_step store_event_local ack_event_local cleanup_task_local (oe_validate env) op (ow_box w)\<rparr>"
  by (cases op)
    (auto simp: store_event_def acknowledge_event_def cleanup_task_def Let_def split_beta split: option.splits)

lemma memory_settings:
  "ob_redis_enabled (store_step store_event_local ack_event_local cleanup_task_local validate op ob) =
     ob_redis_enabled ob"
  by (cases op) (auto simp: store_event_local_def ack_event_local_def cleanup_task_local_def Let_def)

lemma memory_settings_fold:
  "ob_redis_enabled (fold (store_step store_event_local ack_event_local cleanup_task_local validate) ops ob) =
     ob_redis_enabled ob"
  by (induction ops arbitrary: ob) (simp_all add: memory_settings)

lemma outbox_calls_memory:
  "\<not> ob_redis_enabled (ow_box w) \<Longrightarrow>
   ow_box (fold (outbox_call env) calls w) =
     fold (store_step store_event_local ack_event_local cleanup_task_local (oe_validate env)) (map snd calls) (ow_box w) \<and>
   \<not> ob_redis_enabled (ow_box (fold (outbox_call env) calls w))"
proof (induction calls arbitrary: w)
  case (Cons c calls)
  then show ?case
    by (cases c) (simp add: outbox_call_memory memory_settings memory_settings_fold)
qed simp

lemma outstanding_step_set:
  "e \<in> set (fold (outstanding_step validate t) ops es) \<Longrightarrow> e \<in> set es \<or> validate e = None"
proof (induction ops arbitrary: es)
  case (Cons op ops)
  then have "e \<in> set (outstanding_step validate t op es) \<or> validate e = None" by simp
  then show ?case by (cases op) (auto split: if_splits)
qed simp

lemma sort_events_numbers:
  "(\<And>e. e \<in> set es \<Longrightarrow> number_of (seq_key e) \<noteq> None) \<Longrightarrow> sort_events es = Inr (sort_key seq_number es)"
  by (cases es rule: remdups_adj.cases) (auto simp: sort_events_def list_all_iff)

section \<open>What is documented of Redis and JSON\<close>

definition outbox_server_laws :: "'r outbox_server \<Rightarrow> bool" where
  "outbox_server_laws srv \<longleftrightarrow>
     (\<forall>k k' xs r. cmd_lrange srv k (cmd_rpush srv k' xs r) =
        (if k = k' then cmd_lrange srv k r @ xs else cmd_lrange srv k r)) \<and>
     (\<forall>k k' r. cmd_lrange srv k (cmd_delete srv k' r) = (if k = k' then [] else cmd_lrange srv k r)) \<and>
     (\<forall>k k' n r. 0 < n \<longrightarrow> cmd_lrange srv k (cmd_expire_in srv k' n r) = cmd_lrange srv k r) \<and>
     (\<forall>k k' r. k \<noteq> k' \<longrightarrow> cmd_lrange srv k (cmd_incr srv k' r) = cmd_lrange srv k r)"



text \<open>Of an event that passes the schema check, \<open>nf\<close> is the dictionary that is read back: the same
  one with its keys in order.\<close>

definition codec_laws :: "'r outbox_env \<Rightarrow> (pydict \<Rightarrow> pydict) \<Rightarrow> bool" where
  "codec_laws env nf \<longleftrightarrow>
     (\<forall>d. oe_validate env d = None \<longrightarrow>
        loads (oe_codec env) (dumps (oe_codec env) d) = Some (PDict (nf d)) \<and>
        (\<forall>i. has_event_id i (nf d) = has_event_id i d) \<and> number_of (seq_key (nf d)) = number_of (seq_key d))"

lemma events_key_inject [simp]: "events_key ob t = events_key ob u \<longleftrightarrow> t = u"
  by (simp add: events_key_def)

lemma events_key_not_seq [simp]: "events_key ob t \<noteq> outbox_seq_key ob u"
  by (simp add: events_key_def outbox_seq_key_def)

lemma ack_scan_dumps:
  "codec_laws env nf \<Longrightarrow> \<forall>e\<in>set es. oe_validate env e = None \<Longrightarrow>
   ack_scan (oe_codec env) i (map (dumps (oe_codec env)) es) =
     Some (map (dumps (oe_codec env)) (filter (\<lambda>e. \<not> has_event_id i e) es), \<exists>e\<in>set es. has_event_id i e)"
  by (induction es) (auto simp: codec_laws_def has_event_id_def)


text \<open>The server holds the printed events \<open>es t\<close> of each task \<open>t\<close>.\<close>

definition redis_holds :: "'r outbox_env \<Rightarrow> 'r outbox_world \<Rightarrow> (string \<Rightarrow> pydict list) \<Rightarrow> bool" where
  "redis_holds env w es \<longleftrightarrow> ob_redis_enabled (ow_box w) \<and> 0 < ob_ttl_seconds (ow_box w) \<and>
     (\<forall>t. t \<noteq> [] \<longrightarrow> (\<forall>e\<in>set (es t). oe_validate env e = None) \<and>
        cmd_lrange (oe_server env) (events_key (ow_box w) t) (ow_server w) = map (dumps (oe_codec env)) (es t))"



























section \<open>Properties\<close>

text \<open>C29. In memory the outbox holds, after any calls, exactly the events that were stored and
  neither acknowledged nor cleaned up since, and returns them by sequence number (events
  with the same number in the order of their storing).\<close>

theorem memory_outbox_keeps_unacked:
  assumes "\<not> ob_redis_enabled (ow_box w)" "local_store (ow_box w) = []"
    and "\<And>e. oe_validate env e = None \<Longrightarrow> number_of (seq_key e) \<noteq> None"
    and "strip t \<noteq> []"
  shows "get_pending_events env up t (fold (outbox_call env) calls w) =
    Inr (sort_key seq_number (outstanding (oe_validate env) (strip t) (map snd calls)))"
proof -
  let ?w = "fold (outbox_call env) calls w"
  have "store_events (ow_box w) (strip t) = []" using assms(2) by (simp add: store_events_def)
  then have "store_events (ow_box ?w) (strip t) = outstanding (oe_validate env) (strip t) (map snd calls)"
    using outbox_calls_memory [OF assms(1), of env calls] assms(4)
    by (simp add: memory_outbox.content_run outstanding_def)
  moreover have "sort_events (outstanding (oe_validate env) (strip t) (map snd calls)) =
      Inr (sort_key seq_number (outstanding (oe_validate env) (strip t) (map snd calls)))"
    using outstanding_step_set assms(3) unfolding outstanding_def
    by (intro sort_events_numbers) fastforce
  ultimately show ?thesis
    using assms(1,4) outbox_calls_memory [OF assms(1), of env calls]
    by (simp add: get_pending_events_def get_pending_local_def Let_def memory_settings_fold)
qed

definition sample_event :: "string \<Rightarrow> int \<Rightarrow> pydict" where
  "sample_event i n = [(''eventId'', PStr i), (''seq'', PInt n)]"

definition sample_events :: "pydict list" where
  "sample_events = [sample_event ''evt_a'' 1, sample_event ''evt_b'' 0]"

definition sample_validate :: "pydict \<Rightarrow> string option" where
  "sample_validate e = (if e \<in> set sample_events then None else Some ''schema'')"

text \<open>A server that keeps its lists in a map, and a printer for the sample events.\<close>

definition map_outbox_server :: "(string \<Rightarrow> string list) outbox_server" where
  "map_outbox_server =
     \<lparr>cmd_rpush = (\<lambda>k xs r. r(k := r k @ xs)), cmd_lrange = (\<lambda>k r. r k), cmd_delete = (\<lambda>k r. r(k := [])),
      cmd_expire_in = (\<lambda>k n r. r), cmd_incr = (\<lambda>k r. r(k := r k @ [''1''])),
      cmd_get_text = (\<lambda>k r. Some (show_nat (length (r k)))), cmd_keys = (\<lambda>k r. [])\<rparr>"

definition sample_env :: "nat \<Rightarrow> (string \<Rightarrow> string list) outbox_env" where
  "sample_env n =
     \<lparr>oe_codec = \<lparr>dumps = (\<lambda>d. py_str (dget d ''eventId'')),
        loads = (\<lambda>s. map_option PDict (find (has_event_id s) sample_events))\<rparr>,
      oe_server = map_outbox_server, oe_max_unpack = n, oe_validate = sample_validate\<rparr>"

definition sample_world :: "bool \<Rightarrow> (string \<Rightarrow> string list) outbox_world" where
  "sample_world redis =
     \<lparr>ow_box = new_outbox (Some (if redis then ''redis'' else ''memory'')) [] [] 0 True True True,
      ow_server = (\<lambda>k. [])\<rparr>"

lemma sample_laws:
  "outbox_server_laws (oe_server (sample_env n))" "codec_laws (sample_env n) (\<lambda>d. d)"
  "oe_validate (sample_env n) e = None \<Longrightarrow> number_of (seq_key e) \<noteq> None"
  by (auto simp: outbox_server_laws_def codec_laws_def sample_env_def map_outbox_server_def
      sample_validate_def sample_events_def sample_event_def has_event_id_def dget_def py_str_def
      seq_key_def dget_or_def split: if_splits)

lemma sample_new_outbox:
  "ob_redis_enabled (ow_box (sample_world True))" "\<not> ob_redis_enabled (ow_box (sample_world False))"
  "local_store (ow_box (sample_world b)) = []"
  by (cases b; code_simp)+

definition sample_calls :: "outbox_op list" where
  "sample_calls = [StoreOp ''t1'' (sample_event ''evt_a'' 1), StoreOp '' t1'' (sample_event ''evt_b'' 0),
     StoreOp ''t2'' (sample_event ''evt_b'' 0), AckOp ''t1'' ''evt_x'', CleanupOp ''t2'']"

lemma sample_strip: "strip ''t1'' = ''t1'' \<and> strip ''t1'' \<noteq> []"
  by code_simp

lemma sample_outstanding:
  "sort_key seq_number (outstanding sample_validate ''t1'' sample_calls) =
     [sample_event ''evt_b'' 0, sample_event ''evt_a'' 1]"
  by code_simp

lemma memory_outbox_keeps_unacked_witness:
  "get_pending_events (sample_env 5) True ''t1''
      (fold (outbox_call (sample_env 5)) (map (Pair LinkDown) sample_calls) (sample_world False)) =
     Inr [sample_event ''evt_b'' 0, sample_event ''evt_a'' 1]"
proof -
  have "get_pending_events (sample_env 5) True ''t1''
      (fold (outbox_call (sample_env 5)) (map (Pair LinkDown) sample_calls) (sample_world False)) =
     Inr (sort_key seq_number (outstanding (oe_validate (sample_env 5)) (strip ''t1'')
       (map snd (map (Pair LinkDown) sample_calls))))"
    by (rule memory_outbox_keeps_unacked [OF sample_new_outbox(2) sample_new_outbox(3) sample_laws(3)
          conjunct2 [OF sample_strip]])
  then show ?thesis
    using sample_strip sample_outstanding by (simp add: comp_def sample_env_def)
qed










text \<open>Beyond that limit an acknowledgement loses events: when more events stay than \<open>unpack\<close>
  can pass, the script fails after it deleted the list, so every pending event of the task is
  gone, and the caller is told that the event was not found.\<close>

theorem ack_beyond_unpack_limit_loses_events:
  assumes "outbox_server_laws (oe_server env)" "codec_laws env nf" "redis_holds env w es"
    and "strip t \<noteq> []" "strip i \<noteq> []" "store_events (ow_box w) (strip t) = []"
    and "e \<in> set (es (strip t))" "has_event_id (strip i) e"
    and "length (filter (\<lambda>e. \<not> has_event_id (strip i) e) (es (strip t))) > oe_max_unpack env"
  shows "\<not> fst (acknowledge_event env LinkOk t i w) \<and>
    get_pending_events env True t (snd (acknowledge_event env LinkOk t i w)) = Inr []"
proof -
  have valid: "\<forall>e\<in>set (es (strip t)). oe_validate env e = None"
    and list: "cmd_lrange (oe_server env) (events_key (ow_box w) (strip t)) (ow_server w) =
      map (dumps (oe_codec env)) (es (strip t))" and enabled: "ob_redis_enabled (ow_box w)"
    using assms(3,4) unfolding redis_holds_def by blast+
  let ?r = "cmd_delete (oe_server env) (events_key (ow_box w) (strip t)) (ow_server w)"
  have "ack_script (oe_max_unpack env) (oe_codec env) (oe_server env) (events_key (ow_box w) (strip t))
      (strip i) (ob_ttl_seconds (ow_box w)) (ow_server w) = (None, ?r)"
    using assms(7-9) by (auto simp: ack_script_def list ack_scan_dumps [OF assms(2) valid] Let_def)
  then have ack: "acknowledge_event env LinkOk t i w =
      (fst (ack_event_local (strip t) (strip i) (ow_box w)),
       w\<lparr>ow_server := ?r, ow_box := snd (ack_event_local (strip t) (strip i) (ow_box w))\<rparr>)"
    using assms(4,5) enabled by (simp add: acknowledge_event_def Let_def split_beta)
  have "events_key (snd (ack_event_local (strip t) (strip i) (ow_box w))) = events_key (ow_box w)"
    "ob_redis_enabled (snd (ack_event_local (strip t) (strip i) (ow_box w)))"
    using enabled by (auto simp: ack_event_local_def events_key_def Let_def)
  moreover have "cmd_lrange (oe_server env) (events_key (ow_box w) (strip t)) ?r = []"
    using assms(1) by (simp add: outbox_server_laws_def)
  ultimately show ?thesis
    using assms(4,6) ack
    by (simp add: memory_outbox.ack_answer get_pending_events_def get_pending_redis_def sort_events_def Let_def)
qed

end
