(* ===== verification/Recovery.thy ===== *)
theory Recovery
  imports Outbox
begin

text \<open>
  The recovery of undelivered events of \<open>outbox/recovery_service.py\<close>.

  The service works on an outside world \<open>'s\<close>: the outbox, the control plane, the shutdown event
  and the callbacks. \<open>recovery_env\<close> holds what it calls there. \<open>re_publish\<close> is
  \<open>publish_event_with_retry_result\<close> of the control plane client: it delivers the event
  (\<open>Delivered\<close>), gives up after its attempts (\<open>Refused\<close>), or raises (\<open>PublishRaised\<close>).
  A callback returns the exception it raises, if it does. Logging is left out.
\<close>

section \<open>The environment\<close>

datatype delivery = Delivered | Refused | PublishRaised

record 's recovery_env =
  re_tasks :: "'s \<Rightarrow> string list"
  re_pending :: "string \<Rightarrow> 's \<Rightarrow> pydict list result"
  re_ack :: "string \<Rightarrow> string \<Rightarrow> 's \<Rightarrow> bool \<times> 's"
  re_publish :: "string \<Rightarrow> pydict \<Rightarrow> 's \<Rightarrow> delivery \<times> 's"
  re_shutdown :: "'s \<Rightarrow> bool"
  re_on_start :: "'s \<Rightarrow> py_exn option \<times> 's"
  re_on_event :: "string \<Rightarrow> pydict \<Rightarrow> 's \<Rightarrow> py_exn option \<times> 's"
  re_on_complete :: "'s \<Rightarrow> py_exn option \<times> 's"

record recovery_config =
  rc_enabled :: bool
  startup_delay_seconds :: rat
  max_retry_attempts :: int
  retry_backoff_seconds :: rat
  batch_size :: int
  recovery_timeout_seconds :: rat
  sequence_gap_detection :: bool
  metrics_enabled :: bool

definition default_recovery_config :: recovery_config where
  "default_recovery_config =
     \<lparr>rc_enabled = True, startup_delay_seconds = 2, max_retry_attempts = 3, retry_backoff_seconds = 1,
      batch_size = 10, recovery_timeout_seconds = 300, sequence_gap_detection = True,
      metrics_enabled = True\<rparr>"

section \<open>One event\<close>

text \<open>An \<open>eventId\<close> that is not text makes the acknowledgement raise, which counts as a failure.\<close>

definition recover_single_event :: "'s recovery_env \<Rightarrow> string \<Rightarrow> pydict \<Rightarrow> 's \<Rightarrow> bool \<times> 's" where
  "recover_single_event env task_id event s =
     (case re_publish env task_id event s of
        (Delivered, s1) \<Rightarrow>
          (case dget_or event ''eventId'' (PStr []) of
             PStr i \<Rightarrow> (True, snd (re_ack env task_id i s1))
           | v \<Rightarrow> (\<not> truthy v, s1))
      | (Refused, s1) \<Rightarrow> (False, s1)
      | (PublishRaised, s1) \<Rightarrow> (False, s1))"

section \<open>Gaps in the sequence\<close>

fun gap_scan :: "rat \<Rightarrow> rat list \<Rightarrow> rat \<Rightarrow> rat" where
  "gap_scan expected [] gaps = gaps"
| "gap_scan expected (current # rest) gaps =
     gap_scan (current + 1) rest (if current > expected then gaps + (current - expected) else gaps)"

text \<open>The pair of gaps detected and gaps resolved. A sequence number that is not a number makes the
  sorting, the comparison or the addition raise.\<close>

definition detect_gaps :: "pydict list \<Rightarrow> (rat \<times> rat) result" where
  "detect_gaps events =
     (if events = [] then Inr (0, 0)
      else if list_all (\<lambda>e. number_of (seq_key e) \<noteq> None) events then
        (let seqs = sort (map seq_number events); g = gap_scan (hd seqs) seqs 0 in Inr (g, g))
      else Inl (TypeError ''sequence number is not a number''))"

section \<open>One task\<close>

record task_stats =
  events_found :: nat
  successful_deliveries :: int
  failed_deliveries :: int
  gaps_detected :: rat
  gaps_resolved :: rat

definition no_stats :: task_stats where
  "no_stats = \<lparr>events_found = 0, successful_deliveries = 0, failed_deliveries = 0,
     gaps_detected = 0, gaps_resolved = 0\<rparr>"

text \<open>The loop over the events. With the counters it returns the exception that ended it, if any, and,
  as a trace, the events it tried with the outcome of each.\<close>

fun recover_events ::
  "'s recovery_env \<Rightarrow> string \<Rightarrow> pydict list \<Rightarrow> task_stats \<Rightarrow> 's
    \<Rightarrow> (task_stats \<times> py_exn option \<times> (pydict \<times> bool) list) \<times> 's" where
  "recover_events env task_id [] st s = ((st, None, []), s)"
| "recover_events env task_id (event # events) st s =
     (if re_shutdown env s then ((st, None, []), s)
      else
        let (success, s1) = recover_single_event env task_id event s in
        if success then
          let st1 = st\<lparr>successful_deliveries := successful_deliveries st + 1\<rparr> in
          (case re_on_event env task_id event s1 of
             (Some e, s2) \<Rightarrow> ((st1, Some e, [(event, True)]), s2)
           | (None, s2) \<Rightarrow>
               let ((st2, x, tr), s3) = recover_events env task_id events st1 s2
               in ((st2, x, (event, True) # tr), s3))
        else
          let ((st2, x, tr), s3) =
            recover_events env task_id events (st\<lparr>failed_deliveries := failed_deliveries st + 1\<rparr>) s1
          in ((st2, x, (event, False) # tr), s3))"

text \<open>The \<open>except\<close> branch: what was found and not delivered counts as failed, whatever the exception
  was raised by.\<close>

definition count_exception :: "task_stats \<Rightarrow> task_stats" where
  "count_exception st =
     st\<lparr>failed_deliveries := failed_deliveries st + (int (events_found st) - successful_deliveries st)\<rparr>"

definition recover_task_events ::
  "'s recovery_env \<Rightarrow> recovery_config \<Rightarrow> string \<Rightarrow> 's
    \<Rightarrow> (task_stats \<times> (pydict \<times> bool) list) \<times> 's" where
  "recover_task_events env cfg task_id s =
     (if re_shutdown env s then ((no_stats, []), s)
      else case re_pending env task_id s of
        Inl e \<Rightarrow> ((count_exception no_stats, []), s)
      | Inr pending \<Rightarrow>
          (let st = no_stats\<lparr>events_found := length pending\<rparr> in
           if pending = [] then ((st, []), s)
           else
             case (if sequence_gap_detection cfg then detect_gaps pending else Inr (0, 0)) of
               Inl e \<Rightarrow> ((count_exception st, []), s)
             | Inr (d, r) \<Rightarrow>
                 (case recover_events env task_id pending (st\<lparr>gaps_detected := d, gaps_resolved := r\<rparr>) s of
                    ((st', None, tr), s') \<Rightarrow> ((st', tr), s')
                  | ((st', Some e, tr), s') \<Rightarrow>
                      ((if is_Exception e then count_exception st' else st', tr), s'))))"

section \<open>Batches\<close>

record recovery_totals =
  tasks_scanned :: nat
  total_found :: nat
  total_successful :: int
  total_failed :: int
  tasks_with_failures :: nat
  total_gaps_detected :: rat
  total_gaps_resolved :: rat

definition no_totals :: recovery_totals where
  "no_totals = \<lparr>tasks_scanned = 0, total_found = 0, total_successful = 0, total_failed = 0,
     tasks_with_failures = 0, total_gaps_detected = 0, total_gaps_resolved = 0\<rparr>"

definition add_task_stats :: "task_stats \<Rightarrow> recovery_totals \<Rightarrow> recovery_totals" where
  "add_task_stats st b =
     b\<lparr>total_found := total_found b + events_found st,
       total_successful := total_successful b + successful_deliveries st,
       total_failed := total_failed b + failed_deliveries st,
       tasks_with_failures := tasks_with_failures b + (if failed_deliveries st > 0 then 1 else 0),
       total_gaps_detected := total_gaps_detected b + gaps_detected st,
       total_gaps_resolved := total_gaps_resolved b + gaps_resolved st\<rparr>"

definition add_totals :: "recovery_totals \<Rightarrow> recovery_totals \<Rightarrow> recovery_totals" where
  "add_totals x y =
     y\<lparr>total_found := total_found y + total_found x,
       total_successful := total_successful y + total_successful x,
       total_failed := total_failed y + total_failed x,
       tasks_with_failures := tasks_with_failures y + tasks_with_failures x,
       total_gaps_detected := total_gaps_detected y + total_gaps_detected x,
       total_gaps_resolved := total_gaps_resolved y + total_gaps_resolved x\<rparr>"

fun recover_task_batch ::
  "'s recovery_env \<Rightarrow> recovery_config \<Rightarrow> string list \<Rightarrow> recovery_totals \<Rightarrow> 's \<Rightarrow> recovery_totals \<times> 's" where
  "recover_task_batch env cfg [] b s = (b, s)"
| "recover_task_batch env cfg (t # ts) b s =
     (if re_shutdown env s then (b, s)
      else let ((st, tr), s1) = recover_task_events env cfg t s
           in recover_task_batch env cfg ts (add_task_stats st b) s1)"

text \<open>The slices \<open>xs[i:i+b]\<close> for \<open>i in range(0, len(xs), b)\<close>: an error for a step of zero, nothing
  for a negative one.\<close>

fun slices :: "nat \<Rightarrow> nat \<Rightarrow> 'a list \<Rightarrow> 'a list list" where
  "slices 0 b xs = []"
| "slices (Suc n) b xs = (if xs = [] then [] else take b xs # slices n b (drop b xs))"

definition batches :: "int \<Rightarrow> 'a list \<Rightarrow> 'a list list result" where
  "batches b xs =
     (if b = 0 then Inl (ValueError ''range() arg 3 must not be zero'')
      else if b < 0 then Inr []
      else Inr (slices (length xs) (nat b) xs))"

fun recover_batches ::
  "'s recovery_env \<Rightarrow> recovery_config \<Rightarrow> string list list \<Rightarrow> recovery_totals \<Rightarrow> 's \<Rightarrow> recovery_totals \<times> 's" where
  "recover_batches env cfg [] t s = (t, s)"
| "recover_batches env cfg (b # bs) t s =
     (if re_shutdown env s then (t, s)
      else let (x, s1) = recover_task_batch env cfg b no_totals s
           in recover_batches env cfg bs (add_totals x t) s1)"

section \<open>The service\<close>

record recovery_metrics =
  total_recoveries :: nat
  successful_recoveries :: nat
  failed_recoveries :: nat
  total_events_recovered :: int
  sequence_gaps_resolved :: rat

record recovery_service =
  sv_config :: recovery_config
  sv_active :: bool
  sv_stats :: "(recovery_totals \<times> rat) option"
  sv_metrics :: recovery_metrics

text \<open>\<open>create_recovery_service\<close>; without a client it raises.\<close>

definition create_recovery_service :: "bool \<Rightarrow> recovery_config option \<Rightarrow> recovery_service result" where
  "create_recovery_service has_client config =
     (if \<not> has_client then Inl (ValueError ''ControlPlaneClient is required'')
      else Inr \<lparr>sv_config = (case config of Some c \<Rightarrow> c | None \<Rightarrow> default_recovery_config),
                sv_active = False, sv_stats = None,
                sv_metrics = \<lparr>total_recoveries = 0, successful_recoveries = 0, failed_recoveries = 0,
                  total_events_recovered = 0, sequence_gaps_resolved = 0\<rparr>\<rparr>)"

definition count_failed_recovery :: "recovery_service \<Rightarrow> recovery_service" where
  "count_failed_recovery v =
     v\<lparr>sv_metrics := (sv_metrics v)\<lparr>failed_recoveries := failed_recoveries (sv_metrics v) + 1\<rparr>\<rparr>"

definition count_recovery :: "recovery_totals \<Rightarrow> recovery_service \<Rightarrow> recovery_service" where
  "count_recovery t v =
     (let m = sv_metrics v;
          m1 = m\<lparr>total_recoveries := total_recoveries m + 1\<rparr>;
          m2 = (if total_failed t = 0 then m1\<lparr>successful_recoveries := successful_recoveries m1 + 1\<rparr>
                else m1\<lparr>failed_recoveries := failed_recoveries m1 + 1\<rparr>)
      in v\<lparr>sv_metrics := m2\<lparr>total_events_recovered := total_events_recovered m2 + total_successful t,
             sequence_gaps_resolved := sequence_gaps_resolved m2 + total_gaps_resolved t\<rparr>\<rparr>)"

text \<open>\<open>_perform_recovery\<close>; \<open>t0\<close> and \<open>t1\<close> are its two clock readings. An exception is counted and
  raised again.\<close>

definition scan_tasks ::
  "'s recovery_env \<Rightarrow> recovery_config \<Rightarrow> 's \<Rightarrow> recovery_totals result \<times> 's" where
  "scan_tasks env cfg s =
     (let ids = re_tasks env s; t = no_totals\<lparr>tasks_scanned := length ids\<rparr> in
      if ids = [] then (Inr t, s)
      else case batches (batch_size cfg) ids of
        Inl e \<Rightarrow> (Inl e, s)
      | Inr bs \<Rightarrow> (let (t', s') = recover_batches env cfg bs t s in (Inr t', s')))"

definition perform_recovery ::
  "'s recovery_env \<Rightarrow> rat \<Rightarrow> rat \<Rightarrow> recovery_service \<Rightarrow> 's
    \<Rightarrow> ((recovery_totals \<times> rat) result \<times> recovery_service) \<times> 's" where
  "perform_recovery env t0 t1 v s =
     (let v0 = v\<lparr>sv_active := True\<rparr>;
          fails = (\<lambda>e v s. ((Inl e, (if is_Exception e then count_failed_recovery v else v)\<lparr>sv_active := False\<rparr>), s)) in
      case re_on_start env s of
        (Some e, s1) \<Rightarrow> fails e v0 s1
      | (None, s1) \<Rightarrow>
          (case scan_tasks env (sv_config v) s1 of
             (Inl e, s2) \<Rightarrow> fails e v0 s2
           | (Inr totals, s2) \<Rightarrow>
               (let stats = (totals, round_to 3 (max (t1 - t0) (1 / 1000)));
                    v1 = (count_recovery totals v0)\<lparr>sv_stats := Some stats\<rparr>
                in case re_on_complete env s2 of
                     (Some e, s3) \<Rightarrow> fails e v1 s3
                   | (None, s3) \<Rightarrow> ((Inr stats, v1\<lparr>sv_active := False\<rparr>), s3))))"

text \<open>The worker thread: \<open>stopped_in_delay\<close> says whether the shutdown event is set while it waits.\<close>

definition recovery_worker ::
  "'s recovery_env \<Rightarrow> bool \<Rightarrow> rat \<Rightarrow> rat \<Rightarrow> recovery_service \<Rightarrow> 's \<Rightarrow> recovery_service \<times> 's" where
  "recovery_worker env stopped_in_delay t0 t1 v s =
     (if startup_delay_seconds (sv_config v) > 0 \<and> stopped_in_delay then (v, s)
      else case perform_recovery env t0 t1 v s of
        ((Inr stats, v1), s1) \<Rightarrow> (v1, s1)
      | ((Inl e, v1), s1) \<Rightarrow> (if is_Exception e then count_failed_recovery v1 else v1, s1))"

text \<open>Starting and stopping: \<open>alive\<close> is \<open>is_alive()\<close> of the thread there is, \<open>set_shutdown\<close> sets or
  clears the event. The answers are whether a thread is started, and what \<open>stop\<close> returns.\<close>

definition start_recovery_service ::
  "(bool \<Rightarrow> 's \<Rightarrow> 's) \<Rightarrow> bool \<Rightarrow> recovery_service \<Rightarrow> 's \<Rightarrow> bool \<times> 's" where
  "start_recovery_service set_shutdown alive v s =
     (if \<not> rc_enabled (sv_config v) then (False, s)
      else if alive then (False, s)
      else (True, set_shutdown False s))"

definition stop_recovery_service ::
  "(bool \<Rightarrow> 's \<Rightarrow> 's) \<Rightarrow> bool \<Rightarrow> bool \<Rightarrow> 's \<Rightarrow> bool \<times> 's" where
  "stop_recovery_service set_shutdown alive alive_after_join s =
     (if \<not> alive then (True, s) else (\<not> alive_after_join, set_shutdown True s))"

section \<open>What recovery relies on\<close>

definition delivered_ids :: "(pydict \<times> bool) list \<Rightarrow> pyval list" where
  "delivered_ids tr = map (\<lambda>(e, b). dget e ''eventId'') (filter snd tr)"

definition tried :: "bool \<Rightarrow> (pydict \<times> bool) list \<Rightarrow> int" where
  "tried b tr = int (length (filter (\<lambda>x. snd x = b) tr))"

lemma tried_simps [simp]:
  "tried b [] = 0" "tried b ((e, c) # tr) = tried b tr + (if c = b then 1 else 0)"
  by (simp_all add: tried_def)

definition proper_id :: "pydict \<Rightarrow> bool" where
  "proper_id e \<longleftrightarrow> (\<exists>i. dget e ''eventId'' = PStr i \<and> strip i = i \<and> i \<noteq> [])"

definition count_try :: "bool \<Rightarrow> task_stats \<Rightarrow> task_stats" where
  "count_try b st = (if b then st\<lparr>successful_deliveries := successful_deliveries st + 1\<rparr>
     else st\<lparr>failed_deliveries := failed_deliveries st + 1\<rparr>)"

lemma recover_events_step:
  assumes "recover_events env t (e # es) st s = ((st', x, tr), s')" "\<not> re_shutdown env s"
    and "recover_single_event env t e s = (b, s1)" "re_on_event env t e s1 = (o2, s2)"
    and "\<not> (b \<and> o2 \<noteq> None)"
  shows "\<exists>tr'. recover_events env t es (count_try b st) (if b then s2 else s1) = ((st', x, tr'), s') \<and>
    tr = (e, b) # tr'"
proof -
  obtain st2 x2 tr2 s3 where
    "recover_events env t es (count_try b st) (if b then s2 else s1) = ((st2, x2, tr2), s3)"
    by (metis prod.exhaust)
  with assms show ?thesis by (cases b) (auto simp: count_try_def)
qed

locale recovery_contract =
  fixes env :: "'s recovery_env"
    and content :: "'s \<Rightarrow> string \<Rightarrow> pydict list"
    and ok :: "'s \<Rightarrow> bool"
  assumes ack_content: "ok s \<Longrightarrow> strip t = t \<Longrightarrow> t \<noteq> [] \<Longrightarrow> content (snd (re_ack env t i s)) u =
      (if u = t \<and> strip i \<noteq> [] then filter (\<lambda>e. \<not> has_event_id (strip i) e) (content s t) else content s u)"
    and publish_content: "content (snd (re_publish env t e s)) u = content s u"
    and on_event_content: "content (snd (re_on_event env t e s)) u = content s u"
    and ack_ok: "ok s \<Longrightarrow> ok (snd (re_ack env t i s))"
    and publish_ok: "ok s \<Longrightarrow> ok (snd (re_publish env t e s))"
    and on_event_ok: "ok s \<Longrightarrow> ok (snd (re_on_event env t e s))"
begin

lemma recover_single_content:
  assumes "ok s" "strip t = t" "t \<noteq> []" "proper_id e" "recover_single_event env t e s = (b, s')"
  shows "ok s' \<and> content s' u =
    (if b \<and> u = t then filter (\<lambda>x. dget x ''eventId'' \<noteq> dget e ''eventId'') (content s t) else content s u)"
proof -
  obtain i where i: "dget e ''eventId'' = PStr i" "strip i = i" "i \<noteq> []"
    using assms(4) by (auto simp: proper_id_def)
  then have g: "dget_or e ''eventId'' (PStr []) = PStr i" by (simp add: dget_def dget_or_def split: option.splits)
  obtain d s1 where p: "re_publish env t e s = (d, s1)" by fastforce
  have s1: "ok s1" "content s1 v = content s v" for v
    using publish_ok [OF assms(1), of t e] publish_content [of t e s v] p by simp_all
  show ?thesis
    using assms(2-) i g p s1 ack_ok [OF s1(1)] ack_content [OF s1(1)]
    by (cases d) (auto simp: recover_single_event_def has_event_id_def)
qed

lemma recover_events_content:
  assumes "strip t = t" "t \<noteq> []" "\<And>s. \<not> re_shutdown env s" "\<And>t e s. fst (re_on_event env t e s) = None"
  shows "ok s \<Longrightarrow> \<forall>e\<in>set es. proper_id e \<Longrightarrow> recover_events env t es st s = ((st', x, tr), s') \<Longrightarrow>
    x = None \<and> map fst tr = es \<and>
    content s' u = (if u = t then filter (\<lambda>e. dget e ''eventId'' \<notin> set (delivered_ids tr)) (content s t)
      else content s u)"
proof (induction es arbitrary: st s st' x tr s' u)
  case Nil
  then show ?case by (simp add: delivered_ids_def)
next
  case (Cons e es)
  obtain b s1 where b: "recover_single_event env t e s = (b, s1)" by fastforce
  have c1: "ok s1 \<and> content s1 v =
      (if b \<and> v = t then filter (\<lambda>x. dget x ''eventId'' \<noteq> dget e ''eventId'') (content s t) else content s v)" for v
    using recover_single_content [OF Cons.prems(1) assms(1,2) _ b] Cons.prems(2) by simp
  obtain o2 s2 where on: "re_on_event env t e s1 = (o2, s2)" by fastforce
  have on2: "o2 = None" "ok s2" "content s2 v = content s1 v" for v
    using assms(4) [of t e s1] on_event_content [of t e s1 v] on_event_ok [of s1 t e] on c1 by simp_all
  obtain sn tr' where sn: "sn = (if b then s2 else s1)" and tr': "tr = (e, b) # tr'"
    "recover_events env t es (count_try b st) sn = ((st', x, tr'), s')"
    using recover_events_step [OF Cons.prems(3) assms(3) b on] on2(1) by blast
  have IH: "x = None \<and> map fst tr' = es \<and>
      content s' v = (if v = t then filter (\<lambda>e. dget e ''eventId'' \<notin> set (delivered_ids tr')) (content sn t)
        else content sn v)" for v
    using Cons.IH [OF _ _ tr'(2)] Cons.prems(2) c1 on2(2) sn by simp
  have "content sn v = (if b \<and> v = t then filter (\<lambda>x. dget x ''eventId'' \<noteq> dget e ''eventId'') (content s t)
      else content s v)" for v
    using c1 on2(3) sn by simp
  then show ?case
    using IH [of u] IH [of t] tr'(1) by (auto simp: delivered_ids_def intro!: filter_cong)
qed

end

lemma recover_events_counts:
  "recover_events env t es st s = ((st', x, tr), s') \<Longrightarrow>
   successful_deliveries st' = successful_deliveries st + tried True tr \<and>
   failed_deliveries st' = failed_deliveries st + tried False tr \<and>
   events_found st' = events_found st \<and> gaps_detected st' = gaps_detected st \<and>
   gaps_resolved st' = gaps_resolved st"
proof (induction env t es st s arbitrary: st' x tr s' rule: recover_events.induct)
  case (2 env t e es st s)
  show ?case
  proof (cases "re_shutdown env s")
    case False
    obtain b s1 where b: "recover_single_event env t e s = (b, s1)" by fastforce
    obtain o2 s2 where on: "re_on_event env t e s1 = (o2, s2)" by fastforce
    show ?thesis
    proof (cases "b \<and> o2 \<noteq> None")
      case True
      then show ?thesis using 2(3) False b on by (auto simp: Let_def)
    next
      case cont: False
      let ?st = "count_try b st"
      obtain tr' where tr': "recover_events env t es ?st (if b then s2 else s1) = ((st', x, tr'), s')"
        "tr = (e, b) # tr'"
        using recover_events_step [OF 2(3) False b on cont] by blast
      have "successful_deliveries st' = successful_deliveries ?st + tried True tr' \<and>
          failed_deliveries st' = failed_deliveries ?st + tried False tr' \<and>
          events_found st' = events_found ?st \<and> gaps_detected st' = gaps_detected ?st \<and>
          gaps_resolved st' = gaps_resolved ?st"
      proof (cases b)
        case True
        with 2(1) [OF False b [symmetric] refl True refl on [symmetric]] tr'(1) cont show ?thesis by (simp add: count_try_def)
      next
        case nb: False
        with 2(2) [OF False b [symmetric] refl nb] tr'(1) show ?thesis by (simp add: count_try_def)
      qed
      with tr'(2) show ?thesis by (auto simp: count_try_def)
    qed
  qed (use 2(3) in simp)
qed simp

lemma tried_total: "tried True tr + tried False tr = int (length tr)"
  by (induction tr) auto

section \<open>The gaps\<close>

lemma gap_scan_ints:
  "sorted (p # ys) \<Longrightarrow> gap_scan (of_int (p + 1)) (map of_int ys) g =
     g + of_int (last (p # ys) - p - int (card (set ys - {p})))"
proof (induction ys arbitrary: p g)
  case (Cons y ys)
  have ord: "p \<le> y" "sorted (y # ys)" using Cons.prems by auto
  then have low: "z \<in> set (y # ys) \<Longrightarrow> p \<le> z" for z by auto
  show ?case
  proof (cases "y = p")
    case True
    then show ?thesis using Cons.IH [OF ord(2), of g] by simp
  next
    case False
    with ord have "y > p" by simp
    then have "p \<notin> set (y # ys)" using ord(2) by auto
    then have "card (set (y # ys) - {p}) = Suc (card (set ys - {y}))"
      by (metis Diff_empty Diff_insert0 List.finite_set card.insert_remove list.simps(15))
    moreover have "of_int y > (of_int (p + 1) :: rat) \<Longrightarrow>
        g + (of_int y - of_int (p + 1)) = g + of_int (y - p - 1)" by simp
    moreover have "\<not> of_int y > (of_int (p + 1) :: rat) \<Longrightarrow> y - p - 1 = 0"
      using \<open>y > p\<close> by linarith
    ultimately show ?thesis
      using Cons.IH [OF ord(2), of "g + of_int (y - p - 1)"] Cons.IH [OF ord(2), of g]
      by (auto simp: algebra_simps)
  qed
qed simp

lemma detect_gaps_numbers:
  "(\<And>e. e \<in> set es \<Longrightarrow> number_of (seq_key e) \<noteq> None) \<Longrightarrow> \<exists>g. detect_gaps es = Inr (g, g)"
  by (auto simp: detect_gaps_def list_all_iff Let_def)

section \<open>Recovery on the outbox\<close>

text \<open>The environment made of an outbox object and a rest \<open>'k\<close> of the world.\<close>

record 'k recovery_rest =
  rr_publish :: "string \<Rightarrow> pydict \<Rightarrow> 'k \<Rightarrow> delivery \<times> 'k"
  rr_shutdown :: "'k \<Rightarrow> bool"
  rr_on_start :: "'k \<Rightarrow> py_exn option \<times> 'k"
  rr_on_event :: "string \<Rightarrow> pydict \<Rightarrow> 'k \<Rightarrow> py_exn option \<times> 'k"
  rr_on_complete :: "'k \<Rightarrow> py_exn option \<times> 'k"

definition outbox_recovery_env ::
  "'r outbox_env \<Rightarrow> bool \<Rightarrow> link \<Rightarrow> 'k recovery_rest \<Rightarrow> ('r outbox_world \<times> 'k) recovery_env" where
  "outbox_recovery_env env up l rr =
     \<lparr>re_tasks = (\<lambda>(w, k). get_all_pending_tasks env up w),
      re_pending = (\<lambda>t (w, k). get_pending_events env up t w),
      re_ack = (\<lambda>t i (w, k). let (b, w') = acknowledge_event env l t i w in (b, (w', k))),
      re_publish = (\<lambda>t e (w, k). let (d, k') = rr_publish rr t e k in (d, (w, k'))),
      re_shutdown = (\<lambda>(w, k). rr_shutdown rr k),
      re_on_start = (\<lambda>(w, k). let (x, k') = rr_on_start rr k in (x, (w, k'))),
      re_on_event = (\<lambda>t e (w, k). let (x, k') = rr_on_event rr t e k in (x, (w, k'))),
      re_on_complete = (\<lambda>(w, k). let (x, k') = rr_on_complete rr k in (x, (w, k')))\<rparr>"

lemma acknowledge_memory:
  "\<not> ob_redis_enabled (ow_box w) \<Longrightarrow> snd (acknowledge_event env l t i w) =
     (if strip t = [] \<or> strip i = [] then w
      else w\<lparr>ow_box := snd (ack_event_local (strip t) (strip i) (ow_box w))\<rparr>)"
  by (simp add: acknowledge_event_def Let_def split_beta)

lemma ack_local_enabled [simp]:
  "ob_redis_enabled (snd (ack_event_local t i ob)) = ob_redis_enabled ob"
  by (simp add: ack_event_local_def Let_def)

interpretation memory_recovery: recovery_contract "outbox_recovery_env env up l rr"
  "\<lambda>s. store_events (ow_box (fst s))" "\<lambda>s. \<not> ob_redis_enabled (ow_box (fst s))"
  by unfold_locales
    (auto simp: outbox_recovery_env_def acknowledge_memory memory_outbox.content_ack split_beta)

section \<open>Properties\<close>

text \<open>C32. On the memory backend, for a task id without surrounding blanks whose pending events have stripped,
  non-empty identifiers and numeric sequence numbers, without a shutdown and with callbacks that do not raise:
  the recovery of the task tries every pending event once, in the order of the sequence numbers; every event
  counts either as delivered or as failed; and afterwards the outbox still holds exactly the events whose
  identifier was not delivered, and everything of the other tasks. (On Redis an acknowledgement can lose the
  whole list instead, \<open>ack_beyond_unpack_limit_loses_events\<close> of \<open>Outbox\<close>.)\<close>

theorem recovery_acks_what_it_delivers:
  assumes "\<not> ob_redis_enabled (ow_box w)" "strip t = t" "t \<noteq> []"
    and "\<And>k. \<not> rr_shutdown rr k" "\<And>t e k. fst (rr_on_event rr t e k) = None"
    and "\<And>e. e \<in> set (store_events (ow_box w) t) \<Longrightarrow> proper_id e \<and> number_of (seq_key e) \<noteq> None"
    and "recover_task_events (outbox_recovery_env env up l rr) cfg t (w, k) = ((st, tr), (w', k'))"
  shows "map fst tr = sort_key seq_number (store_events (ow_box w) t) \<and>
    events_found st = length (store_events (ow_box w) t) \<and>
    successful_deliveries st = tried True tr \<and> failed_deliveries st = tried False tr \<and>
    successful_deliveries st + failed_deliveries st = int (events_found st) \<and>
    store_events (ow_box w') t =
      filter (\<lambda>e. dget e ''eventId'' \<notin> set (delivered_ids tr)) (store_events (ow_box w) t) \<and>
    (u \<noteq> t \<longrightarrow> store_events (ow_box w') u = store_events (ow_box w) u)"
proof -
  let ?env = "outbox_recovery_env env up l rr" and ?es = "store_events (ow_box w) t"
  have run: "\<not> re_shutdown ?env s" "fst (re_on_event ?env v e s) = None" for s v e
    using assms(4,5) by (simp_all add: outbox_recovery_env_def split_beta)
  have pending: "re_pending ?env t (w, k) = Inr (sort_key seq_number ?es)"
    using assms(1,2,3) sort_events_numbers [of ?es] assms(6)
    by (simp add: outbox_recovery_env_def get_pending_events_def get_pending_local_def)
  show ?thesis
  proof (cases "?es = []")
    case True
    then show ?thesis
      using assms(7) run(1) pending
      by (auto simp: recover_task_events_def Let_def no_stats_def delivered_ids_def)
  next
    case False
    then have ne: "sort_key seq_number ?es \<noteq> []" by (metis set_empty set_sort)
    obtain d r where "(if sequence_gap_detection cfg then detect_gaps (sort_key seq_number ?es) else Inr (0, 0)) = Inr (d, r)"
      using detect_gaps_numbers [of "sort_key seq_number ?es"] assms(6)
      by (cases "sequence_gap_detection cfg") auto
    moreover obtain st1 x tr1 s1 where loop: "recover_events ?env t (sort_key seq_number ?es)
        (no_stats\<lparr>events_found := length ?es, gaps_detected := d, gaps_resolved := r\<rparr>) (w, k) = ((st1, x, tr1), s1)"
      by (metis prod.exhaust)
    moreover have content: "x = None \<and> map fst tr1 = sort_key seq_number ?es \<and>
        store_events (ow_box (fst s1)) v =
          (if v = t then filter (\<lambda>e. dget e ''eventId'' \<notin> set (delivered_ids tr1)) ?es else store_events (ow_box w) v)" for v
      using memory_recovery.recover_events_content [OF assms(2,3) run _ _ loop, of v] assms(1,6) by simp
    ultimately have st: "st = st1" "tr = tr1" "(w', k') = s1"
      using assms(7) run(1) pending ne by (simp_all add: recover_task_events_def Let_def)
    have "length (map fst tr) = length ?es" using content [of t] st by simp
    then have "length tr = length ?es" by simp
    moreover have "fst s1 = w'" using st(3) by (metis fst_conv)
    moreover note recover_events_counts [OF loop]
    ultimately show ?thesis
      using content [of t] content [of u] tried_total [of tr] st(1,2) by (simp add: no_stats_def)
  qed
qed

definition refuse_first :: "bool \<Rightarrow> nat recovery_rest" where
  "refuse_first raises =
     \<lparr>rr_publish = (\<lambda>t e k. (if k = 0 then Refused else Delivered, k + 1)), rr_shutdown = (\<lambda>k. False),
      rr_on_start = (\<lambda>k. (None, k)),
      rr_on_event = (\<lambda>t e k. (if raises then Some (RuntimeError ''callback'') else None, k)),
      rr_on_complete = (\<lambda>k. (None, k))\<rparr>"

definition two_events_world :: "(string \<Rightarrow> string list) outbox_world" where
  "two_events_world = (sample_world False)
     \<lparr>ow_box := store_event_local ''t1'' (sample_event ''evt_b'' 0)
        (store_event_local ''t1'' (sample_event ''evt_a'' 1) (ow_box (sample_world False)))\<rparr>"

lemma two_events:
  "\<not> ob_redis_enabled (ow_box two_events_world)"
  "store_events (ow_box two_events_world) ''t1'' = [sample_event ''evt_a'' 1, sample_event ''evt_b'' 0]"
  by code_simp+

lemma sample_ids:
  "proper_id (sample_event ''evt_a'' 1)" "proper_id (sample_event ''evt_b'' 0)"
proof -
  have "strip ''evt_a'' = ''evt_a''" "strip ''evt_b'' = ''evt_b''" by code_simp+
  then show "proper_id (sample_event ''evt_a'' 1)" "proper_id (sample_event ''evt_b'' 0)"
    by (simp_all add: proper_id_def sample_event_def dget_def)
qed

lemma recovery_acks_what_it_delivers_witness:
  "(let ((st, tr), (w', k)) = recover_task_events (outbox_recovery_env (sample_env 5) True LinkOk (refuse_first False))
        default_recovery_config ''t1'' (two_events_world, 0)
    in successful_deliveries st + failed_deliveries st = 2 \<and> map fst tr = [sample_event ''evt_b'' 0, sample_event ''evt_a'' 1])"
proof -
  let ?env = "outbox_recovery_env (sample_env 5) True LinkOk (refuse_first False)"
  obtain st tr w' k' where r:
    "recover_task_events ?env default_recovery_config ''t1'' (two_events_world, 0) = ((st, tr), (w', k'))"
    by (metis prod.exhaust)
  have s: "sort_key seq_number [sample_event ''evt_a'' 1, sample_event ''evt_b'' 0] =
      [sample_event ''evt_b'' 0, sample_event ''evt_a'' 1]"
    by code_simp
  have "\<not> rr_shutdown (refuse_first False) k" "fst (rr_on_event (refuse_first False) t e k) = None" for t e k
    by (simp_all add: refuse_first_def)
  moreover have "proper_id e \<and> number_of (seq_key e) \<noteq> None"
    if "e \<in> set (store_events (ow_box two_events_world) ''t1'')" for e
    using that sample_ids by (auto simp: two_events sample_event_def seq_key_def dget_or_def)
  ultimately have "map fst tr = sort_key seq_number (store_events (ow_box two_events_world) ''t1'') \<and>
      events_found st = length (store_events (ow_box two_events_world) ''t1'') \<and>
      successful_deliveries st + failed_deliveries st = int (events_found st)"
    using recovery_acks_what_it_delivers [OF two_events(1) conjunct1 [OF sample_strip]
        conjunct2 [OF sample_strip, unfolded conjunct1 [OF sample_strip]] _ _ _ r] by blast
  then show ?thesis unfolding two_events(2) s by (simp add: r)
qed

text \<open>For events with integer sequence numbers the gaps detected are the numbers missing between
  the least and the greatest one, however often a number is repeated; and every gap detected is
  reported as resolved.\<close>

theorem gaps_count_missing_numbers:
  assumes "es \<noteq> []" "map (\<lambda>e. seq_key e) es = map PInt ns"
  shows "detect_gaps es = Inr (of_int (Max (set ns) - Min (set ns) + 1 - int (card (set ns))),
    of_int (Max (set ns) - Min (set ns) + 1 - int (card (set ns))))"
proof -
  have ne: "ns \<noteq> []" using assms by auto
  have num: "list_all (\<lambda>e. number_of (seq_key e) \<noteq> None) es"
    unfolding list_all_iff
  proof
    fix e assume "e \<in> set es"
    then have "seq_key e \<in> PInt ` set ns" using assms(2) by (metis image_eqI list.set_map)
    then show "number_of (seq_key e) \<noteq> None" by auto
  qed
  have "map seq_number es = map (\<lambda>v. the (number_of v)) (map seq_key es)"
    using num by (auto simp: seq_number_def list_all_iff)
  also have "\<dots> = map of_int ns" by (simp add: assms(2))
  finally have "sort (map seq_number es) = map of_int (sort ns)"
    by (intro properties_for_sort) (auto simp: sorted_map intro: sorted_wrt_mono_rel [OF _ sorted_sort])
  moreover obtain m ms where m: "sort ns = m # ms" using ne by (metis list.exhaust set_empty set_sort)
  moreover have "gap_scan (of_int m) (map of_int (m # ms)) 0 =
      of_int (last (m # ms) - m - int (card (set ms - {m})))"
    using gap_scan_ints [of m ms 0] sorted_sort [of ns] m by simp
  moreover have "m = Min (set ns)" "last (m # ms) = Max (set ns)"
  proof -
    have s: "set ns = set (m # ms)" "sorted (m # ms)" using m by (metis set_sort, metis sorted_sort)
    then show "m = Min (set ns)" by (simp add: Min_insert2)
    have "z \<le> last (m # ms)" if "z \<in> set (m # ms)" for z
      using s(2) that by (metis in_set_conv_decomp last_ConsR last_appendR last_in_set list.distinct(1) set_ConsD sorted_append sorted_simps(2) order_refl)
    then show "last (m # ms) = Max (set ns)" using s(1) by (intro Max_eqI [symmetric]) auto
  qed
  moreover have "int (card (set ms - {m})) = int (card (set ns)) - 1"
  proof -
    have "set ns = insert m (set ms)" using m by (metis list.simps(15) set_sort)
    then show ?thesis by (simp add: card.insert_remove)
  qed
  ultimately show ?thesis
    using assms(1) num by (simp add: detect_gaps_def Let_def)
qed

text \<open>When a callback raises during the recovery of a task, the failures counted before are
  counted a second time: deliveries and failures add up to the events found plus the events
  that had already failed.\<close>

theorem exception_counts_failures_twice:
  assumes "\<not> re_shutdown env s" "re_pending env t s = Inr es" "es \<noteq> []"
    and "(if sequence_gap_detection cfg then detect_gaps es else Inr (0, 0)) = Inr (d, r)"
    and "recover_events env t es
      (no_stats\<lparr>events_found := length es, gaps_detected := d, gaps_resolved := r\<rparr>) s = ((st1, Some e, tr), s')"
    and "is_Exception e"
    and "recover_task_events env cfg t s = ((st, tr'), s'')"
  shows "successful_deliveries st = tried True tr \<and>
    successful_deliveries st + failed_deliveries st = int (length es) + tried False tr"
proof -
  have "st = count_exception st1"
    using assms by (simp add: recover_task_events_def Let_def)
  then show ?thesis
    using recover_events_counts [OF assms(5)] by (simp add: count_exception_def no_stats_def)
qed

text \<open>When a recovery run by the worker raises, it is counted as failed twice.\<close>

lemma worker_counts_failure_twice:
  assumes "perform_recovery env t0 t1 v s = ((Inl e, v'), s')" "is_Exception e" "\<not> stopped"
    and "\<And>s. fst (re_on_complete env s) = None"
  shows "failed_recoveries (sv_metrics (fst (recovery_worker env stopped t0 t1 v s))) =
    failed_recoveries (sv_metrics v) + 2"
proof -
  have "failed_recoveries (sv_metrics v') = failed_recoveries (sv_metrics v) + 1"
    using assms(1,2) assms(4)
    by (auto simp: perform_recovery_def Let_def count_failed_recovery_def split: prod.splits option.splits sum.splits)
       (metis fst_conv option.distinct(1))+
  then show ?thesis using assms(1-3) by (simp add: recovery_worker_def count_failed_recovery_def)
qed

end
