(* ===== verification/Batching.thy ===== *)
theory Batching
  imports Prelude
begin

text \<open>
  The loops that cut a group of waiting tasks into batches. \<open>get_optimized_batches\<close> of
  \<open>utils/resource_optimizer.py\<close> and \<open>_create_batches\<close> of \<open>utils/task_queue_manager.py\<close> contain
  the same two nested loops, which differ in how a task's priority and time are read, in
  whether a task is skipped, and in when an incomplete batch is flushed; these are parameters here.

  A planned batch records its tasks with the priority and the time of the batch. What the code does
  when a batch is created does not influence the loops: the components carry it out afterwards, in
  the order of the plan.
\<close>

record batching_config =
  max_batch_size :: int
  max_wait_time_seconds :: rat
  min_batch_size :: int
  priority_threshold :: rat
  similar_task_grouping :: bool

definition default_batching_config :: batching_config where
  "default_batching_config =
     \<lparr>max_batch_size = 10, max_wait_time_seconds = 5, min_batch_size = 2, priority_threshold = 8 / 10,
      similar_task_grouping = True\<rparr>"

record task_batch =
  tb_tasks :: "pydict list"
  tb_id :: string
  tb_created_at :: rat
  tb_priority :: rat
  tb_estimated_time :: rat

datatype 'a planned = Single 'a rat rat | Batch "'a list" rat rat

fun planned_items :: "'a planned \<Rightarrow> 'a list" where
  "planned_items (Single x p t) = [x]"
| "planned_items (Batch xs p t) = xs"

record 'a batch_rules =
  br_skip :: "'a \<Rightarrow> bool"
  br_priority :: "'a \<Rightarrow> rat result"
  br_time :: "'a \<Rightarrow> rat result"
  br_flush :: "'a list \<Rightarrow> bool"

text \<open>The inner loop: tasks are taken until the batch is full. It returns the tasks left, the batch with
  its priority and time, and the plan so far.\<close>

fun fill_batch ::
  "batching_config \<Rightarrow> 'a batch_rules \<Rightarrow> 'a list \<Rightarrow> 'a list \<Rightarrow> rat \<Rightarrow> rat \<Rightarrow> 'a planned list
    \<Rightarrow> ('a list \<times> 'a list \<times> rat \<times> rat \<times> 'a planned list) result" where
  "fill_batch cfg rules [] batch p t plan = Inr ([], batch, p, t, plan)"
| "fill_batch cfg rules (x # xs) batch p t plan =
     (if \<not> int (length batch) < max_batch_size cfg then Inr (x # xs, batch, p, t, plan)
      else if br_skip rules x then fill_batch cfg rules xs batch p t plan
      else case br_priority rules x of
        Inl e \<Rightarrow> Inl e
      | Inr q \<Rightarrow>
          (case br_time rules x of
             Inl e \<Rightarrow> Inl e
           | Inr d \<Rightarrow>
               if q > priority_threshold cfg \<and> batch = []
               then fill_batch cfg rules xs batch p t (plan @ [Single x q d])
               else fill_batch cfg rules xs (batch @ [x]) (max p q) (t + d) plan))"

text \<open>The outer loop over one group, with fuel; \<open>None\<close> means that the fuel ran out. It returns the plan
  and the tasks that were put back.\<close>

fun plan_group ::
  "nat \<Rightarrow> batching_config \<Rightarrow> 'a batch_rules \<Rightarrow> 'a list \<Rightarrow> 'a planned list
    \<Rightarrow> ('a planned list \<times> 'a list) result option" where
  "plan_group 0 cfg rules tasks plan = None"
| "plan_group (Suc n) cfg rules tasks plan =
     (if tasks = [] then Some (Inr (plan, []))
      else case fill_batch cfg rules tasks [] 0 0 plan of
        Inl e \<Rightarrow> Some (Inl e)
      | Inr (rest, batch, p, t, plan') \<Rightarrow>
          if int (length batch) \<ge> min_batch_size cfg \<or> (batch \<noteq> [] \<and> br_flush rules batch)
          then plan_group n cfg rules rest (plan' @ [Batch batch p t])
          else Some (Inr (plan', rest @ batch)))"

text \<open>The loop over the groups.\<close>

fun plan_groups ::
  "batching_config \<Rightarrow> 'a batch_rules \<Rightarrow> (string \<times> 'a list) list
    \<Rightarrow> ((string \<times> 'a planned list \<times> 'a list) list) result option" where
  "plan_groups cfg rules [] = Some (Inr [])"
| "plan_groups cfg rules ((name, tasks) # groups) =
     (case plan_group (Suc (length tasks)) cfg rules tasks [] of
        None \<Rightarrow> None
      | Some (Inl e) \<Rightarrow> Some (Inl e)
      | Some (Inr (plan, left)) \<Rightarrow>
          (case plan_groups cfg rules groups of
             None \<Rightarrow> None
           | Some (Inl e) \<Rightarrow> Some (Inl e)
           | Some (Inr rest) \<Rightarrow> Some (Inr ((name, plan, left) # rest))))"

text \<open>Grouping by a key, in the order in which the keys first occur.\<close>

definition add_to_group :: "('a \<Rightarrow> string) \<Rightarrow> 'a \<Rightarrow> (string \<times> 'a list) list \<Rightarrow> (string \<times> 'a list) list" where
  "add_to_group key x groups =
     AList.update (key x) ((case map_of groups (key x) of Some xs \<Rightarrow> xs | None \<Rightarrow> []) @ [x]) groups"

definition group_by_key :: "('a \<Rightarrow> string) \<Rightarrow> 'a list \<Rightarrow> (string \<times> 'a list) list" where
  "group_by_key key xs = fold (add_to_group key) xs []"

section \<open>Facts about the loops\<close>

definition items :: "'a planned list \<Rightarrow> 'a list" where
  "items plan = concat (map planned_items plan)"

lemma items_simps [simp]:
  "items [] = []" "items (b # plan) = planned_items b @ items plan" "items (plan @ [b]) = items plan @ planned_items b"
  by (simp_all add: items_def)

text \<open>Induction over a run of the inner loop that returns.\<close>

lemma fill_batch_run [consumes 1, case_names Empty Full Skip Alone Join]:
  assumes "fill_batch cfg rules xs batch p t plan = Inr r"
    and "\<And>batch p t plan. P [] batch p t plan ([], batch, p, t, plan)"
    and "\<And>x xs batch p t plan. \<not> int (length batch) < max_batch_size cfg \<Longrightarrow>
      P (x # xs) batch p t plan (x # xs, batch, p, t, plan)"
    and "\<And>x xs batch p t plan. int (length batch) < max_batch_size cfg \<Longrightarrow> br_skip rules x \<Longrightarrow>
      P xs batch p t plan r \<Longrightarrow> P (x # xs) batch p t plan r"
    and "\<And>x xs p t plan q d. 0 < max_batch_size cfg \<Longrightarrow> \<not> br_skip rules x \<Longrightarrow> br_priority rules x = Inr q \<Longrightarrow>
      br_time rules x = Inr d \<Longrightarrow> q > priority_threshold cfg \<Longrightarrow>
      P xs [] p t (plan @ [Single x q d]) r \<Longrightarrow> P (x # xs) [] p t plan r"
    and "\<And>x xs batch p t plan q d. int (length batch) < max_batch_size cfg \<Longrightarrow> \<not> br_skip rules x \<Longrightarrow>
      br_priority rules x = Inr q \<Longrightarrow> br_time rules x = Inr d \<Longrightarrow>
      \<not> q > priority_threshold cfg \<or> batch \<noteq> [] \<Longrightarrow>
      P xs (batch @ [x]) (max p q) (t + d) plan r \<Longrightarrow> P (x # xs) batch p t plan r"
  shows "P xs batch p t plan r"
  using assms(1)
proof (induction xs arbitrary: batch p t plan)
  case Nil
  then show ?case using assms(2) by auto
next
  case (Cons x xs)
  show ?case
  proof (cases "int (length batch) < max_batch_size cfg \<and> \<not> br_skip rules x")
    case False
    then show ?thesis using Cons assms(3,4) by (auto split: if_splits)
  next
    case True
    then obtain q d where qd: "br_priority rules x = Inr q" "br_time rules x = Inr d"
      using Cons.prems by (auto split: sum.splits)
    show ?thesis
    proof (cases "q > priority_threshold cfg \<and> batch = []")
      case alone: True
      then show ?thesis using Cons True qd assms(5) by simp
    next
      case False
      then have "fill_batch cfg rules xs (batch @ [x]) (max p q) (t + d) plan = Inr r"
        using Cons.prems True qd by auto
      then show ?thesis using Cons.IH assms(6) [OF _ _ qd] True False by blast
    qed
  qed
qed

lemma fill_batch_items:
  "fill_batch cfg rules xs batch p t plan = Inr r \<Longrightarrow>
   (case r of (rest, batch', p', t', plan') \<Rightarrow>
     mset (items plan') + mset batch' + mset (filter (\<lambda>x. \<not> br_skip rules x) rest) =
     mset (items plan) + mset batch + mset (filter (\<lambda>x. \<not> br_skip rules x) xs))"
  by (induction rule: fill_batch_run) auto

lemma fill_batch_not_skipped:
  "fill_batch cfg rules xs batch p t plan = Inr r \<Longrightarrow>
   list_all (\<lambda>x. \<not> br_skip rules x) batch \<Longrightarrow> list_all (\<lambda>x. \<not> br_skip rules x) (fst (snd r))"
  by (induction rule: fill_batch_run) simp_all

lemma fill_batch_rest:
  "fill_batch cfg rules xs batch p t plan = Inr r \<Longrightarrow>
   length (fst r) \<le> length xs \<and>
   (xs \<noteq> [] \<longrightarrow> int (length batch) < max_batch_size cfg \<longrightarrow> length (fst r) < length xs)"
  by (induction rule: fill_batch_run) auto

lemma fill_batch_size:
  "fill_batch cfg rules xs batch p t plan = Inr r \<Longrightarrow>
   (int (length batch) \<le> max_batch_size cfg \<longrightarrow> int (length (fst (snd r))) \<le> max_batch_size cfg) \<and>
   (int (length (fst (snd r))) < max_batch_size cfg \<longrightarrow> fst r = [])"
  by (induction rule: fill_batch_run) auto

text \<open>With room for a task in a batch, the fuel given by the number of tasks is enough.\<close>

lemma plan_group_terminates:
  "1 \<le> max_batch_size cfg \<Longrightarrow> length tasks < n \<Longrightarrow> plan_group n cfg rules tasks plan \<noteq> None"
proof (induction n arbitrary: tasks plan)
  case (Suc n)
  show ?case
  proof (cases "tasks = []")
    case False
    show ?thesis
    proof (cases "fill_batch cfg rules tasks [] 0 0 plan")
      case (Inr r)
      then obtain rest batch p t plan' where
        f: "fill_batch cfg rules tasks [] 0 0 plan = Inr (rest, batch, p, t, plan')"
        by (metis prod.exhaust)
      then have "length rest < length tasks"
        using fill_batch_rest [OF f] False Suc.prems(1) by simp
      then have "plan_group n cfg rules rest (plan' @ [Batch batch p t]) \<noteq> None"
        using Suc.IH [OF Suc.prems(1)] Suc.prems(2) by simp
      with f False show ?thesis by simp
    qed (use False in simp)
  qed simp
qed simp

lemma plan_group_items:
  "plan_group n cfg rules tasks plan = Some (Inr (plan', left)) \<Longrightarrow>
   mset (items plan') + mset (filter (\<lambda>x. \<not> br_skip rules x) left) =
   mset (items plan) + mset (filter (\<lambda>x. \<not> br_skip rules x) tasks)"
proof (induction n arbitrary: tasks plan)
  case (Suc n)
  show ?case
  proof (cases "tasks = []")
    case False
    then obtain rest batch p t plan1 where
      f: "fill_batch cfg rules tasks [] 0 0 plan = Inr (rest, batch, p, t, plan1)"
      using Suc.prems by (auto split: sum.splits)
    have b: "filter (\<lambda>x. \<not> br_skip rules x) batch = batch"
      using fill_batch_not_skipped [OF f] by (simp add: list_all_iff)
    have i: "mset (items plan1) + mset batch + mset (filter (\<lambda>x. \<not> br_skip rules x) rest) =
        mset (items plan) + mset (filter (\<lambda>x. \<not> br_skip rules x) tasks)"
      using fill_batch_items [OF f] by simp
    show ?thesis
    proof (cases "int (length batch) \<ge> min_batch_size cfg \<or> (batch \<noteq> [] \<and> br_flush rules batch)")
      case True
      then have "plan_group n cfg rules rest (plan1 @ [Batch batch p t]) = Some (Inr (plan', left))"
        using Suc.prems False f by simp
      from Suc.IH [OF this] i show ?thesis by simp
    next
      case n: False
      then have "plan' = plan1" "left = rest @ batch" using Suc.prems False f by auto
      then have "mset (items plan') + mset (filter (\<lambda>x. \<not> br_skip rules x) left) =
          mset (items plan1) + mset batch + mset (filter (\<lambda>x. \<not> br_skip rules x) rest)"
        using b by (simp del: mset_filter)
      with i show ?thesis by simp
    qed
  qed (use Suc.prems in simp)
qed simp

text \<open>What is put back is less than a batch, and no batch exceeds the bounds of the configuration.\<close>

fun batch_size_ok :: "batching_config \<Rightarrow> 'a planned \<Rightarrow> bool" where
  "batch_size_ok cfg (Single x q t) = (q > priority_threshold cfg)"
| "batch_size_ok cfg (Batch xs p t) = (int (length xs) \<le> max_batch_size cfg)"

lemma fill_batch_plan_ok:
  "fill_batch cfg rules xs batch p t plan = Inr r \<Longrightarrow> list_all (batch_size_ok cfg) plan \<Longrightarrow>
   list_all (batch_size_ok cfg) (snd (snd (snd (snd r))))"
  by (induction rule: fill_batch_run) simp_all

lemma plan_group_step:
  assumes "plan_group (Suc n) cfg rules tasks plan = Some (Inr (plan', left))" "tasks \<noteq> []"
  obtains rest batch p t plan1 where
    "fill_batch cfg rules tasks [] 0 0 plan = Inr (rest, batch, p, t, plan1)"
    "plan_group n cfg rules rest (plan1 @ [Batch batch p t]) = Some (Inr (plan', left))"
  | rest batch p t where
    "fill_batch cfg rules tasks [] 0 0 plan = Inr (rest, batch, p, t, plan')"
    "int (length batch) < min_batch_size cfg" "left = rest @ batch"
    "batch = [] \<or> \<not> br_flush rules batch"
  using assms by (auto split: sum.splits if_splits)

lemma plan_group_bounds:
  assumes "0 \<le> max_batch_size cfg"
  shows "plan_group n cfg rules tasks plan = Some (Inr (plan', left)) \<Longrightarrow>
    list_all (batch_size_ok cfg) plan \<Longrightarrow>
    list_all (batch_size_ok cfg) plan' \<and>
    (min_batch_size cfg \<le> max_batch_size cfg \<and> left \<noteq> [] \<longrightarrow> int (length left) < min_batch_size cfg)"
proof (induction n arbitrary: tasks plan)
  case (Suc n)
  show ?case
  proof (cases "tasks = []")
    case False
    with Suc.prems(1) show ?thesis
    proof (cases rule: plan_group_step)
      case (1 rest batch p t plan1)
      have "list_all (batch_size_ok cfg) (plan1 @ [Batch batch p t])"
        using fill_batch_plan_ok [OF 1(1) Suc.prems(2)] fill_batch_size [OF 1(1)] assms by simp
      then show ?thesis using Suc.IH [OF 1(2)] by blast
    next
      case (2 rest batch p t)
      then show ?thesis
        using fill_batch_plan_ok [OF 2(1) Suc.prems(2)] fill_batch_size [OF 2(1)] by auto
    qed
  qed (use Suc.prems in simp)
qed simp

lemma fill_batch_returns:
  "(\<And>x. x \<in> set xs \<Longrightarrow> \<not> br_skip rules x \<Longrightarrow> (\<exists>q. br_priority rules x = Inr q) \<and> (\<exists>d. br_time rules x = Inr d)) \<Longrightarrow>
   \<exists>r. fill_batch cfg rules xs batch p t plan = Inr r"
proof (induction xs arbitrary: batch p t plan)
  case (Cons x xs)
  then have IH: "\<exists>r. fill_batch cfg rules xs batch p t plan = Inr r" for batch p t plan by simp
  show ?case using Cons.prems [of x] IH by auto
qed simp

text \<open>The groups hold every task once.\<close>

definition grouped :: "(string \<times> 'a list) list \<Rightarrow> 'a list" where
  "grouped groups = concat (map snd groups)"

lemma mset_grouped_update:
  "distinct (map fst g) \<Longrightarrow>
   mset (grouped (AList.update k (v @ [x]) g)) + (case map_of g k of Some xs \<Rightarrow> mset xs | None \<Rightarrow> {#}) =
   mset (grouped g) + mset v + {#x#}"
  by (induction g) (auto simp: grouped_def split: option.splits dest: map_of_SomeD)

lemma add_to_group_mset:
  "distinct (map fst g) \<Longrightarrow>
   mset (grouped (add_to_group key x g)) = add_mset x (mset (grouped g)) \<and> distinct (map fst (add_to_group key x g))"
  using mset_grouped_update [of g "key x" "case map_of g (key x) of Some xs \<Rightarrow> xs | None \<Rightarrow> []" x]
  by (cases "map_of g (key x)") (auto simp: add_to_group_def distinct_update)

lemma group_by_key_mset: "mset (grouped (group_by_key key xs)) = mset xs"
proof -
  have "distinct (map fst g) \<Longrightarrow> mset (grouped (fold (add_to_group key) xs g)) = mset (grouped g) + mset xs" for g
    by (induction xs arbitrary: g) (simp_all add: add_to_group_mset)
  from this [of "[]"] show ?thesis by (simp add: group_by_key_def grouped_def)
qed

lemma plan_groups_items:
  "plan_groups cfg rules groups = Some (Inr plans) \<Longrightarrow>
   mset (concat (map (\<lambda>(name, plan, left). items plan) plans)) +
   mset (filter (\<lambda>x. \<not> br_skip rules x) (concat (map (\<lambda>(name, plan, left). left) plans))) =
   mset (filter (\<lambda>x. \<not> br_skip rules x) (grouped groups))"
proof (induction groups arbitrary: plans)
  case (Cons g groups)
  obtain name tasks where g: "g = (name, tasks)" by fastforce
  obtain plan left rest where s: "plan_group (Suc (length tasks)) cfg rules tasks [] = Some (Inr (plan, left))"
    "plan_groups cfg rules groups = Some (Inr rest)" "plans = (name, plan, left) # rest"
    using Cons.prems by (auto simp: g simp del: plan_group.simps split: option.splits sum.splits)
  show ?case
    using arg_cong2 [where f = "(+)", OF plan_group_items [OF s(1)] Cons.IH [OF s(2)]]
    by (simp add: s(3) g grouped_def ac_simps)
qed (simp add: grouped_def)

lemma plan_groups_bounds:
  "plan_groups cfg rules groups = Some (Inr plans) \<Longrightarrow> 0 \<le> max_batch_size cfg \<Longrightarrow>
   min_batch_size cfg \<le> max_batch_size cfg \<Longrightarrow> (name, plan, left) \<in> set plans \<Longrightarrow>
   list_all (batch_size_ok cfg) plan \<and> (left \<noteq> [] \<longrightarrow> int (length left) < min_batch_size cfg)"
proof (induction groups arbitrary: plans)
  case (Cons g groups)
  obtain nm tasks where g: "g = (nm, tasks)" by fastforce
  obtain pl lf rest where s: "plan_group (Suc (length tasks)) cfg rules tasks [] = Some (Inr (pl, lf))"
    "plan_groups cfg rules groups = Some (Inr rest)" "plans = (nm, pl, lf) # rest"
    using Cons.prems(1) by (auto simp: g simp del: plan_group.simps split: option.splits sum.splits)
  show ?case
  proof (cases "(name, plan, left) \<in> set rest")
    case True
    then show ?thesis using Cons.IH [OF s(2) Cons.prems(2,3)] by simp
  next
    case False
    then have "plan = pl \<and> left = lf" using Cons.prems(4) s(3) by simp
    then show ?thesis using plan_group_bounds [OF Cons.prems(2) s(1)] Cons.prems(3) by simp
  qed
qed simp

lemma plan_groups_terminates:
  "1 \<le> max_batch_size cfg \<Longrightarrow> plan_groups cfg rules groups \<noteq> None"
proof (induction groups)
  case (Cons g groups)
  obtain nm tasks where g: "g = (nm, tasks)" by fastforce
  show ?case
    using Cons plan_group_terminates [OF Cons.prems, of tasks "Suc (length tasks)" rules "[]"]
    by (auto simp: g simp del: plan_group.simps split: option.splits sum.splits)
qed simp

lemma plan_group_no_error:
  assumes "\<And>x. \<exists>q. br_priority rules x = Inr q" "\<And>x. \<exists>d. br_time rules x = Inr d"
  shows "plan_group n cfg rules tasks plan \<noteq> Some (Inl e)"
proof (induction n arbitrary: tasks plan)
  case (Suc n)
  obtain rest batch p t plan' where "fill_batch cfg rules tasks [] 0 0 plan = Inr (rest, batch, p, t, plan')"
    using fill_batch_returns [of tasks rules cfg "[]" 0 0 plan] assms by (metis prod_cases5)
  with Suc show ?case by auto
qed simp

lemma plan_groups_no_error:
  assumes "\<And>x. \<exists>q. br_priority rules x = Inr q" "\<And>x. \<exists>d. br_time rules x = Inr d"
  shows "plan_groups cfg rules groups \<noteq> Some (Inl e)"
proof (induction groups)
  case (Cons g groups)
  obtain nm tasks where g: "g = (nm, tasks)" by fastforce
  show ?case
    using Cons plan_group_no_error [OF assms, of "Suc (length tasks)" cfg tasks "[]"]
    by (auto simp: g simp del: plan_group.simps split: option.splits sum.splits)
qed simp

end
