(* ===== verification/Resource_Optimizer.thy ===== *)
theory Resource_Optimizer
  imports Batching
begin

text \<open>
  The resource optimizer of \<open>utils/resource_optimizer.py\<close>: bounded histories of metrics and costs,
  scaling recommendations, cost recommendations and the batching of its own task queue.

  The clock is an argument. The scaling thresholds are a table of numbers (\<open>PInt\<close> or \<open>PFloat\<close>,
  which differ only in how they are printed). A division by zero raises, as in Python.
\<close>

section \<open>Data\<close>

datatype resource_type = CPU | MEMORY | NETWORK | LLM_TOKENS | REDIS_CONNECTIONS | DATABASE_CONNECTIONS

datatype scaling_action = SCALE_UP | SCALE_DOWN | MAINTAIN

record resource_metrics =
  cpu_percent :: rat
  memory_percent :: rat
  network_io_mbps :: rat
  active_connections :: int
  queue_depth :: int
  pending_tasks :: int
  llm_tokens_per_minute :: int
  rm_timestamp :: rat

record scaling_recommendation =
  sr_resource :: resource_type
  sr_action :: scaling_action
  sr_current_value :: rat
  sr_recommended_value :: rat
  sr_reason :: string
  sr_confidence :: rat
  sr_cost_impact :: rat

record cost_metrics =
  llm_api_cost_usd :: rat
  compute_cost_usd :: rat
  storage_cost_usd :: rat
  network_cost_usd :: rat
  total_cost_usd :: rat
  cost_per_task :: rat
  cm_timestamp :: rat

type_synonym thresholds = "(string \<times> pyval \<times> pyval) list"

record resource_optimizer =
  ro_metrics :: "resource_metrics list"
  ro_costs :: "cost_metrics list"
  ro_pending_batches :: "task_batch list"
  ro_queue :: "pydict list"
  ro_thresholds :: thresholds
  ro_cost_tracking :: bool
  ro_batching :: batching_config

definition default_thresholds :: thresholds where
  "default_thresholds =
     [(''cpu'', PFloat 30, PFloat 80), (''memory'', PFloat 40, PFloat 85),
      (''queue_depth'', PInt 5, PInt 20), (''connections'', PInt 10, PInt 45)]"

definition new_optimizer :: "thresholds option \<Rightarrow> bool \<Rightarrow> batching_config option \<Rightarrow> resource_optimizer" where
  "new_optimizer th cost_tracking cfg =
     \<lparr>ro_metrics = [], ro_costs = [], ro_pending_batches = [], ro_queue = [],
      ro_thresholds = (case th of Some t \<Rightarrow> if t = [] then default_thresholds else t | None \<Rightarrow> default_thresholds),
      ro_cost_tracking = cost_tracking,
      ro_batching = (case cfg of Some c \<Rightarrow> c | None \<Rightarrow> default_batching_config)\<rparr>"

text \<open>The example rate \<open>_compute_cost_per_hour\<close>.\<close>

definition compute_cost_per_hour :: rat where
  "compute_cost_per_hour = 1 / 10"

definition record_metrics :: "resource_metrics \<Rightarrow> resource_optimizer \<Rightarrow> resource_optimizer" where
  "record_metrics m opt = opt\<lparr>ro_metrics := push_bounded 100 m (ro_metrics opt)\<rparr>"

definition track_cost :: "cost_metrics \<Rightarrow> resource_optimizer \<Rightarrow> resource_optimizer" where
  "track_cost c opt = (if \<not> ro_cost_tracking opt then opt else opt\<lparr>ro_costs := push_bounded 100 c (ro_costs opt)\<rparr>)"

section \<open>Trends\<close>

definition zero_division :: py_exn where
  "zero_division = NamedError ''ZeroDivisionError'' ''division by zero''"

definition calculate_trend :: "rat list \<Rightarrow> rat result" where
  "calculate_trend values =
     (if length values < 2 then Inr 0
      else
        let n = of_nat (length values);
            x_sum = (\<Sum>i\<leftarrow>[0..<length values]. of_nat i);
            y_sum = sum_list values;
            xy_sum = (\<Sum>i\<leftarrow>[0..<length values]. of_nat i * values ! i);
            x2_sum = (\<Sum>i\<leftarrow>[0..<length values]. of_nat i * of_nat i)
        in if n * x2_sum - x_sum * x_sum = 0 then Inr 0
           else
             let slope = (n * xy_sum - x_sum * y_sum) / (n * x2_sum - x_sum * x_sum);
                 max_value = fold max (tl values) (hd values)
             in if max_value = 0 then Inl zero_division
                else Inr (max (-1) (min 1 (slope / max_value))))"

section \<open>Scaling recommendations\<close>

definition read_threshold :: "thresholds \<Rightarrow> string \<Rightarrow> ((rat \<times> string) \<times> (rat \<times> string)) result" where
  "read_threshold th k =
     (case map_of th k of
        None \<Rightarrow> Inl (NamedError ''KeyError'' k)
      | Some (d, u) \<Rightarrow>
          (case (number_of d, number_of u) of
             (Some x, Some y) \<Rightarrow> Inr ((x, py_str d), (y, py_str u))
           | _ \<Rightarrow> Inl (TypeError ''threshold is not a number'')))"

definition analyze_cpu_scaling ::
  "thresholds \<Rightarrow> resource_metrics list \<Rightarrow> scaling_recommendation option result" where
  "analyze_cpu_scaling th recent =
     (let cpu_values = map cpu_percent recent; avg_cpu = mean cpu_values in
      case calculate_trend cpu_values of
        Inl e \<Rightarrow> Inl e
      | Inr cpu_trend \<Rightarrow>
          (case read_threshold th ''cpu'' of
             Inl e \<Rightarrow> Inl e
           | Inr ((down, down_text), (up, up_text)) \<Rightarrow> Inr
               (if avg_cpu > up \<and> cpu_trend > 0 then Some
                  \<lparr>sr_resource = CPU, sr_action = SCALE_UP, sr_current_value = avg_cpu,
                   sr_recommended_value = min 100 (avg_cpu * (15 / 10)),
                   sr_reason = ''CPU utilization '' @ show_fixed 1 avg_cpu @ ''% exceeds threshold '' @ up_text @
                     ''% with upward trend'',
                   sr_confidence = min 1 ((avg_cpu - up) / 20),
                   sr_cost_impact = compute_cost_per_hour * (5 / 10)\<rparr>
                else if avg_cpu < down \<and> cpu_trend < 0 then Some
                  \<lparr>sr_resource = CPU, sr_action = SCALE_DOWN, sr_current_value = avg_cpu,
                   sr_recommended_value = max 10 (avg_cpu * (7 / 10)),
                   sr_reason = ''CPU utilization '' @ show_fixed 1 avg_cpu @ ''% below threshold '' @ down_text @
                     ''% with downward trend'',
                   sr_confidence = min 1 ((down - avg_cpu) / 20),
                   sr_cost_impact = - compute_cost_per_hour * (3 / 10)\<rparr>
                else None)))"

definition analyze_memory_scaling ::
  "thresholds \<Rightarrow> resource_metrics list \<Rightarrow> scaling_recommendation option result" where
  "analyze_memory_scaling th recent =
     (let memory_values = map memory_percent recent; avg_memory = mean memory_values in
      case calculate_trend memory_values of
        Inl e \<Rightarrow> Inl e
      | Inr memory_trend \<Rightarrow>
          (case read_threshold th ''memory'' of
             Inl e \<Rightarrow> Inl e
           | Inr ((down, down_text), (up, up_text)) \<Rightarrow> Inr
               (if avg_memory > up then Some
                  \<lparr>sr_resource = MEMORY, sr_action = SCALE_UP, sr_current_value = avg_memory,
                   sr_recommended_value = min 100 (avg_memory * (13 / 10)),
                   sr_reason = ''Memory utilization '' @ show_fixed 1 avg_memory @ ''% exceeds threshold '' @
                     up_text @ ''%'',
                   sr_confidence = min 1 ((avg_memory - up) / 15),
                   sr_cost_impact = compute_cost_per_hour * (4 / 10)\<rparr>
                else if avg_memory < down \<and> memory_trend < 0 then Some
                  \<lparr>sr_resource = MEMORY, sr_action = SCALE_DOWN, sr_current_value = avg_memory,
                   sr_recommended_value = max 20 (avg_memory * (8 / 10)),
                   sr_reason = ''Memory utilization '' @ show_fixed 1 avg_memory @ ''% below threshold '' @
                     down_text @ ''%'',
                   sr_confidence = min 1 ((down - avg_memory) / 15),
                   sr_cost_impact = - compute_cost_per_hour * (2 / 10)\<rparr>
                else None)))"

definition analyze_queue_scaling ::
  "thresholds \<Rightarrow> resource_metrics list \<Rightarrow> scaling_recommendation option result" where
  "analyze_queue_scaling th recent =
     (let queue_values = map (\<lambda>m. of_int (queue_depth m)) recent; avg_queue = mean queue_values in
      case calculate_trend queue_values of
        Inl e \<Rightarrow> Inl e
      | Inr queue_trend \<Rightarrow>
          (case read_threshold th ''queue_depth'' of
             Inl e \<Rightarrow> Inl e
           | Inr (down, (up, up_text)) \<Rightarrow> Inr
               (if avg_queue > up \<and> queue_trend > 0 then Some
                  \<lparr>sr_resource = CPU, sr_action = SCALE_UP, sr_current_value = avg_queue,
                   sr_recommended_value = up * (7 / 10),
                   sr_reason = ''Queue depth '' @ show_fixed 1 avg_queue @ '' exceeds threshold '' @ up_text @
                     '' with growing trend'',
                   sr_confidence = min 1 ((avg_queue - up) / 10),
                   sr_cost_impact = compute_cost_per_hour * (6 / 10)\<rparr>
                else None)))"

definition analyze_connection_scaling ::
  "thresholds \<Rightarrow> resource_metrics list \<Rightarrow> scaling_recommendation option result" where
  "analyze_connection_scaling th recent =
     (let avg = mean (map (\<lambda>m. of_int (active_connections m)) recent) in
      case read_threshold th ''connections'' of
        Inl e \<Rightarrow> Inl e
      | Inr ((down, down_text), (up, up_text)) \<Rightarrow> Inr
          (if avg > up then Some
             \<lparr>sr_resource = DATABASE_CONNECTIONS, sr_action = SCALE_UP, sr_current_value = avg,
              sr_recommended_value = min 100 (avg * (12 / 10)),
              sr_reason = ''Active connections '' @ show_fixed 1 avg @ '' exceeds threshold '' @ up_text,
              sr_confidence = min 1 ((avg - up) / 10),
              sr_cost_impact = 5 / 100\<rparr>
           else if avg < down then Some
             \<lparr>sr_resource = DATABASE_CONNECTIONS, sr_action = SCALE_DOWN, sr_current_value = avg,
              sr_recommended_value = max 5 (avg * (8 / 10)),
              sr_reason = ''Active connections '' @ show_fixed 1 avg @ '' below threshold '' @ down_text,
              sr_confidence = min 1 ((down - avg) / 10),
              sr_cost_impact = - (2 / 100)\<rparr>
           else None))"

fun run_analyses ::
  "(resource_metrics list \<Rightarrow> scaling_recommendation option result) list \<Rightarrow> resource_metrics list
    \<Rightarrow> scaling_recommendation list result" where
  "run_analyses [] recent = Inr []"
| "run_analyses (a # as) recent =
     (case a recent of
        Inl e \<Rightarrow> Inl e
      | Inr r \<Rightarrow>
          (case run_analyses as recent of
             Inl e \<Rightarrow> Inl e
           | Inr rs \<Rightarrow> Inr ((case r of Some x \<Rightarrow> [x] | None \<Rightarrow> []) @ rs)))"

definition get_scaling_recommendations :: "resource_optimizer \<Rightarrow> scaling_recommendation list result" where
  "get_scaling_recommendations opt =
     (if ro_metrics opt = [] then Inr []
      else run_analyses
        [analyze_cpu_scaling (ro_thresholds opt), analyze_memory_scaling (ro_thresholds opt),
         analyze_queue_scaling (ro_thresholds opt), analyze_connection_scaling (ro_thresholds opt)]
        (last_n 10 (ro_metrics opt)))"

section \<open>Cost recommendations\<close>

definition llm_cost_advice :: "cost_metrics list \<Rightarrow> string list" where
  "llm_cost_advice recent =
     (let avg = mean (map llm_api_cost_usd recent); total = total_cost_usd (last recent);
          pct = (if total > 0 then avg / total * 100 else 0)
      in if pct > 60
         then [''LLM costs represent '' @ show_fixed 1 pct @ ''% of total costs. '' @
               ''Consider implementing more aggressive caching, using smaller models '' @
               ''for simple tasks, or batching similar requests.'']
         else [])"

definition cost_trend_advice :: "cost_metrics list \<Rightarrow> string list result" where
  "cost_trend_advice recent =
     (if length recent \<ge> 5 then
        (case calculate_trend (map cost_per_task recent) of
           Inl e \<Rightarrow> Inl e
         | Inr trend \<Rightarrow> Inr
             (if trend > 15 / 100
              then [''Cost per task is trending upward (trend: '' @ show_fixed 2 trend @ ''). '' @
                    ''Review recent changes and consider optimizing resource allocation.'']
              else []))
      else Inr [])"

definition cost_spike_advice :: "cost_metrics list \<Rightarrow> string list" where
  "cost_spike_advice recent =
     (case rev recent of
        cur # prev # _ \<Rightarrow>
          (let c = total_cost_usd cur; p = total_cost_usd prev in
           if p > 0 \<and> c / p > 15 / 10
           then [''Cost spike detected: '' @ show_fixed 1 ((c / p - 1) * 100) @ ''% increase. '' @
                 ''Investigate recent system changes or unusual load patterns.'']
           else [])
      | _ \<Rightarrow> [])"

definition get_cost_optimization_recommendations :: "resource_optimizer \<Rightarrow> string list result" where
  "get_cost_optimization_recommendations opt =
     (if \<not> ro_cost_tracking opt \<or> ro_costs opt = [] then Inr []
      else
        let recent = last_n 10 (ro_costs opt) in
        case cost_trend_advice recent of
          Inl e \<Rightarrow> Inl e
        | Inr trend \<Rightarrow> Inr (llm_cost_advice recent @ trend @ cost_spike_advice recent))"

section \<open>Batching the queue\<close>

definition add_task_to_queue :: "pydict \<Rightarrow> resource_optimizer \<Rightarrow> resource_optimizer" where
  "add_task_to_queue task opt = opt\<lparr>ro_queue := ro_queue opt @ [task]\<rparr>"

text \<open>\<open>len(v)\<close>, and the look-up of a base time: a list or a dictionary cannot be a key.\<close>

fun py_len :: "pyval \<Rightarrow> nat result" where
  "py_len (PStr s) = Inr (length s)"
| "py_len (PList xs) = Inr (length xs)"
| "py_len (PDict d) = Inr (length d)"
| "py_len v = Inl (TypeError (''object of type '' @ quote_text (type_name v) @ '' has no len()''))"

fun base_time :: "(string \<times> rat) list \<Rightarrow> pyval \<Rightarrow> rat result" where
  "base_time tbl (PStr s) = Inr (case map_of tbl s of Some q \<Rightarrow> q | None \<Rightarrow> 60)"
| "base_time tbl (PList _) = Inl (TypeError ''unhashable type: list'')"
| "base_time tbl (PDict _) = Inl (TypeError ''unhashable type: dict'')"
| "base_time tbl _ = Inr 60"

definition estimate_time :: "(string \<times> rat) list \<Rightarrow> pydict \<Rightarrow> rat result" where
  "estimate_time tbl task =
     (case py_len (dget_or task ''prompt'' (PStr [])) of
        Inl e \<Rightarrow> Inl e
      | Inr prompt_length \<Rightarrow>
          (case base_time tbl (dget_or task ''intent'' (PStr ''unknown'')) of
             Inl e \<Rightarrow> Inl e
           | Inr b \<Rightarrow> Inr (b * min 2 (1 + of_nat prompt_length / 1000))))"

definition optimizer_base_times :: "(string \<times> rat) list" where
  "optimizer_base_times =
     [(''analyze'', 30), (''code_change'', 120), (''backend_generation'', 180), (''test'', 60), (''deploy'', 90)]"

definition estimate_task_time :: "pydict \<Rightarrow> rat result" where
  "estimate_task_time task = estimate_time optimizer_base_times task"

definition task_group_key :: "pydict \<Rightarrow> string" where
  "task_group_key task =
     py_str (dget_or task ''intent'' (PStr ''unknown'')) @ ''_'' @
     py_str (dget_or task ''agentProfile'' (PStr ''default''))"

definition group_similar_tasks :: "pydict list \<Rightarrow> (string \<times> pydict list) list" where
  "group_similar_tasks tasks = group_by_key task_group_key tasks"

text \<open>The least creation time among the pending batches (a list to which nothing is ever added).\<close>

definition should_flush_batch :: "resource_optimizer \<Rightarrow> rat \<Rightarrow> bool" where
  "should_flush_batch opt now =
     (case map tb_created_at (ro_pending_batches opt) of
        [] \<Rightarrow> False
      | c # cs \<Rightarrow> now - fold min cs c \<ge> max_wait_time_seconds (ro_batching opt))"

definition task_priority_of :: "pydict \<Rightarrow> rat result" where
  "task_priority_of task =
     (case number_of (dget_or task ''priority'' (PFloat (5 / 10))) of
        Some q \<Rightarrow> Inr q
      | None \<Rightarrow> Inl (TypeError ''priority is not a number''))"

definition optimizer_rules :: "resource_optimizer \<Rightarrow> rat \<Rightarrow> pydict batch_rules" where
  "optimizer_rules opt now =
     \<lparr>br_skip = (\<lambda>task. False), br_priority = task_priority_of, br_time = estimate_task_time,
      br_flush = (\<lambda>batch. should_flush_batch opt now)\<rparr>"

definition millis :: "rat \<Rightarrow> string" where
  "millis now = show_int (if now < 0 then \<lceil>now * 1000\<rceil> else \<lfloor>now * 1000\<rfloor>)"

fun optimizer_batch :: "rat \<Rightarrow> string \<Rightarrow> pydict planned \<Rightarrow> task_batch" where
  "optimizer_batch now grp (Single task p t) =
     \<lparr>tb_tasks = [task], tb_id = ''priority_'' @ millis now, tb_created_at = now, tb_priority = p,
      tb_estimated_time = t\<rparr>"
| "optimizer_batch now grp (Batch tasks p t) =
     \<lparr>tb_tasks = tasks, tb_id = ''batch_'' @ grp @ ''_'' @ millis now, tb_created_at = now, tb_priority = p,
      tb_estimated_time = t\<rparr>"

text \<open>\<open>get_optimized_batches\<close>; \<open>None\<close> means that it does not return. An exception leaves the queue
  as it was; otherwise the whole queue is cleared, the tasks that were put back included.\<close>

definition optimizer_groups :: "resource_optimizer \<Rightarrow> (string \<times> pydict list) list" where
  "optimizer_groups opt =
     (if similar_task_grouping (ro_batching opt) then group_similar_tasks (ro_queue opt)
      else [(''default'', ro_queue opt)])"

definition get_optimized_batches ::
  "rat \<Rightarrow> resource_optimizer \<Rightarrow> (task_batch list result \<times> resource_optimizer) option" where
  "get_optimized_batches now opt =
     (if ro_queue opt = [] then Some (Inr [], opt)
      else case plan_groups (ro_batching opt) (optimizer_rules opt now) (optimizer_groups opt) of
        None \<Rightarrow> None
      | Some (Inl e) \<Rightarrow> Some (Inl e, opt)
      | Some (Inr plans) \<Rightarrow> Some
          (Inr (concat (map (\<lambda>(name, plan, left). map (optimizer_batch now name) plan) plans)),
           opt\<lparr>ro_queue := []\<rparr>))"

section \<open>The summary\<close>

text \<open>\<open>statistics.mean\<close> of integers is an integer when it can be.\<close>

definition mean_of_ints :: "int list \<Rightarrow> pyval" where
  "mean_of_ints xs =
     (let q = mean (map of_int xs) in if of_int \<lfloor>q\<rfloor> = q then PInt \<lfloor>q\<rfloor> else PFloat q)"

definition get_resource_utilization_summary :: "resource_optimizer \<Rightarrow> pydict result" where
  "get_resource_utilization_summary opt =
     (if ro_metrics opt = [] then Inr [(''status'', PStr ''no_data'')]
      else
        let cur = last (ro_metrics opt); recent = last_n 10 (ro_metrics opt) in
        case (calculate_trend (map cpu_percent recent), calculate_trend (map memory_percent recent),
              calculate_trend (map (\<lambda>m. of_int (queue_depth m)) recent)) of
          (Inr cpu_trend, Inr memory_trend, Inr queue_trend) \<Rightarrow> Inr
            [(''timestamp'', PFloat (rm_timestamp cur)),
             (''current_metrics'', PDict
               [(''cpu_percent'', PFloat (cpu_percent cur)), (''memory_percent'', PFloat (memory_percent cur)),
                (''network_io_mbps'', PFloat (network_io_mbps cur)),
                (''active_connections'', PInt (active_connections cur)),
                (''queue_depth'', PInt (queue_depth cur)), (''pending_tasks'', PInt (pending_tasks cur))]),
             (''averages_last_10'', PDict
               [(''cpu_percent'', PFloat (mean (map cpu_percent recent))),
                (''memory_percent'', PFloat (mean (map memory_percent recent))),
                (''queue_depth'', mean_of_ints (map queue_depth recent))]),
             (''trends'', PDict
               [(''cpu_trend'', PFloat cpu_trend), (''memory_trend'', PFloat memory_trend),
                (''queue_trend'', PFloat queue_trend)]),
             (''queue_status'', PDict
               [(''pending_tasks'', PInt (int (length (ro_queue opt)))),
                (''pending_batches'', PInt (int (length (ro_pending_batches opt))))])]
        | _ \<Rightarrow> Inl zero_division)"

section \<open>Facts about trends\<close>

lemma fold_max_ge: "(a :: rat) \<le> fold max xs a \<and> (\<forall>x\<in>set xs. x \<le> fold max xs a)"
proof (induction xs arbitrary: a)
  case (Cons x xs)
  show ?case using Cons.IH [of "max x a"] by auto
qed simp

lemma fold_max_in: "fold max xs (a :: rat) \<in> insert a (set xs)"
  by (induction xs arbitrary: a) (auto simp: max_def)

lemma fold_max_const: "(\<And>x. x \<in> set xs \<Longrightarrow> x = a) \<Longrightarrow> fold max xs (a :: rat) = a"
  using fold_max_in [of xs a] by auto

lemma fold_max_nonneg:
  "xs \<noteq> [] \<Longrightarrow> (\<And>x. x \<in> set xs \<Longrightarrow> (0 :: rat) \<le> x) \<Longrightarrow>
   0 \<le> fold max (tl xs) (hd xs) \<and> (fold max (tl xs) (hd xs) = 0 \<longleftrightarrow> (\<forall>x\<in>set xs. x = 0))"
proof -
  assume xs: "xs \<noteq> []" "\<And>x. x \<in> set xs \<Longrightarrow> (0 :: rat) \<le> x"
  have m: "fold max (tl xs) (hd xs) \<in> set xs" "\<And>x. x \<in> set xs \<Longrightarrow> x \<le> fold max (tl xs) (hd xs)"
    using fold_max_in [of "tl xs" "hd xs"] fold_max_ge [of "hd xs" "tl xs"] xs(1) by (cases xs; auto)+
  with xs(2) show ?thesis by (metis order_antisym)
qed

lemma sum_upto_list: "(\<Sum>i\<leftarrow>[0..<n]. f i) = (\<Sum>i<n. (f i :: rat))"
  by (simp add: interv_sum_list_conv_sum_set_nat atLeast0LessThan)

text \<open>The denominator of the slope: \<open>n\<^sup>2 (n\<^sup>2 - 1) / 12\<close>.\<close>

lemma trend_denominator:
  "of_nat n * (\<Sum>i<n. of_nat i * of_nat i) - (\<Sum>i<n. of_nat i) * (\<Sum>i<n. of_nat i) =
     (of_nat n ^ 2 * (of_nat n ^ 2 - 1) / 12 :: rat)"
proof -
  have a: "(\<Sum>i<n. of_nat i :: rat) = of_nat n * (of_nat n - 1) / 2"
    by (induction n) (auto simp: field_simps)
  have b: "(\<Sum>i<n. of_nat i * of_nat i :: rat) = of_nat n * (of_nat n - 1) * (2 * of_nat n - 1) / 6"
    by (induction n) (auto simp: field_simps)
  show ?thesis unfolding a b by (simp add: field_simps power2_eq_square)
qed

lemma trend_denominator_pos:
  "2 \<le> n \<Longrightarrow> 0 < (of_nat n ^ 2 * (of_nat n ^ 2 - 1) / 12 :: rat)"
proof -
  assume n: "2 \<le> n"
  then have "(2 :: rat) \<le> of_nat n" by (metis of_nat_le_iff of_nat_numeral)
  then have "(2 :: rat) ^ 2 \<le> of_nat n ^ 2" by (intro power_mono) auto
  then have "0 < (of_nat n ^ 2 - 1 :: rat)" by simp
  moreover have "0 < (of_nat n ^ 2 :: rat)" using n by simp
  ultimately show ?thesis by simp
qed

lemma calculate_trend_long:
  assumes "2 \<le> length vs"
  shows "calculate_trend vs =
    (let m = fold max (tl vs) (hd vs) in
     if m = 0 then Inl zero_division
     else Inr (max (-1) (min 1 ((of_nat (length vs) * (\<Sum>i<length vs. of_nat i * vs ! i) -
       (\<Sum>i<length vs. of_nat i) * sum_list vs) /
       (of_nat (length vs) ^ 2 * (of_nat (length vs) ^ 2 - 1) / 12) / m))))"
proof -
  have "\<not> length vs < 2" "of_nat (length vs) ^ 2 * (of_nat (length vs) ^ 2 - 1) / 12 \<noteq> (0 :: rat)"
    using assms less_imp_neq [OF trend_denominator_pos [OF assms]] by auto
  then show ?thesis
    unfolding calculate_trend_def Let_def sum_upto_list trend_denominator by (simp only: if_False)
qed

lemma calculate_trend_error: "calculate_trend vs = Inl e \<Longrightarrow> e = zero_division"
  by (auto simp: calculate_trend_def Let_def split: if_splits)

lemma calculate_trend_bounds: "calculate_trend vs = Inr t \<Longrightarrow> -1 \<le> t \<and> t \<le> 1"
  by (auto simp: calculate_trend_def Let_def split: if_splits)

lemma calculate_trend_zeros:
  "2 \<le> length vs \<Longrightarrow> (\<And>v. v \<in> set vs \<Longrightarrow> v = 0) \<Longrightarrow> calculate_trend vs = Inl zero_division"
proof -
  assume vs: "2 \<le> length vs" "\<And>v. v \<in> set vs \<Longrightarrow> v = 0"
  then have "fold max (tl vs) (hd vs) = 0"
    using fold_max_nonneg [of vs] by fastforce
  then show ?thesis using vs(1) by (simp add: calculate_trend_long)
qed

lemma slope_of_sorted:
  "sorted vs \<Longrightarrow> (\<Sum>i<length vs. of_nat i) * sum_list vs \<le>
     (of_nat (length vs) * (\<Sum>i<length vs. of_nat i * vs ! i) :: rat)"
proof -
  assume "sorted vs"
  then have "of_nat (length vs) * (\<Sum>k=0..<length vs. of_nat k * - (vs ! k)) \<le>
      (\<Sum>k=0..<length vs. of_nat k :: rat) * (\<Sum>k=0..<length vs. - (vs ! k))"
    by (intro Chebyshev_sum_upper) (auto intro: sorted_nth_mono)
  then show ?thesis by (simp add: sum_list_sum_nth atLeast0LessThan sum_negf)
qed

section \<open>Facts about the recommendations\<close>

lemma run_analyses_set:
  "run_analyses as recent = Inr rs \<Longrightarrow>
   (\<forall>a\<in>set as. \<exists>r. a recent = Inr r) \<and> (\<forall>r. r \<in> set rs \<longleftrightarrow> (\<exists>a\<in>set as. a recent = Inr (Some r)))"
proof (induction as arbitrary: rs)
  case (Cons a as)
  obtain x xs where x: "a recent = Inr x" "run_analyses as recent = Inr xs"
    "rs = (case x of Some y \<Rightarrow> [y] | None \<Rightarrow> []) @ xs"
    using Cons.prems by (auto split: sum.splits)
  with Cons.IH [OF x(2)] show ?case by (cases x) auto
qed simp

lemma run_analyses_length: "run_analyses as recent = Inr rs \<Longrightarrow> length rs \<le> length as"
  by (induction as arbitrary: rs) (fastforce split: sum.splits option.splits)+

text \<open>What every analysis guarantees of a recommendation.\<close>

definition recommendation_ok :: "scaling_recommendation \<Rightarrow> bool" where
  "recommendation_ok r \<longleftrightarrow> 0 < sr_confidence r \<and> sr_confidence r \<le> 1 \<and>
     (sr_action r = SCALE_UP \<and> 0 < sr_cost_impact r \<or> sr_action r = SCALE_DOWN \<and> sr_cost_impact r < 0)"

lemma analyses_ok:
  "analyze_cpu_scaling th recent = Inr (Some r) \<Longrightarrow> recommendation_ok r"
  "analyze_memory_scaling th recent = Inr (Some r) \<Longrightarrow> recommendation_ok r"
  "analyze_queue_scaling th recent = Inr (Some r) \<Longrightarrow> recommendation_ok r"
  "analyze_connection_scaling th recent = Inr (Some r) \<Longrightarrow> recommendation_ok r"
  by (auto simp: analyze_cpu_scaling_def analyze_memory_scaling_def analyze_queue_scaling_def
      analyze_connection_scaling_def recommendation_ok_def compute_cost_per_hour_def Let_def
      split: sum.splits if_splits)

text \<open>The value a recommendation for the CPU or the memory is based on, and its thresholds.\<close>

definition recent_mean :: "(resource_metrics \<Rightarrow> rat) \<Rightarrow> resource_optimizer \<Rightarrow> rat" where
  "recent_mean f opt = mean (map f (last_n 10 (ro_metrics opt)))"

lemma last_n_empty [simp]: "0 < n \<Longrightarrow> last_n n xs = [] \<longleftrightarrow> xs = []"
  by (cases xs) (auto simp: last_n_def)

section \<open>Properties\<close>

text \<open>With the default thresholds, every recommendation has a confidence above 0 and at most 1, and
  the sign of its cost fits its action; there are at most four. The memory is scaled up exactly
  when its mean over the last ten samples exceeds 85, and it is scaled down only below 40.\<close>

theorem scaling_recommendations_sound:
  assumes "get_scaling_recommendations opt = Inr rs" "ro_thresholds opt = default_thresholds"
    and "ro_metrics opt \<noteq> []"
  shows "list_all recommendation_ok rs \<and> length rs \<le> 4 \<and>
    ((\<exists>r. r \<in> set rs \<and> sr_resource r = MEMORY \<and> sr_action r = SCALE_UP) \<longleftrightarrow> 85 < recent_mean memory_percent opt) \<and>
    (recent_mean memory_percent opt \<ge> 40 \<longrightarrow> (\<forall>r\<in>set rs. \<not> (sr_resource r = MEMORY \<and> sr_action r = SCALE_DOWN)))"
proof -
  let ?recent = "last_n 10 (ro_metrics opt)"
  have run: "run_analyses [analyze_cpu_scaling default_thresholds, analyze_memory_scaling default_thresholds,
      analyze_queue_scaling default_thresholds, analyze_connection_scaling default_thresholds] ?recent = Inr rs"
    using assms by (simp add: get_scaling_recommendations_def)
  note mem = run_analyses_set [OF run]
  have ok: "list_all recommendation_ok rs"
    using mem analyses_ok by (auto simp: list_all_iff)
  obtain m where m: "analyze_memory_scaling default_thresholds ?recent = Inr m" using mem by auto
  have rs: "r \<in> set rs \<and> sr_resource r = MEMORY \<longleftrightarrow> m = Some r" for r
  proof -
    have "analyze_memory_scaling default_thresholds ?recent = Inr (Some r) \<Longrightarrow> sr_resource r = MEMORY"
      "analyze_cpu_scaling default_thresholds ?recent = Inr (Some r) \<Longrightarrow> sr_resource r \<noteq> MEMORY"
      "analyze_queue_scaling default_thresholds ?recent = Inr (Some r) \<Longrightarrow> sr_resource r \<noteq> MEMORY"
      "analyze_connection_scaling default_thresholds ?recent = Inr (Some r) \<Longrightarrow> sr_resource r \<noteq> MEMORY"
      by (auto simp: analyze_memory_scaling_def analyze_cpu_scaling_def analyze_queue_scaling_def
          analyze_connection_scaling_def Let_def split: sum.splits if_splits)
    then show ?thesis using mem m by auto
  qed
  have memory: "((\<exists>r. m = Some r \<and> sr_action r = SCALE_UP) \<longleftrightarrow> 85 < recent_mean memory_percent opt) \<and>
    (recent_mean memory_percent opt \<ge> 40 \<longrightarrow> (\<forall>r. m = Some r \<longrightarrow> sr_action r \<noteq> SCALE_DOWN))"
    using m
    by (auto simp: analyze_memory_scaling_def read_threshold_def default_thresholds_def recent_mean_def Let_def
        split: sum.splits if_splits)
  have "(\<exists>r. r \<in> set rs \<and> sr_resource r = MEMORY \<and> sr_action r = SCALE_UP) \<longleftrightarrow>
      (\<exists>r. m = Some r \<and> sr_action r = SCALE_UP)"
    using rs by blast
  moreover have "recent_mean memory_percent opt \<ge> 40 \<longrightarrow>
      (\<forall>r\<in>set rs. \<not> (sr_resource r = MEMORY \<and> sr_action r = SCALE_DOWN))"
    using rs memory by blast
  ultimately show ?thesis
    using ok run_analyses_length [OF run] memory by simp
qed

definition sample_metrics :: "rat \<Rightarrow> int \<Rightarrow> resource_metrics" where
  "sample_metrics mem depth =
     \<lparr>cpu_percent = 50, memory_percent = mem, network_io_mbps = 1, active_connections = 20,
      queue_depth = depth, pending_tasks = 0, llm_tokens_per_minute = 0, rm_timestamp = 0\<rparr>"

definition sample_optimizer :: "resource_metrics list \<Rightarrow> pydict list \<Rightarrow> resource_optimizer" where
  "sample_optimizer ms q = (new_optimizer None True None)\<lparr>ro_metrics := ms, ro_queue := q\<rparr>"

text \<open>An idle agent: when the queue was empty in at least two samples and in all of the last ten, the
  trend of the queue depth divides by its maximum, zero, and both the recommendations and the summary
  of the utilization raise.\<close>

theorem idle_queue_divides_by_zero:
  assumes "ro_thresholds opt = default_thresholds" "2 \<le> length (ro_metrics opt)"
    and "\<And>m. m \<in> set (last_n 10 (ro_metrics opt)) \<Longrightarrow> queue_depth m = 0"
  shows "get_scaling_recommendations opt = Inl zero_division \<and>
    get_resource_utilization_summary opt = Inl zero_division"
proof -
  let ?recent = "last_n 10 (ro_metrics opt)"
  have len: "2 \<le> length ?recent" using assms(2) by (simp add: last_n_def)
  have q: "calculate_trend (map (\<lambda>m. rat_of_int (queue_depth m)) ?recent) = Inl zero_division"
    using len assms(3) by (intro calculate_trend_zeros) auto
  have "analyze_queue_scaling default_thresholds ?recent = Inl zero_division"
    by (simp add: analyze_queue_scaling_def q Let_def)
  moreover have "analyze_cpu_scaling default_thresholds ?recent = Inl e \<Longrightarrow> e = zero_division"
    "analyze_memory_scaling default_thresholds ?recent = Inl e \<Longrightarrow> e = zero_division" for e
    by (auto simp: analyze_cpu_scaling_def analyze_memory_scaling_def read_threshold_def
        default_thresholds_def Let_def dest: calculate_trend_error split: sum.splits)
  ultimately have "get_scaling_recommendations opt = Inl zero_division"
    using assms(1,2)
    by (cases "analyze_cpu_scaling default_thresholds ?recent";
        cases "analyze_memory_scaling default_thresholds ?recent")
      (auto simp: get_scaling_recommendations_def)
  moreover have "ro_metrics opt \<noteq> []" using assms(2) by auto
  then have "get_resource_utilization_summary opt = Inl zero_division"
    by (simp add: get_resource_utilization_summary_def q Let_def split: sum.split)
  ultimately show ?thesis by simp
qed

lemma optimizer_batch_tasks: "tb_tasks (optimizer_batch now grp b) = planned_items b"
  by (cases b) simp_all

lemma optimizer_groups_mset: "mset (grouped (optimizer_groups opt)) = mset (ro_queue opt)"
  by (simp add: optimizer_groups_def group_similar_tasks_def group_by_key_mset) (simp add: grouped_def)

lemma batches_tasks:
  "concat (map tb_tasks (concat (map (\<lambda>(name, plan, left). map (optimizer_batch now name) plan) plans))) =
   concat (map (\<lambda>(name, plan, left). items plan) plans)"
  by (induction plans) (auto simp: items_def comp_def optimizer_batch_tasks)

text \<open>With a maximal batch size of at least 1 and at least the minimal one the batching returns, and when
  it does so without an exception, the queue is empty and every task of it went into exactly one batch
  or was put back into its group and lost with the clearing: from each group fewer tasks than a
  minimal batch. No batch exceeds the maximal size.\<close>

theorem optimized_batches_partition:
  assumes "1 \<le> max_batch_size (ro_batching opt)"
    and "min_batch_size (ro_batching opt) \<le> max_batch_size (ro_batching opt)"
  shows "\<exists>r opt'. get_optimized_batches now opt = Some (r, opt') \<and>
    (\<forall>batches. r = Inr batches \<longrightarrow> ro_queue opt' = [] \<and>
      (\<forall>b\<in>set batches. int (length (tb_tasks b)) \<le> max_batch_size (ro_batching opt)) \<and>
      (\<exists>lost. mset (concat (map tb_tasks batches)) + mset (concat lost) = mset (ro_queue opt) \<and>
         (\<forall>l\<in>set lost. l \<noteq> [] \<longrightarrow> int (length l) < min_batch_size (ro_batching opt))))"
proof (cases "ro_queue opt = []")
  case True
  then show ?thesis
    by (auto simp: get_optimized_batches_def intro!: exI [of _ "[]"])
next
  case q: False
  let ?plans = "plan_groups (ro_batching opt) (optimizer_rules opt now) (optimizer_groups opt)"
  show ?thesis
  proof (cases "\<exists>plans. ?plans = Some (Inr plans)")
    case False
    then obtain e where "?plans = Some (Inl e)"
      using plan_groups_terminates [OF assms(1), of "optimizer_rules opt now" "optimizer_groups opt"]
      by (metis not_Some_eq obj_sumE)
    then show ?thesis using q by (simp add: get_optimized_batches_def)
  next
    case True
    then obtain plans where p: "?plans = Some (Inr plans)" by blast
    let ?batches = "concat (map (\<lambda>(name, plan, left). map (optimizer_batch now name) plan) plans)"
    let ?lost = "map (\<lambda>(name, plan, left). left) plans"
    have "\<not> br_skip (optimizer_rules opt now) x" for x by (simp add: optimizer_rules_def)
    then have part: "mset (concat (map tb_tasks ?batches)) + mset (concat ?lost) = mset (ro_queue opt)"
      using plan_groups_items [OF p] by (simp only: batches_tasks) (simp add: optimizer_groups_mset)
    have bounds: "list_all (batch_size_ok (ro_batching opt)) plan \<and>
        (left \<noteq> [] \<longrightarrow> int (length left) < min_batch_size (ro_batching opt))"
      if "(name, plan, left) \<in> set plans" for name plan left
      using plan_groups_bounds [OF p _ assms(2) that] assms(1) by simp
    have size: "batch_size_ok (ro_batching opt) b \<Longrightarrow>
        int (length (tb_tasks (optimizer_batch now name b))) \<le> max_batch_size (ro_batching opt)" for b name
      using assms(1) by (cases b) auto
    have "int (length (tb_tasks b)) \<le> max_batch_size (ro_batching opt)" if "b \<in> set ?batches" for b
      using that bounds size by (auto simp: list_all_iff)
    moreover have "l \<noteq> [] \<longrightarrow> int (length l) < min_batch_size (ro_batching opt)" if "l \<in> set ?lost" for l
      using that bounds by auto
    ultimately have "\<exists>lost. mset (concat (map tb_tasks ?batches)) + mset (concat lost) = mset (ro_queue opt) \<and>
        (\<forall>l\<in>set lost. l \<noteq> [] \<longrightarrow> int (length l) < min_batch_size (ro_batching opt))"
      "\<forall>b\<in>set ?batches. int (length (tb_tasks b)) \<le> max_batch_size (ro_batching opt)"
      using part by blast+
    moreover have "get_optimized_batches now opt = Some (Inr ?batches, opt\<lparr>ro_queue := []\<rparr>)"
      using q by (simp add: get_optimized_batches_def p)
    ultimately show ?thesis by fastforce
  qed
qed

text \<open>A single ordinary task is lost under the default configuration.\<close>

end
