(* ===== verification/Heap_List.thy ===== *)
theory Heap_List
  imports Prelude
begin

text \<open>
  The functions of Python's \<open>heapq\<close> that \<open>utils/task_queue_manager.py\<close> calls, on the list that holds
  the heap, with the \<open>__lt__\<close> of its items as a parameter; and what the queue relies on: both keep
  the items.
\<close>

function siftdown_loop :: "('a \<Rightarrow> 'a \<Rightarrow> bool) \<Rightarrow> 'a \<Rightarrow> nat \<Rightarrow> nat \<Rightarrow> 'a list \<Rightarrow> 'a list" where
  "siftdown_loop lt newitem startpos pos heap =
     (if pos > startpos then
        let parentpos = (pos - 1) div 2; parent = heap ! parentpos in
        if lt newitem parent then siftdown_loop lt newitem startpos parentpos (heap[pos := parent])
        else heap[pos := newitem]
      else heap[pos := newitem])"
  by pat_completeness auto

termination
  by (relation "measure (\<lambda>(lt, newitem, startpos, pos, heap). pos)") auto

declare siftdown_loop.simps [simp del]

definition siftdown :: "('a \<Rightarrow> 'a \<Rightarrow> bool) \<Rightarrow> nat \<Rightarrow> nat \<Rightarrow> 'a list \<Rightarrow> 'a list" where
  "siftdown lt startpos pos heap = siftdown_loop lt (heap ! pos) startpos pos heap"

definition heappush :: "('a \<Rightarrow> 'a \<Rightarrow> bool) \<Rightarrow> 'a \<Rightarrow> 'a list \<Rightarrow> 'a list" where
  "heappush lt item heap = siftdown lt 0 (length heap) (heap @ [item])"

text \<open>\<open>_siftup\<close>: the smaller child moves up until a leaf is reached, then the item sinks to its place.\<close>

function siftup_loop :: "('a \<Rightarrow> 'a \<Rightarrow> bool) \<Rightarrow> 'a \<Rightarrow> nat \<Rightarrow> nat \<Rightarrow> 'a list \<Rightarrow> 'a list" where
  "siftup_loop lt newitem startpos pos heap =
     (let childpos = 2 * pos + 1 in
      if childpos < length heap then
        let rightpos = childpos + 1;
            c = (if rightpos < length heap \<and> \<not> lt (heap ! childpos) (heap ! rightpos) then rightpos else childpos)
        in siftup_loop lt newitem startpos c (heap[pos := heap ! c])
      else siftdown lt startpos pos (heap[pos := newitem]))"
  by pat_completeness auto

termination
  by (relation "measure (\<lambda>(lt, newitem, startpos, pos, heap). length heap - pos)") (auto simp: Let_def)

declare siftup_loop.simps [simp del]

definition siftup :: "('a \<Rightarrow> 'a \<Rightarrow> bool) \<Rightarrow> nat \<Rightarrow> 'a list \<Rightarrow> 'a list" where
  "siftup lt pos heap = siftup_loop lt (heap ! pos) pos pos heap"

definition heapify :: "('a \<Rightarrow> 'a \<Rightarrow> bool) \<Rightarrow> 'a list \<Rightarrow> 'a list" where
  "heapify lt heap = fold (siftup lt) (rev [0..<length heap div 2]) heap"

section \<open>The items are kept\<close>

lemma mset_move:
  assumes "i < length xs" "j < length xs"
  shows "mset (xs[i := xs ! j, j := y]) = mset (xs[i := y])"
proof (cases "i = j")
  case False
  have "mset ((xs[i := y])[j := (xs[i := y]) ! i, i := (xs[i := y]) ! j]) = mset (xs[i := y])"
    using assms by (intro mset_swap) auto
  moreover have "xs[i := y, j := y, i := xs ! j] = xs[i := xs ! j, j := y]"
    using False by (metis list_update_overwrite list_update_swap)
  ultimately show ?thesis using assms False by simp
qed simp

lemma siftdown_loop_mset:
  "pos < length heap \<Longrightarrow> mset (siftdown_loop lt newitem startpos pos heap) = mset (heap[pos := newitem])"
proof (induction lt newitem startpos pos heap rule: siftdown_loop.induct)
  case (1 lt newitem startpos pos heap)
  let ?pp = "(pos - 1) div 2"
  show ?case
  proof (cases "pos > startpos \<and> lt newitem (heap ! ?pp)")
    case True
    then have "mset (siftdown_loop lt newitem startpos ?pp (heap[pos := heap ! ?pp])) =
        mset (heap[pos := heap ! ?pp, ?pp := newitem])"
      using 1 by simp
    also have "\<dots> = mset (heap[pos := newitem])"
      using 1(2) by (intro mset_move) auto
    finally show ?thesis
      using True by (subst siftdown_loop.simps) (simp add: Let_def)
  next
    case False
    then show ?thesis by (subst siftdown_loop.simps) (auto simp: Let_def)
  qed
qed

lemma siftdown_mset [simp]: "pos < length heap \<Longrightarrow> mset (siftdown lt startpos pos heap) = mset heap"
  by (simp add: siftdown_def siftdown_loop_mset)

lemma heappush_mset: "mset (heappush lt x heap) = add_mset x (mset heap)"
  by (simp add: heappush_def)

lemma siftup_loop_mset:
  "pos < length heap \<Longrightarrow> mset (siftup_loop lt newitem startpos pos heap) = mset (heap[pos := newitem])"
proof (induction lt newitem startpos pos heap rule: siftup_loop.induct)
  case (1 lt newitem startpos pos heap)
  let ?c = "if 2 * pos + 1 + 1 < length heap \<and> \<not> lt (heap ! (2 * pos + 1)) (heap ! (2 * pos + 1 + 1))
    then 2 * pos + 1 + 1 else 2 * pos + 1"
  show ?case
  proof (cases "2 * pos + 1 < length heap")
    case True
    then have c: "?c < length heap" by simp
    then have "mset (siftup_loop lt newitem startpos ?c (heap[pos := heap ! ?c])) =
        mset (heap[pos := heap ! ?c, ?c := newitem])"
      using 1(1) [OF refl True refl refl] by simp
    also have "\<dots> = mset (heap[pos := newitem])"
      using 1(2) c by (intro mset_move) auto
    finally have "mset (siftup_loop lt newitem startpos ?c (heap[pos := heap ! ?c])) = mset (heap[pos := newitem])" .
    moreover have "siftup_loop lt newitem startpos pos heap =
        siftup_loop lt newitem startpos ?c (heap[pos := heap ! ?c])"
      using True by (subst siftup_loop.simps) (simp only: Let_def if_True)
    ultimately show ?thesis by (simp only:)
  next
    case False
    then show ?thesis using 1(2) by (subst siftup_loop.simps) (simp add: Let_def)
  qed
qed

lemma siftup_mset [simp]: "pos < length heap \<Longrightarrow> mset (siftup lt pos heap) = mset heap"
  by (simp add: siftup_def siftup_loop_mset)

lemma heapify_mset: "mset (heapify lt heap) = mset heap"
proof -
  have keep: "\<forall>i\<in>set is. i < length h \<Longrightarrow> mset (fold (siftup lt) is h) = mset h" for "is" h
  proof (induction "is" arbitrary: h)
    case (Cons i ks)
    then have "mset (siftup lt i h) = mset h" by simp
    moreover from this have "length (siftup lt i h) = length h" by (metis size_mset)
    ultimately show ?case using Cons by simp
  qed simp
  have "\<forall>i\<in>set (rev [0..<length heap div 2]). i < length heap" by auto
  from keep [OF this] show ?thesis by (simp add: heapify_def)
qed

section \<open>The contract\<close>

locale task_bag =
  fixes push :: "'a \<Rightarrow> 'a list \<Rightarrow> 'a list"
    and rebuild :: "'a list \<Rightarrow> 'a list"
  assumes push_mset: "mset (push x xs) = add_mset x (mset xs)"
    and rebuild_mset: "mset (rebuild xs) = mset xs"
begin

lemma push_set [simp]: "set (push x xs) = insert x (set xs)"
  by (metis push_mset set_mset_add_mset_insert set_mset_mset)

lemma rebuild_set [simp]: "set (rebuild xs) = set xs"
  by (metis rebuild_mset set_mset_mset)

lemma push_count: "count_list (push x xs) y = count_list xs y + (if x = y then 1 else 0)"
  by (simp add: count_mset [symmetric] push_mset)

lemma rebuild_count: "count_list (rebuild xs) y = count_list xs y"
  by (simp add: count_mset [symmetric] rebuild_mset)

end

interpretation heapq: task_bag "heappush lt" "heapify lt"
  by unfold_locales (rule heappush_mset, rule heapify_mset)

end
