(* ===== verification/Task_Queue.thy ===== *)
theory Task_Queue
  imports Resource_Optimizer Heap_List
begin

text \<open>
  The task queue of \<open>utils/task_queue_manager.py\<close>: priorities, batching by similarity and load,
  processing with retries, cancelling and cleaning up.

  \<^item> The same task object is reached from the heap and from the look-up table, and is changed through
    either: objects live in the store \<open>tq_objs\<close>, and the heap and the table hold addresses.
  \<^item> Each method under the lock is one step. The batch processor runs outside the lock: it is given
    by its outcome, and \<open>during\<close> is what other threads do to the queue while it runs.
  \<^item> Task ids are text. The clock and fresh identifiers are arguments.
\<close>

section \<open>Data\<close>

datatype task_priority = CRITICAL | HIGH | NORMAL | LOW | BACKGROUND

fun priority_value :: "task_priority \<Rightarrow> rat" where
  "priority_value CRITICAL = 1"
| "priority_value HIGH = 8 / 10"
| "priority_value NORMAL = 5 / 10"
| "priority_value LOW = 2 / 10"
| "priority_value BACKGROUND = 1 / 10"

datatype task_status = QUEUED | BATCHED | PROCESSING | COMPLETED | FAILED | CANCELLED

fun status_value :: "task_status \<Rightarrow> string" where
  "status_value QUEUED = ''queued''"
| "status_value BATCHED = ''batched''"
| "status_value PROCESSING = ''processing''"
| "status_value COMPLETED = ''completed''"
| "status_value FAILED = ''failed''"
| "status_value CANCELLED = ''cancelled''"

record queued_task =
  qt_id :: string
  qt_data :: pydict
  qt_priority :: rat
  qt_created_at :: rat
  qt_duration :: rat
  qt_intent :: pyval
  qt_profile :: pyval
  qt_status :: task_status
  qt_batch_id :: "string option"
  qt_retry_count :: nat
  qt_max_retries :: nat

record queue_metrics =
  qm_total :: nat
  qm_queued :: nat
  qm_batched :: nat
  qm_processing :: nat
  qm_completed :: nat
  qm_failed :: nat
  qm_wait :: rat
  qm_processing_time :: rat
  qm_throughput :: rat
  qm_batches :: nat

record task_queue =
  tq_config :: batching_config
  tq_max_size :: int
  tq_enable_metrics :: bool
  tq_objs :: "queued_task list"
  tq_heap :: "nat list"
  tq_lookup :: "(string \<times> nat) list"
  tq_active :: "(string \<times> task_batch) list"
  tq_processing :: "(string \<times> nat) list"
  tq_history :: "queue_metrics list"
  tq_completed :: "(string \<times> rat \<times> rat) list"

definition new_task_queue :: "batching_config option \<Rightarrow> int \<Rightarrow> bool \<Rightarrow> task_queue" where
  "new_task_queue cfg max_size enable_metrics =
     \<lparr>tq_config = (case cfg of Some c \<Rightarrow> c | None \<Rightarrow> default_batching_config), tq_max_size = max_size,
      tq_enable_metrics = enable_metrics, tq_objs = [], tq_heap = [], tq_lookup = [], tq_active = [],
      tq_processing = [], tq_history = [], tq_completed = []\<rparr>"

definition obj :: "task_queue \<Rightarrow> nat \<Rightarrow> queued_task" where
  "obj q a = tq_objs q ! a"

definition set_obj :: "nat \<Rightarrow> (queued_task \<Rightarrow> queued_task) \<Rightarrow> task_queue \<Rightarrow> task_queue" where
  "set_obj a f q = q\<lparr>tq_objs := (tq_objs q)[a := f (obj q a)]\<rparr>"

text \<open>\<open>QueuedTask.__lt__\<close>, on addresses.\<close>

definition task_lt :: "task_queue \<Rightarrow> nat \<Rightarrow> nat \<Rightarrow> bool" where
  "task_lt q a b \<longleftrightarrow> qt_priority (obj q a) > qt_priority (obj q b)"

section \<open>Adding, looking up, cancelling\<close>

definition queue_base_times :: "(string \<times> rat) list" where
  "queue_base_times =
     [(''analyze'', 30), (''code_change'', 120), (''backend_generation'', 180),
      (''fullstack_generation'', 300), (''test'', 60), (''deploy'', 90)]"

definition estimate_task_duration :: "pydict \<Rightarrow> rat result" where
  "estimate_task_duration task_data = estimate_time queue_base_times task_data"

datatype priority_arg = DefaultPriority | Level task_priority | Plain rat

fun priority_number :: "priority_arg \<Rightarrow> rat" where
  "priority_number DefaultPriority = priority_value NORMAL"
| "priority_number (Level p) = priority_value p"
| "priority_number (Plain q) = q"

definition add_task ::
  "rat \<Rightarrow> string \<Rightarrow> pydict \<Rightarrow> priority_arg \<Rightarrow> rat option \<Rightarrow> task_queue \<Rightarrow> string result \<times> task_queue" where
  "add_task now uuid task_data priority estimated q =
     (if int (length (tq_heap q)) \<ge> tq_max_size q
      then (Inl (ValueError (''Queue is full (max size: '' @ show_int (tq_max_size q) @ '')'')), q)
      else
        let task_id = py_str (py_or (dget task_data ''task_id'') (PStr uuid)) in
        if \<not> truthy (dget task_data ''prompt'')
        then (Inl (ValueError (''Task data must include '' @ quote_text ''prompt'' @ '' field'')), q)
        else case (case estimated of Some d \<Rightarrow> Inr d | None \<Rightarrow> estimate_task_duration task_data) of
          Inl e \<Rightarrow> (Inl e, q)
        | Inr duration \<Rightarrow>
            let a = length (tq_objs q);
                task = \<lparr>qt_id = task_id, qt_data = task_data, qt_priority = priority_number priority,
                  qt_created_at = now, qt_duration = duration,
                  qt_intent = dget_or task_data ''intent'' (PStr ''unknown''),
                  qt_profile = dget_or task_data ''agentProfile'' (PStr ''default''),
                  qt_status = QUEUED, qt_batch_id = None, qt_retry_count = 0, qt_max_retries = 3\<rparr>;
                q1 = q\<lparr>tq_objs := tq_objs q @ [task]\<rparr>
            in (Inr task_id, q1\<lparr>tq_heap := heappush (task_lt q1) a (tq_heap q1),
                               tq_lookup := AList.update task_id a (tq_lookup q1)\<rparr>))"

definition get_task_status :: "rat \<Rightarrow> string \<Rightarrow> task_queue \<Rightarrow> pydict option" where
  "get_task_status now task_id q =
     (case map_of (tq_lookup q) task_id of
        None \<Rightarrow> None
      | Some a \<Rightarrow> Some
          [(''task_id'', PStr (qt_id (obj q a))), (''status'', PStr (status_value (qt_status (obj q a)))),
           (''priority'', PFloat (qt_priority (obj q a))), (''created_at'', PFloat (qt_created_at (obj q a))),
           (''estimated_duration'', PFloat (qt_duration (obj q a))), (''intent'', qt_intent (obj q a)),
           (''batch_id'', case qt_batch_id (obj q a) of Some b \<Rightarrow> PStr b | None \<Rightarrow> PNone),
           (''retry_count'', PInt (int (qt_retry_count (obj q a)))),
           (''wait_time'', if qt_status (obj q a) = QUEUED then PFloat (now - qt_created_at (obj q a)) else PNone)])"

definition cancel_task :: "string \<Rightarrow> task_queue \<Rightarrow> bool \<times> task_queue" where
  "cancel_task task_id q =
     (case map_of (tq_lookup q) task_id of
        None \<Rightarrow> (False, q)
      | Some a \<Rightarrow>
          if qt_status (obj q a) \<noteq> QUEUED \<and> qt_status (obj q a) \<noteq> BATCHED then (False, q)
          else (True, set_obj a (\<lambda>t. t\<lparr>qt_status := CANCELLED\<rparr>) q))"

section \<open>Metrics\<close>

definition lookup_tasks :: "task_queue \<Rightarrow> queued_task list" where
  "lookup_tasks q = map (\<lambda>(k, a). obj q a) (tq_lookup q)"

definition status_count :: "task_status \<Rightarrow> task_queue \<Rightarrow> nat" where
  "status_count s q = length (filter (\<lambda>t. qt_status t = s) (lookup_tasks q))"

definition mean_or_zero :: "rat list \<Rightarrow> rat" where
  "mean_or_zero xs = (if xs = [] then 0 else mean xs)"

definition queue_throughput :: "rat \<Rightarrow> (string \<times> rat \<times> rat) list \<Rightarrow> rat" where
  "queue_throughput now completed =
     (if length completed \<ge> 2 then
        let recent = last_n 10 completed;
            time_span = now - (fst (snd (hd recent)) + snd (snd (hd recent)))
        in if time_span > 0 then of_nat (length recent) / time_span * 60 else 0
      else 0)"

definition get_queue_metrics :: "rat \<Rightarrow> task_queue \<Rightarrow> queue_metrics \<times> task_queue" where
  "get_queue_metrics now q =
     (let waits = map (\<lambda>a. now - qt_created_at (obj q a)) (filter (\<lambda>a. qt_status (obj q a) = QUEUED) (tq_heap q));
          procs = map (\<lambda>(i, w, p). p) (last_n 50 (tq_completed q));
          m = \<lparr>qm_total = length (tq_lookup q), qm_queued = status_count QUEUED q,
               qm_batched = status_count BATCHED q, qm_processing = status_count PROCESSING q,
               qm_completed = status_count COMPLETED q, qm_failed = status_count FAILED q,
               qm_wait = mean_or_zero waits, qm_processing_time = mean_or_zero procs,
               qm_throughput = queue_throughput now (tq_completed q), qm_batches = length (tq_active q)\<rparr>
      in (m, if tq_enable_metrics q then q\<lparr>tq_history := push_bounded 100 m (tq_history q)\<rparr> else q))"

section \<open>Load\<close>

definition get_system_load_factor :: "pydict result \<Rightarrow> rat" where
  "get_system_load_factor summary =
     (case summary of
        Inl e \<Rightarrow> 1 / 2
      | Inr d \<Rightarrow>
          if dget d ''status'' = PStr ''no_data'' then 1 / 2
          else case dget_or d ''current_metrics'' (PDict []) of
            PDict c \<Rightarrow>
              (case (number_of (dget_or c ''cpu_percent'' (PFloat 0)), number_of (dget_or c ''memory_percent'' (PFloat 0)),
                     number_of (dget_or c ''queue_depth'' (PInt 0))) of
                 (Some cpu, Some memory, Some depth) \<Rightarrow>
                   max 0 (min 1 (cpu / 100 * (4 / 10) + memory / 100 * (3 / 10) + min 1 (depth / 50) * (3 / 10)))
               | _ \<Rightarrow> 1 / 2)
          | _ \<Rightarrow> 1 / 2)"

definition adjust_batching_config :: "rat \<Rightarrow> batching_config \<Rightarrow> batching_config" where
  "adjust_batching_config load cfg =
     (if load > 8 / 10
      then cfg\<lparr>max_batch_size := max 2 (max_batch_size cfg div 2),
               max_wait_time_seconds := max_wait_time_seconds cfg * (1 / 2)\<rparr>
      else if load < 3 / 10
      then cfg\<lparr>max_batch_size := min 20 (max_batch_size cfg * 2),
               max_wait_time_seconds := max_wait_time_seconds cfg * (15 / 10)\<rparr>
      else cfg)"

section \<open>Creating batches\<close>

definition group_key :: "queued_task \<Rightarrow> string" where
  "group_key t = py_str (qt_intent t) @ ''_'' @ py_str (qt_profile t)"

definition group_tasks_for_batching :: "task_queue \<Rightarrow> (string \<times> nat list) list" where
  "group_tasks_for_batching q =
     map (\<lambda>(k, as). (k, sort_desc (\<lambda>a. qt_priority (obj q a)) as))
       (group_by_key (\<lambda>a. group_key (obj q a)) (filter (\<lambda>a. qt_status (obj q a) = QUEUED) (tq_heap q)))"

definition should_create_batch :: "task_queue \<Rightarrow> rat \<Rightarrow> nat list \<Rightarrow> bool" where
  "should_create_batch q now batch =
     (case map (\<lambda>a. qt_created_at (obj q a)) batch of
        [] \<Rightarrow> False
      | c # cs \<Rightarrow> now - fold min cs c \<ge> max_wait_time_seconds (tq_config q))"

definition queue_rules :: "task_queue \<Rightarrow> rat \<Rightarrow> nat batch_rules" where
  "queue_rules q now =
     \<lparr>br_skip = (\<lambda>a. qt_status (obj q a) = CANCELLED), br_priority = (\<lambda>a. Inr (qt_priority (obj q a))),
      br_time = (\<lambda>a. Inr (qt_duration (obj q a))), br_flush = should_create_batch q now\<rparr>"

definition mark_batched :: "string \<Rightarrow> nat \<Rightarrow> task_queue \<Rightarrow> task_queue" where
  "mark_batched batch_id a q = set_obj a (\<lambda>t. t\<lparr>qt_status := BATCHED, qt_batch_id := Some batch_id\<rparr>) q"

text \<open>\<open>_create_single_task_batch\<close> and \<open>_create_task_batch\<close>.\<close>

fun planned_id :: "task_queue \<Rightarrow> rat \<Rightarrow> string \<Rightarrow> nat planned \<Rightarrow> string" where
  "planned_id q now name (Single a p t) = ''priority_'' @ qt_id (obj q a) @ ''_'' @ millis now"
| "planned_id q now name (Batch as p t) = ''batch_'' @ name @ ''_'' @ millis now"

fun planned_priority :: "'a planned \<Rightarrow> rat" where
  "planned_priority (Single a p t) = p"
| "planned_priority (Batch as p t) = p"

fun planned_time :: "'a planned \<Rightarrow> rat" where
  "planned_time (Single a p t) = t"
| "planned_time (Batch as p t) = t"

definition create_task_batch ::
  "rat \<Rightarrow> string \<Rightarrow> nat planned \<Rightarrow> task_queue \<Rightarrow> task_batch \<times> task_queue" where
  "create_task_batch now name b q =
     (let i = planned_id q now name b;
          batch = \<lparr>tb_tasks = map (\<lambda>a. qt_data (obj q a)) (planned_items b), tb_id = i, tb_created_at = now,
                   tb_priority = planned_priority b, tb_estimated_time = planned_time b\<rparr>;
          q1 = fold (mark_batched i) (planned_items b) q
      in (batch, q1\<lparr>tq_active := AList.update i batch (tq_active q1)\<rparr>))"

fun carry_out :: "rat \<Rightarrow> (string \<times> nat planned) list \<Rightarrow> task_queue \<Rightarrow> task_batch list \<times> task_queue" where
  "carry_out now [] q = ([], q)"
| "carry_out now ((name, b) # plan) q =
     (let (batch, q1) = create_task_batch now name b q; (batches, q2) = carry_out now plan q1
      in (batch # batches, q2))"

definition flat_plan :: "(string \<times> 'a planned list \<times> 'a list) list \<Rightarrow> (string \<times> 'a planned) list" where
  "flat_plan plans = concat (map (\<lambda>(name, plan, left). map (Pair name) plan) plans)"

text \<open>\<open>_create_batches\<close>: \<open>None\<close> when it does not return. Reading priorities and durations of task
  objects cannot raise.\<close>

definition create_batches ::
  "rat \<Rightarrow> pydict result \<Rightarrow> task_queue \<Rightarrow> (task_batch list \<times> task_queue) option" where
  "create_batches now summary q =
     (if tq_heap q = [] then Some ([], q)
      else
        let cfg = adjust_batching_config (get_system_load_factor summary) (tq_config q) in
        case plan_groups cfg (queue_rules q now) (group_tasks_for_batching q) of
          Some (Inr plans) \<Rightarrow> Some (carry_out now (flat_plan plans) q)
        | _ \<Rightarrow> None)"

section \<open>Processing a batch\<close>

definition batch_addresses :: "string \<Rightarrow> task_queue \<Rightarrow> nat list" where
  "batch_addresses i q = filter (\<lambda>a. qt_batch_id (obj q a) = Some i) (map snd (tq_lookup q))"

definition start_task :: "nat \<Rightarrow> task_queue \<Rightarrow> task_queue" where
  "start_task a q =
     (let q1 = set_obj a (\<lambda>t. t\<lparr>qt_status := PROCESSING\<rparr>) q
      in q1\<lparr>tq_processing := AList.update (qt_id (obj q a)) a (tq_processing q1)\<rparr>)"

definition complete_task :: "rat \<Rightarrow> rat \<Rightarrow> nat \<Rightarrow> task_queue \<Rightarrow> task_queue" where
  "complete_task t0 dt a q =
     (let q1 = set_obj a (\<lambda>t. t\<lparr>qt_status := COMPLETED\<rparr>) q in
      q1\<lparr>tq_completed := push_bounded 1000 (qt_id (obj q a), t0 - qt_created_at (obj q a), dt) (tq_completed q1),
         tq_processing := AList.delete (qt_id (obj q a)) (tq_processing q1)\<rparr>)"

definition retry_or_fail :: "nat \<Rightarrow> task_queue \<Rightarrow> task_queue" where
  "retry_or_fail a q =
     (let q1 = q\<lparr>tq_processing := AList.delete (qt_id (obj q a)) (tq_processing q)\<rparr> in
      if qt_retry_count (obj q a) < qt_max_retries (obj q a)
      then
        let q2 = set_obj a (\<lambda>t. t\<lparr>qt_retry_count := qt_retry_count t + 1, qt_status := QUEUED,
                     qt_batch_id := None\<rparr>) q1
        in q2\<lparr>tq_heap := heappush (task_lt q2) a (tq_heap q2)\<rparr>
      else set_obj a (\<lambda>t. t\<lparr>qt_status := FAILED\<rparr>) q1)"

text \<open>\<open>_process_batch\<close>: \<open>processor\<close> is the configured function, giving the exception it raises if it
  does; \<open>t0\<close> and \<open>dt\<close> are the start and the length of its run.\<close>

definition process_batch ::
  "(task_batch \<Rightarrow> py_exn option) option \<Rightarrow> (task_queue \<Rightarrow> task_queue) \<Rightarrow> rat \<Rightarrow> rat \<Rightarrow> task_batch
    \<Rightarrow> task_queue \<Rightarrow> py_exn option \<times> task_queue" where
  "process_batch processor during t0 dt batch q =
     (case processor of
        None \<Rightarrow> (None, q)
      | Some run \<Rightarrow>
          let as = batch_addresses (tb_id batch) q;
              q1 = during (fold start_task as q)
          in (case run batch of
                None \<Rightarrow>
                  let q2 = fold (complete_task t0 dt) as q1
                  in (None, q2\<lparr>tq_active := AList.delete (tb_id batch) (tq_active q2)\<rparr>)
              | Some e \<Rightarrow>
                  if \<not> is_Exception e then (Some e, q1)
                  else
                    let q2 = fold retry_or_fail (batch_addresses (tb_id batch) q1) q1
                    in (None, q2\<lparr>tq_active := AList.delete (tb_id batch) (tq_active q2)\<rparr>)))"

section \<open>Cleaning up, and one round of the loop\<close>

definition is_done :: "task_status \<Rightarrow> bool" where
  "is_done s \<longleftrightarrow> s = COMPLETED \<or> s = FAILED \<or> s = CANCELLED"

definition cleanup_tasks :: "rat \<Rightarrow> task_queue \<Rightarrow> task_queue" where
  "cleanup_tasks now q =
     (let old = map fst (filter (\<lambda>(k, a). is_done (qt_status (obj q a)) \<and> now - qt_created_at (obj q a) > 3600)
                  (tq_lookup q));
          lookup = fold AList.delete old (tq_lookup q);
          heap = filter (\<lambda>a. map_of lookup (qt_id (obj q a)) \<noteq> None \<and> qt_status (obj q a) = QUEUED) (tq_heap q)
      in q\<lparr>tq_lookup := lookup, tq_heap := heapify (task_lt q) heap\<rparr>)"

definition update_resource_optimizer :: "task_queue \<Rightarrow> resource_optimizer \<Rightarrow> resource_optimizer" where
  "update_resource_optimizer q opt =
     fold (\<lambda>a. add_task_to_queue (qt_data (obj q a)))
       (filter (\<lambda>a. qt_status (obj q a) = QUEUED) (tq_heap q)) opt"

fun process_batches ::
  "(task_batch \<Rightarrow> py_exn option) option \<Rightarrow> (task_queue \<Rightarrow> task_queue) \<Rightarrow> (task_batch \<Rightarrow> rat \<times> rat)
    \<Rightarrow> task_batch list \<Rightarrow> task_queue \<Rightarrow> task_queue" where
  "process_batches processor during clock [] q = q"
| "process_batches processor during clock (b # bs) q =
     process_batches processor during clock bs
       (snd (process_batch processor during (fst (clock b)) (snd (clock b)) b q))"

text \<open>One round of \<open>_processing_loop\<close>, for a processor that raises only \<open>Exception\<close>s: \<open>t0\<close> and \<open>t1\<close>
  are the clock when the batches are made and at the clean-up, \<open>clock\<close> its readings for each batch.\<close>

definition processing_round ::
  "(task_batch \<Rightarrow> py_exn option) option \<Rightarrow> (task_queue \<Rightarrow> task_queue) \<Rightarrow> rat \<Rightarrow> rat
    \<Rightarrow> (task_batch \<Rightarrow> rat \<times> rat) \<Rightarrow> task_queue \<times> resource_optimizer
    \<Rightarrow> (task_queue \<times> resource_optimizer) option" where
  "processing_round processor during t0 t1 clock = (\<lambda>(q, opt).
     case create_batches t0 (get_resource_utilization_summary opt) q of
       None \<Rightarrow> None
     | Some (batches, q1) \<Rightarrow>
         let q2 = cleanup_tasks t1 (process_batches processor during clock batches q1)
         in Some (q2, update_resource_optimizer q2 opt))"

section \<open>Updates of the object store\<close>

lemma obj_set_obj [simp]:
  "a < length (tq_objs q) \<Longrightarrow> obj (set_obj a f q) b = (if a = b then f (obj q b) else obj q b)"
  by (auto simp: obj_def set_obj_def)

lemma set_obj_fields [simp]:
  "tq_heap (set_obj a f q) = tq_heap q" "tq_lookup (set_obj a f q) = tq_lookup q"
  "tq_config (set_obj a f q) = tq_config q" "tq_active (set_obj a f q) = tq_active q"
  "tq_completed (set_obj a f q) = tq_completed q" "tq_history (set_obj a f q) = tq_history q"
  "tq_processing (set_obj a f q) = tq_processing q" "tq_max_size (set_obj a f q) = tq_max_size q"
  "length (tq_objs (set_obj a f q)) = length (tq_objs q)"
  by (simp_all add: set_obj_def)

lemma obj_other_fields [simp]:
  "obj (q\<lparr>tq_heap := h\<rparr>) = obj q" "obj (q\<lparr>tq_lookup := l\<rparr>) = obj q" "obj (q\<lparr>tq_active := x\<rparr>) = obj q"
  "obj (q\<lparr>tq_processing := y\<rparr>) = obj q" "obj (q\<lparr>tq_completed := z\<rparr>) = obj q" "obj (q\<lparr>tq_history := u\<rparr>) = obj q"
  by (simp_all add: obj_def fun_eq_iff)

section \<open>The invariant\<close>

definition task_ok :: "queued_task \<Rightarrow> bool" where
  "task_ok t \<longleftrightarrow> qt_retry_count t \<le> qt_max_retries t \<and> (qt_status t = BATCHED \<longrightarrow> qt_batch_id t \<noteq> None)"

definition queue_wf :: "task_queue \<Rightarrow> bool" where
  "queue_wf q \<longleftrightarrow> (\<forall>a\<in>set (tq_heap q). a < length (tq_objs q)) \<and> distinct (map fst (tq_lookup q)) \<and>
     (\<forall>(k, a)\<in>set (tq_lookup q). a < length (tq_objs q) \<and> qt_id (obj q a) = k) \<and>
     (\<forall>a < length (tq_objs q). task_ok (obj q a)) \<and>
     length (tq_completed q) \<le> 1000 \<and> length (tq_history q) \<le> 100"

text \<open>What a change by another thread keeps of the objects there are.\<close>

definition extends_queue :: "task_queue \<Rightarrow> task_queue \<Rightarrow> bool" where
  "extends_queue q q' \<longleftrightarrow> length (tq_objs q) \<le> length (tq_objs q') \<and>
     (\<forall>a < length (tq_objs q). qt_id (obj q' a) = qt_id (obj q a))"

lemma queue_wf_heap:
  "queue_wf q \<Longrightarrow> a \<in> set (tq_heap q) \<Longrightarrow> a < length (tq_objs q)"
  by (simp add: queue_wf_def)

lemma queue_wf_lookup:
  "queue_wf q \<Longrightarrow> (k, a) \<in> set (tq_lookup q) \<Longrightarrow> a < length (tq_objs q) \<and> qt_id (obj q a) = k"
  by (auto simp: queue_wf_def)

lemma queue_wf_batch: "queue_wf q \<Longrightarrow> a \<in> set (batch_addresses i q) \<Longrightarrow> a < length (tq_objs q)"
  by (auto simp: batch_addresses_def dest: queue_wf_lookup)

lemma push_bounded_length: "length (push_bounded n x xs) \<le> n"
  by (simp add: push_bounded_def last_n_def)

lemma set_obj_wf:
  assumes "queue_wf q" "a < length (tq_objs q)" "task_ok (obj q a) \<Longrightarrow> task_ok (f (obj q a))"
    and "qt_id (f (obj q a)) = qt_id (obj q a)"
  shows "queue_wf (set_obj a f q)"
  using assms by (auto simp: queue_wf_def)

lemma wf_fields:
  "queue_wf (q\<lparr>tq_active := x\<rparr>) = queue_wf q" "queue_wf (q\<lparr>tq_processing := y\<rparr>) = queue_wf q"
  "queue_wf (q\<lparr>tq_completed := push_bounded 1000 c cs\<rparr>) = queue_wf (q\<lparr>tq_completed := []\<rparr>)"
  "queue_wf q \<Longrightarrow> queue_wf (q\<lparr>tq_completed := []\<rparr>)"
  using push_bounded_length [of 1000 c cs] by (auto simp: queue_wf_def)

lemma mark_batched_wf:
  "queue_wf q \<Longrightarrow> a < length (tq_objs q) \<Longrightarrow> queue_wf (mark_batched i a q)"
  unfolding mark_batched_def by (rule set_obj_wf) (auto simp: task_ok_def)

lemma start_task_wf: "queue_wf q \<Longrightarrow> a < length (tq_objs q) \<Longrightarrow> queue_wf (start_task a q)"
  unfolding start_task_def Let_def wf_fields by (rule set_obj_wf) (auto simp: task_ok_def)

lemma complete_task_wf:
  "queue_wf q \<Longrightarrow> a < length (tq_objs q) \<Longrightarrow> queue_wf (complete_task t0 dt a q)"
proof -
  assume "queue_wf q" "a < length (tq_objs q)"
  then have "queue_wf (set_obj a (\<lambda>t. t\<lparr>qt_status := COMPLETED\<rparr>) q)"
    by (rule set_obj_wf) (auto simp: task_ok_def)
  then show ?thesis
    using push_bounded_length [of 1000] by (auto simp: complete_task_def Let_def queue_wf_def)
qed

lemma retry_or_fail_wf: "queue_wf q \<Longrightarrow> a < length (tq_objs q) \<Longrightarrow> queue_wf (retry_or_fail a q)"
proof -
  assume q: "queue_wf q" "a < length (tq_objs q)"
  then have ok: "task_ok (obj q a)" by (simp add: queue_wf_def)
  let ?q1 = "q\<lparr>tq_processing := AList.delete (qt_id (obj q a)) (tq_processing q)\<rparr>"
  have q1: "queue_wf ?q1" using q by (simp add: wf_fields)
  show ?thesis
  proof (cases "qt_retry_count (obj q a) < qt_max_retries (obj q a)")
    case True
    have "queue_wf (set_obj a (\<lambda>t. t\<lparr>qt_retry_count := qt_retry_count t + 1, qt_status := QUEUED,
        qt_batch_id := None\<rparr>) ?q1)"
      using q1 q(2) True by (intro set_obj_wf) (auto simp: task_ok_def)
    then show ?thesis
      using True q(2) by (auto simp: retry_or_fail_def Let_def queue_wf_def heapq.push_set)
  next
    case False
    then show ?thesis
      using set_obj_wf [OF q1, of a "\<lambda>t. t\<lparr>qt_status := FAILED\<rparr>"] q(2)
      by (simp add: retry_or_fail_def Let_def task_ok_def)
  qed
qed

section \<open>Every operation keeps the invariant\<close>

lemma extends_refl [simp]: "extends_queue q q"
  by (simp add: extends_queue_def)

lemma extends_trans: "extends_queue q q' \<Longrightarrow> extends_queue q' q'' \<Longrightarrow> extends_queue q q''"
  by (auto simp: extends_queue_def)

lemma extends_length: "extends_queue q q' \<Longrightarrow> a < length (tq_objs q) \<Longrightarrow> a < length (tq_objs q')"
  by (simp add: extends_queue_def)

lemma extends_steps:
  assumes "a < length (tq_objs q)"
  shows "extends_queue q (mark_batched i a q)" "extends_queue q (start_task a q)"
    "extends_queue q (complete_task t0 dt a q)" "extends_queue q (retry_or_fail a q)"
  using assms
  by (auto simp: extends_queue_def mark_batched_def start_task_def complete_task_def retry_or_fail_def Let_def)

lemma fold_keeps:
  assumes "\<And>a q. queue_wf q \<Longrightarrow> a < length (tq_objs q) \<Longrightarrow> queue_wf (f a q) \<and> extends_queue q (f a q)"
  shows "queue_wf q \<Longrightarrow> \<forall>a\<in>set as. a < length (tq_objs q) \<Longrightarrow>
    queue_wf (fold f as q) \<and> extends_queue q (fold f as q)"
proof (induction as arbitrary: q)
  case (Cons a as)
  then have s: "queue_wf (f a q)" "extends_queue q (f a q)" using assms by auto
  then have "\<forall>b\<in>set as. b < length (tq_objs (f a q))" using Cons.prems(2) extends_length by auto
  from Cons.IH [OF s(1) this] s(2) show ?case by (auto intro: extends_trans)
qed simp

lemma fold_mark:
  "queue_wf q \<Longrightarrow> \<forall>a\<in>set as. a < length (tq_objs q) \<Longrightarrow>
   queue_wf (fold (mark_batched i) as q) \<and> extends_queue q (fold (mark_batched i) as q)"
  by (rule fold_keeps) (auto intro: mark_batched_wf extends_steps)

lemma fold_start:
  "queue_wf q \<Longrightarrow> \<forall>a\<in>set as. a < length (tq_objs q) \<Longrightarrow>
   queue_wf (fold start_task as q) \<and> extends_queue q (fold start_task as q)"
  by (rule fold_keeps) (auto intro: start_task_wf extends_steps)

lemma fold_complete:
  "queue_wf q \<Longrightarrow> \<forall>a\<in>set as. a < length (tq_objs q) \<Longrightarrow>
   queue_wf (fold (complete_task t0 dt) as q) \<and> extends_queue q (fold (complete_task t0 dt) as q)"
  by (rule fold_keeps) (auto intro: complete_task_wf extends_steps)

lemma fold_retry:
  "queue_wf q \<Longrightarrow> \<forall>a\<in>set as. a < length (tq_objs q) \<Longrightarrow>
   queue_wf (fold retry_or_fail as q) \<and> extends_queue q (fold retry_or_fail as q)"
  by (rule fold_keeps) (auto intro: retry_or_fail_wf extends_steps)

lemma new_task_queue_wf: "queue_wf (new_task_queue cfg n b)"
  by (simp add: queue_wf_def new_task_queue_def)

lemma add_task_wf: "queue_wf q \<Longrightarrow> queue_wf (snd (add_task now uuid d p est q))"
proof -
  assume q: "queue_wf q"
  have old: "a < length (tq_objs q) \<Longrightarrow> (tq_objs q @ [t]) ! a = tq_objs q ! a" for a t
    by (simp add: nth_append)
  show ?thesis
    using q
    by (auto simp: add_task_def Let_def queue_wf_def obj_def old heapq.push_set distinct_update task_ok_def
        nth_append less_Suc_eq dest!: set_alist_update split: sum.splits)
qed

lemma cancel_task_wf: "queue_wf q \<Longrightarrow> queue_wf (snd (cancel_task i q))"
proof -
  assume q: "queue_wf q"
  have "queue_wf (set_obj a (\<lambda>t. t\<lparr>qt_status := CANCELLED\<rparr>) q)" if "map_of (tq_lookup q) i = Some a" for a
    using q queue_wf_lookup [OF q map_of_SomeD [OF that]] by (intro set_obj_wf) (auto simp: task_ok_def)
  then show ?thesis using q by (auto simp: cancel_task_def split: option.splits)
qed

lemma get_queue_metrics_wf: "queue_wf q \<Longrightarrow> queue_wf (snd (get_queue_metrics now q))"
  using push_bounded_length [of 100] by (auto simp: get_queue_metrics_def Let_def queue_wf_def)

lemma fold_delete_lookup:
  "distinct (map fst l) \<Longrightarrow> distinct (map fst (fold AList.delete ks l)) \<and> set (fold AList.delete ks l) \<subseteq> set l"
proof (induction ks arbitrary: l)
  case (Cons k ks)
  have "distinct (map fst (AList.delete k l))" using Cons.prems by (rule distinct_delete)
  moreover have "set (AList.delete k l) \<subseteq> set l" by (rule set_alist_delete)
  ultimately show ?case using Cons.IH by fastforce
qed simp

lemma cleanup_tasks_wf: "queue_wf q \<Longrightarrow> queue_wf (cleanup_tasks now q)"
proof -
  assume q: "queue_wf q"
  have "obj (cleanup_tasks now q) = obj q" by (simp add: cleanup_tasks_def Let_def obj_def fun_eq_iff)
  moreover have "distinct (map fst (tq_lookup (cleanup_tasks now q)))"
    "set (tq_lookup (cleanup_tasks now q)) \<subseteq> set (tq_lookup q)"
    "set (tq_heap (cleanup_tasks now q)) \<subseteq> set (tq_heap q)"
    using fold_delete_lookup [of "tq_lookup q"] q
    by (auto simp: cleanup_tasks_def Let_def queue_wf_def heapq.rebuild_set)
  ultimately show ?thesis
    using q unfolding queue_wf_def by (auto simp: cleanup_tasks_def Let_def)
qed

lemma create_task_batch_keeps:
  "queue_wf q \<Longrightarrow> \<forall>a\<in>set (planned_items b). a < length (tq_objs q) \<Longrightarrow>
   queue_wf (snd (create_task_batch now name b q)) \<and> extends_queue q (snd (create_task_batch now name b q))"
proof -
  assume q: "queue_wf q" "\<forall>a\<in>set (planned_items b). a < length (tq_objs q)"
  from fold_mark [OF this, of "planned_id q now name b"]
  show ?thesis by (auto simp: create_task_batch_def Let_def wf_fields extends_queue_def)
qed

lemma carry_out_keeps:
  "queue_wf q \<Longrightarrow> \<forall>a\<in>set (items (map snd plan)). a < length (tq_objs q) \<Longrightarrow>
   queue_wf (snd (carry_out now plan q)) \<and> extends_queue q (snd (carry_out now plan q))"
proof (induction now plan q rule: carry_out.induct)
  case (2 now name b plan q)
  obtain batch q1 where b: "create_task_batch now name b q = (batch, q1)" by fastforce
  have "queue_wf q1 \<and> extends_queue q q1"
    using create_task_batch_keeps [OF 2(2), of b now name] 2(3) b by (simp add: items_def)
  moreover from this have "\<forall>a\<in>set (items (map snd plan)). a < length (tq_objs q1)"
    using 2(3) by (auto simp: items_def intro: extends_length)
  ultimately show ?case
    using 2(1) [OF b [symmetric] refl] b by (auto simp: Let_def split_beta intro: extends_trans)
qed simp

lemma group_tasks_mset:
  "mset (grouped (group_tasks_for_batching q)) = mset (filter (\<lambda>a. qt_status (obj q a) = QUEUED) (tq_heap q))"
proof -
  have "mset (grouped (map (\<lambda>(k, as). (k, sort_desc f as)) g)) = mset (grouped g)" for f :: "nat \<Rightarrow> rat" and g :: "(string \<times> nat list) list"
    by (induction g) (auto simp: grouped_def)
  then show ?thesis by (simp add: group_tasks_for_batching_def group_by_key_mset)
qed

lemma flat_plan_items:
  "items (map snd (flat_plan plans)) = concat (map (\<lambda>(name, plan, left). items plan) plans)"
  by (induction plans) (auto simp: flat_plan_def items_def comp_def)

text \<open>The plan of a call: what it takes is a part of the queued entries of the heap.\<close>

lemma create_batches_plan:
  assumes "create_batches now summary q = Some (batches, q')"
  obtains plan where "(batches, q') = carry_out now plan q"
    "mset (items (map snd plan)) \<subseteq># mset (filter (\<lambda>a. qt_status (obj q a) = QUEUED) (tq_heap q))"
    "\<forall>b\<in>set (map snd plan). 0 \<le> max_batch_size (adjust_batching_config (get_system_load_factor summary) (tq_config q)) \<longrightarrow>
       min_batch_size (tq_config q) \<le> max_batch_size (adjust_batching_config (get_system_load_factor summary) (tq_config q)) \<longrightarrow>
       batch_size_ok (adjust_batching_config (get_system_load_factor summary) (tq_config q)) b"
proof (cases "tq_heap q = []")
  case True
  then show ?thesis using assms that [of "[]"] by (simp add: create_batches_def)
next
  case False
  let ?cfg = "adjust_batching_config (get_system_load_factor summary) (tq_config q)"
  obtain plans where p: "plan_groups ?cfg (queue_rules q now) (group_tasks_for_batching q) = Some (Inr plans)"
    "(batches, q') = carry_out now (flat_plan plans) q"
    using assms False by (auto simp: create_batches_def Let_def split: option.splits sum.splits)
  have "filter (\<lambda>x. \<not> br_skip (queue_rules q now) x) xs = filter (\<lambda>a. qt_status (obj q a) \<noteq> CANCELLED) xs" for xs
    by (simp add: queue_rules_def)
  then have "mset (items (map snd (flat_plan plans))) \<subseteq># mset (filter (\<lambda>a. qt_status (obj q a) \<noteq> CANCELLED)
      (grouped (group_tasks_for_batching q)))"
    using plan_groups_items [OF p(1)] by (simp add: flat_plan_items del: mset_filter) (metis mset_subset_eq_add_left)
  then have "mset (items (map snd (flat_plan plans))) \<subseteq># mset (grouped (group_tasks_for_batching q))"
    by (metis mset_filter multiset_filter_subset subset_mset.order_trans)
  moreover have "min_batch_size ?cfg = min_batch_size (tq_config q)"
    by (simp add: adjust_batching_config_def)
  then have "\<forall>b\<in>set (map snd (flat_plan plans)). 0 \<le> max_batch_size ?cfg \<longrightarrow>
      min_batch_size (tq_config q) \<le> max_batch_size ?cfg \<longrightarrow> batch_size_ok ?cfg b"
    using plan_groups_bounds [OF p(1)] by (fastforce simp: flat_plan_def list_all_iff)
  ultimately show ?thesis using that [OF p(2)] by (simp add: group_tasks_mset)
qed

lemma create_batches_keeps:
  assumes "queue_wf q" "create_batches now summary q = Some (batches, q')"
  shows "queue_wf q' \<and> extends_queue q q'"
proof -
  obtain plan where p: "(batches, q') = carry_out now plan q"
    "mset (items (map snd plan)) \<subseteq># mset (filter (\<lambda>a. qt_status (obj q a) = QUEUED) (tq_heap q))"
    using assms(2) by (rule create_batches_plan)
  have "\<forall>a\<in>set (items (map snd plan)). a < length (tq_objs q)"
    using mset_subset_eqD [OF p(2)] queue_wf_heap [OF assms(1)] by (auto simp flip: set_mset_mset)
  from carry_out_keeps [OF assms(1) this, of now] p(1) show ?thesis by (metis snd_conv)
qed

lemma process_batch_keeps:
  assumes "queue_wf q" "\<And>q. queue_wf q \<Longrightarrow> queue_wf (during q) \<and> extends_queue q (during q)"
  shows "queue_wf (snd (process_batch processor during t0 dt batch q))"
proof (cases processor)
  case (Some run)
  let ?as = "batch_addresses (tb_id batch) q"
  let ?q1 = "during (fold start_task ?as q)"
  have "queue_wf (fold start_task ?as q) \<and> extends_queue q (fold start_task ?as q)"
    using assms(1) queue_wf_batch [OF assms(1)] by (intro fold_start) blast+
  then have q1: "queue_wf ?q1" "extends_queue q ?q1" using assms(2) extends_trans by blast+
  have "queue_wf (fold (complete_task t0 dt) ?as ?q1)"
    using q1 queue_wf_batch [OF assms(1)] extends_length [OF q1(2)] fold_complete [OF q1(1)] by blast
  moreover have "queue_wf (fold retry_or_fail (batch_addresses (tb_id batch) ?q1) ?q1)"
    using queue_wf_batch [OF q1(1)] fold_retry [OF q1(1)] by blast
  ultimately show ?thesis
    using Some q1(1) by (auto simp: process_batch_def Let_def wf_fields split: option.split)
qed (use assms(1) in \<open>simp add: process_batch_def\<close>)

section \<open>Reachable queues\<close>

datatype queue_call =
    AddCall rat string pydict priority_arg "rat option"
  | CancelCall string
  | MetricsCall rat

fun run_call :: "queue_call \<Rightarrow> task_queue \<Rightarrow> task_queue" where
  "run_call (AddCall now uuid d p est) q = snd (add_task now uuid d p est q)"
| "run_call (CancelCall i) q = snd (cancel_task i q)"
| "run_call (MetricsCall now) q = snd (get_queue_metrics now q)"

inductive queue_reachable :: "task_queue \<Rightarrow> bool" where
  "queue_reachable (new_task_queue cfg n b)"
| "queue_reachable q \<Longrightarrow> queue_reachable (run_call c q)"
| "queue_reachable q \<Longrightarrow> create_batches now summary q = Some (batches, q') \<Longrightarrow> queue_reachable q'"
| "queue_reachable q \<Longrightarrow> queue_reachable (snd (process_batch processor (fold run_call calls) t0 dt batch q))"
| "queue_reachable q \<Longrightarrow> queue_reachable (cleanup_tasks now q)"

lemma run_call_keeps: "queue_wf q \<Longrightarrow> queue_wf (run_call c q) \<and> extends_queue q (run_call c q)"
proof (cases c)
  case (AddCall now uuid d p est)
  moreover have "extends_queue q (snd (add_task now uuid d p est q))"
    by (auto simp: add_task_def Let_def extends_queue_def obj_def nth_append split: sum.split)
  ultimately show "queue_wf q \<Longrightarrow> ?thesis" using add_task_wf by simp
next
  case (CancelCall i)
  moreover assume q: "queue_wf q"
  have "extends_queue q (snd (cancel_task i q))"
    using queue_wf_lookup [OF q map_of_SomeD] by (auto simp: cancel_task_def extends_queue_def split: option.split)
  ultimately show ?thesis using q cancel_task_wf by simp
next
  case (MetricsCall now)
  moreover have "extends_queue q (snd (get_queue_metrics now q))"
    by (simp add: get_queue_metrics_def Let_def extends_queue_def)
  ultimately show "queue_wf q \<Longrightarrow> ?thesis" using get_queue_metrics_wf by simp
qed

lemma run_calls_keep: "queue_wf q \<Longrightarrow> queue_wf (fold run_call cs q) \<and> extends_queue q (fold run_call cs q)"
proof (induction cs arbitrary: q)
  case (Cons c cs)
  with run_call_keeps [OF Cons.prems, of c] show ?case by (auto intro: extends_trans)
qed simp

lemma queue_reachable_keeps: "queue_reachable q \<Longrightarrow> queue_wf q"
proof (induction rule: queue_reachable.induct)
  case (3 q now summary batches q')
  then show ?case using create_batches_keeps by blast
next
  case (4 q processor calls t0 dt batch)
  then show ?case using run_calls_keep by (intro process_batch_keeps) blast+
qed (use new_task_queue_wf run_call_keeps cleanup_tasks_wf in blast)+

lemma status_counts:
  "status_count QUEUED q + status_count BATCHED q + status_count PROCESSING q + status_count COMPLETED q +
   status_count FAILED q + status_count CANCELLED q = length (tq_lookup q)"
proof -
  have "length (filter (\<lambda>t. qt_status t = QUEUED) ts) + length (filter (\<lambda>t. qt_status t = BATCHED) ts) +
      length (filter (\<lambda>t. qt_status t = PROCESSING) ts) + length (filter (\<lambda>t. qt_status t = COMPLETED) ts) +
      length (filter (\<lambda>t. qt_status t = FAILED) ts) + length (filter (\<lambda>t. qt_status t = CANCELLED) ts) = length ts" for ts
  proof (induction ts)
    case (Cons t ts)
    then show ?case by (cases "qt_status t") simp_all
  qed simp
  from this [of "lookup_tasks q"] show ?thesis by (simp add: status_count_def) (simp add: lookup_tasks_def)
qed

section \<open>Properties\<close>

text \<open>C39. In every queue that is reached by adding and cancelling tasks, making, processing (while other
  threads call the queue) and cleaning up batches: the table maps distinct ids to existing tasks of these ids,
  no task was retried more often than allowed, a batched task names its batch, the histories are
  bounded, and the counts of the metrics and the cancelled tasks add up to the total.\<close>

theorem queue_reachable_invariant:
  assumes "queue_reachable q"
  shows "distinct (map fst (tq_lookup q)) \<and>
    (\<forall>(k, a)\<in>set (tq_lookup q). a < length (tq_objs q) \<and> qt_id (obj q a) = k) \<and>
    (\<forall>a < length (tq_objs q). qt_retry_count (obj q a) \<le> qt_max_retries (obj q a) \<and>
       (qt_status (obj q a) = BATCHED \<longrightarrow> qt_batch_id (obj q a) \<noteq> None)) \<and>
    length (tq_completed q) \<le> 1000 \<and> length (tq_history q) \<le> 100 \<and>
    (let m = fst (get_queue_metrics now q) in
       qm_queued m + qm_batched m + qm_processing m + qm_completed m + qm_failed m + status_count CANCELLED q = qm_total m)"
  using queue_reachable_keeps [OF assms] status_counts [of q]
  by (simp add: queue_wf_def task_ok_def get_queue_metrics_def Let_def)

definition sample_task :: "string \<Rightarrow> pydict" where
  "sample_task i = [(''task_id'', PStr i), (''prompt'', PStr ''fix it'')]"

definition sample_queue :: "int \<Rightarrow> string list \<Rightarrow> task_queue" where
  "sample_queue max_batch ids =
     fold (\<lambda>i. run_call (AddCall 0 ''u'' (sample_task i) DefaultPriority (Some 1))) ids
       (new_task_queue (Some (default_batching_config\<lparr>max_batch_size := max_batch, min_batch_size := 1\<rparr>)) 10 True)"

lemma sample_queue_reachable: "queue_reachable (sample_queue n ids)"
proof -
  have "queue_reachable q \<Longrightarrow>
      queue_reachable (fold (\<lambda>i. run_call (AddCall 0 ''u'' (sample_task i) DefaultPriority (Some 1))) ids q)" for q
  proof (induction ids arbitrary: q)
    case (Cons i ids)
    from Cons.IH [OF queue_reachable.intros(2) [OF Cons.prems, of "AddCall 0 ''u'' (sample_task i) DefaultPriority (Some 1)"]]
    show ?case by simp
  qed simp
  then show ?thesis unfolding sample_queue_def by (blast intro: queue_reachable.intros)
qed

lemma queue_reachable_invariant_witness:
  "length (tq_completed (sample_queue 2 [''a'', ''b'', ''c''])) \<le> 1000 \<and> length (tq_lookup (sample_queue 2 [''a'', ''b'', ''c''])) = 3"
proof -
  have "length (tq_lookup (sample_queue 2 [''a'', ''b'', ''c''])) = 3" by code_simp
  with queue_reachable_invariant [OF sample_queue_reachable [of 2 "[''a'', ''b'', ''c'']"], of 0]
  show ?thesis by blast
qed

text \<open>What a plan does to the queue.\<close>

lemma fold_mark_obj:
  "\<forall>a\<in>set as. a < length (tq_objs q) \<Longrightarrow>
   obj (fold (mark_batched i) as q) b =
     (if b \<in> set as then (obj q b)\<lparr>qt_status := BATCHED, qt_batch_id := Some i\<rparr> else obj q b) \<and>
   tq_heap (fold (mark_batched i) as q) = tq_heap q \<and> tq_lookup (fold (mark_batched i) as q) = tq_lookup q \<and>
   length (tq_objs (fold (mark_batched i) as q)) = length (tq_objs q)"
  by (induction as arbitrary: q) (auto simp: mark_batched_def)

lemma carry_out_effect:
  assumes "carry_out now plan q = (batches, q')" "\<forall>a\<in>set (items (map snd plan)). a < length (tq_objs q)"
  shows "map tb_tasks batches = map (\<lambda>(name, b). map (\<lambda>a. qt_data (obj q a)) (planned_items b)) plan \<and>
    tq_heap q' = tq_heap q \<and> tq_lookup q' = tq_lookup q \<and>
    (\<forall>a. qt_data (obj q' a) = qt_data (obj q a) \<and>
       (a \<notin> set (items (map snd plan)) \<longrightarrow> obj q' a = obj q a) \<and>
       (a \<in> set (items (map snd plan)) \<longrightarrow> qt_status (obj q' a) = BATCHED \<and>
          qt_batch_id (obj q' a) \<in> (\<lambda>b. Some (tb_id b)) ` set batches))"
  using assms
proof (induction now plan q arbitrary: batches q' rule: carry_out.induct)
  case (2 now name b plan q)
  obtain batch q1 where b: "create_task_batch now name b q = (batch, q1)" by fastforce
  obtain rest q2 where r: "carry_out now plan q1 = (rest, q2)" by fastforce
  have bs: "batches = batch # rest" "q' = q2" using 2(2) b r by simp_all
  have valid: "\<forall>a\<in>set (planned_items b). a < length (tq_objs q)" using 2(3) by simp
  have q1: "tq_heap q1 = tq_heap q" "tq_lookup q1 = tq_lookup q" "length (tq_objs q1) = length (tq_objs q)"
    "obj q1 a = (if a \<in> set (planned_items b) then (obj q a)\<lparr>qt_status := BATCHED, qt_batch_id := Some (tb_id batch)\<rparr> else obj q a)" for a
    using b fold_mark_obj [OF valid, of "planned_id q now name b" a] by (auto simp: create_task_batch_def Let_def)
  have tasks: "tb_tasks batch = map (\<lambda>a. qt_data (obj q a)) (planned_items b)"
    using b by (auto simp: create_task_batch_def Let_def)
  have data: "qt_data (obj q1 a) = qt_data (obj q a)" for a by (simp add: q1(4))
  have "\<forall>a\<in>set (items (map snd plan)). a < length (tq_objs q1)" using 2(3) q1(3) by simp
  note IH = 2(1) [OF b [symmetric] refl r this]
  have effect: "qt_data (obj q2 a) = qt_data (obj q1 a) \<and> (a \<notin> set (items (map snd plan)) \<longrightarrow> obj q2 a = obj q1 a) \<and>
      (a \<in> set (items (map snd plan)) \<longrightarrow> qt_status (obj q2 a) = BATCHED \<and>
         qt_batch_id (obj q2 a) \<in> (\<lambda>b. Some (tb_id b)) ` set rest)" for a
    using IH by blast
  have "qt_data (obj q2 a) = qt_data (obj q a) \<and>
      (a \<notin> set (planned_items b) \<union> set (items (map snd plan)) \<longrightarrow> obj q2 a = obj q a) \<and>
      (a \<in> set (planned_items b) \<union> set (items (map snd plan)) \<longrightarrow> qt_status (obj q2 a) = BATCHED \<and>
         qt_batch_id (obj q2 a) \<in> (\<lambda>b. Some (tb_id b)) ` set (batch # rest))" for a
    using effect [of a] q1(4) [of a] data [of a] by (cases "a \<in> set (items (map snd plan))") auto
  then show ?case using IH tasks q1(1,2) by (simp add: bs data)
qed simp

text \<open>C37. Making batches, which returns when a batch may hold a task: each batch carries the data of queued
  tasks of the heap, no entry is used twice, exactly the tasks used become batched and name one of
  the new batches, all others stay as they are, and no entry leaves the heap. A batch of several
  tasks respects the size that the load allows.\<close>

theorem create_batches_once:
  assumes "queue_wf q" "1 \<le> max_batch_size (tq_config q)" "min_batch_size (tq_config q) \<le> max_batch_size (tq_config q)"
    and "min_batch_size (tq_config q) \<le> 2"
  shows "\<exists>batches q' used. create_batches now summary q = Some (batches, q') \<and>
    concat (map tb_tasks batches) = map (\<lambda>a. qt_data (obj q a)) used \<and>
    mset used \<subseteq># mset (filter (\<lambda>a. qt_status (obj q a) = QUEUED) (tq_heap q)) \<and>
    (\<forall>a. if a \<in> set used then qt_status (obj q' a) = BATCHED \<and> qt_batch_id (obj q' a) \<in> (\<lambda>b. Some (tb_id b)) ` set batches
         else obj q' a = obj q a) \<and>
    tq_heap q' = tq_heap q \<and> tq_lookup q' = tq_lookup q \<and>
    (\<forall>b\<in>set batches. int (length (tb_tasks b)) \<le>
       max_batch_size (adjust_batching_config (get_system_load_factor summary) (tq_config q)))"
proof -
  let ?cfg = "adjust_batching_config (get_system_load_factor summary) (tq_config q)"
  have cfg: "1 \<le> max_batch_size ?cfg" "min_batch_size (tq_config q) \<le> max_batch_size ?cfg"
    using assms(2-4) by (auto simp: adjust_batching_config_def)
  obtain batches q' where c: "create_batches now summary q = Some (batches, q')"
  proof (cases "tq_heap q = []")
    case False
    have no_error: "plan_groups ?cfg (queue_rules q now) gs \<noteq> Some (Inl e)" for gs e
      by (rule plan_groups_no_error) (simp_all add: queue_rules_def)
    obtain plans where "plan_groups ?cfg (queue_rules q now) (group_tasks_for_batching q) = Some (Inr plans)"
      using plan_groups_terminates [OF cfg(1), of "queue_rules q now" "group_tasks_for_batching q"] no_error
      by (metis not_Some_eq sum.exhaust)
    then show ?thesis
      using that False
      by (cases "carry_out now (flat_plan plans) q") (simp add: create_batches_def Let_def)
  qed (use that in \<open>simp add: create_batches_def\<close>)
  obtain plan where p: "(batches, q') = carry_out now plan q"
    "mset (items (map snd plan)) \<subseteq># mset (filter (\<lambda>a. qt_status (obj q a) = QUEUED) (tq_heap q))"
    "\<forall>b\<in>set (map snd plan). batch_size_ok ?cfg b"
    using create_batches_plan [OF c] cfg by (smt (verit, best) le_numeral_extra)
  have "\<forall>a\<in>set (items (map snd plan)). a < length (tq_objs q)"
    using mset_subset_eqD [OF p(2)] queue_wf_heap [OF assms(1)] by (auto simp flip: set_mset_mset)
  note effect = carry_out_effect [OF p(1) [symmetric] this]
  have "concat (map tb_tasks batches) = map (\<lambda>a. qt_data (obj q a)) (items (map snd plan))"
    using effect by (simp add: items_def map_concat comp_def case_prod_unfold)
  moreover have "int (length (tb_tasks b)) \<le> max_batch_size ?cfg" if "b \<in> set batches" for b
  proof -
    have "tb_tasks b \<in> (\<lambda>(name, b). map (\<lambda>a. qt_data (obj q a)) (planned_items b)) ` set plan"
      using effect that by (metis image_eqI list.set_map)
    then obtain name x where x: "(name, x) \<in> set plan" "tb_tasks b = map (\<lambda>a. qt_data (obj q a)) (planned_items x)"
      by auto
    then have "batch_size_ok ?cfg x" using p(3) by force
    then show ?thesis using cfg(1) x(2) by (cases x) auto
  qed
  ultimately show ?thesis using c p(2) effect by (intro exI [of _ batches] exI [of _ q'] exI [of _ "items (map snd plan)"]) auto
qed

lemma sample_queue_wf: "queue_wf (sample_queue n ids)"
  by (rule queue_reachable_keeps [OF sample_queue_reachable])

lemma create_batches_once_witness:
  "(\<exists>batches q' used. create_batches 0 (Inr []) (sample_queue 2 [''a'', ''b'', ''c'']) = Some (batches, q') \<and>
     concat (map tb_tasks batches) = map (\<lambda>a. qt_data (obj (sample_queue 2 [''a'', ''b'', ''c'']) a)) used) \<and>
   map_option (\<lambda>(bs, q). map (\<lambda>b. length (tb_tasks b)) bs)
     (create_batches 0 (Inr []) (sample_queue 2 [''a'', ''b'', ''c''])) = Some [3]"
proof -
  let ?q = "sample_queue 2 [''a'', ''b'', ''c'']"
  have cfg: "1 \<le> max_batch_size (tq_config ?q)" "min_batch_size (tq_config ?q) \<le> max_batch_size (tq_config ?q)"
    "min_batch_size (tq_config ?q) \<le> 2"
    by code_simp+
  have "map_option (\<lambda>(bs, q). map (\<lambda>b. length (tb_tasks b)) bs) (create_batches 0 (Inr []) ?q) = Some [3]"
    by code_simp
  with create_batches_once [OF sample_queue_wf cfg, of 0 "Inr []"] show ?thesis by blast
qed

lemma wf_addresses_distinct: "queue_wf q \<Longrightarrow> distinct (map snd (tq_lookup q))"
proof -
  assume q: "queue_wf q"
  then have "distinct (tq_lookup q)" by (auto simp: queue_wf_def distinct_map)
  moreover have "inj_on snd (set (tq_lookup q))"
    using queue_wf_lookup [OF q] by (intro inj_onI) (metis prod.collapse)
  ultimately show ?thesis by (simp add: distinct_map)
qed

definition retried :: "queued_task \<Rightarrow> queued_task" where
  "retried t = (if qt_retry_count t < qt_max_retries t
     then t\<lparr>qt_retry_count := qt_retry_count t + 1, qt_status := QUEUED, qt_batch_id := None\<rparr>
     else t\<lparr>qt_status := FAILED\<rparr>)"

lemma retry_or_fail_effect:
  "a < length (tq_objs q) \<Longrightarrow>
   obj (retry_or_fail a q) b = (if b = a then retried (obj q b) else obj q b) \<and>
   count_list (tq_heap (retry_or_fail a q)) b =
     count_list (tq_heap q) b + (if b = a \<and> qt_retry_count (obj q a) < qt_max_retries (obj q a) then 1 else 0) \<and>
   tq_lookup (retry_or_fail a q) = tq_lookup q \<and> length (tq_objs (retry_or_fail a q)) = length (tq_objs q)"
  by (auto simp: retry_or_fail_def retried_def Let_def heapq.push_count)

lemma fold_retry_effect:
  "distinct as \<Longrightarrow> \<forall>a\<in>set as. a < length (tq_objs q) \<Longrightarrow>
   obj (fold retry_or_fail as q) b = (if b \<in> set as then retried (obj q b) else obj q b) \<and>
   count_list (tq_heap (fold retry_or_fail as q)) b =
     count_list (tq_heap q) b + (if b \<in> set as \<and> qt_retry_count (obj q b) < qt_max_retries (obj q b) then 1 else 0) \<and>
   tq_lookup (fold retry_or_fail as q) = tq_lookup q"
proof (induction as arbitrary: q)
  case (Cons a as)
  then have a: "a < length (tq_objs q)" by simp
  have e: "obj (retry_or_fail a q) c = (if c = a then retried (obj q c) else obj q c)"
    "tq_lookup (retry_or_fail a q) = tq_lookup q" "length (tq_objs (retry_or_fail a q)) = length (tq_objs q)" for c
    using retry_or_fail_effect [OF a, of c] by blast+
  have h: "count_list (tq_heap (retry_or_fail a q)) b =
      count_list (tq_heap q) b + (if b = a \<and> qt_retry_count (obj q a) < qt_max_retries (obj q a) then 1 else 0)"
    using retry_or_fail_effect [OF a, of b] by blast
  have "obj (fold retry_or_fail as (retry_or_fail a q)) b =
      (if b \<in> set as then retried (obj (retry_or_fail a q) b) else obj (retry_or_fail a q) b) \<and>
    count_list (tq_heap (fold retry_or_fail as (retry_or_fail a q))) b =
      count_list (tq_heap (retry_or_fail a q)) b + (if b \<in> set as \<and>
        qt_retry_count (obj (retry_or_fail a q) b) < qt_max_retries (obj (retry_or_fail a q) b) then 1 else 0) \<and>
    tq_lookup (fold retry_or_fail as (retry_or_fail a q)) = tq_lookup (retry_or_fail a q)"
    using Cons.prems e(3) by (intro Cons.IH) auto
  then show ?case using e h Cons.prems(1) by auto
qed simp

lemma fold_start_effect:
  "\<forall>a\<in>set as. a < length (tq_objs q) \<Longrightarrow>
   obj (fold start_task as q) b = (if b \<in> set as then (obj q b)\<lparr>qt_status := PROCESSING\<rparr> else obj q b) \<and>
   tq_heap (fold start_task as q) = tq_heap q \<and> tq_lookup (fold start_task as q) = tq_lookup q \<and>
   length (tq_objs (fold start_task as q)) = length (tq_objs q)"
  by (induction as arbitrary: q) (auto simp: start_task_def Let_def)

lemma map_of_fold_delete: "k \<notin> set ks \<Longrightarrow> map_of (fold AList.delete ks l) k = map_of l k"
  by (induction ks arbitrary: l) (auto simp: delete_conv')

lemma cleanup_keeps_queued:
  assumes "queue_wf q" "map_of (tq_lookup q) k = Some a" "qt_status (obj q a) = QUEUED"
  shows "count_list (tq_heap (cleanup_tasks now q)) a = count_list (tq_heap q) a"
proof -
  let ?old = "map fst (filter (\<lambda>(k, a). is_done (qt_status (obj q a)) \<and> now - qt_created_at (obj q a) > 3600) (tq_lookup q))"
  have k: "qt_id (obj q a) = k" using queue_wf_lookup [OF assms(1) map_of_SomeD [OF assms(2)]] by simp
  have "k \<notin> set ?old"
  proof
    assume "k \<in> set ?old"
    then obtain b where "(k, b) \<in> set (tq_lookup q)" "is_done (qt_status (obj q b))" by auto
    moreover from this(1) have "b = a" using assms(1,2) by (simp add: queue_wf_def)
    ultimately show False using assms(3) by (simp add: is_done_def)
  qed
  then have "map_of (fold AList.delete ?old (tq_lookup q)) (qt_id (obj q a)) \<noteq> None"
    by (simp add: map_of_fold_delete k assms(2))
  then have "count_list (filter (\<lambda>b. map_of (fold AList.delete ?old (tq_lookup q)) (qt_id (obj q b)) \<noteq> None \<and>
      qt_status (obj q b) = QUEUED) xs) a = count_list xs a" for xs
    using assms(3) by (induction xs) auto
  then show ?thesis by (simp add: cleanup_tasks_def Let_def heapq.rebuild_count)
qed

text \<open>A failed batch duplicates its tasks: the entry a task already has in the heap is still there when the
  task is pushed again for its retry, and the clean-up keeps both, so the next batches take
  the task twice.\<close>

theorem failed_batch_duplicates_task:
  assumes "queue_wf q" "map_of (tq_lookup q) k = Some a" "qt_batch_id (obj q a) = Some (tb_id batch)"
    and "qt_retry_count (obj q a) < qt_max_retries (obj q a)" "run batch = Some e" "is_Exception e"
    and "q' = snd (process_batch (Some run) (\<lambda>q. q) t0 dt batch q)"
  shows "qt_status (obj q' a) = QUEUED \<and> count_list (tq_heap q') a = count_list (tq_heap q) a + 1 \<and>
    count_list (tq_heap (cleanup_tasks now q')) a = count_list (tq_heap q) a + 1"
proof -
  let ?as = "batch_addresses (tb_id batch) q"
  let ?q1 = "fold start_task ?as q"
  have valid: "\<forall>b\<in>set ?as. b < length (tq_objs q)" using queue_wf_batch [OF assms(1)] by blast
  have s: "obj ?q1 b = (if b \<in> set ?as then (obj q b)\<lparr>qt_status := PROCESSING\<rparr> else obj q b)"
    "tq_heap ?q1 = tq_heap q" "tq_lookup ?q1 = tq_lookup q" "length (tq_objs ?q1) = length (tq_objs q)" for b
    using fold_start_effect [OF valid, of b] by blast+
  have "(\<lambda>b. qt_batch_id (obj ?q1 b) = Some (tb_id batch)) = (\<lambda>b. qt_batch_id (obj q b) = Some (tb_id batch))"
    using s(1) by (simp add: fun_eq_iff)
  then have as: "batch_addresses (tb_id batch) ?q1 = ?as"
    unfolding batch_addresses_def [of _ ?q1] s(3) by (simp add: batch_addresses_def)
  have dist: "distinct ?as" using wf_addresses_distinct [OF assms(1)] by (simp add: batch_addresses_def)
  have a: "a \<in> set ?as" using assms(2,3) by (force simp: batch_addresses_def dest: map_of_SomeD)
  let ?q2 = "fold retry_or_fail ?as ?q1"
  have q': "q' = ?q2\<lparr>tq_active := AList.delete (tb_id batch) (tq_active ?q2)\<rparr>"
    using assms(5-7) by (simp add: process_batch_def Let_def as)
  have r: "obj ?q2 a = retried (obj ?q1 a)" "count_list (tq_heap ?q2) a = count_list (tq_heap q) a + 1"
    "tq_lookup ?q2 = tq_lookup q"
    using fold_retry_effect [OF dist, of ?q1 a] valid a s assms(4) by auto
  have wf: "queue_wf q'"
    unfolding assms(7) by (rule process_batch_keeps [OF assms(1)]) simp
  have "qt_status (obj q' a) = QUEUED" using r(1) s(1) a assms(4) by (simp add: q' retried_def)
  moreover from this have "count_list (tq_heap (cleanup_tasks now q')) a = count_list (tq_heap q') a"
    using cleanup_keeps_queued [OF wf, of k a] assms(2) r(3) by (simp add: q')
  ultimately show ?thesis using r(2) by (simp add: q')
qed

text \<open>One task whose first run fails: the next batch holds it twice.\<close>

definition batched_once :: task_queue where
  "batched_once = snd (the (create_batches 0 (Inr []) (sample_queue 2 [''a''])))"

definition first_batch :: task_batch where
  "first_batch = hd (fst (the (create_batches 0 (Inr []) (sample_queue 2 [''a'']))))"

lemma batched_once_wf: "queue_wf batched_once"
proof -
  have "\<not> Option.is_none (create_batches 0 (Inr []) (sample_queue 2 [''a'']))" by code_simp
  then obtain bs where "create_batches 0 (Inr []) (sample_queue 2 [''a'']) = Some (bs, batched_once)"
    unfolding batched_once_def by (cases "create_batches 0 (Inr []) (sample_queue 2 [''a''])") auto
  from create_batches_keeps [OF sample_queue_wf this] show ?thesis by blast
qed

lemma fold_complete_effect:
  "\<forall>a\<in>set as. a < length (tq_objs q) \<Longrightarrow>
   obj (fold (complete_task t0 dt) as q) b = (if b \<in> set as then (obj q b)\<lparr>qt_status := COMPLETED\<rparr> else obj q b) \<and>
   length (tq_objs (fold (complete_task t0 dt) as q)) = length (tq_objs q)"
  by (induction as arbitrary: q) (auto simp: complete_task_def Let_def)

text \<open>Cancelling a task that is already in a batch answers yes and does not prevent its processing: when
  the batch is processed, the data of the task are handed to the processor as before and the task
  ends as completed. A task that is still queued is not taken into a batch once it is cancelled.\<close>

theorem cancel_of_batched_task_ignored:
  assumes "queue_wf q" "map_of (tq_lookup q) k = Some a" "cancel_task k q = (b, q1)"
  shows "(qt_status (obj q a) = BATCHED \<and> qt_batch_id (obj q a) = Some (tb_id batch) \<and> run batch = None \<longrightarrow>
      b \<and> qt_status (obj (snd (process_batch (Some run) (\<lambda>q. q) t0 dt batch q1)) a) = COMPLETED) \<and>
    (qt_status (obj q a) = QUEUED \<longrightarrow> b \<and>
      (\<forall>batches q2. create_batches now summary q1 = Some (batches, q2) \<longrightarrow> qt_status (obj q2 a) = CANCELLED))"
proof -
  have a: "a < length (tq_objs q)" using queue_wf_lookup [OF assms(1) map_of_SomeD [OF assms(2)]] by simp
  have wf1: "queue_wf q1" using cancel_task_wf [OF assms(1), of k] assms(3) by simp
  have batched: "b \<and> qt_status (obj (snd (process_batch (Some run) (\<lambda>q. q) t0 dt batch q1)) a) = COMPLETED"
    if h: "qt_status (obj q a) = BATCHED \<and> qt_batch_id (obj q a) = Some (tb_id batch) \<and> run batch = None"
  proof -
    from h have q1: "b" "q1 = set_obj a (\<lambda>t. t\<lparr>qt_status := CANCELLED\<rparr>) q"
      using assms(2,3) by (simp_all add: cancel_task_def)
    let ?as = "batch_addresses (tb_id batch) q1"
    have valid: "\<forall>b\<in>set ?as. b < length (tq_objs q1)" using queue_wf_batch [OF wf1] by blast
    have in_batch: "a \<in> set ?as"
      using assms(2) h a by (force simp: batch_addresses_def q1(2) dest: map_of_SomeD)
    have "obj (fold (complete_task t0 dt) ?as (fold start_task ?as q1)) a =
        (obj (fold start_task ?as q1) a)\<lparr>qt_status := COMPLETED\<rparr>"
      using fold_complete_effect [of ?as "fold start_task ?as q1" t0 dt a] fold_start_effect [OF valid] valid in_batch
      by simp
    then show ?thesis using h q1(1) by (simp add: process_batch_def Let_def)
  qed
  have queued: "b \<and> (\<forall>batches q2. create_batches now summary q1 = Some (batches, q2) \<longrightarrow> qt_status (obj q2 a) = CANCELLED)"
    if h: "qt_status (obj q a) = QUEUED"
  proof -
    from h have q1: "b" "q1 = set_obj a (\<lambda>t. t\<lparr>qt_status := CANCELLED\<rparr>) q"
      using assms(2,3) by (simp_all add: cancel_task_def)
    have "qt_status (obj q2 a) = CANCELLED" if c: "create_batches now summary q1 = Some (batches, q2)" for batches q2
    proof -
      obtain plan where p: "(batches, q2) = carry_out now plan q1"
        "mset (items (map snd plan)) \<subseteq># mset (filter (\<lambda>a. qt_status (obj q1 a) = QUEUED) (tq_heap q1))"
        using c by (rule create_batches_plan)
      have sub: "set (items (map snd plan)) \<subseteq> set (filter (\<lambda>a. qt_status (obj q1 a) = QUEUED) (tq_heap q1))"
        using mset_subset_eqD [OF p(2)] by (auto simp flip: set_mset_mset)
      then have "\<forall>a\<in>set (items (map snd plan)). a < length (tq_objs q1)"
        using queue_wf_heap [OF wf1] by auto
      moreover have "a \<notin> set (items (map snd plan))" using sub a by (auto simp: q1(2))
      ultimately have "obj q2 a = obj q1 a" using carry_out_effect [OF p(1) [symmetric]] by blast
      then show ?thesis using a by (simp add: q1(2))
    qed
    then show ?thesis using q1(1) by blast
  qed
  from batched queued show ?thesis by blast
qed

text \<open>Batches that are made of one group in the same millisecond share their id: with three tasks and batches
  of at most two, processing the first batch alone marks all three as completed.\<close>

lemma batches_share_id:
  "(case create_batches 0 (Inr [(''status'', PStr ''no_data'')]) (sample_queue 2 [''a'', ''b'', ''c'']) of
      Some ([b1, b2], q) \<Rightarrow>
        tb_id b1 = tb_id b2 \<and> length (tb_tasks b1) = 2 \<and> length (tb_tasks b2) = 1 \<and>
        map qt_status (lookup_tasks (snd (process_batch (Some (\<lambda>b. None)) (\<lambda>q. q) 0 1 b1 q))) =
          [COMPLETED, COMPLETED, COMPLETED]
    | _ \<Rightarrow> False)"
  by code_simp

lemma load_factor_bounds: "0 \<le> get_system_load_factor summary \<and> get_system_load_factor summary \<le> 1"
  by (auto simp: get_system_load_factor_def split: sum.split pyval.split option.split)

end
