(* ===== verification/Workspace.thy ===== *)
theory Workspace
  imports Prelude
begin

text \<open>
  The workspace of a generated project and the patterns its files are searched for, shared by
  \<open>Validation_Gate\<close> and \<open>Fix_Loop\<close>.

  \<^item> A file system is an association list from absolute paths (lists of names, no links) to
    directories and text files; the order of the list is the order in which a directory tree is
    traversed. Permissions, encodings and failing disks are outside the model, a path that is a
    directory where a file is wanted is not.
  \<^item> \<open>pathlib\<close>'s \<open>/\<close>, \<open>exists\<close>, \<open>is_dir\<close>, \<open>read_text\<close>, \<open>write_text\<close>, \<open>mkdir\<close> and \<open>rglob\<close> act on it.
  \<^item> A regular expression of Python's \<open>re\<close> is a value of \<open>rx\<close>; \<open>rx_ends\<close> computes where its matches
    end, and \<open>rx_search\<close> whether there is one.
\<close>

section \<open>Files\<close>

datatype fs_entry = FDir | FText string

type_synonym fs_path = "string list"
type_synonym fs = "(fs_path \<times> fs_entry) list"

definition path_parts :: "string \<Rightarrow> fs_path" where
  "path_parts s = filter (\<lambda>c. c \<noteq> [] \<and> c \<noteq> ''.'') (split_char CHR ''/'' s)"

text \<open>\<open>workspace / s\<close>: an absolute \<open>s\<close> replaces the workspace.\<close>

definition join_path :: "fs_path \<Rightarrow> string \<Rightarrow> fs_path" where
  "join_path ws s = (if prefix ''/'' s then path_parts s else ws @ path_parts s)"

definition show_path :: "fs_path \<Rightarrow> string" where
  "show_path p = ''/'' @ join ''/'' p"

definition fs_get :: "fs \<Rightarrow> fs_path \<Rightarrow> fs_entry option" where
  "fs_get f p = (if p = [] then Some FDir else map_of f p)"

definition fs_exists :: "fs \<Rightarrow> fs_path \<Rightarrow> bool" where
  "fs_exists f p \<longleftrightarrow> fs_get f p \<noteq> None"

definition fs_is_dir :: "fs \<Rightarrow> fs_path \<Rightarrow> bool" where
  "fs_is_dir f p \<longleftrightarrow> fs_get f p = Some FDir"

definition is_directory_error :: "fs_path \<Rightarrow> py_exn" where
  "is_directory_error p =
     NamedError ''IsADirectoryError'' (''[Errno 21] Is a directory: '' @ quote_text (show_path p))"

definition fs_read :: "fs \<Rightarrow> fs_path \<Rightarrow> string result" where
  "fs_read f p =
     (case fs_get f p of
        Some (FText s) \<Rightarrow> Inr s
      | Some FDir \<Rightarrow> Inl (is_directory_error p)
      | None \<Rightarrow> Inl (FileNotFoundError
          (''[Errno 2] No such file or directory: '' @ quote_text (show_path p))))"

text \<open>\<open>write_text\<close> in a directory that exists.\<close>

definition fs_write :: "fs \<Rightarrow> fs_path \<Rightarrow> string \<Rightarrow> fs result" where
  "fs_write f p s =
     (if fs_is_dir f p then Inl (is_directory_error p) else Inr (AList.update p (FText s) f))"

text \<open>\<open>mkdir(parents=True, exist_ok=True)\<close>, walking from \<open>cur\<close>: the directory reached, the file
  system with what was created on the way, and the error that stopped the walk.\<close>

fun fs_mkdirs :: "fs \<Rightarrow> fs_path \<Rightarrow> fs_path \<Rightarrow> fs_path result \<times> fs" where
  "fs_mkdirs f cur [] = (Inr cur, f)"
| "fs_mkdirs f cur (c # cs) =
     (if c = ''..'' then fs_mkdirs f (butlast cur) cs
      else
        let p = cur @ [c] in
        case fs_get f p of
          None \<Rightarrow> fs_mkdirs (AList.update p FDir f) p cs
        | Some FDir \<Rightarrow> fs_mkdirs f p cs
        | Some (FText s) \<Rightarrow>
            (Inl (if cs = []
                  then NamedError ''FileExistsError'' (''[Errno 17] File exists: '' @ quote_text (show_path p))
                  else NamedError ''NotADirectoryError'' (''[Errno 20] Not a directory: '' @ quote_text (show_path p))), f))"

text \<open>\<open>list(workspace.rglob("*ext"))\<close> and \<open>relative_to(workspace)\<close>.\<close>

definition fs_rglob :: "fs \<Rightarrow> fs_path \<Rightarrow> string \<Rightarrow> fs_path list" where
  "fs_rglob f ws ext = filter (\<lambda>p. strict_prefix ws p \<and> suffix ext (last p)) (map fst f)"

definition relative_path :: "fs_path \<Rightarrow> fs_path \<Rightarrow> string" where
  "relative_path ws p = join ''/'' (drop (length ws) p)"

lemma fs_get_Nil [simp]: "fs_get f [] = Some FDir"
  by (simp add: fs_get_def)

lemma fs_get_update [simp]:
  "fs_get (AList.update p e f) q = (if q = [] then Some FDir else if q = p then Some e else fs_get f q)"
  by (simp add: fs_get_def update_conv')

lemma fs_write_Inr:
  "fs_write f p s = Inr f' \<Longrightarrow> p \<noteq> [] \<and> f' = AList.update p (FText s) f"
  by (auto simp: fs_write_def fs_is_dir_def split: if_splits)

lemma fs_read_Inr: "fs_read f p = Inr s \<longleftrightarrow> fs_get f p = Some (FText s)"
  by (auto simp: fs_read_def split: option.splits fs_entry.splits)

lemma fs_read_write [simp]: "fs_write f p s = Inr f' \<Longrightarrow> fs_read f' q = (if q = p then Inr s else fs_read f q)"
  by (auto simp: fs_read_def dest!: fs_write_Inr)

text \<open>Making directories changes no file: it only adds directories.\<close>

lemma fs_mkdirs_keeps:
  "fs_get f p = Some e \<Longrightarrow> fs_get (snd (fs_mkdirs f cur cs)) p = Some e"
  by (induction f cur cs rule: fs_mkdirs.induct)
    (auto simp: Let_def split: option.splits fs_entry.splits if_splits)

lemma fs_mkdirs_new:
  "fs_get f p = None \<Longrightarrow> fs_get (snd (fs_mkdirs f cur cs)) p \<in> {None, Some FDir}"
  by (induction f cur cs rule: fs_mkdirs.induct)
    (auto simp: Let_def fs_mkdirs_keeps split: option.splits fs_entry.splits if_splits)

lemma fs_mkdirs_plain:
  "''..'' \<notin> set cs \<Longrightarrow> fst (fs_mkdirs f cur cs) = Inr d \<Longrightarrow> d = cur @ cs"
  by (induction f cur cs rule: fs_mkdirs.induct)
    (auto simp: Let_def split: option.splits fs_entry.splits if_splits)

lemma fs_mkdirs_text:
  "fs_get (snd (fs_mkdirs f cur cs)) p = Some (FText s) \<longleftrightarrow> fs_get f p = Some (FText s)"
  using fs_mkdirs_keeps[of f p _ cur cs] fs_mkdirs_new[of f p cur cs] by (cases "fs_get f p") auto

section \<open>Patterns\<close>

text \<open>One character of a class, sequence, alternative, repetition, and the three assertions the code
  uses: \<open>\b\<close>, \<open>^\<close> with \<open>re.MULTILINE\<close>, and \<open>$\<close>.\<close>

datatype rx =
    Chr "char \<Rightarrow> bool"
  | Eps
  | Seq rx rx
  | Alt rx rx
  | Star rx
  | WordBoundary
  | LineStart
  | TextEnd

definition is_word :: "char \<Rightarrow> bool" where
  "is_word c = (let n = of_char c :: nat in
     (48 \<le> n \<and> n \<le> 57) \<or> (65 \<le> n \<and> n \<le> 90) \<or> n = 95 \<or> (97 \<le> n \<and> n \<le> 122))"

definition word_before :: "string \<Rightarrow> nat \<Rightarrow> bool" where
  "word_before s i \<longleftrightarrow> 0 < i \<and> is_word (s ! (i - 1))"

definition word_after :: "string \<Rightarrow> nat \<Rightarrow> bool" where
  "word_after s i \<longleftrightarrow> i < length s \<and> is_word (s ! i)"

text \<open>The ends of the repetitions of \<open>step\<close>; a repetition that consumes nothing is not repeated.\<close>

fun star_ends :: "nat \<Rightarrow> (nat \<Rightarrow> nat list) \<Rightarrow> nat \<Rightarrow> nat list" where
  "star_ends 0 step i = [i]"
| "star_ends (Suc n) step i =
     remdups (i # concat (map (star_ends n step) (filter (\<lambda>j. i < j) (step i))))"

fun rx_ends :: "rx \<Rightarrow> string \<Rightarrow> nat \<Rightarrow> nat list" where
  "rx_ends (Chr P) s i = (if i < length s \<and> P (s ! i) then [i + 1] else [])"
| "rx_ends Eps s i = [i]"
| "rx_ends (Seq a b) s i = remdups (concat (map (rx_ends b s) (rx_ends a s i)))"
| "rx_ends (Alt a b) s i = remdups (rx_ends a s i @ rx_ends b s i)"
| "rx_ends (Star a) s i = star_ends (length s) (rx_ends a s) i"
| "rx_ends WordBoundary s i = (if word_before s i \<noteq> word_after s i then [i] else [])"
| "rx_ends LineStart s i = (if i = 0 \<or> s ! (i - 1) = CHR 0x0A then [i] else [])"
| "rx_ends TextEnd s i = (if i = length s \<or> (Suc i = length s \<and> s ! i = CHR 0x0A) then [i] else [])"

definition rx_search :: "rx \<Rightarrow> string \<Rightarrow> bool" where
  "rx_search r s \<longleftrightarrow> list_ex (\<lambda>i. rx_ends r s i \<noteq> []) [0..<Suc (length s)]"

definition rx_match :: "rx \<Rightarrow> string \<Rightarrow> bool" where
  "rx_match r s \<longleftrightarrow> rx_ends r s 0 \<noteq> []"

abbreviation Lit :: "char \<Rightarrow> rx" where
  "Lit c \<equiv> Chr (\<lambda>x. x = c)"

definition Plus :: "rx \<Rightarrow> rx" where
  "Plus r = Seq r (Star r)"

definition Opt :: "rx \<Rightarrow> rx" where
  "Opt r = Alt r Eps"

fun Word_rx :: "string \<Rightarrow> rx" where
  "Word_rx [] = Eps"
| "Word_rx (c # cs) = Seq (Lit c) (Word_rx cs)"

fun Seqs :: "rx list \<Rightarrow> rx" where
  "Seqs [] = Eps"
| "Seqs (r # rs) = Seq r (Seqs rs)"

text \<open>The matcher against the usual meaning of a pattern.\<close>

inductive matches :: "string \<Rightarrow> rx \<Rightarrow> nat \<Rightarrow> nat \<Rightarrow> bool" for s where
  Chr: "i < length s \<Longrightarrow> P (s ! i) \<Longrightarrow> matches s (Chr P) i (i + 1)"
| Eps: "matches s Eps i i"
| Seq: "matches s a i j \<Longrightarrow> matches s b j k \<Longrightarrow> matches s (Seq a b) i k"
| AltL: "matches s a i j \<Longrightarrow> matches s (Alt a b) i j"
| AltR: "matches s b i j \<Longrightarrow> matches s (Alt a b) i j"
| Star0: "matches s (Star a) i i"
| StarS: "matches s a i j \<Longrightarrow> matches s (Star a) j k \<Longrightarrow> matches s (Star a) i k"
| WordBoundary: "word_before s i \<noteq> word_after s i \<Longrightarrow> matches s WordBoundary i i"
| LineStart: "i = 0 \<or> s ! (i - 1) = CHR 0x0A \<Longrightarrow> matches s LineStart i i"
| TextEnd: "i = length s \<or> (Suc i = length s \<and> s ! i = CHR 0x0A) \<Longrightarrow> matches s TextEnd i i"

inductive_simps matches_simps [simp]:
  "matches s (Chr P) i m" "matches s Eps i m" "matches s (Seq a b) i m" "matches s (Alt a b) i m"
  "matches s WordBoundary i m" "matches s LineStart i m" "matches s TextEnd i m"

lemma matches_mono: "matches s r i j \<Longrightarrow> i \<le> j \<and> (i \<le> length s \<longrightarrow> j \<le> length s)"
  by (induction rule: matches.induct) auto

lemma star_ends_sound:
  assumes "\<And>i j. j \<in> set (step i) \<Longrightarrow> matches s a i j"
  shows "k \<in> set (star_ends n step i) \<Longrightarrow> matches s (Star a) i k"
proof (induction n arbitrary: i)
  case 0
  then show ?case by (simp add: matches.Star0)
next
  case (Suc n)
  then have "k = i \<or> (\<exists>j\<in>set (step i). k \<in> set (star_ends n step j))"
    by (auto simp del: remdups.simps)
  then show ?case using assms Suc.IH matches.Star0 matches.StarS by blast
qed

lemma star_ends_complete:
  assumes "\<And>i j. matches s a i j \<Longrightarrow> i \<le> length s \<Longrightarrow> j \<in> set (step i)"
  shows "matches s (Star a) i k \<Longrightarrow> i \<le> length s \<Longrightarrow> length s - i \<le> n \<Longrightarrow> k \<in> set (star_ends n step i)"
proof (induction "Star a" i k arbitrary: n rule: matches.induct)
  case (Star0 i)
  then show ?case by (cases n) (auto simp del: remdups.simps)
next
  case (StarS i j k)
  have j: "i \<le> j" "j \<le> length s"
    using matches_mono[OF StarS.hyps(1)] StarS.prems by auto
  show ?case
  proof (cases "i = j")
    case True
    with StarS show ?thesis by auto
  next
    case False
    with j StarS.prems obtain m where m: "n = Suc m" by (cases n) auto
    have "k \<in> set (star_ends m step j)"
      by (rule StarS.hyps(4)) (use j False StarS.prems m in auto)
    moreover have "j \<in> set (step i)"
      by (rule assms) (use StarS in auto)
    ultimately show ?thesis using False j m by (auto simp del: remdups.simps)
  qed
qed

lemma rx_ends_matches:
  "i \<le> length s \<Longrightarrow> j \<in> set (rx_ends r s i) \<longleftrightarrow> matches s r i j"
proof (induction r arbitrary: i j)
  case (Seq a b)
  have "j \<in> set (rx_ends (Seq a b) s i) \<longleftrightarrow> (\<exists>x. matches s a i x \<and> j \<in> set (rx_ends b s x))"
    using Seq.IH(1) Seq.prems by (auto simp del: remdups.simps)
  also have "\<dots> \<longleftrightarrow> (\<exists>x. matches s a i x \<and> matches s b x j)"
    using Seq.IH(2) Seq.prems matches_mono by blast
  finally show ?case by simp
next
  case (Star a)
  let ?step = "\<lambda>i. if i \<le> length s then rx_ends a s i else []"
  have "star_ends n (rx_ends a s) i = star_ends n ?step i" if "i \<le> length s" for n
    using that
  proof (induction n arbitrary: i)
    case (Suc n)
    have "map (star_ends n (rx_ends a s)) (filter ((<) i) (rx_ends a s i)) =
        map (star_ends n ?step) (filter ((<) i) (rx_ends a s i))"
      using Suc.prems by (auto intro!: Suc.IH dest: Star.IH[THEN iffD1] matches_mono)
    with Suc.prems show ?case by (simp only: star_ends.simps if_True)
  qed simp
  moreover have "j \<in> set (star_ends (length s) ?step i) \<longleftrightarrow> matches s (Star a) i j"
  proof
    assume "j \<in> set (star_ends (length s) ?step i)"
    then show "matches s (Star a) i j"
      by (rule star_ends_sound[rotated]) (auto dest: Star.IH[THEN iffD1, rotated] split: if_splits)
  next
    assume "matches s (Star a) i j"
    then show "j \<in> set (star_ends (length s) ?step i)"
      using Star.prems by (intro star_ends_complete[of s a ?step]) (auto simp: Star.IH)
  qed
  ultimately show ?case using Star.prems by simp
qed auto

text \<open>\<open>re.search\<close> finds a match exactly when some part of the text matches.\<close>

lemma rx_search_matches: "rx_search r s \<longleftrightarrow> (\<exists>i j. i \<le> length s \<and> matches s r i j)"
proof -
  have "rx_ends r s i \<noteq> [] \<longleftrightarrow> (\<exists>j. matches s r i j)" if "i \<le> length s" for i
    using rx_ends_matches[OF that, of _ r] by (metis last_in_set list.set_cases neq_Nil_conv)
  then show ?thesis
    by (auto simp: rx_search_def list_ex_iff less_Suc_eq_le simp del: upt_Suc)
qed

text \<open>Words and repetitions of one class.\<close>

lemma matches_Word:
  "i \<le> length s \<Longrightarrow> matches s (Word_rx w) i m \<longleftrightarrow> m = i + length w \<and> prefix w (drop i s)"
proof (induction w arbitrary: i)
  case (Cons c w)
  show ?case
  proof (cases "i < length s")
    case True
    then have "drop i s = s ! i # drop (Suc i) s" by (simp add: Cons_nth_drop_Suc)
    with True Cons.IH[of "Suc i"] show ?thesis by auto
  qed (use Cons.prems in auto)
qed auto

lemma matches_Star_Chr:
  assumes "i \<le> length s"
  shows "matches s (Star (Chr P)) i m \<longleftrightarrow> i \<le> m \<and> m \<le> length s \<and> (\<forall>k. i \<le> k \<and> k < m \<longrightarrow> P (s ! k))"
proof
  assume "matches s (Star (Chr P)) i m"
  then show "i \<le> m \<and> m \<le> length s \<and> (\<forall>k. i \<le> k \<and> k < m \<longrightarrow> P (s ! k))"
    using assms
  proof (induction "Star (Chr P)" i m rule: matches.induct)
    case (StarS i j k)
    then have "j = i + 1" "i < length s" "P (s ! i)" by auto
    with StarS show ?case by (auto simp: le_less[of i])
  qed auto
next
  assume "i \<le> m \<and> m \<le> length s \<and> (\<forall>k. i \<le> k \<and> k < m \<longrightarrow> P (s ! k))"
  then show "matches s (Star (Chr P)) i m"
  proof (induction "m - i" arbitrary: i)
    case 0
    then show ?case by (auto intro: matches.Star0)
  next
    case (Suc d)
    then have "matches s (Chr P) i (i + 1)" by auto
    moreover have "matches s (Star (Chr P)) (i + 1) m" using Suc by auto
    ultimately show ?case by (rule matches.StarS)
  qed
qed

text \<open>Without \<open>..\<close> the directories made lie on the way.\<close>

lemma fs_mkdirs_along:
  "''..'' \<notin> set cs \<Longrightarrow> fs_get (snd (fs_mkdirs f cur cs)) q = Some FDir \<Longrightarrow>
   fs_get f q = Some FDir \<or> prefix q (cur @ cs)"
proof (induction f cur cs rule: fs_mkdirs.induct)
  case (2 f cur c cs)
  then show ?case
    by (fastforce simp: Let_def split: option.splits fs_entry.splits if_splits)
qed simp

end
