(* ===== verification/Validation_Gate.thy ===== *)
theory Validation_Gate
  imports Workspace
begin

text \<open>
  The checks of generated projects in \<open>generators/validation_gate.py\<close>: required files, the shape of
  HTML, CSS, JavaScript, TypeScript, requirements, package and deployment files, and an import of the
  backend in a process of its own. What the code calls is an argument: Python's parser, \<open>json.loads\<close>,
  the process, and the order in which a set is iterated. Every check yields its error messages.
\<close>

record validation_result =
  vr_ok :: bool
  vr_errors :: "string list"

definition validation_summary :: "validation_result \<Rightarrow> string" where
  "validation_summary r = join ''; '' (vr_errors r)"

text \<open>\<open>ast.parse\<close>: nothing, a syntax error with its line and message, or the text of another error;
  \<open>json.loads\<close> likewise. The process: its standard output, a timeout or an error.\<close>

datatype parse_error = SyntaxErrorAt int string | OtherParseError string

datatype run_outcome = RunStdout string | RunTimeout | RunRaised

record 's gate_env =
  ge_parse :: "string \<Rightarrow> parse_error option"
  ge_json :: "string \<Rightarrow> parse_error + pyval"
  ge_run :: "string \<Rightarrow> fs \<Rightarrow> 's \<Rightarrow> run_outcome \<times> fs \<times> 's"
  ge_order :: "string list \<Rightarrow> string list"

section \<open>Patterns\<close>

definition space_rx :: rx where
  "space_rx = Chr is_space"

definition word_rx :: rx where
  "word_rx = Chr is_word"

text \<open>\<open><tag[^>]*>\<close>, searched in the lower-cased text (\<open>re.IGNORECASE\<close>).\<close>

definition tag_rx :: "string \<Rightarrow> rx" where
  "tag_rx tag = Seqs [Word_rx (''<'' @ tag), Star (Chr (\<lambda>c. c \<noteq> CHR ''>'')), Lit CHR ''>'']"

definition selector_char :: "char \<Rightarrow> bool" where
  "selector_char c \<longleftrightarrow> is_word c \<or> c \<in> set ''-#.[]:,'' \<or> is_space c"

definition selector_rx :: rx where
  "selector_rx = Seqs [Plus (Chr selector_char), Star space_rx, Lit CHR ''{'']"

definition function_rx :: rx where
  "function_rx = Seqs [WordBoundary, Word_rx ''function'', Plus space_rx, Plus word_rx, Star space_rx, Lit CHR ''('']"

definition arrow_rx :: "string \<Rightarrow> rx" where
  "arrow_rx keyword = Seqs [WordBoundary, Word_rx keyword, Plus space_rx, Plus word_rx, Star space_rx,
     Lit CHR ''='', Star space_rx, Lit CHR ''('', Star (Chr (\<lambda>c. c \<noteq> CHR '')'')), Lit CHR '')'', Star space_rx,
     Word_rx ''=>'']"

definition var_function_rx :: rx where
  "var_function_rx = Seqs [WordBoundary, Word_rx ''var'', Plus space_rx, Plus word_rx, Star space_rx,
     Lit CHR ''='', Star space_rx, Word_rx ''function'']"

definition member_rx :: "string \<Rightarrow> rx" where
  "member_rx object = Seqs [WordBoundary, Word_rx object, Lit CHR ''.'']"

definition requirement_rx :: rx where
  "requirement_rx = Seqs [Plus (Chr (\<lambda>c. is_word c \<or> c \<in> set ''-[]'')),
     Opt (Seq (Plus (Chr (\<lambda>c. c \<in> set ''<>=!''))) (Plus (Chr (\<lambda>c. is_word c \<or> c \<in> set ''.-'')))), TextEnd]"

definition from_rx :: rx where
  "from_rx = Seqs [LineStart, Word_rx ''FROM'', Plus space_rx, Plus (Chr (\<lambda>c. \<not> is_space c))]"

section \<open>Checks of single files\<close>

definition exists_in :: "fs \<Rightarrow> fs_path \<Rightarrow> string \<Rightarrow> bool" where
  "exists_in f ws relative = fs_exists f (join_path ws relative)"

definition validate_required_files :: "fs \<Rightarrow> fs_path \<Rightarrow> string list \<Rightarrow> string list" where
  "validate_required_files f ws files =
     map (\<lambda>relative. ''missing required file: '' @ relative) (filter (\<lambda>relative. \<not> exists_in f ws relative) files)"

definition validate_backend_structure :: "fs \<Rightarrow> fs_path \<Rightarrow> string list" where
  "validate_backend_structure f ws =
     (if fs_is_dir f (join_path ws ''backend'') then [] else [''missing required directory: backend/''])"

definition validate_fullstack_structure :: "fs \<Rightarrow> fs_path \<Rightarrow> string list" where
  "validate_fullstack_structure f ws =
     (if fs_is_dir f (join_path ws ''frontend'') then [] else [''missing required directory: frontend/'']) @
     (if fs_is_dir f (join_path ws ''backend'') then [] else [''missing required directory: backend/''])"

text \<open>The frame of the checks: nothing for a missing file, a message when it cannot be read.\<close>

definition checked_text :: "fs \<Rightarrow> fs_path \<Rightarrow> string \<Rightarrow> (string \<Rightarrow> string list) \<Rightarrow> string list" where
  "checked_text f p label checks =
     (if \<not> fs_exists f p then []
      else case fs_read f p of
        Inl e \<Rightarrow> [label @ exn_text e]
      | Inr text \<Rightarrow> checks text)"

definition python_errors :: "(string \<Rightarrow> parse_error option) \<Rightarrow> string \<Rightarrow> string \<Rightarrow> string list" where
  "python_errors parse name text =
     (case parse text of
        None \<Rightarrow> []
      | Some (SyntaxErrorAt line m) \<Rightarrow> [name @ '' syntax error at line '' @ show_int line @ '': '' @ m]
      | Some (OtherParseError m) \<Rightarrow> [name @ '' parsing error: '' @ m])"

definition validate_python_syntax :: "(string \<Rightarrow> parse_error option) \<Rightarrow> fs \<Rightarrow> fs_path \<Rightarrow> string list" where
  "validate_python_syntax parse f p =
     checked_text f p (last p @ '' parsing error: '') (python_errors parse (last p))"

text \<open>\<open>re.findall\<close> of \<open><(\w+)[^>]*>\<close> and \<open></(\w+)>\<close>.\<close>

function open_tags :: "string \<Rightarrow> string list" where
  "open_tags [] = []"
| "open_tags (c # s) =
     (if c = CHR ''<'' then
        let tag = takeWhile is_word s; after = dropWhile (\<lambda>x. x \<noteq> CHR ''>'') (dropWhile is_word s) in
        if tag \<noteq> [] \<and> after \<noteq> [] then tag # open_tags (tl after) else open_tags s
      else open_tags s)"
  by pat_completeness auto

termination
  by (relation "measure length") (auto simp: less_Suc_eq_le intro!: diff_le_self[THEN le_trans] length_dropWhile_le[THEN le_trans])

function close_tags :: "string \<Rightarrow> string list" where
  "close_tags [] = []"
| "close_tags (c # s) =
     (if c = CHR ''<'' \<and> prefix ''/'' s then
        let tag = takeWhile is_word (tl s); after = dropWhile is_word (tl s) in
        if tag \<noteq> [] \<and> prefix ''>'' after then tag # close_tags (tl after) else close_tags s
      else close_tags s)"
  by pat_completeness auto

termination
  by (relation "measure length") (auto simp: less_Suc_eq_le intro!: diff_le_self[THEN le_trans] length_dropWhile_le[THEN le_trans])

definition void_tags :: "string list" where
  "void_tags = [''meta'', ''link'', ''img'', ''br'', ''hr'', ''input'', ''area'', ''base'', ''col'',
     ''embed'', ''param'', ''source'', ''track'', ''wbr'']"

definition opened_tags :: "string \<Rightarrow> string list" where
  "opened_tags text = filter (\<lambda>t. t \<notin> set void_tags) (map lower (open_tags text))"

definition closed_tags :: "string \<Rightarrow> string list" where
  "closed_tags text = map lower (close_tags text)"

definition mismatch_error :: "string \<Rightarrow> string \<Rightarrow> string \<Rightarrow> string list" where
  "mismatch_error name text tag =
     (let opened = count_list (opened_tags text) tag; closed = count_list (closed_tags text) tag in
      if opened \<noteq> closed
      then [name @ '': tag mismatch for <'' @ tag @ ''> (opened: '' @ show_nat opened @ '', closed: '' @ show_nat closed @ '')'']
      else [])"

definition html_errors :: "(string list \<Rightarrow> string list) \<Rightarrow> string \<Rightarrow> string \<Rightarrow> string list" where
  "html_errors order name text =
     (if rx_search (tag_rx ''html'') (lower text) then [] else [name @ '': missing <html> tag'']) @
     (if rx_search (tag_rx ''body'') (lower text) then [] else [name @ '': missing <body> tag'']) @
     concat (map (mismatch_error name text) (order (remdups (opened_tags text @ closed_tags text))))"

definition validate_html_syntax :: "(string list \<Rightarrow> string list) \<Rightarrow> fs \<Rightarrow> fs_path \<Rightarrow> string list" where
  "validate_html_syntax order f p =
     checked_text f p (last p @ '' reading error: '') (html_errors order (last p))"

definition css_errors :: "string \<Rightarrow> string \<Rightarrow> string list" where
  "css_errors name text =
     (let opened = count_list text CHR ''{''; closed = count_list text CHR ''}'' in
      (if opened \<noteq> closed
       then [name @ '': unbalanced braces ({ : '' @ show_nat opened @ '', } : '' @ show_nat closed @ '')''] else []) @
      (if opened > 0 \<and> \<not> rx_search selector_rx text
       then [name @ '': no valid CSS selectors found''] else []))"

definition validate_css_syntax :: "fs \<Rightarrow> fs_path \<Rightarrow> string list" where
  "validate_css_syntax f p = checked_text f p (last p @ '' reading error: '') (css_errors (last p))"

definition has_function :: "string \<Rightarrow> bool" where
  "has_function text \<longleftrightarrow>
     rx_search function_rx text \<or> rx_search (arrow_rx ''const'') text \<or>
     rx_search (arrow_rx ''let'') text \<or> rx_search var_function_rx text"

definition has_statements :: "string \<Rightarrow> bool" where
  "has_statements text \<longleftrightarrow>
     rx_search (member_rx ''console'') text \<or> rx_search (member_rx ''document'') text \<or>
     rx_search (member_rx ''window'') text"

definition unbalanced :: "char \<Rightarrow> char \<Rightarrow> string \<Rightarrow> bool" where
  "unbalanced a b text \<longleftrightarrow> count_list text a \<noteq> count_list text b"

definition javascript_errors :: "string \<Rightarrow> string \<Rightarrow> string list" where
  "javascript_errors name text =
     (if unbalanced CHR ''{'' CHR ''}'' text then [name @ '': unbalanced curly braces''] else []) @
     (if unbalanced CHR ''['' CHR '']'' text then [name @ '': unbalanced square brackets''] else []) @
     (if unbalanced CHR ''('' CHR '')'' text then [name @ '': unbalanced parentheses''] else []) @
     (if length (strip text) > 50 \<and> \<not> has_function text \<and> \<not> has_statements text
      then [name @ '': no recognizable JavaScript code found''] else [])"

definition validate_javascript_syntax :: "fs \<Rightarrow> fs_path \<Rightarrow> string list" where
  "validate_javascript_syntax f p =
     checked_text f p (last p @ '' reading error: '') (javascript_errors (last p))"

definition requirement_lines :: "string \<Rightarrow> string list" where
  "requirement_lines text =
     filter (\<lambda>l. l \<noteq> [] \<and> \<not> prefix ''#'' l) (map strip (split_char CHR 0x0A text))"

text \<open>\<open>s.split(sep)[0]\<close>.\<close>

definition before :: "string \<Rightarrow> string \<Rightarrow> string" where
  "before sep s = (case find_sub sep s of None \<Rightarrow> s | Some i \<Rightarrow> take i s)"

definition package_of :: "string \<Rightarrow> string" where
  "package_of line = lower (before ''>'' (before ''<'' (before ''<='' (before ''>='' (before ''=='' line)))))"

definition line_errors :: "nat \<times> string \<Rightarrow> string list" where
  "line_errors nl =
     (if rx_match requirement_rx (snd nl) then []
      else [''requirements.txt line '' @ show_nat (fst nl) @ '': invalid format '' @ quote_text (snd nl)])"

definition requirements_errors :: "string \<Rightarrow> string list" where
  "requirements_errors text =
     (let lines = requirement_lines text in
      if lines = [] then [''requirements.txt is empty'']
      else concat (map line_errors (enumerate 1 lines)) @
        (if list_ex (\<lambda>pkg. pkg \<in> set (map package_of lines)) [''flask'', ''fastapi''] then []
         else [''requirements.txt: missing web framework (Flask or FastAPI)'']))"

definition validate_requirements_txt :: "fs \<Rightarrow> fs_path \<Rightarrow> string list" where
  "validate_requirements_txt f p = checked_text f p ''requirements.txt reading error: '' requirements_errors"

text \<open>\<open>k in data\<close> and \<open>data[k]\<close> for a text \<open>k\<close>, on whatever \<open>json.loads\<close> gave.\<close>

fun key_in :: "string \<Rightarrow> pyval \<Rightarrow> bool result" where
  "key_in k (PDict d) = Inr (has_key d k)"
| "key_in k (PList xs) = Inr (PStr k \<in> set xs)"
| "key_in k (PStr s) = Inr (contains k s)"
| "key_in k v = Inl (TypeError (''argument of type '' @ quote_text (type_name v) @ '' is not iterable''))"

fun item_at :: "string \<Rightarrow> pyval \<Rightarrow> pyval result" where
  "item_at k (PDict d) = (if has_key d k then Inr (dget d k) else Inl (NamedError ''KeyError'' (quote_text k)))"
| "item_at k (PList xs) = Inl (TypeError ''list indices must be integers or slices, not str'')"
| "item_at k (PStr s) = Inl (TypeError (''string indices must be integers, not '' @ quote_text ''str''))"
| "item_at k v = Inl (TypeError (quote_text (type_name v) @ '' object is not subscriptable''))"

fun is_dict :: "pyval \<Rightarrow> bool" where
  "is_dict (PDict d) = True"
| "is_dict v = False"

definition field_errors :: "pyval \<Rightarrow> string \<Rightarrow> string list result" where
  "field_errors data k =
     (case key_in k data of
        Inl e \<Rightarrow> Inl e
      | Inr True \<Rightarrow> Inr []
      | Inr False \<Rightarrow> Inr [''package.json: missing '' @ quote_text k @ '' field''])"

definition dependency_errors :: "pyval \<Rightarrow> string \<Rightarrow> string list result" where
  "dependency_errors data k =
     (case key_in k data of
        Inl e \<Rightarrow> Inl e
      | Inr False \<Rightarrow> Inr []
      | Inr True \<Rightarrow>
          (case item_at k data of
             Inl e \<Rightarrow> Inl e
           | Inr v \<Rightarrow> Inr (if is_dict v then [] else [''package.json: '' @ quote_text k @ '' must be an object''])))"

text \<open>The checks in turn; an exception ends them and is reported after what was found before.\<close>

fun until_error :: "string \<Rightarrow> string list result list \<Rightarrow> string list" where
  "until_error label [] = []"
| "until_error label (Inl e # checks) = [label @ exn_text e]"
| "until_error label (Inr errors # checks) = errors @ until_error label checks"

definition package_errors :: "(string \<Rightarrow> parse_error + pyval) \<Rightarrow> string \<Rightarrow> string list" where
  "package_errors json text =
     (case json text of
        Inl (SyntaxErrorAt line m) \<Rightarrow> [''package.json: invalid JSON at line '' @ show_int line @ '': '' @ m]
      | Inl (OtherParseError m) \<Rightarrow> [''package.json reading error: '' @ m]
      | Inr data \<Rightarrow> until_error ''package.json reading error: ''
          [field_errors data ''name'', field_errors data ''version'',
           dependency_errors data ''dependencies'', dependency_errors data ''devDependencies''])"

definition validate_package_json :: "(string \<Rightarrow> parse_error + pyval) \<Rightarrow> fs \<Rightarrow> fs_path \<Rightarrow> string list" where
  "validate_package_json json f p = checked_text f p ''package.json reading error: '' (package_errors json)"

definition lacks :: "string \<Rightarrow> string list \<Rightarrow> bool" where
  "lacks text words \<longleftrightarrow> list_all (\<lambda>w. \<not> contains w text) words"

definition source_errors :: "string \<Rightarrow> string list" where
  "source_errors text =
     (if lacks text [''Flask('', ''FastAPI('']
      then [''backend/app.py missing Flask/FastAPI application bootstrap''] else []) @
     (if lacks text [''@app.route'', ''@app.get'', ''@app.post'']
      then [''backend/app.py missing API route definitions''] else []) @
     (if lacks text [''sqlite3'', ''SQLAlchemy'']
      then [''backend/app.py missing database initialization logic''] else [])"

text \<open>The only check that reads outside a \<open>try\<close>.\<close>

definition validate_backend_sources :: "fs \<Rightarrow> fs_path \<Rightarrow> string list result" where
  "validate_backend_sources f p =
     (if \<not> fs_exists f p then Inr []
      else case fs_read f p of Inl e \<Rightarrow> Inl e | Inr text \<Rightarrow> Inr (source_errors text))"

definition runtime_dependencies :: "string list" where
  "runtime_dependencies = [''flask'', ''flask_cors'', ''flask_sqlalchemy'', ''fastapi'', ''uvicorn'',
     ''sqlalchemy'', ''pydantic'', ''aiosqlite'']"

definition is_environment_dependency_error :: "string \<Rightarrow> bool" where
  "is_environment_dependency_error error_message =
     (let normalized = lower (strip error_message) in
      if \<not> contains ''no module named'' normalized then False
      else list_ex (\<lambda>dep. contains dep normalized) runtime_dependencies)"

definition newline :: string where
  "newline = [CHR 0x0A]"

definition check_code :: "fs_path \<Rightarrow> string" where
  "check_code backend_dir = join newline
     ['''',
      ''import sys'',
      ''sys.path.insert(0, '' @ quote_text (show_path backend_dir) @ '')'',
      ''try:'',
      ''    import app'',
      ''    print(\"OK\")'',
      ''except ImportError as e:'',
      ''    print(f\"IMPORT_ERROR: {e}\")'',
      ''except Exception as e:'',
      ''    # Some exceptions during import are acceptable (e.g., missing database file)'',
      ''    # Only report if it'' @ [char_of (39 :: nat)] @ ''s a critical error'',
      ''    if \"No module named\" in str(e) or \"cannot import name\" in str(e):'',
      ''        print(f\"ERROR: {e}\")'',
      ''    else:'',
      ''        print(\"OK\")'',
      '''']"

text \<open>\<open>s.split(sep)[1]\<close>; \<open>None\<close> for the \<open>IndexError\<close>.\<close>

definition second_piece :: "string \<Rightarrow> string \<Rightarrow> string option" where
  "second_piece sep s =
     (case find_sub sep s of None \<Rightarrow> None | Some i \<Rightarrow> Some (before sep (drop (i + length sep) s)))"

definition reported :: "string \<Rightarrow> string \<Rightarrow> string \<Rightarrow> string list" where
  "reported label sep stdout =
     (case second_piece sep stdout of
        None \<Rightarrow> []
      | Some piece \<Rightarrow>
          if is_environment_dependency_error (strip piece) then [] else [label @ strip piece])"

fun runtime_errors :: "run_outcome \<Rightarrow> string list" where
  "runtime_errors (RunStdout stdout) =
     (if contains ''IMPORT_ERROR'' stdout
      then reported ''backend runtime validation: import error - '' ''IMPORT_ERROR:'' stdout
      else if contains ''ERROR'' stdout \<and> \<not> contains ''OK'' stdout
      then reported ''backend runtime validation: '' ''ERROR:'' stdout
      else [])"
| "runtime_errors RunTimeout = [''backend runtime validation: timeout (application may have blocking code)'']"
| "runtime_errors RunRaised = []"

definition validate_backend_runtime ::
  "(string \<Rightarrow> fs \<Rightarrow> 's \<Rightarrow> run_outcome \<times> fs \<times> 's) \<Rightarrow> fs \<Rightarrow> fs_path \<Rightarrow> 's \<Rightarrow> string list \<times> fs \<times> 's" where
  "validate_backend_runtime run f ws s =
     (let p = join_path ws ''backend/app.py'' in
      if \<not> fs_exists f p then ([], f, s)
      else case fs_read f p of
        Inl e \<Rightarrow> ([], f, s)
      | Inr text \<Rightarrow>
          (let (out, f', s') = run (check_code (join_path ws ''backend'')) f s in (runtime_errors out, f', s')))"

definition missing_words :: "string \<Rightarrow> (string \<times> string) list \<Rightarrow> string list" where
  "missing_words text words = map snd (filter (\<lambda>(w, m). \<not> contains w text) words)"

definition validate_docker_compose :: "fs \<Rightarrow> fs_path \<Rightarrow> string list" where
  "validate_docker_compose f p = checked_text f p ''docker-compose.yml reading error: '' (\<lambda>text. missing_words text
     [(''services:'', ''docker-compose.yml: missing '' @ quote_text ''services'' @ '' key''),
      (''backend:'', ''docker-compose.yml: missing '' @ quote_text ''backend'' @ '' service''),
      (''frontend:'', ''docker-compose.yml: missing '' @ quote_text ''frontend'' @ '' service'')])"

definition dockerfile_errors :: "string \<Rightarrow> string \<Rightarrow> string list" where
  "dockerfile_errors name text =
     (if rx_search from_rx text then [] else [name @ '': missing FROM instruction'']) @
     (if contains ''COPY'' text then [] else [name @ '': missing COPY instruction'']) @
     (if lacks text [''CMD'', ''ENTRYPOINT''] then [name @ '': missing CMD/ENTRYPOINT instruction''] else [])"

definition validate_dockerfile :: "fs \<Rightarrow> fs_path \<Rightarrow> string list" where
  "validate_dockerfile f p = checked_text f p (last p @ '' reading error: '') (dockerfile_errors (last p))"

definition validate_nginx_conf :: "fs \<Rightarrow> fs_path \<Rightarrow> string list" where
  "validate_nginx_conf f p = checked_text f p ''nginx.conf reading error: '' (\<lambda>text. missing_words text
     [(''server'', ''nginx.conf: missing '' @ quote_text ''server'' @ '' block''),
      (''listen'', ''nginx.conf: missing '' @ quote_text ''listen'' @ '' directive''),
      (''location'', ''nginx.conf: missing '' @ quote_text ''location'' @ '' block'')])"

definition validate_typescript_syntax :: "string \<Rightarrow> string list" where
  "validate_typescript_syntax content =
     (if unbalanced CHR ''{'' CHR ''}'' content then [''TypeScript: unbalanced braces''] else []) @
     (if contains ''import '' content \<and> lacks content [''from '', ''import('']
      then [''TypeScript: import statement missing '' @ quote_text ''from'' @ '' clause''] else [])"

definition validate_react_component :: "string \<Rightarrow> string list" where
  "validate_react_component content = []"

definition typescript_file_errors :: "(string \<Rightarrow> string list) \<Rightarrow> fs \<Rightarrow> fs_path \<Rightarrow> fs_path \<Rightarrow> string list" where
  "typescript_file_errors checks f ws p =
     (case fs_get f p of
        Some (FText content) \<Rightarrow>
          (if contains ''node_modules'' (show_path p) then []
           else map (\<lambda>e. relative_path ws p @ '': '' @ e) (checks content))
      | _ \<Rightarrow> [])"

definition typescript_errors :: "fs \<Rightarrow> fs_path \<Rightarrow> string list" where
  "typescript_errors f ws =
     concat (map (typescript_file_errors validate_typescript_syntax f ws) (fs_rglob f ws ''.ts'')) @
     concat (map (typescript_file_errors (\<lambda>c. validate_typescript_syntax c @ validate_react_component c) f ws)
       (fs_rglob f ws ''.tsx''))"

section \<open>The gate\<close>

definition generated_target :: "pydict \<Rightarrow> string" where
  "generated_target task =
     lower (strip (py_str (py_or (py_or (dget task ''_generated_target'') (dget task ''target'')) (PStr []))))"

definition web_errors :: "'s gate_env \<Rightarrow> fs \<Rightarrow> fs_path \<Rightarrow> string list" where
  "web_errors env f ws =
     validate_required_files f ws [''index.html'', ''styles.css'', ''app.js'', ''README.generated.md''] @
     validate_html_syntax (ge_order env) f (join_path ws ''index.html'') @
     validate_css_syntax f (join_path ws ''styles.css'') @
     validate_javascript_syntax f (join_path ws ''app.js'')"

text \<open>The checks of the backend's Python files, from the syntax of \<open>app.py\<close> to the runtime check, as
  both the backend and the fullstack target make them.\<close>

definition python_project_errors ::
  "'s gate_env \<Rightarrow> fs \<Rightarrow> fs_path \<Rightarrow> 's \<Rightarrow> string list result \<times> fs \<times> 's" where
  "python_project_errors env f ws s =
     (let app = join_path ws ''backend/app.py'';
          syntax = validate_python_syntax (ge_parse env) f app @
                   validate_python_syntax (ge_parse env) f (join_path ws ''backend/models.py'') in
      case validate_backend_sources f app of
        Inl e \<Rightarrow> (Inl e, f, s)
      | Inr sources \<Rightarrow>
          (let requirements = validate_requirements_txt f (join_path ws ''requirements.txt'');
               (runtime, f', s') = validate_backend_runtime (ge_run env) f ws s
           in (Inr (syntax @ sources @ requirements @ runtime), f', s')))"

definition backend_errors ::
  "'s gate_env \<Rightarrow> fs \<Rightarrow> fs_path \<Rightarrow> 's \<Rightarrow> string list result \<times> fs \<times> 's" where
  "backend_errors env f ws s =
     (let first = validate_required_files f ws
                    [''backend/app.py'', ''backend/models.py'', ''requirements.txt'', ''README.generated.md''] @
                  validate_backend_structure f ws in
      case python_project_errors env f ws s of
        (Inl e, f', s') \<Rightarrow> (Inl e, f', s')
      | (Inr errors, f', s') \<Rightarrow> (Inr (first @ errors), f', s'))"

definition fullstack_files :: "string list" where
  "fullstack_files = [''frontend/index.html'', ''frontend/styles.css'', ''frontend/app.js'',
     ''backend/app.py'', ''backend/models.py'', ''requirements.txt'', ''README.generated.md'',
     ''docker-compose.yml'', ''Dockerfile.backend'', ''nginx.conf'', ''.env.example'']"

definition deployment_errors :: "'s gate_env \<Rightarrow> fs \<Rightarrow> fs_path \<Rightarrow> string list" where
  "deployment_errors env f ws =
     validate_docker_compose f (join_path ws ''docker-compose.yml'') @
     validate_dockerfile f (join_path ws ''Dockerfile.backend'') @
     validate_nginx_conf f (join_path ws ''nginx.conf'') @
     (if fs_exists f (join_path ws ''frontend/package.json'')
      then validate_package_json (ge_json env) f (join_path ws ''frontend/package.json'') else [])"

definition fullstack_errors ::
  "'s gate_env \<Rightarrow> fs \<Rightarrow> fs_path \<Rightarrow> 's \<Rightarrow> string list result \<times> fs \<times> 's" where
  "fullstack_errors env f ws s =
     (let first = validate_required_files f ws fullstack_files @
                  validate_fullstack_structure f ws @
                  validate_html_syntax (ge_order env) f (join_path ws ''frontend/index.html'') @
                  validate_css_syntax f (join_path ws ''frontend/styles.css'') @
                  validate_javascript_syntax f (join_path ws ''frontend/app.js'') in
      case python_project_errors env f ws s of
        (Inl e, f', s') \<Rightarrow> (Inl e, f', s')
      | (Inr errors, f', s') \<Rightarrow> (Inr (first @ errors @ deployment_errors env f' ws), f', s'))"

definition target_errors ::
  "'s gate_env \<Rightarrow> string \<Rightarrow> fs \<Rightarrow> fs_path \<Rightarrow> 's \<Rightarrow> string list result \<times> fs \<times> 's" where
  "target_errors env target f ws s =
     (if target = ''web'' then (Inr (web_errors env f ws), f, s)
      else if target = ''backend'' then backend_errors env f ws s
      else if target = ''fullstack'' then fullstack_errors env f ws s
      else (Inr [], f, s))"

definition validate ::
  "'s gate_env \<Rightarrow> fs_path \<Rightarrow> pydict \<Rightarrow> fs \<Rightarrow> 's \<Rightarrow> validation_result result \<times> fs \<times> 's" where
  "validate env ws task f s =
     (let target = generated_target task in
      if target = [] then (Inr \<lparr>vr_ok = True, vr_errors = []\<rparr>, f, s)
      else case target_errors env target f ws s of
        (Inl e, f', s') \<Rightarrow> (Inl e, f', s')
      | (Inr errs, f', s') \<Rightarrow>
          (let errors = errs @ typescript_errors f' ws
           in (Inr \<lparr>vr_ok = (errors = []), vr_errors = errors\<rparr>, f', s')))"

definition validation_error :: "string \<Rightarrow> py_exn" where
  "validation_error detail =
     NamedError ''ValidationError'' (if strip detail = [] then ''validation_error'' else strip detail)"

definition validate_or_raise ::
  "'s gate_env \<Rightarrow> fs_path \<Rightarrow> pydict \<Rightarrow> fs \<Rightarrow> 's \<Rightarrow> unit result \<times> fs \<times> 's" where
  "validate_or_raise env ws task f s =
     (case validate env ws task f s of
        (Inl e, f', s') \<Rightarrow> (Inl e, f', s')
      | (Inr r, f', s') \<Rightarrow>
          ((if vr_ok r then Inr ()
            else Inl (validation_error
              (if validation_summary r = [] then ''validation failed'' else validation_summary r))), f', s'))"

section \<open>What the patterns mean\<close>

lemma tag_rx_search:
  "rx_search (tag_rx tag) s \<longleftrightarrow> (\<exists>u v w. s = u @ (''<'' @ tag) @ v @ ''>'' @ w)"
proof
  assume "rx_search (tag_rx tag) s"
  then obtain i m where i: "i \<le> length s" and m: "matches s (tag_rx tag) i m"
    by (auto simp: rx_search_matches)
  from m obtain j k where
    j: "matches s (Word_rx (''<'' @ tag)) i j" and k: "matches s (Star (Chr (\<lambda>c. c \<noteq> CHR ''>''))) j k"
    and e: "k < length s" "s ! k = CHR ''>''"
    by (auto simp: tag_rx_def)
  from j i have jw: "j = i + length (''<'' @ tag)" "prefix (''<'' @ tag) (drop i s)"
    using matches_Word[OF i, of "''<'' @ tag" j] by auto
  with i have jl: "j \<le> length s" using prefix_length_le[OF jw(2)] by auto
  with k have "j \<le> k" using matches_Star_Chr by blast
  from jw obtain r where r: "drop i s = (''<'' @ tag) @ r" by (auto simp: prefix_def)
  then have "r = drop j s" using jw(1) by (metis append_eq_conv_conj drop_drop add.commute)
  then have "s = take i s @ (''<'' @ tag) @ drop j s" using r by (metis append_take_drop_id)
  moreover have "drop j s = take (k - j) (drop j s) @ s ! k # drop (Suc k) s"
    using \<open>j \<le> k\<close> e(1) by (metis append_take_drop_id drop_drop le_add_diff_inverse2 Cons_nth_drop_Suc)
  ultimately show "\<exists>u v w. s = u @ (''<'' @ tag) @ v @ ''>'' @ w"
    using e(2) by (metis append_Cons append_Nil)
next
  assume "\<exists>u v w. s = u @ (''<'' @ tag) @ v @ ''>'' @ w"
  then obtain u v w where s: "s = u @ (''<'' @ tag) @ v @ ''>'' @ w" by blast
  obtain v' w' where w': "v @ ''>'' @ w = v' @ CHR ''>'' # w'" "CHR ''>'' \<notin> set v'"
    using split_list_first[of "CHR ''>''" "v @ ''>'' @ w"] by auto
  then have s': "s = u @ (''<'' @ tag) @ v' @ CHR ''>'' # w'"
    using s by simp
  let ?i = "length u" let ?j = "length u + length (''<'' @ tag)" let ?k = "?j + length v'"
  have "matches s (Word_rx (''<'' @ tag)) ?i ?j" by (subst matches_Word) (auto simp: s')
  moreover have "matches s (Star (Chr (\<lambda>c. c \<noteq> CHR ''>''))) ?j ?k"
  proof (subst matches_Star_Chr)
    have "s ! k \<in> set v'" if "?j \<le> k" "k < ?k" for k
      using that s' by (auto simp: nth_append nth_Cons')
    then have "s ! k \<noteq> CHR ''>''" if "?j \<le> k" "k < ?k" for k
      using that w'(2) by metis
    moreover have "?k \<le> length s" using s' by simp
    ultimately show "?j \<le> ?k \<and> ?k \<le> length s \<and> (\<forall>k. ?j \<le> k \<and> k < ?k \<longrightarrow> s ! k \<noteq> CHR ''>'')"
      by simp
  qed (simp add: s')
  moreover have "matches s (Chr (\<lambda>x. x = CHR ''>'')) ?k (?k + 1)"
    by (auto simp: s' nth_append)
  ultimately have "matches s (tag_rx tag) ?i (?k + 1)"
    unfolding tag_rx_def Seqs.simps by (meson matches.Eps matches.Seq)
  then show "rx_search (tag_rx tag) s"
    unfolding rx_search_matches using s' by (metis length_append le_add1)
qed

lemma selector_rx_search:
  "rx_search selector_rx s \<longleftrightarrow> (\<exists>u c v. s = u @ c # CHR ''{'' # v \<and> selector_char c)"
proof
  assume "rx_search selector_rx s"
  then obtain i m where "i \<le> length s" "matches s selector_rx i m"
    by (auto simp: rx_search_matches)
  then obtain j k where i: "i < length s" "selector_char (s ! i)"
    and j: "matches s (Star (Chr selector_char)) (i + 1) j" and k: "matches s (Star (Chr is_space)) j k"
    and e: "k < length s" "s ! k = CHR ''{''"
    by (auto simp: selector_rx_def Plus_def space_rx_def)
  have j': "i + 1 \<le> j" "j \<le> length s" "\<forall>l. i + 1 \<le> l \<and> l < j \<longrightarrow> selector_char (s ! l)"
    using j i(1) matches_Star_Chr[of "i + 1" s selector_char j] by auto
  have k': "j \<le> k" "\<forall>l. j \<le> l \<and> l < k \<longrightarrow> is_space (s ! l)"
    using k j'(2) matches_Star_Chr[of j s is_space k] by auto
  have "selector_char (s ! (k - 1))"
  proof (cases "j = k")
    case True
    with i j' show ?thesis by (cases "i + 1 = k") auto
  next
    case False
    with k' have "is_space (s ! (k - 1))" by auto
    then show ?thesis by (simp add: selector_char_def)
  qed
  moreover have "s = take (k - 1) s @ s ! (k - 1) # CHR ''{'' # drop (k + 1) s"
    using e j' k' by (metis Cons_nth_drop_Suc Suc_diff_1 Suc_eq_plus1 add_gr_0 append_take_drop_id
      diff_less less_le_trans less_numeral_extra(1) less_trans)
  ultimately show "\<exists>u c v. s = u @ c # CHR ''{'' # v \<and> selector_char c" by blast
next
  assume "\<exists>u c v. s = u @ c # CHR ''{'' # v \<and> selector_char c"
  then obtain u c v where s: "s = u @ c # CHR ''{'' # v" "selector_char c" by blast
  let ?i = "length u"
  have "matches s (Plus (Chr selector_char)) ?i (?i + 1)"
    unfolding Plus_def by (rule matches.Seq[OF _ matches.Star0]) (auto simp: s)
  moreover have "matches s (Star space_rx) (?i + 1) (?i + 1)" by (rule matches.Star0)
  moreover have "matches s (Chr (\<lambda>x. x = CHR ''{'')) (?i + 1) (?i + 2)"
    by (auto simp: s nth_append)
  ultimately have "matches s selector_rx ?i (?i + 2)"
    unfolding selector_rx_def Seqs.simps by (meson matches.Eps matches.Seq)
  then show "rx_search selector_rx s"
    unfolding rx_search_matches using s by (metis length_append le_add1)
qed

section \<open>What the gate promises for a web project\<close>

definition file_passes :: "fs \<Rightarrow> fs_path \<Rightarrow> (string \<Rightarrow> bool) \<Rightarrow> bool" where
  "file_passes f p P \<longleftrightarrow>
     (case fs_get f p of None \<Rightarrow> True | Some FDir \<Rightarrow> False | Some (FText t) \<Rightarrow> P t)"

definition html_fine :: "string \<Rightarrow> bool" where
  "html_fine t \<longleftrightarrow>
     (\<exists>u v w. lower t = u @ ''<html'' @ v @ ''>'' @ w) \<and> (\<exists>u v w. lower t = u @ ''<body'' @ v @ ''>'' @ w) \<and>
     (\<forall>tag. count_list (opened_tags t) tag = count_list (closed_tags t) tag)"

definition css_fine :: "string \<Rightarrow> bool" where
  "css_fine t \<longleftrightarrow> count_list t CHR ''{'' = count_list t CHR ''}'' \<and>
     (CHR ''{'' \<in> set t \<longrightarrow> (\<exists>u c v. t = u @ c # CHR ''{'' # v \<and> selector_char c))"

definition javascript_fine :: "string \<Rightarrow> bool" where
  "javascript_fine t \<longleftrightarrow>
     count_list t CHR ''{'' = count_list t CHR ''}'' \<and> count_list t CHR ''['' = count_list t CHR '']'' \<and>
     count_list t CHR ''('' = count_list t CHR '')'' \<and> (50 < length (strip t) \<longrightarrow> has_function t \<or> has_statements t)"

definition typescript_fine :: "string \<Rightarrow> bool" where
  "typescript_fine t \<longleftrightarrow> count_list t CHR ''{'' = count_list t CHR ''}'' \<and>
     (contains ''import '' t \<longrightarrow> contains ''from '' t \<or> contains ''import('' t)"

definition web_project :: "fs \<Rightarrow> fs_path \<Rightarrow> bool" where
  "web_project f ws \<longleftrightarrow>
     (\<forall>n\<in>{''index.html'', ''styles.css'', ''app.js'', ''README.generated.md''}. fs_exists f (ws @ [n])) \<and>
     file_passes f (ws @ [''index.html'']) html_fine \<and>
     file_passes f (ws @ [''styles.css'']) css_fine \<and>
     file_passes f (ws @ [''app.js'']) javascript_fine \<and>
     (\<forall>p t. strict_prefix ws p \<and> (suffix ''.ts'' (last p) \<or> suffix ''.tsx'' (last p)) \<and>
        \<not> contains ''node_modules'' (show_path p) \<and> fs_get f p = Some (FText t) \<longrightarrow> typescript_fine t)"

lemma checked_text_Nil: "checked_text f p label checks = [] \<longleftrightarrow> file_passes f p (\<lambda>t. checks t = [])"
  by (auto simp: checked_text_def file_passes_def fs_exists_def fs_read_def split: option.splits fs_entry.splits)

lemma mismatch_error_Nil:
  "mismatch_error name t tag = [] \<longleftrightarrow> count_list (opened_tags t) tag = count_list (closed_tags t) tag"
  by (simp add: mismatch_error_def Let_def)

lemma html_errors_Nil:
  assumes "\<forall>xs. set (order xs) = set xs"
  shows "html_errors order name t = [] \<longleftrightarrow> html_fine t"
proof -
  have "(\<forall>tag\<in>set (opened_tags t) \<union> set (closed_tags t). mismatch_error name t tag = []) \<longleftrightarrow>
      (\<forall>tag. count_list (opened_tags t) tag = count_list (closed_tags t) tag)"
    unfolding mismatch_error_Nil by (metis Un_iff count_notin)
  then show ?thesis
    by (auto simp: html_errors_def html_fine_def tag_rx_search assms simp del: remdups.simps)
qed

lemma css_errors_Nil: "css_errors name t = [] \<longleftrightarrow> css_fine t"
proof -
  have "0 < count_list t CHR ''{'' \<longleftrightarrow> CHR ''{'' \<in> set t"
    using count_list_0_iff[of t "CHR ''{''"] by auto
  then show ?thesis by (auto simp: css_errors_def css_fine_def Let_def selector_rx_search simp del: count_list_0_iff)
qed

lemma javascript_errors_Nil: "javascript_errors name t = [] \<longleftrightarrow> javascript_fine t"
  by (auto simp: javascript_errors_def javascript_fine_def unbalanced_def)

lemma typescript_syntax_Nil: "validate_typescript_syntax t = [] \<longleftrightarrow> typescript_fine t"
  by (auto simp: validate_typescript_syntax_def typescript_fine_def unbalanced_def lacks_def)

lemma web_paths [simp]:
  "join_path ws ''index.html'' = ws @ [''index.html'']" "join_path ws ''styles.css'' = ws @ [''styles.css'']"
  "join_path ws ''app.js'' = ws @ [''app.js'']" "join_path ws ''README.generated.md'' = ws @ [''README.generated.md'']"
  "join_path ws ''backend/app.py'' = ws @ [''backend'', ''app.py'']" "join_path ws ''backend'' = ws @ [''backend'']"
  "join_path ws ''frontend'' = ws @ [''frontend'']" "join_path ws ''requirements.txt'' = ws @ [''requirements.txt'']"
  by (simp_all add: join_path_def path_parts_def)

lemma in_fs: "fs_get f p = Some e \<Longrightarrow> p \<noteq> [] \<Longrightarrow> p \<in> fst ` set f"
  by (auto simp: fs_get_def split: if_splits dest!: map_of_SomeD intro: rev_image_eqI)

lemma typescript_errors_Nil:
  "typescript_errors f ws = [] \<longleftrightarrow>
     (\<forall>p t. strict_prefix ws p \<and> (suffix ''.ts'' (last p) \<or> suffix ''.tsx'' (last p)) \<and>
        \<not> contains ''node_modules'' (show_path p) \<and> fs_get f p = Some (FText t) \<longrightarrow> typescript_fine t)"
proof -
  have one: "typescript_file_errors validate_typescript_syntax f ws p = [] \<longleftrightarrow>
      (\<forall>t. \<not> contains ''node_modules'' (show_path p) \<and> fs_get f p = Some (FText t) \<longrightarrow> typescript_fine t)" for p
    by (auto simp: typescript_file_errors_def typescript_syntax_Nil split: option.splits fs_entry.splits)
  have "typescript_errors f ws = [] \<longleftrightarrow>
      (\<forall>p\<in>set (fs_rglob f ws ''.ts'') \<union> set (fs_rglob f ws ''.tsx''). typescript_file_errors validate_typescript_syntax f ws p = [])"
    by (auto simp: typescript_errors_def validate_react_component_def)
  also have "\<dots> \<longleftrightarrow> (\<forall>p. p \<in> fst ` set f \<and> strict_prefix ws p \<and> (suffix ''.ts'' (last p) \<or> suffix ''.tsx'' (last p)) \<longrightarrow>
      typescript_file_errors validate_typescript_syntax f ws p = [])"
    by (auto simp: fs_rglob_def)
  also have "\<dots> \<longleftrightarrow> (\<forall>p t. strict_prefix ws p \<and> (suffix ''.ts'' (last p) \<or> suffix ''.tsx'' (last p)) \<and>
        \<not> contains ''node_modules'' (show_path p) \<and> fs_get f p = Some (FText t) \<longrightarrow> typescript_fine t)"
    unfolding one using in_fs by (metis strict_prefix_simps(1) not_Cons_self2 strict_prefix_def prefix_Nil)
  finally show ?thesis .
qed

lemma web_errors_Nil:
  assumes "\<forall>xs. set (ge_order env xs) = set xs"
  shows "web_errors env f ws @ typescript_errors f ws = [] \<longleftrightarrow> web_project f ws"
  by (auto simp: web_errors_def web_project_def typescript_errors_Nil validate_required_files_def exists_in_def
      validate_html_syntax_def validate_css_syntax_def validate_javascript_syntax_def checked_text_Nil
      html_errors_Nil[OF assms] css_errors_Nil javascript_errors_Nil filter_empty_conv)

text \<open>Only one thing makes the gate raise: a directory where the backend's \<open>app.py\<close> should be.\<close>

lemma gate_raises_iff:
  "(\<exists>e. fst (validate env ws task f s) = Inl e) \<longleftrightarrow>
     generated_target task \<in> {''backend'', ''fullstack''} \<and> fs_is_dir f (ws @ [''backend'', ''app.py''])"
proof -
  have sources: "(\<exists>e. validate_backend_sources f p = Inl e) \<longleftrightarrow> fs_is_dir f p" for p
    by (auto simp: validate_backend_sources_def fs_exists_def fs_read_def fs_is_dir_def
        split: option.splits fs_entry.splits)
  have project: "(\<exists>e. fst (python_project_errors env f ws s) = Inl e) \<longleftrightarrow> fs_is_dir f (ws @ [''backend'', ''app.py''])"
    unfolding sources[symmetric] by (auto simp: python_project_errors_def Let_def split: sum.splits prod.splits)
  then show ?thesis
    by (auto simp: validate_def target_errors_def backend_errors_def fullstack_errors_def Let_def
        split: sum.splits prod.splits)
qed

text \<open>C40. For a web project the gate never raises, changes nothing, and passes exactly the projects
  with the four required files whose page has html and body tags and as many closing as opening tags
  of every kind, whose style sheet has balanced braces behind a selector, whose script has balanced
  brackets, and whose TypeScript files outside \<open>node_modules\<close> have balanced braces and complete
  imports.\<close>

theorem web_gate_passes_iff:
  assumes "generated_target task = ''web''" and "\<forall>xs. set (ge_order env xs) = set xs"
  shows "\<exists>errors. validate env ws task f s = (Inr \<lparr>vr_ok = (errors = []), vr_errors = errors\<rparr>, f, s) \<and>
    (errors = [] \<longleftrightarrow> web_project f ws)"
  using web_errors_Nil[OF assms(2), of f ws] assms(1)
  by (intro exI[of _ "web_errors env f ws @ typescript_errors f ws"]) (simp add: validate_def target_errors_def Let_def)

definition sample_gate :: "unit gate_env" where
  "sample_gate = \<lparr>ge_parse = (\<lambda>t. None), ge_json = (\<lambda>t. Inr (PDict [])),
     ge_run = (\<lambda>code f s. (RunStdout ''OK'', f, s)), ge_order = (\<lambda>xs. xs)\<rparr>"

definition sample_site :: fs where
  "sample_site =
     [([''w''], FDir), ([''w'', ''index.html''], FText ''<html><body></body></html>''),
      ([''w'', ''styles.css''], FText ''p{}''), ([''w'', ''app.js''], FText ''f()''),
      ([''w'', ''README.generated.md''], FText [])]"

lemma sample_site_passes: "web_errors sample_gate sample_site [''w''] @ typescript_errors sample_site [''w''] = []"
  by code_simp

lemma web_gate_passes_iff_witness:
  "(\<exists>errors. validate sample_gate [''w''] [(''target'', PStr ''web'')] sample_site () =
      (Inr \<lparr>vr_ok = (errors = []), vr_errors = errors\<rparr>, sample_site, ()) \<and>
    (errors = [] \<longleftrightarrow> web_project sample_site [''w''])) \<and> web_project sample_site [''w'']"
proof -
  have t: "generated_target [(''target'', PStr ''web'')] = ''web''" by code_simp
  have perm: "\<forall>xs. set (ge_order sample_gate xs) = set xs" by (simp add: sample_gate_def)
  show ?thesis
    using web_gate_passes_iff[OF t perm, of "[''w'']" sample_site "()"]
      web_errors_Nil[OF perm, of sample_site "[''w'']"] sample_site_passes by blast
qed

end
