(* ===== verification/Fix_Loop.thy ===== *)
theory Fix_Loop
  imports Validation_Gate
begin

text \<open>
  The repair loop of \<open>generators/fix_loop.py\<close>: validate a project, repair it by the category of its
  errors, validate again, at most a fixed number of times. The validation gate is the one of
  \<open>Validation_Gate\<close>; the language model and the store of known fixes are functions on a state of the
  environment, either of which may be absent. Repairs edit the files of \<open>Workspace\<close>.
\<close>

section \<open>Data\<close>

datatype error_category = SYNTAX | STRUCTURE | DEPENDENCY | RUNTIME | UNKNOWN

fun category_value :: "error_category \<Rightarrow> string" where
  "category_value SYNTAX = ''syntax''"
| "category_value STRUCTURE = ''structure''"
| "category_value DEPENDENCY = ''dependency''"
| "category_value RUNTIME = ''runtime''"
| "category_value UNKNOWN = ''unknown''"

record fix_attempt =
  fa_iteration :: int
  fa_category :: error_category
  fa_errors :: "string list"
  fa_strategy :: string
  fa_success :: bool
  fa_fixed_files :: "string list"

record fix_result =
  fr_success :: bool
  fr_attempts :: "fix_attempt list"
  fr_final_errors :: "string list"
  fr_iterations_used :: int
  fr_manual_guidance :: "string list"

definition fix_summary :: "fix_result \<Rightarrow> string" where
  "fix_summary r =
     (let n = show_int (fr_iterations_used r) in
      if fr_success r then ''Fixed after '' @ n @ '' iteration(s)''
      else
        let base = ''Failed after '' @ n @ '' iteration(s): '' @ join ''; '' (fr_final_errors r) in
        if fr_manual_guidance r \<noteq> []
        then base @ ''. Manual resolution: '' @ join '' | '' (fr_manual_guidance r)
        else base)"

section \<open>Statistics\<close>

record error_statistics =
  es_total_attempts :: int
  es_successful :: int
  es_failed :: int
  es_categories :: "(string \<times> int) list"
  es_strategy_success :: "(string \<times> int) list"
  es_strategy_failure :: "(string \<times> int) list"

definition new_statistics :: error_statistics where
  "new_statistics = \<lparr>es_total_attempts = 0, es_successful = 0, es_failed = 0,
     es_categories = [], es_strategy_success = [], es_strategy_failure = []\<rparr>"

definition count_of :: "(string \<times> int) list \<Rightarrow> string \<Rightarrow> int" where
  "count_of d k = (case map_of d k of None \<Rightarrow> 0 | Some n \<Rightarrow> n)"

definition count_up :: "string \<Rightarrow> (string \<times> int) list \<Rightarrow> (string \<times> int) list" where
  "count_up k d = AList.update k (count_of d k + 1) d"

definition record_attempt :: "error_category \<Rightarrow> string \<Rightarrow> bool \<Rightarrow> error_statistics \<Rightarrow> error_statistics" where
  "record_attempt category strategy success st =
     (let st1 = st\<lparr>es_total_attempts := es_total_attempts st + 1,
                   es_categories := count_up (category_value category) (es_categories st)\<rparr> in
      if success then st1\<lparr>es_strategy_success := count_up strategy (es_strategy_success st1)\<rparr>
      else st1\<lparr>es_strategy_failure := count_up strategy (es_strategy_failure st1)\<rparr>)"

definition record_recovery_outcome :: "bool \<Rightarrow> error_statistics \<Rightarrow> error_statistics" where
  "record_recovery_outcome success st =
     (if success then st\<lparr>es_successful := es_successful st + 1\<rparr>
      else st\<lparr>es_failed := es_failed st + 1\<rparr>)"

definition recovery_success_rate :: "error_statistics \<Rightarrow> rat" where
  "recovery_success_rate st =
     (let total = es_successful st + es_failed st in
      if total = 0 then 0 else of_int (es_successful st) / of_int total)"

definition counts_dict :: "(string \<times> int) list \<Rightarrow> pyval" where
  "counts_dict d = PDict (map (\<lambda>(k, n). (k, PInt n)) d)"

definition statistics_dict :: "error_statistics \<Rightarrow> pydict" where
  "statistics_dict st =
     [(''totalAttempts'', PInt (es_total_attempts st)),
      (''successfulRecoveries'', PInt (es_successful st)),
      (''failedRecoveries'', PInt (es_failed st)),
      (''recoverySuccessRate'', PFloat (round_to 4 (recovery_success_rate st))),
      (''categoryCounts'', counts_dict (es_categories st)),
      (''strategySuccess'', counts_dict (es_strategy_success st)),
      (''strategyFailure'', counts_dict (es_strategy_failure st))]"

section \<open>Categories and guidance\<close>

definition any_in :: "string list \<Rightarrow> string \<Rightarrow> bool" where
  "any_in keywords text \<longleftrightarrow> list_ex (\<lambda>keyword. contains keyword text) keywords"

definition syntax_keywords :: "string list" where
  "syntax_keywords = [''syntax error'', ''parsing error'', ''unbalanced'', ''unclosed'', ''invalid format'', ''missing tag'']"

definition structure_keywords :: "string list" where
  "structure_keywords = [''missing required file'', ''missing required directory'', ''missing <html>'',
     ''missing <body>'', ''no valid css'', ''no recognizable javascript'']"

definition dependency_keywords :: "string list" where
  "dependency_keywords = [''requirements.txt'', ''package.json'', ''missing web framework'', ''invalid json'']"

definition runtime_keywords :: "string list" where
  "runtime_keywords = [''runtime validation'', ''import error'', ''cannot import'', ''no module named'',
     ''missing flask/fastapi'', ''missing api route'', ''missing database'']"

text \<open>The category one error counts for; \<open>UNKNOWN\<close> counts for none.\<close>

definition error_kind :: "string \<Rightarrow> error_category" where
  "error_kind error =
     (let error_lower = lower error in
      if any_in syntax_keywords error_lower then SYNTAX
      else if any_in structure_keywords error_lower then STRUCTURE
      else if any_in dependency_keywords error_lower then DEPENDENCY
      else if any_in runtime_keywords error_lower then RUNTIME
      else UNKNOWN)"

definition kind_count :: "string list \<Rightarrow> error_category \<Rightarrow> nat" where
  "kind_count errors c = count_list (map error_kind errors) c"

definition categorize_errors :: "string list \<Rightarrow> error_category" where
  "categorize_errors errors =
     (if errors = [] then UNKNOWN
      else
        let category = max_by (kind_count errors) SYNTAX [STRUCTURE, DEPENDENCY, RUNTIME] in
        if kind_count errors category > 0 then category else UNKNOWN)"

definition syntax_guidance :: string where
  "syntax_guidance = ''Syntax error detected. Open the affected file in an editor and check for '' @
     ''mismatched brackets, parentheses, or quotes. Run `python -m py_compile <file>` '' @
     ''to identify the exact line.''"

definition structure_guidance :: string where
  "structure_guidance = ''Required file or directory is missing. Ensure the generation template '' @
     ''produced all expected files (app.py, models.py, requirements.txt). '' @
     ''Re-run the generator with verbose logging enabled.''"

definition dependency_guidance :: string where
  "dependency_guidance = ''Dependency issue detected. Verify requirements.txt contains the correct '' @
     ''package names and versions. Run `pip install -r requirements.txt` manually '' @
     ''to confirm all dependencies install successfully.''"

definition runtime_guidance :: string where
  "runtime_guidance = ''Runtime error detected. Ensure all imports are correct and the virtual '' @
     ''environment has the required packages installed. Try running `python app.py` '' @
     ''directly to see the full traceback.''"

definition database_guidance :: string where
  "database_guidance = ''Database initialization error. Verify that the database setup code is present '' @
     ''in app.py and that SQLite/SQLAlchemy is properly configured. Check that '' @
     ''`db.create_all()` or equivalent is called on startup.''"

definition general_guidance :: string where
  "general_guidance = ''Automatic repair was unable to resolve the validation errors. '' @
     ''Review the error messages above and manually inspect the generated files. '' @
     ''Consider re-running the generation with a more detailed prompt or '' @
     ''contacting support with the task ID and error details.''"

definition llm_tip :: string where
  "llm_tip = ''Tip: Providing an LLM client to the FixLoop may enable more intelligent '' @
     ''context-aware repairs for complex errors.''"

definition error_guidance :: "string \<Rightarrow> string list" where
  "error_guidance error =
     (let error_lower = lower error in
      if any_in [''syntax error'', ''parsing error'', ''unbalanced'', ''unclosed''] error_lower then [syntax_guidance]
      else if any_in [''missing required file'', ''missing required directory''] error_lower then [structure_guidance]
      else if any_in [''requirements.txt'', ''missing web framework'', ''package.json''] error_lower
      then [dependency_guidance]
      else if any_in [''import error'', ''no module named'', ''missing flask'', ''missing api route''] error_lower
      then [runtime_guidance]
      else if any_in [''missing database'', ''database initialization''] error_lower then [database_guidance]
      else [])"

definition build_manual_guidance :: "bool \<Rightarrow> string list \<Rightarrow> string list" where
  "build_manual_guidance has_llm errors =
     (let specific = concat (map error_guidance errors) in
      (if specific = [] then [general_guidance] else specific) @ (if has_llm then [] else [llm_tip]))"

section \<open>Repairs by rule\<close>

text \<open>A repair works on the files and the list of what it fixed; an exception ends it and keeps what
  was done before.\<close>

type_synonym repair = "fs \<times> string list"

fun run_steps :: "('st \<Rightarrow> py_exn option \<times> 'st) list \<Rightarrow> 'st \<Rightarrow> py_exn option \<times> 'st" where
  "run_steps [] st = (None, st)"
| "run_steps (step # steps) st =
     (case step st of
        (Some e, st') \<Rightarrow> (Some e, st')
      | (None, st') \<Rightarrow> run_steps steps st')"

text \<open>Read a file that exists and write it again when \<open>edit\<close> has something to change.\<close>

definition edit_file ::
  "fs_path \<Rightarrow> string \<Rightarrow> (string \<Rightarrow> string option) \<Rightarrow> repair \<Rightarrow> py_exn option \<times> repair" where
  "edit_file p mark edit st =
     (case st of (f, fixed) \<Rightarrow>
        if \<not> fs_exists f p then (None, st)
        else case fs_read f p of
          Inl e \<Rightarrow> (Some e, st)
        | Inr content \<Rightarrow>
            (case edit content of
               None \<Rightarrow> (None, st)
             | Some content' \<Rightarrow>
                 (case fs_write f p content' of
                    Inl e \<Rightarrow> (Some e, st)
                  | Inr f' \<Rightarrow> (None, (f', fixed @ [mark])))))"

definition on_error :: "bool \<Rightarrow> (repair \<Rightarrow> py_exn option \<times> repair) \<Rightarrow> repair \<Rightarrow> py_exn option \<times> repair" where
  "on_error applies step st = (if applies then step st else (None, st))"

definition make_directory :: "fs_path \<Rightarrow> string \<Rightarrow> repair \<Rightarrow> py_exn option \<times> repair" where
  "make_directory ws name st =
     (case st of (f, fixed) \<Rightarrow>
        (case fs_mkdirs f [] (ws @ [name]) of
           (Inl e, f') \<Rightarrow> (Some e, (f', fixed))
         | (Inr d, f') \<Rightarrow> (None, (f', fixed @ [name @ ''/'']))))"

definition wrap_html :: "string \<Rightarrow> string" where
  "wrap_html content = join newline
     [''<!DOCTYPE html>'',
      ''<html lang=\"en\">'',
      ''<head>'',
      ''    <meta charset=\"UTF-8\">'',
      ''    <meta name=\"viewport\" content=\"width=device-width, initial-scale=1.0\">'',
      ''    <title>Generated App</title>'',
      ''</head>'',
      ''<body>'',
      content,
      ''</body>'',
      ''</html>'']"

definition html_edit :: "string \<Rightarrow> string option" where
  "html_edit content = (if contains ''<html'' (lower content) then None else Some (wrap_html content))"

definition wrap_pages :: "fs_path \<Rightarrow> repair \<Rightarrow> py_exn option \<times> repair" where
  "wrap_pages ws st =
     run_steps (map (\<lambda>p. edit_file p (relative_path ws p) html_edit) (fs_rglob (fst st) ws ''.html'')) st"

definition structure_step :: "fs_path \<Rightarrow> string \<Rightarrow> repair \<Rightarrow> py_exn option \<times> repair" where
  "structure_step ws error =
     (let error_lower = lower error in run_steps
        [on_error (contains ''missing required directory: backend'' error_lower) (make_directory ws ''backend''),
         on_error (contains ''missing required directory: frontend'' error_lower) (make_directory ws ''frontend''),
         on_error (any_in [''missing <html>'', ''missing <body>''] error_lower) (wrap_pages ws)])"

definition flask_requirements :: string where
  "flask_requirements = join newline [''flask==3.0.3'', ''flask-cors==4.0.1'', '''']"

text \<open>An empty file is not extended: whatever it holds, such as comments, is replaced.\<close>

definition empty_edit :: "string \<Rightarrow> string option" where
  "empty_edit content = Some flask_requirements"

definition framework_edit :: "string \<Rightarrow> string option" where
  "framework_edit content =
     (if any_in [''flask'', ''fastapi''] (lower content) then None
      else Some (content @ newline @ flask_requirements))"

definition dependency_step :: "fs_path \<Rightarrow> string \<Rightarrow> repair \<Rightarrow> py_exn option \<times> repair" where
  "dependency_step ws error =
     (let error_lower = lower error; p = join_path ws ''requirements.txt'' in run_steps
        [on_error (contains ''requirements.txt is empty'' error_lower)
           (edit_file p ''requirements.txt'' empty_edit),
         on_error (contains ''missing web framework'' error_lower)
           (edit_file p ''requirements.txt'' framework_edit)])"

definition css_edit :: "string \<Rightarrow> string option" where
  "css_edit content =
     (let opened = count_list content CHR ''{''; closed = count_list content CHR ''}'' in
      if opened > closed then Some (content @ newline @ replicate (opened - closed) CHR ''}'') else None)"

definition syntax_step :: "fs_path \<Rightarrow> string \<Rightarrow> repair \<Rightarrow> py_exn option \<times> repair" where
  "syntax_step ws error st =
     (let error_lower = lower error in
      if contains ''unbalanced braces'' error_lower \<and> contains ''.css'' error_lower
      then run_steps (map (\<lambda>p. edit_file p (relative_path ws p) css_edit)
             (filter (\<lambda>p. contains (last p) error) (fs_rglob (fst st) ws ''.css''))) st
      else (None, st))"

definition flask_init :: string where
  "flask_init = join newline
     [''from flask import Flask'', ''from flask_cors import CORS'', '''', ''app = Flask(__name__)'',
      ''CORS(app)'', '''', '''']"

definition health_route :: string where
  "health_route = join newline
     ['''', '''', ''@app.route(\"/health\", methods=[\"GET\"])'', ''def health():'',
      ''    return {\"status\": \"ok\"}, 200'', '''']"

definition db_init :: string where
  "db_init = join newline
     ['''', ''import sqlite3'', '''', ''# Initialize database'', ''def init_db():'',
      ''    conn = sqlite3.connect(\"database.db\")'', ''    conn.close()'', '''', ''init_db()'', '''']"

definition bootstrap_edit :: "string \<Rightarrow> string option" where
  "bootstrap_edit content = (if lacks content [''Flask('', ''FastAPI(''] then Some (flask_init @ content) else None)"

definition route_edit :: "string \<Rightarrow> string option" where
  "route_edit content = (if lacks content [''@app.route'', ''@app.get''] then Some (content @ health_route) else None)"

definition database_edit :: "string \<Rightarrow> string option" where
  "database_edit content = (if lacks content [''sqlite3'', ''SQLAlchemy''] then Some (content @ db_init) else None)"

definition runtime_step :: "fs_path \<Rightarrow> string \<Rightarrow> repair \<Rightarrow> py_exn option \<times> repair" where
  "runtime_step ws error =
     (let error_lower = lower error; p = join_path ws ''backend/app.py''; m = ''backend/app.py'' in run_steps
        [on_error (contains ''missing flask/fastapi application bootstrap'' error_lower) (edit_file p m bootstrap_edit),
         on_error (contains ''missing api route definitions'' error_lower) (edit_file p m route_edit),
         on_error (contains ''missing database initialization'' error_lower) (edit_file p m database_edit)])"

text \<open>Success means that something was fixed.\<close>

type_synonym strategy_outcome = "bool \<times> string list \<times> string"

definition repair_errors ::
  "(string \<Rightarrow> repair \<Rightarrow> py_exn option \<times> repair) \<Rightarrow> string \<Rightarrow> string \<Rightarrow> string list \<Rightarrow> fs
    \<Rightarrow> strategy_outcome result \<times> fs" where
  "repair_errors step done failed errors f =
     (case run_steps (map step errors) (f, []) of
        (Some e, (f', fixed)) \<Rightarrow> (Inl e, f')
      | (None, (f', fixed)) \<Rightarrow> (Inr (if fixed \<noteq> [] then (True, fixed, done) else (False, [], failed)), f'))"

definition fix_structure_errors :: "fs_path \<Rightarrow> string list \<Rightarrow> fs \<Rightarrow> strategy_outcome result \<times> fs" where
  "fix_structure_errors ws = repair_errors (structure_step ws) ''structure_repair'' ''structure_repair_failed''"

definition fix_dependency_errors :: "fs_path \<Rightarrow> string list \<Rightarrow> fs \<Rightarrow> strategy_outcome result \<times> fs" where
  "fix_dependency_errors ws = repair_errors (dependency_step ws) ''dependency_repair'' ''dependency_repair_failed''"

definition fix_syntax_errors :: "fs_path \<Rightarrow> string list \<Rightarrow> fs \<Rightarrow> strategy_outcome result \<times> fs" where
  "fix_syntax_errors ws = repair_errors (syntax_step ws) ''syntax_repair'' ''syntax_repair_needs_llm''"

definition fix_runtime_errors :: "fs_path \<Rightarrow> string list \<Rightarrow> fs \<Rightarrow> strategy_outcome result \<times> fs" where
  "fix_runtime_errors ws = repair_errors (runtime_step ws) ''runtime_repair'' ''runtime_repair_failed''"

section \<open>Repairs by a language model\<close>

record 's fix_env =
  fx_gate :: "'s gate_env"
  fx_llm :: "(string \<Rightarrow> string \<Rightarrow> 's \<Rightarrow> string result \<times> 's) option"
  fx_known :: "(string \<Rightarrow> string \<Rightarrow> 's \<Rightarrow> string list result \<times> 's) option"

definition mentions_of :: "string \<Rightarrow> string list" where
  "mentions_of error =
     (if contains ''backend/app.py'' error then [''backend/app.py''] else []) @
     (if contains ''backend/models.py'' error then [''backend/models.py''] else []) @
     (if contains ''index.html'' error then [''index.html'', ''frontend/index.html''] else []) @
     (if contains ''styles.css'' error then [''styles.css'', ''frontend/styles.css''] else []) @
     (if contains ''app.js'' error then [''app.js'', ''frontend/app.js''] else []) @
     (if contains ''requirements.txt'' error then [''requirements.txt''] else [])"

definition read_files :: "fs \<Rightarrow> fs_path \<Rightarrow> string list \<Rightarrow> (string \<times> string) list" where
  "read_files f ws names =
     List.map_filter (\<lambda>name. case fs_read f (join_path ws name) of
        Inl e \<Rightarrow> None | Inr content \<Rightarrow> Some (name, content)) names"

definition identify_files_to_fix ::
  "(string list \<Rightarrow> string list) \<Rightarrow> fs \<Rightarrow> fs_path \<Rightarrow> string list \<Rightarrow> string \<Rightarrow> (string \<times> string) list" where
  "identify_files_to_fix order f ws errors target =
     (let files = read_files f ws (order (remdups (concat (map mentions_of errors)))) in
      if files \<noteq> [] then files
      else if target = ''backend'' then read_files f ws [''backend/app.py'', ''backend/models.py'', ''requirements.txt'']
      else if target = ''web'' then read_files f ws [''index.html'', ''styles.css'', ''app.js'']
      else [])"

definition build_fix_prompt ::
  "string list \<Rightarrow> error_category \<Rightarrow> (string \<times> string) list \<Rightarrow> string \<Rightarrow> string \<Rightarrow> int \<Rightarrow> string" where
  "build_fix_prompt errors category files target original_prompt iteration = join newline
     ([''# Code Repair Request (Iteration '' @ show_int iteration @ '')'', '''', ''## Original Requirement'',
       (if original_prompt = [] then ''Generate a CRUD application'' else original_prompt), '''',
       ''## Target Type'', (if target = [] then ''unknown'' else target), '''',
       ''## Error Category'', category_value category, '''', ''## Validation Errors''] @
      map (\<lambda>(i, error). show_nat i @ ''. '' @ error) (enumerate 1 errors) @
      ['''', ''## Current Files''] @
      concat (map (\<lambda>(p, content). ['''', ''### '' @ p, ''```'', content, ''```'']) files) @
      ['''', ''## Instructions'',
       ''Analyze the validation errors and provide fixed versions of the files.'',
       ''For each file that needs fixing, output:'', ''FILE: <filename>'', ''```'', ''<fixed content>'', ''```'', '''',
       ''Focus on fixing the specific errors mentioned. Keep changes minimal.''])"

text \<open>\<open>_write_fixed_file\<close>: an error is logged and nothing is reported as fixed. The last part of the path
  is looked up in the directory that \<open>mkdir\<close> reached.\<close>

definition write_fixed_file :: "fs_path \<Rightarrow> string \<Rightarrow> string \<Rightarrow> repair \<Rightarrow> repair" where
  "write_fixed_file ws name content st =
     (case st of (f, fixed) \<Rightarrow>
        let p = join_path ws name in
        (case fs_mkdirs f [] (butlast p) of
           (Inl e, f') \<Rightarrow> (f', fixed)
         | (Inr d, f') \<Rightarrow>
             if p = [] \<or> last p = ''..'' then (f', fixed)
             else (case fs_write f' (d @ [last p]) content of
                     Inl e \<Rightarrow> (f', fixed)
                   | Inr f'' \<Rightarrow> (f'', fixed @ [name]))))"

text \<open>What is written when a file of the answer is complete.\<close>

definition flush_file :: "fs_path \<Rightarrow> string option \<Rightarrow> string list \<Rightarrow> repair \<Rightarrow> repair" where
  "flush_file ws current content st =
     (case current of
        None \<Rightarrow> st
      | Some name \<Rightarrow>
          if name \<noteq> [] \<and> content \<noteq> [] then write_fixed_file ws name (join newline content) st else st)"

fun apply_lines ::
  "fs_path \<Rightarrow> string list \<Rightarrow> string option \<Rightarrow> string list \<Rightarrow> bool \<Rightarrow> repair \<Rightarrow> repair" where
  "apply_lines ws [] current content in_block st = flush_file ws current content st"
| "apply_lines ws (line # lines) current content in_block st =
     (if prefix ''FILE:'' line
      then apply_lines ws lines (Some (strip (drop 5 line))) [] False (flush_file ws current content st)
      else if prefix ''```'' (strip line)
      then apply_lines ws lines current content (\<not> in_block) st
      else if in_block \<and> current \<noteq> None \<and> current \<noteq> Some []
      then apply_lines ws lines current (content @ [line]) in_block st
      else apply_lines ws lines current content in_block st)"

definition apply_llm_fixes :: "fs_path \<Rightarrow> string \<Rightarrow> fs \<Rightarrow> string list \<times> fs" where
  "apply_llm_fixes ws llm_response f =
     (case apply_lines ws (split_char CHR 0x0A llm_response) None [] False (f, []) of
        (f', fixed) \<Rightarrow> (fixed, f'))"

definition llm_system_prompt :: string where
  "llm_system_prompt = ''You are an expert code repair assistant. Analyze validation errors and provide precise fixes.''"

definition fix_with_llm ::
  "'s fix_env \<Rightarrow> fs_path \<Rightarrow> pydict \<Rightarrow> string list \<Rightarrow> error_category \<Rightarrow> int \<Rightarrow> fs \<Rightarrow> 's
    \<Rightarrow> strategy_outcome result \<times> fs \<times> 's" where
  "fix_with_llm env ws task errors category iteration f s =
     (case fx_llm env of
        None \<Rightarrow> (Inr (False, [], ''llm_not_available''), f, s)
      | Some generate \<Rightarrow>
          let target = generated_target task;
              prompt_text = strip (py_str (py_or (dget task ''prompt'') (PStr [])));
              files = identify_files_to_fix (ge_order (fx_gate env)) f ws errors target in
          if files = [] then (Inr (False, [], ''llm_no_files''), f, s)
          else
            (case generate (build_fix_prompt errors category files target prompt_text iteration) llm_system_prompt s of
               (Inl e, s') \<Rightarrow>
                 ((case e of
                     NamedError cls m \<Rightarrow> Inr (False, [], (if cls = ''LLMClientError'' then ''llm_error: ''
                                                   else ''llm_unexpected_error: '') @ m)
                   | _ \<Rightarrow> if is_Exception e then Inr (False, [], ''llm_unexpected_error: '' @ exn_text e) else Inl e),
                  f, s')
             | (Inr response, s') \<Rightarrow>
                 (case apply_llm_fixes ws response f of
                    (fixed, f') \<Rightarrow>
                      (Inr (if fixed \<noteq> [] then (True, fixed, ''llm_context_aware_fix'')
                            else (False, [], ''llm_fix_failed'')), f', s'))))"

section \<open>The choice of a repair\<close>

text \<open>\<open>_try_known_fix\<close>, for the errors in turn: whether some error has a known fix.\<close>

fun find_known_fix ::
  "(string \<Rightarrow> string \<Rightarrow> 's \<Rightarrow> string list result \<times> 's) \<Rightarrow> string \<Rightarrow> string list \<Rightarrow> 's \<Rightarrow> bool result \<times> 's" where
  "find_known_fix get_error_fixes project_key [] s = (Inr False, s)"
| "find_known_fix get_error_fixes project_key (error # errors) s =
     (case get_error_fixes project_key error s of
        (Inl e, s') \<Rightarrow> (Inl e, s')
      | (Inr fixes, s') \<Rightarrow>
          if fixes \<noteq> [] \<and> hd fixes \<noteq> [] then (Inr True, s')
          else find_known_fix get_error_fixes project_key errors s')"

definition project_key_of :: "pydict \<Rightarrow> string" where
  "project_key_of task =
     strip (py_str (py_or (py_or (dget task ''projectId'') (dget task ''project'')) (PStr [])))"

definition known_fix ::
  "'s fix_env \<Rightarrow> pydict \<Rightarrow> string list \<Rightarrow> 's \<Rightarrow> bool result \<times> 's" where
  "known_fix env task errors s =
     (case fx_known env of
        None \<Rightarrow> (Inr False, s)
      | Some get_error_fixes \<Rightarrow>
          if project_key_of task = [] then (Inr False, s)
          else find_known_fix get_error_fixes (project_key_of task) errors s)"

definition rule_repair ::
  "error_category \<Rightarrow> (fs_path \<Rightarrow> string list \<Rightarrow> fs \<Rightarrow> strategy_outcome result \<times> fs) option" where
  "rule_repair category =
     (case category of
        STRUCTURE \<Rightarrow> Some fix_structure_errors
      | DEPENDENCY \<Rightarrow> Some fix_dependency_errors
      | SYNTAX \<Rightarrow> Some fix_syntax_errors
      | RUNTIME \<Rightarrow> Some fix_runtime_errors
      | UNKNOWN \<Rightarrow> None)"

definition apply_fix_strategy ::
  "'s fix_env \<Rightarrow> fs_path \<Rightarrow> pydict \<Rightarrow> string list \<Rightarrow> error_category \<Rightarrow> int \<Rightarrow> fs \<Rightarrow> 's
    \<Rightarrow> strategy_outcome result \<times> fs \<times> 's" where
  "apply_fix_strategy env ws task errors category iteration f s =
     (case known_fix env task errors s of
        (Inl e, s') \<Rightarrow> (Inl e, f, s')
      | (Inr True, s') \<Rightarrow> (Inr (True, [], ''known_fix_from_knowledge''), f, s')
      | (Inr False, s') \<Rightarrow>
          (case rule_repair category of
             Some repair \<Rightarrow> (let (r, f') = repair ws errors f in (r, f', s'))
           | None \<Rightarrow>
               (if fx_llm env \<noteq> None then fix_with_llm env ws task errors category iteration f s'
                else (Inr (False, [], ''no_strategy_available''), f, s'))))"

section \<open>The loop\<close>

record 's fix_world =
  fw_files :: fs
  fw_state :: 's
  fw_stats :: error_statistics
  fw_attempts :: "fix_attempt list"

definition max_iterations_default :: int where
  "max_iterations_default = 3"

definition gate_call ::
  "'s fix_env \<Rightarrow> fs_path \<Rightarrow> pydict \<Rightarrow> 's fix_world \<Rightarrow> validation_result result \<times> 's fix_world" where
  "gate_call env ws task w =
     (let (r, f, s) = validate (fx_gate env) ws task (fw_files w) (fw_state w)
      in (r, w\<lparr>fw_files := f, fw_state := s\<rparr>))"

text \<open>The call \<open>log_fix_loop_attempt(task_id=..., ...)\<close> with keywords only, and how Python matches the
  keywords with the parameters \<open>(task, *, attempt, max_attempts, success, error="")\<close> of
  \<open>utils/observability.py\<close>: the first keyword that is no parameter is an error, then a parameter without a
  value. What a call that fits would log and count is left out; the call of the loop never fits.\<close>

definition log_attempt_keywords ::
  "pydict \<Rightarrow> int \<Rightarrow> int \<Rightarrow> error_category \<Rightarrow> string \<Rightarrow> bool \<Rightarrow> string list \<Rightarrow> pydict" where
  "log_attempt_keywords task iteration max_iter category strategy success errors =
     (let text = (\<lambda>k. PStr (py_str (py_or (dget task k) (PStr [])))) in
      [(''task_id'', text ''taskId''), (''iteration'', PInt iteration), (''max_iterations'', PInt max_iter),
       (''category'', PStr (category_value category)), (''strategy'', PStr strategy), (''success'', PBool success),
       (''errors'', PList (map PStr errors)), (''trace_id'', text ''traceId''), (''run_id'', text ''runId''),
       (''intent'', text ''intent''), (''plan_name'', text ''planName'')])"

definition log_fix_loop_attempt :: "pydict \<Rightarrow> py_exn option" where
  "log_fix_loop_attempt keywords =
     (case filter (\<lambda>k. k \<notin> {''task'', ''attempt'', ''max_attempts'', ''success'', ''error''}) (map fst keywords) of
        k # ks \<Rightarrow> Some (TypeError (''log_fix_loop_attempt() got an unexpected keyword argument '' @ quote_text k))
      | [] \<Rightarrow>
          if \<not> has_key keywords ''task''
          then Some (TypeError (''log_fix_loop_attempt() missing 1 required positional argument: '' @ quote_text ''task''))
          else (case filter (\<lambda>k. \<not> has_key keywords k) [''attempt'', ''max_attempts'', ''success''] of
                  [] \<Rightarrow> None
                | ks \<Rightarrow> Some (TypeError (''log_fix_loop_attempt() missing required keyword-only arguments: '' @
                    join '', '' (map quote_text ks)))))"

text \<open>One iteration up to the recorded attempt: whether the repair was applied. The statistics count the
  attempt before the call of the log.\<close>

definition fix_attempt_step ::
  "'s fix_env \<Rightarrow> fs_path \<Rightarrow> pydict \<Rightarrow> int \<Rightarrow> int \<Rightarrow> string list \<Rightarrow> 's fix_world \<Rightarrow> bool result \<times> 's fix_world" where
  "fix_attempt_step env ws task max_iter iteration errors w =
     (let category = categorize_errors errors in
      case apply_fix_strategy env ws task errors category iteration (fw_files w) (fw_state w) of
        (Inl e, f, s) \<Rightarrow> (Inl e, w\<lparr>fw_files := f, fw_state := s\<rparr>)
      | (Inr (success, fixed, strategy), f, s) \<Rightarrow>
          let w1 = w\<lparr>fw_files := f, fw_state := s, fw_stats := record_attempt category strategy success (fw_stats w)\<rparr> in
          (case log_fix_loop_attempt (log_attempt_keywords task iteration max_iter category strategy success errors) of
             Some e \<Rightarrow> (Inl e, w1)
           | None \<Rightarrow>
               (Inr success,
                w1\<lparr>fw_attempts := fw_attempts w1 @
                   [\<lparr>fa_iteration = iteration, fa_category = category, fa_errors = errors, fa_strategy = strategy,
                     fa_success = success, fa_fixed_files = fixed\<rparr>]\<rparr>)))"

definition fix_succeeded :: "int \<Rightarrow> 's fix_world \<Rightarrow> fix_result result \<times> 's fix_world" where
  "fix_succeeded iteration w =
     (Inr \<lparr>fr_success = True, fr_attempts = fw_attempts w, fr_final_errors = [],
           fr_iterations_used = iteration, fr_manual_guidance = []\<rparr>,
      w\<lparr>fw_stats := record_recovery_outcome True (fw_stats w)\<rparr>)"

definition fix_exhausted ::
  "'s fix_env \<Rightarrow> int \<Rightarrow> string list \<Rightarrow> 's fix_world \<Rightarrow> fix_result result \<times> 's fix_world" where
  "fix_exhausted env max_iter errors w =
     (Inr \<lparr>fr_success = False, fr_attempts = fw_attempts w, fr_final_errors = errors,
           fr_iterations_used = max_iter,
           fr_manual_guidance = build_manual_guidance (fx_llm env \<noteq> None) errors\<rparr>,
      w\<lparr>fw_stats := record_recovery_outcome False (fw_stats w)\<rparr>)"

text \<open>\<open>n\<close> iterations are left.\<close>

fun fix_iterations ::
  "'s fix_env \<Rightarrow> fs_path \<Rightarrow> pydict \<Rightarrow> int \<Rightarrow> nat \<Rightarrow> int \<Rightarrow> string list \<Rightarrow> 's fix_world
    \<Rightarrow> fix_result result \<times> 's fix_world" where
  "fix_iterations env ws task max_iter 0 iteration errors w = fix_exhausted env max_iter errors w"
| "fix_iterations env ws task max_iter (Suc n) iteration errors w =
     (case fix_attempt_step env ws task max_iter iteration errors w of
        (Inl e, w1) \<Rightarrow> (Inl e, w1)
      | (Inr False, w1) \<Rightarrow> fix_iterations env ws task max_iter n (iteration + 1) errors w1
      | (Inr True, w1) \<Rightarrow>
          (case gate_call env ws task w1 of
             (Inl e, w2) \<Rightarrow> (Inl e, w2)
           | (Inr r, w2) \<Rightarrow>
               if vr_ok r then fix_succeeded iteration w2
               else fix_iterations env ws task max_iter n (iteration + 1) (vr_errors r) w2))"

definition fix_and_validate ::
  "'s fix_env \<Rightarrow> fs_path \<Rightarrow> pydict \<Rightarrow> int option \<Rightarrow> 's fix_world \<Rightarrow> fix_result result \<times> 's fix_world" where
  "fix_and_validate env ws task max_iterations w =
     (let max_iter = (case max_iterations of Some n \<Rightarrow> n | None \<Rightarrow> max_iterations_default) in
      case gate_call env ws task (w\<lparr>fw_attempts := []\<rparr>) of
        (Inl e, w1) \<Rightarrow> (Inl e, w1)
      | (Inr r, w1) \<Rightarrow>
          if vr_ok r then fix_succeeded 0 w1
          else fix_iterations env ws task max_iter (nat max_iter) 1 (vr_errors r) w1)"

section \<open>The outcome of the loop\<close>

definition statistics_step :: "error_statistics \<Rightarrow> nat \<Rightarrow> bool \<Rightarrow> error_statistics \<Rightarrow> bool" where
  "statistics_step st n success st' \<longleftrightarrow>
     es_total_attempts st' = es_total_attempts st + int n \<and>
     es_successful st' = es_successful st + of_bool success \<and>
     es_failed st' = es_failed st + of_bool (\<not> success)"

lemma validate_ok: "validate env ws task f s = (Inr v, f', s') \<Longrightarrow> vr_ok v \<longleftrightarrow> vr_errors v = []"
  by (auto simp: validate_def Let_def split: if_splits prod.splits sum.splits)

lemma gate_call_Inr:
  "gate_call env ws task w = (Inr v, w') \<Longrightarrow>
     validate (fx_gate env) ws task (fw_files w) (fw_state w) = (Inr v, fw_files w', fw_state w') \<and>
     fw_stats w' = fw_stats w \<and> fw_attempts w' = fw_attempts w"
  by (auto simp: gate_call_def Let_def split: prod.splits)

lemma record_attempt_fields [simp]:
  "es_total_attempts (record_attempt c x b st) = es_total_attempts st + 1"
  "es_successful (record_attempt c x b st) = es_successful st"
  "es_failed (record_attempt c x b st) = es_failed st"
  by (simp_all add: record_attempt_def Let_def)

lemma record_recovery_fields [simp]:
  "es_total_attempts (record_recovery_outcome b st) = es_total_attempts st"
  "es_successful (record_recovery_outcome b st) = es_successful st + of_bool b"
  "es_failed (record_recovery_outcome b st) = es_failed st + of_bool (\<not> b)"
  by (simp_all add: record_recovery_outcome_def)

text \<open>The loop calls the log with a keyword it does not have.\<close>

definition log_call_error :: py_exn where
  "log_call_error = TypeError (''log_fix_loop_attempt() got an unexpected keyword argument '' @ quote_text ''task_id'')"

lemma log_call_raises [simp]:
  "log_fix_loop_attempt (log_attempt_keywords task i m c strategy success errors) = Some log_call_error"
  by (simp add: log_fix_loop_attempt_def log_attempt_keywords_def log_call_error_def Let_def)

lemma fix_attempt_step_raises:
  "fix_attempt_step env ws task m i errors w =
     (case apply_fix_strategy env ws task errors (categorize_errors errors) i (fw_files w) (fw_state w) of
        (Inl e, f, s) \<Rightarrow> (Inl e, w\<lparr>fw_files := f, fw_state := s\<rparr>)
      | (Inr (success, fixed, strategy), f, s) \<Rightarrow>
          (Inl log_call_error, w\<lparr>fw_files := f, fw_state := s,
             fw_stats := record_attempt (categorize_errors errors) strategy success (fw_stats w)\<rparr>))"
  by (simp add: fix_attempt_step_def split: prod.splits sum.splits)

lemma build_manual_guidance_nonempty [simp]: "build_manual_guidance b errors \<noteq> []"
  by (simp add: build_manual_guidance_def Let_def)

text \<open>C34. A rejected project is never repaired. When the first run of the gate passes, the loop returns success
  without an attempt. When it fails and at least one iteration is allowed, the loop never returns: one repair is
  chosen and carried out, the statistics count it, and then the call of the log raises a \<open>TypeError\<close> (unless the
  repair raised before), so that the gate never sees what was repaired, no attempt is recorded and neither a
  success nor a failure is counted. Only a loop without iterations returns a failure, with the errors and some
  guidance.\<close>

theorem rejected_project_never_repaired:
  assumes "gate_call env ws task (w\<lparr>fw_attempts := []\<rparr>) = (Inr v, w1)"
    and "fix_and_validate env ws task limit w = (out, w')"
    and "max_iter = (case limit of Some n \<Rightarrow> n | None \<Rightarrow> max_iterations_default)"
  shows "if vr_ok v
    then (\<exists>r. out = Inr r \<and> fr_success r \<and> fr_attempts r = [] \<and> fr_iterations_used r = 0 \<and> fr_final_errors r = []) \<and>
      fw_files w' = fw_files w1 \<and> statistics_step (fw_stats w) 0 True (fw_stats w')
    else if max_iter \<le> 0
    then (\<exists>r. out = Inr r \<and> \<not> fr_success r \<and> fr_attempts r = [] \<and> fr_final_errors r = vr_errors v \<and>
        vr_errors v \<noteq> [] \<and> fr_manual_guidance r \<noteq> []) \<and>
      fw_files w' = fw_files w1 \<and> statistics_step (fw_stats w) 0 False (fw_stats w')
    else fw_attempts w' = [] \<and>
      es_successful (fw_stats w') = es_successful (fw_stats w) \<and> es_failed (fw_stats w') = es_failed (fw_stats w) \<and>
      (case apply_fix_strategy env ws task (vr_errors v) (categorize_errors (vr_errors v)) 1 (fw_files w1) (fw_state w1) of
         (Inl e, f, s) \<Rightarrow> out = Inl e \<and> fw_files w' = f \<and> fw_stats w' = fw_stats w
       | (Inr (success, fixed, strategy), f, s) \<Rightarrow>
           out = Inl log_call_error \<and>
           fw_files w' = f \<and> fw_state w' = s \<and> es_total_attempts (fw_stats w') = es_total_attempts (fw_stats w) + 1)"
proof -
  note v = gate_call_Inr[OF assms(1)]
  consider (passed) "vr_ok v" | (none) "\<not> vr_ok v" "max_iter \<le> 0" | (some) n where "\<not> vr_ok v" "nat max_iter = Suc n"
    by (cases "nat max_iter") auto
  then show ?thesis
  proof cases
    case passed
    with assms v show ?thesis by (auto simp: fix_and_validate_def fix_succeeded_def statistics_step_def)
  next
    case none
    with assms v validate_ok[OF v[THEN conjunct1]] show ?thesis
      by (auto simp: fix_and_validate_def fix_exhausted_def statistics_step_def)
  next
    case some
    obtain o1 w2 where one: "fix_attempt_step env ws task max_iter 1 (vr_errors v) w1 = (o1, w2)" by force
    moreover obtain e where "o1 = Inl e"
      using one by (cases o1) (auto simp: fix_attempt_step_raises split: prod.splits sum.splits)
    ultimately have step: "fix_attempt_step env ws task max_iter 1 (vr_errors v) w1 = (Inl e, w2)" by simp
    have "out = Inl e" "w' = w2" using assms some step by (auto simp: fix_and_validate_def)
    with step some v show ?thesis by (auto simp: fix_attempt_step_raises split: prod.splits sum.splits)
  qed
qed

section \<open>Repairs that fail\<close>

text \<open>A step without an error that marks nothing has changed nothing.\<close>

definition reports :: "(repair \<Rightarrow> py_exn option \<times> repair) \<Rightarrow> bool" where
  "reports step \<longleftrightarrow>
     (\<forall>f fixed f' fixed'. step (f, fixed) = (None, (f', fixed')) \<longrightarrow>
        prefix fixed fixed' \<and> (fixed' = fixed \<longrightarrow> f' = f))"

lemma reports_edit_file [intro]: "reports (edit_file p mark edit)"
  by (auto simp: reports_def edit_file_def split: if_splits sum.splits option.splits)

lemma reports_make_directory [intro]: "reports (make_directory ws name)"
  by (auto simp: reports_def make_directory_def split: prod.splits sum.splits)

lemma reports_on_error [intro]: "reports step \<Longrightarrow> reports (on_error b step)"
  by (auto simp: reports_def on_error_def)

lemma reports_run_steps [intro]:
  assumes "list_all reports steps"
  shows "reports (run_steps steps)"
proof -
  have "prefix fixed fixed' \<and> (fixed' = fixed \<longrightarrow> f' = f)"
    if "run_steps steps (f, fixed) = (None, (f', fixed'))" for f fixed f' fixed'
    using that assms
  proof (induction steps arbitrary: f fixed)
    case (Cons step steps)
    then obtain f1 fixed1 where one: "step (f, fixed) = (None, (f1, fixed1))"
      and rest: "run_steps steps (f1, fixed1) = (None, (f', fixed'))"
      by (auto split: prod.splits option.splits)
    have "prefix fixed fixed1" "fixed1 = fixed \<longrightarrow> f1 = f"
      using one Cons.prems(2) by (auto simp: reports_def)
    moreover have "prefix fixed1 fixed'" "fixed' = fixed1 \<longrightarrow> f' = f1"
      using Cons.IH[OF rest] Cons.prems(2) by auto
    ultimately show ?case by (metis prefix_order.antisym prefix_order.trans)
  qed simp
  then show ?thesis by (auto simp: reports_def)
qed

lemma reports_steps:
  "reports (structure_step ws e)" "reports (dependency_step ws e)" "reports (syntax_step ws e)" "reports (runtime_step ws e)"
proof -
  have pages: "reports (wrap_pages ws)"
  proof -
    have "reports (run_steps (map (\<lambda>p. edit_file p (relative_path ws p) html_edit) ps))" for ps
      by (rule reports_run_steps) (auto simp: list_all_iff)
    then show ?thesis by (simp add: reports_def wrap_pages_def)
  qed
  show "reports (structure_step ws e)"
    by (simp add: structure_step_def Let_def reports_run_steps reports_on_error reports_make_directory pages)
  show "reports (dependency_step ws e)"
    by (simp add: dependency_step_def Let_def reports_run_steps reports_on_error reports_edit_file)
  show "reports (runtime_step ws e)"
    by (simp add: runtime_step_def Let_def reports_run_steps reports_on_error reports_edit_file)
  have css: "reports (run_steps (map (\<lambda>p. edit_file p (relative_path ws p) css_edit) ps))" for ps
    by (rule reports_run_steps) (auto simp: list_all_iff)
  show "reports (syntax_step ws e)"
    using css by (auto simp: reports_def syntax_step_def Let_def)
qed

lemma failed_repair_changes_nothing:
  assumes "rule_repair c = Some repair" and "repair ws errors f = (Inr (False, fixed, strategy), f')"
  shows "fixed = [] \<and> f' = f"
proof -
  have "fixed = [] \<and> f' = f"
    if "\<And>e. reports (step e)" "repair_errors step d x errors f = (Inr (False, fixed, strategy), f')" for step d x
  proof -
    have "reports (run_steps (map step errors))" using that(1) by (auto simp: list_all_iff)
    with that(2) show ?thesis by (auto simp: repair_errors_def reports_def split: prod.splits option.splits if_splits)
  qed
  note quiet = this
  show ?thesis
  proof (cases c)
    case SYNTAX
    with assms show ?thesis
      by (intro quiet[OF reports_steps(3)]) (auto simp: rule_repair_def fix_syntax_errors_def)
  next
    case STRUCTURE
    with assms show ?thesis
      by (intro quiet[OF reports_steps(1)]) (auto simp: rule_repair_def fix_structure_errors_def)
  next
    case DEPENDENCY
    with assms show ?thesis
      by (intro quiet[OF reports_steps(2)]) (auto simp: rule_repair_def fix_dependency_errors_def)
  next
    case RUNTIME
    with assms show ?thesis
      by (intro quiet[OF reports_steps(4)]) (auto simp: rule_repair_def fix_runtime_errors_def)
  qed (use assms in \<open>simp add: rule_repair_def\<close>)
qed

section \<open>Answers of a language model\<close>

text \<open>An answer in the format that the prompt asks for.\<close>

definition render_file :: "string \<times> string list \<Rightarrow> string list" where
  "render_file fl = [''FILE: '' @ fst fl, ''```''] @ snd fl @ [''```'']"

definition render_answer :: "(string \<times> string list) list \<Rightarrow> string" where
  "render_answer files = join newline (concat (map render_file files))"

definition plain_line :: "string \<Rightarrow> bool" where
  "plain_line line \<longleftrightarrow> CHR 0x0A \<notin> set line \<and> \<not> prefix ''FILE:'' line \<and> \<not> prefix ''```'' (strip line)"

definition plain_file :: "string \<times> string list \<Rightarrow> bool" where
  "plain_file fl \<longleftrightarrow>
     fst fl \<noteq> [] \<and> strip (fst fl) = fst fl \<and> CHR 0x0A \<notin> set (fst fl) \<and>
     snd fl \<noteq> [] \<and> list_all plain_line (snd fl)"

definition write_file :: "fs_path \<Rightarrow> string \<times> string list \<Rightarrow> repair \<Rightarrow> repair" where
  "write_file ws fl st = write_fixed_file ws (fst fl) (join newline (snd fl)) st"

lemma apply_content:
  assumes "name \<noteq> []" and "list_all plain_line ls"
  shows "apply_lines ws (ls @ rest) (Some name) content True st =
    apply_lines ws rest (Some name) (content @ ls) True st"
  using assms(2) by (induction ls arbitrary: content) (simp_all add: assms(1) plain_line_def)

lemma fence_line [simp]: "strip ''```'' = ''```''"
  by code_simp

lemma file_line [simp]: "strip (CHR '' '' # name) = strip name"
  by (simp add: strip_def is_space_def)

lemma apply_file:
  assumes "plain_file fl"
  shows "apply_lines ws (render_file fl @ rest) current content b st =
    apply_lines ws rest (Some (fst fl)) (snd fl) False (flush_file ws current content st)"
proof -
  let ?st = "flush_file ws current content st"
  have "apply_lines ws (render_file fl @ rest) current content b st =
      apply_lines ws (snd fl @ [''```''] @ rest) (Some (fst fl)) [] True ?st"
    using assms by (simp add: render_file_def plain_file_def)
  also have "\<dots> = apply_lines ws ([''```''] @ rest) (Some (fst fl)) (snd fl) True ?st"
    using apply_content[of "fst fl" "snd fl"] assms by (simp add: plain_file_def)
  finally show ?thesis by simp
qed

lemma apply_files:
  "list_all plain_file files \<Longrightarrow>
   apply_lines ws (concat (map render_file files)) current content b st =
     fold (write_file ws) files (flush_file ws current content st)"
proof (induction files arbitrary: current content b st)
  case (Cons fl files)
  then have "apply_lines ws (concat (map render_file (fl # files))) current content b st =
      fold (write_file ws) files (flush_file ws (Some (fst fl)) (snd fl) (flush_file ws current content st))"
    by (simp add: apply_file)
  moreover have "flush_file ws (Some (fst fl)) (snd fl) st' = write_file ws fl st'" for st'
    using Cons.prems by (simp add: flush_file_def write_file_def plain_file_def)
  ultimately show ?case by simp
qed simp

lemma apply_rendered:
  assumes "list_all plain_file files"
  shows "apply_llm_fixes ws (render_answer files) f = prod.swap (fold (write_file ws) files (f, []))"
proof -
  have "split_char CHR 0x0A (render_answer files) =
      (if files = [] then [[]] else concat (map render_file files))"
  proof (cases files)
    case (Cons a list)
    have "\<forall>w\<in>set (concat (map render_file files)). CHR 0x0A \<notin> set w"
      using assms by (auto simp: list_all_iff render_file_def plain_file_def plain_line_def)
    with Cons show ?thesis
      unfolding render_answer_def newline_def by (subst split_char_join) (auto simp: render_file_def)
  qed (simp add: render_answer_def)
  then show ?thesis
    using apply_files[OF assms, of ws None "[]" False "(f, [])"]
    by (auto simp: apply_llm_fixes_def flush_file_def split: prod.splits)
qed

text \<open>Names that stay inside the workspace, and what is outside of it.\<close>

definition relative_name :: "string \<Rightarrow> bool" where
  "relative_name name \<longleftrightarrow> \<not> prefix ''/'' name \<and> ''..'' \<notin> set (path_parts name)"

definition same_outside :: "fs_path \<Rightarrow> fs \<Rightarrow> fs \<Rightarrow> bool" where
  "same_outside ws f f' \<longleftrightarrow>
     (\<forall>q t. \<not> prefix ws q \<longrightarrow> (fs_get f' q = Some (FText t)) = (fs_get f q = Some (FText t)))"

lemma write_fixed_file_confined:
  assumes "relative_name name" and "''..'' \<notin> set ws"
  shows "same_outside ws (fst st) (fst (write_fixed_file ws name content st))"
proof -
  obtain f fixed where st: "st = (f, fixed)" by (cases st)
  let ?p = "join_path ws name"
  have p: "?p = ws @ path_parts name" using assms(1) by (simp add: join_path_def relative_name_def)
  obtain r f1 where m: "fs_mkdirs f [] (butlast ?p) = (r, f1)" by (cases "fs_mkdirs f [] (butlast ?p)")
  have same: "(fs_get f1 q = Some (FText t)) = (fs_get f q = Some (FText t))" for q t
    using fs_mkdirs_text[of f "[]" "butlast ?p" q t] m by simp
  show ?thesis
  proof (cases r)
    case (Inr d)
    have "''..'' \<notin> set (butlast ?p)" using p assms by (auto simp: relative_name_def dest: in_set_butlastD)
    with m Inr have "d = butlast ?p" using fs_mkdirs_plain[of "butlast ?p" f "[]" d] by simp
    with m Inr same p st show ?thesis
      by (auto simp: write_fixed_file_def Let_def same_outside_def split: sum.splits if_splits dest!: fs_write_Inr)
  qed (use m same st in \<open>simp add: write_fixed_file_def same_outside_def\<close>)
qed

lemma same_outside_trans: "same_outside ws f g \<Longrightarrow> same_outside ws g h \<Longrightarrow> same_outside ws f h"
  by (simp add: same_outside_def)

lemma write_files_confined:
  "list_all (relative_name \<circ> fst) files \<Longrightarrow> ''..'' \<notin> set ws \<Longrightarrow>
   same_outside ws (fst st) (fst (fold (write_file ws) files st))"
proof (induction files arbitrary: st)
  case (Cons fl files)
  have "same_outside ws (fst st) (fst (write_file ws fl st))"
    using Cons.prems write_fixed_file_confined by (simp add: write_file_def)
  moreover have "same_outside ws (fst (write_file ws fl st)) (fst (fold (write_file ws) files (write_file ws fl st)))"
    using Cons.IH Cons.prems by simp
  ultimately show ?case by (simp add: same_outside_trans[of ws])
qed (simp add: same_outside_def)

definition plain_path :: "fs_path \<Rightarrow> bool" where
  "plain_path p \<longleftrightarrow> p \<noteq> [] \<and> (\<forall>c\<in>set p. c \<noteq> [] \<and> c \<notin> {''.'', ''..''} \<and> CHR ''/'' \<notin> set c)"

lemma join_show_path: "plain_path p \<Longrightarrow> join_path ws (show_path p) = p"
  by (auto simp: join_path_def show_path_def path_parts_def plain_path_def split_char_join
      intro: filter_True)

lemma write_absolute:
  assumes "plain_path p" and "fst (fs_mkdirs f [] (butlast p)) = Inr d" and "\<not> fs_is_dir f p"
  shows "\<exists>f'. write_fixed_file ws (show_path p) content (f, fixed) = (f', fixed @ [show_path p]) \<and>
    fs_get f' p = Some (FText content)"
proof -
  obtain f1 where m: "fs_mkdirs f [] (butlast p) = (Inr d, f1)" using assms(2) by (metis fst_conv surj_pair)
  have nd: "''..'' \<notin> set p" "p \<noteq> []" using assms(1) by (auto simp: plain_path_def)
  then have d: "d = butlast p"
    using fs_mkdirs_plain[of "butlast p" f "[]" d] assms(2) by (auto dest: in_set_butlastD)
  have "\<not> fs_is_dir f1 p"
  proof
    assume "fs_is_dir f1 p"
    then have "fs_is_dir f p \<or> prefix p (butlast p)"
      using fs_mkdirs_along[of "butlast p" f "[]" p] nd m by (auto simp: fs_is_dir_def dest: in_set_butlastD)
    with assms(3) have "prefix p (butlast p)" by simp
    then have "length p \<le> length (butlast p)" by (rule prefix_length_le)
    then show False using nd(2) by (cases "length p") auto
  qed
  moreover have "last p \<noteq> ''..''" using nd last_in_set by metis
  ultimately show ?thesis
    using m d nd join_show_path[OF assms(1)] by (simp add: write_fixed_file_def fs_write_def)
qed

lemma fs_mkdirs_append:
  "fs_mkdirs f cur xs = (Inr d, f') \<Longrightarrow> fs_mkdirs f cur (xs @ ys) = fs_mkdirs f' d ys"
  by (induction f cur xs rule: fs_mkdirs.induct) (auto simp: Let_def split: option.splits fs_entry.splits if_splits)

lemma write_climbing:
  assumes "plain_path [n]" and "fst (fs_mkdirs f [] ws) = Inr ws" and "''..'' \<notin> set ws" and "n \<noteq> last ws"
    and "\<not> fs_is_dir f (butlast ws @ [n])"
  shows "\<exists>f'. write_fixed_file ws (''../'' @ n) content (f, fixed) = (f', fixed @ [''../'' @ n]) \<and>
    fs_get f' (butlast ws @ [n]) = Some (FText content)"
proof -
  obtain f1 where m: "fs_mkdirs f [] ws = (Inr ws, f1)" using assms(2) by (metis fst_conv surj_pair)
  have "split_char CHR ''/'' (''..'' @ CHR ''/'' # n) = [''..'', n]"
    using assms(1) split_char_join [of "[''..'', n]" "CHR ''/''"] by (auto simp: plain_path_def)
  then have p: "join_path ws (''../'' @ n) = ws @ [''..'', n]"
    using assms(1) by (simp add: join_path_def path_parts_def plain_path_def)
  have up: "fs_mkdirs f [] (ws @ [''..'']) = (Inr (butlast ws), f1)"
    using fs_mkdirs_append [OF m] by simp
  have "\<not> fs_is_dir f1 (butlast ws @ [n])"
  proof
    assume "fs_is_dir f1 (butlast ws @ [n])"
    then have "prefix (butlast ws @ [n]) ws"
      using fs_mkdirs_along[of ws f "[]" "butlast ws @ [n]"] assms(3,5) m by (auto simp: fs_is_dir_def)
    then show False using assms(4) by (cases ws rule: rev_cases) (auto simp: prefix_def)
  qed
  moreover have "n \<noteq> ''..''" using assms(1) by (auto simp: plain_path_def)
  ultimately show ?thesis using p up by (simp add: write_fixed_file_def fs_write_def butlast_append)
qed

text \<open>C36. An answer in the requested format is taken apart exactly: its files are written in turn with
  their lines. Files with relative names that do not climb with \<open>..\<close> leave everything outside of the
  workspace as it was. But nothing checks the names: an absolute name is written where it points to,
  whatever the workspace is, and a name that climbs with \<open>..\<close> is written beside the workspace.\<close>

theorem llm_answer_written:
  assumes "list_all plain_file files" and "''..'' \<notin> set ws"
    and "plain_path p" and "fst (fs_mkdirs f [] (butlast p)) = Inr d" and "\<not> fs_is_dir f p"
    and "plain_file (show_path p, ls)"
    and "plain_path [n]" and "fst (fs_mkdirs f [] ws) = Inr ws" and "n \<noteq> last ws"
    and "\<not> fs_is_dir f (butlast ws @ [n])" and "plain_file (''../'' @ n, ls)"
  shows "apply_llm_fixes ws (render_answer files) f = prod.swap (fold (write_file ws) files (f, [])) \<and>
    (list_all (relative_name \<circ> fst) files \<longrightarrow>
       same_outside ws f (snd (apply_llm_fixes ws (render_answer files) f))) \<and>
    fs_get (snd (apply_llm_fixes ws (render_answer [(show_path p, ls)]) f)) p = Some (FText (join newline ls)) \<and>
    fs_get (snd (apply_llm_fixes ws (render_answer [(''../'' @ n, ls)]) f)) (butlast ws @ [n]) = Some (FText (join newline ls))"
proof -
  have one: "snd (apply_llm_fixes ws (render_answer [(name, ls)]) f) =
      fst (write_fixed_file ws name (join newline ls) (f, []))" if "plain_file (name, ls)" for name
    using that by (simp add: apply_rendered write_file_def)
  have "same_outside ws f (snd (apply_llm_fixes ws (render_answer files) f))"
    if "list_all (relative_name \<circ> fst) files"
    using write_files_confined[OF that assms(2), of "(f, [])"] by (simp add: apply_rendered[OF assms(1)])
  moreover have "fs_get (snd (apply_llm_fixes ws (render_answer [(show_path p, ls)]) f)) p = Some (FText (join newline ls))"
    using write_absolute[OF assms(3-5), of ws "join newline ls" "[]"] one[OF assms(6)] by auto
  moreover have "fs_get (snd (apply_llm_fixes ws (render_answer [(''../'' @ n, ls)]) f)) (butlast ws @ [n]) =
      Some (FText (join newline ls))"
    using write_climbing[OF assms(7,8,2,9,10), of "join newline ls" "[]"] unfolding one[OF assms(11)] by auto
  ultimately show ?thesis by (simp add: apply_rendered[OF assms(1)])
qed

lemma llm_answer_written_witness:
  "apply_llm_fixes [''w''] (render_answer [(''a.py'', [''x = 1''])]) [([''w''], FDir)] =
     prod.swap (fold (write_file [''w'']) [(''a.py'', [''x = 1''])] ([([''w''], FDir)], [])) \<and>
   same_outside [''w''] [([''w''], FDir)]
     (snd (apply_llm_fixes [''w''] (render_answer [(''a.py'', [''x = 1''])]) [([''w''], FDir)])) \<and>
   fs_get (snd (apply_llm_fixes [''w''] (render_answer [(''/etc/x'', [''bad''])]) [([''w''], FDir)])) [''etc'', ''x''] =
     Some (FText ''bad'') \<and>
   fs_get (snd (apply_llm_fixes [''w''] (render_answer [(''../v'', [''bad''])]) [([''w''], FDir)])) [''v''] =
     Some (FText ''bad'')"
proof -
  have files: "list_all plain_file [(''a.py'', [''x = 1''])]" by code_simp
  have ws: "''..'' \<notin> set [''w'']" and path: "plain_path [''etc'', ''x'']" and n: "plain_path [''v'']" "''v'' \<noteq> last [''w'']"
    by (auto simp: plain_path_def)
  have made: "fst (fs_mkdirs [([''w''], FDir)] [] (butlast [''etc'', ''x''])) = Inr [''etc'']" by code_simp
  have free: "\<not> fs_is_dir [([''w''], FDir)] [''etc'', ''x'']" by code_simp
  have bad: "plain_file (show_path [''etc'', ''x''], [''bad''])" by code_simp
  have there: "fst (fs_mkdirs [([''w''], FDir)] [] [''w'']) = Inr [''w'']" by code_simp
  have beside: "\<not> fs_is_dir [([''w''], FDir)] (butlast [''w''] @ [''v''])" by code_simp
  have up: "plain_file (''../'' @ ''v'', [''bad''])" by code_simp
  have shown: "show_path [''etc'', ''x''] = ''/etc/x''" by code_simp
  have rel: "list_all (relative_name \<circ> fst) [(''a.py'', [''x = 1''])]" by code_simp
  have beside_name: "butlast [''w''] @ [''v''] = [''v'']" "''../'' @ ''v'' = ''../v''" by simp_all
  show ?thesis
    using llm_answer_written[OF files ws path made free bad n(1) there n(2) beside up] rel
    unfolding shown beside_name join.simps by blast
qed

section \<open>Examples\<close>

text \<open>A web project whose style sheet has an open brace, which the repair by rule closes, and a language
  model that counts how often it is asked.\<close>

definition sample_fix_env :: "nat fix_env" where
  "sample_fix_env = \<lparr>fx_gate = \<lparr>ge_parse = (\<lambda>t. None), ge_json = (\<lambda>t. Inr (PDict [])),
       ge_run = (\<lambda>code f s. (RunStdout ''OK'', f, s)), ge_order = (\<lambda>xs. xs)\<rparr>,
     fx_llm = Some (\<lambda>prompt system s. (Inr [], Suc s)), fx_known = None\<rparr>"

definition sample_open_brace :: "nat fix_world" where
  "sample_open_brace = \<lparr>fw_files =
     [([''w''], FDir), ([''w'', ''index.html''], FText ''<html><body></body></html>''),
      ([''w'', ''styles.css''], FText ''p{''), ([''w'', ''app.js''], FText ''f()''),
      ([''w'', ''README.generated.md''], FText ''x'')],
     fw_state = 0, fw_stats = new_statistics, fw_attempts = []\<rparr>"

definition sample_fix_task :: pydict where
  "sample_fix_task = [(''target'', PStr ''web'')]"

lemma rejected_project_never_repaired_witness:
  "case fix_and_validate sample_fix_env [''w''] sample_fix_task None sample_open_brace of
     (Inr r, w') \<Rightarrow> False
   | (Inl e, w') \<Rightarrow>
       e = log_call_error \<and> fw_attempts w' = [] \<and> es_successful (fw_stats w') = 0 \<and> es_failed (fw_stats w') = 0 \<and>
       es_total_attempts (fw_stats w') = 1 \<and>
       fst (gate_call sample_fix_env [''w''] sample_fix_task w') = Inr \<lparr>vr_ok = True, vr_errors = []\<rparr>"
proof -
  let ?w = sample_open_brace
  have gate: "gate_call sample_fix_env [''w''] sample_fix_task (?w\<lparr>fw_attempts := []\<rparr>) =
      (Inr \<lparr>vr_ok = False, vr_errors = [''styles.css: unbalanced braces ({ : 1, } : 0)'']\<rparr>, ?w)"
    by code_simp
  obtain out w' where run: "fix_and_validate sample_fix_env [''w''] sample_fix_task None ?w = (out, w')" by force
  have repair: "apply_fix_strategy sample_fix_env [''w''] sample_fix_task [''styles.css: unbalanced braces ({ : 1, } : 0)'']
      (categorize_errors [''styles.css: unbalanced braces ({ : 1, } : 0)'']) 1 (fw_files ?w) (fw_state ?w) =
      (Inr (True, [''styles.css''], ''syntax_repair''), AList.update [''w'', ''styles.css''] (FText (''p{'' @ newline @ ''}'')) (fw_files ?w), 0)"
    by code_simp
  have passes: "fst (validate (fx_gate sample_fix_env) [''w''] sample_fix_task
      (AList.update [''w'', ''styles.css''] (FText (''p{'' @ newline @ ''}'')) (fw_files ?w)) 0) = Inr \<lparr>vr_ok = True, vr_errors = []\<rparr>"
    by code_simp
  have stats: "fw_stats ?w = new_statistics" by (simp add: sample_open_brace_def)
  have "gate_call sample_fix_env [''w''] sample_fix_task w' =
      (let (r, f, s) = validate (fx_gate sample_fix_env) [''w''] sample_fix_task (fw_files w') (fw_state w')
       in (r, w'\<lparr>fw_files := f, fw_state := s\<rparr>))"
    by (simp add: gate_call_def)
  then show ?thesis
    using rejected_project_never_repaired[OF gate run refl] repair passes stats run
    by (auto simp: max_iterations_default_def new_statistics_def split: prod.splits)
qed

section \<open>Repairs against the checks\<close>




lemma not_lacks: "w \<in> set words \<Longrightarrow> contains w text \<Longrightarrow> \<not> lacks text words"
  by (auto simp: lacks_def list_all_iff)













end
