(* ===== verification/Control_Plane.thy ===== *)
theory Control_Plane
  imports Circuit_Breaker
begin

text \<open>
  The client of the control plane, \<open>client/control_plane_client.py\<close>: authenticated requests, artifact
  uploads, and the delivery of events with retries behind a circuit breaker (\<open>Circuit_Breaker\<close>).

  What lies outside is one environment: the HTTP exchange, the JSON functions, the two clocks and
  \<open>sleep\<close>, all on a state of their own. A response body is text; \<open>None\<close> for a dictionary is Python's
  \<open>None\<close>. Each operation returns its result with the client and the environment it leaves.
\<close>

section \<open>The environment\<close>

record http_request =
  rq_method :: string
  rq_url :: string
  rq_headers :: "(string \<times> string) list"
  rq_body :: "string option"

text \<open>A response with its status and body, an \<open>HTTPError\<close> with its code and body, an \<open>URLError\<close> or
  \<open>TimeoutError\<close>, or any other exception.\<close>

datatype http_outcome =
    HttpResponse int string
  | HttpFailure int string
  | HttpUnreachable py_exn
  | HttpRaised py_exn

record 's cp_env =
  ce_http :: "http_request \<Rightarrow> rat \<Rightarrow> 's \<Rightarrow> http_outcome \<times> 's"
  ce_dumps :: "pyval \<Rightarrow> string"
  ce_loads :: "string \<Rightarrow> string + pyval"
  ce_monotonic :: "'s \<Rightarrow> rat"
  ce_time :: "'s \<Rightarrow> rat"
  ce_sleep :: "rat \<Rightarrow> 's \<Rightarrow> 's"

section \<open>Addresses\<close>

definition hex_upper :: "nat \<Rightarrow> char" where
  "hex_upper n = (if n < 10 then char_of (48 + n) else char_of (55 + n))"

definition is_unreserved :: "char \<Rightarrow> bool" where
  "is_unreserved c = (let n = of_char c :: nat in
     (48 \<le> n \<and> n \<le> 57) \<or> (65 \<le> n \<and> n \<le> 90) \<or> (97 \<le> n \<and> n \<le> 122) \<or> c \<in> set ''_.-~'')"

definition percent :: "char \<Rightarrow> string" where
  "percent c = (let n = of_char c :: nat in [CHR ''%'', hex_upper (n div 16), hex_upper (n mod 16)])"

text \<open>\<open>parse.quote(s, safe="")\<close> and \<open>quote_plus\<close>.\<close>

definition quote :: "string \<Rightarrow> string" where
  "quote s = concat (map (\<lambda>c. if is_unreserved c then [c] else percent c) s)"

definition quote_plus :: "string \<Rightarrow> string" where
  "quote_plus s = concat (map (\<lambda>c. if is_unreserved c then [c] else if c = CHR '' '' then ''+'' else percent c) s)"

definition urlencode :: "(string \<times> string) list \<Rightarrow> string" where
  "urlencode query = join ''&'' (map (\<lambda>(k, v). quote_plus k @ ''='' @ quote_plus v) query)"

definition build_url :: "string \<Rightarrow> string \<Rightarrow> (string \<times> string) list \<Rightarrow> string" where
  "build_url base_url path query =
     (if query = [] then base_url @ path else base_url @ path @ ''?'' @ urlencode query)"

section \<open>The client\<close>

record delivery_metrics =
  dm_total_attempts :: int
  dm_successful :: int
  dm_failed :: int
  dm_breaker_opens :: int
  dm_retry_exhausted :: int

definition no_delivery_metrics :: delivery_metrics where
  "no_delivery_metrics = \<lparr>dm_total_attempts = 0, dm_successful = 0, dm_failed = 0,
     dm_breaker_opens = 0, dm_retry_exhausted = 0\<rparr>"

record cp_client =
  base_url :: string
  agent_token :: string
  agent_version :: string
  timeout_seconds :: rat
  user_agent :: string
  jwt_token :: pyval
  jwt_expires_at :: rat
  event_breaker :: breaker
  delivery :: delivery_metrics

definition new_cp_client :: "string \<Rightarrow> string \<Rightarrow> string \<Rightarrow> rat \<Rightarrow> cp_client" where
  "new_cp_client url token ver timeout =
     (let v = (if strip ver = [] then ''0.1.0'' else strip ver) in
      \<lparr>base_url = rstrip_char CHR ''/'' url, agent_token = token, agent_version = v,
       timeout_seconds = (if timeout > 0 then timeout else 15),
       user_agent = ''AutoCode-Python-Agent/'' @ v,
       jwt_token = PNone, jwt_expires_at = 0,
       event_breaker = new_breaker ''control_plane_events'' 3 60,
       delivery = no_delivery_metrics\<rparr>)"

definition request_error :: "string \<Rightarrow> bool \<Rightarrow> py_exn" where
  "request_error message retryable = RequestError ''ControlPlaneRequestError'' message retryable"

definition is_retryable_http_status :: "int option \<Rightarrow> bool" where
  "is_retryable_http_status status_code =
     (case status_code of
        None \<Rightarrow> True
      | Some code \<Rightarrow> if code \<ge> 500 then True else code \<in> {408, 425, 429})"

definition extract_payload :: "pydict \<Rightarrow> pydict" where
  "extract_payload decoded = (case dget decoded ''payload'' of PDict p \<Rightarrow> p | _ \<Rightarrow> decoded)"

section \<open>Authentication\<close>

text \<open>\<open>_obtain_jwt\<close>: every exception ends in \<open>None\<close>; the token is kept only when the expiry could be
  read and the token is not empty.\<close>

definition read_token :: "(string \<Rightarrow> string + pyval) \<Rightarrow> string \<Rightarrow> (pyval \<times> int) option" where
  "read_token loads raw =
     (case loads raw of
        Inr (PDict data) \<Rightarrow>
          (case dget_or data ''payload'' (PDict data) of
             PDict payload \<Rightarrow>
               (case py_int (dget_or payload ''expiresInSeconds'' (PInt 900)) of
                  Inr expires_in \<Rightarrow> Some (dget payload ''accessToken'', expires_in)
                | Inl e \<Rightarrow> None)
           | _ \<Rightarrow> None)
      | _ \<Rightarrow> None)"

definition obtain_jwt :: "'s cp_env \<Rightarrow> cp_client \<Rightarrow> 's \<Rightarrow> pyval \<times> cp_client \<times> 's" where
  "obtain_jwt env c s =
     (let req = \<lparr>rq_method = ''POST'', rq_url = base_url c @ ''/api/v1/auth/agent/token'',
            rq_headers = [(''Content-Type'', ''application/json; charset=utf-8''),
                          (''Accept'', ''application/json''), (''User-Agent'', user_agent c)],
            rq_body = Some (ce_dumps env (PDict [(''agentToken'', PStr (agent_token c))]))\<rparr> in
      case ce_http env req 5 s of
        (HttpResponse st body, s') \<Rightarrow>
          (let raw = strip body in
           if raw = [] then (PNone, c, s')
           else case read_token (ce_loads env) raw of
             None \<Rightarrow> (PNone, c, s')
           | Some (jwt, expires_in) \<Rightarrow>
               (jwt, (if truthy jwt
                      then c\<lparr>jwt_token := jwt, jwt_expires_at := ce_time env s' + of_int expires_in - 30\<rparr>
                      else c), s'))
      | (out, s') \<Rightarrow> (PNone, c, s'))"

definition get_auth_header :: "'s cp_env \<Rightarrow> cp_client \<Rightarrow> 's \<Rightarrow> (string \<times> string) list \<times> cp_client \<times> 's" where
  "get_auth_header env c s =
     (if truthy (jwt_token c) \<and> ce_time env s < jwt_expires_at c
      then ([(''Authorization'', ''Bearer '' @ py_str (jwt_token c))], c, s)
      else case obtain_jwt env c s of
        (jwt, c', s') \<Rightarrow>
          ((if truthy jwt then [(''Authorization'', ''Bearer '' @ py_str jwt)]
            else [(''X-Agent-Token'', agent_token c)]), c', s'))"

section \<open>Requests\<close>

definition error_text :: "pydict \<Rightarrow> string \<Rightarrow> string" where
  "error_text decoded other = py_str (py_or (dget decoded ''error'') (PStr other))"

text \<open>The reading of a response: \<open>None\<close> for status 204, an empty dictionary for an empty body.\<close>

definition read_response ::
  "(string \<Rightarrow> string + pyval) \<Rightarrow> py_exn \<Rightarrow> string \<Rightarrow> int \<Rightarrow> string \<Rightarrow> pydict option result" where
  "read_response loads not_object failure st body =
     (if st = 204 then Inr None
      else let raw = strip body in
        if raw = [] then Inr (Some [])
        else case loads raw of
          Inl m \<Rightarrow> Inl (NamedError ''JSONDecodeError'' m)
        | Inr (PDict decoded) \<Rightarrow>
            if dget decoded ''ok'' = PBool False
            then Inl (request_error (error_text decoded failure) False)
            else Inr (Some decoded)
        | Inr v \<Rightarrow> Inl not_object)"

definition not_object_text :: "string \<Rightarrow> string" where
  "not_object_text url = ''invalid json response from '' @ url @ '': expected object''"

definition request_json ::
  "'s cp_env \<Rightarrow> string \<Rightarrow> string \<Rightarrow> pydict option \<Rightarrow> (string \<times> string) list \<Rightarrow> cp_client \<Rightarrow> 's
    \<Rightarrow> pydict option result \<times> cp_client \<times> 's" where
  "request_json env meth path body query c s =
     (let url = build_url (base_url c) path query; failure = meth @ '' '' @ path @ '' failed'' in
      case get_auth_header env c s of
        (auth, c1, s1) \<Rightarrow>
          (let headers = auth @ [(''User-Agent'', user_agent c), (''Accept'', ''application/json'')] @
                 (if body \<noteq> None then [(''Content-Type'', ''application/json; charset=utf-8'')] else []);
               req = \<lparr>rq_method = meth, rq_url = url, rq_headers = headers,
                      rq_body = map_option (\<lambda>b. ce_dumps env (PDict b)) body\<rparr> in
           case ce_http env req (timeout_seconds c) s1 of
             (HttpResponse st text, s2) \<Rightarrow> 
                 (read_response (ce_loads env) (request_error (not_object_text url) False) failure st text, c1, s2)
           | (HttpFailure code text, s2) \<Rightarrow>
               ((if code = 204 then Inr None
                 else Inl (request_error (failure @ '': '' @ show_int code @ '' '' @ strip text)
                        (is_retryable_http_status (Some code)))), c1, s2)
           | (HttpUnreachable e, s2) \<Rightarrow> (Inl (request_error (failure @ '': '' @ exn_text e) True), c1, s2)
           | (HttpRaised e, s2) \<Rightarrow> (Inl e, c1, s2)))"

definition map_payload :: "pydict option result \<times> 'x \<Rightarrow> pydict option result \<times> 'x" where
  "map_payload rx = (case rx of
      (Inl e, x) \<Rightarrow> (Inl e, x)
    | (Inr data, x) \<Rightarrow> (Inr (map_option extract_payload data), x))"

definition post_json ::
  "'s cp_env \<Rightarrow> string \<Rightarrow> pydict \<Rightarrow> cp_client \<Rightarrow> 's \<Rightarrow> pydict option result \<times> cp_client \<times> 's" where
  "post_json env path body c s = map_payload (request_json env ''POST'' path (Some body) [] c s)"

definition register_agent ::
  "'s cp_env \<Rightarrow> string \<Rightarrow> string option \<Rightarrow> cp_client \<Rightarrow> 's \<Rightarrow> pydict option result \<times> cp_client \<times> 's" where
  "register_agent env node_id capabilities c s =
     post_json env ''/api/v1/agent/register''
       ([(''nodeId'', PStr node_id), (''version'', PStr (agent_version c))] @
        (case capabilities of
           None \<Rightarrow> []
         | Some caps \<Rightarrow> if strip caps \<noteq> [] then [(''capabilities'', PStr (strip caps))] else [])) c s"

definition heartbeat ::
  "'s cp_env \<Rightarrow> string \<Rightarrow> cp_client \<Rightarrow> 's \<Rightarrow> pydict option result \<times> cp_client \<times> 's" where
  "heartbeat env node_id c s = post_json env ''/api/v1/agent/heartbeat'' [(''nodeId'', PStr node_id)] c s"

definition poll_next_task ::
  "'s cp_env \<Rightarrow> string \<Rightarrow> string \<Rightarrow> cp_client \<Rightarrow> 's \<Rightarrow> pydict option result \<times> cp_client \<times> 's" where
  "poll_next_task env node_id profile c s =
     map_payload (request_json env ''GET'' ''/api/v1/agent/tasks/next'' None
       [(''nodeId'', node_id), (''profile'', profile)] c s)"

definition publish_event ::
  "'s cp_env \<Rightarrow> string \<Rightarrow> pydict \<Rightarrow> cp_client \<Rightarrow> 's \<Rightarrow> pydict option result \<times> cp_client \<times> 's" where
  "publish_event env task_id event c s =
     post_json env (''/api/v1/agent/tasks/'' @ quote task_id @ ''/events'') [(''event'', PDict event)] c s"

section \<open>Acknowledgements\<close>

fun is_int :: "pyval \<Rightarrow> bool" where
  "is_int (PInt i) = True"
| "is_int (PBool b) = True"
| "is_int v = False"

fun int_value :: "pyval \<Rightarrow> int" where
  "int_value (PInt i) = i"
| "int_value (PBool b) = of_bool b"
| "int_value v = 0"

fun is_bool :: "pyval \<Rightarrow> bool" where
  "is_bool (PBool b) = True"
| "is_bool v = False"

fun is_text_or_none :: "pyval \<Rightarrow> bool" where
  "is_text_or_none PNone = True"
| "is_text_or_none (PStr t) = True"
| "is_text_or_none v = False"

text \<open>A Boolean is an integer for \<open>isinstance\<close>.\<close>

definition extract_ack_response :: "pydict option \<Rightarrow> pydict option" where
  "extract_ack_response response =
     (case response of
        None \<Rightarrow> None
      | Some r \<Rightarrow>
          if r = [] then None
          else if \<not> list_all (has_key r) [''seq'', ''accepted'', ''duplicate'', ''errorCode''] then None
          else if \<not> is_int (dget r ''seq'') then None
          else if int_value (dget r ''seq'') < 0 then None
          else if \<not> is_bool (dget r ''accepted'') then None
          else if \<not> is_bool (dget r ''duplicate'') then None
          else if \<not> is_text_or_none (dget r ''errorCode'') then None
          else Some [(''seq'', dget r ''seq''), (''accepted'', dget r ''accepted''),
                     (''duplicate'', dget r ''duplicate''), (''errorCode'', dget r ''errorCode'')])"

definition validate_ack_response :: "pydict option \<Rightarrow> int option \<Rightarrow> bool" where
  "validate_ack_response ack_response expected_seq =
     (case ack_response of
        None \<Rightarrow> False
      | Some r \<Rightarrow>
          if r = [] then False
          else if \<not> has_key r ''seq'' \<or> \<not> is_int (dget r ''seq'') then False
          else if \<not> has_key r ''accepted'' \<or> \<not> is_bool (dget r ''accepted'') then False
          else if \<not> has_key r ''duplicate'' \<or> \<not> is_bool (dget r ''duplicate'') then False
          else if int_value (dget r ''seq'') < 0 then False
          else if (case expected_seq of None \<Rightarrow> False | Some n \<Rightarrow> int_value (dget r ''seq'') \<noteq> n) then False
          else is_text_or_none (dget r ''errorCode''))"

definition non_retryable_ack_errors :: "string list" where
  "non_retryable_ack_errors = [''INVALID_NODE_ID'', ''NODE_NOT_REGISTERED'', ''MISSING_EVENT_ID'',
     ''TASK_NOT_FOUND'', ''ACCESS_DENIED'', ''INVALID_EVENT'', ''ILLEGAL_STATE_TRANSITION'']"

section \<open>Delivery with retries\<close>

record publish_result =
  pr_response :: "pydict option"
  pr_attempts :: int
  pr_total_delay :: rat
  pr_breaker_triggered :: bool
  pr_final_error :: "py_exn option"
  pr_ack :: "pydict option"

text \<open>\<open>_event_circuit_breaker.call(publish_operation)\<close>: nothing else uses the breaker meanwhile.\<close>

definition guarded_publish ::
  "'s cp_env \<Rightarrow> string \<Rightarrow> pydict \<Rightarrow> cp_client \<Rightarrow> 's \<Rightarrow> pydict option result \<times> cp_client \<times> 's" where
  "guarded_publish env task_id event c s =
     (case before_call (ce_monotonic env s) (event_breaker c) of
        Inl e \<Rightarrow> (Inl e, c, s)
      | Inr b \<Rightarrow>
          (case publish_event env task_id event (c\<lparr>event_breaker := b\<rparr>) s of
             (Inl e, c', s') \<Rightarrow>
               (Inl e, (if is_Exception e
                        then c'\<lparr>event_breaker := after_failure (ce_monotonic env s') (event_breaker c')\<rparr> else c'), s')
           | (Inr r, c', s') \<Rightarrow> (Inr r, c'\<lparr>event_breaker := after_success (event_breaker c')\<rparr>, s')))"

text \<open>The answer that ends an attempt well, or the error that the acknowledgement stands for.\<close>

definition check_ack :: "pydict option \<Rightarrow> pydict result" where
  "check_ack response =
     (case extract_ack_response response of
        None \<Rightarrow> Inl (request_error ''Invalid ACK response format from Control Plane'' True)
      | Some ack \<Rightarrow>
          if dget ack ''accepted'' = PBool True then Inr ack
          else
            let code = dget_or ack ''errorCode'' (PStr ''UNKNOWN_ERROR'') in
            Inl (request_error (''Event not accepted by Control Plane: '' @ py_str code)
                   (code \<notin> set (map PStr non_retryable_ack_errors))))"

definition count_attempt :: "cp_client \<Rightarrow> cp_client" where
  "count_attempt c = c\<lparr>delivery := (delivery c)\<lparr>dm_total_attempts := dm_total_attempts (delivery c) + 1\<rparr>\<rparr>"

definition count_success :: "cp_client \<Rightarrow> cp_client" where
  "count_success c = c\<lparr>delivery := (delivery c)\<lparr>dm_successful := dm_successful (delivery c) + 1\<rparr>\<rparr>"

definition count_failure :: "cp_client \<Rightarrow> cp_client" where
  "count_failure c = c\<lparr>delivery := (delivery c)\<lparr>dm_failed := dm_failed (delivery c) + 1\<rparr>\<rparr>"

definition count_open :: "cp_client \<Rightarrow> cp_client" where
  "count_open c = c\<lparr>delivery := (delivery c)\<lparr>dm_breaker_opens := dm_breaker_opens (delivery c) + 1\<rparr>\<rparr>"

definition count_exhausted :: "cp_client \<Rightarrow> cp_client" where
  "count_exhausted c = c\<lparr>delivery := (delivery c)\<lparr>dm_retry_exhausted := dm_retry_exhausted (delivery c) + 1\<rparr>\<rparr>"

text \<open>How one attempt ends: delivered with the response and its acknowledgement, stopped by the open
  breaker, failed with an \<open>Exception\<close>, or left by another exception.\<close>

datatype attempt_end =
    Delivered_to "pydict option" pydict
  | Blocked py_exn
  | Failed_with py_exn
  | Escaped py_exn

definition is_breaker_open_error :: "py_exn \<Rightarrow> bool" where
  "is_breaker_open_error e = (case e of NamedError cls m \<Rightarrow> cls = ''CircuitBreakerOpenError'' | _ \<Rightarrow> False)"

definition attempt_ends :: "py_exn \<Rightarrow> attempt_end" where
  "attempt_ends e =
     (if is_breaker_open_error e then Blocked e else if is_Exception e then Failed_with e else Escaped e)"

definition publish_attempt ::
  "'s cp_env \<Rightarrow> string \<Rightarrow> pydict \<Rightarrow> cp_client \<Rightarrow> 's \<Rightarrow> attempt_end \<times> cp_client \<times> 's" where
  "publish_attempt env task_id event c s =
     (case guarded_publish env task_id event (count_attempt c) s of
        (Inl e, c', s') \<Rightarrow> (attempt_ends e, c', s')
      | (Inr response, c', s') \<Rightarrow>
          ((case check_ack response of Inl e \<Rightarrow> attempt_ends e | Inr ack \<Rightarrow> Delivered_to response ack), c', s'))"

definition is_retryable :: "py_exn \<Rightarrow> bool" where
  "is_retryable e = (case e of RequestError cls m r \<Rightarrow> cls = ''ControlPlaneRequestError'' \<and> r | _ \<Rightarrow> False)"

text \<open>After the loop.\<close>

definition publish_gave_up ::
  "int \<Rightarrow> rat \<Rightarrow> bool \<Rightarrow> py_exn \<Rightarrow> cp_client \<Rightarrow> 's \<Rightarrow> publish_result result \<times> cp_client \<times> 's" where
  "publish_gave_up attempts delay triggered e c s =
     (Inr \<lparr>pr_response = None, pr_attempts = attempts, pr_total_delay = delay, pr_breaker_triggered = triggered,
           pr_final_error = Some e, pr_ack = None\<rparr>,
      (if triggered then count_failure c else count_exhausted (count_failure c)), s)"

text \<open>The loop from attempt \<open>k\<close>, with \<open>n\<close> more after it.\<close>

fun publish_loop ::
  "'s cp_env \<Rightarrow> string \<Rightarrow> pydict \<Rightarrow> int \<Rightarrow> rat \<Rightarrow> nat \<Rightarrow> nat \<Rightarrow> rat \<Rightarrow> cp_client \<Rightarrow> 's
    \<Rightarrow> publish_result result \<times> cp_client \<times> 's" where
  "publish_loop env task_id event attempts backoff n k waited c s =
     (let delay = (if k > 1 then backoff * 2 ^ (k - 2) else 0);
          total' = waited + delay;
          s1 = (if k > 1 then ce_sleep env delay s else s) in
      case publish_attempt env task_id event c s1 of
        (Escaped e, c', s') \<Rightarrow> (Inl e, c', s')
      | (Blocked e, c', s') \<Rightarrow> publish_gave_up attempts total' True e (count_open c') s'
      | (Delivered_to response ack, c', s') \<Rightarrow>
          (Inr \<lparr>pr_response = response, pr_attempts = int k, pr_total_delay = total', pr_breaker_triggered = False,
                pr_final_error = None, pr_ack = Some ack\<rparr>, count_success c', s')
      | (Failed_with e, c', s') \<Rightarrow>
          if \<not> is_retryable e
          then (Inr \<lparr>pr_response = None, pr_attempts = int k, pr_total_delay = total',
                     pr_breaker_triggered = False, pr_final_error = Some e, pr_ack = None\<rparr>, count_failure c', s')
          else (case n of
              0 \<Rightarrow> publish_gave_up attempts total' False e c' s'
            | Suc m \<Rightarrow> publish_loop env task_id event attempts backoff m (Suc k) total' c' s'))"

definition publish_event_with_retry_result ::
  "'s cp_env \<Rightarrow> string \<Rightarrow> pydict \<Rightarrow> int \<Rightarrow> rat \<Rightarrow> cp_client \<Rightarrow> 's \<Rightarrow> publish_result result \<times> cp_client \<times> 's" where
  "publish_event_with_retry_result env task_id event max_attempts initial_backoff c s =
     (let attempts = max 1 (min max_attempts 5); backoff = max 1 initial_backoff in
      publish_loop env task_id event attempts backoff (nat (attempts - 1)) 1 0 c s)"

definition publish_event_with_retry ::
  "'s cp_env \<Rightarrow> string \<Rightarrow> pydict \<Rightarrow> int \<Rightarrow> rat \<Rightarrow> cp_client \<Rightarrow> 's \<Rightarrow> pydict option result \<times> cp_client \<times> 's" where
  "publish_event_with_retry env task_id event max_attempts initial_backoff c s =
     (case publish_event_with_retry_result env task_id event max_attempts initial_backoff c s of
        (Inl e, x) \<Rightarrow> (Inl e, x)
      | (Inr r, x) \<Rightarrow> (Inr (pr_response r), x))"

definition publish_event_with_ack ::
  "'s cp_env \<Rightarrow> string \<Rightarrow> pydict \<Rightarrow> int \<Rightarrow> rat \<Rightarrow> cp_client \<Rightarrow> 's \<Rightarrow> pydict option result \<times> cp_client \<times> 's" where
  "publish_event_with_ack env task_id event max_attempts initial_backoff c s =
     (case publish_event_with_retry_result env task_id event max_attempts initial_backoff c s of
        (Inl e, x) \<Rightarrow> (Inl e, x)
      | (Inr r, x) \<Rightarrow> ((case pr_final_error r of Some e \<Rightarrow> Inl e | None \<Rightarrow> Inr (pr_ack r)), x))"

definition get_event_delivery_metrics :: "cp_client \<Rightarrow> pydict" where
  "get_event_delivery_metrics c =
     (let m = delivery c; made = dm_total_attempts m;
          rate = (\<lambda>n. if made > 0 then of_int n / of_int made * 100 else 0 :: rat) in
      [(''totalAttempts'', PInt made), (''successfulDeliveries'', PInt (dm_successful m)),
       (''failedDeliveries'', PInt (dm_failed m)),
       (''successRate'', PFloat (round_to 2 (rate (dm_successful m)))),
       (''failureRate'', PFloat (round_to 2 (rate (dm_failed m)))),
       (''circuitBreakerOpens'', PInt (dm_breaker_opens m)), (''retryExhausted'', PInt (dm_retry_exhausted m)),
       (''circuitBreakerState'', PDict (breaker_state (event_breaker c)))])"

definition reset_delivery_metrics :: "cp_client \<Rightarrow> cp_client" where
  "reset_delivery_metrics c = c\<lparr>delivery := no_delivery_metrics\<rparr>"

section \<open>Artifacts\<close>

definition crlf :: string where
  "crlf = [CHR 0x0D, CHR 0x0A]"

text \<open>A field with its value, and a file with its name, content and type.\<close>

definition form_field :: "string \<Rightarrow> string \<times> string \<Rightarrow> string" where
  "form_field boundary kv = ''--'' @ boundary @ crlf @
     ''Content-Disposition: form-data; name=\"'' @ fst kv @ ''\"'' @ crlf @ crlf @ snd kv @ crlf"

definition form_file :: "string \<Rightarrow> string \<times> string \<times> string \<times> string \<Rightarrow> string" where
  "form_file boundary fl = (case fl of (field, filename, content, content_type) \<Rightarrow>
     ''--'' @ boundary @ crlf @
     ''Content-Disposition: form-data; name=\"'' @ field @ ''\"; filename=\"'' @ filename @ ''\"'' @ crlf @
     ''Content-Type: '' @ content_type @ crlf @ crlf @ content @ crlf)"

definition build_multipart_payload ::
  "string \<Rightarrow> (string \<times> string) list \<Rightarrow> (string \<times> string \<times> string \<times> string) list \<Rightarrow> string" where
  "build_multipart_payload boundary pairs files =
     concat (map (form_field boundary) pairs) @ concat (map (form_file boundary) files) @
     ''--'' @ boundary @ ''--'' @ crlf"

definition text_or :: "string option \<Rightarrow> string \<Rightarrow> string" where
  "text_or t other = (case t of None \<Rightarrow> other | Some u \<Rightarrow> if u = [] then other else u)"

definition non_blank_or :: "string \<Rightarrow> string \<Rightarrow> string" where
  "non_blank_or t other = (if strip t = [] then other else strip t)"

text \<open>\<open>resolve\<close> gives the resolved path, its name and, for a file that exists, its bytes;
  \<open>guess_type\<close> is \<open>mimetypes\<close>, \<open>hex\<close> the fresh identifier of the boundary.\<close>

definition upload_artifact ::
  "'s cp_env \<Rightarrow> (string \<Rightarrow> string \<times> string \<times> string option) \<Rightarrow> (string \<Rightarrow> string option) \<Rightarrow> string
    \<Rightarrow> string \<Rightarrow> string \<Rightarrow> string option \<Rightarrow> string option \<Rightarrow> cp_client \<Rightarrow> 's
    \<Rightarrow> pydict option result \<times> cp_client \<times> 's" where
  "upload_artifact env resolve guess_type hex task_id file_path name content_type c s =
     (case resolve file_path of
        (source, file_name, None) \<Rightarrow> (Inl (RuntimeError (''artifact file not found: '' @ source)), c, s)
      | (source, file_name, Some file_bytes) \<Rightarrow>
          let artifact_name = non_blank_or (text_or name file_name) file_name;
              mime = strip (text_or content_type (text_or (guess_type file_name) ''application/octet-stream''));
              path = ''/api/v1/tasks/'' @ quote task_id @ ''/artifacts'';
              url = build_url (base_url c) path [];
              boundary = ''----AutoCodeBoundary'' @ hex;
              payload = build_multipart_payload boundary [(''name'', artifact_name)]
                          [(''file'', file_name, file_bytes, mime)] in
          (case get_auth_header env c s of
             (auth, c1, s1) \<Rightarrow>
               (let req = \<lparr>rq_method = ''POST'', rq_url = url,
                      rq_headers = auth @ [(''User-Agent'', user_agent c), (''Accept'', ''application/json''),
                        (''Content-Type'', ''multipart/form-data; boundary='' @ boundary)],
                      rq_body = Some payload\<rparr> in
                case ce_http env req (timeout_seconds c) s1 of
                  (HttpResponse st text, s2) \<Rightarrow>
                    ((case read_response (ce_loads env) (RuntimeError (not_object_text url)) ''artifact upload failed'' st text of
                        Inl e \<Rightarrow> Inl e
                      | Inr data \<Rightarrow> Inr (map_option extract_payload data)), c1, s2)
                | (HttpFailure code text, s2) \<Rightarrow>
                    (Inl (request_error (''POST '' @ path @ '' failed: '' @ show_int code @ '' '' @ strip text)
                       (is_retryable_http_status (Some code))), c1, s2)
                | (HttpUnreachable e, s2) \<Rightarrow> (Inl e, c1, s2)
                | (HttpRaised e, s2) \<Rightarrow> (Inl e, c1, s2))))"

section \<open>What a delivery promises\<close>

lemma get_auth_header_keeps:
  "get_auth_header env c s = (h, c', s') \<Longrightarrow> delivery c' = delivery c \<and> event_breaker c' = event_breaker c \<and> base_url c' = base_url c"
  by (auto simp: get_auth_header_def obtain_jwt_def Let_def
      split: if_splits prod.splits http_outcome.splits option.splits)

lemma publish_event_keeps:
  "publish_event env t e c s = (r, c', s') \<Longrightarrow> delivery c' = delivery c \<and> event_breaker c' = event_breaker c"
  by (auto simp: publish_event_def post_json_def map_payload_def request_json_def Let_def
      dest: get_auth_header_keeps split: prod.splits http_outcome.splits sum.splits)

text \<open>The guarded call is the one of \<open>Circuit_Breaker\<close>, run by a single thread.\<close>

lemma guarded_publish_call:
  assumes "guarded_publish env t e c s = (r, c', s')"
  shows "\<exists>t1 r1. (r, event_breaker c') = call (ce_monotonic env s) t1 (\<lambda>b. (r1, b)) (event_breaker c) \<and> delivery c' = delivery c"
proof (cases "before_call (ce_monotonic env s) (event_breaker c)")
  case (Inr b)
  obtain r1 c1 s1 where p: "publish_event env t e (c\<lparr>event_breaker := b\<rparr>) s = (r1, c1, s1)"
    by (cases "publish_event env t e (c\<lparr>event_breaker := b\<rparr>) s")
  with publish_event_keeps[OF p] Inr assms show ?thesis
    by (intro exI[of _ "ce_monotonic env s1"] exI[of _ r1])
      (auto simp: guarded_publish_def call_def split: sum.splits)
qed (use assms in \<open>auto simp: guarded_publish_def call_def\<close>)

lemma publish_attempt_delivery:
  "publish_attempt env t e c s = (x, c', s') \<Longrightarrow>
   delivery c' = (delivery c)\<lparr>dm_total_attempts := dm_total_attempts (delivery c) + 1\<rparr>"
  by (auto simp: publish_attempt_def count_attempt_def dest: guarded_publish_call split: prod.splits sum.splits)

lemma attempt_ends_not_delivered [simp]: "attempt_ends e \<noteq> Delivered_to r a" "Delivered_to r a \<noteq> attempt_ends e"
  by (auto simp: attempt_ends_def)

lemma publish_attempt_delivered:
  "publish_attempt env t e c s = (Delivered_to response ack, c', s') \<Longrightarrow>
   extract_ack_response response = Some ack \<and> dget ack ''accepted'' = PBool True"
  by (auto simp: publish_attempt_def check_ack_def Let_def split: prod.splits sum.splits option.splits if_splits)

text \<open>The waits before the first \<open>k\<close> attempts.\<close>

definition waits :: "rat \<Rightarrow> nat \<Rightarrow> rat" where
  "waits backoff k = backoff * (2 ^ (k - 1) - 1)"

lemma waits_next: "1 \<le> k \<Longrightarrow> waits b k + b * 2 ^ (k - 1) = waits b (Suc k)"
  by (cases k) (auto simp: waits_def algebra_simps)

lemma waits_one [simp]: "waits b 1 = 0" "waits b (Suc 0) = 0"
  by (simp_all add: waits_def)

definition delivery_ok :: "int \<Rightarrow> rat \<Rightarrow> nat \<Rightarrow> delivery_metrics \<Rightarrow> publish_result \<Rightarrow> delivery_metrics \<Rightarrow> bool" where
  "delivery_ok attempts backoff j m r m' \<longleftrightarrow>
     pr_total_delay r = waits backoff j \<and>
     pr_attempts r = (if pr_breaker_triggered r then attempts else int j) \<and>
     (case pr_ack r of
        Some ack \<Rightarrow> extract_ack_response (pr_response r) = Some ack \<and> dget ack ''accepted'' = PBool True \<and>
          pr_final_error r = None \<and> \<not> pr_breaker_triggered r \<and>
          dm_successful m' = dm_successful m + 1 \<and> dm_failed m' = dm_failed m
      | None \<Rightarrow> pr_response r = None \<and> pr_final_error r \<noteq> None \<and>
          dm_successful m' = dm_successful m \<and> dm_failed m' = dm_failed m + 1) \<and>
     dm_breaker_opens m' = dm_breaker_opens m + of_bool (pr_breaker_triggered r)"

lemma count_fields [simp]:
  "delivery (count_success c) = (delivery c)\<lparr>dm_successful := dm_successful (delivery c) + 1\<rparr>"
  "delivery (count_failure c) = (delivery c)\<lparr>dm_failed := dm_failed (delivery c) + 1\<rparr>"
  "delivery (count_open c) = (delivery c)\<lparr>dm_breaker_opens := dm_breaker_opens (delivery c) + 1\<rparr>"
  "delivery (count_exhausted c) = (delivery c)\<lparr>dm_retry_exhausted := dm_retry_exhausted (delivery c) + 1\<rparr>"
  by (simp_all add: count_success_def count_failure_def count_open_def count_exhausted_def)

text \<open>One attempt of the loop: it ends the delivery, or another one follows.\<close>

definition attempt_start :: "'s cp_env \<Rightarrow> rat \<Rightarrow> nat \<Rightarrow> 's \<Rightarrow> 's" where
  "attempt_start env b k s = (if k > 1 then ce_sleep env (b * 2 ^ (k - 2)) s else s)"

lemma publish_loop_step:
  assumes "1 \<le> k" and "waited = (if k = 1 then 0 else waits b (k - 1))"
  shows "publish_loop env t e attempts b n k waited c s =
     (case publish_attempt env t e c (attempt_start env b k s) of
        (Escaped e, c', s') \<Rightarrow> (Inl e, c', s')
      | (Blocked e, c', s') \<Rightarrow> publish_gave_up attempts (waits b k) True e (count_open c') s'
      | (Delivered_to response ack, c', s') \<Rightarrow>
          (Inr \<lparr>pr_response = response, pr_attempts = int k, pr_total_delay = waits b k, pr_breaker_triggered = False,
                pr_final_error = None, pr_ack = Some ack\<rparr>, count_success c', s')
      | (Failed_with ex, c', s') \<Rightarrow>
          if \<not> is_retryable ex
          then (Inr \<lparr>pr_response = None, pr_attempts = int k, pr_total_delay = waits b k,
                     pr_breaker_triggered = False, pr_final_error = Some ex, pr_ack = None\<rparr>, count_failure c', s')
          else (case n of
              0 \<Rightarrow> publish_gave_up attempts (waits b k) False ex c' s'
            | Suc m \<Rightarrow> publish_loop env t e attempts b m (Suc k) (waits b k) c' s'))"
proof (cases "k = 1")
  case True
  with assms show ?thesis
    by (cases n) (auto simp: Let_def attempt_start_def split: prod.split attempt_end.split)
next
  case False
  have "waited + b * 2 ^ (k - 2) = waits b k"
    using assms False waits_next[of "k - 1" b] by (auto simp: numeral_2_eq_2)
  with False assms(1) show ?thesis
    by (cases n) (auto simp: Let_def attempt_start_def split: prod.split attempt_end.split)
qed

declare publish_loop.simps [simp del]

lemma publish_loop_first:
  assumes "publish_loop env t e attempts b n k waited c s = (Inr r, c', s')"
    and "1 \<le> k" and "waited = (if k = 1 then 0 else waits b (k - 1))" and "attempts = int (k + n)"
  shows "(dm_total_attempts (delivery c') = dm_total_attempts (delivery c) + 1 \<and>
      delivery_ok attempts b k (delivery c) r (delivery c')) \<or>
    (\<exists>m c1 s1. n = Suc m \<and> publish_loop env t e attempts b m (Suc k) (waits b k) c1 s1 = (Inr r, c', s') \<and>
      delivery c1 = (delivery c)\<lparr>dm_total_attempts := dm_total_attempts (delivery c) + 1\<rparr>)"
proof -
  obtain x c1 s2 where a: "publish_attempt env t e c (attempt_start env b k s) = (x, c1, s2)"
    by (cases "publish_attempt env t e c (attempt_start env b k s)")
  note d = publish_attempt_delivery[OF a]
  note loop = assms(1)[unfolded publish_loop_step[OF assms(2,3)] a prod.case]
  show ?thesis
  proof (cases x)
    case (Delivered_to response ack)
    with loop d assms(4) publish_attempt_delivered[OF a[unfolded Delivered_to]]
    show ?thesis by (auto simp: delivery_ok_def)
  next
    case (Blocked ex)
    with loop d assms(4) show ?thesis by (auto simp: delivery_ok_def publish_gave_up_def)
  next
    case (Failed_with ex)
    show ?thesis
    proof (cases n)
      case 0
      with Failed_with loop d assms(4) show ?thesis
        by (auto simp: delivery_ok_def publish_gave_up_def split: if_splits)
    next
      case (Suc m)
      with Failed_with loop d assms(4) show ?thesis
        by (auto simp: delivery_ok_def split: if_splits)
    qed
  next
    case (Escaped ex)
    with loop show ?thesis by simp
  qed
qed

lemma publish_loop_outcome:
  assumes "publish_loop env t e attempts b n k waited c s = (Inr r, c', s')"
    and "1 \<le> k" and "waited = (if k = 1 then 0 else waits b (k - 1))" and "attempts = int (k + n)"
  shows "\<exists>j. k \<le> j \<and> j \<le> k + n \<and>
    dm_total_attempts (delivery c') = dm_total_attempts (delivery c) + int (Suc j - k) \<and>
    delivery_ok attempts b j (delivery c) r (delivery c')"
  using assms
proof (induction n arbitrary: k waited c s)
  case 0
  then show ?case using publish_loop_first[OF 0] by auto
next
  case (Suc n)
  consider (ended) "dm_total_attempts (delivery c') = dm_total_attempts (delivery c) + 1"
      "delivery_ok attempts b k (delivery c) r (delivery c')"
    | (again) c1 s1 where "publish_loop env t e attempts b n (Suc k) (waits b k) c1 s1 = (Inr r, c', s')"
      "delivery c1 = (delivery c)\<lparr>dm_total_attempts := dm_total_attempts (delivery c) + 1\<rparr>"
    using publish_loop_first[OF Suc.prems] by auto
  then show ?case
  proof cases
    case ended
    then show ?thesis by (intro exI[of _ k]) auto
  next
    case again
    from Suc.IH[OF again(1)] Suc.prems obtain j where
      "Suc k \<le> j" "j \<le> Suc k + n" "dm_total_attempts (delivery c') = dm_total_attempts (delivery c1) + int (Suc j - Suc k)"
      "delivery_ok attempts b j (delivery c1) r (delivery c')"
      by auto
    with again(2) show ?thesis
      by (intro exI[of _ j]) (auto simp: delivery_ok_def split: option.splits)
  qed
qed

text \<open>A delivery that returns made at most five attempts and at most as many as asked for, and waited
  the sum of the doubled backoffs before them, at most fifteen times the first. It carries an
  acknowledgement exactly when it has no final error; the acknowledgement was extracted from the
  response and says that the event was accepted. Every attempt and one success or failure is
  counted.\<close>

theorem publish_retry_bounds:
  assumes "publish_event_with_retry_result env task_id event max_attempts initial_backoff c s = (Inr r, c', s')"
  shows "\<exists>made. 1 \<le> made \<and> int made \<le> min 5 (max 1 max_attempts) \<and>
    dm_total_attempts (delivery c') = dm_total_attempts (delivery c) + int made \<and>
    pr_total_delay r = max 1 initial_backoff * (2 ^ (made - 1) - 1) \<and>
    pr_total_delay r \<le> 15 * max 1 initial_backoff \<and>
    (case pr_ack r of
       Some ack \<Rightarrow> extract_ack_response (pr_response r) = Some ack \<and> dget ack ''accepted'' = PBool True \<and>
         pr_final_error r = None \<and> pr_attempts r = int made \<and>
         dm_successful (delivery c') = dm_successful (delivery c) + 1 \<and> dm_failed (delivery c') = dm_failed (delivery c)
     | None \<Rightarrow> pr_response r = None \<and> pr_final_error r \<noteq> None \<and>
         dm_successful (delivery c') = dm_successful (delivery c) \<and> dm_failed (delivery c') = dm_failed (delivery c) + 1)"
proof -
  define attempts where "attempts = max 1 (min max_attempts 5)"
  define b where "b = max 1 initial_backoff"
  have a: "1 \<le> attempts" "attempts \<le> 5" "attempts = min 5 (max 1 max_attempts)" by (auto simp: attempts_def)
  obtain n where n: "nat (attempts - 1) = n" "attempts = int (1 + n)"
    using a(1) by (metis diff_add_cancel int_nat_eq of_nat_1 of_nat_add add.commute diff_ge_0_iff_ge)
  from assms n(1) have loop: "publish_loop env task_id event attempts b n 1 0 c s = (Inr r, c', s')"
    by (simp add: publish_event_with_retry_result_def attempts_def b_def Let_def)
  obtain j where
    j: "1 \<le> j" "j \<le> 1 + n" "dm_total_attempts (delivery c') = dm_total_attempts (delivery c) + int j"
      "delivery_ok attempts b j (delivery c) r (delivery c')"
    using publish_loop_outcome[OF loop _ _ n(2)] by auto
  have j5: "j \<le> 5" "int j \<le> attempts" using j(2) n(2) a(2) by auto
  have "(2::rat) ^ (j - 1) \<le> 2 ^ 4" by (rule power_increasing) (use j5 in auto)
  then have "waits b j \<le> b * 15"
    unfolding waits_def by (intro mult_left_mono) (auto simp: b_def)
  with j j5 a(3) show ?thesis
    by (intro exI[of _ j]) (auto simp: delivery_ok_def waits_def b_def mult.commute split: option.splits)
qed

section \<open>An outage\<close>

text \<open>No request gets through; \<open>sent\<close> counts those to \<open>url\<close>, and sleeping takes its time.\<close>

definition outage :: "'s cp_env \<Rightarrow> ('s \<Rightarrow> nat) \<Rightarrow> string \<Rightarrow> bool" where
  "outage env sent url \<longleftrightarrow>
     (\<forall>req t s. (\<exists>e. fst (ce_http env req t s) = HttpUnreachable e) \<and>
        sent (snd (ce_http env req t s)) = sent s + of_bool (rq_url req = url)) \<and>
     (\<forall>d s. ce_monotonic env (ce_sleep env d s) = ce_monotonic env s + d \<and> sent (ce_sleep env d s) = sent s)"

definition events_url :: "cp_client \<Rightarrow> string \<Rightarrow> string" where
  "events_url c task_id = base_url c @ ''/api/v1/agent/tasks/'' @ quote task_id @ ''/events''"

lemma outage_auth:
  assumes "outage env sent (events_url c t)" "get_auth_header env c s = (h, c', s')"
  shows "sent s' = sent s"
proof -
  have "sent (snd (ce_http env req u s)) = sent s" if "rq_url req = base_url c @ ''/api/v1/auth/agent/token''" for req u
    using assms(1) that by (simp add: outage_def events_url_def)
  with assms(2) show ?thesis
    by (auto simp: get_auth_header_def obtain_jwt_def Let_def split: if_splits prod.splits http_outcome.splits option.splits)
      (metis http_request.select_convs(2) snd_conv)+
qed

lemma outage_publish:
  assumes "outage env sent (events_url c t)" "publish_event env t e c s = (r, c', s')"
  shows "(\<exists>m. r = Inl (request_error m True)) \<and> sent s' = sent s + 1"
proof -
  obtain h c1 s1 where h: "get_auth_header env c s = (h, c1, s1)" by (cases "get_auth_header env c s")
  have one: "(\<exists>x. fst (ce_http env req u s1) = HttpUnreachable x) \<and> sent (snd (ce_http env req u s1)) = sent s + 1"
    if "rq_url req = events_url c t" for req u
    using assms(1) that outage_auth[OF assms(1) h] by (simp add: outage_def)
  show ?thesis
    using assms(2) one unfolding publish_event_def post_json_def request_json_def
    by (auto simp: h Let_def map_payload_def build_url_def events_url_def split: prod.splits http_outcome.splits)
      (metis fst_conv snd_conv http_outcome.distinct http_request.select_convs(2))+
qed

lemma outage_attempt:
  assumes "outage env sent (events_url c t)" and "before_call (ce_monotonic env s) (event_breaker c) = Inr b"
  shows "\<exists>ex c' s'. publish_attempt env t e c s = (Failed_with ex, c', s') \<and> is_retryable ex \<and>
    event_breaker c' = after_failure (ce_monotonic env s') b \<and> base_url c' = base_url c \<and> sent s' = sent s + 1"
proof -
  let ?c = "count_attempt c\<lparr>event_breaker := b\<rparr>"
  obtain r c1 s1 where p: "publish_event env t e ?c s = (r, c1, s1)" by (cases "publish_event env t e ?c s")
  have u: "outage env sent (events_url ?c t)" using assms(1) by (simp add: events_url_def count_attempt_def)
  obtain m where m: "r = Inl (request_error m True)" "sent s1 = sent s + 1"
    using outage_publish[OF u p] by blast
  have "event_breaker c1 = b" using publish_event_keeps[OF p] by simp
  moreover have "base_url c1 = base_url c"
    using p by (auto simp: publish_event_def post_json_def map_payload_def request_json_def Let_def count_attempt_def
        dest: get_auth_header_keeps split: prod.splits http_outcome.splits sum.splits)
  ultimately show ?thesis
    using p m assms(2)
    by (simp add: publish_attempt_def guarded_publish_def count_attempt_def attempt_ends_def request_error_def
        is_breaker_open_error_def is_retryable_def)
qed

lemma blocked_attempt:
  "before_call (ce_monotonic env s) (event_breaker c) = Inl ex \<Longrightarrow>
   publish_attempt env t e c s = (Blocked ex, count_attempt c, s)"
  by (auto simp: publish_attempt_def guarded_publish_def count_attempt_def attempt_ends_def before_call_def
      open_error_def is_breaker_open_error_def split: if_splits)

text \<open>During an outage a fresh client that is allowed four or five attempts sends three requests
  only: the third failure opens its own breaker, whose recovery time is longer than the next backoff,
  so the fourth attempt is refused without a request. The result still reports all attempts allowed,
  and the documented five attempts are never made.\<close>

theorem outage_stops_after_three:
  assumes "outage env sent (events_url c task_id)"
    and "event_breaker c = new_breaker ''control_plane_events'' 3 60"
    and "4 \<le> max_attempts" and "initial_backoff < 15"
  shows "\<exists>r c' s'. publish_event_with_retry_result env task_id event max_attempts initial_backoff c s = (Inr r, c', s') \<and>
    sent s' = sent s + 3 \<and> pr_response r = None \<and> pr_breaker_triggered r \<and>
    pr_attempts r = min 5 max_attempts \<and> pr_total_delay r = 7 * max 1 initial_backoff \<and>
    status (event_breaker c') = Open"
proof -
  define b where "b = max 1 initial_backoff"
  have b: "b < 15" using assms(4) by (simp add: b_def)
  define attempts where "attempts = max 1 (min max_attempts 5)"
  obtain n where n: "nat (attempts - 1) = Suc (Suc (Suc n))"
  proof
    show "nat (attempts - 1) = Suc (Suc (Suc (nat (attempts - 4))))" using assms(3) by (simp add: attempts_def)
  qed
  let ?brk = "\<lambda>k. (new_breaker ''control_plane_events'' 3 60)\<lparr>failure_count := k\<rparr>"
  have admit: "before_call t (?brk k) = Inr (?brk k)" for t k by (simp add: before_call_def new_breaker_def)
  have count: "after_failure t (?brk k) = ?brk (k + 1)" if "k < 2" for t k
    using that by (simp add: after_failure_def new_breaker_def Let_def)
  have outage: "outage env sent (events_url c1 task_id)" if "base_url c1 = base_url c" for c1
    using assms(1) that by (simp add: events_url_def)
  obtain ex1 c1 s1 where 1: "publish_attempt env task_id event c (attempt_start env b 1 s) = (Failed_with ex1, c1, s1)"
      "is_retryable ex1" "event_breaker c1 = ?brk 1" "base_url c1 = base_url c" "sent s1 = sent s + 1"
  proof -
    have "before_call (ce_monotonic env (attempt_start env b 1 s)) (event_breaker c) = Inr (?brk 0)"
      by (simp add: assms(2) before_call_def new_breaker_def)
    from outage_attempt[OF assms(1) this, of event] that count[of 0] show thesis by (auto simp: attempt_start_def)
  qed
  have sent: "sent (attempt_start env b k s) = sent s" for k s
    using assms(1) by (simp add: outage_def attempt_start_def)
  obtain ex2 c2 s2 where 2: "publish_attempt env task_id event c1 (attempt_start env b 2 s1) = (Failed_with ex2, c2, s2)"
      "is_retryable ex2" "event_breaker c2 = ?brk 2" "base_url c2 = base_url c" "sent s2 = sent s + 2"
    using outage_attempt[OF outage[OF 1(4)], of "attempt_start env b 2 s1" "?brk 1" event] admit 1 count[of 1] sent that
    by auto
  obtain ex3 c3 s3 where 3: "publish_attempt env task_id event c2 (attempt_start env b 3 s2) = (Failed_with ex3, c3, s3)"
      "is_retryable ex3" "event_breaker c3 = after_failure (ce_monotonic env s3) (?brk 2)" "sent s3 = sent s + 3"
    using outage_attempt[OF outage[OF 2(4)], of "attempt_start env b 3 s2" "?brk 2" event] admit 2 sent that by auto
  have open3: "status (event_breaker c3) = Open" "opened_at (event_breaker c3) = ce_monotonic env s3"
      "recovery_timeout (event_breaker c3) = 60"
    using 3(3) by (auto simp: after_failure_def new_breaker_def Let_def)
  have "ce_monotonic env (attempt_start env b 4 s3) = ce_monotonic env s3 + b * 4"
    using assms(1) by (simp add: outage_def attempt_start_def)
  then have 4: "publish_attempt env task_id event c3 (attempt_start env b 4 s3) =
      (Blocked (open_error (event_breaker c3)), count_attempt c3, attempt_start env b 4 s3)"
    using open3 b by (intro blocked_attempt) (simp add: before_call_def)
  have "publish_loop env task_id event attempts b (nat (attempts - 1)) 1 0 c s =
      publish_gave_up attempts (waits b 4) True (open_error (event_breaker c3)) (count_open (count_attempt c3))
        (attempt_start env b 4 s3)"
    using 1(1,2) 2(1,2) 3(1,2) 4 unfolding n
    by (simp add: publish_loop_step numeral_2_eq_2 numeral_3_eq_3 eval_nat_numeral)
  then show ?thesis
    using open3 3(4) assms(3) sent
    by (auto simp: publish_event_with_retry_result_def publish_gave_up_def attempts_def b_def Let_def waits_def
        count_open_def count_attempt_def count_failure_def)
qed

section \<open>Examples\<close>

definition sample_client :: cp_client where
  "sample_client = new_cp_client ''http://cp'' ''token'' ''1'' 15"

definition sample_events_url :: string where
  "sample_events_url = ''http://cp/api/v1/agent/tasks/t1/events''"

text \<open>A network that is down: it counts the events sent and has a clock.\<close>

definition down_env :: "(nat \<times> rat) cp_env" where
  "down_env = \<lparr>ce_http = (\<lambda>req t s. (HttpUnreachable (NamedError ''URLError'' ''down''),
       (fst s + of_bool (rq_url req = sample_events_url), snd s))),
     ce_dumps = py_repr, ce_loads = (\<lambda>t. Inl ''no''), ce_monotonic = snd, ce_time = snd,
     ce_sleep = (\<lambda>d s. (fst s, snd s + d))\<rparr>"

lemma outage_down: "outage down_env fst (events_url sample_client ''t1'')"
proof -
  have "events_url sample_client ''t1'' = sample_events_url" by code_simp
  then show ?thesis by (simp add: outage_def down_env_def)
qed

text \<open>A quoted identifier stays one segment of the path.\<close>

lemma quote_one_segment: "set (quote t) \<inter> set ''/?#&= '' = {}"
proof -
  have "c \<notin> set ''/?#&= ''" if "is_unreserved c" for c
    using that by (auto simp: is_unreserved_def)
  moreover have "set (percent c) \<inter> set ''/?#&= '' = {}" for c
  proof -
    have "list_all (\<lambda>k. hex_upper k \<notin> set ''/?#&= '') [0..<16]" by code_simp
    then have "hex_upper k \<notin> set ''/?#&= ''" if "k < 16" for k
      using that unfolding list_all_iff set_upt by fastforce
    moreover have "(of_char c :: nat) div 16 < 16" "(of_char c :: nat) mod 16 < 16"
      by (auto simp: of_char_def)
    ultimately show ?thesis by (auto simp: percent_def Let_def)
  qed
  ultimately show ?thesis by (auto simp: quote_def split: if_splits)
qed

end
