(* ===== verification/Effects.thy ===== *)
theory Effects
  imports Prelude
begin

text \<open>
  Code that changes a state and may raise: an action takes the state and returns a result of
  \<open>py_exn + 'a\<close> with the state it leaves, also when it raises. The combinators are Python's control
  structures (sequence, \<open>try ... except Exception\<close>, \<open>try ... finally\<close>), and \<open>triple\<close> is the Hoare
  triple for such actions, with a condition for the normal and one for the exceptional end. The
  rules of the collection \<open>triple_rules\<close> follow the structure of an action.
\<close>

section \<open>Actions\<close>

type_synonym ('w, 'a) act = "'w \<Rightarrow> 'a result \<times> 'w"

definition ret :: "'a \<Rightarrow> ('w, 'a) act" where
  "ret x w = (Inr x, w)"

definition throw :: "py_exn \<Rightarrow> ('w, 'a) act" where
  "throw e w = (Inl e, w)"

definition get_with :: "('w \<Rightarrow> 'a) \<Rightarrow> ('w, 'a) act" where
  "get_with f w = (Inr (f w), w)"

definition modify :: "('w \<Rightarrow> 'w) \<Rightarrow> ('w, unit) act" where
  "modify f w = (Inr (), f w)"

text \<open>A value that may be an exception.\<close>

definition lift_result :: "'a result \<Rightarrow> ('w, 'a) act" where
  "lift_result r w = (r, w)"

definition bind :: "('w, 'a) act \<Rightarrow> ('a \<Rightarrow> ('w, 'b) act) \<Rightarrow> ('w, 'b) act" where
  "bind m f w = (case m w of (Inl e, w') \<Rightarrow> (Inl e, w') | (Inr a, w') \<Rightarrow> f a w')"

definition next_act :: "('w, 'a) act \<Rightarrow> ('w, 'b) act \<Rightarrow> ('w, 'b) act" where
  "next_act m n = bind m (\<lambda>_. n)"

text \<open>\<open>try: m except Exception as exc: h(exc)\<close>; \<open>catching P\<close> is an \<open>except\<close> clause for the exceptions
  that satisfy \<open>P\<close>.\<close>

definition catching :: "(py_exn \<Rightarrow> bool) \<Rightarrow> ('w, 'a) act \<Rightarrow> (py_exn \<Rightarrow> ('w, 'a) act) \<Rightarrow> ('w, 'a) act" where
  "catching P m h w = (case m w of (Inl e, w') \<Rightarrow> if P e then h e w' else (Inl e, w') | (Inr a, w') \<Rightarrow> (Inr a, w'))"

abbreviation try_except :: "('w, 'a) act \<Rightarrow> (py_exn \<Rightarrow> ('w, 'a) act) \<Rightarrow> ('w, 'a) act" where
  "try_except \<equiv> catching is_Exception"

text \<open>\<open>try: m finally: f\<close>, where \<open>f\<close> itself does not raise.\<close>

definition finally_do :: "('w, 'a) act \<Rightarrow> ('w \<Rightarrow> 'w) \<Rightarrow> ('w, 'a) act" where
  "finally_do m f w = (let (r, w') = m w in (r, f w'))"

definition when_do :: "bool \<Rightarrow> ('w, unit) act \<Rightarrow> ('w, unit) act" where
  "when_do b m = (if b then m else ret ())"

text \<open>\<open>for x in xs: f(x)\<close>.\<close>

fun for_each :: "('x \<Rightarrow> ('w, unit) act) \<Rightarrow> 'x list \<Rightarrow> ('w, unit) act" where
  "for_each f [] = ret ()"
| "for_each f (x # xs) = next_act (f x) (for_each f xs)"

named_theorems act_simps
lemmas act_defs [act_simps] =
  ret_def throw_def get_with_def modify_def lift_result_def bind_def next_act_def catching_def
  finally_do_def when_do_def

lemma bind_Inr: "m w = (Inr a, w') \<Longrightarrow> bind m f w = f a w'"
  by (simp add: bind_def)

lemma bind_Inl: "m w = (Inl e, w') \<Longrightarrow> bind m f w = (Inl e, w')"
  by (simp add: bind_def)

lemma next_Inr: "m w = (Inr a, w') \<Longrightarrow> next_act m n w = n w'"
  by (simp add: next_act_def bind_def)

lemma next_Inl: "m w = (Inl e, w') \<Longrightarrow> next_act m n w = (Inl e, w')"
  by (simp add: next_act_def bind_def)

section \<open>Hoare triples\<close>

definition triple ::
  "('w \<Rightarrow> bool) \<Rightarrow> ('w, 'a) act \<Rightarrow> ('a \<Rightarrow> 'w \<Rightarrow> bool) \<Rightarrow> (py_exn \<Rightarrow> 'w \<Rightarrow> bool) \<Rightarrow> bool" where
  "triple P m Q E \<longleftrightarrow> (\<forall>w. P w \<longrightarrow> (case m w of (Inl e, w') \<Rightarrow> E e w' | (Inr a, w') \<Rightarrow> Q a w'))"

lemma tripleI:
  "(\<And>w e w'. P w \<Longrightarrow> m w = (Inl e, w') \<Longrightarrow> E e w') \<Longrightarrow> (\<And>w a w'. P w \<Longrightarrow> m w = (Inr a, w') \<Longrightarrow> Q a w')
    \<Longrightarrow> triple P m Q E"
  by (auto simp: triple_def split: prod.split sum.split)

lemma tripleD_Inr: "triple P m Q E \<Longrightarrow> P w \<Longrightarrow> m w = (Inr a, w') \<Longrightarrow> Q a w'"
  by (fastforce simp: triple_def)

lemma tripleD_Inl: "triple P m Q E \<Longrightarrow> P w \<Longrightarrow> m w = (Inl e, w') \<Longrightarrow> E e w'"
  by (fastforce simp: triple_def)

named_theorems triple_rules

lemma triple_ret [triple_rules]: "(\<And>w. P w \<Longrightarrow> Q x w) \<Longrightarrow> triple P (ret x) Q E"
  by (simp add: triple_def ret_def)

lemma triple_throw [triple_rules]: "(\<And>w. P w \<Longrightarrow> E e w) \<Longrightarrow> triple P (throw e) Q E"
  by (simp add: triple_def throw_def)

lemma triple_get [triple_rules]: "(\<And>w. P w \<Longrightarrow> Q (f w) w) \<Longrightarrow> triple P (get_with f) Q E"
  by (simp add: triple_def get_with_def)

lemma triple_modify [triple_rules]: "(\<And>w. P w \<Longrightarrow> Q () (f w)) \<Longrightarrow> triple P (modify f) Q E"
  by (simp add: triple_def modify_def)

lemma triple_lift [triple_rules]:
  "(\<And>w a. P w \<Longrightarrow> r = Inr a \<Longrightarrow> Q a w) \<Longrightarrow> (\<And>w e. P w \<Longrightarrow> r = Inl e \<Longrightarrow> E e w) \<Longrightarrow> triple P (lift_result r) Q E"
  by (auto simp: triple_def lift_result_def split: sum.split)

lemma triple_bind:
  "triple P m R E \<Longrightarrow> (\<And>a. triple (R a) (f a) Q E) \<Longrightarrow> triple P (bind m f) Q E"
  by (fastforce simp: triple_def bind_def split: prod.splits sum.splits)

lemma triple_next:
  "triple P m R E \<Longrightarrow> (\<And>a. triple (R a) n Q E) \<Longrightarrow> triple P (next_act m n) Q E"
  unfolding next_act_def by (rule triple_bind)

lemma triple_catching:
  "triple P m Q F \<Longrightarrow> (\<And>e. C e \<Longrightarrow> triple (F e) (h e) Q E) \<Longrightarrow> (\<And>e w. \<not> C e \<Longrightarrow> F e w \<Longrightarrow> E e w)
    \<Longrightarrow> triple P (catching C m h) Q E"
  by (fastforce simp: triple_def catching_def split: prod.splits sum.splits)

lemma triple_finally:
  "triple P m (\<lambda>a w. Q a (f w)) (\<lambda>e w. E e (f w)) \<Longrightarrow> triple P (finally_do m f) Q E"
  by (fastforce simp: triple_def finally_do_def split: prod.splits sum.splits)

lemma triple_if [triple_rules]:
  "(b \<Longrightarrow> triple P m Q E) \<Longrightarrow> (\<not> b \<Longrightarrow> triple P n Q E) \<Longrightarrow> triple P (if b then m else n) Q E"
  by simp

lemma triple_when [triple_rules]:
  "(b \<Longrightarrow> triple P m Q E) \<Longrightarrow> (\<And>w. \<not> b \<Longrightarrow> P w \<Longrightarrow> Q () w) \<Longrightarrow> triple P (when_do b m) Q E"
  by (auto simp: when_do_def triple_def ret_def)

lemma triple_for_each:
  "(\<And>x. x \<in> set xs \<Longrightarrow> triple I (f x) (\<lambda>_. I) E) \<Longrightarrow> triple I (for_each f xs) (\<lambda>_. I) E"
proof (induction xs)
  case Nil
  show ?case by (simp add: triple_ret)
next
  case (Cons x xs)
  have "triple I (f x) (\<lambda>_. I) E" by (rule Cons.prems) simp
  moreover have "triple I (for_each f xs) (\<lambda>_. I) E" by (rule Cons.IH) (simp add: Cons.prems)
  ultimately show ?case unfolding for_each.simps by (rule triple_next)
qed

lemma triple_conseq:
  "triple P m Q E \<Longrightarrow> (\<And>w. P' w \<Longrightarrow> P w) \<Longrightarrow> (\<And>a w. Q a w \<Longrightarrow> Q' a w) \<Longrightarrow> (\<And>e w. E e w \<Longrightarrow> E' e w)
    \<Longrightarrow> triple P' m Q' E'"
  by (fastforce simp: triple_def split: prod.splits sum.splits)

lemma triple_pre: "(\<And>w. P w \<Longrightarrow> triple (\<lambda>v. v = w) m Q E) \<Longrightarrow> triple P m Q E"
  by (simp add: triple_def)

text \<open>An invariant that an action keeps, however it ends.\<close>

definition keeps :: "('w \<Rightarrow> bool) \<Rightarrow> ('w, 'a) act \<Rightarrow> bool" where
  "keeps I m \<longleftrightarrow> triple I m (\<lambda>_. I) (\<lambda>_. I)"

named_theorems keeps_rules

lemma keeps_iff: "keeps I m \<longleftrightarrow> (\<forall>w. I w \<longrightarrow> I (snd (m w)))"
proof -
  have "(case m w of (Inl e, w') \<Rightarrow> I w' | (Inr a, w') \<Rightarrow> I w') = I (snd (m w))" for w
    by (cases "m w"; cases "fst (m w)") auto
  then show ?thesis by (simp add: keeps_def triple_def)
qed

lemma keepsD: "keeps I m \<Longrightarrow> I w \<Longrightarrow> I (snd (m w))"
  by (simp add: keeps_iff)

lemma keepsI: "(\<And>w. I w \<Longrightarrow> I (snd (m w))) \<Longrightarrow> keeps I m"
  by (simp add: keeps_iff)

lemma keeps_ret [keeps_rules]: "keeps I (ret x)" by (simp add: keeps_def triple_ret)
lemma keeps_throw [keeps_rules]: "keeps I (throw e)" by (simp add: keeps_def triple_throw)
lemma keeps_get [keeps_rules]: "keeps I (get_with f)" by (simp add: keeps_def triple_get)
lemma keeps_lift [keeps_rules]: "keeps I (lift_result r)" by (simp add: keeps_def triple_lift)
lemma keeps_modify [keeps_rules]: "(\<And>w. I w \<Longrightarrow> I (f w)) \<Longrightarrow> keeps I (modify f)"
  by (simp add: keeps_def triple_modify)
lemma keeps_bind [keeps_rules]: "keeps I m \<Longrightarrow> (\<And>a. keeps I (f a)) \<Longrightarrow> keeps I (bind m f)"
  unfolding keeps_def by (rule triple_bind)
lemma keeps_next [keeps_rules]: "keeps I m \<Longrightarrow> keeps I n \<Longrightarrow> keeps I (next_act m n)"
  unfolding keeps_def by (rule triple_next)
lemma keeps_catching [keeps_rules]: "keeps I m \<Longrightarrow> (\<And>e. keeps I (h e)) \<Longrightarrow> keeps I (catching C m h)"
  unfolding keeps_def by (rule triple_catching)
lemma keeps_finally [keeps_rules]: "keeps I m \<Longrightarrow> (\<And>w. I w \<Longrightarrow> I (f w)) \<Longrightarrow> keeps I (finally_do m f)"
  unfolding keeps_def by (rule triple_finally) (auto elim: triple_conseq)
lemma keeps_if [keeps_rules]: "(b \<Longrightarrow> keeps I m) \<Longrightarrow> (\<not> b \<Longrightarrow> keeps I n) \<Longrightarrow> keeps I (if b then m else n)"
  by simp
lemma keeps_when [keeps_rules]: "(b \<Longrightarrow> keeps I m) \<Longrightarrow> keeps I (when_do b m)"
  by (simp add: when_do_def keeps_ret)
lemma keeps_for_each [keeps_rules]: "(\<And>x. keeps I (f x)) \<Longrightarrow> keeps I (for_each f xs)"
  unfolding keeps_def by (rule triple_for_each)
lemma keeps_option [keeps_rules]:
  "keeps I m \<Longrightarrow> (\<And>x. keeps I (f x)) \<Longrightarrow> keeps I (case v of None \<Rightarrow> m | Some x \<Rightarrow> f x)"
  by (cases v) simp_all

end
