(* ===== verification/Observability.thy ===== *)
theory Observability
  imports Effects "HOL-Library.Product_Lexorder"
begin

text \<open>
  The observation of a task, \<open>utils/observability.py\<close>: the spans of its stages, its metrics, and the
  summary that is attached to its terminal event. The metrics are a list of pairs of the key
  \<open>(name, unit, tags)\<close> and the sum; the spans are the dictionaries the code builds. Clock readings are
  arguments. Copies of dictionaries are the dictionaries themselves, values that nothing changes in place.
  The export to Prometheus, which cannot fail, is left out.
\<close>

section \<open>Texts, attributes and tags\<close>

definition safe_text :: "pyval \<Rightarrow> string \<Rightarrow> string" where
  "safe_text v fallback =
     (if v = PNone then fallback
      else let s = strip (py_str v) in if s = [] then fallback else s)"

fun is_scalar :: "pyval \<Rightarrow> bool" where
  "is_scalar (PList _) = False"
| "is_scalar (PDict _) = False"
| "is_scalar _ = True"

fun normalize_attributes :: "pydict \<Rightarrow> pydict \<Rightarrow> pydict" where
  "normalize_attributes acc [] = acc"
| "normalize_attributes acc ((key, v) # rest) =
     (let safe_key = safe_text (PStr key) [] in
      if safe_key = [] then normalize_attributes acc rest
      else normalize_attributes (AList.update safe_key (if is_scalar v then v else PStr (py_str v)) acc) rest)"

fun normalize_tags :: "(string \<times> string) list \<Rightarrow> pydict \<Rightarrow> (string \<times> string) list" where
  "normalize_tags acc [] = acc"
| "normalize_tags acc ((key, v) # rest) =
     (let safe_key = safe_text (PStr key) []; safe_value = safe_text v [] in
      if safe_key = [] \<or> safe_value = [] then normalize_tags acc rest
      else normalize_tags (AList.update safe_key safe_value acc) rest)"

section \<open>The observation\<close>

type_synonym metric_key = "string \<times> string \<times> (string \<times> string) list"

record observation =
  ob_task_id :: string
  ob_trace_id :: string
  ob_run_id :: string
  ob_engine :: string
  ob_started_at :: rat
  ob_spans :: "pydict list"
  ob_metrics :: "(metric_key \<times> rat) list"
  ob_summary :: "pydict option"

definition new_observation :: "string \<Rightarrow> string \<Rightarrow> string \<Rightarrow> string \<Rightarrow> rat \<Rightarrow> observation" where
  "new_observation task_id trace_id run_id engine now =
     \<lparr>ob_task_id = task_id, ob_trace_id = trace_id, ob_run_id = run_id,
      ob_engine = (if engine = [] then ''legacy'' else engine), ob_started_at = now,
      ob_spans = [], ob_metrics = [], ob_summary = None\<rparr>"

text \<open>\<open>int(q)\<close>.\<close>

definition trunc :: "rat \<Rightarrow> int" where
  "trunc q = (if q < 0 then \<lceil>q\<rceil> else \<lfloor>q\<rfloor>)"

text \<open>The end of the context manager \<open>span\<close>: \<open>error\<close> is the exception that left its body, if one did.
  An exception that is no \<open>Exception\<close> leaves the status as it is.\<close>

definition end_span ::
  "string \<Rightarrow> string \<Rightarrow> pydict \<Rightarrow> rat \<Rightarrow> rat \<Rightarrow> py_exn option \<Rightarrow> observation \<Rightarrow> observation" where
  "end_span name stage attributes started_at now error ob =
     (let attrs = normalize_attributes [] attributes;
          failed = (case error of Some e \<Rightarrow> is_Exception e | None \<Rightarrow> False);
          attrs' = (case error of
              Some e \<Rightarrow> if failed \<and> \<not> has_key attrs ''error'' then attrs @ [(''error'', PStr (exn_text e))] else attrs
            | None \<Rightarrow> attrs);
          duration_s = max 0 (now - started_at)
      in ob\<lparr>ob_spans := ob_spans ob @
           [[(''name'', PStr (safe_text (PStr name) ''unknown_span'')),
             (''stage'', PStr (safe_text (PStr stage) ''unknown_stage'')),
             (''status'', PStr (if failed then ''error'' else ''ok'')),
             (''durationMs'', PInt (max 0 (trunc (duration_s * 1000)))),
             (''attributes'', PDict attrs')]]\<rparr>)"

definition record_metric :: "string \<Rightarrow> rat \<Rightarrow> string \<Rightarrow> pydict \<Rightarrow> observation \<Rightarrow> observation" where
  "record_metric name v unit_text tags ob =
     (let key = (safe_text (PStr name) ''unknown_metric'', safe_text (PStr unit_text) ''count'',
                 sort (normalize_tags [] tags))
      in ob\<lparr>ob_metrics := AList.map_default key v (\<lambda>old. old + v) (ob_metrics ob)\<rparr>)"

definition record_event_publish :: "string \<Rightarrow> int \<Rightarrow> observation \<Rightarrow> observation" where
  "record_event_publish event_type attempts ob =
     (let safe_event_type = safe_text (PStr event_type) ''unknown_event'';
          tags = [(''eventType'', PStr safe_event_type), (''engine'', PStr (ob_engine ob))]
      in record_metric ''event_publish_attempts_total'' (of_int (max 1 attempts)) ''count'' tags
           (record_metric ''event_publish_total'' 1 ''count'' tags ob))"

section \<open>The summary\<close>

definition export_metrics :: "(metric_key \<times> rat) list \<Rightarrow> pyval list" where
  "export_metrics metrics =
     map (\<lambda>((name, unit_text, tags), v).
            PDict [(''name'', PStr name), (''unit'', PStr unit_text),
                   (''value'', if of_int \<lfloor>v\<rfloor> = v then PInt \<lfloor>v\<rfloor> else PFloat (round_to 3 v)),
                   (''tags'', PDict (map (\<lambda>(k, t). (k, PStr t)) tags))])
       (sort_key fst metrics)"

text \<open>What is known of the task at its end.\<close>

record task_end =
  te_status :: string
  te_intent :: string
  te_reason :: string
  te_generation_target :: string
  te_fix_attempts :: int
  te_fix_success :: "bool option"

definition count_task_end :: "task_end \<Rightarrow> observation \<Rightarrow> observation" where
  "count_task_end te ob =
     (let status = safe_text (PStr (te_status te)) ''unknown'';
          intent = safe_text (PStr (te_intent te)) ''unknown'';
          engine = (''engine'', PStr (ob_engine ob));
          target = safe_text (PStr (te_generation_target te)) [];
          ob1 = record_metric ''task_total'' 1 ''count''
                  [(''status'', PStr status), (''intent'', PStr intent), engine] ob;
          ob2 = (if target \<noteq> []
                 then record_metric ''generation_total'' 1 ''count''
                        [(''status'', PStr status), (''target'', PStr target), engine] ob1
                 else ob1);
          fix_status = (if te_fix_success te = Some True then ''success'' else ''failed'');
          tags = [(''status'', PStr fix_status), (''intent'', PStr intent), engine]
      in if te_fix_attempts te > 0 \<or> te_fix_success te \<noteq> None
         then record_metric ''fix_loop_attempts_total'' (of_int (max 0 (te_fix_attempts te))) ''count'' tags
                (record_metric ''fix_loop_total'' 1 ''count'' tags ob2)
         else ob2)"

definition summarize :: "task_end \<Rightarrow> rat \<Rightarrow> observation \<Rightarrow> pydict" where
  "summarize te now ob =
     (let reason = safe_text (PStr (te_reason te)) [] in
      [(''traceId'', PStr (ob_trace_id ob)), (''runId'', PStr (ob_run_id ob)),
       (''engine'', PStr (ob_engine ob)),
       (''taskStatus'', PStr (safe_text (PStr (te_status te)) ''unknown'')),
       (''intent'', PStr (safe_text (PStr (te_intent te)) ''unknown'')),
       (''totalDurationMs'', PInt (max 0 (trunc ((now - ob_started_at ob) * 1000)))),
       (''spanCount'', PInt (int (length (ob_spans ob)))),
       (''spans'', PList (map PDict (ob_spans ob))),
       (''metrics'', PList (export_metrics (ob_metrics ob)))] @
      (if reason \<noteq> [] then [(''reason'', PStr reason)] else []))"

text \<open>\<open>finalize\<close>: the first call fixes the summary.\<close>

definition finalize :: "task_end \<Rightarrow> rat \<Rightarrow> observation \<Rightarrow> pydict \<times> observation" where
  "finalize te now ob =
     (case ob_summary ob of
        Some s \<Rightarrow> (s, ob)
      | None \<Rightarrow>
          let ob' = count_task_end te ob; s = summarize te now ob' in (s, ob'\<lparr>ob_summary := Some s\<rparr>))"

section \<open>Payloads\<close>

definition set_default :: "string \<Rightarrow> pyval \<Rightarrow> pydict \<Rightarrow> pydict" where
  "set_default k v d = (if has_key d k then d else d @ [(k, v)])"

text \<open>An identifier that the payload brings along is kept, and the one of the task added beside it.\<close>

definition enrich_id :: "string \<Rightarrow> string \<Rightarrow> string \<Rightarrow> pydict \<Rightarrow> pydict" where
  "enrich_id key task_key own d =
     (let current = safe_text (dget d key) [] in
      if current \<noteq> [] \<and> current \<noteq> own then set_default task_key (PStr own) d
      else AList.update key (PStr own) d)"

definition enrich_payload :: "observation \<Rightarrow> pydict \<Rightarrow> pydict" where
  "enrich_payload ob payload =
     set_default ''engine'' (PStr (ob_engine ob))
       (enrich_id ''runId'' ''taskRunId'' (ob_run_id ob)
          (enrich_id ''traceId'' ''taskTraceId'' (ob_trace_id ob) payload))"

definition attach_terminal :: "task_end \<Rightarrow> rat \<Rightarrow> pydict \<Rightarrow> observation \<Rightarrow> pydict \<times> observation" where
  "attach_terminal te now payload ob =
     (let (s, ob') = finalize te now ob in (AList.update ''observability'' (PDict s) payload, ob'))"

section \<open>Facts\<close>

lemma record_metric_keeps [simp]:
  "ob_summary (record_metric n v u tags ob) = ob_summary ob"
  "ob_trace_id (record_metric n v u tags ob) = ob_trace_id ob"
  "ob_run_id (record_metric n v u tags ob) = ob_run_id ob"
  "ob_engine (record_metric n v u tags ob) = ob_engine ob"
  "ob_spans (record_metric n v u tags ob) = ob_spans ob"
  by (simp_all add: record_metric_def Let_def)

lemma record_event_publish_keeps [simp]:
  "ob_summary (record_event_publish t a ob) = ob_summary ob"
  "ob_trace_id (record_event_publish t a ob) = ob_trace_id ob"
  "ob_run_id (record_event_publish t a ob) = ob_run_id ob"
  "ob_engine (record_event_publish t a ob) = ob_engine ob"
  by (simp_all add: record_event_publish_def Let_def)

lemma end_span_keeps [simp]:
  "ob_summary (end_span n st a t now err ob) = ob_summary ob"
  "ob_metrics (end_span n st a t now err ob) = ob_metrics ob"
  "ob_trace_id (end_span n st a t now err ob) = ob_trace_id ob"
  "ob_run_id (end_span n st a t now err ob) = ob_run_id ob"
  "ob_engine (end_span n st a t now err ob) = ob_engine ob"
  by (simp_all add: end_span_def Let_def)

lemma dget_set_default:
  "dget (set_default k v d) k' = (if k' = k \<and> \<not> has_key d k then v else dget d k')"
  by (auto simp: set_default_def dget_def has_key_def map_add_def split: option.splits)

text \<open>The summary of a task never changes once it is made, so a later end of the task is reported with
  the first one's status, and counted no more.\<close>

lemma finalize_once:
  assumes "finalize te now ob = (s, ob')"
  shows "ob_summary ob' = Some s" "finalize te' now' ob' = (s, ob')"
  using assms by (auto simp: finalize_def Let_def split: option.splits)

lemma finalize_status:
  "ob_summary ob = None \<Longrightarrow> dget (fst (finalize te now ob)) ''taskStatus'' = PStr (safe_text (PStr (te_status te)) ''unknown'')"
  by (simp add: finalize_def Let_def summarize_def dget_def)

end
