(* ===== verification/Base_Agent.thy ===== *)
theory Base_Agent
  imports Observability Control_Plane
begin

text \<open>
  What all agents share, \<open>agents/base_agent.py\<close>: events numbered per task, with an outbox that holds an
  event until it is delivered, and the observation of the task (\<open>Observability\<close>) that travels in the
  task dictionary.

  The world of an agent is the task it works on, the observation attached to that task
  (\<open>task["_observability"]\<close>), the numbers and the outbox of the agent object, and everything outside, a
  state of any type that clocks, fresh identifiers and the client read and change. The client is one of
  the three kinds the code distinguishes with \<open>getattr\<close>.
\<close>

section \<open>The world of an agent\<close>

record 's agent_world =
  aw_task :: pydict
  aw_obs :: "observation option"
  aw_seq :: "string \<rightharpoonup> int"
  aw_outbox :: "string \<rightharpoonup> pydict list"
  aw_ext :: 's

datatype 's event_client =
    WithRetryResult "string \<Rightarrow> pydict \<Rightarrow> 's \<Rightarrow> publish_result result \<times> 's"
  | WithRetry "string \<Rightarrow> pydict \<Rightarrow> 's \<Rightarrow> unit result \<times> 's"
  | PlainPublish "string \<Rightarrow> pydict \<Rightarrow> 's \<Rightarrow> unit result \<times> 's"

text \<open>\<open>uuid4().hex\<close>, the current time as text and the monotonic clock.\<close>

record 's agent_env =
  ae_uuid :: "'s \<Rightarrow> string \<times> 's"
  ae_timestamp :: "'s \<Rightarrow> string"
  ae_monotonic :: "'s \<Rightarrow> rat"
  ae_client :: "'s event_client"

text \<open>An operation of the outside world.\<close>

definition outside :: "('s \<Rightarrow> 'a result \<times> 's) \<Rightarrow> ('s agent_world, 'a) act" where
  "outside f w = (let (r, s) = f (aw_ext w) in (r, w\<lparr>aw_ext := s\<rparr>))"

definition uuid_hex :: "'s agent_env \<Rightarrow> ('s agent_world, string) act" where
  "uuid_hex env = outside (\<lambda>s. let (u, s') = ae_uuid env s in (Inr u, s'))"

text \<open>\<open>str(task.get(key, "")).strip()\<close>.\<close>

definition field_text :: "pydict \<Rightarrow> string \<Rightarrow> string" where
  "field_text d key = strip (py_str (dget_or d key (PStr [])))"

fun first_non_blank :: "pyval list \<Rightarrow> string option" where
  "first_non_blank [] = None"
| "first_non_blank (v # vs) =
     (if v = PNone then first_non_blank vs
      else let s = strip (py_str v) in if s \<noteq> [] then Some s else first_non_blank vs)"

section \<open>Observing the task\<close>

text \<open>\<open>_safe_text(task.get(key)) or f"prefix_{task_id}_{uuid4().hex[:8]}"\<close>.\<close>

definition task_identifier :: "'s agent_env \<Rightarrow> string \<Rightarrow> string \<Rightarrow> string \<Rightarrow> ('s agent_world, string) act" where
  "task_identifier env key pre task_id =
     bind (get_with (\<lambda>w. safe_text (dget (aw_task w) key) []))
       (\<lambda>s. if s \<noteq> [] then ret s
            else bind (uuid_hex env) (\<lambda>u. ret (pre @ ''_'' @ task_id @ ''_'' @ take 8 u)))"

definition ensure_observability :: "'s agent_env \<Rightarrow> string \<Rightarrow> ('s agent_world, observation) act" where
  "ensure_observability env engine =
     bind (get_with id) (\<lambda>w0.
       case aw_obs w0 of
         Some ob \<Rightarrow> ret ob
       | None \<Rightarrow>
           let task = aw_task w0; task_id = safe_text (dget task ''taskId'') ''task'';
               resolved = safe_text (py_or (py_or (PStr engine) (dget task ''_agentEngine'')) (dget task ''engine'')) ''legacy''
           in bind (task_identifier env ''traceId'' ''trc'' task_id) (\<lambda>trace_id.
              bind (task_identifier env ''runId'' ''run'' task_id) (\<lambda>run_id.
              bind (get_with (\<lambda>w. new_observation task_id trace_id run_id resolved (ae_monotonic env (aw_ext w)))) (\<lambda>ob.
              next_act (modify (\<lambda>w. w\<lparr>aw_obs := Some ob,
                  aw_task := AList.update ''runId'' (PStr run_id) (AList.update ''traceId'' (PStr trace_id) (aw_task w))\<rparr>))
                (ret ob)))))"

definition ensure_own :: "'s agent_env \<Rightarrow> ('s agent_world, observation) act" where
  "ensure_own env = bind (get_with (\<lambda>w. field_text (aw_task w) ''_agentEngine'')) (ensure_observability env)"

definition change_obs :: "(observation \<Rightarrow> observation) \<Rightarrow> ('s agent_world, unit) act" where
  "change_obs f = modify (\<lambda>w. w\<lparr>aw_obs := map_option f (aw_obs w)\<rparr>)"

text \<open>\<open>with observe_task_span(...): m\<close>.\<close>

definition with_span :: "'s agent_env \<Rightarrow> string \<Rightarrow> string \<Rightarrow> pydict \<Rightarrow> ('s agent_world, 'a) act \<Rightarrow> ('s agent_world, 'a) act" where
  "with_span env name stage attributes m =
     next_act (ensure_own env)
       (bind (get_with (\<lambda>w. ae_monotonic env (aw_ext w))) (\<lambda>started w.
          let (r, w') = m w;
              error = (case r of Inl e \<Rightarrow> Some e | Inr _ \<Rightarrow> None)
          in (r, w'\<lparr>aw_obs := map_option (end_span name stage attributes started (ae_monotonic env (aw_ext w')) error) (aw_obs w')\<rparr>)))"

definition record_publish :: "'s agent_env \<Rightarrow> pydict \<Rightarrow> int \<Rightarrow> ('s agent_world, unit) act" where
  "record_publish env event attempts =
     next_act (ensure_own env) (change_obs (record_event_publish (field_text event ''type'') attempts))"

section \<open>Numbers and the outbox\<close>

definition next_seq :: "string \<Rightarrow> ('s agent_world, int) act" where
  "next_seq task_id w =
     (let current = (case aw_seq w task_id of None \<Rightarrow> 0 | Some n \<Rightarrow> n)
      in (Inr current, w\<lparr>aw_seq := (aw_seq w)(task_id \<mapsto> current + 1)\<rparr>))"

definition pending_outbox :: "string \<Rightarrow> 's agent_world \<Rightarrow> pydict list" where
  "pending_outbox task_id w = (case aw_outbox w task_id of None \<Rightarrow> [] | Some es \<Rightarrow> es)"

definition enqueue_outbox :: "string \<Rightarrow> pydict \<Rightarrow> ('s agent_world, unit) act" where
  "enqueue_outbox task_id event =
     modify (\<lambda>w. w\<lparr>aw_outbox := (aw_outbox w)(task_id \<mapsto> pending_outbox task_id w @ [event])\<rparr>)"

definition ack_outbox :: "string \<Rightarrow> string \<Rightarrow> ('s agent_world, unit) act" where
  "ack_outbox task_id event_id =
     modify (\<lambda>w. let kept = filter (\<lambda>item. field_text item ''eventId'' \<noteq> event_id) (pending_outbox task_id w)
                 in w\<lparr>aw_outbox := (aw_outbox w)(task_id := if kept = [] then None else Some kept)\<rparr>)"

section \<open>Publishing\<close>

definition build_event :: "'s agent_env \<Rightarrow> pyval \<Rightarrow> pydict \<Rightarrow> int \<Rightarrow> ('s agent_world, pydict) act" where
  "build_event env event_type payload seq =
     bind (get_with aw_task) (\<lambda>task.
     bind (uuid_hex env) (\<lambda>u.
     bind (get_with (\<lambda>w. ae_timestamp env (aw_ext w))) (\<lambda>now.
       let session_id = first_non_blank [dget task ''sessionId'', dget task ''sessionKey''];
           assistant = first_non_blank [dget task ''assistant'', PStr ''ai-agent'']
       in ret ([(''eventId'', PStr (''evt_'' @ u)), (''eventVersion'', PInt 1),
                (''taskId'', PStr (field_text task ''taskId'')),
                (''assistant'', (case assistant of None \<Rightarrow> PNone | Some a \<Rightarrow> PStr a)),
                (''type'', event_type), (''timestamp'', PStr now), (''seq'', PInt (max seq 0)),
                (''payload'', PDict payload)] @
               (case session_id of None \<Rightarrow> [] | Some s \<Rightarrow> [(''sessionId'', PStr s)])))))"

definition deliver_event :: "'s agent_env \<Rightarrow> pydict \<Rightarrow> ('s agent_world, unit) act" where
  "deliver_event env event =
     bind (get_with (\<lambda>w. field_text (aw_task w) ''taskId'')) (\<lambda>task_id.
       case ae_client env of
         WithRetryResult f \<Rightarrow>
           bind (outside (f task_id event)) (\<lambda>r. record_publish env event (max 1 (pr_attempts r)))
       | WithRetry f \<Rightarrow> next_act (outside (f task_id event)) (record_publish env event 1)
       | PlainPublish f \<Rightarrow> next_act (outside (f task_id event)) (record_publish env event 1))"

definition flush_one :: "'s agent_env \<Rightarrow> string \<Rightarrow> pydict \<Rightarrow> ('s agent_world, unit) act" where
  "flush_one env task_id event =
     next_act (deliver_event env event) (ack_outbox task_id (field_text event ''eventId''))"

definition flush_outbox :: "'s agent_env \<Rightarrow> ('s agent_world, unit) act" where
  "flush_outbox env =
     bind (get_with (\<lambda>w. field_text (aw_task w) ''taskId'')) (\<lambda>task_id.
     bind (get_with (pending_outbox task_id)) (\<lambda>pending.
       for_each (flush_one env task_id) pending))"

text \<open>\<open>dict(payload or {})\<close> of a dictionary or of a text; the first character of a text is no pair.\<close>

definition payload_dict :: "pyval \<Rightarrow> pydict result" where
  "payload_dict v =
     (case v of
        PDict d \<Rightarrow> Inr d
      | PNone \<Rightarrow> Inr []
      | PStr [] \<Rightarrow> Inr []
      | PStr s \<Rightarrow> Inl (ValueError ''dictionary update sequence element #0 has length 1; 2 is required'')
      | _ \<Rightarrow> Inl (TypeError (quote_text (type_name v) @ '' object is not iterable'')))"

text \<open>\<open>BaseAgent.publish_event\<close>, on a payload and an event type as they are passed.\<close>

definition publish_any :: "'s agent_env \<Rightarrow> pyval \<Rightarrow> pyval \<Rightarrow> ('s agent_world, unit) act" where
  "publish_any env event_type payload =
     bind (get_with (\<lambda>w. field_text (aw_task w) ''taskId'')) (\<lambda>task_id.
       if task_id = [] then throw (ValueError ''task.taskId is required'')
       else
         bind (ensure_own env) (\<lambda>ob.
         next_act (flush_outbox env)
           (bind (lift_result (payload_dict payload)) (\<lambda>d.
            bind (get_with (\<lambda>w. enrich_payload (case aw_obs w of Some ob' \<Rightarrow> ob' | None \<Rightarrow> ob) d)) (\<lambda>enriched.
            bind (next_seq task_id) (\<lambda>seq.
            bind (build_event env event_type enriched seq) (\<lambda>event.
            next_act (enqueue_outbox task_id event)
              (next_act (deliver_event env event)
                 (ack_outbox task_id (field_text event ''eventId''))))))))))"

definition publish :: "'s agent_env \<Rightarrow> string \<Rightarrow> pydict \<Rightarrow> ('s agent_world, unit) act" where
  "publish env event_type payload = publish_any env (PStr event_type) (PDict payload)"

text \<open>\<open>DefaultAiAgent.handle_task\<close>.\<close>

definition default_handle_task :: "'s agent_env \<Rightarrow> ('s agent_world, unit) act" where
  "default_handle_task env =
     bind (get_with (\<lambda>w. field_text (aw_task w) ''prompt'')) (\<lambda>prompt.
     next_act (publish env ''ASSISTANT_OUTPUT''
                 [(''message'', PStr ''AI agent accepted task, planning next steps.''), (''prompt'', PStr prompt)])
       (publish env ''TASK_DONE'' [(''result'', PStr ''accepted_for_ai_pipeline'')]))"

section \<open>Facts about single steps\<close>

lemma bind_get [simp]: "bind (get_with f) g w = g (f w) w"
  by (simp add: bind_def get_with_def)

lemma next_modify [simp]: "next_act (modify f) n w = n (f w)"
  by (simp add: next_act_def bind_def modify_def)

lemma bind_ret [simp]: "bind (ret x) g w = g x w"
  by (simp add: bind_def ret_def)

lemma field_text_cong: "map_of d k = map_of d' k \<Longrightarrow> field_text d k = field_text d' k"
  by (simp add: field_text_def dget_or_def)

text \<open>What the identifiers of a task may take from the outside.\<close>

definition uuid_step :: "'s agent_env \<Rightarrow> 's \<Rightarrow> 's \<Rightarrow> bool" where
  "uuid_step env s s' \<longleftrightarrow> s' = snd (ae_uuid env s)"

lemma task_identifier_spec:
  "\<exists>t s'. task_identifier env key pre task_id w = (Inr t, w\<lparr>aw_ext := s'\<rparr>) \<and> (uuid_step env)\<^sup>*\<^sup>* (aw_ext w) s'"
proof (cases "safe_text (dget (aw_task w) key) [] = []")
  case True
  then have "task_identifier env key pre task_id w =
      (Inr (pre @ ''_'' @ task_id @ ''_'' @ take 8 (fst (ae_uuid env (aw_ext w)))), w\<lparr>aw_ext := snd (ae_uuid env (aw_ext w))\<rparr>)"
    by (simp add: task_identifier_def uuid_hex_def outside_def bind_def get_with_def ret_def split_beta)
  moreover have "(uuid_step env)\<^sup>*\<^sup>* (aw_ext w) (snd (ae_uuid env (aw_ext w)))"
    by (rule r_into_rtranclp) (simp add: uuid_step_def)
  ultimately show ?thesis by blast
next
  case False
  then have "task_identifier env key pre task_id w = (Inr (safe_text (dget (aw_task w) key) []), w\<lparr>aw_ext := aw_ext w\<rparr>)"
    by (simp add: task_identifier_def ret_def)
  then show ?thesis by blast
qed

definition same_fields :: "pydict \<Rightarrow> pydict \<Rightarrow> bool" where
  "same_fields d d' \<longleftrightarrow> (\<forall>k. k \<noteq> ''traceId'' \<and> k \<noteq> ''runId'' \<longrightarrow> map_of d' k = map_of d k)"

lemma same_fields_refl [simp]: "same_fields d d"
  by (simp add: same_fields_def)

lemma same_fields_text: "same_fields d d' \<Longrightarrow> k \<noteq> ''traceId'' \<Longrightarrow> k \<noteq> ''runId'' \<Longrightarrow> field_text d' k = field_text d k"
  by (rule field_text_cong) (simp add: same_fields_def)

text \<open>Observing a task never raises; it changes nothing but the observation, two fields of the task and
  what fresh identifiers change outside.\<close>

lemma ensure_observability_spec:
  "\<exists>ob d s'. ensure_observability env engine w = (Inr ob, w\<lparr>aw_obs := Some ob, aw_task := d, aw_ext := s'\<rparr>) \<and>
     same_fields (aw_task w) d \<and> (uuid_step env)\<^sup>*\<^sup>* (aw_ext w) s' \<and>
     (aw_obs w \<noteq> None \<longrightarrow> aw_obs w = Some ob \<and> d = aw_task w \<and> s' = aw_ext w) \<and>
     (aw_obs w = None \<longrightarrow> ob_summary ob = None)"
proof (cases "aw_obs w")
  case (Some ob)
  then have "ensure_observability env engine w = (Inr ob, w\<lparr>aw_obs := Some ob, aw_task := aw_task w, aw_ext := aw_ext w\<rparr>)"
    by (simp add: ensure_observability_def ret_def)
  with Some show ?thesis by (intro exI[of _ ob] exI[of _ "aw_task w"] exI[of _ "aw_ext w"]) simp
next
  case None
  let ?id = "safe_text (dget (aw_task w) ''taskId'') ''task''"
  let ?eng = "safe_text (py_or (py_or (PStr engine) (dget (aw_task w) ''_agentEngine'')) (dget (aw_task w) ''engine'')) ''legacy''"
  obtain t s1 where 1: "task_identifier env ''traceId'' ''trc'' ?id w = (Inr t, w\<lparr>aw_ext := s1\<rparr>)"
    and s1: "(uuid_step env)\<^sup>*\<^sup>* (aw_ext w) s1"
    using task_identifier_spec [of env "''traceId''" "''trc''" ?id w] by blast
  obtain r s2 where 2: "task_identifier env ''runId'' ''run'' ?id (w\<lparr>aw_ext := s1\<rparr>) = (Inr r, w\<lparr>aw_ext := s2\<rparr>)"
    and s2: "(uuid_step env)\<^sup>*\<^sup>* s1 s2"
    using task_identifier_spec [of env "''runId''" "''run''" ?id "w\<lparr>aw_ext := s1\<rparr>"] by auto
  let ?ob = "new_observation ?id t r ?eng (ae_monotonic env s2)"
  let ?d = "AList.update ''runId'' (PStr r) (AList.update ''traceId'' (PStr t) (aw_task w))"
  have "ensure_observability env engine w = (Inr ?ob, w\<lparr>aw_obs := Some ?ob, aw_task := ?d, aw_ext := s2\<rparr>)"
    by (simp add: ensure_observability_def None Let_def bind_Inr[of "task_identifier _ _ _ _", OF 1]
        bind_Inr[of "task_identifier _ _ _ _", OF 2] ret_def)
  moreover have "same_fields (aw_task w) ?d" by (simp add: same_fields_def update_conv')
  moreover have "(uuid_step env)\<^sup>*\<^sup>* (aw_ext w) s2" using s1 s2 by simp
  moreover have "ob_summary ?ob = None" by (simp add: new_observation_def)
  ultimately show ?thesis using None by blast
qed

lemma ensure_own_spec:
  "\<exists>ob d s'. ensure_own env w = (Inr ob, w\<lparr>aw_obs := Some ob, aw_task := d, aw_ext := s'\<rparr>) \<and>
     same_fields (aw_task w) d \<and> (uuid_step env)\<^sup>*\<^sup>* (aw_ext w) s' \<and>
     (aw_obs w \<noteq> None \<longrightarrow> aw_obs w = Some ob \<and> d = aw_task w \<and> s' = aw_ext w) \<and>
     (aw_obs w = None \<longrightarrow> ob_summary ob = None)"
  unfolding ensure_own_def bind_get by (rule ensure_observability_spec)

lemma record_publish_spec:
  "\<exists>ob d s'. record_publish env event n w = (Inr (), w\<lparr>aw_obs := Some ob, aw_task := d, aw_ext := s'\<rparr>) \<and>
     same_fields (aw_task w) d \<and> (uuid_step env)\<^sup>*\<^sup>* (aw_ext w) s' \<and>
     ob_summary ob = Option.bind (aw_obs w) ob_summary \<and> (aw_obs w \<noteq> None \<longrightarrow> d = aw_task w \<and> s' = aw_ext w)"
proof -
  obtain ob d s' where e: "ensure_own env w = (Inr ob, w\<lparr>aw_obs := Some ob, aw_task := d, aw_ext := s'\<rparr>)"
    and *: "same_fields (aw_task w) d" "(uuid_step env)\<^sup>*\<^sup>* (aw_ext w) s'"
      "aw_obs w \<noteq> None \<longrightarrow> aw_obs w = Some ob \<and> d = aw_task w \<and> s' = aw_ext w"
      "aw_obs w = None \<longrightarrow> ob_summary ob = None"
    using ensure_own_spec [of env w] by (elim exE conjE) (rule that; assumption)
  let ?ob = "record_event_publish (field_text event ''type'') n ob"
  have "record_publish env event n w = (Inr (), w\<lparr>aw_obs := Some ?ob, aw_task := d, aw_ext := s'\<rparr>)"
    by (simp add: record_publish_def next_Inr[of "ensure_own env", OF e] change_obs_def modify_def)
  moreover have "ob_summary ?ob = Option.bind (aw_obs w) ob_summary"
    using *(3,4) by (cases "aw_obs w") simp_all
  ultimately show ?thesis using *(1-3) by blast
qed

section \<open>What an agent keeps of its own\<close>

abbreviation task_id_of :: "'s agent_world \<Rightarrow> string" where
  "task_id_of w \<equiv> field_text (aw_task w) ''taskId''"

definition agent_core :: "'s agent_world \<Rightarrow> (string \<rightharpoonup> int) \<times> (string \<rightharpoonup> pydict list) \<times> string" where
  "agent_core w = (aw_seq w, aw_outbox w, task_id_of w)"

lemma agent_core_ext [simp]: "agent_core (w\<lparr>aw_ext := s\<rparr>) = agent_core w"
  by (simp add: agent_core_def)

lemma agent_core_observed: "same_fields (aw_task w) d \<Longrightarrow> agent_core (w\<lparr>aw_obs := x, aw_task := d\<rparr>) = agent_core w"
  by (simp add: agent_core_def same_fields_text)

lemma outside_core: "agent_core (snd (outside f w)) = agent_core w"
  by (simp add: outside_def split_beta)

lemma ensure_own_core: "agent_core (snd (ensure_own env w)) = agent_core w"
  using ensure_own_spec [of env w] by (elim exE conjE) (simp add: agent_core_observed)

lemma record_publish_core: "agent_core (snd (record_publish env event n w)) = agent_core w"
  using record_publish_spec [of env event n w] by (elim exE conjE) (simp add: agent_core_observed)

lemma deliver_event_core: "agent_core (snd (deliver_event env event w)) = agent_core w"
proof -
  have "keeps (\<lambda>w. agent_core w = agent_core w0) (deliver_event env event)" for w0 :: "'a agent_world"
    unfolding deliver_event_def
    by (cases "ae_client env")
      (auto intro!: keeps_rules simp: keeps_iff [of _ "outside _"] keeps_iff [of _ "record_publish _ _ _"]
         outside_core record_publish_core)
  then show ?thesis by (simp add: keeps_iff)
qed

text \<open>Whether a delivery raises is the client's doing alone.\<close>

definition client_call :: "'s agent_env \<Rightarrow> string \<Rightarrow> pydict \<Rightarrow> 's \<Rightarrow> unit result \<times> 's" where
  "client_call env task_id event s =
     (case ae_client env of
        WithRetryResult f \<Rightarrow> (case f task_id event s of (Inl e, s') \<Rightarrow> (Inl e, s') | (Inr r, s') \<Rightarrow> (Inr (), s'))
      | WithRetry f \<Rightarrow> f task_id event s
      | PlainPublish f \<Rightarrow> f task_id event s)"

lemma deliver_event_spec:
  assumes "client_call env (task_id_of w) event (aw_ext w) = (r, s1)"
  shows "case r of
      Inl e \<Rightarrow> deliver_event env event w = (Inl e, w\<lparr>aw_ext := s1\<rparr>)
    | Inr u \<Rightarrow> (\<exists>ob d s'. deliver_event env event w = (Inr (), w\<lparr>aw_obs := Some ob, aw_task := d, aw_ext := s'\<rparr>) \<and>
                same_fields (aw_task w) d \<and> (uuid_step env)\<^sup>*\<^sup>* s1 s' \<and> ob_summary ob = Option.bind (aw_obs w) ob_summary \<and>
                (aw_obs w \<noteq> None \<longrightarrow> d = aw_task w \<and> s' = s1))"
proof -
  have "\<exists>n. case r of Inl e \<Rightarrow> deliver_event env event w = (Inl e, w\<lparr>aw_ext := s1\<rparr>)
      | Inr u \<Rightarrow> deliver_event env event w = record_publish env event n (w\<lparr>aw_ext := s1\<rparr>)"
    using assms
    by (cases "ae_client env")
      (auto simp: client_call_def deliver_event_def outside_def bind_def next_act_def get_with_def
        split: prod.splits sum.splits)
  then obtain n where n: "case r of Inl e \<Rightarrow> deliver_event env event w = (Inl e, w\<lparr>aw_ext := s1\<rparr>)
      | Inr u \<Rightarrow> deliver_event env event w = record_publish env event n (w\<lparr>aw_ext := s1\<rparr>)" ..
  show ?thesis
  proof (cases r)
    case (Inl e)
    with n show ?thesis by simp
  next
    case (Inr u)
    with n record_publish_spec [of env event n "w\<lparr>aw_ext := s1\<rparr>"] show ?thesis by simp
  qed
qed

lemma build_event_spec:
  "\<exists>ev s'. build_event env ty payload seq w = (Inr ev, w\<lparr>aw_ext := s'\<rparr>) \<and> uuid_step env (aw_ext w) s' \<and>
     dget ev ''seq'' = PInt (max seq 0) \<and> dget ev ''type'' = ty \<and> dget ev ''payload'' = PDict payload \<and>
     dget ev ''taskId'' = PStr (task_id_of w) \<and> dget ev ''eventId'' = PStr (''evt_'' @ fst (ae_uuid env (aw_ext w)))"
proof -
  have "\<exists>ev. build_event env ty payload seq w = (Inr ev, w\<lparr>aw_ext := snd (ae_uuid env (aw_ext w))\<rparr>) \<and>
     dget ev ''seq'' = PInt (max seq 0) \<and> dget ev ''type'' = ty \<and> dget ev ''payload'' = PDict payload \<and>
     dget ev ''taskId'' = PStr (task_id_of w) \<and> dget ev ''eventId'' = PStr (''evt_'' @ fst (ae_uuid env (aw_ext w)))"
    by (simp add: build_event_def uuid_hex_def outside_def bind_def get_with_def ret_def split_beta dget_def Let_def)
  then show ?thesis by (auto simp: uuid_step_def)
qed

section \<open>The outbox of an agent\<close>

text \<open>It holds at most one event of a task, and that is the last one numbered.\<close>

definition outbox_ok :: "'s agent_world \<Rightarrow> bool" where
  "outbox_ok w \<longleftrightarrow>
     (\<forall>t. pending_outbox t w = [] \<or>
        (\<exists>e n. pending_outbox t w = [e] \<and> aw_seq w t = Some n \<and> dget e ''seq'' = PInt (n - 1))) \<and>
     (\<forall>t n. aw_seq w t = Some n \<longrightarrow> 0 \<le> n)"

lemma outbox_ok_core: "agent_core w' = agent_core w \<Longrightarrow> outbox_ok w' = outbox_ok w"
  by (simp add: outbox_ok_def agent_core_def pending_outbox_def)

lemma pending_core: "agent_core w' = agent_core w \<Longrightarrow> pending_outbox t w' = pending_outbox t w"
  by (simp add: agent_core_def pending_outbox_def)

lemma task_id_core: "agent_core w' = agent_core w \<Longrightarrow> task_id_of w' = task_id_of w"
  by (simp add: agent_core_def)

lemma seq_core: "agent_core w' = agent_core w \<Longrightarrow> aw_seq w' = aw_seq w"
  by (simp add: agent_core_def)

lemma pending_update [simp]:
  "pending_outbox t (w\<lparr>aw_seq := sq\<rparr>) = pending_outbox t w"
  "pending_outbox t (w\<lparr>aw_ext := s\<rparr>) = pending_outbox t w"
  by (simp_all add: pending_outbox_def)

lemma pending_ack [simp]:
  "pending_outbox t (snd (ack_outbox tid i w)) =
     (if t = tid then filter (\<lambda>e. field_text e ''eventId'' \<noteq> i) (pending_outbox tid w) else pending_outbox t w)"
  by (simp add: ack_outbox_def modify_def pending_outbox_def Let_def)

lemma ack_outbox_keeps [simp]:
  "fst (ack_outbox tid i w) = Inr ()" "aw_seq (snd (ack_outbox tid i w)) = aw_seq w"
  "aw_task (snd (ack_outbox tid i w)) = aw_task w" "aw_ext (snd (ack_outbox tid i w)) = aw_ext w"
  "aw_obs (snd (ack_outbox tid i w)) = aw_obs w"
  by (simp_all add: ack_outbox_def modify_def Let_def)

lemma pending_enqueue [simp]:
  "pending_outbox t (snd (enqueue_outbox tid e w)) = (if t = tid then pending_outbox tid w @ [e] else pending_outbox t w)"
  by (simp add: enqueue_outbox_def modify_def pending_outbox_def)

lemma enqueue_outbox_keeps [simp]:
  "fst (enqueue_outbox tid e w) = Inr ()" "aw_seq (snd (enqueue_outbox tid e w)) = aw_seq w"
  "aw_task (snd (enqueue_outbox tid e w)) = aw_task w" "aw_ext (snd (enqueue_outbox tid e w)) = aw_ext w"
  "aw_obs (snd (enqueue_outbox tid e w)) = aw_obs w"
  by (simp_all add: enqueue_outbox_def modify_def)

text \<open>Delivering the events that wait: either a delivery raises, and the agent keeps everything, or nothing
  of the task waits any more.\<close>

lemma flush_outbox_effect:
  assumes "outbox_ok w"
  shows "case flush_outbox env w of
      (Inl e, w') \<Rightarrow> agent_core w' = agent_core w
    | (Inr u, w') \<Rightarrow> aw_seq w' = aw_seq w \<and> task_id_of w' = task_id_of w \<and>
        (\<forall>t. pending_outbox t w' = (if t = task_id_of w then [] else pending_outbox t w))"
proof (cases "pending_outbox (task_id_of w) w")
  case Nil
  then show ?thesis by (simp add: flush_outbox_def ret_def)
next
  case (Cons ev rest)
  with assms have p: "pending_outbox (task_id_of w) w = [ev]"
    unfolding outbox_ok_def by (metis list.distinct(1) list.inject)
  have fl: "flush_outbox env w = next_act (flush_one env (task_id_of w) ev) (ret ()) w"
    by (simp add: flush_outbox_def p)
  obtain r w1 where d: "deliver_event env ev w = (r, w1)" by fastforce
  with deliver_event_core [of env ev w] have c: "agent_core w1 = agent_core w" by simp
  show ?thesis
  proof (cases r)
    case (Inl e)
    with d have "flush_outbox env w = (Inl e, w1)"
      by (simp add: fl flush_one_def next_act_def bind_def)
    with c show ?thesis by simp
  next
    case (Inr u)
    with d have f: "flush_outbox env w = (Inr (), snd (ack_outbox (task_id_of w) (field_text ev ''eventId'') w1))"
      using ack_outbox_keeps(1) [of "task_id_of w" "field_text ev ''eventId''" w1]
      by (cases "ack_outbox (task_id_of w) (field_text ev ''eventId'') w1")
        (simp add: fl flush_one_def next_act_def bind_def ret_def)
    show ?thesis
      unfolding f using p c
      by (simp add: pending_core [OF c] seq_core [OF c] task_id_core [OF c])
  qed
qed

lemma next_seq_eq:
  "next_seq t w = (Inr (case aw_seq w t of None \<Rightarrow> 0 | Some n \<Rightarrow> n),
     w\<lparr>aw_seq := (aw_seq w)(t \<mapsto> (case aw_seq w t of None \<Rightarrow> 0 | Some n \<Rightarrow> n) + 1)\<rparr>)"
  by (simp add: next_seq_def Let_def)

text \<open>The end of a publication, from the number on.\<close>

definition publish_numbered :: "'s agent_env \<Rightarrow> string \<Rightarrow> pyval \<Rightarrow> pydict \<Rightarrow> ('s agent_world, unit) act" where
  "publish_numbered env task_id event_type enriched =
     bind (next_seq task_id) (\<lambda>seq.
     bind (build_event env event_type enriched seq) (\<lambda>event.
     next_act (enqueue_outbox task_id event)
       (next_act (deliver_event env event)
          (ack_outbox task_id (field_text event ''eventId'')))))"

lemma publish_any_phases:
  "publish_any env event_type payload w =
     (if task_id_of w = [] then (Inl (ValueError ''task.taskId is required''), w)
      else case ensure_own env w of
        (Inl e, w1) \<Rightarrow> (Inl e, w1)
      | (Inr ob, w1) \<Rightarrow>
          (case flush_outbox env w1 of
             (Inl e, w2) \<Rightarrow> (Inl e, w2)
           | (Inr u, w2) \<Rightarrow>
               (case payload_dict payload of
                  Inl e \<Rightarrow> (Inl e, w2)
                | Inr d \<Rightarrow> publish_numbered env (task_id_of w) event_type
                    (enrich_payload (case aw_obs w2 of Some ob' \<Rightarrow> ob' | None \<Rightarrow> ob) d) w2)))"
  by (simp add: publish_any_def throw_def bind_def next_act_def get_with_def lift_result_def publish_numbered_def
      split: prod.split sum.split)

lemma publish_numbered_effect:
  assumes "outbox_ok w" "task_id_of w = tid" "pending_outbox tid w = []"
  obtains n ev w1 r w2 where "n = (case aw_seq w tid of None \<Rightarrow> 0 | Some n \<Rightarrow> n)" "0 \<le> n"
    "dget ev ''seq'' = PInt n" "dget ev ''type'' = ty" "dget ev ''payload'' = PDict d"
    "uuid_step env (aw_ext w) (aw_ext w1)" "aw_obs w1 = aw_obs w" "aw_task w1 = aw_task w"
    "aw_seq w1 = (aw_seq w)(tid \<mapsto> n + 1)"
    "\<And>t. pending_outbox t w1 = (if t = tid then [ev] else pending_outbox t w)"
    "deliver_event env ev w1 = (r, w2)" "agent_core w2 = agent_core w1"
    "publish_numbered env tid ty d w =
       (r, case r of Inl e \<Rightarrow> w2 | Inr u \<Rightarrow> snd (ack_outbox tid (field_text ev ''eventId'') w2))"
proof -
  define n where "n = (case aw_seq w tid of None \<Rightarrow> 0 | Some n \<Rightarrow> n)"
  let ?w = "w\<lparr>aw_seq := (aw_seq w)(tid \<mapsto> n + 1)\<rparr>"
  have n0: "0 \<le> n" using assms(1) by (auto simp: n_def outbox_ok_def split: option.split)
  have s: "next_seq tid w = (Inr n, ?w)" by (simp add: next_seq_eq n_def)
  obtain ev s' where b: "build_event env ty d n ?w = (Inr ev, ?w\<lparr>aw_ext := s'\<rparr>)" "uuid_step env (aw_ext w) s'"
    "dget ev ''seq'' = PInt n" "dget ev ''type'' = ty" "dget ev ''payload'' = PDict d"
    using build_event_spec [of env ty d n ?w] n0 by auto
  let ?i = "field_text ev ''eventId''"
  define w1 where "w1 = snd (enqueue_outbox tid ev (?w\<lparr>aw_ext := s'\<rparr>))"
  have q: "enqueue_outbox tid ev (?w\<lparr>aw_ext := s'\<rparr>) = (Inr (), w1)" by (simp add: w1_def prod_eq_iff)
  have "publish_numbered env tid ty d w = next_act (deliver_event env ev) (ack_outbox tid ?i) w1"
    unfolding publish_numbered_def
    by (simp add: bind_Inr [of "next_seq tid", OF s] bind_Inr [of "build_event _ _ _ _", OF b(1)]
        next_Inr [of "enqueue_outbox _ _", OF q])
  moreover obtain r w2 where dl: "deliver_event env ev w1 = (r, w2)" by fastforce
  moreover have "ack_outbox tid ?i w2 = (Inr (), snd (ack_outbox tid ?i w2))" by (simp add: prod_eq_iff)
  ultimately have pub: "publish_numbered env tid ty d w =
      (r, case r of Inl e \<Rightarrow> w2 | Inr u \<Rightarrow> snd (ack_outbox tid ?i w2))"
    by (simp add: next_act_def bind_def split: sum.split)
  have p: "pending_outbox t w1 = (if t = tid then [ev] else pending_outbox t w)" for t
    using assms(3) by (simp add: w1_def)
  have c: "agent_core w2 = agent_core w1" using deliver_event_core [of env ev w1] dl by simp
  show thesis
    using n_def n0 b(2-5) p dl c pub by (intro that [of n ev w1 r w2]) (simp_all add: w1_def)
qed

lemma outbox_okI:
  assumes "outbox_ok w" "\<And>t. t \<noteq> tid \<Longrightarrow> pending_outbox t w' = pending_outbox t w \<and> aw_seq w' t = aw_seq w t"
    "pending_outbox tid w' = [] \<or> (\<exists>e n. pending_outbox tid w' = [e] \<and> aw_seq w' tid = Some n \<and> dget e ''seq'' = PInt (n - 1))"
    "\<And>n. aw_seq w' tid = Some n \<Longrightarrow> 0 \<le> n"
  shows "outbox_ok w'"
  using assms unfolding outbox_ok_def by metis

lemma publish_numbered_outbox_ok:
  assumes "outbox_ok w" "task_id_of w = tid" "pending_outbox tid w = []"
  shows "outbox_ok (snd (publish_numbered env tid ty d w))"
proof (rule publish_numbered_effect [OF assms, of ty d env])
  fix n ev w1 r w2
  assume n: "0 \<le> n" "dget ev ''seq'' = PInt n" and w1: "aw_seq w1 = (aw_seq w)(tid \<mapsto> n + 1)"
    "\<And>t. pending_outbox t w1 = (if t = tid then [ev] else pending_outbox t w)"
    and c: "agent_core w2 = agent_core w1"
    and p: "publish_numbered env tid ty d w = (r, case r of Inl e \<Rightarrow> w2 | Inr u \<Rightarrow> snd (ack_outbox tid (field_text ev ''eventId'') w2))"
  show ?thesis
  proof (cases r)
    case (Inl e)
    then show ?thesis
      using w1 n by (intro outbox_okI [OF assms(1), of tid]) (auto simp: p pending_core [OF c] seq_core [OF c])
  next
    case (Inr u)
    then show ?thesis
      using w1 n by (intro outbox_okI [OF assms(1), of tid]) (auto simp: p pending_core [OF c] seq_core [OF c])
  qed
qed

lemma publish_any_outbox_ok:
  assumes "outbox_ok w"
  shows "outbox_ok (snd (publish_any env ty p w))"
proof (cases "task_id_of w = []")
  case True
  then show ?thesis using assms by (simp add: publish_any_phases)
next
  case False
  obtain ob w1 where e: "ensure_own env w = (Inr ob, w1)" using ensure_own_spec [of env w] by blast
  then have c1: "agent_core w1 = agent_core w" using ensure_own_core [of env w] by simp
  have ok1: "outbox_ok w1" using assms by (simp add: outbox_ok_core [OF c1])
  obtain r w2 where f: "flush_outbox env w1 = (r, w2)" by fastforce
  show ?thesis
  proof (cases r)
    case (Inl x)
    then have c2: "agent_core w2 = agent_core w1" using flush_outbox_effect [OF ok1, of env] f by simp
    then show ?thesis using ok1 False e f Inl by (simp add: publish_any_phases outbox_ok_core [OF c2])
  next
    case (Inr u)
    then have w2: "aw_seq w2 = aw_seq w1" "task_id_of w2 = task_id_of w1"
      "\<forall>t. pending_outbox t w2 = (if t = task_id_of w1 then [] else pending_outbox t w1)"
      using flush_outbox_effect [OF ok1, of env] f by auto
    then have ok2: "outbox_ok w2" using ok1 by (auto simp: outbox_ok_def)
    from w2 have t2: "task_id_of w2 = task_id_of w" "pending_outbox (task_id_of w) w2 = []"
      by (simp_all add: task_id_core [OF c1])
    show ?thesis
      using publish_numbered_outbox_ok [OF ok2 t2] False e f Inr ok2
      by (simp add: publish_any_phases split: sum.split)
  qed
qed

text \<open>The life of an agent: it publishes for one task and another, and whatever else happens leaves its
  numbers and its outbox alone.\<close>

inductive agent_reachable :: "'s agent_env \<Rightarrow> 's agent_world \<Rightarrow> bool" for env where
  fresh: "aw_seq w = Map.empty \<Longrightarrow> aw_outbox w = Map.empty \<Longrightarrow> agent_reachable env w"
| published: "agent_reachable env w \<Longrightarrow> agent_reachable env (snd (publish_any env ty p w))"
| elsewhere: "agent_reachable env w \<Longrightarrow> aw_seq w' = aw_seq w \<Longrightarrow> aw_outbox w' = aw_outbox w \<Longrightarrow> agent_reachable env w'"

lemma agent_reachable_ok: "agent_reachable env w \<Longrightarrow> outbox_ok w"
proof (induction rule: agent_reachable.induct)
  case (fresh w)
  then show ?case by (simp add: outbox_ok_def pending_outbox_def)
next
  case (published w ty p)
  from published.IH show ?case by (rule publish_any_outbox_ok)
next
  case (elsewhere w w')
  then show ?case by (simp add: outbox_ok_def pending_outbox_def)
qed

section \<open>A client that takes every event\<close>

text \<open>\<open>rcv\<close> is what the client has received; taking an identifier does not change it.\<close>

definition takes_all :: "'s agent_env \<Rightarrow> ('s \<Rightarrow> pydict list) \<Rightarrow> bool" where
  "takes_all env rcv \<longleftrightarrow>
     (\<forall>tid ev s. \<exists>s'. client_call env tid ev s = (Inr (), s') \<and> rcv s' = rcv s @ [ev]) \<and>
     (\<forall>s. rcv (snd (ae_uuid env s)) = rcv s)"

lemma uuid_steps_log: "takes_all env rcv \<Longrightarrow> (uuid_step env)\<^sup>*\<^sup>* s s' \<Longrightarrow> rcv s' = rcv s"
  by (rotate_tac, induction rule: rtranclp_induct) (auto simp: takes_all_def uuid_step_def)

text \<open>One publication with an empty outbox: one call of the client, whose outcome is the outcome.\<close>

lemma publish_any_calls:
  assumes ok: "outbox_ok w" and tid: "task_id_of w = tid" "tid \<noteq> []"
    and none: "pending_outbox tid w = []" and d: "payload_dict p = Inr d"
  obtains n ob ev s1 r s2 w' where "n = (case aw_seq w tid of None \<Rightarrow> 0 | Some n \<Rightarrow> n)"
    "(uuid_step env)\<^sup>*\<^sup>* (aw_ext w) s1" "client_call env tid ev s1 = (r, s2)"
    "(uuid_step env)\<^sup>*\<^sup>* s2 (aw_ext w')" "publish_any env ty p w = (r, w')"
    "dget ev ''seq'' = PInt n" "dget ev ''type'' = ty" "dget ev ''payload'' = PDict (enrich_payload ob d)"
    "aw_seq w' = (aw_seq w)(tid \<mapsto> n + 1)" "task_id_of w' = tid"
    "pending_outbox tid w' = (case r of Inl e \<Rightarrow> [ev] | Inr u \<Rightarrow> [])" "outbox_ok w'"
    "Option.bind (aw_obs w') ob_summary = Option.bind (aw_obs w) ob_summary" "aw_obs w' \<noteq> None"
    "aw_obs w \<noteq> None \<longrightarrow> aw_task w' = aw_task w" "same_fields (aw_task w) (aw_task w')"
proof -
  obtain ob task s0 where e: "ensure_own env w = (Inr ob, w\<lparr>aw_obs := Some ob, aw_task := task, aw_ext := s0\<rparr>)"
    and s0: "same_fields (aw_task w) task" "(uuid_step env)\<^sup>*\<^sup>* (aw_ext w) s0"
    and old: "aw_obs w \<noteq> None \<longrightarrow> aw_obs w = Some ob \<and> task = aw_task w \<and> s0 = aw_ext w"
      "aw_obs w = None \<longrightarrow> ob_summary ob = None"
    using ensure_own_spec [of env w] by (elim exE conjE) (rule that; assumption)
  define w1 where "w1 = w\<lparr>aw_obs := Some ob, aw_task := task, aw_ext := s0\<rparr>"
  have c1: "agent_core w1 = agent_core w" using s0(1) by (simp add: w1_def agent_core_observed)
  have t1: "outbox_ok w1" "task_id_of w1 = tid" "pending_outbox tid w1 = []" "aw_seq w1 = aw_seq w"
    using tid none ok by (simp_all add: task_id_core [OF c1] pending_core [OF c1] outbox_ok_core [OF c1] seq_core [OF c1])
  have f: "flush_outbox env w1 = (Inr (), w1)" using t1 by (simp add: flush_outbox_def ret_def)
  let ?d = "enrich_payload ob d"
  have pub: "publish_any env ty p w = publish_numbered env tid ty ?d w1"
    using tid e f d by (simp add: publish_any_phases w1_def)
  obtain n ev w2 r w3 where
    n: "n = (case aw_seq w1 tid of None \<Rightarrow> 0 | Some n \<Rightarrow> n)" "0 \<le> n" and
    ev: "dget ev ''seq'' = PInt n" "dget ev ''type'' = ty" "dget ev ''payload'' = PDict ?d" and
    w2: "uuid_step env (aw_ext w1) (aw_ext w2)" "aw_obs w2 = aw_obs w1" "aw_task w2 = aw_task w1"
      "aw_seq w2 = (aw_seq w1)(tid \<mapsto> n + 1)"
      "\<And>t. pending_outbox t w2 = (if t = tid then [ev] else pending_outbox t w1)" and
    dl: "deliver_event env ev w2 = (r, w3)" and c: "agent_core w3 = agent_core w2" and
    p: "publish_numbered env tid ty ?d w1 =
      (r, case r of Inl e \<Rightarrow> w3 | Inr u \<Rightarrow> snd (ack_outbox tid (field_text ev ''eventId'') w3))"
    by (rule publish_numbered_effect [OF t1(1-3), of ty ?d env]) (rule that; assumption)
  define w' where "w' = (case r of Inl e \<Rightarrow> w3 | Inr u \<Rightarrow> snd (ack_outbox tid (field_text ev ''eventId'') w3))"
  have w'3: "aw_seq w' = aw_seq w3" "aw_ext w' = aw_ext w3" "aw_obs w' = aw_obs w3" "aw_task w' = aw_task w3"
    by (simp_all add: w'_def split: sum.split)
  obtain r1 s2 where cl: "client_call env tid ev (aw_ext w2) = (r1, s2)" by fastforce
  have t2: "task_id_of w2 = tid" using w2(3) t1(2) by simp
  have dd: "r1 = r \<and> (uuid_step env)\<^sup>*\<^sup>* s2 (aw_ext w3) \<and>
      Option.bind (aw_obs w3) ob_summary = Option.bind (aw_obs w2) ob_summary \<and> aw_obs w3 \<noteq> None \<and> aw_task w3 = aw_task w2"
    using deliver_event_spec [of env w2 ev r1 s2] cl w2(2) by (auto simp: t2 dl w1_def split: sum.splits)
  have e1: "(uuid_step env)\<^sup>*\<^sup>* (aw_ext w) (aw_ext w2)"
    using s0(2) w2(1) by (simp add: w1_def rtranclp.rtrancl_into_rtrancl)
  have e2: "pending_outbox tid w' = (case r of Inl e \<Rightarrow> [ev] | Inr u \<Rightarrow> [])"
    by (simp add: w'_def pending_core [OF c] w2(5) split: sum.split)
  have e3: "outbox_ok w'" using publish_any_outbox_ok [OF ok, of env ty p] by (simp add: pub p w'_def)
  have e4: "same_fields (aw_task w) (aw_task w')" using s0(1) by (simp add: w'3 dd w2(3) w1_def)
  show thesis
  proof (rule that)
    show "n = (case aw_seq w tid of None \<Rightarrow> 0 | Some n \<Rightarrow> n)" using n t1(4) by simp
    show "publish_any env ty p w = (r, w')" by (simp add: pub p w'_def)
    show "client_call env tid ev (aw_ext w2) = (r, s2)" using cl dd by simp
    show "(uuid_step env)\<^sup>*\<^sup>* s2 (aw_ext w')" using dd by (simp add: w'3)
    show "aw_seq w' = (aw_seq w)(tid \<mapsto> n + 1)" by (simp add: w'3 seq_core [OF c] w2(4) t1(4))
    show "task_id_of w' = tid" by (simp add: w'3 task_id_core [OF c] t2)
    show "Option.bind (aw_obs w') ob_summary = Option.bind (aw_obs w) ob_summary" "aw_obs w' \<noteq> None"
      using dd w2(2) old by (auto simp: w'3 w1_def)
    show "aw_obs w \<noteq> None \<longrightarrow> aw_task w' = aw_task w" using dd old by (simp add: w'3 w2(3) w1_def)
  qed (fact ev e1 e2 e3 e4)+
qed

lemma publish_any_logs:
  assumes rcv: "takes_all env rcv" and "outbox_ok w" and "task_id_of w = tid" "tid \<noteq> []"
    and "pending_outbox tid w = []" and "payload_dict p = Inr d"
  defines "n \<equiv> (case aw_seq w tid of None \<Rightarrow> 0 | Some n \<Rightarrow> n)"
  obtains w' ob ev where "publish_any env ty p w = (Inr (), w')"
    "rcv (aw_ext w') = rcv (aw_ext w) @ [ev]" "dget ev ''seq'' = PInt n" "dget ev ''type'' = ty"
    "dget ev ''payload'' = PDict (enrich_payload ob d)"
    "aw_seq w' = (aw_seq w)(tid \<mapsto> n + 1)" "task_id_of w' = tid" "pending_outbox tid w' = []" "outbox_ok w'"
    "Option.bind (aw_obs w') ob_summary = Option.bind (aw_obs w) ob_summary" "aw_obs w' \<noteq> None"
    "aw_obs w \<noteq> None \<longrightarrow> aw_task w' = aw_task w" "same_fields (aw_task w) (aw_task w')"
proof (rule publish_any_calls [OF assms(2-6), of env ty])
  fix m ob ev s1 r s2 w'
  assume m: "m = (case aw_seq w tid of None \<Rightarrow> 0 | Some n \<Rightarrow> n)" and s1: "(uuid_step env)\<^sup>*\<^sup>* (aw_ext w) s1"
    and cl: "client_call env tid ev s1 = (r, s2)" and s2: "(uuid_step env)\<^sup>*\<^sup>* s2 (aw_ext w')"
    and p: "publish_any env ty p w = (r, w')"
    and rest: "dget ev ''seq'' = PInt m" "dget ev ''type'' = ty" "dget ev ''payload'' = PDict (enrich_payload ob d)"
    "aw_seq w' = (aw_seq w)(tid \<mapsto> m + 1)" "task_id_of w' = tid"
    "pending_outbox tid w' = (case r of Inl e \<Rightarrow> [ev] | Inr u \<Rightarrow> [])" "outbox_ok w'"
    "Option.bind (aw_obs w') ob_summary = Option.bind (aw_obs w) ob_summary" "aw_obs w' \<noteq> None"
    "aw_obs w \<noteq> None \<longrightarrow> aw_task w' = aw_task w" "same_fields (aw_task w) (aw_task w')"
  have r: "r = Inr ()" "rcv s2 = rcv s1 @ [ev]"
    using rcv cl unfolding takes_all_def by (metis prod.inject)+
  have "rcv (aw_ext w') = rcv (aw_ext w) @ [ev]"
    using r(2) uuid_steps_log [OF rcv s1] uuid_steps_log [OF rcv s2] by simp
  then show thesis using p r(1) rest m by (intro that [of w' ev ob]) (simp_all add: n_def)
qed

text \<open>A sequence of publications.\<close>

definition publish_all :: "'s agent_env \<Rightarrow> (string \<times> pydict) list \<Rightarrow> ('s agent_world, unit) act" where
  "publish_all env items = for_each (\<lambda>(ty, d). publish env ty d) items"

lemma publish_all_logs:
  assumes rcv: "takes_all env rcv" and "tid \<noteq> []"
  shows "outbox_ok w \<Longrightarrow> task_id_of w = tid \<Longrightarrow> pending_outbox tid w = [] \<Longrightarrow>
    n = (case aw_seq w tid of None \<Rightarrow> 0 | Some n \<Rightarrow> n) \<Longrightarrow>
    \<exists>w' evs. publish_all env items w = (Inr (), w') \<and> rcv (aw_ext w') = rcv (aw_ext w) @ evs \<and>
      map (\<lambda>e. dget e ''seq'') evs = map PInt [n..n + int (length items) - 1] \<and>
      map (\<lambda>e. dget e ''type'') evs = map (\<lambda>i. PStr (fst i)) items \<and>
      list_all2 (\<lambda>e i. \<exists>ob. dget e ''payload'' = PDict (enrich_payload ob (snd i))) evs items \<and>
      pending_outbox tid w' = []"
proof (induction items arbitrary: w n)
  case Nil
  then show ?case by (intro exI [of _ w] exI [of _ "[]"]) (simp add: publish_all_def ret_def)
next
  case (Cons i items)
  obtain ty d where i: "i = (ty, d)" by fastforce
  obtain w1 ev ob where 1: "publish env ty d w = (Inr (), w1)" "rcv (aw_ext w1) = rcv (aw_ext w) @ [ev]"
    "dget ev ''seq'' = PInt n" "dget ev ''type'' = PStr ty" "aw_seq w1 = (aw_seq w)(tid \<mapsto> n + 1)"
    "task_id_of w1 = tid" "pending_outbox tid w1 = []" "outbox_ok w1"
    "dget ev ''payload'' = PDict (enrich_payload ob d)"
    unfolding publish_def Cons.prems(4)
    by (rule publish_any_logs [OF rcv Cons.prems(1,2) assms(2) Cons.prems(3), of "PDict d" d "PStr ty"])
      (auto simp: payload_dict_def)
  obtain w2 evs where 2: "publish_all env items w1 = (Inr (), w2)" "rcv (aw_ext w2) = rcv (aw_ext w1) @ evs"
    "map (\<lambda>e. dget e ''seq'') evs = map PInt [n + 1..n + 1 + int (length items) - 1]"
    "map (\<lambda>e. dget e ''type'') evs = map (\<lambda>i. PStr (fst i)) items"
    "list_all2 (\<lambda>e i. \<exists>ob. dget e ''payload'' = PDict (enrich_payload ob (snd i))) evs items" "pending_outbox tid w2 = []"
    using Cons.IH [of w1 "n + 1"] 1 by auto
  have "publish_all env (i # items) w = (Inr (), w2)"
    using 1(1) 2(1) by (simp add: publish_all_def i next_act_def bind_def)
  moreover have "[n..n + int (length (i # items)) - 1] = n # [n + 1..n + 1 + int (length items) - 1]"
    by (simp add: upto_rec1 add_ac)
  ultimately show ?case
    using 1 2 by (intro exI [of _ w2] exI [of _ "ev # evs"]) (auto simp: i)
qed

text \<open>C28. An agent that serves a task for the first time, with a client that takes every event, delivers each
  event once, in the order of the calls, with the numbers \<open>0, 1, 2, ...\<close>; no publication fails and nothing
  is left in the outbox.\<close>

theorem events_numbered_in_order:
  assumes "takes_all env rcv" and "outbox_ok w" and "task_id_of w = tid" and "tid \<noteq> []"
    and "aw_seq w tid = None"
  shows "\<exists>w' evs. publish_all env items w = (Inr (), w') \<and> rcv (aw_ext w') = rcv (aw_ext w) @ evs \<and>
    map (\<lambda>e. dget e ''seq'') evs = map PInt [0..int (length items) - 1] \<and>
    map (\<lambda>e. dget e ''type'') evs = map (\<lambda>i. PStr (fst i)) items \<and>
    list_all2 (\<lambda>e i. \<exists>ob. dget e ''payload'' = PDict (enrich_payload ob (snd i))) evs items \<and>
    pending_outbox tid w' = []"
proof -
  have "pending_outbox tid w = []" using assms(2,5) unfolding outbox_ok_def by fastforce
  then show ?thesis
    using publish_all_logs [OF assms(1,4,2,3), of 0 items] assms(5) by simp
qed

section \<open>Examples\<close>

definition plain_task :: pydict where
  "plain_task = [(''taskId'', PStr ''t1''), (''prompt'', PStr ''go'')]"

definition plain_world :: "pydict list \<times> nat \<Rightarrow> (pydict list \<times> nat) agent_world" where
  "plain_world s = \<lparr>aw_task = plain_task, aw_obs = None, aw_seq = Map.empty, aw_outbox = Map.empty, aw_ext = s\<rparr>"

text \<open>Outside there are the events received and a counter for identifiers.\<close>

definition logging_env :: "(pydict list \<times> nat) agent_env" where
  "logging_env = \<lparr>ae_uuid = (\<lambda>(l, n). (show_nat n, (l, n + 1))), ae_timestamp = (\<lambda>s. ''now''), ae_monotonic = (\<lambda>s. 0),
     ae_client = PlainPublish (\<lambda>tid ev (l, n). (Inr (), (l @ [ev], n)))\<rparr>"

definition refusing_env :: "(pydict list \<times> nat) agent_env" where
  "refusing_env = logging_env\<lparr>ae_client := PlainPublish (\<lambda>tid ev s. (Inl (RuntimeError ''down''), s))\<rparr>"

lemma logging_env_takes_all: "takes_all logging_env fst"
  by (auto simp: takes_all_def client_call_def logging_env_def)

lemma plain_world_simps [simp]:
  "task_id_of (plain_world s) = ''t1''" "aw_seq (plain_world s) = Map.empty" "aw_outbox (plain_world s) = Map.empty"
  "pending_outbox t (plain_world s) = []" "outbox_ok (plain_world s)" "aw_ext (plain_world s) = s"
  by (simp_all add: plain_world_def pending_outbox_def outbox_ok_def plain_task_def field_text_def dget_or_def
      py_str_def strip_id is_space_def)

lemma events_numbered_in_order_witness:
  "\<exists>w' evs. publish_all logging_env [(''A'', []), (''B'', [])] (plain_world ([], 0)) = (Inr (), w') \<and>
    fst (aw_ext w') = evs \<and> map (\<lambda>e. dget e ''seq'') evs = [PInt 0, PInt 1] \<and>
    map (\<lambda>e. dget e ''type'') evs = [PStr ''A'', PStr ''B'']"
  using events_numbered_in_order [OF logging_env_takes_all, of "plain_world ([], 0)" "''t1''" "[(''A'', []), (''B'', [])]"]
  by (auto simp: upto_rec1)

section \<open>An event that cannot be delivered\<close>

text \<open>In the life of an agent the outbox never holds more than one event of a task, and that is the last
  one numbered: every publication first delivers what waits, and where that fails no new event is made.\<close>

theorem agent_outbox_holds_the_last_event:
  assumes "agent_reachable env w"
  shows "length (pending_outbox t w) \<le> 1 \<and>
    list_all (\<lambda>e. \<exists>n. aw_seq w t = Some n \<and> dget e ''seq'' = PInt (n - 1)) (pending_outbox t w)"
proof -
  from agent_reachable_ok [OF assms] have "pending_outbox t w = [] \<or>
      (\<exists>e n. pending_outbox t w = [e] \<and> aw_seq w t = Some n \<and> dget e ''seq'' = PInt (n - 1))"
    by (simp add: outbox_ok_def)
  then show ?thesis by auto
qed

definition refused_once :: "(pydict list \<times> nat) agent_world" where
  "refused_once = snd (publish_any refusing_env (PStr ''A'') (PDict []) (plain_world ([], 0)))"

text \<open>The agent with the client of \<open>Control_Plane\<close>, called with the default number of attempts and backoff.\<close>

definition cp_agent_env ::
  "'x cp_env \<Rightarrow> ('x \<Rightarrow> string \<times> 'x) \<Rightarrow> ('x \<Rightarrow> string) \<Rightarrow> (cp_client \<times> 'x) agent_env" where
  "cp_agent_env cenv uuid timestamp =
     \<lparr>ae_uuid = (\<lambda>(c, s). let (u, s') = uuid s in (u, (c, s'))), ae_timestamp = (\<lambda>(c, s). timestamp s),
      ae_monotonic = (\<lambda>(c, s). ce_monotonic cenv s),
      ae_client = WithRetryResult (\<lambda>task_id event (c, s). publish_event_with_retry_result cenv task_id event 5 1 c s)\<rparr>"

lemma cp_uuid_steps:
  assumes "(uuid_step (cp_agent_env cenv uuid timestamp))\<^sup>*\<^sup>* cs cs'" "\<And>s. sent (snd (uuid s)) = sent s"
  shows "fst cs' = fst cs \<and> sent (snd cs') = sent (snd cs)"
  using assms(1)
  by (induction rule: rtranclp_induct) (auto simp: uuid_step_def cp_agent_env_def assms(2) split_beta Let_def)

text \<open>C18. An event published during an outage is lost: the client reports the failure in its result, which the
  agent does not look at, so the publication ends normally after three requests without an answer, the
  event leaves the outbox, and its number is used up.\<close>

theorem outage_loses_event:
  assumes "outage cenv sent (events_url (fst (aw_ext w)) tid)"
    and "event_breaker (fst (aw_ext w)) = new_breaker ''control_plane_events'' 3 60"
    and "\<And>s. sent (snd (uuid s)) = sent s"
    and "outbox_ok w" and "task_id_of w = tid" and "tid \<noteq> []" and "aw_seq w tid = None"
  shows "\<exists>w'. publish (cp_agent_env cenv uuid timestamp) ty d w = (Inr (), w') \<and>
    sent (snd (aw_ext w')) = sent (snd (aw_ext w)) + 3 \<and> status (event_breaker (fst (aw_ext w'))) = Open \<and>
    pending_outbox tid w' = [] \<and> aw_seq w' tid = Some 1"
proof -
  let ?env = "cp_agent_env cenv uuid timestamp"
  have none: "pending_outbox tid w = []" using assms(4,7) unfolding outbox_ok_def by fastforce
  show ?thesis
  proof (rule publish_any_calls [OF assms(4-6) none, of "PDict d" d ?env "PStr ty"])
    show "payload_dict (PDict d) = Inr d" by (simp add: payload_dict_def)
    fix n s1 r s2 w' and ev :: pydict
    assume n: "n = (case aw_seq w tid of None \<Rightarrow> 0 | Some n \<Rightarrow> n)"
      and s1: "(uuid_step ?env)\<^sup>*\<^sup>* (aw_ext w) s1" and cl: "client_call ?env tid ev s1 = (r, s2)"
      and s2: "(uuid_step ?env)\<^sup>*\<^sup>* s2 (aw_ext w')" and p: "publish_any ?env (PStr ty) (PDict d) w = (r, w')"
      and rest: "aw_seq w' = (aw_seq w)(tid \<mapsto> n + 1)" "pending_outbox tid w' = (case r of Inl e \<Rightarrow> [ev] | Inr u \<Rightarrow> [])"
    note k1 = cp_uuid_steps [where sent = sent, OF s1 assms(3)]
      and k2 = cp_uuid_steps [where sent = sent, OF s2 assms(3)]
    obtain c s where cs: "s1 = (c, s)" by fastforce
    with k1 have c: "outage cenv sent (events_url c tid)" "event_breaker c = new_breaker ''control_plane_events'' 3 60"
      using assms(1,2) by auto
    obtain res c' s' where "publish_event_with_retry_result cenv tid ev 5 1 c s = (Inr res, c', s')"
      "sent s' = sent s + 3" "status (event_breaker c') = Open"
      using outage_stops_after_three [OF c, of 5 1 ev s] by auto
    with cl cs have "r = Inr ()" "s2 = (c', s')" "sent s' = sent s + 3" "status (event_breaker c') = Open"
      by (auto simp: client_call_def cp_agent_env_def)
    then show ?thesis using p rest n k1 k2 cs assms(7) by (auto simp: publish_def)
  qed
qed

lemma outage_loses_event_witness:
  "\<exists>w'. publish (cp_agent_env down_env (\<lambda>s. (''id'', s)) (\<lambda>s. ''now'')) ''TASK_DONE'' []
      \<lparr>aw_task = plain_task, aw_obs = None, aw_seq = Map.empty, aw_outbox = Map.empty, aw_ext = (sample_client, (0, 0))\<rparr> = (Inr (), w') \<and>
    fst (snd (aw_ext w')) = 3 \<and> pending_outbox ''t1'' w' = [] \<and> aw_seq w' ''t1'' = Some 1"
proof -
  let ?w = "\<lparr>aw_task = plain_task, aw_obs = None, aw_seq = Map.empty, aw_outbox = Map.empty, aw_ext = (sample_client, (0 :: nat, 0 :: rat))\<rparr>"
  have "task_id_of ?w = ''t1''" using plain_world_simps(1) by (simp add: plain_world_def)
  moreover have "outbox_ok ?w" by (simp add: outbox_ok_def pending_outbox_def)
  moreover have "event_breaker sample_client = new_breaker ''control_plane_events'' 3 60"
    by (simp add: sample_client_def new_cp_client_def Let_def)
  ultimately show ?thesis
    using outage_loses_event [where w = ?w and tid = "''t1''" and cenv = down_env and sent = fst and uuid = "\<lambda>s. (''id'', s)"
        and timestamp = "\<lambda>s. ''now''" and ty = "''TASK_DONE''" and d = "[]"] outage_down
    by auto
qed

section \<open>Reasoning about agents that publish\<close>

text \<open>Where an agent stands between its publications: nothing waits, the client has received events of the
  types \<open>es\<close>, some part \<open>v\<close> of the outside is \<open>x\<close>, and the summary of the task is \<open>sm\<close>.\<close>

definition unobserved :: "'s agent_env \<Rightarrow> ('s \<Rightarrow> 'v) \<Rightarrow> bool" where
  "unobserved env v \<longleftrightarrow> (\<forall>s. v (snd (ae_uuid env s)) = v s) \<and> (\<forall>tid ev s. v (snd (client_call env tid ev s)) = v s)"

definition event_types :: "('s \<Rightarrow> pydict list) \<Rightarrow> 's agent_world \<Rightarrow> pyval list" where
  "event_types rcv w = map (\<lambda>e. dget e ''type'') (rcv (aw_ext w))"

definition task_summary :: "'s agent_world \<Rightarrow> pydict option" where
  "task_summary w = Option.bind (aw_obs w) ob_summary"

definition stands ::
  "string \<Rightarrow> ('s \<Rightarrow> pydict list) \<Rightarrow> ('s \<Rightarrow> 'v) \<Rightarrow> pyval list \<Rightarrow> 'v \<Rightarrow> pydict option \<Rightarrow> 's agent_world \<Rightarrow> bool" where
  "stands tid rcv v es x sm w \<longleftrightarrow> outbox_ok w \<and> task_id_of w = tid \<and> pending_outbox tid w = [] \<and>
     event_types rcv w = es \<and> v (aw_ext w) = x \<and> task_summary w = sm"

lemma uuid_steps_unobserved: "unobserved env v \<Longrightarrow> (uuid_step env)\<^sup>*\<^sup>* s s' \<Longrightarrow> v s' = v s"
  by (rotate_tac, induction rule: rtranclp_induct) (auto simp: unobserved_def uuid_step_def)

lemma publish_any_stands:
  assumes rcv: "takes_all env rcv" and v: "unobserved env v" and "tid \<noteq> []" and "payload_dict p = Inr d"
  shows "triple (\<lambda>w. stands tid rcv v es x sm w \<and> same_fields task (aw_task w)) (publish_any env ty p)
    (\<lambda>_ w. stands tid rcv v (es @ [ty]) x sm w \<and> same_fields task (aw_task w)) (\<lambda>_ _. False)"
proof -
  have "\<exists>w'. publish_any env ty p w = (Inr (), w') \<and> stands tid rcv v (es @ [ty]) x sm w' \<and> same_fields task (aw_task w')"
    if st: "stands tid rcv v es x sm w" "same_fields task (aw_task w)" for w
  proof (rule publish_any_calls [of w tid p d env ty])
    fix s1 s2 r w' and ev :: pydict
    assume s1: "(uuid_step env)\<^sup>*\<^sup>* (aw_ext w) s1" and cl: "client_call env tid ev s1 = (r, s2)"
      and s2: "(uuid_step env)\<^sup>*\<^sup>* s2 (aw_ext w')" and p: "publish_any env ty p w = (r, w')"
      and rest: "dget ev ''type'' = ty" "task_id_of w' = tid"
      "pending_outbox tid w' = (case r of Inl e \<Rightarrow> [ev] | Inr u \<Rightarrow> [])" "outbox_ok w'"
      "Option.bind (aw_obs w') ob_summary = Option.bind (aw_obs w) ob_summary" "same_fields (aw_task w) (aw_task w')"
    have r: "r = Inr ()" "rcv s2 = rcv s1 @ [ev]" using rcv cl unfolding takes_all_def by (metis prod.inject)+
    have "v s2 = v s1" using v cl unfolding unobserved_def by (metis snd_conv)
    then have "v (aw_ext w') = v (aw_ext w)"
      using uuid_steps_unobserved [OF v s1] uuid_steps_unobserved [OF v s2] by simp
    moreover have "rcv (aw_ext w') = rcv (aw_ext w) @ [ev]"
      using r(2) uuid_steps_log [OF rcv s1] uuid_steps_log [OF rcv s2] by simp
    moreover have "same_fields task (aw_task w')" using st(2) rest(6) by (simp add: same_fields_def)
    ultimately show ?thesis using p r(1) rest st(1) by (auto simp: stands_def event_types_def task_summary_def)
  qed (use st assms in \<open>simp_all add: stands_def\<close>)
  then show ?thesis by (fastforce simp: triple_def)
qed

lemma publish_stands:
  assumes "takes_all env rcv" "unobserved env v" "tid \<noteq> []"
  shows "triple (stands tid rcv v es x sm) (publish env ty d) (\<lambda>_. stands tid rcv v (es @ [PStr ty]) x sm) (\<lambda>_ _. False)"
proof (rule triple_pre)
  fix w assume "stands tid rcv v es x sm w"
  then show "triple (\<lambda>v. v = w) (publish env ty d) (\<lambda>_. stands tid rcv v (es @ [PStr ty]) x sm) (\<lambda>_ _. False)"
    unfolding publish_def
    by (intro triple_conseq [OF publish_any_stands [OF assms, of "PDict d" d es x sm "aw_task w" "PStr ty"]])
      (auto simp: payload_dict_def)
qed

lemma stands_modify_task:
  "(\<And>d. field_text (f d) ''taskId'' = field_text d ''taskId'') \<Longrightarrow>
   stands tid rcv v es x sm (w\<lparr>aw_task := f (aw_task w)\<rparr>) = stands tid rcv v es x sm w"
  by (simp add: stands_def outbox_ok_def pending_outbox_def event_types_def task_summary_def)

lemma end_span_summary: "Option.bind (map_option (end_span n st a t now e) x) ob_summary = Option.bind x ob_summary"
  by (cases x) simp_all

text \<open>A span around an action changes nothing that matters here.\<close>

lemma with_span_stands:
  assumes rcv: "takes_all env rcv" and v: "unobserved env v"
    and m: "triple (stands tid rcv v es x sm) m Q E"
    and Q: "\<And>a w ob. Q a w \<Longrightarrow> task_summary (w\<lparr>aw_obs := ob\<rparr>) = task_summary w \<Longrightarrow> Q a (w\<lparr>aw_obs := ob\<rparr>)"
    and E: "\<And>e w ob. E e w \<Longrightarrow> task_summary (w\<lparr>aw_obs := ob\<rparr>) = task_summary w \<Longrightarrow> E e (w\<lparr>aw_obs := ob\<rparr>)"
  shows "triple (stands tid rcv v es x sm) (with_span env n stg a m) Q E"
proof (rule tripleI)
  fix w r' w'' assume st: "stands tid rcv v es x sm w"
  obtain ob d s' where e: "ensure_own env w = (Inr ob, w\<lparr>aw_obs := Some ob, aw_task := d, aw_ext := s'\<rparr>)"
    and s': "same_fields (aw_task w) d" "(uuid_step env)\<^sup>*\<^sup>* (aw_ext w) s'"
      "aw_obs w \<noteq> None \<longrightarrow> aw_obs w = Some ob \<and> d = aw_task w \<and> s' = aw_ext w" "aw_obs w = None \<longrightarrow> ob_summary ob = None"
    using ensure_own_spec [of env w] by (elim exE conjE) (rule that; assumption)
  define w1 where "w1 = w\<lparr>aw_obs := Some ob, aw_task := d, aw_ext := s'\<rparr>"
  have sum: "ob_summary ob = Option.bind (aw_obs w) ob_summary" using s'(3,4) by (cases "aw_obs w") auto
  have c: "agent_core w1 = agent_core w" using s'(1) by (simp add: w1_def agent_core_observed)
  have st1: "stands tid rcv v es x sm w1"
    using st uuid_steps_unobserved [OF v s'(2)] uuid_steps_log [OF rcv s'(2)] sum
    by (simp add: stands_def outbox_ok_core [OF c] pending_core [OF c] task_id_core [OF c]) 
      (simp add: w1_def event_types_def task_summary_def)
  obtain r w2 where mw: "m w1 = (r, w2)" by fastforce
  have sp: "with_span env n stg a m w = (r, w2\<lparr>aw_obs := map_option (end_span n stg a (ae_monotonic env (aw_ext w1))
      (ae_monotonic env (aw_ext w2)) (case r of Inl e \<Rightarrow> Some e | Inr _ \<Rightarrow> None)) (aw_obs w2)\<rparr>)"
    by (simp add: with_span_def next_Inr [of "ensure_own env", OF e] w1_def [symmetric] mw Let_def)
  have same: "task_summary (w2\<lparr>aw_obs := map_option (end_span n' st' a' t now e) (aw_obs w2)\<rparr>) = task_summary w2" for n' st' a' t now e
    by (simp add: task_summary_def end_span_summary)
  {
    fix ex assume "with_span env n stg a m w = (Inl ex, w'')"
    with sp have r: "r = Inl ex" and w2: "\<exists>ob. w'' = w2\<lparr>aw_obs := ob\<rparr> \<and> task_summary (w2\<lparr>aw_obs := ob\<rparr>) = task_summary w2"
      using same by auto
    have "E ex w2" using tripleD_Inl [OF m st1] mw r by simp
    with w2 E show "E ex w''" by auto
  next
    fix y assume "with_span env n stg a m w = (Inr y, w'')"
    with sp have r: "r = Inr y" and w2: "\<exists>ob. w'' = w2\<lparr>aw_obs := ob\<rparr> \<and> task_summary (w2\<lparr>aw_obs := ob\<rparr>) = task_summary w2"
      using same by auto
    have "Q y w2" using tripleD_Inr [OF m st1] mw r by simp
    with w2 Q show "Q y w''" by auto
  }
qed

lemma stands_obs [simp]:
  "task_summary (w\<lparr>aw_obs := ob\<rparr>) = task_summary w \<Longrightarrow> stands tid rcv v es x sm (w\<lparr>aw_obs := ob\<rparr>) = stands tid rcv v es x sm w"
  by (simp add: stands_def outbox_ok_def pending_outbox_def event_types_def)

end
