(* ===== verification/Task_Payloads.thy ===== *)
theory Task_Payloads
  imports Base_Agent Validation_Gate
begin

text \<open>
  The pure part of \<open>orchestrator/agent_orchestrator.py\<close>: how a task request is read and checked, how
  failures get their codes, and how the payloads of events and the records of the project memory are
  built from the results of the agents. The results themselves are the records of
  \<open>agents/intent_agent.py\<close>, \<open>agents/planner_agent.py\<close>, \<open>agents/reviewer_agent.py\<close>,
  \<open>agents/tester_agent.py\<close>, \<open>tools/exec_tool.py\<close> and \<open>utils/artifact_utils.py\<close>. The process environment
  is a function from names to values.
\<close>

section \<open>Results of agents and tools\<close>

record intent_decision =
  id_backend :: string
  id_intent :: string
  id_confidence :: pyval
  id_reason :: string

record plan_result =
  pl_name :: string
  pl_steps :: "string list"
  pl_reason :: string

record reviewer_result =
  rv_approved :: bool
  rv_summary :: string
  rv_issues :: "string list"
  rv_risk_level :: string

record tester_result =
  tr_success :: bool
  tr_attempts :: int
  tr_retries :: int
  tr_command :: string
  tr_status :: string
  tr_reason :: "string option"
  tr_trace_id :: "string option"
  tr_run_id :: "string option"

record exec_result =
  ex_ok :: bool
  ex_status :: string
  ex_exit_code :: "int option"
  ex_output :: string
  ex_retryable :: bool
  ex_reason :: "string option"
  ex_tool :: "string option"
  ex_tool_version :: "string option"
  ex_trace_id :: "string option"
  ex_run_id :: "string option"

record artifact_bundle =
  ab_artifact_id :: string
  ab_file_path :: fs_path
  ab_file_name :: string
  ab_sha256 :: string
  ab_size_bytes :: int
  ab_mime_type :: string
  ab_artifact_type :: string

definition of_text :: "string option \<Rightarrow> pyval" where
  "of_text t = (case t of None \<Rightarrow> PNone | Some s \<Rightarrow> PStr s)"

definition of_int_option :: "int option \<Rightarrow> pyval" where
  "of_int_option t = (case t of None \<Rightarrow> PNone | Some i \<Rightarrow> PInt i)"

definition of_texts :: "string list \<Rightarrow> pyval" where
  "of_texts ts = PList (map PStr ts)"

text \<open>An item of a dictionary that is added only when the text is there and not empty.\<close>

definition opt_item :: "string \<Rightarrow> string option \<Rightarrow> pydict" where
  "opt_item k t = (case t of None \<Rightarrow> [] | Some s \<Rightarrow> if s = [] then [] else [(k, PStr s)])"

section \<open>Error codes and failures\<close>

definition is_alnum :: "char \<Rightarrow> bool" where
  "is_alnum c = (let n = of_char c :: nat in
     (48 \<le> n \<and> n \<le> 57) \<or> (65 \<le> n \<and> n \<le> 90) \<or> (97 \<le> n \<and> n \<le> 122))"

definition upper_char :: "char \<Rightarrow> char" where
  "upper_char c = (let n = of_char c :: nat in if 97 \<le> n \<and> n \<le> 122 then char_of (n - 32) else c)"

definition upper :: "string \<Rightarrow> string" where
  "upper s = map upper_char s"

text \<open>\<open>s.strip("_")\<close>.\<close>

definition strip_char :: "char \<Rightarrow> string \<Rightarrow> string" where
  "strip_char a s = rev (dropWhile (\<lambda>c. c = a) (rev (dropWhile (\<lambda>c. c = a) s)))"

fun normalize_code :: "bool \<Rightarrow> string \<Rightarrow> string" where
  "normalize_code last_was_sep [] = []"
| "normalize_code last_was_sep (c # cs) =
     (if is_alnum c then c # normalize_code False cs
      else (if last_was_sep then [] else [CHR ''_'']) @ normalize_code True cs)"

definition error_code_from_reason :: "string \<Rightarrow> string" where
  "error_code_from_reason reason =
     (let t = upper (strip reason) in
      if t = [] then ''UNKNOWN_ERROR''
      else let code = strip_char CHR ''_'' (normalize_code False t)
           in if code = [] then ''UNKNOWN_ERROR'' else code)"

text \<open>The keyword arguments of \<open>_failure_payload\<close>: \<open>plan_name\<close> becomes \<open>planName\<close>, at the end; absent and
  blank values are left out.\<close>

definition plan_name_last :: "pydict \<Rightarrow> pydict" where
  "plan_name_last extra =
     (case map_of extra ''plan_name'' of
        Some v \<Rightarrow> if has_key extra ''planName'' then extra
                  else filter (\<lambda>(k, _). k \<noteq> ''plan_name'') extra @ [(''planName'', v)]
      | None \<Rightarrow> extra)"

definition is_blank_value :: "pyval \<Rightarrow> bool" where
  "is_blank_value v = (case v of PNone \<Rightarrow> True | PStr s \<Rightarrow> strip s = [] | _ \<Rightarrow> False)"

definition failure_payload :: "string \<Rightarrow> pydict \<Rightarrow> pydict" where
  "failure_payload reason extra =
     fold (\<lambda>(k, v) d. if is_blank_value v then d else AList.update k v d) (plan_name_last extra)
       [(''reason'', PStr reason), (''errorCode'', PStr (error_code_from_reason reason))]"

section \<open>Reading a request\<close>

definition resolve_agent_engine :: "string option \<Rightarrow> (string \<Rightarrow> string option) \<Rightarrow> string" where
  "resolve_agent_engine engine getenv =
     (let given = (case engine of Some e \<Rightarrow> e | None \<Rightarrow> []);
          candidate = lower (strip (if given \<noteq> [] then given
            else case getenv ''AGENT_ENGINE'' of Some v \<Rightarrow> v | None \<Rightarrow> ''legacy''))
      in if candidate \<in> {''legacy'', ''langgraph''} then candidate else ''legacy'')"

definition normalize_field :: "string \<Rightarrow> pydict \<Rightarrow> pydict" where
  "normalize_field key task =
     (let v = lower (field_text task key) in if v \<noteq> [] then AList.update key (PStr v) task else task)"

definition normalize_generation_target :: "pydict \<Rightarrow> pydict" where
  "normalize_generation_target task = normalize_field ''exportMode'' (normalize_field ''target'' task)"

definition validate_generation_request :: "pydict \<Rightarrow> pydict option" where
  "validate_generation_request task =
     (let target = lower (field_text task ''target''); export_mode = lower (field_text task ''exportMode'') in
      if target \<noteq> [] \<and> target \<notin> {''web'', ''backend'', ''fullstack''}
      then Some (failure_payload ''unsupported_target'' [])
      else if export_mode \<noteq> [] \<and> export_mode \<noteq> ''zip''
      then Some (failure_payload ''unsupported_export_mode'' [])
      else None)"

definition resolve_fix_loop_max_attempts :: "(string \<Rightarrow> string option) \<Rightarrow> int" where
  "resolve_fix_loop_max_attempts getenv =
     (let raw = strip (case getenv ''MVP_FIX_LOOP_MAX_ATTEMPTS'' of Some v \<Rightarrow> v | None \<Rightarrow> []) in
      if raw = [] then 3
      else case parse_int raw of None \<Rightarrow> 3 | Some v \<Rightarrow> max 1 (min v 3))"

definition resolve_command :: "(string \<Rightarrow> string option) \<Rightarrow> pydict \<Rightarrow> string \<Rightarrow> string \<Rightarrow> string" where
  "resolve_command getenv task intent prompt =
     (let explicit = field_text task ''command'';
          env_command = strip (case getenv (if intent = ''deploy'' then ''MVP_DEPLOY_COMMAND'' else ''MVP_TEST_COMMAND'')
                               of Some v \<Rightarrow> v | None \<Rightarrow> []);
          memory_command = field_text task (if intent = ''deploy'' then ''memoryLastDeployCommand'' else ''memoryLastTestCommand'')
      in if explicit \<noteq> [] then explicit
         else if env_command \<noteq> [] then env_command
         else if memory_command \<noteq> [] then memory_command
         else if intent = ''deploy'' then ''echo deploy_from_python_agent''
         else if intent = ''test'' then ''echo test_from_python_agent''
         else ''echo '' @ (if strip prompt \<noteq> [] then strip prompt else ''sandbox_run''))"

text \<open>The path of the workspace, as text; \<open>resolve\<close> makes it absolute, which is left to the file system.\<close>

definition resolve_workspace :: "pydict \<Rightarrow> string" where
  "resolve_workspace task =
     (let raw = field_text task ''workspacePath'' in
      if raw = [] \<or> lower raw \<in> {''none'', ''null'', ''undefined'', ''nil'', ''nan''} then ''.'' else raw)"

definition should_publish_generated_artifact :: "pydict \<Rightarrow> bool" where
  "should_publish_generated_artifact task =
     (case dget task ''_generated_files'' of PList xs \<Rightarrow> xs \<noteq> [] | _ \<Rightarrow> False)"

definition task_target :: "pydict \<Rightarrow> string" where
  "task_target task =
     lower (strip (py_str (py_or (py_or (dget task ''_generated_target'') (dget task ''target'')) (PStr []))))"

definition resolved_generation_target :: "pydict \<Rightarrow> string" where
  "resolved_generation_target task = (let t = task_target task in if t \<noteq> [] then t else ''web'')"

definition generation_target_for_metrics :: "pydict \<Rightarrow> string" where
  "generation_target_for_metrics task =
     (let t = task_target task in
      if t \<noteq> [] then t
      else if should_publish_generated_artifact task then resolved_generation_target task else [])"

definition resolve_generated_files :: "pydict \<Rightarrow> fs_path \<Rightarrow> fs \<Rightarrow> string list result" where
  "resolve_generated_files task ws f =
     (let normalized = (case dget task ''_generated_files'' of
            PList xs \<Rightarrow> map (replace_char CHR 0x5C CHR ''/'') (filter (\<lambda>s. s \<noteq> []) (map (\<lambda>v. strip (py_str v)) xs))
          | _ \<Rightarrow> []);
          existing = filter (\<lambda>name. fs_exists f (join_path ws name))
            [''index.html'', ''styles.css'', ''app.js'', ''README.generated.md'']
      in if normalized \<noteq> [] then Inr normalized
         else if existing \<noteq> [] then Inr existing
         else Inl (FileNotFoundError ''no generated files available for artifact packaging''))"

section \<open>The memory of a project\<close>

definition command_of :: "string \<Rightarrow> string \<Rightarrow> pydict \<Rightarrow> string option" where
  "command_of key intent item =
     first_non_blank [dget item key, if dget item ''intent'' = PStr intent then dget item ''command'' else PNone]"

fun newest :: "(pydict \<Rightarrow> string option) \<Rightarrow> pydict list \<Rightarrow> string" where
  "newest f [] = []"
| "newest f (item # older) = (case f item of Some s \<Rightarrow> s | None \<Rightarrow> newest f older)"

text \<open>\<open>for item in reversed(history)\<close>; either command is fixed by the newest record that has one, and the
  loop stops early once both are.\<close>

fun scan_hints :: "string \<Rightarrow> string \<Rightarrow> pydict list \<Rightarrow> string \<times> string" where
  "scan_hints last_test last_deploy [] = (last_test, last_deploy)"
| "scan_hints last_test last_deploy (item # rest) =
     (let t = (if last_test = [] then (case command_of ''testCommand'' ''test'' item of Some s \<Rightarrow> s | None \<Rightarrow> []) else last_test);
          d = (if last_deploy = [] then (case command_of ''deployCommand'' ''deploy'' item of Some s \<Rightarrow> s | None \<Rightarrow> []) else last_deploy)
      in if t \<noteq> [] \<and> d \<noteq> [] then (t, d) else scan_hints t d rest)"

definition build_memory_hints :: "pydict list \<Rightarrow> pydict" where
  "build_memory_hints history =
     (let (t, d) = scan_hints [] [] (rev history)
      in (if t \<noteq> [] then [(''lastTestCommand'', PStr t)] else []) @
         (if d \<noteq> [] then [(''lastDeployCommand'', PStr d)] else []))"

definition apply_memory_hints :: "pydict \<Rightarrow> pydict \<Rightarrow> pydict" where
  "apply_memory_hints hints task =
     (let t = field_text hints ''lastTestCommand''; d = field_text hints ''lastDeployCommand'';
          task1 = (if t \<noteq> []
                   then let task' = AList.update ''memoryLastTestCommand'' (PStr t) task
                        in if field_text task' ''testCommand'' = [] then AList.update ''testCommand'' (PStr t) task' else task'
                   else task)
      in if d \<noteq> [] then AList.update ''memoryLastDeployCommand'' (PStr d) task1 else task1)"

section \<open>Payloads\<close>

definition failure_reason :: "exec_result \<Rightarrow> string" where
  "failure_reason r =
     (if strip (ex_status r) \<noteq> [] then strip (ex_status r)
      else case ex_reason r of
          Some s \<Rightarrow> if s \<noteq> [] \<and> strip s \<noteq> [] then strip s else ''sandbox_exec_failed''
        | None \<Rightarrow> ''sandbox_exec_failed'')"

definition build_done_payload :: "exec_result \<Rightarrow> string \<Rightarrow> string \<Rightarrow> pydict" where
  "build_done_payload r plan_name intent =
     [(''result'', PStr ''executed''), (''intent'', PStr intent), (''planName'', PStr plan_name),
      (''status'', PStr (ex_status r)), (''exitCode'', of_int_option (ex_exit_code r)), (''retryable'', PBool (ex_retryable r))] @
     opt_item ''tool'' (ex_tool r) @ opt_item ''toolVersion'' (ex_tool_version r) @
     opt_item ''traceId'' (ex_trace_id r) @ opt_item ''runId'' (ex_run_id r) @ opt_item ''output'' (Some (ex_output r))"

definition build_code_change_done_payload ::
  "string \<Rightarrow> reviewer_result \<Rightarrow> tester_result \<Rightarrow> pydict option \<Rightarrow> int option \<Rightarrow> int option \<Rightarrow> string \<Rightarrow> pydict" where
  "build_code_change_done_payload plan_name review test artifact attempt max_attempts target =
     [(''result'', PStr ''coded_reviewed_tested''), (''planName'', PStr plan_name),
      (''reviewApproved'', PBool (rv_approved review)), (''reviewSummary'', PStr (rv_summary review)),
      (''testStatus'', PStr (tr_status test)), (''testAttempts'', PInt (tr_attempts test)), (''testRetries'', PInt (tr_retries test))] @
     (if target \<noteq> [] then [(''intent'', PStr ''code_change'')] else []) @
     (case artifact of None \<Rightarrow> [] | Some a \<Rightarrow> if a = [] then [] else [(''artifact'', PDict a)]) @
     (case attempt of None \<Rightarrow> [] | Some n \<Rightarrow> [(''attempt'', PInt n)]) @
     (case max_attempts of None \<Rightarrow> [] | Some n \<Rightarrow> [(''maxAttempts'', PInt n)]) @
     opt_item ''traceId'' (tr_trace_id test) @ opt_item ''runId'' (tr_run_id test)"

definition bundle_artifact :: "artifact_bundle \<Rightarrow> pydict" where
  "bundle_artifact b =
     [(''artifactId'', PStr (ab_artifact_id b)), (''type'', PStr (ab_artifact_type b)), (''name'', PStr (ab_file_name b)),
      (''hash'', PStr (''sha256:'' @ ab_sha256 b)), (''size'', PInt (ab_size_bytes b)), (''mime'', PStr (ab_mime_type b))]"

text \<open>What the control plane says about the upload overrides what was computed here.\<close>

definition upload_text :: "pydict \<Rightarrow> string \<Rightarrow> string \<Rightarrow> (string \<Rightarrow> string) \<Rightarrow> pydict \<Rightarrow> pydict" where
  "upload_text uploaded key target f artifact =
     (let s = field_text uploaded key in if s \<noteq> [] then AList.update target (PStr (f s)) artifact else artifact)"

definition apply_upload :: "pydict option \<Rightarrow> pydict \<Rightarrow> pydict" where
  "apply_upload uploaded artifact =
     (case uploaded of
        None \<Rightarrow> artifact
      | Some [] \<Rightarrow> artifact
      | Some u \<Rightarrow>
          let a = upload_text u ''sha256'' ''hash'' (\<lambda>s. ''sha256:'' @ s)
                    (upload_text u ''contentType'' ''mime'' id
                       (upload_text u ''name'' ''name'' id (upload_text u ''artifactId'' ''artifactId'' id artifact)))
          in case dget u ''sizeBytes'' of
               PInt n \<Rightarrow> if n \<ge> 0 then AList.update ''size'' (PInt n) a else a
             | PBool b \<Rightarrow> AList.update ''size'' (PBool b) a
             | _ \<Rightarrow> a)"

definition run_hints :: "string \<Rightarrow> pydict" where
  "run_hints target =
     (if target = ''web''
      then [(''entryPath'', PStr ''index.html''),
            (''run'', PDict [(''command'', PStr ''python -m http.server 8000''),
               (''hints'', of_texts [''Run the command in the extracted artifact directory.'',
                  ''Open http://localhost:8000/index.html in a browser.''])])]
      else if target = ''fullstack''
      then [(''entryPath'', PStr ''frontend/index.html''),
            (''run'', PDict [(''command'', PStr ''python backend/app.py''),
               (''hints'', of_texts [''Install dependencies from requirements.txt first.'',
                  ''Open frontend/index.html after the backend server is running.''])])]
      else [(''entryPath'', PStr ''backend/app.py''),
            (''run'', PDict [(''command'', PStr ''python backend/app.py''),
               (''hints'', of_texts [''Install dependencies from requirements.txt first.'',
                  ''Use the /health endpoint to confirm the service is running.''])])])"

definition build_artifact_ready_payload ::
  "artifact_bundle \<Rightarrow> pydict option \<Rightarrow> string \<Rightarrow> string \<Rightarrow> string \<Rightarrow> pydict" where
  "build_artifact_ready_payload b uploaded target template_id export_mode =
     [(''artifact'', PDict (apply_upload uploaded (bundle_artifact b) @ run_hints target)),
      (''kind'', PStr (ab_artifact_type b)), (''target'', PStr target), (''templateId'', PStr template_id),
      (''exportMode'', PStr export_mode)]"

definition review_payload :: "plan_result \<Rightarrow> reviewer_result \<Rightarrow> pydict" where
  "review_payload plan r =
     [(''stage'', PStr ''ReviewerAgent''), (''message'', PStr ''Code review completed.''), (''planName'', PStr (pl_name plan)),
      (''approved'', PBool (rv_approved r)), (''summary'', PStr (rv_summary r)), (''riskLevel'', PStr (rv_risk_level r)),
      (''issues'', of_texts (rv_issues r))]"

end
