(* ===== verification/Test_Agent.thy ===== *)
theory Test_Agent
  imports Task_Payloads Plugin_Policy
begin

text \<open>
  The agent that runs the validation command of a task, \<open>agents/tester_agent.py\<close>, and the way in which it
  and the orchestrator run plugins: guarded by the breakers of \<open>Circuit_Breaker\<close>, one after the other until
  one gives a result, every failure reported and passed over.

  The plugins that are offered are those of the registry of \<open>Plugin_Policy\<close>. What a plugin does is an
  action on the world of the agent, given by the environment, as are the sandbox (\<open>exec_tool\<close>) and the
  process environment. The table of breakers is a part of the outside, read and written with
  \<open>we_runtime\<close> and \<open>we_set_runtime\<close>.
\<close>

record 's work_env =
  we_agent :: "'s agent_env"
  we_getenv :: "string \<Rightarrow> string option"
  we_exec :: "pydict \<Rightarrow> string \<Rightarrow> string \<Rightarrow> string \<Rightarrow> 's \<Rightarrow> exec_result result \<times> 's"
  we_runtime :: "'s \<Rightarrow> runtime_manager"
  we_set_runtime :: "runtime_manager \<Rightarrow> 's \<Rightarrow> 's"
  we_policy :: plugin_policy
  we_testers :: "plugin_manifest list"
  we_reviewers :: "plugin_manifest list"
  we_supports :: "plugin_manifest \<Rightarrow> bool"
  we_test_plugin :: "plugin_manifest \<Rightarrow> ('s agent_world, pyval) act"
  we_review_plugin :: "plugin_manifest \<Rightarrow> ('s agent_world, reviewer_result) act"

text \<open>The publisher that agents and plugins get.\<close>

definition emit :: "'s work_env \<Rightarrow> pydict \<Rightarrow> ('s agent_world, unit) act" where
  "emit env payload = publish (we_agent env) ''ASSISTANT_OUTPUT'' payload"

definition set_task :: "string \<Rightarrow> pyval \<Rightarrow> ('s agent_world, unit) act" where
  "set_task k v = modify (\<lambda>w. w\<lparr>aw_task := AList.update k v (aw_task w)\<rparr>)"

definition pop_task :: "string \<Rightarrow> ('s agent_world, unit) act" where
  "pop_task k = modify (\<lambda>w. w\<lparr>aw_task := AList.delete k (aw_task w)\<rparr>)"

section \<open>Running plugins\<close>

definition set_runtime :: "'s work_env \<Rightarrow> runtime_manager \<Rightarrow> 's agent_world \<Rightarrow> 's agent_world" where
  "set_runtime env m w = w\<lparr>aw_ext := we_set_runtime env m (aw_ext w)\<rparr>"

definition breaker_state_of :: "'s work_env \<Rightarrow> string \<Rightarrow> ('s agent_world, pydict) act" where
  "breaker_state_of env plugin w =
     (let (st, m) = plugin_state (we_runtime env (aw_ext w)) plugin in (Inr st, set_runtime env m w))"

text \<open>\<open>PluginRuntimeManager.execute\<close> with an operation that works on the whole world; the breaker that
  counts the outcome is the one in the table when the operation ends.\<close>

definition finish_plugin :: "'s work_env \<Rightarrow> string \<Rightarrow> (breaker \<Rightarrow> breaker) \<Rightarrow> 's agent_world \<Rightarrow> 's agent_world" where
  "finish_plugin env plugin f w =
     (let (b, m) = get_breaker (we_runtime env (aw_ext w)) plugin
      in set_runtime env (m\<lparr>breakers := (breakers m)(safe_plugin_id plugin \<mapsto> f b)\<rparr>) w)"

definition execute_plugin :: "'s work_env \<Rightarrow> string \<Rightarrow> ('s agent_world, 'a) act \<Rightarrow> ('s agent_world, 'a) act" where
  "execute_plugin env plugin operation w =
     (let (b, m) = get_breaker (we_runtime env (aw_ext w)) plugin; now = ae_monotonic (we_agent env) in
      case before_call (now (aw_ext w)) b of
        Inl e \<Rightarrow> (Inl e, set_runtime env m w)
      | Inr b' \<Rightarrow>
          (case operation (set_runtime env (m\<lparr>breakers := (breakers m)(safe_plugin_id plugin \<mapsto> b')\<rparr>) w) of
             (Inl e, w') \<Rightarrow> (Inl e, if is_Exception e then finish_plugin env plugin (after_failure (now (aw_ext w'))) w' else w')
           | (Inr x, w') \<Rightarrow> (Inr x, finish_plugin env plugin after_success w')))"

definition announced_permissions :: "plugin_permissions \<Rightarrow> pydict" where
  "announced_permissions p =
     [(''workspaceRead'', PBool (workspace_read p)), (''workspaceWrite'', PBool (workspace_write p)),
      (''sandboxExec'', PBool (sandbox_exec p)), (''networkAccess'', PBool (network_access p))]"

text \<open>\<open>extra\<close> are the entries that only the coder adds.\<close>

definition announce_plugin :: "'s work_env \<Rightarrow> string \<Rightarrow> string \<Rightarrow> pydict \<Rightarrow> plugin_manifest \<Rightarrow> ('s agent_world, unit) act" where
  "announce_plugin env stage message extra m =
     bind (breaker_state_of env (plugin_id m)) (\<lambda>st.
       emit env ([(''stage'', PStr stage), (''message'', PStr message), (''pluginId'', PStr (plugin_id m)),
         (''pluginVersion'', PStr (version m))] @ extra @ [(''breakerStatus'', dget st ''status''),
         (''failureCount'', dget st ''failureCount''), (''permissions'', PDict (announced_permissions (permissions m)))]))"

text \<open>The two \<open>except\<close> clauses, for an open breaker and for any other \<open>Exception\<close>: the failure is reported, and
  the plugin gives nothing.\<close>

definition skip_plugin :: "'s work_env \<Rightarrow> string \<Rightarrow> string \<Rightarrow> pydict \<Rightarrow> plugin_manifest \<Rightarrow> py_exn \<Rightarrow> ('s agent_world, 'a option) act" where
  "skip_plugin env stage failed extra m e =
     bind (breaker_state_of env (plugin_id m)) (\<lambda>st.
     next_act (emit env ([(''stage'', PStr stage),
         (''message'', PStr (if is_breaker_open_error e
            then ''Plugin skipped due to circuit breaker, falling back to built-in implementation.'' else failed)),
         (''pluginId'', PStr (plugin_id m))] @ extra @ [(''breakerStatus'', dget st ''status''),
         (''failureCount'', dget st ''failureCount'')] @
         (if is_breaker_open_error e then [] else [(''error'', PStr (exn_text e))])))
       (ret None))"

text \<open>\<open>for plugin in plugins\<close>: the first result ends the loop.\<close>

fun offer_plugins ::
  "'s work_env \<Rightarrow> string \<Rightarrow> string \<Rightarrow> string \<Rightarrow> string \<Rightarrow> pydict \<Rightarrow> (plugin_manifest \<Rightarrow> ('s agent_world, 'a option) act)
    \<Rightarrow> plugin_manifest list \<Rightarrow> ('s agent_world, 'a option) act" where
  "offer_plugins env active stage message failed extra body [] = ret None"
| "offer_plugins env active stage message failed extra body (m # ms) =
     next_act (set_task active (PStr (plugin_id m)))
       (next_act (announce_plugin env stage message extra m)
          (bind (try_except (body m) (skip_plugin env stage failed extra m)) (\<lambda>r.
             case r of Some x \<Rightarrow> ret (Some x) | None \<Rightarrow> offer_plugins env active stage message failed extra body ms)))"

section \<open>The tester\<close>

definition default_test_command :: "(string \<Rightarrow> string option) \<Rightarrow> pydict \<Rightarrow> string" where
  "default_test_command getenv task =
     (let explicit = field_text task ''testCommand'';
          env_command = strip (case getenv ''MVP_TEST_COMMAND'' of Some v \<Rightarrow> v | None \<Rightarrow> [])
      in if explicit \<noteq> [] then explicit
         else if env_command \<noteq> [] then env_command else ''echo test_from_python_agent'')"

text \<open>A plugin's command, kept in the task; a blank one counts as none.\<close>

definition plugin_command :: "'s work_env \<Rightarrow> plugin_manifest \<Rightarrow> ('s agent_world, string option) act" where
  "plugin_command env m =
     bind (execute_plugin env (plugin_id m) (we_test_plugin env m)) (\<lambda>v.
       let command = strip (py_str v) in
       if command \<noteq> [] then next_act (set_task ''testCommand'' (PStr command)) (ret (Some command)) else ret None)"

definition resolve_test_command :: "'s work_env \<Rightarrow> ('s agent_world, string) act" where
  "resolve_test_command env =
     bind (get_with (\<lambda>w. field_text (aw_task w) ''testCommand'')) (\<lambda>explicit.
       if explicit \<noteq> [] then ret explicit
       else
         next_act (modify (\<lambda>w. w\<lparr>aw_task := set_default ''intent'' (PStr ''test'') (aw_task w)\<rparr>))
           (bind (get_with (\<lambda>w. resolve_tester_plugins (we_supports env) (we_policy env) (aw_task w) (we_testers env))) (\<lambda>plugins.
            bind (offer_plugins env ''_activeTesterPlugin'' ''TesterPlugin'' ''Executing tester plugin.''
                    ''Tester plugin failed, falling back to built-in command resolution.'' [] (plugin_command env) plugins) (\<lambda>r.
              case r of
                Some command \<Rightarrow> ret command
              | None \<Rightarrow> next_act (pop_task ''_activeTesterPlugin'')
                  (get_with (\<lambda>w. default_test_command (we_getenv env) (aw_task w)))))))"

definition exec_in_sandbox :: "'s work_env \<Rightarrow> string \<Rightarrow> string \<Rightarrow> string \<Rightarrow> ('s agent_world, exec_result) act" where
  "exec_in_sandbox env command prompt intent =
     bind (get_with aw_task) (\<lambda>task. outside (we_exec env task command prompt intent))"

definition tester_result_of :: "bool \<Rightarrow> int \<Rightarrow> string \<Rightarrow> exec_result \<Rightarrow> tester_result" where
  "tester_result_of success attempt command r =
     \<lparr>tr_success = success, tr_attempts = attempt, tr_retries = attempt - 1, tr_command = command,
      tr_status = ex_status r, tr_reason = ex_reason r, tr_trace_id = ex_trace_id r, tr_run_id = ex_run_id r\<rparr>"

definition dispatch_failed :: "int \<Rightarrow> string \<Rightarrow> string \<Rightarrow> tester_result" where
  "dispatch_failed attempt command reason =
     \<lparr>tr_success = False, tr_attempts = attempt, tr_retries = attempt - 1, tr_command = command,
      tr_status = ''sandbox_request_failed'', tr_reason = Some reason, tr_trace_id = None, tr_run_id = None\<rparr>"

text \<open>One attempt: a result of the tester, or \<open>None\<close> to try again. The call of the sandbox alone stands in
  the \<open>try\<close>.\<close>

definition test_stage :: "string \<Rightarrow> pydict \<Rightarrow> pydict" where
  "test_stage message rest = [(''stage'', PStr ''TesterAgent''), (''message'', PStr message)] @ rest"

definition test_attempt ::
  "'s work_env \<Rightarrow> plan_result \<Rightarrow> string \<Rightarrow> string \<Rightarrow> int \<Rightarrow> int \<Rightarrow> ('s agent_world, tester_result option) act" where
  "test_attempt env plan prompt command max_retries attempt =
     next_act (emit env (test_stage ''Running validation command.''
       [(''planName'', PStr (pl_name plan)), (''attempt'', PInt attempt), (''maxAttempts'', PInt (max_retries + 1)),
        (''command'', PStr command)]))
     (bind (try_except (bind (exec_in_sandbox env command prompt ''test'') (\<lambda>r. ret (Inr r))) (\<lambda>e. ret (Inl e))) (\<lambda>outcome.
        case outcome of
          Inl e \<Rightarrow>
            let err = [(''attempt'', PInt attempt), (''error'', PStr (exn_text e))] in
            if attempt \<le> max_retries
            then next_act (emit env (test_stage ''Validation command failed to dispatch, retrying.'' err)) (ret None)
            else next_act (emit env (test_stage ''Validation command dispatch failed.'' err))
                   (ret (Some (dispatch_failed attempt command (exn_text e))))
        | Inr r \<Rightarrow>
            let ids = [(''traceId'', of_text (ex_trace_id r)), (''runId'', of_text (ex_run_id r))];
                st = [(''attempt'', PInt attempt), (''status'', PStr (ex_status r))] in
            if ex_ok r
            then next_act (emit env (test_stage ''Validation passed.'' (st @ [(''exitCode'', of_int_option (ex_exit_code r))] @ ids)))
                   (ret (Some (tester_result_of True attempt command r)))
            else if attempt \<le> max_retries
            then next_act (emit env (test_stage ''Validation failed, retrying.'' (st @ [(''reason'', of_text (ex_reason r))])))
                   (ret None)
            else next_act (emit env (test_stage ''Validation failed after retries.''
                     (st @ [(''reason'', of_text (ex_reason r))] @ ids)))
                   (ret (Some (tester_result_of False attempt command r)))))"

text \<open>The attempts from \<open>attempt\<close> on, with \<open>n\<close> more allowed after it. The loop never runs out without a result,
  so the code after it is not reached; the model raises there.\<close>

fun test_attempts ::
  "'s work_env \<Rightarrow> plan_result \<Rightarrow> string \<Rightarrow> string \<Rightarrow> int \<Rightarrow> nat \<Rightarrow> int \<Rightarrow> ('s agent_world, tester_result) act" where
  "test_attempts env plan prompt command max_retries n attempt =
     bind (test_attempt env plan prompt command max_retries attempt) (\<lambda>r.
       case r of
         Some t \<Rightarrow> ret t
       | None \<Rightarrow> (case n of
           0 \<Rightarrow> throw (RuntimeError ''unreachable'')
         | Suc m \<Rightarrow> test_attempts env plan prompt command max_retries m (attempt + 1)))"

definition clamp_retries :: "int \<Rightarrow> int" where
  "clamp_retries n = max 0 (min n 3)"

definition tester_execute :: "'s work_env \<Rightarrow> plan_result \<Rightarrow> int \<Rightarrow> ('s agent_world, tester_result) act" where
  "tester_execute env plan max_retries =
     bind (get_with (\<lambda>w. field_text (aw_task w) ''prompt'')) (\<lambda>prompt.
     bind (resolve_test_command env) (\<lambda>command.
       test_attempts env plan prompt command (clamp_retries max_retries) (nat (clamp_retries max_retries)) 1))"

section \<open>The attempts of the tester\<close>

text \<open>Somewhere between publications; \<open>x\<close> is what \<open>v\<close> shows of the outside.\<close>

definition at_rest ::
  "string \<Rightarrow> ('s \<Rightarrow> pydict list) \<Rightarrow> ('s \<Rightarrow> 'v) \<Rightarrow> 'v \<Rightarrow> 's agent_world \<Rightarrow> bool" where
  "at_rest tid rcv v x w \<longleftrightarrow> (\<exists>es sm. stands tid rcv v es x sm w)"

lemma emit_at_rest:
  assumes "takes_all (we_agent env) rcv" "unobserved (we_agent env) v" "tid \<noteq> []"
  shows "triple (at_rest tid rcv v x) (emit env d) (\<lambda>_. at_rest tid rcv v x) (\<lambda>_ _. False)"
proof (rule triple_pre)
  fix w assume "at_rest tid rcv v x w"
  then obtain es sm where st: "stands tid rcv v es x sm w" by (auto simp: at_rest_def)
  show "triple (\<lambda>u. u = w) (emit env d) (\<lambda>_. at_rest tid rcv v x) (\<lambda>_ _. False)"
    unfolding emit_def
    by (rule triple_conseq [OF publish_stands [OF assms, of es x sm]]) (use st in \<open>auto simp: at_rest_def\<close>)
qed

lemma emit_then_ret:
  assumes "takes_all (we_agent env) rcv" "unobserved (we_agent env) v" "tid \<noteq> []"
    and "\<And>w. at_rest tid rcv v x w \<Longrightarrow> Q y w"
  shows "triple (at_rest tid rcv v x) (next_act (emit env d) (ret y)) Q (\<lambda>_ _. False)"
  by (rule triple_next [OF emit_at_rest [OF assms(1-3)]]) (rule triple_ret, rule assms(4))

definition exec_ok :: "exec_result result \<Rightarrow> bool" where
  "exec_ok r = (case r of Inl e \<Rightarrow> False | Inr x \<Rightarrow> ex_ok x)"

text \<open>\<open>execs\<close> shows the outcomes of the sandbox so far, none of which interrupts the program.\<close>

definition records_execs :: "'s work_env \<Rightarrow> ('s \<Rightarrow> pydict list) \<Rightarrow> ('s \<Rightarrow> exec_result result list) \<Rightarrow> bool" where
  "records_execs env rcv execs \<longleftrightarrow>
     (\<forall>task c p i s. \<exists>r s'. we_exec env task c p i s = (r, s') \<and> execs s' = execs s @ [r] \<and> rcv s' = rcv s \<and>
        (case r of Inl e \<Rightarrow> is_Exception e | Inr x \<Rightarrow> True))"

lemma at_rest_outside:
  assumes "at_rest tid rcv v x w" "rcv s' = rcv (aw_ext w)"
  shows "at_rest tid rcv v (v s') (w\<lparr>aw_ext := s'\<rparr>)"
  using assms by (auto simp: at_rest_def stands_def event_types_def task_summary_def outbox_ok_core [of "w\<lparr>aw_ext := s'\<rparr>" w])

lemma sandbox_call:
  assumes "records_execs env rcv execs"
  shows "triple (at_rest tid rcv execs xs)
    (try_except (bind (exec_in_sandbox env command prompt intent) (\<lambda>r. ret (Inr r))) (\<lambda>e. ret (Inl e)))
    (\<lambda>r. at_rest tid rcv execs (xs @ [r])) (\<lambda>_ _. False)"
proof (rule triple_pre)
  fix w assume w: "at_rest tid rcv execs xs w"
  obtain r s' where x: "we_exec env (aw_task w) command prompt intent (aw_ext w) = (r, s')"
    "execs s' = execs (aw_ext w) @ [r]" "rcv s' = rcv (aw_ext w)" "case r of Inl e \<Rightarrow> is_Exception e | Inr x \<Rightarrow> True"
    using assms unfolding records_execs_def by meson
  have "execs (aw_ext w) = xs" using w by (auto simp: at_rest_def stands_def)
  then have "at_rest tid rcv execs (xs @ [r]) (w\<lparr>aw_ext := s'\<rparr>)" using at_rest_outside [OF w x(3)] x(2) by simp
  then show "triple (\<lambda>u. u = w)
      (try_except (bind (exec_in_sandbox env command prompt intent) (\<lambda>r. ret (Inr r))) (\<lambda>e. ret (Inl e)))
      (\<lambda>r. at_rest tid rcv execs (xs @ [r])) (\<lambda>_ _. False)"
    using x(1,4) by (auto simp: triple_def catching_def exec_in_sandbox_def outside_def bind_def get_with_def ret_def
        split: sum.splits)
qed

definition attempt_ok ::
  "string \<Rightarrow> int \<Rightarrow> int \<Rightarrow> exec_result result \<Rightarrow> tester_result option \<Rightarrow> bool" where
  "attempt_ok command max_retries attempt r t =
     (case t of
        None \<Rightarrow> \<not> exec_ok r \<and> attempt \<le> max_retries
      | Some t \<Rightarrow> tr_success t = exec_ok r \<and> (exec_ok r \<or> max_retries < attempt) \<and> tr_attempts t = attempt \<and>
          tr_retries t = attempt - 1 \<and> tr_command t = command)"

lemma test_attempt_spec:
  assumes "takes_all (we_agent env) rcv" "unobserved (we_agent env) execs" "tid \<noteq> []" "records_execs env rcv execs"
  shows "triple (at_rest tid rcv execs xs) (test_attempt env plan prompt command max_retries attempt)
    (\<lambda>t w. \<exists>r. at_rest tid rcv execs (xs @ [r]) w \<and> attempt_ok command max_retries attempt r t) (\<lambda>_ _. False)"
  unfolding test_attempt_def
proof (rule triple_next [OF emit_at_rest [OF assms(1-3)]], rule triple_bind [OF sandbox_call [OF assms(4)]])
  fix r :: "exec_result result"
  show "triple (at_rest tid rcv execs (xs @ [r]))
     (case r of
        Inl e \<Rightarrow>
          let err = [(''attempt'', PInt attempt), (''error'', PStr (exn_text e))] in
          if attempt \<le> max_retries
          then next_act (emit env (test_stage ''Validation command failed to dispatch, retrying.'' err)) (ret None)
          else next_act (emit env (test_stage ''Validation command dispatch failed.'' err))
                 (ret (Some (dispatch_failed attempt command (exn_text e))))
      | Inr r \<Rightarrow>
          let ids = [(''traceId'', of_text (ex_trace_id r)), (''runId'', of_text (ex_run_id r))];
              st = [(''attempt'', PInt attempt), (''status'', PStr (ex_status r))] in
          if ex_ok r
          then next_act (emit env (test_stage ''Validation passed.'' (st @ [(''exitCode'', of_int_option (ex_exit_code r))] @ ids)))
                 (ret (Some (tester_result_of True attempt command r)))
          else if attempt \<le> max_retries
          then next_act (emit env (test_stage ''Validation failed, retrying.'' (st @ [(''reason'', of_text (ex_reason r))])))
                 (ret None)
          else next_act (emit env (test_stage ''Validation failed after retries.''
                   (st @ [(''reason'', of_text (ex_reason r))] @ ids)))
                 (ret (Some (tester_result_of False attempt command r))))
     (\<lambda>t w. \<exists>r. at_rest tid rcv execs (xs @ [r]) w \<and> attempt_ok command max_retries attempt r t) (\<lambda>_ _. False)"
    by (cases r) (auto simp: Let_def attempt_ok_def exec_ok_def dispatch_failed_def tester_result_of_def
        intro!: triple_if emit_then_ret [OF assms(1-3)])
qed

text \<open>All attempts: they stop at the first success.\<close>

definition attempts_ok :: "string \<Rightarrow> int \<Rightarrow> exec_result result list \<Rightarrow> tester_result \<Rightarrow> bool" where
  "attempts_ok command max_retries rs t \<longleftrightarrow>
     rs \<noteq> [] \<and> list_all (\<lambda>r. \<not> exec_ok r) (butlast rs) \<and> tr_success t = exec_ok (last rs) \<and> tr_command t = command \<and>
     tr_retries t = tr_attempts t - 1"

lemma test_attempts_spec:
  assumes "takes_all (we_agent env) rcv" "unobserved (we_agent env) execs" "tid \<noteq> []" "records_execs env rcv execs"
  shows "attempt + int n = max_retries + 1 \<Longrightarrow>
    triple (at_rest tid rcv execs xs) (test_attempts env plan prompt command max_retries n attempt)
      (\<lambda>t w. \<exists>rs. at_rest tid rcv execs (xs @ rs) w \<and> attempts_ok command max_retries rs t \<and>
         tr_attempts t = attempt + int (length rs) - 1 \<and> tr_attempts t \<le> max_retries + 1 \<and>
         (tr_success t \<or> tr_attempts t = max_retries + 1)) (\<lambda>_ _. False)"
proof (induction n arbitrary: attempt xs)
  case 0
  show ?case
    by (subst test_attempts.simps, rule triple_bind [OF test_attempt_spec [OF assms]], rule triple_pre)
      (use 0 in \<open>auto simp: attempt_ok_def attempts_ok_def triple_def ret_def throw_def split: option.splits
         intro!: exI [of _ "[_]"]\<close>)
next
  case (Suc n)
  show ?case
  proof (subst test_attempts.simps, rule triple_bind [OF test_attempt_spec [OF assms]], rule triple_pre)
    fix t w assume "\<exists>r. at_rest tid rcv execs (xs @ [r]) w \<and> attempt_ok command max_retries attempt r t"
    then obtain r where r: "at_rest tid rcv execs (xs @ [r]) w" "attempt_ok command max_retries attempt r t" by blast
    let ?post = "\<lambda>t w. \<exists>rs. at_rest tid rcv execs (xs @ rs) w \<and> attempts_ok command max_retries rs t \<and>
         tr_attempts t = attempt + int (length rs) - 1 \<and> tr_attempts t \<le> max_retries + 1 \<and>
         (tr_success t \<or> tr_attempts t = max_retries + 1)"
    show "triple (\<lambda>v. v = w) (case t of Some t \<Rightarrow> ret t
        | None \<Rightarrow> case Suc n of 0 \<Rightarrow> throw (RuntimeError ''unreachable'')
            | Suc m \<Rightarrow> test_attempts env plan prompt command max_retries m (attempt + 1)) ?post (\<lambda>_ _. False)"
    proof (cases t)
      case (Some u)
      with r Suc.prems show ?thesis
        by (auto simp: attempt_ok_def attempts_ok_def intro!: triple_ret exI [of _ "[r]"])
    next
      case None
      have "triple (at_rest tid rcv execs (xs @ [r])) (test_attempts env plan prompt command max_retries n (attempt + 1))
          ?post (\<lambda>_ _. False)"
      proof (rule triple_conseq [OF Suc.IH [of "attempt + 1" "xs @ [r]"]])
        show "attempt + 1 + int n = max_retries + 1" using Suc.prems by simp
        fix u w'
        assume "\<exists>rs. at_rest tid rcv execs ((xs @ [r]) @ rs) w' \<and> attempts_ok command max_retries rs u \<and>
           tr_attempts u = attempt + 1 + int (length rs) - 1 \<and> tr_attempts u \<le> max_retries + 1 \<and>
           (tr_success u \<or> tr_attempts u = max_retries + 1)"
        then obtain rs where "at_rest tid rcv execs (xs @ r # rs) w'" "attempts_ok command max_retries rs u"
          "tr_attempts u = attempt + 1 + int (length rs) - 1" "tr_attempts u \<le> max_retries + 1"
          "tr_success u \<or> tr_attempts u = max_retries + 1" by auto
        then show "?post u w'"
          using r(2) None by (intro exI [of _ "r # rs"]) (auto simp: attempts_ok_def attempt_ok_def)
      qed
      with None r(1) show ?thesis by (auto elim: triple_conseq)
    qed
  qed
qed

text \<open>The tester, with the command of the task, runs it until it succeeds, once more than the retries allowed
  at most (never more than four times): every run but the last failed, the result says whether the last
  one succeeded, and a failure is reported only when all attempts are used up.\<close>

theorem tester_stops_at_first_success:
  assumes "takes_all (we_agent env) rcv" "unobserved (we_agent env) execs" "records_execs env rcv execs"
    and "outbox_ok w" "task_id_of w = tid" "tid \<noteq> []" "pending_outbox tid w = []"
    and "field_text (aw_task w) ''testCommand'' = command" "command \<noteq> []"
  shows "\<exists>t w' rs. tester_execute env plan max_retries w = (Inr t, w') \<and>
    execs (aw_ext w') = execs (aw_ext w) @ rs \<and> rs \<noteq> [] \<and> list_all (\<lambda>r. \<not> exec_ok r) (butlast rs) \<and>
    tr_success t = exec_ok (last rs) \<and> tr_command t = command \<and>
    tr_attempts t = int (length rs) \<and> tr_retries t = int (length rs) - 1 \<and>
    tr_attempts t \<le> clamp_retries max_retries + 1 \<and> tr_attempts t \<le> 4 \<and>
    (tr_success t \<or> tr_attempts t = clamp_retries max_retries + 1)"
proof -
  let ?mr = "clamp_retries max_retries" and ?prompt = "field_text (aw_task w) ''prompt''"
  have mr: "0 \<le> ?mr" "?mr \<le> 3" by (simp_all add: clamp_retries_def)
  have run: "tester_execute env plan max_retries w = test_attempts env plan ?prompt command ?mr (nat ?mr) 1 w"
    using assms(8,9) by (simp add: tester_execute_def resolve_test_command_def bind_def ret_def get_with_def)
  have rest: "at_rest tid rcv execs (execs (aw_ext w)) w"
    using assms(4-7) by (auto simp: at_rest_def stands_def)
  have "triple (at_rest tid rcv execs (execs (aw_ext w))) (test_attempts env plan ?prompt command ?mr (nat ?mr) 1)
      (\<lambda>t w'. \<exists>rs. at_rest tid rcv execs (execs (aw_ext w) @ rs) w' \<and> attempts_ok command ?mr rs t \<and>
         tr_attempts t = 1 + int (length rs) - 1 \<and> tr_attempts t \<le> ?mr + 1 \<and> (tr_success t \<or> tr_attempts t = ?mr + 1))
      (\<lambda>_ _. False)"
    by (rule test_attempts_spec [OF assms(1,2,6,3)]) (use mr in simp)
  from tripleD_Inr [OF this rest] tripleD_Inl [OF this rest]
  obtain t w' rs where "test_attempts env plan ?prompt command ?mr (nat ?mr) 1 w = (Inr t, w')"
    "at_rest tid rcv execs (execs (aw_ext w) @ rs) w'" "attempts_ok command ?mr rs t"
    "tr_attempts t = int (length rs)" "tr_attempts t \<le> ?mr + 1" "tr_success t \<or> tr_attempts t = ?mr + 1"
    by (cases "test_attempts env plan ?prompt command ?mr (nat ?mr) 1 w"; cases "fst (test_attempts env plan ?prompt command ?mr (nat ?mr) 1 w)")
      auto
  then show ?thesis
    using mr by (intro exI [of _ t] exI [of _ w'] exI [of _ rs]) (auto simp: run attempts_ok_def at_rest_def stands_def)
qed

section \<open>Examples\<close>

text \<open>Outside there are the events received, a counter for identifiers and the outcomes of the sandbox,
  whose first run fails.\<close>

type_synonym sample_ext = "pydict list \<times> nat \<times> exec_result result list"

definition ok_exec :: exec_result where
  "ok_exec = \<lparr>ex_ok = True, ex_status = ''ok'', ex_exit_code = Some 0, ex_output = [], ex_retryable = False, ex_reason = None,
     ex_tool = None, ex_tool_version = None, ex_trace_id = None, ex_run_id = None\<rparr>"

definition sample_agent_env :: "sample_ext agent_env" where
  "sample_agent_env = \<lparr>ae_uuid = (\<lambda>(l, n, x). (show_nat n, (l, n + 1, x))), ae_timestamp = (\<lambda>s. ''now''), ae_monotonic = (\<lambda>s. 0),
     ae_client = PlainPublish (\<lambda>tid ev (l, n, x). (Inr (), (l @ [ev], n, x)))\<rparr>"

definition sample_work_env :: "sample_ext work_env" where
  "sample_work_env = \<lparr>we_agent = sample_agent_env, we_getenv = (\<lambda>k. None),
     we_exec = (\<lambda>task c p i (l, n, x). let r = (if x = [] then Inl (RuntimeError ''no sandbox'') else Inr ok_exec) in (r, (l, n, x @ [r]))),
     we_runtime = (\<lambda>s. new_runtime_manager (\<lambda>t. None) (Some 3) (Some 30) [] []), we_set_runtime = (\<lambda>m s. s),
     we_policy = empty_policy [], we_testers = [], we_reviewers = [], we_supports = (\<lambda>m. True),
     we_test_plugin = (\<lambda>m. ret PNone), we_review_plugin = (\<lambda>m. throw (RuntimeError ''none''))\<rparr>"

definition sample_agent_world :: "pydict \<Rightarrow> sample_ext agent_world" where
  "sample_agent_world task = \<lparr>aw_task = task, aw_obs = None, aw_seq = Map.empty, aw_outbox = Map.empty, aw_ext = ([], 0, [])\<rparr>"

lemma sample_envs:
  "takes_all (we_agent sample_work_env) fst" "unobserved (we_agent sample_work_env) (\<lambda>s. snd (snd s))"
  "records_execs sample_work_env fst (\<lambda>s. snd (snd s))"
  by (auto simp: takes_all_def unobserved_def records_execs_def client_call_def sample_work_env_def sample_agent_env_def Let_def)

definition sample_test_task :: pydict where
  "sample_test_task = [(''taskId'', PStr ''t1''), (''testCommand'', PStr ''make check'')]"

lemma sample_test_task_fields:
  "field_text sample_test_task ''taskId'' = ''t1''" "field_text sample_test_task ''testCommand'' = ''make check''"
  by code_simp+

end
