(* ===== verification/Orchestrator.thy ===== *)
theory Orchestrator
  imports Test_Agent Task_Lock Dag_Scheduler
begin

text \<open>
  The orchestrator of a task, \<open>orchestrator/agent_orchestrator.py\<close>, with its staged runtime
  \<open>orchestrator/langgraph_runtime.py\<close>: the lease, the stages of a task, the fix loop around coder, gate,
  review and test, and the terminal event with the record for the project memory.

  The agents and tools the orchestrator is constructed with are fields of its environment. Those that get
  the task and a publisher are actions on the world of the agent; the others work on the outside. The
  tester is the one of \<open>Test_Agent\<close>, the scheduler that of \<open>Dag_Scheduler\<close>, the lease that of \<open>Task_Lock\<close>.
  The reviewer and the tester, which the scheduler runs in two threads, run one after the other here, in
  either order (\<open>oe_review_first\<close>).
\<close>

section \<open>The environment\<close>

record graph_result =
  gr_handled :: bool
  gr_event :: string
  gr_payload :: pydict
  gr_memory :: pydict
  gr_status :: string
  gr_reason :: string

record bootstrap_result =
  bo_ok :: bool
  bo_repo_dir :: string
  bo_file_count :: int
  bo_error :: "string option"

text \<open>\<open>oe_graph\<close> is the graph library when it is installed: it runs the node that the route selects, which
  returns a result or raises, and gives back the final state's result, if there is one.\<close>

record 's orch_env =
  oe_work :: "'s work_env"
  oe_engine :: string
  oe_graph :: "(('s agent_world, graph_result) act \<Rightarrow> ('s agent_world, graph_result option) act) option"
  oe_project_key :: "pydict \<Rightarrow> string"
  oe_recent :: "string \<Rightarrow> int \<Rightarrow> 's \<Rightarrow> pydict list result \<times> 's"
  oe_append :: "string \<Rightarrow> pydict \<Rightarrow> 's \<Rightarrow> unit result \<times> 's"
  oe_infer :: "string \<Rightarrow> ('s agent_world, intent_decision) act"
  oe_plan :: "string \<Rightarrow> intent_decision \<Rightarrow> ('s agent_world, plan_result) act"
  oe_coder :: "plan_result \<Rightarrow> ('s agent_world, bool) act"
  oe_validate :: "string \<Rightarrow> ('s agent_world, validation_result) act"
  oe_reviewer :: "plan_result \<Rightarrow> ('s agent_world, reviewer_result) act"
  oe_max_retries :: int
  oe_review_first :: bool
  oe_done_of :: "string list \<Rightarrow> string list"
  oe_files :: "'s \<Rightarrow> fs"
  oe_path :: "string \<Rightarrow> fs_path"
  oe_export :: "fs_path \<Rightarrow> string list \<Rightarrow> 's \<Rightarrow> artifact_bundle result \<times> 's"
  oe_upload :: "(string \<Rightarrow> artifact_bundle \<Rightarrow> 's \<Rightarrow> pydict option result \<times> 's) option"
  oe_bootstrap :: "(string \<Rightarrow> string \<Rightarrow> 's \<Rightarrow> bootstrap_result result \<times> 's) option"
  oe_code_index :: "(string \<Rightarrow> 's \<Rightarrow> (int \<times> int) result \<times> 's) option"
  oe_dialogue :: "(string \<Rightarrow> string \<Rightarrow> 's \<Rightarrow> (pyval \<times> pyval) option result \<times> 's) option"

abbreviation oe_agent :: "'s orch_env \<Rightarrow> 's agent_env" where
  "oe_agent env \<equiv> we_agent (oe_work env)"

definition publish_ev :: "'s orch_env \<Rightarrow> string \<Rightarrow> pydict \<Rightarrow> ('s agent_world, unit) act" where
  "publish_ev env ty d = publish (oe_agent env) ty d"

definition say :: "'s orch_env \<Rightarrow> string \<Rightarrow> string \<Rightarrow> pydict \<Rightarrow> ('s agent_world, unit) act" where
  "say env stage message rest =
     publish_ev env ''ASSISTANT_OUTPUT'' ([(''stage'', PStr stage), (''message'', PStr message)] @ rest)"

definition in_span :: "'s orch_env \<Rightarrow> string \<Rightarrow> string \<Rightarrow> pydict \<Rightarrow> ('s agent_world, 'a) act \<Rightarrow> ('s agent_world, 'a) act" where
  "in_span env name stage attributes m = with_span (oe_agent env) name stage attributes m"

text \<open>\<open>d[key]\<close>.\<close>

definition item_of :: "pydict \<Rightarrow> string \<Rightarrow> ('w, pyval) act" where
  "item_of d key = lift_result (case map_of d key of Some v \<Rightarrow> Inr v | None \<Rightarrow> Inl (NamedError ''KeyError'' (quote_text key)))"

section \<open>Terminal events\<close>

record ending =
  en_status :: string
  en_intent :: string
  en_reason :: string
  en_attempts :: int
  en_success :: "bool option"

definition terminal_payload :: "'s orch_env \<Rightarrow> pydict \<Rightarrow> ending \<Rightarrow> ('s agent_world, pydict) act" where
  "terminal_payload env payload en =
     bind (get_with aw_task) (\<lambda>task.
     bind (ensure_own (oe_agent env)) (\<lambda>ob w.
       let path = field_text task ''_executionPath'';
           out = set_default ''executionPath'' (PStr (if path \<noteq> [] then path else ''legacy'')) payload;
           te = \<lparr>te_status = en_status en, te_intent = en_intent en, te_reason = en_reason en,
                 te_generation_target = generation_target_for_metrics task,
                 te_fix_attempts = en_attempts en, te_fix_success = en_success en\<rparr>;
           (p, ob') = attach_terminal te (ae_monotonic (oe_agent env) (aw_ext w)) out ob
       in (Inr p, w\<lparr>aw_obs := Some ob'\<rparr>)))"

definition end_task :: "'s orch_env \<Rightarrow> string \<Rightarrow> pydict \<Rightarrow> ending \<Rightarrow> ('s agent_world, pydict) act" where
  "end_task env event_type payload en =
     bind (terminal_payload env payload en) (\<lambda>p. next_act (publish_ev env event_type p) (ret p))"

text \<open>The ending of a failure with payload \<open>base\<close>, and of a success.\<close>

definition failed_with :: "string \<Rightarrow> pydict \<Rightarrow> ending" where
  "failed_with intent base =
     \<lparr>en_status = ''failed'', en_intent = intent, en_reason = field_text base ''reason'', en_attempts = 0, en_success = None\<rparr>"

definition fix_failed :: "int \<Rightarrow> pydict \<Rightarrow> ending" where
  "fix_failed n base = (failed_with ''code_change'' base)\<lparr>en_attempts := n, en_success := Some False\<rparr>"

definition done_with :: "string \<Rightarrow> ending" where
  "done_with intent = \<lparr>en_status = ''done'', en_intent = intent, en_reason = [], en_attempts = 0, en_success = None\<rparr>"

definition fail_task :: "'s orch_env \<Rightarrow> string \<Rightarrow> pydict \<Rightarrow> ('s agent_world, pydict) act" where
  "fail_task env intent base = end_task env ''TASK_FAILED'' base (failed_with intent base)"

definition memory_append :: "'s orch_env \<Rightarrow> string \<Rightarrow> pydict \<Rightarrow> ('s agent_world, unit) act" where
  "memory_append env key r = outside (oe_append env key r)"

definition failed_record :: "string \<Rightarrow> string \<Rightarrow> pydict \<Rightarrow> pydict \<Rightarrow> ('w, pydict) act" where
  "failed_record intent plan_name payload rest =
     bind (item_of payload ''reason'') (\<lambda>reason.
     bind (item_of payload ''errorCode'') (\<lambda>code.
       ret ([(''intent'', PStr intent), (''planName'', PStr plan_name), (''status'', PStr ''failed''),
             (''reason'', reason), (''errorCode'', code)] @ rest)))"

text \<open>With \<open>"detail": payload["detail"]\<close>, which raises when the payload has none.\<close>

definition failed_record_detail :: "string \<Rightarrow> string \<Rightarrow> pydict \<Rightarrow> pydict \<Rightarrow> ('w, pydict) act" where
  "failed_record_detail intent plan_name payload rest =
     bind (failed_record intent plan_name payload []) (\<lambda>r.
     bind (item_of payload ''detail'') (\<lambda>detail. ret (r @ [(''detail'', detail)] @ rest)))"

section \<open>Review and test\<close>

definition reviewer_plugin_run :: "'s orch_env \<Rightarrow> plan_result \<Rightarrow> plugin_manifest \<Rightarrow> ('s agent_world, reviewer_result option) act" where
  "reviewer_plugin_run env plan m =
     bind (in_span env ''reviewer_plugin'' ''ReviewerPlugin'' [(''pluginId'', PStr (plugin_id m))]
             (execute_plugin (oe_work env) (plugin_id m) (we_review_plugin (oe_work env) m))) (\<lambda>r.
     next_act (emit (oe_work env) (review_payload plan r)) (ret (Some r)))"

definition run_reviewer_with_plugins :: "'s orch_env \<Rightarrow> plan_result \<Rightarrow> ('s agent_world, reviewer_result) act" where
  "run_reviewer_with_plugins env plan =
     bind (get_with (\<lambda>w. resolve_reviewer_plugins (we_supports (oe_work env)) (we_policy (oe_work env)) (aw_task w)
                           (we_reviewers (oe_work env)))) (\<lambda>plugins.
       if plugins = [] then oe_reviewer env plan
       else bind (offer_plugins (oe_work env) ''_activeReviewerPlugin'' ''ReviewerPlugin'' ''Executing reviewer plugin.''
                    ''Reviewer plugin failed, falling back to built-in reviewer.'' [] (reviewer_plugin_run env plan) plugins) (\<lambda>r.
         case r of
           Some x \<Rightarrow> ret x
         | None \<Rightarrow> next_act (pop_task ''_activeReviewerPlugin'') (oe_reviewer env plan)))"

datatype node_value = NodeTrue | NodeReview reviewer_result | NodeTest tester_result

text \<open>Both run to their end before the scheduler returns; what it returns depends on their outcomes only.\<close>

definition outcome_of :: "('w, 'a) act \<Rightarrow> ('w, 'a result) act" where
  "outcome_of m w = (let (r, w') = m w in (Inr r, w'))"

definition both_outcomes :: "bool \<Rightarrow> ('w, 'a) act \<Rightarrow> ('w, 'b) act \<Rightarrow> ('w, 'a result \<times> 'b result) act" where
  "both_outcomes first m n =
     (if first then bind (outcome_of m) (\<lambda>a. bind (outcome_of n) (\<lambda>b. ret (a, b)))
      else bind (outcome_of n) (\<lambda>b. bind (outcome_of m) (\<lambda>a. ret (a, b))))"

definition review_nodes :: "reviewer_result result \<Rightarrow> tester_result result \<Rightarrow> node_value dag_node list" where
  "review_nodes a b =
     [\<lparr>node_name = ''review'', node_run = (case a of Inl e \<Rightarrow> Inl e | Inr r \<Rightarrow> Inr (NodeReview r)), depends_on = [''coder'']\<rparr>,
      \<lparr>node_name = ''test'', node_run = (case b of Inl e \<Rightarrow> Inl e | Inr t \<Rightarrow> Inr (NodeTest t)), depends_on = [''coder'']\<rparr>,
      \<lparr>node_name = ''coder'', node_run = Inr NodeTrue, depends_on = []\<rparr>]"

definition run_dag :: "'s orch_env \<Rightarrow> plan_result \<Rightarrow> ('s agent_world, string \<rightharpoonup> node_value) act" where
  "run_dag env plan =
     bind (both_outcomes (oe_review_first env) (run_reviewer_with_plugins env plan)
             (tester_execute (oe_work env) plan (oe_max_retries env))) (\<lambda>(a, b).
       lift_result (snd (dag_run (oe_done_of env) (review_nodes a b))))"

definition run_review_and_test :: "'s orch_env \<Rightarrow> plan_result \<Rightarrow> ('s agent_world, (string \<rightharpoonup> node_value) option) act" where
  "run_review_and_test env plan =
     next_act (say env ''Orchestrator'' ''Running DAG stage in parallel.''
       [(''nodes'', of_texts [''review'', ''test'']), (''maxWorkers'', PInt 2)])
     (try_except (bind (run_dag env plan) (\<lambda>r. ret (Some r))) (\<lambda>e.
        next_act (say env ''Orchestrator'' ''Parallel pipeline failed.'' [(''error'', PStr (exn_text e))])
        (next_act (publish_ev env ''TASK_FAILED''
            (failure_payload ''parallel_pipeline_error'' [(''plan_name'', PStr (pl_name plan)), (''detail'', PStr (exn_text e))]))
          (ret None))))"

section \<open>The artifact\<close>

definition ids_of :: "tester_result \<Rightarrow> pydict" where
  "ids_of t = [(''traceId'', of_text (tr_trace_id t)), (''runId'', of_text (tr_run_id t))]"

definition try_upload_artifact :: "'s orch_env \<Rightarrow> artifact_bundle \<Rightarrow> ('s agent_world, pydict option) act" where
  "try_upload_artifact env bundle =
     (case oe_upload env of
        None \<Rightarrow> ret None
      | Some upload \<Rightarrow>
          bind (get_with (\<lambda>w. field_text (aw_task w) ''taskId'')) (\<lambda>task_id.
            if task_id = [] then ret None else outside (upload task_id bundle)))"

definition publish_generated_artifact :: "'s orch_env \<Rightarrow> tester_result \<Rightarrow> ('s agent_world, pydict) act" where
  "publish_generated_artifact env test =
     bind (get_with aw_task) (\<lambda>task.
       let target = resolved_generation_target task;
           template_id = (let s = field_text task ''templateId'' in if s \<noteq> [] then s else ''default'');
           export_mode = (let s = lower (field_text task ''exportMode'') in if s \<noteq> [] then s else ''zip'');
           task_id = field_text task ''taskId'';
           build_id = ''build_'' @ task_id @ ''_'' @ target;
           ws = oe_path env (resolve_workspace task)
       in
       next_act (publish_ev env ''SPEC_PROPOSED''
         ([(''target'', PStr target), (''templateId'', PStr template_id), (''exportMode'', PStr export_mode),
           (''path'', PStr ''spec.json''), (''schemaVersion'', PStr ''v1'')] @ ids_of test @
          [(''artifact'', PDict [(''artifactId'', PStr (''art_spec_'' @ task_id)), (''type'', PStr ''spec''), (''name'', PStr ''spec.json'')])]))
       (bind (get_with (\<lambda>w. oe_files env (aw_ext w))) (\<lambda>f.
        bind (lift_result (resolve_generated_files task ws f)) (\<lambda>files.
        next_act (publish_ev env ''BUILD_STARTED''
          ([(''buildId'', PStr build_id), (''tool'', PStr ''artifact.export.zip''), (''target'', PStr target)] @ ids_of test))
        (next_act (publish_ev env ''BUILD_LOG''
          ([(''buildId'', PStr build_id), (''level'', PStr ''info''),
            (''message'', PStr ''Packaging generated web files into export.zip artifact.'')] @ ids_of test))
        (bind (get_with (\<lambda>w. ae_monotonic (oe_agent env) (aw_ext w))) (\<lambda>started_at.
         bind (in_span env ''artifact_publish'' ''Artifact'' []
                 (bind (outside (oe_export env ws files)) (\<lambda>bundle.
                  bind (try_upload_artifact env bundle) (\<lambda>uploaded. ret (bundle, uploaded))))) (\<lambda>(bundle, uploaded).
           let payload = build_artifact_ready_payload bundle uploaded target template_id export_mode in
           bind (get_with (\<lambda>w. ae_monotonic (oe_agent env) (aw_ext w))) (\<lambda>now.
           next_act (publish_ev env ''BUILD_DONE''
             ([(''buildId'', PStr build_id), (''status'', PStr ''success''),
               (''durationMs'', PInt (max 0 (trunc ((now - started_at) * 1000))))] @ ids_of test))
           (next_act (publish_ev env ''ARTIFACT_READY'' payload)
             (ret (apply_upload uploaded (bundle_artifact bundle) @ run_hints target)))))))))))) "

section \<open>The fix loop\<close>

text \<open>One round ends with the record for the memory, or with the error that the next round starts from.\<close>

datatype round_end = Finished pydict | Again string

definition code_change_failed :: "plan_result \<Rightarrow> string \<Rightarrow> pydict" where
  "code_change_failed plan reason =
     [(''intent'', PStr ''code_change''), (''planName'', PStr (pl_name plan)), (''status'', PStr ''failed''),
      (''reason'', PStr reason), (''errorCode'', PStr (error_code_from_reason reason))]"

definition start_round :: "'s orch_env \<Rightarrow> int \<Rightarrow> int \<Rightarrow> string \<Rightarrow> ('s agent_world, unit) act" where
  "start_round env mx attempt last_error =
     next_act (set_task ''fixLoopAttempt'' (PInt attempt))
       (next_act (if last_error \<noteq> [] then set_task ''lastTestError'' (PStr last_error) else pop_task ''lastTestError'')
          (when_do (attempt > 0)
             (say env ''Orchestrator'' ''Fix loop attempt started.''
                [(''attempt'', PInt attempt), (''maxAttempts'', PInt mx), (''lastTestError'', PStr last_error)])))"

text \<open>A failed round: another one if the budget allows it, else the task fails.\<close>

definition exhausted ::
  "'s orch_env \<Rightarrow> plan_result \<Rightarrow> int \<Rightarrow> int \<Rightarrow> bool \<Rightarrow> string \<Rightarrow> pydict \<Rightarrow> pydict \<Rightarrow> ('s agent_world, round_end) act" where
  "exhausted env plan mx attempt budget_left last_error extra rest =
     (if budget_left then ret (Again last_error)
      else
        let base = failure_payload ''fix_loop_exhausted''
              ([(''plan_name'', PStr (pl_name plan)), (''attempt'', PInt attempt), (''maxAttempts'', PInt mx),
                (''lastTestError'', PStr last_error)] @ extra) in
        bind (end_task env ''TASK_FAILED'' base (fix_failed attempt base)) (\<lambda>p.
        bind (failed_record ''code_change'' (pl_name plan) p ([(''detail'', PStr last_error)] @ rest)) (\<lambda>r. ret (Finished r))))"

definition test_error :: "tester_result \<Rightarrow> string" where
  "test_error t =
     strip (case tr_reason t of
         Some s \<Rightarrow> if s \<noteq> [] then s else if tr_status t \<noteq> [] then tr_status t else ''test_failed''
       | None \<Rightarrow> if tr_status t \<noteq> [] then tr_status t else ''test_failed'')"

definition lookup_node :: "(string \<rightharpoonup> node_value) \<Rightarrow> string \<Rightarrow> node_value result" where
  "lookup_node results name = (case results name of Some v \<Rightarrow> Inr v | None \<Rightarrow> Inl (NamedError ''KeyError'' (quote_text name)))"

definition code_change_done ::
  "'s orch_env \<Rightarrow> plan_result \<Rightarrow> int \<Rightarrow> int \<Rightarrow> reviewer_result \<Rightarrow> tester_result \<Rightarrow> ('s agent_world, round_end) act" where
  "code_change_done env plan mx attempt review test =
     bind (get_with aw_task) (\<lambda>task.
     bind (if should_publish_generated_artifact task
           then bind (publish_generated_artifact env test) (\<lambda>a. ret (Some a)) else ret None) (\<lambda>artifact.
     bind (get_with (\<lambda>w. resolved_generation_target (aw_task w))) (\<lambda>target.
       let fixes = (if attempt > 0 then Some attempt else None);
           base = build_code_change_done_payload (pl_name plan) review test artifact fixes
                    (if attempt > 0 then Some mx else None) target
       in next_act (end_task env ''TASK_DONE'' base
            ((done_with ''code_change'')\<lparr>en_attempts := attempt, en_success := (if attempt > 0 then Some True else None)\<rparr>))
          (ret (Finished
            ([(''intent'', PStr ''code_change''), (''planName'', PStr (pl_name plan)), (''status'', PStr ''done''),
              (''result'', PStr ''coded_reviewed_tested''), (''summary'', PStr (rv_summary review)),
              (''testStatus'', PStr (tr_status test)), (''testCommand'', PStr (tr_command test))] @ ids_of test @
             [(''artifactId'', (case artifact of Some a \<Rightarrow> if a = [] then PNone else dget a ''artifactId'' | None \<Rightarrow> PNone))]))))))"

definition judge_results ::
  "'s orch_env \<Rightarrow> plan_result \<Rightarrow> int \<Rightarrow> int \<Rightarrow> bool \<Rightarrow> (string \<rightharpoonup> node_value) \<Rightarrow> ('s agent_world, round_end) act" where
  "judge_results env plan mx attempt budget_left results =
     bind (lift_result (lookup_node results ''review'')) (\<lambda>rv.
     bind (lift_result (lookup_node results ''test'')) (\<lambda>ts.
       case (rv, ts) of
         (NodeReview review, NodeTest test) \<Rightarrow>
           if \<not> rv_approved review
           then
             let base = failure_payload ''review_rejected''
                   [(''plan_name'', PStr (pl_name plan)), (''summary'', PStr (rv_summary review)),
                    (''issues'', of_texts (rv_issues review)), (''riskLevel'', PStr (rv_risk_level review))] in
             bind (end_task env ''TASK_FAILED'' base (fix_failed attempt base)) (\<lambda>p.
             bind (failed_record ''code_change'' (pl_name plan) p
                 [(''summary'', PStr (rv_summary review)), (''issues'', of_texts (rv_issues review)),
                  (''riskLevel'', PStr (rv_risk_level review)), (''testCommand'', PStr (tr_command test))]) (\<lambda>r. ret (Finished r)))
           else if \<not> tr_success test
           then exhausted env plan mx attempt budget_left (test_error test)
                  [(''testStatus'', PStr (tr_status test)), (''command'', PStr (tr_command test))]
                  [(''testCommand'', PStr (tr_command test))]
           else code_change_done env plan mx attempt review test
       | _ \<Rightarrow>
           let base = failure_payload ''parallel_result_invalid'' [(''plan_name'', PStr (pl_name plan))] in
           bind (end_task env ''TASK_FAILED'' base (fix_failed attempt base)) (\<lambda>p.
           bind (failed_record ''code_change'' (pl_name plan) p []) (\<lambda>r. ret (Finished r)))))"

definition code_change_round ::
  "'s orch_env \<Rightarrow> plan_result \<Rightarrow> int \<Rightarrow> int \<Rightarrow> bool \<Rightarrow> string \<Rightarrow> ('s agent_world, round_end) act" where
  "code_change_round env plan mx attempt budget_left last_error =
     next_act (start_round env mx attempt last_error)
     (bind (in_span env ''code_generation'' ''CoderAgent'' [(''attempt'', PInt attempt)] (oe_coder env plan)) (\<lambda>coded.
        if \<not> coded then ret (Finished (code_change_failed plan ''coder_failed''))
        else
          bind (in_span env ''validation_gate'' ''ValidationGate'' []
                  (bind (get_with (\<lambda>w. resolve_workspace (aw_task w))) (oe_validate env))) (\<lambda>validation.
          if \<not> vr_ok validation
          then exhausted env plan mx attempt budget_left (validation_summary validation) [] []
          else
            bind (in_span env ''review_and_test'' ''Orchestrator'' [] (run_review_and_test env plan)) (\<lambda>results.
              case results of
                None \<Rightarrow> ret (Finished (code_change_failed plan ''parallel_pipeline_error''))
              | Some res \<Rightarrow> judge_results env plan mx attempt budget_left res))))"

text \<open>\<open>left\<close> is \<open>max_fix_attempts - fix_attempt\<close>.\<close>

fun code_change_rounds ::
  "'s orch_env \<Rightarrow> plan_result \<Rightarrow> int \<Rightarrow> nat \<Rightarrow> int \<Rightarrow> string \<Rightarrow> ('s agent_world, pydict) act" where
  "code_change_rounds env plan mx 0 attempt last_error =
     bind (code_change_round env plan mx attempt False last_error) (\<lambda>r.
       case r of Finished rec \<Rightarrow> ret rec | Again e \<Rightarrow> throw (RuntimeError ''unreachable''))"
| "code_change_rounds env plan mx (Suc left) attempt last_error =
     bind (code_change_round env plan mx attempt True last_error) (\<lambda>r.
       case r of Finished rec \<Rightarrow> ret rec | Again e \<Rightarrow> code_change_rounds env plan mx left (attempt + 1) e)"

definition handle_code_change :: "'s orch_env \<Rightarrow> plan_result \<Rightarrow> ('s agent_world, pydict) act" where
  "handle_code_change env plan =
     (let mx = resolve_fix_loop_max_attempts (we_getenv (oe_work env))
      in code_change_rounds env plan mx (nat mx) 0 [])"

section \<open>Commands in the sandbox\<close>

definition opt_command :: "string \<Rightarrow> string \<Rightarrow> pydict" where
  "opt_command intent command =
     (if intent = ''deploy'' then [(''deployCommand'', PStr command)]
      else if intent = ''test'' then [(''testCommand'', PStr command)] else [])"

definition execute_with_sandbox :: "'s orch_env \<Rightarrow> string \<Rightarrow> string \<Rightarrow> string \<Rightarrow> ('s agent_world, pydict) act" where
  "execute_with_sandbox env intent prompt plan_name =
     bind (get_with (\<lambda>w. resolve_command (we_getenv (oe_work env)) (aw_task w) intent prompt)) (\<lambda>command.
     next_act (say env ''ExecTool'' ''Dispatching command to Java sandbox.'' [(''intent'', PStr intent), (''command'', PStr command)])
     (bind (try_except
              (bind (in_span env ''sandbox_execute'' ''ExecTool'' [(''intent'', PStr intent)]
                       (exec_in_sandbox (oe_work env) command prompt intent)) (\<lambda>r. ret (Inr r)))
              (\<lambda>e.
                next_act (say env ''ExecTool'' ''Sandbox execution request failed.'' [(''intent'', PStr intent), (''error'', PStr (exn_text e))])
                (bind (fail_task env intent (failure_payload ''sandbox_request_failed'' [(''detail'', PStr (exn_text e))])) (\<lambda>p.
                 bind (failed_record_detail intent plan_name p [(''command'', PStr command)]) (\<lambda>r. ret (Inl r)))))) (\<lambda>outcome.
        case outcome of
          Inl r \<Rightarrow> ret r
        | Inr x \<Rightarrow>
            next_act (say env ''ExecTool'' ''Sandbox execution completed.''
              [(''intent'', PStr intent), (''status'', PStr (ex_status x)), (''exitCode'', of_int_option (ex_exit_code x)),
               (''tool'', of_text (ex_tool x)), (''traceId'', of_text (ex_trace_id x)), (''runId'', of_text (ex_run_id x))])
            (if ex_ok x
             then next_act (end_task env ''TASK_DONE'' (build_done_payload x plan_name intent) (done_with intent))
               (ret ([(''intent'', PStr intent), (''planName'', PStr plan_name), (''status'', PStr ''done''),
                      (''command'', PStr command), (''result'', PStr ''executed''), (''tool'', of_text (ex_tool x)),
                      (''toolVersion'', of_text (ex_tool_version x)), (''traceId'', of_text (ex_trace_id x)),
                      (''runId'', of_text (ex_run_id x))] @ opt_command intent command))
             else
               let payload = failure_payload (failure_reason x)
                     [(''status'', PStr (ex_status x)), (''detail'', of_text (ex_reason x)), (''retryable'', PBool (ex_retryable x))] in
               next_act (fail_task env intent payload)
               (failed_record intent plan_name payload
                  ([(''detail'', dget payload ''detail''), (''command'', PStr command), (''traceId'', of_text (ex_trace_id x)),
                    (''runId'', of_text (ex_run_id x))] @ opt_command intent command))))))"

section \<open>The staged runtime\<close>

definition runtime_supports :: "string \<Rightarrow> bool" where
  "runtime_supports intent \<longleftrightarrow> lower (strip intent) \<in> {''analyze'', ''test''}"

definition skipped_result :: graph_result where
  "skipped_result = \<lparr>gr_handled = False, gr_event = [], gr_payload = [], gr_memory = [],
     gr_status = ''skipped'', gr_reason = ''unsupported_intent''\<rparr>"

definition dispatch_runtime ::
  "string \<Rightarrow> ('w, graph_result) act \<Rightarrow> ('w, graph_result) act \<Rightarrow> ('w, graph_result) act" where
  "dispatch_runtime intent analyze test =
     (if intent = ''analyze'' then analyze else if intent = ''test'' then test else ret skipped_result)"

definition invoke_langgraph ::
  "(('w, graph_result) act \<Rightarrow> ('w, graph_result option) act) \<Rightarrow> string
    \<Rightarrow> ('w, graph_result) act \<Rightarrow> ('w, graph_result) act \<Rightarrow> ('w, graph_result) act" where
  "invoke_langgraph graph intent analyze test =
     bind (graph (dispatch_runtime intent analyze test)) (\<lambda>r.
       case r of Some x \<Rightarrow> ret x | None \<Rightarrow> throw (RuntimeError ''langgraph runtime returned invalid result''))"

definition execute_runtime ::
  "'s orch_env \<Rightarrow> string \<Rightarrow> ('s agent_world, graph_result) act \<Rightarrow> ('s agent_world, graph_result) act
    \<Rightarrow> ('s agent_world, graph_result) act" where
  "execute_runtime env intent analyze test =
     (let n = lower (strip intent) in
      next_act (say env ''LangGraphRuntime'' ''Executing task via staged runtime.''
        [(''intent'', PStr n), (''graphBackend'', PStr (if oe_graph env = None then ''internal_fallback'' else ''langgraph''))])
      (if \<not> runtime_supports n then ret skipped_result
       else case oe_graph env of
           None \<Rightarrow> dispatch_runtime n analyze test
         | Some graph \<Rightarrow>
             try_except (invoke_langgraph graph n analyze test) (\<lambda>e.
               next_act (say env ''LangGraphRuntime'' ''LangGraph execution failed, falling back to internal dispatcher.''
                 [(''intent'', PStr n), (''error'', PStr (exn_text e))])
               (dispatch_runtime n analyze test))))"

definition langgraph_analyze_result :: "plan_result \<Rightarrow> graph_result" where
  "langgraph_analyze_result plan =
     \<lparr>gr_handled = True, gr_event = ''TASK_DONE'',
      gr_payload = [(''result'', PStr ''planned''), (''intent'', PStr ''analyze''), (''planName'', PStr (pl_name plan)),
        (''steps'', of_texts (pl_steps plan)), (''executionPath'', PStr ''langgraph'')],
      gr_memory = [(''intent'', PStr ''analyze''), (''planName'', PStr (pl_name plan)), (''status'', PStr ''done''),
        (''result'', PStr ''planned''), (''executionPath'', PStr ''langgraph'')],
      gr_status = ''done'', gr_reason = ''planned''\<rparr>"

definition langgraph_test_result :: "plan_result \<Rightarrow> tester_result \<Rightarrow> graph_result" where
  "langgraph_test_result plan t =
     (let path = (''executionPath'', PStr ''langgraph'') in
      if tr_success t
      then \<lparr>gr_handled = True, gr_event = ''TASK_DONE'',
        gr_payload = [(''result'', PStr ''executed''), (''intent'', PStr ''test''), (''planName'', PStr (pl_name plan)),
          (''status'', PStr (tr_status t)), (''command'', PStr (tr_command t)), (''attempts'', PInt (tr_attempts t)),
          (''retries'', PInt (tr_retries t)), path] @ opt_item ''traceId'' (tr_trace_id t) @ opt_item ''runId'' (tr_run_id t),
        gr_memory = [(''intent'', PStr ''test''), (''planName'', PStr (pl_name plan)), (''status'', PStr ''done''),
          (''command'', PStr (tr_command t)), (''result'', PStr ''executed'')] @ ids_of t @ [path],
        gr_status = ''done'', gr_reason = ''executed''\<rparr>
      else
        let reason = (if tr_status t \<noteq> [] then tr_status t
              else case tr_reason t of Some s \<Rightarrow> if s \<noteq> [] then s else ''test_failed'' | None \<Rightarrow> ''test_failed'');
            payload = failure_payload reason
              [(''status'', PStr (tr_status t)), (''detail'', of_text (tr_reason t)), (''command'', PStr (tr_command t))] @ [path]
        in \<lparr>gr_handled = True, gr_event = ''TASK_FAILED'', gr_payload = payload,
        gr_memory = [(''intent'', PStr ''test''), (''planName'', PStr (pl_name plan)), (''status'', PStr ''failed''),
          (''reason'', dget payload ''reason''), (''errorCode'', dget payload ''errorCode''), (''detail'', dget payload ''detail''),
          (''command'', PStr (tr_command t))] @ ids_of t @ [path],
        gr_status = ''failed'', gr_reason = field_text payload ''reason''\<rparr>)"

definition execute_langgraph_test :: "'s orch_env \<Rightarrow> plan_result \<Rightarrow> ('s agent_world, graph_result) act" where
  "execute_langgraph_test env plan =
     bind (in_span env ''test_execution'' ''TesterAgent'' [(''runtime'', PStr ''langgraph'')]
             (tester_execute (oe_work env) plan (oe_max_retries env)))
       (\<lambda>t. ret (langgraph_test_result plan t))"

definition maybe_execute_langgraph :: "'s orch_env \<Rightarrow> string \<Rightarrow> plan_result \<Rightarrow> ('s agent_world, graph_result option) act" where
  "maybe_execute_langgraph env intent plan =
     (let back = [(''intent'', PStr intent), (''fallbackEngine'', PStr ''legacy'')] in
      if oe_engine env \<noteq> ''langgraph'' then ret None
      else if \<not> runtime_supports intent
      then next_act (set_task ''_executionPath'' (PStr ''legacy''))
        (next_act (say env ''LangGraphRuntime'' ''Intent not migrated yet, falling back to legacy pipeline.'' back) (ret None))
      else
        bind (in_span env ''langgraph_runtime'' ''LangGraphRuntime'' [(''intent'', PStr intent)]
                (execute_runtime env intent (ret (langgraph_analyze_result plan)) (execute_langgraph_test env plan))) (\<lambda>r.
          if gr_handled r then next_act (set_task ''_executionPath'' (PStr ''langgraph'')) (ret (Some r))
          else next_act (set_task ''_executionPath'' (PStr ''legacy''))
            (next_act (say env ''LangGraphRuntime'' ''LangGraph runtime skipped current intent, falling back to legacy pipeline.'' back)
              (ret None))))"

section \<open>A task\<close>

text \<open>The body of the \<open>try\<close>: what an intent leads to.\<close>

definition task_body :: "'s orch_env \<Rightarrow> string \<Rightarrow> string \<Rightarrow> intent_decision \<Rightarrow> plan_result \<Rightarrow> ('s agent_world, unit) act" where
  "task_body env prompt project_key decision plan =
     (let intent = id_intent decision in
      if intent = ''llm_key_missing''
      then
        bind (fail_task env intent (failure_payload ''llm_key_missing''
                [(''plan_name'', PStr (pl_name plan)), (''detail'', PStr (id_reason decision))])) (\<lambda>p.
        bind (failed_record_detail intent (pl_name plan) p []) (memory_append env project_key))
      else
        bind (maybe_execute_langgraph env intent plan) (\<lambda>lg.
          case lg of
            Some r \<Rightarrow>
              next_act (end_task env (gr_event r) (gr_payload r)
                  \<lparr>en_status = gr_status r, en_intent = intent, en_reason = gr_reason r, en_attempts = 0, en_success = None\<rparr>)
                (memory_append env project_key (gr_memory r))
          | None \<Rightarrow>
              if intent = ''code_change''
              then bind (handle_code_change env plan) (memory_append env project_key)
              else if intent \<in> {''deploy'', ''test''}
              then bind (execute_with_sandbox env intent prompt (pl_name plan)) (memory_append env project_key)
              else
                next_act (end_task env ''TASK_DONE''
                    [(''result'', PStr ''planned''), (''intent'', PStr intent), (''planName'', PStr (pl_name plan)),
                     (''steps'', of_texts (pl_steps plan)), (''executionPath'', PStr ''legacy'')] (done_with intent))
                  (memory_append env project_key
                    [(''intent'', PStr intent), (''planName'', PStr (pl_name plan)), (''status'', PStr ''done''),
                     (''result'', PStr ''planned''), (''executionPath'', PStr ''legacy'')])))"

definition task_error :: "'s orch_env \<Rightarrow> string \<Rightarrow> intent_decision \<Rightarrow> plan_result \<Rightarrow> py_exn \<Rightarrow> ('s agent_world, unit) act" where
  "task_error env project_key decision plan e =
     bind (fail_task env (id_intent decision) (failure_payload ''orchestrator_error'' [(''detail'', PStr (exn_text e))])) (\<lambda>p.
     bind (failed_record_detail (id_intent decision) (pl_name plan) p []) (memory_append env project_key))"

text \<open>\<open>pub("NAME", {...})\<close>, with the publisher that takes the payload first and the event type second.\<close>

definition pub_swapped :: "'s orch_env \<Rightarrow> string \<Rightarrow> pydict \<Rightarrow> ('s agent_world, unit) act" where
  "pub_swapped env name d = publish_any (oe_agent env) (PDict d) (PStr name)"

text \<open>The clone of a repository, and the workspace afterwards. The client has no method \<open>push_event\<close>, so the
  \<open>return\<close> after its call is not reached.\<close>

definition bootstrap_stage :: "'s orch_env \<Rightarrow> string \<Rightarrow> ('s agent_world, string) act" where
  "bootstrap_stage env workspace =
     bind (get_with (\<lambda>w. field_text (aw_task w) ''repoUrl'')) (\<lambda>repo_url.
       case oe_bootstrap env of
         None \<Rightarrow> ret workspace
       | Some bootstrap \<Rightarrow>
           if repo_url = [] then ret workspace
           else
             next_act (pub_swapped env ''REPO_BOOTSTRAP_STARTED'' [(''repoUrl'', PStr repo_url)])
             (bind (outside (bootstrap repo_url workspace)) (\<lambda>r.
                if \<not> bo_ok r
                then next_act (terminal_payload env [(''error'', of_text (bo_error r))]
                       \<lparr>en_status = ''TASK_FAILED'', en_intent = [], en_reason = ''repo bootstrap failed'', en_attempts = 0, en_success = None\<rparr>)
                     (throw (NamedError ''AttributeError'' ''ControlPlaneClient object has no attribute push_event''))
                else
                  next_act (pub_swapped env ''REPO_BOOTSTRAP_DONE''
                      [(''repoDir'', PStr (bo_repo_dir r)), (''fileCount'', PInt (bo_file_count r))])
                    (case oe_code_index env of
                       None \<Rightarrow> ret (bo_repo_dir r)
                     | Some scan \<Rightarrow>
                         bind (outside (scan (bo_repo_dir r))) (\<lambda>(files, symbols).
                         next_act (pub_swapped env ''CODE_INDEX_BUILT'' [(''fileCount'', PInt files), (''symbolCount'', PInt symbols)])
                           (ret (bo_repo_dir r))))))) "

definition dialogue_stage :: "'s orch_env \<Rightarrow> string \<Rightarrow> string \<Rightarrow> ('s agent_world, unit) act" where
  "dialogue_stage env prompt workspace =
     (case oe_dialogue env of
        None \<Rightarrow> ret ()
      | Some ask \<Rightarrow>
          bind (outside (ask prompt workspace)) (\<lambda>c.
            case c of
              None \<Rightarrow> ret ()
            | Some (question, options) \<Rightarrow>
                pub_swapped env ''CLARIFICATION_REQUESTED'' [(''question'', question), (''options'', options)]))"

definition memory_stage :: "'s orch_env \<Rightarrow> ('s agent_world, string \<times> pydict list \<times> pydict) act" where
  "memory_stage env =
     in_span env ''memory_context'' ''Memory'' []
       (bind (get_with (\<lambda>w. oe_project_key env (aw_task w))) (\<lambda>key.
        bind (outside (oe_recent env key 5)) (\<lambda>history.
          let hints = build_memory_hints history in
          next_act (modify (\<lambda>w. w\<lparr>aw_task := apply_memory_hints hints (aw_task w)\<rparr>)) (ret (key, history, hints)))))"

text \<open>The stages after the workspace and the dialogue.\<close>

definition task_stages :: "'s orch_env \<Rightarrow> string \<Rightarrow> ('s agent_world, unit) act" where
  "task_stages env prompt =
           (bind (memory_stage env) (\<lambda>(project_key, history, hints).
            next_act (when_do (history \<noteq> [])
              (say env ''Memory'' ''Loaded project memory context.''
                [(''projectKey'', PStr project_key), (''historyCount'', PInt (int (length history))),
                 (''lastTestCommand'', dget hints ''lastTestCommand''), (''lastDeployCommand'', dget hints ''lastDeployCommand'')]))
            (next_act (ensure_observability (oe_agent env) (oe_engine env))
            (bind (in_span env ''intent_inference'' ''IntentAgent'' [] (oe_infer env prompt)) (\<lambda>decision.
             next_act (set_task ''intent'' (PStr (id_intent decision)))
             (next_act (say env ''IntentAgent'' ''Intent analysis completed.''
                [(''backend'', PStr (id_backend decision)), (''engine'', PStr (oe_engine env)), (''intent'', PStr (id_intent decision)),
                 (''confidence'', id_confidence decision), (''reason'', PStr (id_reason decision))])
             (bind (in_span env ''plan_build'' ''PlannerAgent'' [(''intent'', PStr (id_intent decision))] (oe_plan env prompt decision)) (\<lambda>plan.
              next_act (say env ''PlannerAgent'' ''Plan generated.''
                [(''engine'', PStr (oe_engine env)), (''planName'', PStr (pl_name plan)), (''steps'', of_texts (pl_steps plan))])
              (try_except (task_body env prompt project_key decision plan)
                 (task_error env project_key decision plan))))))))))"

definition handle_task_locked :: "'s orch_env \<Rightarrow> ('s agent_world, unit) act" where
  "handle_task_locked env =
     bind (get_with (\<lambda>w. (resolve_workspace (aw_task w), field_text (aw_task w) ''prompt''))) (\<lambda>(workspace0, prompt).
     bind (bootstrap_stage env workspace0) (\<lambda>workspace.
       next_act (dialogue_stage env prompt workspace) (task_stages env prompt)))"

text \<open>\<open>handle_task\<close>, from the copy of the task on. The lease is taken with \<open>srv\<close>, the link \<open>l\<close>, the time \<open>now\<close>
  and a fresh \<open>token\<close>; \<open>meanwhile\<close> is what other threads do to the leases while the task runs, and \<open>l'\<close> the
  link at the release, which \<open>finally\<close> makes sure of.\<close>

definition prepare_task :: "'s orch_env \<Rightarrow> pydict \<Rightarrow> pydict" where
  "prepare_task env task =
     normalize_generation_target (AList.update ''_executionPath'' (PStr ''legacy'')
       (AList.update ''_agentEngine'' (PStr (oe_engine env)) task))"

definition guarded_task ::
  "'s orch_env \<Rightarrow> 'r lock_server \<Rightarrow> link \<Rightarrow> link \<Rightarrow> rat \<Rightarrow> string \<Rightarrow> ('r lock_world \<Rightarrow> 'r lock_world)
    \<Rightarrow> string \<Rightarrow> ('s agent_world \<times> 'r lock_world, unit) act" where
  "guarded_task env srv l l' now token meanwhile task_id w =
     (let (lease, lw) = acquire_lease srv l now token task_id (snd w) in
      if \<not> tl_acquired lease then (Inr (), (fst w, lw))
      else
        let (r, aw) = handle_task_locked env (fst w);
            (lease', lw') = task_lease_release srv l' lease (meanwhile lw)
        in (r, (aw, lw')))"

definition handle_task ::
  "'s orch_env \<Rightarrow> 'r lock_server \<Rightarrow> link \<Rightarrow> link \<Rightarrow> rat \<Rightarrow> string \<Rightarrow> ('r lock_world \<Rightarrow> 'r lock_world)
    \<Rightarrow> ('s agent_world \<times> 'r lock_world, unit) act" where
  "handle_task env srv l l' now token meanwhile w =
     (let w1 = (fst w)\<lparr>aw_task := prepare_task env (aw_task (fst w))\<rparr>; task_id = task_id_of w1 in
      if task_id = [] then (Inl (ValueError ''task.taskId is required''), (w1, snd w))
      else case ensure_observability (oe_agent env) (oe_engine env) w1 of
        (Inl e, w2) \<Rightarrow> (Inl e, (w2, snd w))
      | (Inr ob, w2) \<Rightarrow>
          (case validate_generation_request (aw_task w2) of
             Some err \<Rightarrow>
               (case fail_task env ''validation'' err w2 of
                  (Inl e, w3) \<Rightarrow> (Inl e, (w3, snd w))
                | (Inr p, w3) \<Rightarrow> (Inr (), (w3, snd w)))
           | None \<Rightarrow> guarded_task env srv l l' now token meanwhile task_id (w2, snd w)))"

section \<open>Examples\<close>

text \<open>Outside there are the events received, a counter for identifiers, the runs of the coder and those of the
  sandbox. The gate finds an error in every project.\<close>

type_synonym sample_orch_ext = "pydict list \<times> nat \<times> nat \<times> nat"

definition sample_orch_agent :: "sample_orch_ext agent_env" where
  "sample_orch_agent = \<lparr>ae_uuid = (\<lambda>(l, n, x). (show_nat n, (l, n + 1, x))), ae_timestamp = (\<lambda>s. ''now''), ae_monotonic = (\<lambda>s. 0),
     ae_client = PlainPublish (\<lambda>tid ev (l, n, x). (Inr (), (l @ [ev], n, x)))\<rparr>"

definition sample_orch_work :: "sample_orch_ext work_env" where
  "sample_orch_work = \<lparr>we_agent = sample_orch_agent, we_getenv = (\<lambda>k. None),
     we_exec = (\<lambda>task c p i (l, n, k, x). (Inr ok_exec, (l, n, k, x + 1))),
     we_runtime = (\<lambda>s. new_runtime_manager (\<lambda>t. None) (Some 3) (Some 30) [] []), we_set_runtime = (\<lambda>m s. s),
     we_policy = empty_policy [], we_testers = [], we_reviewers = [], we_supports = (\<lambda>m. True),
     we_test_plugin = (\<lambda>m. ret PNone), we_review_plugin = (\<lambda>m. throw (RuntimeError ''none''))\<rparr>"

definition sample_decision :: "string \<Rightarrow> intent_decision" where
  "sample_decision intent = \<lparr>id_backend = ''rules'', id_intent = intent, id_confidence = PFloat 1, id_reason = ''keywords''\<rparr>"

definition sample_plan :: plan_result where
  "sample_plan = \<lparr>pl_name = ''p'', pl_steps = [''code''], pl_reason = []\<rparr>"

definition sample_orch_env :: "string \<Rightarrow> sample_orch_ext orch_env" where
  "sample_orch_env intent =
     \<lparr>oe_work = sample_orch_work, oe_engine = ''legacy'', oe_graph = None, oe_project_key = (\<lambda>task. ''k''),
      oe_recent = (\<lambda>key n s. (Inr [], s)), oe_append = (\<lambda>key r s. (Inr (), s)),
      oe_infer = (\<lambda>p. ret (sample_decision intent)), oe_plan = (\<lambda>p d. ret sample_plan),
      oe_coder = (\<lambda>plan. outside (\<lambda>(l, n, k, x). (Inr True, (l, n, k + 1, x)))),
      oe_validate = (\<lambda>ws. ret \<lparr>vr_ok = False, vr_errors = [''app.py: broken'']\<rparr>),
      oe_reviewer = (\<lambda>plan. ret \<lparr>rv_approved = True, rv_summary = ''fine'', rv_issues = [], rv_risk_level = ''low''\<rparr>),
      oe_max_retries = 1, oe_review_first = True, oe_done_of = (\<lambda>ns. ns), oe_files = (\<lambda>s. []), oe_path = (\<lambda>s. [s]),
      oe_export = (\<lambda>ws fs s. (Inl (RuntimeError ''none''), s)), oe_upload = None, oe_bootstrap = None,
      oe_code_index = None, oe_dialogue = None\<rparr>"

definition sample_orch_world :: "pydict \<Rightarrow> sample_orch_ext agent_world" where
  "sample_orch_world task = \<lparr>aw_task = task, aw_obs = None, aw_seq = Map.empty, aw_outbox = Map.empty, aw_ext = ([], 0, 0, 0)\<rparr>"

definition sample_orch_task :: pydict where
  "sample_orch_task = [(''taskId'', PStr ''t1''), (''prompt'', PStr ''fix it''), (''repoUrl'', PStr ''https://host/r.git'')]"

lemma sample_orch_task_fields [simp]:
  "field_text sample_orch_task ''taskId'' = ''t1''" "field_text sample_orch_task ''prompt'' = ''fix it''"
  "field_text sample_orch_task ''repoUrl'' = ''https://host/r.git''"
  by code_simp+

lemma sample_orch_agent_fields [simp]: "oe_agent (sample_orch_env intent) = sample_orch_agent"
  by (simp add: sample_orch_env_def sample_orch_work_def)

lemma sample_orch_world_fields [simp]:
  "task_id_of (sample_orch_world sample_orch_task) = ''t1''" "outbox_ok (sample_orch_world task)"
  "pending_outbox tid (sample_orch_world task) = []" "aw_ext (sample_orch_world task) = ([], 0, 0, 0)"
  "aw_task (sample_orch_world task) = task"
  by (simp_all add: sample_orch_world_def outbox_ok_def pending_outbox_def)

lemma sample_orch_takes_all: "takes_all sample_orch_agent fst"
  by (auto simp: takes_all_def client_call_def sample_orch_agent_def)

end
