(* ===== verification/Agent_Frames.thy ===== *)
theory Agent_Frames
  imports Test_Agent
begin

text \<open>
  What an agent leaves alone: actions on the world of \<open>Base_Agent\<close> that do not change a part of the outside,
  whatever else they do and however they end. Publications and plugins do so when the client and the table of
  breakers are apart from that part.
\<close>

section \<open>Actions that leave a part of the outside alone\<close>

text \<open>\<open>cnt\<close> shows a part of the outside.\<close>

abbreviation leaves :: "('s \<Rightarrow> 'v) \<Rightarrow> 'v \<Rightarrow> ('s agent_world, 'a) act \<Rightarrow> bool" where
  "leaves cnt x m \<equiv> keeps (\<lambda>w. cnt (aw_ext w) = x) m"

lemma leaves_modify: "(\<And>w. aw_ext (f w) = aw_ext w) \<Longrightarrow> leaves cnt x (modify f)"
  by (simp add: keeps_modify)

lemma leaves_outside: "(\<And>s. cnt (snd (f s)) = cnt s) \<Longrightarrow> leaves cnt x (outside f)"
  by (rule keepsI) (simp add: outside_def split_beta)

lemma leaves_uuid: "unobserved env cnt \<Longrightarrow> leaves cnt x (uuid_hex env)"
  unfolding uuid_hex_def by (rule leaves_outside) (simp add: unobserved_def split_beta Let_def)

lemma leaves_ensure: "unobserved env cnt \<Longrightarrow> leaves cnt x (ensure_observability env e)"
  unfolding ensure_observability_def Let_def task_identifier_def
  by (intro keeps_rules leaves_uuid leaves_modify) simp_all

lemma leaves_ensure_own: "unobserved env cnt \<Longrightarrow> leaves cnt x (ensure_own env)"
  unfolding ensure_own_def by (intro keeps_rules leaves_ensure)

lemma leaves_span:
  assumes "unobserved env cnt" "leaves cnt x m"
  shows "leaves cnt x (with_span env n st a m)"
proof -
  have "leaves cnt x (\<lambda>w. let (r, w') = m w; error = (case r of Inl e \<Rightarrow> Some e | Inr _ \<Rightarrow> None) in
      (r, w'\<lparr>aw_obs := map_option (end_span n st a started (ae_monotonic env (aw_ext w')) error) (aw_obs w')\<rparr>))" for started
    using keepsD [OF assms(2)] by (intro keepsI) (simp add: split_beta Let_def)
  then show ?thesis unfolding with_span_def by (intro keeps_rules leaves_ensure_own assms(1))
qed

lemma leaves_client:
  assumes "unobserved env cnt"
  shows "ae_client env = WithRetryResult f \<Longrightarrow> cnt (snd (f t ev s)) = cnt s"
    "ae_client env = WithRetry g \<Longrightarrow> cnt (snd (g t ev s)) = cnt s"
    "ae_client env = PlainPublish g \<Longrightarrow> cnt (snd (g t ev s)) = cnt s"
proof -
  have "cnt (snd (client_call env t ev s)) = cnt s" using assms by (simp add: unobserved_def)
  then show "ae_client env = WithRetryResult f \<Longrightarrow> cnt (snd (f t ev s)) = cnt s"
    "ae_client env = WithRetry g \<Longrightarrow> cnt (snd (g t ev s)) = cnt s"
    "ae_client env = PlainPublish g \<Longrightarrow> cnt (snd (g t ev s)) = cnt s"
    by (auto simp: client_call_def split: prod.splits sum.splits)
qed

lemma leaves_deliver: "unobserved env cnt \<Longrightarrow> leaves cnt x (deliver_event env ev)"
  unfolding deliver_event_def record_publish_def change_obs_def
  by (cases "ae_client env") (auto intro!: keeps_rules leaves_outside leaves_ensure_own leaves_modify simp: leaves_client)

lemma leaves_publish_any:
  assumes "unobserved env cnt"
  shows "leaves cnt x (publish_any env ty p)"
  unfolding publish_any_def flush_outbox_def flush_one_def build_event_def ack_outbox_def enqueue_outbox_def next_seq_def Let_def
  by (intro keeps_rules leaves_deliver leaves_ensure_own leaves_modify leaves_uuid assms) (simp_all add: keeps_iff)

lemma leaves_publish: "unobserved env cnt \<Longrightarrow> leaves cnt x (publish env ty d)"
  unfolding publish_def by (rule leaves_publish_any)

lemma leaves_sum: "(\<And>a. leaves cnt x (f a)) \<Longrightarrow> (\<And>b. leaves cnt x (g b)) \<Longrightarrow> leaves cnt x (case r of Inl a \<Rightarrow> f a | Inr b \<Rightarrow> g b)"
  by (cases r) simp_all

section \<open>Plugins\<close>

text \<open>What the client of the control plane, the identifiers and the table of breakers leave alone.\<close>

definition work_apart :: "'s work_env \<Rightarrow> ('s \<Rightarrow> 'v) \<Rightarrow> bool" where
  "work_apart env cnt \<longleftrightarrow> unobserved (we_agent env) cnt \<and> (\<forall>m s. cnt (we_set_runtime env m s) = cnt s)"

lemma leaves_emit: "work_apart env cnt \<Longrightarrow> leaves cnt x (emit env d)"
  unfolding emit_def by (rule leaves_publish) (simp add: work_apart_def)

lemma leaves_set_task: "leaves cnt x (set_task k v)"
  unfolding set_task_def by (rule leaves_modify) simp

lemma leaves_pop_task: "leaves cnt x (pop_task k)"
  unfolding pop_task_def by (rule leaves_modify) simp

lemma set_runtime_leaves: "work_apart env cnt \<Longrightarrow> cnt (aw_ext (set_runtime env m w)) = cnt (aw_ext w)"
  by (simp add: set_runtime_def work_apart_def)

lemma leaves_breaker_state: "work_apart env cnt \<Longrightarrow> leaves cnt x (breaker_state_of env p)"
  unfolding breaker_state_of_def by (rule keepsI) (simp add: Let_def split_beta set_runtime_leaves)

lemma leaves_execute_plugin:
  assumes "work_apart env cnt" and op: "leaves cnt x operation"
  shows "leaves cnt x (execute_plugin env p operation)"
proof (rule keepsI)
  fix w :: "'a agent_world"
  assume w: "cnt (aw_ext w) = x"
  note rt = set_runtime_leaves [OF assms(1)]
  have fin: "cnt (aw_ext (finish_plugin env p f v)) = cnt (aw_ext v)" for f v
    by (simp add: finish_plugin_def split_beta Let_def rt)
  have op': "cnt (aw_ext (snd (operation (set_runtime env m w)))) = x" for m
    using keepsD [OF op, of "set_runtime env m w"] w rt by simp
  show "cnt (aw_ext (snd (execute_plugin env p operation w))) = x"
    using op' by (auto simp: execute_plugin_def Let_def rt fin w split: prod.split sum.split) (metis snd_conv)+
qed

lemma leaves_announce: "work_apart env cnt \<Longrightarrow> leaves cnt x (announce_plugin env st m d pm)"
  unfolding announce_plugin_def by (intro keeps_rules leaves_breaker_state leaves_emit)

lemma leaves_skip: "work_apart env cnt \<Longrightarrow> leaves cnt x (skip_plugin env st f d pm e)"
  unfolding skip_plugin_def by (intro keeps_rules leaves_breaker_state leaves_emit)

lemma leaves_offer:
  assumes "work_apart env cnt" and "\<And>m. leaves cnt x (body m)"
  shows "leaves cnt x (offer_plugins env a st msg f d body ms)"
proof (induction ms)
  case Nil
  show ?case by (simp add: keeps_ret)
next
  case (Cons m ms)
  show ?case
    unfolding offer_plugins.simps
    by (intro keeps_rules leaves_set_task leaves_announce leaves_skip assms Cons.IH)
qed

end
