(* ===== verification/Task_Outcome.thy ===== *)
theory Task_Outcome
  imports Orchestrator Agent_Frames
begin

text \<open>
  What the orchestrator of \<open>Orchestrator\<close> makes of a task: the lease is given back however the task ends,
  and the coder runs a bounded number of times.
\<close>

section \<open>The lease\<close>

lemma release_local_frees: "snd (release_local key token store) key \<noteq> Some (token, e)"
  by (auto simp: release_local_def split: option.splits if_splits)

lemma release_local_other: "k \<noteq> key \<Longrightarrow> snd (release_local key token store) k = store k"
  by (auto simp: release_local_def split: option.splits if_splits)

lemma acquire_lease_local:
  assumes "\<not> redis_enabled (lw_lock lw)" "acquire_lease srv l now token tid lw = (lease, lw')"
  shows "lw_lock lw' = lw_lock lw" "tl_key lease = lock_key (lw_lock lw) tid" "tl_token lease = token"
    "\<not> tl_acquired lease \<Longrightarrow> lw_leases lw' = lw_leases lw"
    "\<And>k. k \<noteq> lock_key (lw_lock lw) tid \<Longrightarrow> lw_leases lw' k = lw_leases lw k"
  using assms
  by (auto simp: acquire_lease_def lift_local_def acquire_local_def start_renewal_def Let_def
      split: prod.splits if_splits option.splits)

lemma guarded_task_frees:
  assumes red: "\<not> redis_enabled (lw_lock lw)" and mean: "\<And>x. lw_lock (meanwhile x) = lw_lock x"
    and fresh: "\<And>k e. lw_leases lw k \<noteq> Some (token, e)"
  shows "lw_leases (snd (snd (guarded_task env srv l l' now token meanwhile tid (aw, lw)))) (lock_key (lw_lock lw) tid)
    \<noteq> Some (token, e)"
proof -
  obtain lease lw1 where a: "acquire_lease srv l now token tid lw = (lease, lw1)" by fastforce
  note acq = acquire_lease_local [OF red a]
  show ?thesis
  proof (cases "tl_acquired lease")
    case False
    then show ?thesis using acq(4) fresh by (simp add: guarded_task_def a)
  next
    case True
    have "\<not> redis_enabled (lw_lock (meanwhile lw1))" using mean acq(1) red by simp
    then show ?thesis
      using True release_local_frees [of "lock_key (lw_lock lw) tid" token "lw_leases (meanwhile lw1)" e] acq(2,3)
      by (auto simp: guarded_task_def a task_lease_release_def release_lease_def lift_local_def Let_def split: prod.split)
  qed
qed

lemma handle_task_lease_cases:
  "snd (snd (handle_task env srv l l' now token meanwhile w)) = snd w \<or>
   (\<exists>aw tid. snd (snd (handle_task env srv l l' now token meanwhile w)) =
      snd (snd (guarded_task env srv l l' now token meanwhile tid (aw, snd w))) \<and>
      tid = field_text (prepare_task env (aw_task (fst w))) ''taskId'')"
  by (auto simp: handle_task_def Let_def split: prod.splits sum.splits option.splits)

text \<open>C6. With the lease table of the process, the lease of a task is gone when \<open>handle_task\<close> is over, however
  it ends: whatever the agents and tools do, with a result, with a failure or with an exception that
  leaves the orchestrator, no entry of the table holds the token that was drawn for the task.\<close>

theorem task_lease_always_released:
  assumes "\<not> redis_enabled (lw_lock (snd w))" and "\<And>x. lw_lock (meanwhile x) = lw_lock x"
    and "\<And>k e. lw_leases (snd w) k \<noteq> Some (token, e)"
  shows "lw_leases (snd (snd (handle_task env srv l l' now token meanwhile w)))
      (lock_key (lw_lock (snd w)) (field_text (prepare_task env (aw_task (fst w))) ''taskId'')) \<noteq> Some (token, e)"
  using handle_task_lease_cases [of env srv l l' now token meanwhile w]
proof (elim disjE exE conjE)
  assume "snd (snd (handle_task env srv l l' now token meanwhile w)) = snd w"
  then show ?thesis using assms(3) by simp
next
  fix aw tid
  assume "snd (snd (handle_task env srv l l' now token meanwhile w)) =
      snd (snd (guarded_task env srv l l' now token meanwhile tid (aw, snd w)))"
    "tid = field_text (prepare_task env (aw_task (fst w))) ''taskId''"
  then show ?thesis using guarded_task_frees [OF assms] by simp
qed

lemma task_lease_always_released_witness:
  "lw_leases (snd (snd (handle_task ((sample_orch_env ''code_change'')\<lparr>oe_coder := \<lambda>plan. throw (RuntimeError ''model'')\<rparr>)
      \<lparr>cmd_set_nx = (\<lambda>k v ttl r. (True, r)), cmd_get = (\<lambda>k r. None),
         cmd_expire = (\<lambda>k ttl r. (False, r)), cmd_del = (\<lambda>k r. (False, r))\<rparr> LinkOk LinkOk 0 ''w1'' (\<lambda>lw. lw)
      (sample_orch_world sample_orch_task,
       \<lparr>lw_lock = new_task_lock None ''memory'' ''ns'' 60 20 False False False, lw_leases = Map.empty, lw_server = ()\<rparr>))))
    (lock_key (new_task_lock None ''memory'' ''ns'' 60 20 False False False)
       (field_text (prepare_task (sample_orch_env ''code_change'') sample_orch_task) ''taskId'')) \<noteq> Some (''w1'', 60)"
proof -
  let ?env = "(sample_orch_env ''code_change'')\<lparr>oe_coder := \<lambda>plan. throw (RuntimeError ''model'')\<rparr>"
  let ?srv = "\<lparr>cmd_set_nx = (\<lambda>k v ttl r. (True, r)), cmd_get = (\<lambda>k r. None),
         cmd_expire = (\<lambda>k ttl r. (False, r)), cmd_del = (\<lambda>k r. (False, r))\<rparr> :: unit lock_server"
  let ?w = "(sample_orch_world sample_orch_task,
       \<lparr>lw_lock = new_task_lock None ''memory'' ''ns'' 60 20 False False False, lw_leases = Map.empty, lw_server = ()\<rparr>)"
  have "\<not> redis_enabled (new_task_lock None ''memory'' ''ns'' 60 20 False False False)" by code_simp
  then show ?thesis
    using task_lease_always_released [of ?w "\<lambda>lw. lw" "''w1''" ?env ?srv LinkOk LinkOk 0 60] by (simp add: prepare_task_def)
qed

section \<open>Counting the runs of the coder\<close>

text \<open>What the tools of a task must leave alone for a count of the coder's runs: everything but the coder
  does, and a run of the coder adds one.\<close>

definition counts_coder :: "'s orch_env \<Rightarrow> ('s \<Rightarrow> nat) \<Rightarrow> bool" where
  "counts_coder env cnt \<longleftrightarrow>
     unobserved (oe_agent env) cnt \<and>
     (\<forall>plan x. triple (\<lambda>w. cnt (aw_ext w) = x) (oe_coder env plan) (\<lambda>_ w. cnt (aw_ext w) = Suc x) (\<lambda>_ w. cnt (aw_ext w) = Suc x)) \<and>
     (\<forall>ws x. leaves cnt x (oe_validate env ws)) \<and> (\<forall>plan x. leaves cnt x (oe_reviewer env plan)) \<and>
     (\<forall>task c p i s. cnt (snd (we_exec (oe_work env) task c p i s)) = cnt s) \<and>
     (\<forall>m s. cnt (we_set_runtime (oe_work env) m s) = cnt s) \<and>
     (\<forall>m x. leaves cnt x (we_test_plugin (oe_work env) m)) \<and> (\<forall>m x. leaves cnt x (we_review_plugin (oe_work env) m)) \<and>
     (\<forall>ws fs s. cnt (snd (oe_export env ws fs s)) = cnt s) \<and>
     (\<forall>up t b s. oe_upload env = Some up \<longrightarrow> cnt (snd (up t b s)) = cnt s)"

lemma counts_coder_parts:
  assumes "counts_coder env cnt"
  shows "unobserved (oe_agent env) cnt" "unobserved (we_agent (oe_work env)) cnt"
    "leaves cnt x (oe_validate env ws)" "leaves cnt x (oe_reviewer env plan)"
    "cnt (snd (we_exec (oe_work env) task c p i s)) = cnt s" "cnt (we_set_runtime (oe_work env) m s) = cnt s"
    "leaves cnt x (we_test_plugin (oe_work env) pm)" "leaves cnt x (we_review_plugin (oe_work env) pm)"
    "cnt (snd (oe_export env p1 fs s)) = cnt s"
    "oe_upload env = Some up \<Longrightarrow> cnt (snd (up t b s)) = cnt s"
  using assms by (simp_all add: counts_coder_def)

lemma counts_frame: "counts_coder env cnt \<Longrightarrow> work_apart (oe_work env) cnt"
  by (simp add: work_apart_def counts_coder_def)

named_theorems count_rules

lemmas cnt_plugins [count_rules] = leaves_set_task leaves_pop_task
  leaves_breaker_state [OF counts_frame] leaves_execute_plugin [OF counts_frame] leaves_announce [OF counts_frame]
  leaves_skip [OF counts_frame] leaves_offer [OF counts_frame]

lemma cnt_publish [count_rules]: "counts_coder env cnt \<Longrightarrow> leaves cnt x (publish_ev env ty d)"
  unfolding publish_ev_def by (rule leaves_publish [OF counts_coder_parts(1)])

lemma cnt_say [count_rules]: "counts_coder env cnt \<Longrightarrow> leaves cnt x (say env st m d)"
  unfolding say_def by (rule cnt_publish)

lemma cnt_emit [count_rules]: "counts_coder env cnt \<Longrightarrow> leaves cnt x (emit (oe_work env) d)"
  unfolding emit_def by (rule leaves_publish [OF counts_coder_parts(2)])

lemma cnt_span [count_rules]: "counts_coder env cnt \<Longrightarrow> leaves cnt x m \<Longrightarrow> leaves cnt x (in_span env n st a m)"
  unfolding in_span_def by (rule leaves_span [OF counts_coder_parts(1)])

lemma cnt_item [count_rules]: "leaves cnt x (item_of d k)"
  unfolding item_of_def by (rule keeps_lift)

lemma cnt_terminal_payload [count_rules]:
  assumes "counts_coder env cnt"
  shows "leaves cnt x (terminal_payload env p en)"
proof -
  have "leaves cnt x (\<lambda>w. let path = field_text task ''_executionPath'';
           out = set_default ''executionPath'' (PStr (if path \<noteq> [] then path else ''legacy'')) p;
           te = \<lparr>te_status = en_status en, te_intent = en_intent en, te_reason = en_reason en,
                 te_generation_target = generation_target_for_metrics task,
                 te_fix_attempts = en_attempts en, te_fix_success = en_success en\<rparr>;
           (q, ob') = attach_terminal te (ae_monotonic (oe_agent env) (aw_ext w)) out ob
       in (Inr q, w\<lparr>aw_obs := Some ob'\<rparr>))" for task ob
    by (rule keepsI) (simp add: Let_def split_beta)
  then show ?thesis
    unfolding terminal_payload_def by (intro keeps_rules leaves_ensure_own counts_coder_parts(1) [OF assms])
qed

lemma cnt_end_task [count_rules]: "counts_coder env cnt \<Longrightarrow> leaves cnt x (end_task env ty p en)"
  unfolding end_task_def by (intro keeps_rules count_rules)

lemma cnt_failed_record [count_rules]: "leaves cnt x (failed_record i n p r)"
  unfolding failed_record_def by (intro keeps_rules count_rules)

lemma cnt_exec [count_rules]: "counts_coder env cnt \<Longrightarrow> leaves cnt x (exec_in_sandbox (oe_work env) c p i)"
  unfolding exec_in_sandbox_def by (intro keeps_rules leaves_outside counts_coder_parts(5))

lemma cnt_plugin_command [count_rules]: "counts_coder env cnt \<Longrightarrow> leaves cnt x (plugin_command (oe_work env) m)"
  unfolding plugin_command_def Let_def by (intro keeps_rules count_rules counts_coder_parts(7))

lemma cnt_resolve_command [count_rules]: "counts_coder env cnt \<Longrightarrow> leaves cnt x (resolve_test_command (oe_work env))"
  unfolding resolve_test_command_def by (intro keeps_rules count_rules leaves_modify) simp_all

lemma cnt_test_attempt [count_rules]: "counts_coder env cnt \<Longrightarrow> leaves cnt x (test_attempt (oe_work env) plan p c mr k)"
  unfolding test_attempt_def Let_def by (intro keeps_rules count_rules leaves_sum)

lemma cnt_test_attempts [count_rules]:
  "counts_coder env cnt \<Longrightarrow> leaves cnt x (test_attempts (oe_work env) plan p c mr n k)"
proof (induction n arbitrary: k)
  case 0
  then show ?case
    unfolding test_attempts.simps [of _ _ _ _ _ 0] nat.case by (intro keeps_rules count_rules)
next
  case (Suc n)
  then show ?case
    unfolding test_attempts.simps [of _ _ _ _ _ "Suc n"] nat.case by (intro keeps_rules count_rules Suc.IH)
qed

lemma cnt_tester [count_rules]: "counts_coder env cnt \<Longrightarrow> leaves cnt x (tester_execute (oe_work env) plan mr)"
  unfolding tester_execute_def by (intro keeps_rules count_rules)

lemma cnt_reviewer [count_rules]: "counts_coder env cnt \<Longrightarrow> leaves cnt x (run_reviewer_with_plugins env plan)"
  unfolding run_reviewer_with_plugins_def reviewer_plugin_run_def
  by (intro keeps_rules count_rules counts_coder_parts(4,8))

lemma leaves_outcome: "leaves cnt x m \<Longrightarrow> leaves cnt x (outcome_of m)"
  unfolding keeps_iff by (simp add: outcome_of_def split_beta Let_def)

lemma leaves_prod: "(\<And>a b. leaves cnt x (f a b)) \<Longrightarrow> leaves cnt x (case p of (a, b) \<Rightarrow> f a b)"
  by (cases p) simp

lemma cnt_review_and_test [count_rules]: "counts_coder env cnt \<Longrightarrow> leaves cnt x (run_review_and_test env plan)"
  unfolding run_review_and_test_def run_dag_def both_outcomes_def
  by (intro keeps_rules count_rules leaves_outcome leaves_prod)

lemma cnt_exhausted [count_rules]: "counts_coder env cnt \<Longrightarrow> leaves cnt x (exhausted env plan mx k b e e1 e2)"
  unfolding exhausted_def Let_def by (intro keeps_rules count_rules)

lemma cnt_upload [count_rules]: "counts_coder env cnt \<Longrightarrow> leaves cnt x (try_upload_artifact env b)"
  unfolding try_upload_artifact_def
  by (cases "oe_upload env") (auto intro!: keeps_rules leaves_outside counts_coder_parts(10))

lemma cnt_artifact [count_rules]: "counts_coder env cnt \<Longrightarrow> leaves cnt x (publish_generated_artifact env t)"
  unfolding publish_generated_artifact_def Let_def
  by (intro keeps_rules count_rules leaves_prod leaves_outside counts_coder_parts(9))

lemma cnt_done [count_rules]: "counts_coder env cnt \<Longrightarrow> leaves cnt x (code_change_done env plan mx k rv t)"
  unfolding code_change_done_def Let_def by (intro keeps_rules count_rules)

lemma leaves_node:
  "(\<And>r. leaves cnt x (f r)) \<Longrightarrow> (\<And>r. leaves cnt x (g r)) \<Longrightarrow> leaves cnt x h \<Longrightarrow>
   leaves cnt x (case v of NodeReview r \<Rightarrow> f r | NodeTest t \<Rightarrow> g t | NodeTrue \<Rightarrow> h)"
  by (cases v) simp_all

lemma cnt_judge [count_rules]: "counts_coder env cnt \<Longrightarrow> leaves cnt x (judge_results env plan mx k b res)"
  unfolding judge_results_def Let_def
  by (intro keeps_rules count_rules) (auto split: node_value.split intro!: keeps_rules count_rules)

lemma cnt_start [count_rules]: "counts_coder env cnt \<Longrightarrow> leaves cnt x (start_round env mx k e)"
  unfolding start_round_def by (intro keeps_rules count_rules)

section \<open>The budget of the fix loop\<close>

lemma triple_snd: "(\<And>w. P w \<Longrightarrow> Q (snd (m w))) \<Longrightarrow> triple P m (\<lambda>_. Q) (\<lambda>_. Q)"
  by (rule tripleI) (metis snd_conv)+

lemma triple_sndD: "triple P m (\<lambda>_. Q) (\<lambda>_. Q) \<Longrightarrow> P w \<Longrightarrow> Q (snd (m w))"
  by (cases "m w"; cases "fst (m w)") (auto dest: tripleD_Inl tripleD_Inr)

lemma with_span_ext:
  assumes "ensure_own env w = (Inr ob, w1)"
  shows "aw_ext (snd (with_span env n st a m w)) = aw_ext (snd (m w1))"
  by (simp add: with_span_def next_Inr [of "ensure_own env", OF assms] split_beta Let_def)

lemma span_counts:
  assumes "unobserved env cnt"
    and "triple (\<lambda>w. cnt (aw_ext w) = x) m (\<lambda>_ w. cnt (aw_ext w) = y) (\<lambda>_ w. cnt (aw_ext w) = y)"
  shows "triple (\<lambda>w. cnt (aw_ext w) = x) (with_span env n st a m) (\<lambda>_ w. cnt (aw_ext w) = y) (\<lambda>_ w. cnt (aw_ext w) = y)"
proof (rule triple_snd)
  fix w :: "'a agent_world"
  assume w: "cnt (aw_ext w) = x"
  obtain ob w1 where e: "ensure_own env w = (Inr ob, w1)" using ensure_own_spec [of env w] by blast
  have "cnt (aw_ext w1) = x" using keepsD [OF leaves_ensure_own [OF assms(1), of x], of w] w e by simp
  then show "cnt (aw_ext (snd (with_span env n st a m w))) = y"
    using triple_sndD [OF assms(2)] by (simp add: with_span_ext [OF e])
qed

lemma keeps_triple: "keeps I m \<Longrightarrow> triple I m (\<lambda>_. I) (\<lambda>_. I)"
  by (simp add: keeps_def)

lemma round_counts:
  assumes "counts_coder env cnt" and y: "Suc x \<le> y"
  shows "triple (\<lambda>w. cnt (aw_ext w) = x) (code_change_round env plan mx k b e)
    (\<lambda>_ w. cnt (aw_ext w) = Suc x) (\<lambda>_ w. cnt (aw_ext w) \<le> y)"
proof -
  let ?after = "\<lambda>coded. if \<not> coded then ret (Finished (code_change_failed plan ''coder_failed''))
        else
          bind (in_span env ''validation_gate'' ''ValidationGate'' []
                  (bind (get_with (\<lambda>w. resolve_workspace (aw_task w))) (oe_validate env))) (\<lambda>validation.
          if \<not> vr_ok validation
          then exhausted env plan mx k b (validation_summary validation) [] []
          else
            bind (in_span env ''review_and_test'' ''Orchestrator'' [] (run_review_and_test env plan)) (\<lambda>results.
              case results of
                None \<Rightarrow> ret (Finished (code_change_failed plan ''parallel_pipeline_error''))
              | Some res \<Rightarrow> judge_results env plan mx k b res))"
  have coder: "triple (\<lambda>w. cnt (aw_ext w) = x) (oe_coder env plan) (\<lambda>_ w. cnt (aw_ext w) = Suc x) (\<lambda>_ w. cnt (aw_ext w) = Suc x)"
    using assms(1) by (simp add: counts_coder_def)
  have "triple (\<lambda>w. cnt (aw_ext w) = x) (in_span env ''code_generation'' ''CoderAgent'' [(''attempt'', PInt k)] (oe_coder env plan))
      (\<lambda>_ w. cnt (aw_ext w) = Suc x) (\<lambda>_ w. cnt (aw_ext w) \<le> y)"
    unfolding in_span_def by (rule triple_conseq [OF span_counts [OF counts_coder_parts(1) [OF assms(1)] coder]]) (use y in simp_all)
  moreover have "leaves cnt (Suc x) (?after coded)" for coded
    by (intro keeps_rules count_rules counts_coder_parts(3) assms(1))
  then have "triple (\<lambda>w. cnt (aw_ext w) = Suc x) (?after coded) (\<lambda>_ w. cnt (aw_ext w) = Suc x) (\<lambda>_ w. cnt (aw_ext w) \<le> y)" for coded
    by (rule triple_conseq [OF keeps_triple]) (use y in simp_all)
  moreover have "triple (\<lambda>w. cnt (aw_ext w) = x) (start_round env mx k e) (\<lambda>_ w. cnt (aw_ext w) = x) (\<lambda>_ w. cnt (aw_ext w) \<le> y)"
    by (rule triple_conseq [OF keeps_triple [OF cnt_start [OF assms(1)]]]) (use y in auto)
  ultimately show ?thesis
    unfolding code_change_round_def by (intro triple_next triple_bind)
qed

lemma rounds_count:
  assumes "counts_coder env cnt"
  shows "triple (\<lambda>w. cnt (aw_ext w) = x) (code_change_rounds env plan mx left k e)
    (\<lambda>_ w. x < cnt (aw_ext w) \<and> cnt (aw_ext w) \<le> x + left + 1) (\<lambda>_ w. cnt (aw_ext w) \<le> x + left + 1)"
proof (induction left arbitrary: k e x)
  case 0
  show ?case
    unfolding code_change_rounds.simps
    by (rule triple_bind [OF round_counts [OF assms, of x]]) (auto intro!: triple_ret triple_throw split: round_end.split)
next
  case (Suc left)
  show ?case
    unfolding code_change_rounds.simps
  proof (rule triple_bind [OF round_counts [OF assms, of x]])
    fix r
    show "triple (\<lambda>w. cnt (aw_ext w) = Suc x)
        (case r of Finished rec \<Rightarrow> ret rec | Again e \<Rightarrow> code_change_rounds env plan mx left (k + 1) e)
        (\<lambda>_ w. x < cnt (aw_ext w) \<and> cnt (aw_ext w) \<le> x + Suc left + 1) (\<lambda>_ w. cnt (aw_ext w) \<le> x + Suc left + 1)"
      by (cases r) (auto intro!: triple_ret triple_conseq [OF Suc.IH])
  qed auto
qed

lemma max_attempts_range: "1 \<le> resolve_fix_loop_max_attempts getenv \<and> resolve_fix_loop_max_attempts getenv \<le> 3"
  by (simp add: resolve_fix_loop_max_attempts_def Let_def split: option.split)

text \<open>C10. Whatever the environment variable says and whatever the agents do, a code change runs the coder at most
  once more than the attempts allowed, which are between one and three, so four times at most; when it ends
  with a record the coder ran at least once.\<close>

theorem code_change_coder_runs:
  assumes "counts_coder env cnt"
  defines "mx \<equiv> resolve_fix_loop_max_attempts (we_getenv (oe_work env))"
  shows "case handle_code_change env plan w of
      (Inl e, w') \<Rightarrow> int (cnt (aw_ext w')) \<le> int (cnt (aw_ext w)) + mx + 1 \<and> cnt (aw_ext w') \<le> cnt (aw_ext w) + 4
    | (Inr rec, w') \<Rightarrow> cnt (aw_ext w) < cnt (aw_ext w') \<and> int (cnt (aw_ext w')) \<le> int (cnt (aw_ext w)) + mx + 1 \<and>
        cnt (aw_ext w') \<le> cnt (aw_ext w) + 4"
proof -
  have mx: "1 \<le> mx" "mx \<le> 3" using max_attempts_range by (simp_all add: mx_def)
  have "triple (\<lambda>v. cnt (aw_ext v) = cnt (aw_ext w)) (handle_code_change env plan)
      (\<lambda>_ v. cnt (aw_ext w) < cnt (aw_ext v) \<and> cnt (aw_ext v) \<le> cnt (aw_ext w) + nat mx + 1)
      (\<lambda>_ v. cnt (aw_ext v) \<le> cnt (aw_ext w) + nat mx + 1)"
    unfolding handle_code_change_def Let_def mx_def by (rule rounds_count [OF assms(1)])
  note t = tripleD_Inl [OF this refl] tripleD_Inr [OF this refl]
  obtain r w' where h: "handle_code_change env plan w = (r, w')" by fastforce
  show ?thesis using mx t h by (cases r) (fastforce simp: h)+
qed

lemma sample_orch_counts: "counts_coder (sample_orch_env intent) (\<lambda>(l, n, k, x). k)"
  unfolding counts_coder_def
  by (auto simp: sample_orch_env_def sample_orch_work_def sample_orch_agent_def unobserved_def client_call_def Let_def
      triple_def outside_def split_beta intro!: keeps_rules)

lemma code_change_coder_runs_witness:
  "case handle_code_change (sample_orch_env ''code_change'') sample_plan (sample_orch_world sample_orch_task) of
      (Inl e, w') \<Rightarrow> fst (snd (snd (aw_ext w'))) \<le> 4
    | (Inr rec, w') \<Rightarrow> 0 < fst (snd (snd (aw_ext w'))) \<and> fst (snd (snd (aw_ext w'))) \<le> 4"
  using code_change_coder_runs [OF sample_orch_counts [of "''code_change''"], where plan = sample_plan and w = "sample_orch_world sample_orch_task"]
  by (simp add: split_beta split: sum.splits)

end
