(* ===== verification/Terminal_Events.thy ===== *)
theory Terminal_Events
  imports Orchestrator
begin

text \<open>
  The events that end a task of \<open>Orchestrator\<close>: when the collaborators behave, a task publishes exactly one
  of \<open>TASK_DONE\<close> and \<open>TASK_FAILED\<close>, whatever its intent and whatever fails inside; and the paths on which
  that is not so.
\<close>

section \<open>Terminal events\<close>

definition is_terminal :: "pyval \<Rightarrow> bool" where
  "is_terminal ty \<longleftrightarrow> ty = PStr ''TASK_DONE'' \<or> ty = PStr ''TASK_FAILED''"

text \<open>The agent is between publications, and the terminal events among those the client has received are \<open>ts\<close>.\<close>

definition settled :: "string \<Rightarrow> ('s \<Rightarrow> pydict list) \<Rightarrow> pyval list \<Rightarrow> 's agent_world \<Rightarrow> bool" where
  "settled tid rcv ts w \<longleftrightarrow> (\<exists>es sm. stands tid rcv (\<lambda>_. ()) es () sm w \<and> filter is_terminal es = ts)"

text \<open>An exception that the orchestrator can report: it is caught, and its text is not blank.\<close>

definition plain_exn :: "py_exn \<Rightarrow> bool" where
  "plain_exn e \<longleftrightarrow> is_Exception e \<and> strip (exn_text e) \<noteq> []"

text \<open>Actions that publish no terminal event: \<open>smooth\<close> ones never raise, \<open>quiet\<close> ones may.\<close>

definition smooth :: "string \<Rightarrow> ('s \<Rightarrow> pydict list) \<Rightarrow> ('s agent_world, 'a) act \<Rightarrow> bool" where
  "smooth tid rcv m \<longleftrightarrow> (\<forall>ts. triple (settled tid rcv ts) m (\<lambda>_. settled tid rcv ts) (\<lambda>_ _. False))"

definition quiet :: "string \<Rightarrow> ('s \<Rightarrow> pydict list) \<Rightarrow> ('s agent_world, 'a) act \<Rightarrow> bool" where
  "quiet tid rcv m \<longleftrightarrow> (\<forall>ts. triple (settled tid rcv ts) m (\<lambda>_. settled tid rcv ts) (\<lambda>e w. plain_exn e \<and> settled tid rcv ts w))"

lemma unobserved_unit [simp]: "unobserved env (\<lambda>_. ())"
  by (simp add: unobserved_def)

lemma triple_settled:
  "(\<And>es sm. filter is_terminal es = ts \<Longrightarrow> triple (stands tid rcv (\<lambda>_. ()) es () sm) m Q E) \<Longrightarrow>
   triple (settled tid rcv ts) m Q E"
proof (rule triple_pre)
  fix w
  assume t: "\<And>es sm. filter is_terminal es = ts \<Longrightarrow> triple (stands tid rcv (\<lambda>_. ()) es () sm) m Q E"
    and "settled tid rcv ts w"
  then obtain es sm where "stands tid rcv (\<lambda>_. ()) es () sm w" "filter is_terminal es = ts"
    unfolding settled_def by blast
  then show "triple (\<lambda>v. v = w) m Q E" by (intro triple_conseq [OF t]) auto
qed

lemma settledI: "stands tid rcv (\<lambda>_. ()) es () sm w \<Longrightarrow> settled tid rcv (filter is_terminal es) w"
  by (auto simp: settled_def)

lemma publish_settled:
  assumes "takes_all env rcv" "tid \<noteq> []"
  shows "triple (settled tid rcv ts) (publish env ty d)
    (\<lambda>_. settled tid rcv (ts @ (if is_terminal (PStr ty) then [PStr ty] else []))) (\<lambda>_ _. False)"
proof (rule triple_settled)
  fix es :: "pyval list" and sm assume ts: "filter is_terminal es = ts"
  show "triple (stands tid rcv (\<lambda>_. ()) es () sm) (publish env ty d)
      (\<lambda>_. settled tid rcv (ts @ (if is_terminal (PStr ty) then [PStr ty] else []))) (\<lambda>_ _. False)"
    by (rule triple_conseq [OF publish_stands [OF assms(1) unobserved_unit assms(2), of es "()" sm]])
      (auto dest!: settledI simp: ts)
qed

lemma smooth_quiet: "smooth tid rcv m \<Longrightarrow> quiet tid rcv m"
  unfolding smooth_def quiet_def by (blast intro: triple_conseq)

lemma smooth_publish: "takes_all env rcv \<Longrightarrow> tid \<noteq> [] \<Longrightarrow> \<not> is_terminal (PStr ty) \<Longrightarrow> smooth tid rcv (publish env ty d)"
  using publish_settled [of env rcv tid _ ty d] by (simp add: smooth_def)

named_theorems quiet_rules

lemma quiet_ret [quiet_rules]: "quiet tid rcv (ret x)" by (simp add: quiet_def triple_ret)
lemma quiet_throw [quiet_rules]: "plain_exn e \<Longrightarrow> quiet tid rcv (throw e)" by (simp add: quiet_def triple_throw)
lemma quiet_get [quiet_rules]: "quiet tid rcv (get_with f)" by (simp add: quiet_def triple_get)
lemma quiet_bind [quiet_rules]: "quiet tid rcv m \<Longrightarrow> (\<And>a. quiet tid rcv (f a)) \<Longrightarrow> quiet tid rcv (bind m f)"
  by (auto simp: quiet_def intro: triple_bind)
lemma quiet_next [quiet_rules]: "quiet tid rcv m \<Longrightarrow> quiet tid rcv n \<Longrightarrow> quiet tid rcv (next_act m n)"
  by (simp add: next_act_def quiet_bind)
lemma quiet_lift [quiet_rules]: "(\<And>e. r = Inl e \<Longrightarrow> plain_exn e) \<Longrightarrow> quiet tid rcv (lift_result r)"
  by (simp add: quiet_def triple_lift)
lemma quiet_when [quiet_rules]: "quiet tid rcv m \<Longrightarrow> quiet tid rcv (when_do b m)"
  by (simp add: when_do_def quiet_ret)
lemma quiet_if [quiet_rules]: "(b \<Longrightarrow> quiet tid rcv m) \<Longrightarrow> (\<not> b \<Longrightarrow> quiet tid rcv n) \<Longrightarrow> quiet tid rcv (if b then m else n)"
  by simp
lemma quiet_option [quiet_rules]: "quiet tid rcv m \<Longrightarrow> (\<And>x. quiet tid rcv (f x)) \<Longrightarrow> quiet tid rcv (case v of None \<Rightarrow> m | Some x \<Rightarrow> f x)"
  by (cases v) simp_all
lemma quiet_sum [quiet_rules]: "(\<And>a. quiet tid rcv (f a)) \<Longrightarrow> (\<And>b. quiet tid rcv (g b)) \<Longrightarrow> quiet tid rcv (case r of Inl a \<Rightarrow> f a | Inr b \<Rightarrow> g b)"
  by (cases r) simp_all
lemma quiet_prod [quiet_rules]: "(\<And>a b. quiet tid rcv (f a b)) \<Longrightarrow> quiet tid rcv (case p of (a, b) \<Rightarrow> f a b)"
  by (cases p) simp
lemma quiet_try [quiet_rules]:
  assumes "quiet tid rcv m" "\<And>e. plain_exn e \<Longrightarrow> quiet tid rcv (h e)"
  shows "quiet tid rcv (try_except m h)"
  unfolding quiet_def
proof
  fix ts
  show "triple (settled tid rcv ts) (try_except m h) (\<lambda>_. settled tid rcv ts) (\<lambda>e w. plain_exn e \<and> settled tid rcv ts w)"
  proof (rule triple_catching)
    show "triple (settled tid rcv ts) m (\<lambda>_. settled tid rcv ts) (\<lambda>e w. plain_exn e \<and> settled tid rcv ts w)"
      using assms(1) by (simp add: quiet_def)
    show "triple (\<lambda>w. plain_exn e \<and> settled tid rcv ts w) (h e) (\<lambda>_. settled tid rcv ts) (\<lambda>e w. plain_exn e \<and> settled tid rcv ts w)" for e
      using assms(2) by (cases "plain_exn e") (auto simp: quiet_def triple_def)
  qed simp
qed

lemma settled_modify_task:
  "(\<And>d. field_text (f d) ''taskId'' = field_text d ''taskId'') \<Longrightarrow>
   settled tid rcv ts (w\<lparr>aw_task := f (aw_task w)\<rparr>) = settled tid rcv ts w"
  by (simp add: settled_def stands_modify_task)

lemma smooth_modify_task:
  "(\<And>d. field_text (f d) ''taskId'' = field_text d ''taskId'') \<Longrightarrow> smooth tid rcv (modify (\<lambda>w. w\<lparr>aw_task := f (aw_task w)\<rparr>))"
  by (simp add: smooth_def triple_modify settled_modify_task)

lemma field_text_update [simp]: "k \<noteq> k' \<Longrightarrow> field_text (AList.update k v d) k' = field_text d k'"
  by (simp add: field_text_def dget_or_def update_conv')

lemma field_text_delete [simp]: "k \<noteq> k' \<Longrightarrow> field_text (AList.delete k d) k' = field_text d k'"
  by (simp add: field_text_def dget_or_def delete_conv')

lemma field_text_set_default [simp]: "k \<noteq> k' \<Longrightarrow> field_text (set_default k v d) k' = field_text d k'"
  by (simp add: field_text_def dget_or_def set_default_def map_add_def split: option.split)

lemma smooth_set_task: "k \<noteq> ''taskId'' \<Longrightarrow> smooth tid rcv (set_task k v)"
  unfolding set_task_def by (rule smooth_modify_task) simp

lemma smooth_pop_task: "k \<noteq> ''taskId'' \<Longrightarrow> smooth tid rcv (pop_task k)"
  unfolding pop_task_def by (rule smooth_modify_task) simp

lemmas quiet_task_fields [quiet_rules] = smooth_set_task [THEN smooth_quiet] smooth_pop_task [THEN smooth_quiet]

text \<open>Work outside that the client does not see.\<close>

definition mute :: "('s \<Rightarrow> pydict list) \<Rightarrow> ('s \<Rightarrow> 'a result \<times> 's) \<Rightarrow> bool" where
  "mute rcv f \<longleftrightarrow> (\<forall>s. rcv (snd (f s)) = rcv s \<and> (case fst (f s) of Inl e \<Rightarrow> plain_exn e | Inr _ \<Rightarrow> True))"

definition mute_total :: "('s \<Rightarrow> pydict list) \<Rightarrow> ('s \<Rightarrow> 'a result \<times> 's) \<Rightarrow> bool" where
  "mute_total rcv f \<longleftrightarrow> (\<forall>s. \<exists>a s'. f s = (Inr a, s') \<and> rcv s' = rcv s)"

lemma settled_ext: "rcv s' = rcv (aw_ext w) \<Longrightarrow> settled tid rcv ts (w\<lparr>aw_ext := s'\<rparr>) = settled tid rcv ts w"
  by (auto simp: settled_def stands_def event_types_def task_summary_def outbox_ok_core [of "w\<lparr>aw_ext := s'\<rparr>" w])

lemma quiet_outside [quiet_rules]: "mute rcv f \<Longrightarrow> quiet tid rcv (outside f)"
  unfolding quiet_def triple_def outside_def mute_def
  by (auto simp: split_beta Let_def settled_ext split: prod.split sum.splits)

lemma smooth_outside: "mute_total rcv f \<Longrightarrow> smooth tid rcv (outside f)"
  unfolding smooth_def triple_def outside_def mute_total_def
proof (intro allI impI)
  fix ts w assume f: "\<forall>s. \<exists>a s'. f s = (Inr a, s') \<and> rcv s' = rcv s" and w: "settled tid rcv ts w"
  obtain a s' where "f (aw_ext w) = (Inr a, s')" "rcv s' = rcv (aw_ext w)" using f by blast
  then show "case let (r, s) = f (aw_ext w) in (r, w\<lparr>aw_ext := s\<rparr>) of
      (Inl e, w') \<Rightarrow> False | (Inr a, w') \<Rightarrow> settled tid rcv ts w'"
    using w by (simp add: settled_ext)
qed

text \<open>A span.\<close>

lemma settled_obs: "task_summary (w\<lparr>aw_obs := ob\<rparr>) = task_summary w \<Longrightarrow> settled tid rcv ts (w\<lparr>aw_obs := ob\<rparr>) = settled tid rcv ts w"
  by (simp add: settled_def)

lemma span_settled:
  assumes rcv: "takes_all env rcv" and m: "triple (settled tid rcv ts) m Q E"
    and Q: "\<And>a w ob. Q a w \<Longrightarrow> task_summary (w\<lparr>aw_obs := ob\<rparr>) = task_summary w \<Longrightarrow> Q a (w\<lparr>aw_obs := ob\<rparr>)"
    and E: "\<And>e w ob. E e w \<Longrightarrow> task_summary (w\<lparr>aw_obs := ob\<rparr>) = task_summary w \<Longrightarrow> E e (w\<lparr>aw_obs := ob\<rparr>)"
  shows "triple (settled tid rcv ts) (with_span env n st a m) Q E"
proof (rule triple_settled)
  fix es :: "pyval list" and sm assume "filter is_terminal es = ts"
  then have "triple (stands tid rcv (\<lambda>_. ()) es () sm) m Q E"
    by (intro triple_conseq [OF m]) (auto simp: settled_def)
  then show "triple (stands tid rcv (\<lambda>_. ()) es () sm) (with_span env n st a m) Q E"
    by (rule with_span_stands [OF rcv unobserved_unit]) (fact Q E)+
qed

lemma smooth_span: "takes_all env rcv \<Longrightarrow> smooth tid rcv m \<Longrightarrow> smooth tid rcv (with_span env n st a m)"
  unfolding smooth_def by (blast intro: span_settled settled_obs [THEN iffD2])

lemma quiet_span: "takes_all env rcv \<Longrightarrow> quiet tid rcv m \<Longrightarrow> quiet tid rcv (with_span env n st a m)"
  unfolding quiet_def by (blast intro: span_settled settled_obs [THEN iffD2])

section \<open>Parts that behave\<close>

text \<open>What the theorem on terminal events asks of the agents: none publishes a terminal event, but for the coder, which
  publishes \<open>TASK_FAILED\<close> when it gives up. Intent and plan are always found (a missing key has its reason).\<close>

definition agents_behave :: "'s orch_env \<Rightarrow> string \<Rightarrow> ('s \<Rightarrow> pydict list) \<Rightarrow> bool" where
  "agents_behave env tid rcv \<longleftrightarrow>
     (\<forall>p ts. triple (settled tid rcv ts) (oe_infer env p)
        (\<lambda>d w. settled tid rcv ts w \<and> (id_intent d = ''llm_key_missing'' \<longrightarrow> strip (id_reason d) \<noteq> [])) (\<lambda>_ _. False)) \<and>
     (\<forall>p d. smooth tid rcv (oe_plan env p d)) \<and>
     (\<forall>plan ts. triple (settled tid rcv ts) (oe_coder env plan)
        (\<lambda>coded. settled tid rcv (ts @ (if coded then [] else [PStr ''TASK_FAILED'']))) (\<lambda>e w. plain_exn e \<and> settled tid rcv ts w)) \<and>
     (\<forall>plan. quiet tid rcv (oe_reviewer env plan))"

text \<open>And of everything else: the client takes every event; gate, plugins, sandbox, runtime, export and upload publish
  no terminal event, and what they raise can be reported; records of the memory can always be read and stored.\<close>

definition surroundings_behave :: "'s orch_env \<Rightarrow> string \<Rightarrow> ('s \<Rightarrow> pydict list) \<Rightarrow> bool" where
  "surroundings_behave env tid rcv \<longleftrightarrow>
     tid \<noteq> [] \<and> takes_all (oe_agent env) rcv \<and> (\<forall>ws. quiet tid rcv (oe_validate env ws)) \<and>
     (\<forall>m. quiet tid rcv (we_test_plugin (oe_work env) m)) \<and> (\<forall>m. quiet tid rcv (we_review_plugin (oe_work env) m)) \<and>
     (\<forall>m s. rcv (we_set_runtime (oe_work env) m s) = rcv s) \<and>
     (\<forall>task c p i. mute rcv (we_exec (oe_work env) task c p i)) \<and>
     (\<forall>key n. mute_total rcv (oe_recent env key n)) \<and> (\<forall>key r. mute_total rcv (oe_append env key r)) \<and>
     (\<forall>ws fs. mute rcv (oe_export env ws fs)) \<and> (\<forall>up t b. oe_upload env = Some up \<longrightarrow> mute rcv (up t b)) \<and>
     (\<forall>g m P ts. oe_graph env = Some g \<longrightarrow>
        triple (settled tid rcv ts) m (\<lambda>r w. settled tid rcv ts w \<and> P r) (\<lambda>e w. plain_exn e \<and> settled tid rcv ts w) \<longrightarrow>
        triple (settled tid rcv ts) (g m) (\<lambda>r w. settled tid rcv ts w \<and> (case r of None \<Rightarrow> True | Some x \<Rightarrow> P x))
          (\<lambda>e w. plain_exn e \<and> settled tid rcv ts w))"

definition well_behaved :: "'s orch_env \<Rightarrow> string \<Rightarrow> ('s \<Rightarrow> pydict list) \<Rightarrow> bool" where
  "well_behaved env tid rcv \<longleftrightarrow> surroundings_behave env tid rcv \<and> agents_behave env tid rcv"

lemma well_behaved_parts:
  assumes "well_behaved env tid rcv"
  shows "tid \<noteq> []" "takes_all (oe_agent env) rcv" "takes_all (we_agent (oe_work env)) rcv"
    "triple (settled tid rcv ts) (oe_infer env p)
        (\<lambda>d w. settled tid rcv ts w \<and> (id_intent d = ''llm_key_missing'' \<longrightarrow> strip (id_reason d) \<noteq> [])) (\<lambda>_ _. False)"
    "smooth tid rcv (oe_plan env p d)"
    "triple (settled tid rcv ts) (oe_coder env plan)
        (\<lambda>coded. settled tid rcv (ts @ (if coded then [] else [PStr ''TASK_FAILED'']))) (\<lambda>e w. plain_exn e \<and> settled tid rcv ts w)"
    "quiet tid rcv (oe_validate env ws)" "quiet tid rcv (oe_reviewer env plan)"
    "quiet tid rcv (we_test_plugin (oe_work env) m)" "quiet tid rcv (we_review_plugin (oe_work env) m)"
    "rcv (we_set_runtime (oe_work env) rt s) = rcv s"
    "mute rcv (we_exec (oe_work env) task c prompt i)" "mute_total rcv (oe_recent env key n)" "mute_total rcv (oe_append env key r)"
    "mute rcv (oe_export env wsp fs)" "oe_upload env = Some up \<Longrightarrow> mute rcv (up t b)"
  using assms by (simp_all add: well_behaved_def surroundings_behave_def agents_behave_def)

lemma well_behaved_graph:
  assumes "well_behaved env tid rcv" "oe_graph env = Some g"
    and "triple (settled tid rcv ts) m (\<lambda>r w. settled tid rcv ts w \<and> P r) (\<lambda>e w. plain_exn e \<and> settled tid rcv ts w)"
  shows "triple (settled tid rcv ts) (g m) (\<lambda>r w. settled tid rcv ts w \<and> (case r of None \<Rightarrow> True | Some x \<Rightarrow> P x))
          (\<lambda>e w. plain_exn e \<and> settled tid rcv ts w)"
  using assms by (simp add: well_behaved_def surroundings_behave_def)

lemma smooth_say: "well_behaved env tid rcv \<Longrightarrow> smooth tid rcv (say env st m d)"
  unfolding say_def publish_ev_def
  by (rule smooth_publish [OF well_behaved_parts(2,1)]) (simp_all add: is_terminal_def)

lemma smooth_emit: "well_behaved env tid rcv \<Longrightarrow> smooth tid rcv (emit (oe_work env) d)"
  unfolding emit_def by (rule smooth_publish [OF well_behaved_parts(3,1)]) (simp_all add: is_terminal_def)

lemmas quiet_output [quiet_rules] = smooth_say [THEN smooth_quiet] smooth_emit [THEN smooth_quiet]

lemma quiet_event [quiet_rules]:
  "well_behaved env tid rcv \<Longrightarrow> \<not> is_terminal (PStr ty) \<Longrightarrow> quiet tid rcv (publish_ev env ty d)"
  unfolding publish_ev_def by (rule smooth_quiet [OF smooth_publish [OF well_behaved_parts(2,1)]])

lemma quiet_in_span [quiet_rules]: "well_behaved env tid rcv \<Longrightarrow> quiet tid rcv m \<Longrightarrow> quiet tid rcv (in_span env n st a m)"
  unfolding in_span_def by (rule quiet_span [OF well_behaved_parts(2)])

lemma smooth_in_span: "well_behaved env tid rcv \<Longrightarrow> smooth tid rcv m \<Longrightarrow> smooth tid rcv (in_span env n st a m)"
  unfolding in_span_def by (rule smooth_span [OF well_behaved_parts(2)])

lemma plain_quoted: "plain_exn (NamedError c (quote_text k))"
proof -
  have "strip (quote_text k) = quote_text k"
    by (rule strip_id) (simp_all add: quote_text_def is_space_def)
  then show ?thesis by (simp add: plain_exn_def quote_text_def)
qed

lemma quiet_item [quiet_rules]: "quiet tid rcv (item_of d k)"
  unfolding item_of_def by (rule quiet_lift) (auto simp: plain_quoted split: option.splits)

lemma quiet_lookup [quiet_rules]: "quiet tid rcv (lift_result (lookup_node res k))"
  by (rule quiet_lift) (auto simp: lookup_node_def plain_quoted split: option.splits)

lemma quiet_failed_record [quiet_rules]: "quiet tid rcv (failed_record i n p r)"
  unfolding failed_record_def by (intro quiet_rules)

lemma quiet_exec [quiet_rules]: "well_behaved env tid rcv \<Longrightarrow> quiet tid rcv (exec_in_sandbox (oe_work env) c p i)"
  unfolding exec_in_sandbox_def by (intro quiet_rules well_behaved_parts(12))

text \<open>Plugins.\<close>

lemma settled_runtime: "well_behaved env tid rcv \<Longrightarrow> settled tid rcv ts (set_runtime (oe_work env) m w) = settled tid rcv ts w"
  unfolding set_runtime_def by (rule settled_ext) (rule well_behaved_parts(11))

lemma quiet_breaker_state [quiet_rules]: "well_behaved env tid rcv \<Longrightarrow> quiet tid rcv (breaker_state_of (oe_work env) p)"
  unfolding quiet_def triple_def breaker_state_of_def by (simp add: Let_def split_beta settled_runtime)

lemma plain_open: "before_call t b = Inl e \<Longrightarrow> plain_exn e"
  by (auto simp: before_call_def open_error_def plain_exn_def strip_def is_space_def split: if_splits)

lemma quiet_execute_plugin [quiet_rules]:
  assumes "well_behaved env tid rcv" and op: "quiet tid rcv operation"
  shows "quiet tid rcv (execute_plugin (oe_work env) p operation)"
  unfolding quiet_def triple_def
proof (intro allI impI)
  fix ts and w :: "'a agent_world" assume w: "settled tid rcv ts w"
  have fin: "settled tid rcv ts (finish_plugin (oe_work env) p f v) = settled tid rcv ts v" for f v
    by (simp add: finish_plugin_def split_beta Let_def settled_runtime [OF assms(1)])
  have "case operation (set_runtime (oe_work env) m w) of (Inl e, w') \<Rightarrow> plain_exn e \<and> settled tid rcv ts w' | (Inr a, w') \<Rightarrow> settled tid rcv ts w'" for m
    using op w by (simp add: quiet_def triple_def settled_runtime [OF assms(1)])
  note op' = this
  obtain b m where g: "get_breaker (we_runtime (oe_work env) (aw_ext w)) p = (b, m)" by fastforce
  show "case execute_plugin (oe_work env) p operation w of
      (Inl e, w') \<Rightarrow> plain_exn e \<and> settled tid rcv ts w' | (Inr a, w') \<Rightarrow> settled tid rcv ts w'"
  proof (cases "before_call (ae_monotonic (oe_agent env) (aw_ext w)) b")
    case (Inl e)
    then show ?thesis using w by (simp add: execute_plugin_def g plain_open settled_runtime [OF assms(1)])
  next
    case (Inr b')
    obtain r w' where o: "operation (set_runtime (oe_work env) (m\<lparr>breakers := (breakers m)(safe_plugin_id p \<mapsto> b')\<rparr>) w) = (r, w')"
      by fastforce
    show ?thesis
      using op' [of "m\<lparr>breakers := (breakers m)(safe_plugin_id p \<mapsto> b')\<rparr>"] o Inr
      by (cases r) (simp_all add: execute_plugin_def g fin)
  qed
qed

lemma quiet_announce [quiet_rules]: "well_behaved env tid rcv \<Longrightarrow> quiet tid rcv (announce_plugin (oe_work env) st m d pm)"
  unfolding announce_plugin_def by (intro quiet_rules)

lemma quiet_skip [quiet_rules]: "well_behaved env tid rcv \<Longrightarrow> quiet tid rcv (skip_plugin (oe_work env) st f d pm e)"
  unfolding skip_plugin_def by (intro quiet_rules)

lemma quiet_offer [quiet_rules]:
  assumes "well_behaved env tid rcv" and "\<And>m. quiet tid rcv (body m)" and "a \<noteq> ''taskId''"
  shows "quiet tid rcv (offer_plugins (oe_work env) a st msg f d body ms)"
proof (induction ms)
  case Nil
  show ?case by (simp add: quiet_ret)
next
  case (Cons m ms)
  show ?case unfolding offer_plugins.simps by (intro quiet_rules assms Cons.IH)
qed

lemma quiet_resolve_command [quiet_rules]: "well_behaved env tid rcv \<Longrightarrow> quiet tid rcv (resolve_test_command (oe_work env))"
  unfolding resolve_test_command_def plugin_command_def Let_def
  by (intro quiet_rules smooth_quiet [OF smooth_modify_task] well_behaved_parts(9)) simp_all

lemma quiet_test_attempt [quiet_rules]: "well_behaved env tid rcv \<Longrightarrow> quiet tid rcv (test_attempt (oe_work env) plan p c mr k)"
  unfolding test_attempt_def Let_def by (intro quiet_rules)

lemma plain_unreachable: "plain_exn (RuntimeError ''unreachable'')"
  by (simp add: plain_exn_def strip_def is_space_def)

lemma quiet_test_attempts [quiet_rules]:
  "well_behaved env tid rcv \<Longrightarrow> quiet tid rcv (test_attempts (oe_work env) plan p c mr n k)"
proof (induction n arbitrary: k)
  case 0
  then show ?case
    unfolding test_attempts.simps [of _ _ _ _ _ 0] nat.case by (intro quiet_rules plain_unreachable)
next
  case (Suc n)
  then show ?case
    unfolding test_attempts.simps [of _ _ _ _ _ "Suc n"] nat.case by (intro quiet_rules Suc.IH)
qed

lemma quiet_tester [quiet_rules]: "well_behaved env tid rcv \<Longrightarrow> quiet tid rcv (tester_execute (oe_work env) plan mr)"
  unfolding tester_execute_def by (intro quiet_rules)

lemma quiet_reviewer [quiet_rules]: "well_behaved env tid rcv \<Longrightarrow> quiet tid rcv (run_reviewer_with_plugins env plan)"
  unfolding run_reviewer_with_plugins_def reviewer_plugin_run_def
  by (intro quiet_rules well_behaved_parts(8,10)) simp_all

section \<open>Errors of the scheduler\<close>

lemma strip_nonempty: "c \<in> set s \<Longrightarrow> \<not> is_space c \<Longrightarrow> strip s \<noteq> []"
proof
  assume c: "c \<in> set s" "\<not> is_space c" and "strip s = []"
  then have "dropWhile is_space (rev (dropWhile is_space s)) = []" by (simp add: strip_def)
  then have all: "\<forall>x\<in>set (dropWhile is_space s). is_space x" by (simp add: dropWhile_eq_Nil_conv)
  have "dropWhile is_space s = []"
  proof (rule ccontr)
    assume "dropWhile is_space s \<noteq> []"
    with all dropWhile_hd [of is_space s] show False by (metis list.set_sel(1))
  qed
  with c show False by (simp add: dropWhile_eq_Nil_conv)
qed

lemma collect_pending_error: "collect_pending run ns res = Inl e \<Longrightarrow> \<exists>n. e = failed_node n"
  by (induction ns arbitrary: res) (auto split: sum.splits)

lemma run_wave_error: "run_wave done_of run ready res = Inl e \<Longrightarrow> \<exists>n. e = failed_node n"
  by (auto simp: run_wave_def Let_def dest: collect_pending_error split: prod.splits option.splits)

lemma dag_loop_error:
  "snd (dag_loop done_of deps run completed remaining results) = Inl e \<Longrightarrow> (\<exists>n. e = failed_node n) \<or> (\<exists>r. e = cycle_error r)"
proof (induction done_of deps run completed remaining results rule: dag_loop.induct)
  case (1 done_of deps run completed remaining results)
  let ?ready = "ready_nodes deps completed remaining"
  consider "remaining = []" | "remaining \<noteq> []" "?ready = []" | "remaining \<noteq> []" "?ready \<noteq> []" by blast
  then show ?case
  proof cases
    case 1
    with "1.prems" show ?thesis by simp
  next
    case 2
    with "1.prems" show ?thesis by (auto simp: dag_loop_stuck)
  next
    case 3
    show ?thesis
    proof (cases "run_wave done_of run ?ready results")
      case (Inl e')
      with "1.prems" 3 show ?thesis by (auto simp: dag_loop_wave [OF refl] dest: run_wave_error)
    next
      case (Inr res)
      with "1.prems" 3 have "snd (dag_loop done_of deps run (completed @ ?ready) (filter (\<lambda>n. n \<notin> set ?ready) remaining) res) = Inl e"
        by (simp add: dag_loop_wave [OF refl])
      with "1.IH" [OF 3(1) refl 3(2) Inr] show ?thesis by blast
    qed
  qed
qed

lemma dag_run_error: "snd (dag_run done_of nodes) = Inl e \<Longrightarrow> plain_exn e"
proof -
  assume e: "snd (dag_run done_of nodes) = Inl e"
  have D [simp]: "strip (CHR ''D'' # s) \<noteq> []" and d [simp]: "strip (CHR ''d'' # s) \<noteq> []" for s
    using strip_nonempty [of "CHR ''D''" "CHR ''D'' # s"] strip_nonempty [of "CHR ''d''" "CHR ''d'' # s"]
    by (simp_all add: is_space_def)
  have texts: "plain_exn (failed_node n)" "plain_exn (cycle_error r)" for n r
    by (simp_all add: plain_exn_def failed_node_def cycle_error_def)
  have idx: "index_nodes m ns = Inl x \<Longrightarrow> plain_exn x" for m ns x
    by (induction m ns rule: index_nodes.induct)
      (auto simp: plain_exn_def split: if_splits)
  have dep: "check_deps m ns = Some x \<Longrightarrow> plain_exn x" for m ns x
    by (induction m ns rule: check_deps.induct)
      (auto simp: check_node_def plain_exn_def split: option.splits)
  from e show ?thesis
    using texts idx dep by (auto simp: dag_run_def split: if_splits sum.splits option.splits dest!: dag_loop_error)
qed

section \<open>One terminal event\<close>

lemma quiet_outcome: "quiet tid rcv m \<Longrightarrow> smooth tid rcv (outcome_of m)"
  unfolding quiet_def smooth_def triple_def
proof (intro allI impI)
  fix ts w
  assume m: "\<forall>ts w. settled tid rcv ts w \<longrightarrow>
      (case m w of (Inl e, w') \<Rightarrow> plain_exn e \<and> settled tid rcv ts w' | (Inr a, w') \<Rightarrow> settled tid rcv ts w')"
    and w: "settled tid rcv ts w"
  obtain r w' where "m w = (r, w')" by fastforce
  with m w show "case outcome_of m w of (Inl e, w') \<Rightarrow> False | (Inr a, w') \<Rightarrow> settled tid rcv ts w'"
    by (cases r) (auto simp: outcome_of_def dest!: spec)
qed

lemma quiet_run_dag [quiet_rules]: "well_behaved env tid rcv \<Longrightarrow> quiet tid rcv (run_dag env plan)"
  unfolding run_dag_def both_outcomes_def
  by (intro quiet_rules smooth_quiet [OF quiet_outcome] dag_run_error)

text \<open>Ends of an action with a terminal event, or without.\<close>

definition ended :: "string \<Rightarrow> ('s \<Rightarrow> pydict list) \<Rightarrow> pyval list \<Rightarrow> 's agent_world \<Rightarrow> bool" where
  "ended tid rcv ts w \<longleftrightarrow> (\<exists>t. is_terminal t \<and> settled tid rcv (ts @ [t]) w)"

definition raised :: "string \<Rightarrow> ('s \<Rightarrow> pydict list) \<Rightarrow> pyval list \<Rightarrow> py_exn \<Rightarrow> 's agent_world \<Rightarrow> bool" where
  "raised tid rcv ts e w \<longleftrightarrow> plain_exn e \<and> settled tid rcv ts w"

lemma quietD: "quiet tid rcv m \<Longrightarrow> triple (settled tid rcv ts) m (\<lambda>_. settled tid rcv ts) (raised tid rcv ts)"
  by (simp add: quiet_def raised_def [abs_def])

lemma smoothD: "smooth tid rcv m \<Longrightarrow> triple (settled tid rcv ts) m (\<lambda>_. settled tid rcv ts) E"
  unfolding smooth_def by (blast intro: triple_conseq)

lemma terminal_payload_smooth:
  assumes "well_behaved env tid rcv"
  shows "smooth tid rcv (terminal_payload env p en)"
  unfolding smooth_def
proof
  fix ts
  show "triple (settled tid rcv ts) (terminal_payload env p en) (\<lambda>_. settled tid rcv ts) (\<lambda>_ _. False)"
  proof (rule triple_settled)
    fix es :: "pyval list" and sm assume ts: "filter is_terminal es = ts"
    have "\<exists>q w'. terminal_payload env p en w = (Inr q, w') \<and> settled tid rcv ts w'"
      if st: "stands tid rcv (\<lambda>_. ()) es () sm w" for w
    proof -
      obtain ob d s' where e: "ensure_own (oe_agent env) w = (Inr ob, w\<lparr>aw_obs := Some ob, aw_task := d, aw_ext := s'\<rparr>)"
        and s': "same_fields (aw_task w) d" "(uuid_step (oe_agent env))\<^sup>*\<^sup>* (aw_ext w) s'"
        using ensure_own_spec [of "oe_agent env" w] by blast
      define w1 where "w1 = w\<lparr>aw_obs := Some ob, aw_task := d, aw_ext := s'\<rparr>"
      have c: "agent_core w1 = agent_core w" using s'(1) by (simp add: w1_def agent_core_observed)
      have "stands tid rcv (\<lambda>_. ()) es () (task_summary (w1\<lparr>aw_obs := x\<rparr>)) (w1\<lparr>aw_obs := x\<rparr>)" for x
      proof -
        have c': "agent_core (w1\<lparr>aw_obs := x\<rparr>) = agent_core w" using c by (simp add: agent_core_def)
        show ?thesis
          using st uuid_steps_log [OF well_behaved_parts(2) [OF assms] s'(2)]
          by (simp add: stands_def outbox_ok_core [OF c'] pending_core [OF c'] event_types_def)
            (use task_id_core [OF c'] in \<open>simp add: w1_def\<close>)
      qed
      note ok = settledI [OF this]
      have t: "terminal_payload env p en w = (\<lambda>ob w. let path = field_text (aw_task w0) ''_executionPath'';
           out = set_default ''executionPath'' (PStr (if path \<noteq> [] then path else ''legacy'')) p;
           te = \<lparr>te_status = en_status en, te_intent = en_intent en, te_reason = en_reason en,
                 te_generation_target = generation_target_for_metrics (aw_task w0),
                 te_fix_attempts = en_attempts en, te_fix_success = en_success en\<rparr>;
           (q, ob') = attach_terminal te (ae_monotonic (oe_agent env) (aw_ext w)) out ob
       in (Inr q, w\<lparr>aw_obs := Some ob'\<rparr>)) ob w1" if "w0 = w" for w0
        using that by (simp add: terminal_payload_def bind_Inr [of "ensure_own _", OF e] w1_def)
      show ?thesis using ok ts unfolding t [OF refl] by (auto simp: Let_def split: prod.split)
    qed
    then show "triple (stands tid rcv (\<lambda>_. ()) es () sm) (terminal_payload env p en) (\<lambda>_. settled tid rcv ts) (\<lambda>_ _. False)"
      by (fastforce simp: triple_def)
  qed
qed

lemmas terminal_payload_quiet [quiet_rules] = terminal_payload_smooth [THEN smooth_quiet]

lemma end_task_ends:
  assumes "well_behaved env tid rcv" "is_terminal (PStr ty)"
  shows "triple (settled tid rcv ts) (end_task env ty p en) (\<lambda>_. settled tid rcv (ts @ [PStr ty])) E"
proof -
  have "triple (settled tid rcv ts) (publish_ev env ty q) (\<lambda>_. settled tid rcv (ts @ [PStr ty])) E" for q
    unfolding publish_ev_def
    by (rule triple_conseq [OF publish_settled [OF well_behaved_parts(2,1) [OF assms(1)], of ts ty]]) (use assms(2) in auto)
  then show ?thesis
    unfolding end_task_def
    by (intro triple_bind [OF smoothD [OF terminal_payload_smooth [OF assms(1)]]] triple_next triple_ret)
qed

lemma endedI: "is_terminal (PStr ty) \<Longrightarrow> settled tid rcv (ts @ [PStr ty]) w \<Longrightarrow> ended tid rcv ts w"
  by (auto simp: ended_def)

lemma terminal_names [simp]: "is_terminal (PStr ''TASK_DONE'')" "is_terminal (PStr ''TASK_FAILED'')"
  by (simp_all add: is_terminal_def)

text \<open>The payload of a terminal event has the items of what it was made from, but for the observation.\<close>

lemma terminal_payload_items:
  "terminal_payload env p en w = (Inr q, w') \<Longrightarrow> k \<noteq> ''observability'' \<Longrightarrow> k \<noteq> ''executionPath'' \<Longrightarrow> map_of q k = map_of p k"
  by (auto simp: terminal_payload_def bind_def get_with_def attach_terminal_def Let_def update_conv' set_default_def map_add_def
      split: prod.splits sum.splits option.splits)

text \<open>An action that keeps a promise \<open>P\<close> on its result, one that does so without raising, and one that ends the
  task exactly when its result satisfies \<open>Q\<close>.\<close>

definition gives :: "string \<Rightarrow> ('s \<Rightarrow> pydict list) \<Rightarrow> ('a \<Rightarrow> bool) \<Rightarrow> ('s agent_world, 'a) act \<Rightarrow> bool" where
  "gives tid rcv P m \<longleftrightarrow> (\<forall>ts. triple (settled tid rcv ts) m (\<lambda>a w. settled tid rcv ts w \<and> P a) (raised tid rcv ts))"

definition after_end :: "string \<Rightarrow> ('s \<Rightarrow> pydict list) \<Rightarrow> ('a \<Rightarrow> bool) \<Rightarrow> ('s agent_world, 'a) act \<Rightarrow> bool" where
  "after_end tid rcv Q m \<longleftrightarrow> (\<forall>ts. triple (settled tid rcv ts) m (\<lambda>a w. settled tid rcv ts w \<and> Q a) (\<lambda>_ _. False))"

definition ends_if :: "string \<Rightarrow> ('s \<Rightarrow> pydict list) \<Rightarrow> ('a \<Rightarrow> bool) \<Rightarrow> ('s agent_world, 'a) act \<Rightarrow> bool" where
  "ends_if tid rcv Q m \<longleftrightarrow>
     (\<forall>ts. triple (settled tid rcv ts) m (\<lambda>a w. if Q a then ended tid rcv ts w else settled tid rcv ts w) (raised tid rcv ts))"

named_theorems end_rules
named_theorems after_rules

lemma quiet_gives: "quiet tid rcv m \<Longrightarrow> gives tid rcv (\<lambda>_. True) m"
  by (simp add: gives_def quietD)

lemma gives_bind:
  assumes "gives tid rcv P m" "\<And>a. P a \<Longrightarrow> gives tid rcv Q (f a)"
  shows "gives tid rcv Q (bind m f)"
  unfolding gives_def
proof
  fix ts
  have "triple (\<lambda>w. settled tid rcv ts w \<and> P a) (f a) (\<lambda>a w. settled tid rcv ts w \<and> Q a) (raised tid rcv ts)" for a
    using assms(2) [of a] by (cases "P a") (auto simp: gives_def triple_def)
  then show "triple (settled tid rcv ts) (bind m f) (\<lambda>a w. settled tid rcv ts w \<and> Q a) (raised tid rcv ts)"
    by (rule triple_bind [OF assms(1) [unfolded gives_def, rule_format]])
qed

lemma gives_next: "quiet tid rcv m \<Longrightarrow> gives tid rcv Q n \<Longrightarrow> gives tid rcv Q (next_act m n)"
  unfolding next_act_def by (rule gives_bind [OF quiet_gives])

lemma gives_ret: "P x \<Longrightarrow> gives tid rcv P (ret x)"
  by (simp add: gives_def triple_ret)

lemma gives_try:
  assumes "gives tid rcv P m" "\<And>e. plain_exn e \<Longrightarrow> gives tid rcv P (h e)"
  shows "gives tid rcv P (try_except m h)"
  unfolding gives_def
proof
  fix ts
  have "triple (raised tid rcv ts e) (h e) (\<lambda>a w. settled tid rcv ts w \<and> P a) (raised tid rcv ts)" for e
    using assms(2) [of e] by (cases "plain_exn e") (auto simp: gives_def triple_def raised_def)
  then show "triple (settled tid rcv ts) (try_except m h) (\<lambda>a w. settled tid rcv ts w \<and> P a) (raised tid rcv ts)"
    by (rule triple_catching [OF assms(1) [unfolded gives_def, rule_format]]) (simp_all add: raised_def plain_exn_def)
qed

lemma settled_span: "task_summary (w\<lparr>aw_obs := ob\<rparr>) = task_summary w \<Longrightarrow> ended tid rcv ts w \<Longrightarrow> ended tid rcv ts (w\<lparr>aw_obs := ob\<rparr>)"
  by (simp add: ended_def settled_obs)

lemma gives_in_span:
  assumes "well_behaved env tid rcv" "gives tid rcv P m"
  shows "gives tid rcv P (in_span env n st a m)"
  unfolding gives_def in_span_def
proof
  fix ts
  show "triple (settled tid rcv ts) (with_span (oe_agent env) n st a m) (\<lambda>a w. settled tid rcv ts w \<and> P a) (raised tid rcv ts)"
    by (rule span_settled [OF well_behaved_parts(2) [OF assms(1)] assms(2) [unfolded gives_def, rule_format]])
      (auto simp: raised_def settled_obs)
qed

lemma ends_in_span [end_rules]:
  assumes "well_behaved env tid rcv" "ends_if tid rcv Q m"
  shows "ends_if tid rcv Q (in_span env n st a m)"
  unfolding ends_if_def in_span_def
proof
  fix ts
  show "triple (settled tid rcv ts) (with_span (oe_agent env) n st a m)
      (\<lambda>a w. if Q a then ended tid rcv ts w else settled tid rcv ts w) (raised tid rcv ts)"
    by (rule span_settled [OF well_behaved_parts(2) [OF assms(1)] assms(2) [unfolded ends_if_def, rule_format]])
      (auto simp: raised_def settled_obs settled_span split: if_splits)
qed

lemma ends_gives: "gives tid rcv P m \<Longrightarrow> (\<And>a. P a \<Longrightarrow> ends_if tid rcv Q (f a)) \<Longrightarrow> ends_if tid rcv Q (bind m f)"
  unfolding ends_if_def
proof
  fix ts
  assume m: "gives tid rcv P m"
    and f: "\<And>a. P a \<Longrightarrow> \<forall>ts. triple (settled tid rcv ts) (f a)
      (\<lambda>a w. if Q a then ended tid rcv ts w else settled tid rcv ts w) (raised tid rcv ts)"
  have "triple (\<lambda>w. settled tid rcv ts w \<and> P a) (f a) (\<lambda>a w. if Q a then ended tid rcv ts w else settled tid rcv ts w)
      (raised tid rcv ts)" for a
    using f [of a] by (cases "P a") (auto simp: triple_def)
  then show "triple (settled tid rcv ts) (bind m f) (\<lambda>a w. if Q a then ended tid rcv ts w else settled tid rcv ts w)
      (raised tid rcv ts)"
    by (rule triple_bind [OF m [unfolded gives_def, rule_format]])
qed

lemma ends_bind [end_rules]: "quiet tid rcv m \<Longrightarrow> (\<And>a. ends_if tid rcv Q (f a)) \<Longrightarrow> ends_if tid rcv Q (bind m f)"
  by (rule ends_gives [OF quiet_gives])

lemma ends_next [end_rules]: "quiet tid rcv m \<Longrightarrow> ends_if tid rcv Q n \<Longrightarrow> ends_if tid rcv Q (next_act m n)"
  unfolding next_act_def by (rule ends_bind)

lemma ends_if_if [end_rules]: "(b \<Longrightarrow> ends_if tid rcv Q m) \<Longrightarrow> (\<not> b \<Longrightarrow> ends_if tid rcv Q n) \<Longrightarrow> ends_if tid rcv Q (if b then m else n)"
  by simp

lemma ends_prod [end_rules]: "(\<And>a b. ends_if tid rcv Q (f a b)) \<Longrightarrow> ends_if tid rcv Q (case p of (a, b) \<Rightarrow> f a b)"
  by (cases p) simp

lemma ends_quiet: "quiet tid rcv m \<Longrightarrow> ends_if tid rcv (\<lambda>_. False) m"
  by (simp add: ends_if_def quietD)

lemma ends_ret: "\<not> Q x \<Longrightarrow> ends_if tid rcv Q (ret x)"
  by (simp add: ends_if_def triple_ret)

text \<open>What comes after the end.\<close>

lemma ends_then:
  assumes m: "ends_if tid rcv R m" and fin: "\<And>a. R a \<Longrightarrow> after_end tid rcv Q (f a)"
    and go_on: "\<And>a. \<not> R a \<Longrightarrow> ends_if tid rcv Q (f a)"
  shows "ends_if tid rcv Q (bind m f)"
  unfolding ends_if_def
proof
  fix ts
  have "triple (\<lambda>w. if R a then ended tid rcv ts w else settled tid rcv ts w) (f a)
      (\<lambda>a w. if Q a then ended tid rcv ts w else settled tid rcv ts w) (raised tid rcv ts)" for a
  proof (cases "R a")
    case True
    show ?thesis
    proof (rule triple_pre)
      fix w assume "if R a then ended tid rcv ts w else settled tid rcv ts w"
      with True obtain t where t: "is_terminal t" "settled tid rcv (ts @ [t]) w" by (auto simp: ended_def)
      have "triple (settled tid rcv (ts @ [t])) (f a) (\<lambda>b v. settled tid rcv (ts @ [t]) v \<and> Q b) (\<lambda>_ _. False)"
        using fin [OF True] by (simp add: after_end_def)
      then show "triple (\<lambda>v. v = w) (f a) (\<lambda>a w. if Q a then ended tid rcv ts w else settled tid rcv ts w) (raised tid rcv ts)"
        by (rule triple_conseq) (use t in \<open>auto simp: ended_def\<close>)
    qed
  next
    case False
    then show ?thesis using go_on [OF False] by (simp add: ends_if_def)
  qed
  then show "triple (settled tid rcv ts) (bind m f) (\<lambda>a w. if Q a then ended tid rcv ts w else settled tid rcv ts w) (raised tid rcv ts)"
    by (rule triple_bind [OF m [unfolded ends_if_def, rule_format]])
qed

lemma after_bind [after_rules]:
  "after_end tid rcv (\<lambda>_. True) m \<Longrightarrow> (\<And>a. after_end tid rcv Q (f a)) \<Longrightarrow> after_end tid rcv Q (bind m f)"
  unfolding after_end_def by (auto intro: triple_bind)

lemma after_gives:
  assumes "after_end tid rcv P m" "\<And>a. P a \<Longrightarrow> after_end tid rcv Q (f a)"
  shows "after_end tid rcv Q (bind m f)"
  unfolding after_end_def
proof
  fix ts
  have "triple (\<lambda>w. settled tid rcv ts w \<and> P a) (f a) (\<lambda>a w. settled tid rcv ts w \<and> Q a) (\<lambda>_ _. False)" for a
    using assms(2) [of a] by (cases "P a") (auto simp: after_end_def triple_def)
  then show "triple (settled tid rcv ts) (bind m f) (\<lambda>a w. settled tid rcv ts w \<and> Q a) (\<lambda>_ _. False)"
    by (rule triple_bind [OF assms(1) [unfolded after_end_def, rule_format]])
qed

lemma after_smooth: "smooth tid rcv m \<Longrightarrow> after_end tid rcv (\<lambda>_. True) m"
  by (simp add: after_end_def smooth_def)

lemma after_ret [after_rules]: "Q x \<Longrightarrow> after_end tid rcv Q (ret x)"
  by (simp add: after_end_def triple_ret)

lemma after_item [after_rules]: "map_of d k \<noteq> None \<Longrightarrow> after_end tid rcv (\<lambda>_. True) (item_of d k)"
  by (auto simp: after_end_def item_of_def intro!: triple_lift)

lemma after_failed_record [after_rules]:
  "map_of d ''reason'' \<noteq> None \<Longrightarrow> map_of d ''errorCode'' \<noteq> None \<Longrightarrow> after_end tid rcv (\<lambda>_. True) (failed_record i n d r)"
  unfolding failed_record_def by (intro after_rules) simp_all

lemma after_failed_detail [after_rules]:
  "map_of d ''reason'' \<noteq> None \<Longrightarrow> map_of d ''errorCode'' \<noteq> None \<Longrightarrow> map_of d ''detail'' \<noteq> None \<Longrightarrow>
   after_end tid rcv (\<lambda>_. True) (failed_record_detail i n d r)"
  unfolding failed_record_detail_def by (intro after_rules) simp_all

lemma after_append [after_rules]: "well_behaved env tid rcv \<Longrightarrow> after_end tid rcv (\<lambda>_. True) (memory_append env key r)"
  unfolding memory_append_def by (rule after_smooth [OF smooth_outside [OF well_behaved_parts(14)]])

text \<open>The payload that is published has the items of the one it was made from.\<close>

definition made_from :: "pydict \<Rightarrow> pydict \<Rightarrow> bool" where
  "made_from base p \<longleftrightarrow> (\<forall>k. k \<noteq> ''observability'' \<longrightarrow> k \<noteq> ''executionPath'' \<longrightarrow> map_of p k = map_of base k)"

lemma end_task_made:
  assumes "well_behaved env tid rcv" "is_terminal (PStr ty)"
  shows "triple (settled tid rcv ts) (end_task env ty p en) (\<lambda>q w. ended tid rcv ts w \<and> made_from p q) (\<lambda>_ _. False)"
proof (rule tripleI)
  fix w e w' assume "settled tid rcv ts w" "end_task env ty p en w = (Inl e, w')"
  then show False using tripleD_Inl [OF end_task_ends [OF assms, where E = "\<lambda>_ _. False"]] by blast
next
  fix w q w' assume w: "settled tid rcv ts w" "end_task env ty p en w = (Inr q, w')"
  then have "settled tid rcv (ts @ [PStr ty]) w'" using tripleD_Inr [OF end_task_ends [OF assms]] by blast
  moreover have "\<exists>v. terminal_payload env p en w = (Inr q, v)"
    using w(2) by (auto simp: end_task_def bind_def next_act_def ret_def split: prod.splits sum.splits)
  then have "made_from p q" by (auto simp: made_from_def dest: terminal_payload_items)
  ultimately show "ended tid rcv ts w' \<and> made_from p q" using endedI [OF assms(2)] by blast
qed

lemma ends_end_task:
  assumes "well_behaved env tid rcv" "is_terminal (PStr ty)" "\<And>p. made_from base p \<Longrightarrow> after_end tid rcv Q (f p)"
  shows "ends_if tid rcv Q (bind (end_task env ty base en) f)"
proof -
  have "triple (\<lambda>w. ended tid rcv ts w \<and> made_from base p) (f p)
      (\<lambda>a w. if Q a then ended tid rcv ts w else settled tid rcv ts w) (raised tid rcv ts)" for ts p
  proof (rule triple_pre)
    fix w assume w: "ended tid rcv ts w \<and> made_from base p"
    then obtain t where t: "is_terminal t" "settled tid rcv (ts @ [t]) w" by (auto simp: ended_def)
    have "triple (settled tid rcv (ts @ [t])) (f p) (\<lambda>b v. settled tid rcv (ts @ [t]) v \<and> Q b) (\<lambda>_ _. False)"
      using assms(3) w by (simp add: after_end_def)
    then show "triple (\<lambda>v. v = w) (f p) (\<lambda>a w. if Q a then ended tid rcv ts w else settled tid rcv ts w) (raised tid rcv ts)"
      by (rule triple_conseq) (use t in \<open>auto simp: ended_def\<close>)
  qed
  moreover have "triple (settled tid rcv ts) (end_task env ty base en) (\<lambda>q w. ended tid rcv ts w \<and> made_from base q) (raised tid rcv ts)" for ts
    by (rule triple_conseq [OF end_task_made [OF assms(1,2)]]) auto
  ultimately show ?thesis unfolding ends_if_def by (intro allI triple_bind)
qed

lemma ends_next_end:
  assumes "well_behaved env tid rcv" "is_terminal (PStr ty)" "after_end tid rcv Q n"
  shows "ends_if tid rcv Q (next_act (end_task env ty base en) n)"
  unfolding next_act_def by (rule ends_end_task [OF assms])

lemma ends_try:
  assumes "ends_if tid rcv Q m" "\<And>e. plain_exn e \<Longrightarrow> ends_if tid rcv Q (h e)"
  shows "ends_if tid rcv Q (try_except m h)"
  unfolding ends_if_def
proof
  fix ts
  let ?Q = "\<lambda>a w. if Q a then ended tid rcv ts w else settled tid rcv ts w"
  have "triple (raised tid rcv ts e) (h e) ?Q (raised tid rcv ts)" for e
    using assms(2) [of e] by (cases "plain_exn e") (auto simp: ends_if_def triple_def raised_def)
  then show "triple (settled tid rcv ts) (try_except m h) ?Q (raised tid rcv ts)"
    by (rule triple_catching [OF assms(1) [unfolded ends_if_def, rule_format]]) (simp_all add: raised_def plain_exn_def)
qed

lemma fold_update_keeps:
  "k \<notin> fst ` set xs \<Longrightarrow> map_of (fold (\<lambda>(k, v) d. if is_blank_value v then d else AList.update k v d) xs d) k = map_of d k"
  by (induction xs arbitrary: d) (auto simp: update_conv')

lemma plan_name_last_keys: "fst ` set (plan_name_last xs) \<subseteq> insert ''planName'' (fst ` set xs)"
  by (cases "map_of xs ''plan_name''") (auto simp: plan_name_last_def)

lemma failure_payload_items [simp]:
  assumes "''reason'' \<notin> fst ` set extra" "''errorCode'' \<notin> fst ` set extra"
  shows "map_of (failure_payload r extra) ''reason'' = Some (PStr r)"
    "map_of (failure_payload r extra) ''errorCode'' = Some (PStr (error_code_from_reason r))"
proof -
  have "''reason'' \<notin> fst ` set (plan_name_last extra)" "''errorCode'' \<notin> fst ` set (plan_name_last extra)"
    using assms plan_name_last_keys [of extra] by auto
  then show "map_of (failure_payload r extra) ''reason'' = Some (PStr r)"
    "map_of (failure_payload r extra) ''errorCode'' = Some (PStr (error_code_from_reason r))"
    by (simp_all add: failure_payload_def fold_update_keeps)
qed

lemma failure_payload_detail [simp]: "strip d \<noteq> [] \<Longrightarrow> map_of (failure_payload r [(''detail'', PStr d)]) ''detail'' \<noteq> None"
  by (simp add: failure_payload_def plan_name_last_def is_blank_value_def update_conv')

lemma made_from_item: "made_from base p \<Longrightarrow> k \<noteq> ''observability'' \<Longrightarrow> k \<noteq> ''executionPath'' \<Longrightarrow> map_of p k = map_of base k"
  by (simp add: made_from_def)

lemma failure_payload_plan_detail [simp]:
  "strip d \<noteq> [] \<Longrightarrow> map_of (failure_payload r [(''plan_name'', v), (''detail'', PStr d)]) ''detail'' \<noteq> None"
  by (simp add: failure_payload_def plan_name_last_def has_key_def is_blank_value_def update_conv')

text \<open>The stages of a code change.\<close>

lemma ends_review_and_test [end_rules]: "well_behaved env tid rcv \<Longrightarrow> ends_if tid rcv (\<lambda>r. r = None) (run_review_and_test env plan)"
proof -
  assume env: "well_behaved env tid rcv"
  have some: "ends_if tid rcv (\<lambda>r. r = None) (bind (run_dag env plan) (\<lambda>r. ret (Some r)))"
    by (intro end_rules quiet_run_dag env ends_ret) simp
  have fail: "ends_if tid rcv (\<lambda>r. r = None) (next_act (publish_ev env ''TASK_FAILED'' d) (ret (None :: (string \<rightharpoonup> node_value) option)))" for d
    unfolding next_act_def
  proof (rule ends_then [where R = "\<lambda>_. True"])
    show "ends_if tid rcv (\<lambda>_. True) (publish_ev env ''TASK_FAILED'' d)"
      unfolding ends_if_def publish_ev_def
      by (intro allI triple_conseq [OF publish_settled [OF well_behaved_parts(2,1) [OF env]]]) (auto intro!: endedI [of "''TASK_FAILED''"])
  qed (auto intro: after_rules)
  show ?thesis
    unfolding run_review_and_test_def
    by (intro ends_next ends_try some fail quiet_rules env)
qed

lemma ends_exhausted [end_rules]:
  assumes "well_behaved env tid rcv" and "''reason'' \<notin> fst ` set extra" "''errorCode'' \<notin> fst ` set extra"
  shows "ends_if tid rcv (\<lambda>r. \<exists>d. r = Finished d) (exhausted env plan mx k b e extra rest)"
  unfolding exhausted_def Let_def
  by (intro ends_if_if ends_ret ends_end_task [OF assms(1)] after_rules) (use assms(2,3) in \<open>simp_all add: made_from_item\<close>)

lemma quiet_upload [quiet_rules]: "well_behaved env tid rcv \<Longrightarrow> quiet tid rcv (try_upload_artifact env b)"
  unfolding try_upload_artifact_def
  by (cases "oe_upload env") (auto intro!: quiet_rules well_behaved_parts(16))

lemma plain_no_files: "plain_exn (FileNotFoundError ''no generated files available for artifact packaging'')"
  using strip_nonempty [of "CHR ''n''" "''no generated files available for artifact packaging''"]
  by (simp add: plain_exn_def is_space_def)

lemma quiet_files [quiet_rules]: "quiet tid rcv (lift_result (resolve_generated_files task ws f))"
  by (rule quiet_lift) (auto simp: resolve_generated_files_def Let_def plain_no_files split: if_splits)

lemma quiet_artifact [quiet_rules]: "well_behaved env tid rcv \<Longrightarrow> quiet tid rcv (publish_generated_artifact env t)"
  unfolding publish_generated_artifact_def Let_def
  by (intro quiet_rules well_behaved_parts(15)) (simp_all add: is_terminal_def)

lemma ends_done [end_rules]:
  assumes "well_behaved env tid rcv"
  shows "ends_if tid rcv (\<lambda>r. \<exists>d. r = Finished d) (code_change_done env plan mx k rv t)"
  unfolding code_change_done_def Let_def
  by (intro end_rules quiet_rules ends_next_end [OF assms] after_ret assms) simp_all

lemma ends_failed_end:
  assumes "well_behaved env tid rcv" "''reason'' \<notin> fst ` set extra" "''errorCode'' \<notin> fst ` set extra"
  shows "ends_if tid rcv (\<lambda>r. \<exists>d. r = Finished d)
     (bind (end_task env ''TASK_FAILED'' (failure_payload c extra) en) (\<lambda>p.
      bind (failed_record i n p rest) (\<lambda>r. ret (Finished r))))"
  by (intro ends_end_task [OF assms(1)] after_rules) (use assms(2,3) in \<open>simp_all add: made_from_item\<close>)

lemma ends_judge [end_rules]:
  assumes "well_behaved env tid rcv"
  shows "ends_if tid rcv (\<lambda>r. \<exists>d. r = Finished d) (judge_results env plan mx k b results)"
  unfolding judge_results_def Let_def
proof (intro ends_bind quiet_lookup)
  fix rv ts
  show "ends_if tid rcv (\<lambda>r. \<exists>d. r = Finished d)
      (case (rv, ts) of
         (NodeReview review, NodeTest test) \<Rightarrow>
           if \<not> rv_approved review
           then bind (end_task env ''TASK_FAILED'' (failure_payload ''review_rejected''
                   [(''plan_name'', PStr (pl_name plan)), (''summary'', PStr (rv_summary review)),
                    (''issues'', of_texts (rv_issues review)), (''riskLevel'', PStr (rv_risk_level review))])
                 (fix_failed k (failure_payload ''review_rejected''
                   [(''plan_name'', PStr (pl_name plan)), (''summary'', PStr (rv_summary review)),
                    (''issues'', of_texts (rv_issues review)), (''riskLevel'', PStr (rv_risk_level review))]))) (\<lambda>p.
             bind (failed_record ''code_change'' (pl_name plan) p
                 [(''summary'', PStr (rv_summary review)), (''issues'', of_texts (rv_issues review)),
                  (''riskLevel'', PStr (rv_risk_level review)), (''testCommand'', PStr (tr_command test))]) (\<lambda>r. ret (Finished r)))
           else if \<not> tr_success test
           then exhausted env plan mx k b (test_error test)
                  [(''testStatus'', PStr (tr_status test)), (''command'', PStr (tr_command test))]
                  [(''testCommand'', PStr (tr_command test))]
           else code_change_done env plan mx k review test
       | _ \<Rightarrow>
           bind (end_task env ''TASK_FAILED'' (failure_payload ''parallel_result_invalid'' [(''plan_name'', PStr (pl_name plan))])
             (fix_failed k (failure_payload ''parallel_result_invalid'' [(''plan_name'', PStr (pl_name plan))]))) (\<lambda>p.
           bind (failed_record ''code_change'' (pl_name plan) p []) (\<lambda>r. ret (Finished r))))"
    by (cases rv; cases ts) (auto intro!: ends_failed_end ends_exhausted ends_done assms ends_if_if)
qed

lemma quiet_start [quiet_rules]: "well_behaved env tid rcv \<Longrightarrow> quiet tid rcv (start_round env mx k e)"
  unfolding start_round_def by (intro quiet_rules) simp_all

lemma ends_coder [end_rules]: "well_behaved env tid rcv \<Longrightarrow> ends_if tid rcv (\<lambda>coded. \<not> coded) (oe_coder env plan)"
proof -
  assume env: "well_behaved env tid rcv"
  show ?thesis unfolding ends_if_def
  proof (intro allI)
    fix ts
    show "triple (settled tid rcv ts) (oe_coder env plan)
        (\<lambda>coded w. if \<not> coded then ended tid rcv ts w else settled tid rcv ts w) (raised tid rcv ts)"
    proof (rule triple_conseq [OF well_behaved_parts(6) [OF env]])
      fix coded w assume "settled tid rcv (ts @ (if coded then [] else [PStr ''TASK_FAILED''])) w"
      then show "if \<not> coded then ended tid rcv ts w else settled tid rcv ts w"
        by (cases coded) (auto intro: endedI [of "''TASK_FAILED''"])
    qed (auto simp: raised_def)
  qed
qed

lemma ends_round [end_rules]:
  assumes "well_behaved env tid rcv"
  shows "ends_if tid rcv (\<lambda>r. \<exists>d. r = Finished d) (code_change_round env plan mx k b e)"
proof -
  have rt: "ends_if tid rcv (\<lambda>r. \<exists>d. r = Finished d)
      (bind (in_span env ''review_and_test'' ''Orchestrator'' [] (run_review_and_test env plan)) (\<lambda>results.
              case results of
                None \<Rightarrow> ret (Finished (code_change_failed plan ''parallel_pipeline_error''))
              | Some res \<Rightarrow> judge_results env plan mx k b res))"
    by (rule ends_then [OF ends_in_span [OF assms ends_review_and_test [OF assms]]])
      (auto intro!: after_ret ends_judge assms)
  have "ends_if tid rcv (\<lambda>r. \<exists>d. r = Finished d) (if \<not> coded then ret (Finished (code_change_failed plan ''coder_failed''))
        else bind (in_span env ''validation_gate'' ''ValidationGate'' []
                  (bind (get_with (\<lambda>w. resolve_workspace (aw_task w))) (oe_validate env))) (\<lambda>validation.
          if \<not> vr_ok validation then exhausted env plan mx k b (validation_summary validation) [] []
          else bind (in_span env ''review_and_test'' ''Orchestrator'' [] (run_review_and_test env plan)) (\<lambda>results.
              case results of
                None \<Rightarrow> ret (Finished (code_change_failed plan ''parallel_pipeline_error''))
              | Some res \<Rightarrow> judge_results env plan mx k b res)))" if coded for coded
    using that rt by (auto intro!: end_rules quiet_rules well_behaved_parts(7) [OF assms] assms)
  then show ?thesis
    unfolding code_change_round_def
    by (intro ends_next quiet_start ends_then [OF ends_in_span [OF assms ends_coder [OF assms]]] assms)
      (auto intro!: after_ret)
qed

lemma ends_throw: "plain_exn e \<Longrightarrow> ends_if tid rcv Q (throw e)"
  by (simp add: ends_if_def triple_throw raised_def)

lemma ends_rounds: "well_behaved env tid rcv \<Longrightarrow> ends_if tid rcv (\<lambda>_. True) (code_change_rounds env plan mx left k e)"
proof (induction left arbitrary: k e)
  case 0
  show ?case
    unfolding code_change_rounds.simps
    by (rule ends_then [OF ends_round [OF 0]])
      (auto intro!: after_ret ends_throw plain_unreachable split: round_end.split)
next
  case (Suc left)
  show ?case
    unfolding code_change_rounds.simps
    by (rule ends_then [OF ends_round [OF Suc.prems]]) (auto intro!: after_ret Suc split: round_end.split)
qed

lemma ends_code_change [end_rules]: "well_behaved env tid rcv \<Longrightarrow> ends_if tid rcv (\<lambda>_. True) (handle_code_change env plan)"
  unfolding handle_code_change_def Let_def by (rule ends_rounds)

text \<open>Commands in the sandbox.\<close>

lemma ends_fail_task:
  assumes "well_behaved env tid rcv" "\<And>p. made_from base p \<Longrightarrow> after_end tid rcv Q (f p)"
  shows "ends_if tid rcv Q (bind (fail_task env i base) f)"
  unfolding fail_task_def by (rule ends_end_task [OF assms(1) terminal_names(2) assms(2)])

lemma ends_right: "\<not> isl v \<Longrightarrow> (\<And>x. ends_if tid rcv Q (g x)) \<Longrightarrow> ends_if tid rcv Q (case v of Inl r \<Rightarrow> f r | Inr x \<Rightarrow> g x)"
  by (cases v) simp_all

lemma after_left: "isl v \<Longrightarrow> (\<And>x. after_end tid rcv Q (f x)) \<Longrightarrow> after_end tid rcv Q (case v of Inl r \<Rightarrow> f r | Inr x \<Rightarrow> g x)"
  by (cases v) simp_all

lemma ends_sandbox [end_rules]:
  assumes "well_behaved env tid rcv"
  shows "ends_if tid rcv (\<lambda>_. True) (execute_with_sandbox env intent prompt plan_name)"
proof -
  have handler: "ends_if tid rcv isl
      (next_act (say env ''ExecTool'' ''Sandbox execution request failed.'' d)
         (bind (fail_task env intent (failure_payload ''sandbox_request_failed'' [(''detail'', PStr (exn_text e))])) (\<lambda>p.
          bind (failed_record_detail intent plan_name p [(''command'', PStr command)]) (\<lambda>r. ret (Inl r :: pydict + exec_result)))))"
    if "plain_exn e" for d e command
    using that
    by (intro ends_next ends_fail_task after_rules smooth_quiet [OF smooth_say] assms) (auto simp: made_from_item plain_exn_def)
  have tried: "ends_if tid rcv isl
      (try_except
         (bind (in_span env ''sandbox_execute'' ''ExecTool'' a (exec_in_sandbox (oe_work env) command prompt intent)) (\<lambda>r. ret (Inr r)))
         (\<lambda>e. next_act (say env ''ExecTool'' ''Sandbox execution request failed.'' (d e))
           (bind (fail_task env intent (failure_payload ''sandbox_request_failed'' [(''detail'', PStr (exn_text e))])) (\<lambda>p.
            bind (failed_record_detail intent plan_name p [(''command'', PStr command)]) (\<lambda>r. ret (Inl r))))))"
    for a d command
    by (rule ends_try) (auto intro!: handler ends_bind quiet_rules assms ends_ret)
  have ends: "ends_if tid rcv (\<lambda>_. True) (if ex_ok x
             then next_act (end_task env ''TASK_DONE'' (build_done_payload x plan_name intent) (done_with intent)) (ret rec)
             else next_act (fail_task env intent (failure_payload (failure_reason x)
                     [(''status'', PStr (ex_status x)), (''detail'', of_text (ex_reason x)), (''retryable'', PBool (ex_retryable x))]))
               (failed_record intent plan_name (failure_payload (failure_reason x)
                     [(''status'', PStr (ex_status x)), (''detail'', of_text (ex_reason x)), (''retryable'', PBool (ex_retryable x))])
                  rest))" for x rec rest
    unfolding fail_task_def by (auto intro!: ends_next_end assms after_ret after_failed_record)
  show ?thesis
    unfolding execute_with_sandbox_def Let_def
    by (rule ends_bind [OF quiet_get], rule ends_next [OF smooth_quiet [OF smooth_say [OF assms]]], rule ends_then [OF tried])
      (erule after_left, rule after_ret, rule TrueI, erule ends_right,
       rule ends_next [OF smooth_quiet [OF smooth_say [OF assms]]], rule ends)
qed

lemma gives_throw: "plain_exn e \<Longrightarrow> gives tid rcv P (throw e)"
  by (simp add: gives_def triple_throw raised_def)

text \<open>The staged runtime.\<close>

abbreviation ends_well :: "graph_result \<Rightarrow> bool" where
  "ends_well r \<equiv> gr_handled r \<longrightarrow> is_terminal (PStr (gr_event r))"

lemma gives_langgraph_test: "well_behaved env tid rcv \<Longrightarrow> gives tid rcv ends_well (execute_langgraph_test env plan)"
  unfolding execute_langgraph_test_def
  by (rule gives_bind [OF quiet_gives]) (auto intro!: quiet_rules gives_ret simp: langgraph_test_result_def Let_def)

lemma gives_dispatch:
  "gives tid rcv ends_well analyze \<Longrightarrow> gives tid rcv ends_well test \<Longrightarrow> gives tid rcv ends_well (dispatch_runtime i analyze test)"
  by (simp add: dispatch_runtime_def gives_ret skipped_result_def)

lemma plain_invalid: "plain_exn (RuntimeError ''langgraph runtime returned invalid result'')"
  using strip_nonempty [of "CHR ''l''" "''langgraph runtime returned invalid result''"]
  by (simp add: plain_exn_def is_space_def)

lemma gives_invoke:
  assumes "well_behaved env tid rcv" "oe_graph env = Some g" "gives tid rcv ends_well analyze" "gives tid rcv ends_well test"
  shows "gives tid rcv ends_well (invoke_langgraph g i analyze test)"
proof -
  have "gives tid rcv (\<lambda>r. case r of None \<Rightarrow> True | Some x \<Rightarrow> ends_well x) (g (dispatch_runtime i analyze test))"
    using well_behaved_graph [OF assms(1,2)] gives_dispatch [OF assms(3,4)]
    by (simp add: gives_def raised_def [abs_def])
  then show ?thesis
    unfolding invoke_langgraph_def
    by (rule gives_bind) (auto intro: gives_ret gives_throw plain_invalid split: option.split)
qed

lemma gives_runtime:
  assumes "well_behaved env tid rcv" "gives tid rcv ends_well analyze" "gives tid rcv ends_well test"
  shows "gives tid rcv ends_well (execute_runtime env i analyze test)"
proof -
  have fallback: "gives tid rcv ends_well (next_act (say env st m d) (dispatch_runtime n analyze test))" for st m d n
    by (intro gives_next smooth_quiet [OF smooth_say] gives_dispatch assms)
  have "gives tid rcv ends_well (case oe_graph env of None \<Rightarrow> dispatch_runtime n analyze test
      | Some graph \<Rightarrow> try_except (invoke_langgraph graph n analyze test) (\<lambda>e. next_act (say env st m (d e)) (dispatch_runtime n analyze test)))"
    for n st m d
    by (cases "oe_graph env") (auto intro!: gives_try fallback gives_invoke gives_dispatch assms)
  then show ?thesis
    unfolding execute_runtime_def Let_def
    by (intro gives_next smooth_quiet [OF smooth_say] assms) (simp add: gives_ret skipped_result_def)
qed

lemma gives_maybe_langgraph:
  assumes "well_behaved env tid rcv"
  shows "gives tid rcv (\<lambda>r. case r of None \<Rightarrow> True | Some x \<Rightarrow> is_terminal (PStr (gr_event x))) (maybe_execute_langgraph env i plan)"
proof -
  have run: "gives tid rcv ends_well (in_span env n st a
      (execute_runtime env i (ret (langgraph_analyze_result plan)) (execute_langgraph_test env plan)))" for n st a
    by (intro gives_in_span gives_runtime gives_langgraph_test assms gives_ret) (simp add: langgraph_analyze_result_def)
  show ?thesis
    unfolding maybe_execute_langgraph_def Let_def
    by (auto intro!: gives_ret gives_bind [OF run] gives_next quiet_rules assms)
qed

text \<open>A task.\<close>

lemma ends_task_body:
  assumes "well_behaved env tid rcv" "id_intent d = ''llm_key_missing'' \<Longrightarrow> strip (id_reason d) \<noteq> []"
  shows "ends_if tid rcv (\<lambda>_. True) (task_body env prompt key d plan)"
proof (cases "id_intent d = ''llm_key_missing''")
  case True
  then show ?thesis
    unfolding task_body_def Let_def if_P [OF True]
    using assms by (intro ends_fail_task after_rules) (simp_all add: made_from_item)
next
  case False
  have graph: "ends_if tid rcv (\<lambda>_. True) (next_act (end_task env ty p en) (memory_append env key r))"
    if "is_terminal (PStr ty)" for ty p en r
    using that by (intro ends_next_end after_append assms(1))
  have legacy: "ends_if tid rcv (\<lambda>_. True) (bind m (memory_append env key))"
    if "ends_if tid rcv (\<lambda>_. True) m" for m
    by (rule ends_then [OF that]) (simp_all add: after_append [OF assms(1)])
  show ?thesis
    unfolding task_body_def Let_def if_not_P [OF False]
    by (rule ends_gives [OF gives_maybe_langgraph [OF assms(1)]])
      (auto intro!: graph legacy end_rules assms(1) ends_if_if split: option.split)
qed

text \<open>It publishes the terminal events \<open>pre\<close> and one more, and does not raise.\<close>

definition finishes :: "string \<Rightarrow> ('s \<Rightarrow> pydict list) \<Rightarrow> pyval list \<Rightarrow> ('s agent_world, 'a) act \<Rightarrow> bool" where
  "finishes tid rcv pre m \<longleftrightarrow> (\<forall>ts. triple (settled tid rcv ts) m (\<lambda>_. ended tid rcv (ts @ pre)) (\<lambda>_ _. False))"

lemma finishes_bind: "after_end tid rcv P m \<Longrightarrow> (\<And>a. P a \<Longrightarrow> finishes tid rcv pre (f a)) \<Longrightarrow> finishes tid rcv pre (bind m f)"
  unfolding finishes_def
proof
  fix ts
  assume m: "after_end tid rcv P m" and f: "\<And>a. P a \<Longrightarrow> \<forall>ts. triple (settled tid rcv ts) (f a) (\<lambda>_. ended tid rcv (ts @ pre)) (\<lambda>_ _. False)"
  have "triple (\<lambda>w. settled tid rcv ts w \<and> P a) (f a) (\<lambda>_. ended tid rcv (ts @ pre)) (\<lambda>_ _. False)" for a
    using f [of a] by (cases "P a") (auto simp: triple_def)
  then show "triple (settled tid rcv ts) (bind m f) (\<lambda>_. ended tid rcv (ts @ pre)) (\<lambda>_ _. False)"
    by (rule triple_bind [OF m [unfolded after_end_def, rule_format]])
qed

lemma finishes_smooth: "smooth tid rcv m \<Longrightarrow> (\<And>a. finishes tid rcv pre (f a)) \<Longrightarrow> finishes tid rcv pre (bind m f)"
  by (rule finishes_bind [OF after_smooth])

lemma finishes_next: "smooth tid rcv m \<Longrightarrow> finishes tid rcv pre n \<Longrightarrow> finishes tid rcv pre (next_act m n)"
  unfolding next_act_def by (rule finishes_smooth)

lemma finishes_error:
  assumes "well_behaved env tid rcv" "plain_exn e"
  shows "finishes tid rcv [] (task_error env key d plan e)"
  unfolding finishes_def append_Nil2
proof
  fix ts
  let ?rest = "\<lambda>p. bind (failed_record_detail (id_intent d) (pl_name plan) p []) (memory_append env key)"
  let ?base = "failure_payload ''orchestrator_error'' [(''detail'', PStr (exn_text e))]"
  have detail: "map_of ?base ''detail'' \<noteq> None"
    by (rule failure_payload_detail) (use assms(2) in \<open>simp add: plain_exn_def\<close>)
  have "triple (\<lambda>w. ended tid rcv ts w \<and> made_from ?base p) (?rest p) (\<lambda>_. ended tid rcv ts) (\<lambda>_ _. False)" for p
  proof (rule triple_pre)
    fix w assume w: "ended tid rcv ts w \<and> made_from ?base p"
    then obtain t where t: "is_terminal t" "settled tid rcv (ts @ [t]) w" by (auto simp: ended_def)
    have "after_end tid rcv (\<lambda>_. True) (?rest p)"
      by (intro after_rules assms(1)) (use detail in \<open>simp_all add: made_from_item [OF conjunct2 [OF w]]\<close>)
    then have "triple (settled tid rcv (ts @ [t])) (?rest p) (\<lambda>b v. settled tid rcv (ts @ [t]) v \<and> True) (\<lambda>_ _. False)"
      by (simp add: after_end_def)
    then show "triple (\<lambda>v. v = w) (?rest p) (\<lambda>_. ended tid rcv ts) (\<lambda>_ _. False)"
      by (rule triple_conseq) (use t in \<open>auto simp: ended_def\<close>)
  qed
  then show "triple (settled tid rcv ts) (task_error env key d plan e) (\<lambda>_. ended tid rcv ts) (\<lambda>_ _. False)"
    unfolding task_error_def fail_task_def by (rule triple_bind [OF end_task_made [OF assms(1) terminal_names(2)]])
qed

lemma finishes_try:
  assumes "\<And>ts. triple (settled tid rcv ts) m (\<lambda>_. ended tid rcv (ts @ pre)) (raised tid rcv (ts @ pre))"
    "\<And>e. plain_exn e \<Longrightarrow> finishes tid rcv [] (h e)"
  shows "finishes tid rcv pre (try_except m h)"
  unfolding finishes_def
proof
  fix ts
  have "triple (raised tid rcv (ts @ pre) e) (h e) (\<lambda>_. ended tid rcv (ts @ pre)) (\<lambda>_ _. False)" for e
    using assms(2) [of e] by (cases "plain_exn e") (auto simp: finishes_def triple_def raised_def)
  then show "triple (settled tid rcv ts) (try_except m h) (\<lambda>_. ended tid rcv (ts @ pre)) (\<lambda>_ _. False)"
    by (rule triple_catching [OF assms(1)]) (simp_all add: raised_def plain_exn_def)
qed

lemma hints_keep_task_id: "field_text (apply_memory_hints hints d) ''taskId'' = field_text d ''taskId''"
  by (simp add: apply_memory_hints_def Let_def)

lemma smooth_bind: "smooth tid rcv m \<Longrightarrow> (\<And>a. smooth tid rcv (f a)) \<Longrightarrow> smooth tid rcv (bind m f)"
  by (auto simp: smooth_def intro: triple_bind)

lemma smooth_next: "smooth tid rcv m \<Longrightarrow> smooth tid rcv n \<Longrightarrow> smooth tid rcv (next_act m n)"
  by (simp add: next_act_def smooth_bind)

lemma smooth_ret: "smooth tid rcv (ret x)" "smooth tid rcv (get_with f)" by (simp_all add: smooth_def triple_ret triple_get)

lemma smooth_when: "smooth tid rcv m \<Longrightarrow> smooth tid rcv (when_do b m)"
  by (simp add: when_do_def smooth_ret)

lemma smooth_memory: "well_behaved env tid rcv \<Longrightarrow> smooth tid rcv (memory_stage env)"
  unfolding memory_stage_def Let_def
  by (intro smooth_in_span smooth_bind smooth_next smooth_ret smooth_outside smooth_modify_task hints_keep_task_id well_behaved_parts(13))

lemma smooth_ensure:
  assumes "well_behaved env tid rcv"
  shows "smooth tid rcv (ensure_observability (oe_agent env) e)"
  unfolding smooth_def
proof
  fix ts
  have "\<exists>ob w'. ensure_observability (oe_agent env) e w = (Inr ob, w') \<and> settled tid rcv ts w'" if w: "settled tid rcv ts w" for w
  proof -
    obtain ob d s' where e: "ensure_observability (oe_agent env) e w = (Inr ob, w\<lparr>aw_obs := Some ob, aw_task := d, aw_ext := s'\<rparr>)"
      and s': "same_fields (aw_task w) d" "(uuid_step (oe_agent env))\<^sup>*\<^sup>* (aw_ext w) s'"
      using ensure_observability_spec [of "oe_agent env" e w] by blast
    define w1 where "w1 = w\<lparr>aw_obs := Some ob, aw_task := d, aw_ext := s'\<rparr>"
    have c: "agent_core w1 = agent_core w" using s'(1) by (simp add: w1_def agent_core_observed)
    obtain es sm where st: "stands tid rcv (\<lambda>_. ()) es () sm w" "filter is_terminal es = ts"
      using w by (auto simp: settled_def)
    have "stands tid rcv (\<lambda>_. ()) es () (task_summary w1) w1"
      using st uuid_steps_log [OF well_behaved_parts(2) [OF assms] s'(2)]
      by (simp add: stands_def outbox_ok_core [OF c] pending_core [OF c] event_types_def task_id_core [OF c])
        (simp add: w1_def)
    then show ?thesis using settledI st(2) e by (auto simp: w1_def)
  qed
  then show "triple (settled tid rcv ts) (ensure_observability (oe_agent env) e) (\<lambda>_. settled tid rcv ts) (\<lambda>_ _. False)"
    by (fastforce simp: triple_def)
qed

lemma finishes_prod: "(\<And>a b. finishes tid rcv pre (f a b)) \<Longrightarrow> finishes tid rcv pre (case p of (a, b) \<Rightarrow> f a b)"
  by (cases p) simp

lemma smooth_bootstrap: "oe_bootstrap env = None \<Longrightarrow> smooth tid rcv (bootstrap_stage env ws)"
  by (simp add: bootstrap_stage_def smooth_bind smooth_ret)

lemma smooth_dialogue: "oe_dialogue env = None \<Longrightarrow> smooth tid rcv (dialogue_stage env p ws)"
  by (simp add: dialogue_stage_def smooth_ret)

text \<open>The stages after the workspace and the dialogue.\<close>

lemma finishes_stages:
  assumes env: "well_behaved env tid rcv"
    and infer: "\<And>ts. triple (settled tid rcv ts) (oe_infer env prompt) (\<lambda>d w. settled tid rcv ts w \<and> D d) (\<lambda>_ _. False)"
    and body: "\<And>key decision plan. D decision \<Longrightarrow> finishes tid rcv pre (body key decision plan)"
  shows "finishes tid rcv pre (bind (memory_stage env) (\<lambda>(project_key, history, hints).
            next_act (when_do (history \<noteq> []) (say env st m (d project_key history hints)))
            (next_act (ensure_observability (oe_agent env) (oe_engine env))
            (bind (in_span env n1 st1 a1 (oe_infer env prompt)) (\<lambda>decision.
             next_act (set_task ''intent'' (v decision))
             (next_act (say env st2 m2 (d2 decision))
             (bind (in_span env n3 st3 (a3 decision) (oe_plan env prompt decision)) (\<lambda>plan.
              next_act (say env st4 m4 (d4 decision plan)) (body project_key decision plan)))))))))"
proof (rule finishes_smooth [OF smooth_memory [OF env]])
  fix khh :: "string \<times> pydict list \<times> pydict"
  obtain project_key history hints where khh: "khh = (project_key, history, hints)" by (metis prod.exhaust)
  have infer': "after_end tid rcv D (in_span env n1 st1 a1 (oe_infer env prompt))"
    unfolding after_end_def in_span_def
  proof
    fix ts
    show "triple (settled tid rcv ts) (with_span (oe_agent env) n1 st1 a1 (oe_infer env prompt))
        (\<lambda>d w. settled tid rcv ts w \<and> D d) (\<lambda>_ _. False)"
      by (rule span_settled [OF well_behaved_parts(2) [OF env] infer]) (auto simp: settled_obs)
  qed
  have "finishes tid rcv pre (bind (in_span env n3 st3 (a3 decision) (oe_plan env prompt decision)) (\<lambda>plan.
              next_act (say env st4 m4 (d4 decision plan)) (body project_key decision plan)))"
    if "D decision" for decision
    by (intro finishes_smooth [OF smooth_in_span [OF env well_behaved_parts(5) [OF env]]]
        finishes_next [OF smooth_say [OF env]] body that)
  then show "finishes tid rcv pre (case khh of (project_key, history, hints) \<Rightarrow>
            next_act (when_do (history \<noteq> []) (say env st m (d project_key history hints)))
            (next_act (ensure_observability (oe_agent env) (oe_engine env))
            (bind (in_span env n1 st1 a1 (oe_infer env prompt)) (\<lambda>decision.
             next_act (set_task ''intent'' (v decision))
             (next_act (say env st2 m2 (d2 decision))
             (bind (in_span env n3 st3 (a3 decision) (oe_plan env prompt decision)) (\<lambda>plan.
              next_act (say env st4 m4 (d4 decision plan)) (body project_key decision plan))))))))"
    unfolding khh prod.case
    by (intro finishes_next finishes_bind [OF infer'] smooth_ensure smooth_say smooth_set_task smooth_when env) simp_all
qed

lemma finishes_stages_ret:
  assumes "well_behaved env tid rcv" "oe_infer env = (\<lambda>p. ret dec)" and "\<And>key plan. finishes tid rcv pre (body key dec plan)"
  shows "finishes tid rcv pre (bind (memory_stage env) (\<lambda>(project_key, history, hints).
            next_act (when_do (history \<noteq> []) (say env st m (d project_key history hints)))
            (next_act (ensure_observability (oe_agent env) (oe_engine env))
            (bind (in_span env n1 st1 a1 (oe_infer env prompt)) (\<lambda>decision.
             next_act (set_task ''intent'' (v decision))
             (next_act (say env st2 m2 (d2 decision))
             (bind (in_span env n3 st3 (a3 decision) (oe_plan env prompt decision)) (\<lambda>plan.
              next_act (say env st4 m4 (d4 decision plan)) (body project_key decision plan)))))))))"
  by (rule finishes_stages [where D = "\<lambda>x. x = dec", OF assms(1)]) (use assms(2,3) in \<open>simp_all add: triple_ret\<close>)

text \<open>What finishes a task, run from an agent that owes the client nothing.\<close>

lemma finishes_run:
  assumes "finishes (task_id_of w) rcv pre m" "outbox_ok w" "pending_outbox (task_id_of w) w = []"
  shows "\<exists>v w' t. m w = (Inr v, w') \<and> is_terminal t \<and>
    filter is_terminal (event_types rcv w') = filter is_terminal (event_types rcv w) @ pre @ [t]"
proof -
  let ?tid = "task_id_of w" and ?ts = "filter is_terminal (event_types rcv w)"
  have "settled ?tid rcv ?ts w"
    using assms(2,3) settledI [of ?tid rcv "event_types rcv w" "task_summary w" w] by (simp add: stands_def)
  with assms(1) have t: "triple (settled ?tid rcv ?ts) m (\<lambda>_. ended ?tid rcv (?ts @ pre)) (\<lambda>_ _. False)" "settled ?tid rcv ?ts w"
    by (simp_all only: finishes_def)
  obtain q w' where q: "m w = (q, w')" by fastforce
  show ?thesis
  proof (cases q)
    case (Inl x)
    show ?thesis using tripleD_Inl [OF t q [unfolded Inl]] by simp
  next
    case (Inr v)
    have "ended ?tid rcv (?ts @ pre) w'" using tripleD_Inr [OF t q [unfolded Inr]] by simp
    then obtain x where "is_terminal x" "filter is_terminal (event_types rcv w') = ?ts @ pre @ [x]"
      by (auto simp: ended_def settled_def stands_def)
    then show ?thesis using q Inr by blast
  qed
qed

lemma stages_finish:
  assumes "well_behaved env tid rcv"
  shows "finishes tid rcv [] (task_stages env prompt)"
proof -
  have body: "finishes tid rcv [] (try_except (task_body env prompt key d plan) (task_error env key d plan))"
    if "id_intent d = ''llm_key_missing'' \<longrightarrow> strip (id_reason d) \<noteq> []" for key d plan
    by (rule finishes_try [OF _ finishes_error [OF assms]])
      (use ends_task_body [OF assms, of d] that in \<open>auto simp: ends_if_def\<close>)
  show ?thesis
    unfolding task_stages_def by (rule finishes_stages [OF assms well_behaved_parts(4) [OF assms] body])
qed

text \<open>The whole: what is before the stages leaves the agent where it stands.\<close>

lemma finishes_locked:
  assumes "\<And>prompt ws. finishes (task_id_of w) rcv pre (stages prompt ws)" and "outbox_ok w" "pending_outbox (task_id_of w) w = []"
    and "oe_bootstrap env = None" "oe_dialogue env = None"
  shows "\<exists>v w' t. bind (get_with (\<lambda>w. (resolve_workspace (aw_task w), field_text (aw_task w) ''prompt''))) (\<lambda>(workspace0, prompt).
      bind (bootstrap_stage env workspace0) (\<lambda>workspace. next_act (dialogue_stage env prompt workspace) (stages prompt workspace))) w =
      (Inr v, w') \<and> is_terminal t \<and> filter is_terminal (event_types rcv w') = filter is_terminal (event_types rcv w) @ pre @ [t]"
proof -
  let ?m = "bind (get_with (\<lambda>w. (resolve_workspace (aw_task w), field_text (aw_task w) ''prompt''))) (\<lambda>(workspace0, prompt).
      bind (bootstrap_stage env workspace0) (\<lambda>workspace. next_act (dialogue_stage env prompt workspace) (stages prompt workspace)))"
  have "finishes (task_id_of w) rcv pre ?m"
    by (rule finishes_smooth [OF smooth_ret(2)], rule finishes_prod, rule finishes_smooth [OF smooth_bootstrap [OF assms(4)]],
        rule finishes_next [OF smooth_dialogue [OF assms(5)]], rule assms(1))
  from finishes_run [OF this assms(2,3)] show ?thesis .
qed

lemma task_ends_once:
  assumes "well_behaved env (task_id_of w) rcv" "oe_bootstrap env = None" "oe_dialogue env = None"
    and "outbox_ok w" "pending_outbox (task_id_of w) w = []"
  shows "\<exists>w' t. handle_task_locked env w = (Inr (), w') \<and> is_terminal t \<and>
    filter is_terminal (event_types rcv w') = filter is_terminal (event_types rcv w) @ [t]"
  using finishes_locked [OF stages_finish [OF assms(1)] assms(4,5,2,3)] by (simp add: handle_task_locked_def)

text \<open>C2. When the collaborators behave (\<open>well_behaved\<close>), the task names no repository to clone and no dialogue
  service asks back, \<open>_handle_task_locked\<close> does not raise, and between its start and its end the client
  receives exactly one terminal event: whatever the intent, the outcome of the coder, of the gate, of
  review and test and of the sandbox, and whichever of them raises.\<close>

theorem one_terminal_event:
  assumes "well_behaved env (task_id_of w) rcv" "oe_bootstrap env = None" "oe_dialogue env = None"
    and "outbox_ok w" "pending_outbox (task_id_of w) w = []"
  shows "\<exists>w' t. handle_task_locked env w = (Inr (), w') \<and> is_terminal t \<and>
    filter is_terminal (event_types rcv w') = filter is_terminal (event_types rcv w) @ [t]"
  using assms by (rule task_ends_once)

section \<open>Where it is not so\<close>

text \<open>A publisher called with the event's name as the payload.\<close>

definition payload_error :: py_exn where
  "payload_error = ValueError ''dictionary update sequence element #0 has length 1; 2 is required''"

lemma pub_swapped_raises:
  assumes "takes_all (oe_agent env) rcv" "task_id_of w \<noteq> []" "pending_outbox (task_id_of w) w = []"
  shows "\<exists>w'. pub_swapped env (c # cs) d w = (Inl payload_error, w') \<and> rcv (aw_ext w') = rcv (aw_ext w)"
proof -
  obtain ob d' s' where e: "ensure_own (oe_agent env) w = (Inr ob, w\<lparr>aw_obs := Some ob, aw_task := d', aw_ext := s'\<rparr>)"
    and s': "same_fields (aw_task w) d'" "(uuid_step (oe_agent env))\<^sup>*\<^sup>* (aw_ext w) s'"
    using ensure_own_spec [of "oe_agent env" w] by blast
  define w1 where "w1 = w\<lparr>aw_obs := Some ob, aw_task := d', aw_ext := s'\<rparr>"
  have c: "agent_core w1 = agent_core w" using s'(1) by (simp add: w1_def agent_core_observed)
  have flush: "flush_outbox (oe_agent env) w1 = (Inr (), w1)"
    using assms(3) pending_core [OF c, of "task_id_of w"] task_id_core [OF c] by (simp add: flush_outbox_def ret_def)
  show ?thesis
    using assms(2) flush uuid_steps_log [OF assms(1) s'(2)]
    by (simp add: pub_swapped_def publish_any_phases e w1_def [symmetric] payload_dict_def payload_error_def)
      (simp add: w1_def)
qed

text \<open>A task that names a repository, in an agent that can clone one, ends at the event that announces the
  clone: its arguments are in the wrong order, the ValueError leaves \<open>_handle_task_locked\<close>, and no event
  was published, no terminal one either.\<close>

lemma repo_task_stops:
  assumes "takes_all (oe_agent env) rcv" "task_id_of w \<noteq> []" "pending_outbox (task_id_of w) w = []"
    and "oe_bootstrap env = Some bs" "field_text (aw_task w) ''repoUrl'' \<noteq> []"
  shows "\<exists>w'. handle_task_locked env w = (Inl payload_error, w') \<and> rcv (aw_ext w') = rcv (aw_ext w)"
proof -
  obtain w' where p: "pub_swapped env ''REPO_BOOTSTRAP_STARTED'' [(''repoUrl'', PStr (field_text (aw_task w) ''repoUrl''))] w =
      (Inl payload_error, w')" "rcv (aw_ext w') = rcv (aw_ext w)"
    using pub_swapped_raises [OF assms(1,2,3)] by blast
  have "bootstrap_stage env ws w = (Inl payload_error, w')" for ws
    using assms(4,5) by (simp add: bootstrap_stage_def next_Inl [of "pub_swapped _ _ _", OF p(1)])
  then show ?thesis using p(2) by (simp add: handle_task_locked_def bind_Inl)
qed

text \<open>Without a repository the workspace stays, and what the dialogue service raises leaves the task.\<close>

definition clones :: "'s orch_env \<Rightarrow> pydict \<Rightarrow> bool" where
  "clones env task \<longleftrightarrow> oe_bootstrap env \<noteq> None \<and> field_text task ''repoUrl'' \<noteq> []"

lemma nothing_to_clone: "\<not> clones env (aw_task w) \<Longrightarrow> bootstrap_stage env ws w = (Inr ws, w)"
  by (auto simp: bootstrap_stage_def clones_def ret_def split: option.splits)

lemma dialogue_raises:
  assumes "\<not> clones env (aw_task w)" "oe_dialogue env = Some ask"
    and "ask (field_text (aw_task w) ''prompt'') (resolve_workspace (aw_task w)) (aw_ext w) = (Inl e, s')"
  shows "handle_task_locked env w = (Inl e, w\<lparr>aw_ext := s'\<rparr>)"
proof -
  have d: "dialogue_stage env (field_text (aw_task w) ''prompt'') (resolve_workspace (aw_task w)) w = (Inl e, w\<lparr>aw_ext := s'\<rparr>)"
    using assms(2,3) by (simp add: dialogue_stage_def outside_def bind_def)
  show ?thesis
    by (simp add: handle_task_locked_def bind_Inr [of "bootstrap_stage _ _", OF nothing_to_clone [OF assms(1)]]
        next_Inl [of "dialogue_stage _ _ _", OF d])
qed

text \<open>A dialogue service that has no question lets the stages begin.\<close>

lemma dialogue_content:
  assumes "\<not> clones env (aw_task w)" "oe_dialogue env = Some ask"
    and "ask (field_text (aw_task w) ''prompt'') (resolve_workspace (aw_task w)) (aw_ext w) = (Inr None, s')"
  shows "handle_task_locked env w = task_stages env (field_text (aw_task w) ''prompt'') (w\<lparr>aw_ext := s'\<rparr>)"
proof -
  have d: "dialogue_stage env (field_text (aw_task w) ''prompt'') (resolve_workspace (aw_task w)) w = (Inr (), w\<lparr>aw_ext := s'\<rparr>)"
    using assms(2,3) by (simp add: dialogue_stage_def outside_def bind_def ret_def)
  show ?thesis
    by (simp add: handle_task_locked_def bind_Inr [of "bootstrap_stage _ _", OF nothing_to_clone [OF assms(1)]]
        next_act_def bind_Inr [of "dialogue_stage _ _ _", OF d])
qed

text \<open>The same as with a repository when the dialogue service asks back: the question is never published and the task
  ends with the ValueError, after the service was asked and before anything else.\<close>

lemma clarification_stops_task:
  assumes "takes_all (oe_agent env) rcv" "task_id_of w \<noteq> []" "pending_outbox (task_id_of w) w = []"
    and "\<not> clones env (aw_task w)" "oe_dialogue env = Some ask"
    and "ask (field_text (aw_task w) ''prompt'') (resolve_workspace (aw_task w)) (aw_ext w) = (Inr (Some (q, options)), s')"
    and "rcv s' = rcv (aw_ext w)"
  shows "\<exists>w'. handle_task_locked env w = (Inl payload_error, w') \<and> rcv (aw_ext w') = rcv (aw_ext w)"
proof -
  let ?v = "w\<lparr>aw_ext := s'\<rparr>"
  have "task_id_of ?v \<noteq> []" "pending_outbox (task_id_of ?v) ?v = []" using assms(2,3) by (simp_all add: pending_outbox_def)
  then obtain w' where p: "pub_swapped env ''CLARIFICATION_REQUESTED'' [(''question'', q), (''options'', options)] ?v =
      (Inl payload_error, w')" "rcv (aw_ext w') = rcv s'"
    using pub_swapped_raises [OF assms(1)] by fastforce
  note b = nothing_to_clone [OF assms(4)]
  have d: "dialogue_stage env (field_text (aw_task w) ''prompt'') (resolve_workspace (aw_task w)) w = (Inl payload_error, w')"
    using p(1) assms(5,6) by (simp add: dialogue_stage_def outside_def bind_def)
  then show ?thesis
    using p(2) assms(7)
    by (simp add: handle_task_locked_def bind_Inr [of "bootstrap_stage _ _", OF b] next_Inl [of "dialogue_stage _ _ _", OF d])
qed

text \<open>A sandbox whose exception has no text, a \<open>TimeoutError()\<close> of a socket for example.\<close>

definition with_sandbox :: "'s orch_env \<Rightarrow> (pydict \<Rightarrow> string \<Rightarrow> string \<Rightarrow> string \<Rightarrow> 's \<Rightarrow> exec_result result \<times> 's) \<Rightarrow> 's orch_env" where
  "with_sandbox env f = env\<lparr>oe_work := (oe_work env)\<lparr>we_exec := f\<rparr>\<rparr>"

lemma with_sandbox_simps [simp]:
  "oe_agent (with_sandbox env f) = oe_agent env" "we_exec (oe_work (with_sandbox env f)) = f"
  "we_getenv (oe_work (with_sandbox env f)) = we_getenv (oe_work env)"
  "oe_bootstrap (with_sandbox env f) = oe_bootstrap env" "oe_dialogue (with_sandbox env f) = oe_dialogue env"
  "oe_engine (with_sandbox env f) = oe_engine env" "oe_infer (with_sandbox env f) = oe_infer env"
  "oe_plan (with_sandbox env f) = oe_plan env" "publish_ev (with_sandbox env f) = publish_ev env"
  by (simp_all add: with_sandbox_def publish_ev_def [abs_def])

lemma with_sandbox_actions [simp]:
  "say (with_sandbox env f) = say env" "in_span (with_sandbox env f) = in_span env"
  "end_task (with_sandbox env f) = end_task env" "fail_task (with_sandbox env f) = fail_task env"
  "memory_append (with_sandbox env f) = memory_append env" "memory_stage (with_sandbox env f) = memory_stage env"
  "task_error (with_sandbox env f) = task_error env"
  by (simp_all add: with_sandbox_def publish_ev_def [abs_def] say_def [abs_def] in_span_def [abs_def] terminal_payload_def [abs_def]
      end_task_def [abs_def] fail_task_def [abs_def] memory_append_def [abs_def] memory_stage_def task_error_def [abs_def])

lemma no_detail: "strip s = [] \<Longrightarrow> map_of (failure_payload ''sandbox_request_failed'' [(''detail'', PStr s)]) ''detail'' = None"
  by (simp add: failure_payload_def plan_name_last_def is_blank_value_def)

lemma sandbox_raises_after_end:
  assumes env: "well_behaved env tid rcv" and e: "is_Exception e" "strip (exn_text e) = []"
    and f: "\<And>task c p i s. fst (f task c p i s) = Inl e \<and> rcv (snd (f task c p i s)) = rcv s"
  shows "triple (settled tid rcv ts) (execute_with_sandbox (with_sandbox env f) intent prompt name)
    (\<lambda>_ _. False) (raised tid rcv (ts @ [PStr ''TASK_FAILED'']))"
proof -
  let ?ts = "ts @ [PStr ''TASK_FAILED'']" and ?base = "failure_payload ''sandbox_request_failed'' [(''detail'', PStr (exn_text e))]"
  have run: "triple (settled tid rcv ts) (exec_in_sandbox (oe_work (with_sandbox env f)) c p i)
      (\<lambda>_ _. False) (\<lambda>x w. x = e \<and> settled tid rcv ts w)" for c p i
    unfolding triple_def
  proof (intro allI impI)
    fix w :: "'a agent_world" assume w: "settled tid rcv ts w"
    obtain r s' where r: "f (aw_task w) c p i (aw_ext w) = (r, s')" by fastforce
    then have "r = Inl e" "rcv s' = rcv (aw_ext w)" using f [of "aw_task w" c p i "aw_ext w"] by simp_all
    then show "case exec_in_sandbox (oe_work (with_sandbox env f)) c p i w of
        (Inl x, w') \<Rightarrow> x = e \<and> settled tid rcv ts w' | (Inr a, w') \<Rightarrow> False"
      using w r by (simp add: exec_in_sandbox_def outside_def settled_ext)
  qed
  then have span: "triple (settled tid rcv ts) (bind (in_span env n st a (exec_in_sandbox (oe_work (with_sandbox env f)) c p i)) k)
      (\<lambda>_ _. False) (\<lambda>x w. x = e \<and> settled tid rcv ts w)" for n st a c p i and k :: "exec_result \<Rightarrow> ('a agent_world, pydict + exec_result) act"
    unfolding in_span_def
    by (intro triple_bind [OF span_settled [OF well_behaved_parts(2) [OF env] run]]) (auto simp: settled_obs triple_def)
  have made: "triple (settled tid rcv ts) (end_task env ''TASK_FAILED'' ?base en)
      (\<lambda>p w. settled tid rcv ?ts w \<and> map_of p ''detail'' = None \<and> map_of p ''reason'' \<noteq> None \<and> map_of p ''errorCode'' \<noteq> None) E" for en E
  proof (rule tripleI)
    fix w x w' assume "settled tid rcv ts w" "end_task env ''TASK_FAILED'' ?base en w = (Inl x, w')"
    then show "E x w'" using tripleD_Inl [OF end_task_made [OF env terminal_names(2)]] by blast
  next
    fix w p w' assume w: "settled tid rcv ts w" "end_task env ''TASK_FAILED'' ?base en w = (Inr p, w')"
    have "settled tid rcv ?ts w'" using tripleD_Inr [OF end_task_ends [OF env terminal_names(2)] w] .
    moreover have "made_from ?base p" using tripleD_Inr [OF end_task_made [OF env terminal_names(2)] w] ..
    ultimately show "settled tid rcv ?ts w' \<and> map_of p ''detail'' = None \<and> map_of p ''reason'' \<noteq> None \<and> map_of p ''errorCode'' \<noteq> None"
      using no_detail [OF e(2)] by (simp add: made_from_item)
  qed
  have recd: "triple (\<lambda>w. settled tid rcv ?ts w \<and> map_of p ''detail'' = None \<and> map_of p ''reason'' \<noteq> None \<and> map_of p ''errorCode'' \<noteq> None)
      (bind (failed_record_detail intent name p rest) k) (\<lambda>_ _. False) (raised tid rcv ?ts)"
    for p rest and k :: "pydict \<Rightarrow> ('a agent_world, pydict + exec_result) act"
    by (auto simp: triple_def failed_record_detail_def failed_record_def item_of_def bind_def lift_result_def ret_def raised_def plain_quoted)
  have handler: "triple (\<lambda>w. x = e \<and> settled tid rcv ts w)
      (next_act (say env st m (d x))
         (bind (fail_task env intent (failure_payload ''sandbox_request_failed'' [(''detail'', PStr (exn_text x))])) (\<lambda>p.
          bind (failed_record_detail intent name p rest) (\<lambda>r. ret (Inl r :: pydict + exec_result)))))
      (\<lambda>_ _. False) (raised tid rcv ?ts)" for x st m d rest
  proof (cases "x = e")
    case True
    then show ?thesis unfolding fail_task_def
      by simp (intro triple_next [OF smoothD [OF smooth_say [OF env]]] triple_bind [OF made] recd)
  qed (simp add: triple_def)
  show ?thesis
    unfolding execute_with_sandbox_def with_sandbox_simps with_sandbox_actions
    by (rule triple_bind [OF triple_get], assumption, rule triple_next [OF smoothD [OF smooth_say [OF env]]],
        rule triple_bind [where R = "\<lambda>_ _. False"], rule triple_catching [OF span handler])
      (use e in \<open>auto simp: triple_def\<close>)
qed

text \<open>If the sandbox client raises with no text, as \<open>TimeoutError()\<close> does, then the payload of \<open>TASK_FAILED\<close> has
  no detail, the record of the failure reads \<open>payload["detail"]\<close> and raises after the event went out, and the
  handler of \<open>_handle_task_locked\<close> reports the task a second time: two terminal events for one task.\<close>

theorem sandbox_error_without_text_ends_twice:
  assumes "well_behaved env (task_id_of w) rcv" "oe_bootstrap env = None" "oe_dialogue env = None"
    and "outbox_ok w" "pending_outbox (task_id_of w) w = []"
    and "oe_engine env \<noteq> ''langgraph''" "oe_infer env = (\<lambda>p. ret d)" "id_intent d \<in> {''deploy'', ''test''}"
    and "is_Exception e" "strip (exn_text e) = []"
    and "\<And>task c p i s. fst (f task c p i s) = Inl e \<and> rcv (snd (f task c p i s)) = rcv s"
  shows "\<exists>w' t. handle_task_locked (with_sandbox env f) w = (Inr (), w') \<and> is_terminal t \<and>
    filter is_terminal (event_types rcv w') = filter is_terminal (event_types rcv w) @ [PStr ''TASK_FAILED'', t]"
proof -
  let ?env = "with_sandbox env f"
  have lg: "maybe_execute_langgraph ?env i plan = ret None" for i plan
    using assms(6) by (simp add: maybe_execute_langgraph_def)
  have "triple (settled (task_id_of w) rcv ts) (task_body ?env prompt key d plan)
      (\<lambda>_. ended (task_id_of w) rcv (ts @ [PStr ''TASK_FAILED''])) (raised (task_id_of w) rcv (ts @ [PStr ''TASK_FAILED'']))"
    for ts prompt key plan
  proof -
    have "triple (settled (task_id_of w) rcv ts) (bind (execute_with_sandbox ?env (id_intent d) prompt (pl_name plan)) (memory_append env key))
        (\<lambda>_. ended (task_id_of w) rcv (ts @ [PStr ''TASK_FAILED''])) (raised (task_id_of w) rcv (ts @ [PStr ''TASK_FAILED'']))"
      by (rule triple_bind [OF sandbox_raises_after_end [OF assms(1,9,10,11)]]) (simp add: triple_def)
    moreover have "task_body ?env prompt key d plan =
        bind (execute_with_sandbox ?env (id_intent d) prompt (pl_name plan)) (memory_append env key)"
      using assms(8) by (intro ext) (auto simp: task_body_def lg Let_def)
    ultimately show ?thesis by simp
  qed
  then have body: "finishes (task_id_of w) rcv [PStr ''TASK_FAILED''] (try_except (task_body ?env prompt key d plan) (task_error env key d plan))"
    for prompt key plan
    by (rule finishes_try [OF _ finishes_error [OF assms(1)]])
  show ?thesis
    using finishes_locked [OF finishes_stages_ret [where dec = d and body = "\<lambda>key dec plan. try_except (task_body ?env prompt key dec plan)
        (task_error env key dec plan)" for prompt, OF assms(1,7) body] assms(4,5), where env = ?env] assms(2,3)
    by (simp add: handle_task_locked_def task_stages_def)
qed

lemma plain_none: "plain_exn (RuntimeError ''none'')"
  by (simp add: plain_exn_def strip_def is_space_def)

lemma sample_orch_well_behaved: "well_behaved (sample_orch_env intent) ''t1'' fst"
  unfolding well_behaved_def surroundings_behave_def agents_behave_def
  by (auto simp: sample_orch_env_def sample_orch_work_def sample_orch_takes_all sample_decision_def strip_def is_space_def
      mute_def mute_total_def plain_none smooth_ret outside_def settled_ext intro!: quiet_rules triple_ret)
    (auto simp: triple_def outside_def settled_ext split_beta Let_def)

lemma one_terminal_event_witness:
  "\<exists>w' t. handle_task_locked (sample_orch_env ''code_change'') (sample_orch_world sample_orch_task) = (Inr (), w') \<and> is_terminal t \<and>
    filter is_terminal (event_types fst w') = [t]"
  using one_terminal_event [of "sample_orch_env ''code_change''" "sample_orch_world sample_orch_task" fst]
    sample_orch_well_behaved [of "''code_change''"]
  by (simp add: event_types_def) (simp add: sample_orch_env_def)

end
