(* ===== verification/Workflow_Base.thy ===== *)
theory Workflow_Base
  imports Effects
begin

text \<open>
  What the LangGraph workflows share: the error classes of \<open>utils/errors.py\<close>, the timeouts of
  \<open>config/timeout_config.py\<close>, and the loop of \<open>workflows/base_workflow.py\<close> that invokes a compiled graph
  and decides on retries. A state is the dictionary \<open>WorkflowState\<close>. LangGraph is a parameter,
  \<open>wf_invoke\<close>; \<open>runs_chains\<close> is what its documentation says of a graph whose edges form a chain.

  The time limit of \<open>stage_timeout\<close> has two forms. On POSIX an alarm interrupts the block; it belongs to the
  environment, as an exception that whatever runs inside may raise. Elsewhere a thread watches the block,
  and leaving it raises when the limit has passed (\<open>wf_posix\<close>, \<open>wf_overran\<close>).
\<close>

section \<open>Error classes\<close>

fun exn_class :: "py_exn \<Rightarrow> string" where
  "exn_class (ValueError m) = ''ValueError''"
| "exn_class (TypeError m) = ''TypeError''"
| "exn_class (RuntimeError m) = ''RuntimeError''"
| "exn_class (PermissionError m) = ''PermissionError''"
| "exn_class (FileNotFoundError m) = ''FileNotFoundError''"
| "exn_class (TimeoutError m) = ''TimeoutError''"
| "exn_class (NamedError c m) = c"
| "exn_class (RequestError c m r) = c"
| "exn_class (BaseException m) = ''BaseException''"

definition agent_error_classes :: "string list" where
  "agent_error_classes = [''AgentError'', ''LLMError'', ''SandboxError'', ''ValidationError'', ''ProtocolError'', ''PluginError'']"

definition is_agent_error :: "py_exn \<Rightarrow> bool" where
  "is_agent_error e \<longleftrightarrow> exn_class e \<in> set agent_error_classes"

text \<open>The constructors: the message is the detail or, when that is blank, the reason.\<close>

definition agent_error :: "string \<Rightarrow> string \<Rightarrow> string \<Rightarrow> bool \<Rightarrow> py_exn" where
  "agent_error cls reason detail retryable =
     (let r = (if reason = [] then ''agent_error'' else reason);
          safe_reason = (if strip r = [] then ''agent_error'' else strip r)
      in RequestError cls (if strip detail = [] then safe_reason else strip detail) retryable)"

definition llm_error :: "string \<Rightarrow> bool \<Rightarrow> py_exn" where
  "llm_error detail retryable = agent_error ''LLMError'' ''llm_error'' detail retryable"

definition sandbox_error :: "string \<Rightarrow> bool \<Rightarrow> py_exn" where
  "sandbox_error detail retryable = agent_error ''SandboxError'' ''sandbox_error'' detail retryable"

definition validation_agent_error :: "string \<Rightarrow> py_exn" where
  "validation_agent_error detail = agent_error ''ValidationError'' ''validation_error'' detail False"

definition protocol_error :: "string \<Rightarrow> bool \<Rightarrow> py_exn" where
  "protocol_error detail retryable = agent_error ''ProtocolError'' ''protocol_error'' detail retryable"

definition plugin_error :: "string \<Rightarrow> bool \<Rightarrow> py_exn" where
  "plugin_error detail retryable = agent_error ''PluginError'' ''plugin_error'' detail retryable"

definition retryable_flag :: "py_exn \<Rightarrow> bool" where
  "retryable_flag e = (case e of RequestError c m r \<Rightarrow> r | _ \<Rightarrow> False)"

text \<open>The call of a constructor with a keyword it does not have.\<close>

definition unexpected_keyword :: "string \<Rightarrow> string \<Rightarrow> py_exn" where
  "unexpected_keyword cls kw =
     TypeError (cls @ ''.__init__() got an unexpected keyword argument '' @ quote_text kw)"

definition mentions_any :: "string list \<Rightarrow> string \<Rightarrow> bool" where
  "mentions_any kws s \<longleftrightarrow> list_ex (\<lambda>k. contains k s) kws"

definition categorize_exception :: "py_exn \<Rightarrow> string option" where
  "categorize_exception e =
     (let name = lower (exn_class e) in
      if is_agent_error e then Some (exn_class e)
      else if mentions_any [''llm'', ''openai'', ''anthropic''] name then Some ''LLMError''
      else if mentions_any [''sandbox'', ''container'', ''docker''] name then Some ''SandboxError''
      else if mentions_any [''validation'', ''value'', ''type''] name then Some ''ValidationError''
      else if mentions_any [''protocol'', ''http'', ''connection''] name then Some ''ProtocolError''
      else if mentions_any [''plugin''] name then Some ''PluginError''
      else None)"

text \<open>\<open>error_class("").retryable\<close>.\<close>

definition default_of_class :: "string \<Rightarrow> bool" where
  "default_of_class cls = retryable_flag
     (if cls = ''LLMError'' then llm_error [] False
      else if cls = ''SandboxError'' then sandbox_error [] False
      else if cls = ''ValidationError'' then validation_agent_error []
      else if cls = ''ProtocolError'' then protocol_error [] True
      else if cls = ''PluginError'' then plugin_error [] False
      else agent_error cls [] [] False)"

definition is_retryable_error :: "py_exn \<Rightarrow> bool" where
  "is_retryable_error e =
     (if is_agent_error e then retryable_flag e
      else case categorize_exception e of Some cls \<Rightarrow> default_of_class cls | None \<Rightarrow> False)"

section \<open>Timeouts\<close>

record timeout_config =
  to_intent :: int
  to_planner :: int
  to_coder :: int
  to_reviewer :: int
  to_tester :: int
  to_max_task :: int

text \<open>A stage's own configuration is checked when it is made.\<close>

definition stage_timeout_config :: "string \<Rightarrow> int \<Rightarrow> (string \<times> int) result" where
  "stage_timeout_config stage seconds =
     (if strip stage = [] then Inl (ValueError ''stage must not be empty'')
      else if seconds \<le> 0 then Inl (ValueError (''timeout_seconds must be positive, got '' @ show_int seconds))
      else Inr (stage, seconds))"

definition default_timeouts :: timeout_config where
  "default_timeouts = \<lparr>to_intent = 30, to_planner = 60, to_coder = 300, to_reviewer = 120, to_tester = 180,
     to_max_task = 30 * 60\<rparr>"

definition stage_timeouts :: "timeout_config \<Rightarrow> (string \<times> int) list" where
  "stage_timeouts c = [(''intent'', to_intent c), (''planner'', to_planner c), (''coder'', to_coder c),
     (''reviewer'', to_reviewer c), (''tester'', to_tester c)]"

definition get_stage_timeout :: "timeout_config \<Rightarrow> string \<Rightarrow> int result" where
  "get_stage_timeout c stage =
     (case map_of (stage_timeouts c) (lower (strip stage)) of
        Some n \<Rightarrow> Inr n
      | None \<Rightarrow> Inl (ValueError (''Unknown stage '' @ quote_text stage @ ''. Valid stages: '' @
          py_repr (PList (map PStr (sort (map fst (stage_timeouts c))))))))"

definition stage_timeout_error :: "string \<Rightarrow> int \<Rightarrow> string \<Rightarrow> py_exn" where
  "stage_timeout_error stage seconds task_id =
     NamedError ''TimeoutError''
       (''Timeout exceeded: '' @ (if task_id \<noteq> [] then ''task_id='' @ repr_str task_id @ '', '' else []) @
        ''stage='' @ repr_str stage @ '', limit='' @ show_int seconds @ ''s'')"

definition effective_timeout :: "string \<Rightarrow> int \<Rightarrow> timeout_config option \<Rightarrow> int" where
  "effective_timeout stage seconds config =
     (case config of None \<Rightarrow> seconds
      | Some c \<Rightarrow> (case get_stage_timeout c stage of Inr n \<Rightarrow> n | Inl e \<Rightarrow> seconds))"

text \<open>\<open>posix\<close> is \<open>hasattr(signal, "SIGALRM")\<close>; \<open>overran n w w'\<close> says whether the watching thread's wait of \<open>n\<close>
  seconds, begun in \<open>w\<close>, has timed out in \<open>w'\<close>. Its error replaces the result or the exception of the block.\<close>

definition stage_timeout ::
  "bool \<Rightarrow> (int \<Rightarrow> 'w \<Rightarrow> 'w \<Rightarrow> bool) \<Rightarrow> string \<Rightarrow> int \<Rightarrow> string \<Rightarrow> timeout_config option \<Rightarrow> ('w, 'a) act \<Rightarrow> ('w, 'a) act" where
  "stage_timeout posix overran stage seconds task_id config body =
     (let n = effective_timeout stage seconds config in
      if n \<le> 0 then throw (ValueError (''timeout_seconds must be positive, got '' @ show_int n))
      else if posix then body
      else (\<lambda>w. case body w of (r, w') \<Rightarrow>
              (if overran n w w' then Inl (stage_timeout_error stage n task_id) else r, w')))"

section \<open>Graphs\<close>

record 'w wf_graph =
  wg_nodes :: "(string \<times> (pydict \<Rightarrow> ('w, pydict) act)) list"
  wg_entry :: string
  wg_edges :: "(string \<times> string) list"

text \<open>What an update of a node does to the state: it replaces the keys it holds.\<close>

definition merge_state :: "pydict \<Rightarrow> pydict \<Rightarrow> pydict" where
  "merge_state state upd = fold (\<lambda>(k, v) d. AList.update k v d) upd state"

fun run_nodes :: "(pydict \<Rightarrow> ('w, pydict) act) list \<Rightarrow> pydict \<Rightarrow> ('w, pydict) act" where
  "run_nodes [] state = ret state"
| "run_nodes (f # fs) state = bind (f state) (\<lambda>upd. run_nodes fs (merge_state state upd))"

text \<open>The nodes from \<open>name\<close> along the edges to the end, if that takes at most \<open>n\<close> nodes.\<close>

fun chain_from :: "'w wf_graph \<Rightarrow> nat \<Rightarrow> string \<Rightarrow> (pydict \<Rightarrow> ('w, pydict) act) list option" where
  "chain_from g 0 name = None"
| "chain_from g (Suc n) name =
     (if name = ''__end__'' then Some []
      else case (map_of (wg_nodes g) name, map_of (wg_edges g) name) of
             (Some f, Some next) \<Rightarrow> map_option (Cons f) (chain_from g n next)
           | _ \<Rightarrow> None)"

definition graph_chain :: "'w wf_graph \<Rightarrow> (pydict \<Rightarrow> ('w, pydict) act) list option" where
  "graph_chain g = chain_from g (Suc (length (wg_nodes g))) (wg_entry g)"

record 'w wf_env =
  wf_now :: "'w \<Rightarrow> rat"
  wf_invoke :: "'w wf_graph \<Rightarrow> pydict \<Rightarrow> ('w, pydict) act"
  wf_max_retries :: int
  wf_timeouts :: timeout_config
  wf_posix :: bool
  wf_overran :: "int \<Rightarrow> 'w \<Rightarrow> 'w \<Rightarrow> bool"

definition runs_chains :: "'w wf_env \<Rightarrow> bool" where
  "runs_chains env \<longleftrightarrow>
     (\<forall>g fs. graph_chain g = Some fs \<longrightarrow> wf_invoke env g = run_nodes fs)"

section \<open>Errors and retries\<close>

definition build_error_record :: "py_exn \<Rightarrow> string \<Rightarrow> string \<Rightarrow> rat \<Rightarrow> pydict result" where
  "build_error_record e stage task_id now =
     (if is_agent_error e
      then Inl (NamedError ''AttributeError''
             (quote_text (exn_class e) @ '' object has no attribute '' @ quote_text ''to_dict''))
      else Inr [(''errorType'', PStr (exn_class e)), (''reason'', PStr ''unexpected_error''),
                (''detail'', PStr (exn_text e)), (''errorCode'', PStr []), (''description'', PStr (exn_text e)),
                (''retryable'', PBool False), (''stage'', PStr stage), (''taskId'', PStr task_id),
                (''timestamp'', PFloat now)])"

definition dict_of :: "pyval \<Rightarrow> pydict" where
  "dict_of v = (case v of PDict d \<Rightarrow> d | _ \<Rightarrow> [])"

definition list_of :: "pyval \<Rightarrow> pyval list" where
  "list_of v = (case v of PList xs \<Rightarrow> xs | _ \<Rightarrow> [])"

definition str_of :: "pyval \<Rightarrow> string" where
  "str_of v = (case v of PStr s \<Rightarrow> s | _ \<Rightarrow> [])"

text \<open>\<open>int(state.get("retry_count") or 0)\<close>.\<close>

definition retry_count_of :: "pydict \<Rightarrow> int result" where
  "retry_count_of state = py_int (py_or (dget state ''retry_count'') (PInt 0))"

definition handle_error :: "int \<Rightarrow> rat \<Rightarrow> pydict \<Rightarrow> py_exn \<Rightarrow> string \<Rightarrow> pydict result" where
  "handle_error max_retries now state e stage =
     (case build_error_record e stage (str_of (dget_or state ''task_id'' (PStr []))) now of
        Inl x \<Rightarrow> Inl x
      | Inr record \<Rightarrow>
          let updated = AList.update ''errors'' (PList (list_of (dget state ''errors'') @ [PDict record])) state in
          (case retry_count_of state of
             Inl x \<Rightarrow> Inl x
           | Inr n \<Rightarrow> Inr (AList.update ''stage''
               (PStr (if is_retryable_error e \<and> n < max_retries then ''retrying'' else ''failed'')) updated)))"

definition should_retry :: "int \<Rightarrow> pydict \<Rightarrow> bool result" where
  "should_retry max_retries state =
     (if dget state ''stage'' \<noteq> PStr ''retrying'' then Inr False
      else case retry_count_of state of
             Inl x \<Rightarrow> Inl x
           | Inr n \<Rightarrow>
               if n \<ge> max_retries then Inr False
               else let errors = list_of (dget state ''errors'') in
                    if errors = [] then Inr False
                    else Inr (truthy (dget_or (dict_of (last errors)) ''retryable'' (PBool False))))"

section \<open>The loop\<close>

record 'w wf_world =
  wf_invocations :: nat
  wf_rest :: 'w

definition call_graph :: "'w wf_env \<Rightarrow> 'w wf_graph \<Rightarrow> pydict \<Rightarrow> 'w wf_world \<Rightarrow> pydict result \<times> 'w wf_world" where
  "call_graph env g state w =
     (let (r, v) = wf_invoke env g state (wf_rest w)
      in (r, w\<lparr>wf_invocations := wf_invocations w + 1, wf_rest := v\<rparr>))"

definition retries_left :: "int \<Rightarrow> pydict \<Rightarrow> nat" where
  "retries_left max_retries state = (case retry_count_of state of Inr n \<Rightarrow> nat (max_retries - n) | Inl e \<Rightarrow> 0)"

lemma retry_count_of_update:
  "retry_count_of (AList.update k v state) =
     (if k = ''retry_count'' then py_int (py_or v (PInt 0)) else retry_count_of state)"
  by (simp add: retry_count_of_def)

lemma handle_error_count:
  "handle_error m now state e stage = Inr updated \<Longrightarrow> retry_count_of updated = retry_count_of state"
  by (auto simp: handle_error_def Let_def retry_count_of_update split: sum.splits)

lemma should_retry_count:
  "should_retry m state = Inr True \<Longrightarrow> \<exists>n. retry_count_of state = Inr n \<and> n < m"
  by (auto simp: should_retry_def Let_def split: if_splits sum.splits)

definition next_try :: "pydict \<Rightarrow> pydict" where
  "next_try state = AList.update ''retry_count''
     (PInt ((case retry_count_of state of Inr n \<Rightarrow> n | Inl e \<Rightarrow> 0) + 1)) state"

lemma retries_left_next:
  "should_retry m updated = Inr True \<Longrightarrow> handle_error m now state e stage = Inr updated \<Longrightarrow>
   retries_left m (next_try updated) < retries_left m state"
  by (drule should_retry_count, frule handle_error_count)
    (auto simp: retries_left_def next_try_def retry_count_of_update py_or_def)

function run_with_retry ::
  "'w wf_env \<Rightarrow> 'w wf_graph \<Rightarrow> pydict \<Rightarrow> 'w wf_world \<Rightarrow> pydict result \<times> 'w wf_world" where
  "run_with_retry env g state w =
     (case call_graph env g state w of
        (Inr final, w1) \<Rightarrow> (Inr final, w1)
      | (Inl e, w1) \<Rightarrow>
          if \<not> is_Exception e then (Inl e, w1)
          else case handle_error (wf_max_retries env) (wf_now env (wf_rest w1)) state e
                      (str_of (dget_or state ''stage'' (PStr ''unknown''))) of
                 Inl x \<Rightarrow> (Inl x, w1)
               | Inr updated \<Rightarrow>
                   (case should_retry (wf_max_retries env) updated of
                      Inl x \<Rightarrow> (Inl x, w1)
                    | Inr again \<Rightarrow>
                        if again then run_with_retry env g (next_try updated) w1 else (Inr updated, w1)))"
  by pat_completeness auto

termination run_with_retry
  by (relation "measure (\<lambda>(env, g, state, w). retries_left (wf_max_retries env) state)")
    (auto dest: retries_left_next)

declare run_with_retry.simps [simp del]

definition run_workflow ::
  "'w wf_env \<Rightarrow> 'w wf_graph \<Rightarrow> (pydict \<Rightarrow> pydict) \<Rightarrow> pydict \<Rightarrow> ('w wf_world, pydict) act" where
  "run_workflow env graph initial_state task =
     stage_timeout (wf_posix env) (\<lambda>n w w'. wf_overran env n (wf_rest w) (wf_rest w')) ''coder''
       (to_max_task (wf_timeouts env)) (py_str (dget_or task ''task_id'' (PStr []))) None
       (run_with_retry env graph (initial_state task))"

section \<open>No error is ever retried\<close>

lemma record_not_retryable:
  "build_error_record e stage task_id now = Inr record \<Longrightarrow> dget_or record ''retryable'' (PBool False) = PBool False"
  by (auto simp: build_error_record_def dget_or_def split: if_splits)

lemma handle_error_last:
  "handle_error m now state e stage = Inr updated \<Longrightarrow>
   \<exists>xs record. dget updated ''errors'' = PList (xs @ [PDict record]) \<and> dget_or record ''retryable'' (PBool False) = PBool False"
  by (auto simp: handle_error_def Let_def dest: record_not_retryable split: sum.splits)

lemma should_retry_never:
  assumes "handle_error m now state e stage = Inr updated"
  shows "should_retry m updated \<noteq> Inr True"
proof -
  obtain xs r where "dget updated ''errors'' = PList (xs @ [PDict r])" "dget_or r ''retryable'' (PBool False) = PBool False"
    using handle_error_last [OF assms] by blast
  then show ?thesis by (auto simp: should_retry_def Let_def list_of_def dict_of_def split: sum.splits)
qed

text \<open>C4. The retry loop of a workflow ends, and after exactly one invocation of the graph: whatever the graph
  does and whatever number of retries is configured, no error is ever retried.\<close>

theorem graph_invoked_exactly_once:
  "wf_invocations (snd (run_with_retry env g state w)) = wf_invocations w + 1"
proof -
  obtain r w1 where c: "call_graph env g state w = (r, w1)" by force
  then have w1: "wf_invocations w1 = wf_invocations w + 1"
    by (auto simp: call_graph_def split: prod.splits)
  show ?thesis
    using w1 should_retry_never
    by (subst run_with_retry.simps) (auto simp: c split: sum.splits)
qed

text \<open>What a failed invocation comes to.\<close>

definition failed_state :: "int \<Rightarrow> rat \<Rightarrow> pydict \<Rightarrow> py_exn \<Rightarrow> int \<Rightarrow> pydict" where
  "failed_state max_retries now state e n =
     AList.update ''stage'' (PStr (if categorize_exception e = Some ''ProtocolError'' \<and> n < max_retries then ''retrying'' else ''failed''))
       (AList.update ''errors'' (PList (list_of (dget state ''errors'') @
          [PDict [(''errorType'', PStr (exn_class e)), (''reason'', PStr ''unexpected_error''),
                  (''detail'', PStr (exn_text e)), (''errorCode'', PStr []), (''description'', PStr (exn_text e)),
                  (''retryable'', PBool False), (''stage'', PStr (str_of (dget_or state ''stage'' (PStr ''unknown'')))),
                  (''taskId'', PStr (str_of (dget_or state ''task_id'' (PStr [])))), (''timestamp'', PFloat now)]])) state)"

lemma categorize_plain:
  "\<not> is_agent_error e \<Longrightarrow>
     (case categorize_exception e of Some cls \<Rightarrow> default_of_class cls | None \<Rightarrow> False) \<longleftrightarrow>
     categorize_exception e = Some ''ProtocolError''"
  by (simp add: categorize_exception_def default_of_class_def Let_def retryable_flag_def llm_error_def
      sandbox_error_def validation_agent_error_def protocol_error_def plugin_error_def agent_error_def)

text \<open>How a run ends when the graph raises: an error of the repository's own classes, which the code means
  to record or to retry, leaves the run as an \<open>AttributeError\<close>; any other error is recorded in the state, and the
  stage becomes \<open>failed\<close>, or, for the errors counted as protocol errors while retries are left, \<open>retrying\<close>,
  which nothing follows.\<close>

theorem run_outcome_of_errors:
  assumes "wf_invoke env g state (wf_rest w) = (Inl e, v)" "is_Exception e" "retry_count_of state = Inr n"
  shows "run_with_retry env g state w =
    (if is_agent_error e
     then Inl (NamedError ''AttributeError'' (quote_text (exn_class e) @ '' object has no attribute '' @ quote_text ''to_dict''))
     else Inr (failed_state (wf_max_retries env) (wf_now env v) state e n),
     \<lparr>wf_invocations = wf_invocations w + 1, wf_rest = v\<rparr>)"
proof -
  let ?w = "\<lparr>wf_invocations = wf_invocations w + 1, wf_rest = v\<rparr>"
  have c: "call_graph env g state w = (Inl e, ?w)" by (simp add: call_graph_def assms(1))
  show ?thesis
  proof (cases "is_agent_error e")
    case True
    then show ?thesis
      by (subst run_with_retry.simps) (simp add: c assms(2) handle_error_def build_error_record_def)
  next
    case False
    then have h: "handle_error (wf_max_retries env) (wf_now env v) state e (str_of (dget_or state ''stage'' (PStr ''unknown'')))
        = Inr (failed_state (wf_max_retries env) (wf_now env v) state e n)"
      by (simp add: handle_error_def build_error_record_def assms(3) failed_state_def is_retryable_error_def
          categorize_plain Let_def)
    have "should_retry (wf_max_retries env) (failed_state (wf_max_retries env) (wf_now env v) state e n) = Inr False"
      by (auto simp: should_retry_def failed_state_def retry_count_of_update assms(3) Let_def list_of_def dict_of_def
          dget_or_def)
    with False h c assms(2) show ?thesis by (subst run_with_retry.simps) simp
  qed
qed

text \<open>The error of a run over its time limit, and when leaving the block raises it.\<close>

definition run_timeout_error :: "'w wf_env \<Rightarrow> pydict \<Rightarrow> py_exn" where
  "run_timeout_error env task = stage_timeout_error ''coder'' (to_max_task (wf_timeouts env))
     (py_str (dget_or task ''task_id'' (PStr [])))"

definition run_late :: "'w wf_env \<Rightarrow> 'w \<Rightarrow> 'w \<Rightarrow> bool" where
  "run_late env v v' \<longleftrightarrow> \<not> wf_posix env \<and> wf_overran env (to_max_task (wf_timeouts env)) v v'"

lemma run_workflow_limit:
  assumes "0 < to_max_task (wf_timeouts env)" "run_with_retry env g (init task) w = (r, w')"
  shows "run_workflow env g init task w =
    (if run_late env (wf_rest w) (wf_rest w') then Inl (run_timeout_error env task) else r, w')"
  using assms by (auto simp: run_workflow_def stage_timeout_def effective_timeout_def run_late_def run_timeout_error_def Let_def)

definition sample_wf_env :: "unit wf_env" where
  "sample_wf_env = \<lparr>wf_now = (\<lambda>_. 0), wf_invoke = (\<lambda>g state w. (Inl (NamedError ''ConnectionError'' ''refused''), w)),
     wf_max_retries = 3, wf_timeouts = default_timeouts, wf_posix = True, wf_overran = (\<lambda>n w w'. False)\<rparr>"

definition sample_wf_graph :: "unit wf_graph" where
  "sample_wf_graph = \<lparr>wg_nodes = [(''only'', \<lambda>state. ret state)], wg_entry = ''only'', wg_edges = [(''only'', ''__end__'')]\<rparr>"

end
