(* ===== verification/Llm_Cache.thy ===== *)
theory Llm_Cache
  imports Prelude
begin

text \<open>
  The cache of answers of a language model, \<open>_LLMResponseCache\<close> and its registry in
  \<open>llm/llm_client.py\<close>. The entries are an \<open>OrderedDict\<close>: the list of its items, the one used longest
  ago first. Each method holds the lock for its whole body, so it is one step; the readings of the
  monotonic clock are arguments (\<open>set\<close> reads it twice, for the purge and for the new expiry).
  The locale \<open>answer_store\<close> is what a client of an answer cache relies on: a lookup only ever
  gives what was stored for the key.
\<close>

section \<open>Data\<close>

record cache_settings =
  cs_enabled :: bool
  cs_max_size :: int
  cs_ttl_seconds :: rat

record cache_entry =
  ce_value :: string
  ce_expires_at :: rat

record llm_cache =
  lc_settings :: cache_settings
  lc_entries :: "(string \<times> cache_entry) list"
  lc_hits :: int
  lc_misses :: int
  lc_bypasses :: int
  lc_failures :: int
  lc_discards :: int
  lc_evictions :: int

record llm_cache_stats =
  st_enabled :: bool
  st_max_size :: int
  st_ttl_seconds :: rat
  st_size :: int
  st_hits :: int
  st_misses :: int
  st_bypasses :: int
  st_failures :: int
  st_discards :: int
  st_evictions :: int
  st_requests :: int
  st_hit_rate :: rat
  st_bypass_rate :: rat
  st_failure_rate :: rat

definition new_llm_cache :: "cache_settings \<Rightarrow> llm_cache" where
  "new_llm_cache s = \<lparr>lc_settings = s, lc_entries = [], lc_hits = 0, lc_misses = 0, lc_bypasses = 0,
     lc_failures = 0, lc_discards = 0, lc_evictions = 0\<rparr>"

section \<open>Operations\<close>

definition purge_expired :: "rat \<Rightarrow> llm_cache \<Rightarrow> llm_cache" where
  "purge_expired now c = c\<lparr>lc_entries := filter (\<lambda>(k, e). \<not> ce_expires_at e \<le> now) (lc_entries c)\<rparr>"

text \<open>\<open>OrderedDict.move_to_end\<close> of a key that is present.\<close>

definition move_to_end :: "string \<Rightarrow> (string \<times> cache_entry) list \<Rightarrow> (string \<times> cache_entry) list" where
  "move_to_end k es = (case map_of es k of Some e \<Rightarrow> AList.delete k es @ [(k, e)] | None \<Rightarrow> es)"

definition cache_get :: "rat \<Rightarrow> string \<Rightarrow> llm_cache \<Rightarrow> (bool \<times> string) \<times> llm_cache" where
  "cache_get now key c0 =
     (let c = purge_expired now c0 in
      case map_of (lc_entries c) key of
        None \<Rightarrow> ((False, []), c\<lparr>lc_misses := lc_misses c + 1\<rparr>)
      | Some e \<Rightarrow> ((True, ce_value e),
          c\<lparr>lc_entries := move_to_end key (lc_entries c), lc_hits := lc_hits c + 1\<rparr>))"

text \<open>The loop of \<open>set\<close> that takes the oldest entries out.\<close>

fun evict_oldest :: "int \<Rightarrow> (string \<times> cache_entry) list \<Rightarrow> int \<Rightarrow> (string \<times> cache_entry) list \<times> int" where
  "evict_oldest max_size [] evictions = ([], evictions)"
| "evict_oldest max_size (x # es) evictions =
     (if int (length (x # es)) > max_size then evict_oldest max_size es (evictions + 1)
      else (x # es, evictions))"

definition cache_set :: "rat \<Rightarrow> rat \<Rightarrow> string \<Rightarrow> string \<Rightarrow> llm_cache \<Rightarrow> llm_cache" where
  "cache_set now later key v c0 =
     (let c = purge_expired now c0;
          e = \<lparr>ce_value = v, ce_expires_at = later + cs_ttl_seconds (lc_settings c)\<rparr>;
          (es, n) = evict_oldest (cs_max_size (lc_settings c))
                      (move_to_end key (AList.update key e (lc_entries c))) (lc_evictions c)
      in c\<lparr>lc_entries := es, lc_evictions := n\<rparr>)"

definition cache_discard :: "string \<Rightarrow> llm_cache \<Rightarrow> bool \<times> llm_cache" where
  "cache_discard key c =
     (if map_of (lc_entries c) key \<noteq> None
      then (True, c\<lparr>lc_entries := AList.delete key (lc_entries c), lc_discards := lc_discards c + 1,
                    lc_failures := lc_failures c + 1\<rparr>)
      else (False, c))"

definition cache_clear :: "bool \<Rightarrow> llm_cache \<Rightarrow> llm_cache" where
  "cache_clear reset_stats c0 =
     (let c = c0\<lparr>lc_entries := []\<rparr> in
      if reset_stats
      then c\<lparr>lc_hits := 0, lc_misses := 0, lc_bypasses := 0, lc_failures := 0, lc_discards := 0, lc_evictions := 0\<rparr>
      else c)"

definition record_bypass :: "llm_cache \<Rightarrow> llm_cache" where
  "record_bypass c = c\<lparr>lc_bypasses := lc_bypasses c + 1\<rparr>"

definition record_cache_failure :: "llm_cache \<Rightarrow> llm_cache" where
  "record_cache_failure c = c\<lparr>lc_failures := lc_failures c + 1\<rparr>"

definition cache_size :: "rat \<Rightarrow> llm_cache \<Rightarrow> int \<times> llm_cache" where
  "cache_size now c0 = (let c = purge_expired now c0 in (int (length (lc_entries c)), c))"

definition safe_ratio :: "int \<Rightarrow> int \<Rightarrow> rat" where
  "safe_ratio numerator denominator =
     (if denominator \<le> 0 then 0 else round_to 4 (of_int numerator / of_int denominator))"

definition cache_stats :: "rat \<Rightarrow> llm_cache \<Rightarrow> llm_cache_stats \<times> llm_cache" where
  "cache_stats now c0 =
     (let c = purge_expired now c0; requests = lc_hits c + lc_misses c + lc_bypasses c in
      (\<lparr>st_enabled = cs_enabled (lc_settings c), st_max_size = cs_max_size (lc_settings c),
        st_ttl_seconds = cs_ttl_seconds (lc_settings c), st_size = int (length (lc_entries c)),
        st_hits = lc_hits c, st_misses = lc_misses c, st_bypasses = lc_bypasses c,
        st_failures = lc_failures c, st_discards = lc_discards c, st_evictions = lc_evictions c,
        st_requests = requests, st_hit_rate = safe_ratio (lc_hits c) requests,
        st_bypass_rate = safe_ratio (lc_bypasses c) requests,
        st_failure_rate = safe_ratio (lc_failures c) requests\<rparr>, c))"

text \<open>The registry of the process: clients with equal settings share one cache.\<close>

definition shared_cache ::
  "cache_settings \<Rightarrow> (cache_settings \<times> llm_cache) list \<Rightarrow> llm_cache \<times> (cache_settings \<times> llm_cache) list" where
  "shared_cache s reg =
     (case map_of reg s of Some c \<Rightarrow> (c, reg)
      | None \<Rightarrow> let c = new_llm_cache s in (c, AList.update s c reg))"

section \<open>Sequences of operations\<close>

datatype cache_op =
    CGet rat string
  | CSet rat rat string string
  | CDiscard string
  | CClear bool
  | CBypass
  | CFailure
  | CSize rat
  | CStats rat

fun cache_step :: "cache_op \<Rightarrow> llm_cache \<Rightarrow> llm_cache" where
  "cache_step (CGet now k) c = snd (cache_get now k c)"
| "cache_step (CSet now later k v) c = cache_set now later k v c"
| "cache_step (CDiscard k) c = snd (cache_discard k c)"
| "cache_step (CClear r) c = cache_clear r c"
| "cache_step CBypass c = record_bypass c"
| "cache_step CFailure c = record_cache_failure c"
| "cache_step (CSize now) c = snd (cache_size now c)"
| "cache_step (CStats now) c = snd (cache_stats now c)"

fun cache_run :: "cache_op list \<Rightarrow> llm_cache \<Rightarrow> llm_cache" where
  "cache_run [] c = c"
| "cache_run (x # xs) c = cache_run xs (cache_step x c)"

definition cache_keys :: "llm_cache \<Rightarrow> string list" where
  "cache_keys c = map fst (lc_entries c)"

section \<open>Facts about the entries\<close>

lemma entries_purge: "lc_entries (purge_expired now c) = filter (\<lambda>(k, e). \<not> ce_expires_at e \<le> now) (lc_entries c)"
  by (simp add: purge_expired_def)

lemma purge_keeps [simp]:
  "lc_settings (purge_expired now c) = lc_settings c" "lc_hits (purge_expired now c) = lc_hits c"
  "lc_misses (purge_expired now c) = lc_misses c" "lc_bypasses (purge_expired now c) = lc_bypasses c"
  "lc_failures (purge_expired now c) = lc_failures c" "lc_discards (purge_expired now c) = lc_discards c"
  "lc_evictions (purge_expired now c) = lc_evictions c"
  by (simp_all add: purge_expired_def)

lemma delete_filter: "AList.delete k xs = filter (\<lambda>(j, v). j \<noteq> k) xs"
  by (induction xs) auto

lemma distinct_filter_keys [intro]: "distinct (map fst xs) \<Longrightarrow> distinct (map fst (filter P xs))"
  by (induction xs) auto

lemma distinct_delete [intro]: "distinct (map fst xs) \<Longrightarrow> distinct (map fst (AList.delete k xs))"
  by (simp add: delete_filter distinct_filter_keys)

lemma delete_not_in [simp]: "k \<notin> fst ` set (AList.delete k xs)"
  by (auto simp: delete_filter)

lemma distinct_move_to_end: "distinct (map fst es) \<Longrightarrow> distinct (map fst (move_to_end k es))"
  by (auto simp: move_to_end_def delete_filter distinct_filter_keys split: option.splits)

lemma delete_update: "AList.delete k (AList.update k v xs) = AList.delete k xs"
  by (induction xs) auto

lemma move_to_end_update: "move_to_end k (AList.update k e es) = AList.delete k es @ [(k, e)]"
  by (simp add: move_to_end_def AList.update_conv delete_update)

lemma set_move_to_end: "set (move_to_end k es) \<subseteq> set es"
  by (auto simp: move_to_end_def delete_filter dest: map_of_SomeD split: option.splits)

lemma length_move_to_end: "distinct (map fst es) \<Longrightarrow> length (move_to_end k es) = length es"
proof (cases "map_of es k")
  case (Some e)
  assume d: "distinct (map fst es)"
  have "fst ` set (move_to_end k es) = fst ` set es"
    using Some by (force simp: move_to_end_def delete_filter dest: map_of_SomeD)
  then show ?thesis
    using distinct_card [OF d] distinct_card [OF distinct_move_to_end [OF d]] by (metis length_map list.set_map)
qed (simp add: move_to_end_def)

text \<open>The loop drops the oldest entries, as many as are too many, and counts them.\<close>

lemma evict_oldest_drop:
  "0 \<le> m \<Longrightarrow> evict_oldest m es n = (drop (length es - nat m) es, n + max 0 (int (length es) - m))"
  by (induction m es n rule: evict_oldest.induct) (auto simp: Suc_diff_le nat_le_iff)

lemma entries_set:
  "0 \<le> cs_max_size (lc_settings c) \<Longrightarrow> lc_entries (cache_set now later k v c) =
     (let es = AList.delete k (lc_entries (purge_expired now c)) @
                 [(k, \<lparr>ce_value = v, ce_expires_at = later + cs_ttl_seconds (lc_settings c)\<rparr>)]
      in drop (length es - nat (cs_max_size (lc_settings c))) es)"
  by (simp add: cache_set_def move_to_end_update evict_oldest_drop Let_def)

lemma cache_step_settings [simp]: "lc_settings (cache_step x c) = lc_settings c"
  by (cases x) (auto simp: cache_get_def cache_set_def cache_discard_def cache_clear_def record_bypass_def
      record_cache_failure_def cache_size_def cache_stats_def Let_def split: option.splits prod.splits)

lemma cache_run_settings [simp]: "lc_settings (cache_run xs c) = lc_settings c"
  by (induction xs arbitrary: c) auto

section \<open>The invariant\<close>

definition cache_ok :: "llm_cache \<Rightarrow> bool" where
  "cache_ok c \<longleftrightarrow> distinct (cache_keys c) \<and> int (length (lc_entries c)) \<le> cs_max_size (lc_settings c)"

lemma cache_ok_new: "1 \<le> cs_max_size s \<Longrightarrow> cache_ok (new_llm_cache s)"
  by (simp add: cache_ok_def cache_keys_def new_llm_cache_def)

lemma cache_ok_purge: "cache_ok c \<Longrightarrow> cache_ok (purge_expired now c)"
  unfolding cache_ok_def cache_keys_def
  by (auto simp: entries_purge distinct_filter_keys intro: order_trans [OF of_nat_mono [OF length_filter_le]])

lemma cache_ok_get: "cache_ok c \<Longrightarrow> cache_ok (snd (cache_get now k c))"
  using cache_ok_purge [of c now]
  by (auto simp: cache_get_def Let_def cache_ok_def cache_keys_def distinct_move_to_end length_move_to_end
      split: option.splits)

lemma distinct_drop_keys: "distinct (map fst es) \<Longrightarrow> distinct (map fst (drop n es))"
  by (metis distinct_drop drop_map)

lemma length_last_n: "0 \<le> m \<Longrightarrow> int (length (drop (length es - nat m) es)) \<le> m"
  by simp

lemma cache_ok_set: "cache_ok c \<Longrightarrow> cache_ok (cache_set now later k v c)"
proof -
  assume ok: "cache_ok c"
  then have m: "0 \<le> cs_max_size (lc_settings c)" by (simp add: cache_ok_def)
  have set: "lc_settings (cache_set now later k v c) = lc_settings c"
    using cache_step_settings [of "CSet now later k v" c] by simp
  have d: "distinct (map fst (AList.delete k (lc_entries (purge_expired now c)) @ [(k, e)]))" for e :: cache_entry
    using cache_ok_purge [OF ok] by (auto simp: cache_ok_def cache_keys_def distinct_delete)
  show "cache_ok (cache_set now later k v c)"
    unfolding cache_ok_def cache_keys_def set entries_set [OF m] Let_def
    by (intro conjI distinct_drop_keys d length_last_n [OF m])
qed

lemma cache_ok_clear: "cache_ok c \<Longrightarrow> cache_ok (cache_clear r c)"
  by (simp add: cache_ok_def cache_keys_def cache_clear_def Let_def)

lemma cache_ok_counts: "cache_ok (record_bypass c) = cache_ok c" "cache_ok (record_cache_failure c) = cache_ok c"
  by (simp_all add: cache_ok_def cache_keys_def record_bypass_def record_cache_failure_def)

lemma cache_ok_step: "cache_ok c \<Longrightarrow> cache_ok (cache_step x c)"
proof (cases x)
  case (CDiscard k)
  assume "cache_ok c"
  moreover have "length (filter (\<lambda>(j, v). j \<noteq> k) (lc_entries c)) \<le> length (lc_entries c)" by simp
  ultimately show ?thesis
    by (auto simp del: length_filter_le simp: CDiscard cache_discard_def cache_ok_def cache_keys_def delete_filter distinct_filter_keys intro: order_trans [OF of_nat_mono])
qed (simp_all add: cache_ok_get cache_ok_set cache_ok_clear cache_ok_counts cache_size_def cache_stats_def Let_def
       cache_ok_purge)

lemma cache_ok_run: "cache_ok c \<Longrightarrow> cache_ok (cache_run xs c)"
  by (induction xs arbitrary: c) (auto simp: cache_ok_step)

section \<open>Least recently used\<close>

text \<open>\<open>recent k e S es\<close>: the entry \<open>e\<close> of \<open>k\<close> is in the cache, and every key used after it is in \<open>S\<close>.\<close>

definition recent ::
  "string \<Rightarrow> cache_entry \<Rightarrow> string set \<Rightarrow> (string \<times> cache_entry) list \<Rightarrow> bool" where
  "recent k e S es \<longleftrightarrow> (\<exists>pre post. es = pre @ (k, e) # post \<and> fst ` set post \<subseteq> S)"

lemma recent_filter: "recent k e S es \<Longrightarrow> P (k, e) \<Longrightarrow> recent k e S (filter P es)"
proof -
  assume "recent k e S es" and P: "P (k, e)"
  then obtain pre post where es: "es = pre @ (k, e) # post" "fst ` set post \<subseteq> S" by (auto simp: recent_def)
  then have "filter P es = filter P pre @ (k, e) # filter P post" "fst ` set (filter P post) \<subseteq> S"
    using P by auto
  then show ?thesis unfolding recent_def by blast
qed

lemma recent_append: "recent k e S es \<Longrightarrow> j \<in> S \<Longrightarrow> recent k e S (es @ [(j, f)])"
  unfolding recent_def by (elim exE conjE, rule_tac x = pre in exI, rule_tac x = "post @ [(j, f)]" in exI) auto

lemma recent_end: "recent k e S (es @ [(k, e)])"
  unfolding recent_def by (rule exI [of _ es], rule exI [of _ "[]"]) simp

lemma recent_in: "recent k e S es \<Longrightarrow> (k, e) \<in> set es"
  by (auto simp: recent_def)

lemma recent_lookup: "recent k e S es \<Longrightarrow> distinct (map fst es) \<Longrightarrow> map_of es k = Some e"
  by (simp add: recent_in map_of_is_SomeI)

text \<open>An entry behind which fewer than \<open>m\<close> keys can stand survives the dropping of the oldest.\<close>

lemma recent_drop:
  assumes "recent k e S es" "distinct (map fst es)" "finite S" "card S < m"
  shows "recent k e S (drop (length es - m) es)"
proof -
  from assms(1) obtain pre post where es: "es = pre @ (k, e) # post" and S: "fst ` set post \<subseteq> S"
    by (auto simp: recent_def)
  have "length post = card (fst ` set post)"
    using assms(2) distinct_card [of "map fst post"] by (simp add: es)
  also have "\<dots> \<le> card S" by (rule card_mono [OF assms(3) S])
  finally have "length es - m \<le> length pre" using assms(4) by (simp add: es)
  then have "drop (length es - m) es = drop (length es - m) pre @ (k, e) # post" by (simp add: es)
  with S show ?thesis unfolding recent_def by blast
qed

lemma recent_move_same:
  "recent k e S es \<Longrightarrow> distinct (map fst es) \<Longrightarrow> recent k e S (move_to_end k es)"
  by (simp add: move_to_end_def recent_lookup recent_end)

lemma recent_move_other:
  "recent k e S es \<Longrightarrow> j \<in> S \<Longrightarrow> j \<noteq> k \<Longrightarrow> recent k e S (move_to_end j es)"
  by (auto simp: move_to_end_def delete_filter recent_filter recent_append split: option.split)

text \<open>The operations between the storing and the lookup of \<open>k\<close>: before the entry expires; other keys that are
  looked up or stored are in \<open>S\<close>; \<open>k\<close> itself may be looked up.\<close>

fun spares :: "string \<Rightarrow> string set \<Rightarrow> rat \<Rightarrow> cache_op \<Rightarrow> bool" where
  "spares k S expiry (CGet now j) = (now < expiry \<and> (j = k \<or> j \<in> S))"
| "spares k S expiry (CSet now later j v) = (now < expiry \<and> j \<in> S)"
| "spares k S expiry (CDiscard j) = (j \<noteq> k)"
| "spares k S expiry (CClear r) = False"
| "spares k S expiry CBypass = True"
| "spares k S expiry CFailure = True"
| "spares k S expiry (CSize now) = (now < expiry)"
| "spares k S expiry (CStats now) = (now < expiry)"

lemma recent_purge:
  "recent k e S (lc_entries c) \<Longrightarrow> now < ce_expires_at e \<Longrightarrow> recent k e S (lc_entries (purge_expired now c))"
  by (simp add: entries_purge recent_filter)

lemma recent_get:
  assumes "recent k e S (lc_entries c)" "cache_ok c" "now < ce_expires_at e" "j = k \<or> j \<in> S" "k \<notin> S"
  shows "recent k e S (lc_entries (snd (cache_get now j c)))"
  using recent_purge [OF assms(1,3)] cache_ok_purge [OF assms(2), of now] assms(4,5)
  by (auto simp: cache_get_def Let_def cache_ok_def cache_keys_def recent_move_same
      intro: recent_move_other split: option.split)

lemma recent_set:
  assumes r: "recent k e S (lc_entries c)" and ok: "cache_ok c" and now: "now < ce_expires_at e"
    and j: "j \<in> S" "k \<notin> S" and S: "finite S" "int (card S) < cs_max_size (lc_settings c)"
  shows "recent k e S (lc_entries (cache_set now later j v c))"
proof -
  have m: "0 \<le> cs_max_size (lc_settings c)" using ok by (simp add: cache_ok_def)
  have "recent k e S (AList.delete j (lc_entries (purge_expired now c)) @ [(j, f)])" for f
    using recent_purge [OF r now] j by (auto simp: delete_filter intro!: recent_append recent_filter)
  moreover have "distinct (map fst (AList.delete j (lc_entries (purge_expired now c)) @ [(j, f)]))" for f :: cache_entry
    using cache_ok_purge [OF ok] by (auto simp: cache_ok_def cache_keys_def distinct_delete)
  moreover have "card S < nat (cs_max_size (lc_settings c))" using S(2) by simp
  ultimately show ?thesis using S(1) by (simp only: entries_set [OF m] Let_def recent_drop)
qed

lemma recent_step:
  assumes "recent k e S (lc_entries c)" "cache_ok c" "spares k S (ce_expires_at e) x" "k \<notin> S" "finite S"
    "int (card S) < cs_max_size (lc_settings c)"
  shows "recent k e S (lc_entries (cache_step x c))"
  using assms by (cases x) (auto simp: recent_get recent_set recent_purge cache_discard_def record_bypass_def
      record_cache_failure_def cache_size_def cache_stats_def Let_def delete_filter intro!: recent_filter)

lemma recent_run:
  assumes "recent k e S (lc_entries c)" "cache_ok c" "list_all (spares k S (ce_expires_at e)) xs" "k \<notin> S" "finite S"
    "int (card S) < cs_max_size (lc_settings c)"
  shows "recent k e S (lc_entries (cache_run xs c))"
  using assms by (induction xs arbitrary: c) (auto simp: recent_step cache_ok_step)

lemma get_recent:
  "recent k e S (lc_entries c) \<Longrightarrow> cache_ok c \<Longrightarrow> now < ce_expires_at e \<Longrightarrow> fst (cache_get now k c) = (True, ce_value e)"
  using recent_lookup [OF recent_purge [of k e S c now]] cache_ok_purge [of c now]
  by (simp add: cache_get_def Let_def cache_ok_def cache_keys_def)

section \<open>What a client relies on\<close>

text \<open>A store of answers: \<open>answers_of\<close> is what it holds. A lookup finds only what is held, and no
  operation makes up an answer.\<close>

locale answer_store =
  fixes answers_of :: "'c \<Rightarrow> (string \<times> string) set"
    and lookup :: "rat \<Rightarrow> string \<Rightarrow> 'c \<Rightarrow> (bool \<times> string) \<times> 'c"
    and store :: "rat \<Rightarrow> rat \<Rightarrow> string \<Rightarrow> string \<Rightarrow> 'c \<Rightarrow> 'c"
    and other :: "'c \<Rightarrow> 'c \<Rightarrow> bool"
  assumes lookup_sound: "lookup now k c = ((True, v), c') \<Longrightarrow> (k, v) \<in> answers_of c"
    and lookup_keeps: "answers_of (snd (lookup now k c)) \<subseteq> answers_of c"
    and store_adds: "answers_of (store now later k v c) \<subseteq> insert (k, v) (answers_of c)"
    and other_keeps: "other c c' \<Longrightarrow> answers_of c' \<subseteq> answers_of c"
begin

text \<open>Every held answer is right.\<close>

definition right :: "(string \<Rightarrow> string \<Rightarrow> bool) \<Rightarrow> 'c \<Rightarrow> bool" where
  "right R c \<longleftrightarrow> (\<forall>(k, v)\<in>answers_of c. R k v)"

lemma right_lookup: "right R c \<Longrightarrow> right R (snd (lookup now k c))"
  using lookup_keeps by (fastforce simp: right_def)

lemma right_hit: "right R c \<Longrightarrow> lookup now k c = ((True, v), c') \<Longrightarrow> R k v"
  using lookup_sound by (fastforce simp: right_def)

lemma right_store: "right R c \<Longrightarrow> R k v \<Longrightarrow> right R (store now later k v c)"
  using store_adds by (fastforce simp: right_def)

lemma right_other: "right R c \<Longrightarrow> other c c' \<Longrightarrow> right R c'"
  using other_keeps by (fastforce simp: right_def)

end

definition held_answers :: "llm_cache \<Rightarrow> (string \<times> string) set" where
  "held_answers c = (\<lambda>(k, e). (k, ce_value e)) ` set (lc_entries c)"

definition cache_shrinks :: "llm_cache \<Rightarrow> llm_cache \<Rightarrow> bool" where
  "cache_shrinks c c' \<longleftrightarrow> set (lc_entries c') \<subseteq> set (lc_entries c)"

lemma set_evict_oldest: "set (fst (evict_oldest m es n)) \<subseteq> set es"
  by (induction m es n rule: evict_oldest.induct) auto

lemma entries_get: "set (lc_entries (snd (cache_get now k c))) \<subseteq> set (lc_entries c)"
  using set_move_to_end [of k "lc_entries (purge_expired now c)"]
  by (auto simp: cache_get_def Let_def entries_purge split: option.split)

lemma entries_of_set:
  "set (lc_entries (cache_set now later k v c)) \<subseteq>
     insert (k, \<lparr>ce_value = v, ce_expires_at = later + cs_ttl_seconds (lc_settings c)\<rparr>) (set (lc_entries c))"
proof -
  let ?e = "\<lparr>ce_value = v, ce_expires_at = later + cs_ttl_seconds (lc_settings c)\<rparr>"
  let ?es = "AList.delete k (lc_entries (purge_expired now c)) @ [(k, ?e)]"
  have "lc_entries (cache_set now later k v c) =
      fst (evict_oldest (cs_max_size (lc_settings c)) ?es (lc_evictions c))"
    by (simp add: cache_set_def Let_def move_to_end_update split: prod.split)
  moreover have "set (AList.delete k (lc_entries (purge_expired now c))) \<subseteq> set (lc_entries c)"
    unfolding delete_filter entries_purge by auto
  then have "set ?es \<subseteq> insert (k, ?e) (set (lc_entries c))" by auto
  ultimately show ?thesis
    using set_evict_oldest [of "cs_max_size (lc_settings c)" ?es "lc_evictions c"] by (simp only: order_trans)
qed

interpretation resp_cache: answer_store held_answers cache_get cache_set cache_shrinks
proof
  fix now later k v and c c' :: llm_cache
  show "cache_get now k c = ((True, v), c') \<Longrightarrow> (k, v) \<in> held_answers c"
    by (fastforce simp: cache_get_def Let_def held_answers_def entries_purge split: option.splits
        dest!: map_of_SomeD)
  show "held_answers (snd (cache_get now k c)) \<subseteq> held_answers c"
    using entries_get by (fastforce simp: held_answers_def)
  show "held_answers (cache_set now later k v c) \<subseteq> insert (k, v) (held_answers c)"
    using entries_of_set [of now later k v c] by (fastforce simp: held_answers_def)
  show "cache_shrinks c c' \<Longrightarrow> held_answers c' \<subseteq> held_answers c"
    by (auto simp: held_answers_def cache_shrinks_def)
qed

section \<open>Properties\<close>

lemma recent_after_set:
  assumes "cache_ok c" "finite S" "int (card S) < cs_max_size (lc_settings c)"
  shows "recent k \<lparr>ce_value = v, ce_expires_at = later + cs_ttl_seconds (lc_settings c)\<rparr> S
    (lc_entries (cache_set now later k v c))"
proof -
  have m: "0 \<le> cs_max_size (lc_settings c)" using assms(1) by (simp add: cache_ok_def)
  have "distinct (map fst (AList.delete k (lc_entries (purge_expired now c)) @ [(k, e)]))" for e :: cache_entry
    using cache_ok_purge [OF assms(1)] by (auto simp: cache_ok_def cache_keys_def distinct_delete)
  then show ?thesis
    unfolding entries_set [OF m] Let_def using assms(2,3) by (intro recent_drop recent_end) simp_all
qed

lemma recent_after_get:
  assumes "cache_get now k c = ((True, v), c1)" "map_of (lc_entries c) k = Some e" "cache_ok c"
  shows "recent k e S (lc_entries c1)"
proof -
  have "map_of (lc_entries (purge_expired now c)) k \<in> {None, Some e}"
  proof (cases "map_of (lc_entries (purge_expired now c)) k")
    case (Some e')
    then have "(k, e') \<in> set (lc_entries c)" using map_of_SomeD [OF Some] by (auto simp: entries_purge)
    with assms(2,3) Some show ?thesis by (simp add: cache_ok_def cache_keys_def)
  qed simp
  with assms(1) show ?thesis
    by (auto simp: cache_get_def Let_def move_to_end_def recent_end split: option.splits)
qed

text \<open>C30. An answer that was stored, or found by a lookup, is found again, with the value stored last, as
  long as it has not expired, was not discarded, and fewer other keys were used since than the cache has
  places, in whatever order and number of times: the cache keeps the keys used most recently.\<close>

theorem lru_keeps_recent_answers:
  assumes "cache_ok c" "finite S" "int (card S) < cs_max_size (lc_settings c)" "k \<notin> S"
    "(c1 = cache_set now later k v c \<and> expiry = later + cs_ttl_seconds (lc_settings c)) \<or>
     (cache_get now k c = ((True, v), c1) \<and>
      map_of (lc_entries c) k = Some \<lparr>ce_value = v, ce_expires_at = expiry\<rparr>)"
    "list_all (spares k S expiry) xs" "now' < expiry"
  shows "fst (cache_get now' k (cache_run xs c1)) = (True, v)"
proof -
  let ?e = "\<lparr>ce_value = v, ce_expires_at = expiry\<rparr>"
  have r: "recent k ?e S (lc_entries c1)"
    using assms(5) recent_after_set [OF assms(1-3), of k v later now] recent_after_get [OF _ _ assms(1)] by auto
  have "c1 = cache_step (CSet now later k v) c \<or> c1 = cache_step (CGet now k) c"
    using assms(5) by auto
  then obtain x where "c1 = cache_step x c" by blast
  then have ok: "cache_ok c1" "lc_settings c1 = lc_settings c"
    by (simp_all add: cache_ok_step assms(1))
  have "recent k ?e S (lc_entries (cache_run xs c1))"
    by (rule recent_run [OF r ok(1)]) (simp_all add: ok assms)
  from get_recent [OF this cache_ok_run [OF ok(1)]] assms(7) show ?thesis by simp
qed

definition sample_small_cache :: llm_cache where
  "sample_small_cache =
     (new_llm_cache \<lparr>cs_enabled = True, cs_max_size = 2, cs_ttl_seconds = 300\<rparr>)
       \<lparr>lc_entries := [(''a'', \<lparr>ce_value = ''1'', ce_expires_at = 300\<rparr>), (''b'', \<lparr>ce_value = ''2'', ce_expires_at = 301\<rparr>)]\<rparr>"

lemma lru_keeps_recent_answers_witness:
  "fst (cache_get 5 ''a'' (cache_run [CSet 3 3 ''c'' ''3'', CGet 4 ''c'', CDiscard ''b'']
     (snd (cache_get 2 ''a'' sample_small_cache)))) = (True, ''1'')"
proof (rule lru_keeps_recent_answers [where c = sample_small_cache and S = "{''c''}" and now = 2 and expiry = 300])
  show "cache_ok sample_small_cache"
    by (simp add: sample_small_cache_def cache_ok_def cache_keys_def new_llm_cache_def)
  show "int (card {''c''}) < cs_max_size (lc_settings sample_small_cache)"
    by (simp add: sample_small_cache_def new_llm_cache_def)
  show "(snd (cache_get 2 ''a'' sample_small_cache) = cache_set 2 later ''a'' ''1'' sample_small_cache \<and>
      300 = later + cs_ttl_seconds (lc_settings sample_small_cache)) \<or>
     (cache_get 2 ''a'' sample_small_cache = ((True, ''1''), snd (cache_get 2 ''a'' sample_small_cache)) \<and>
      map_of (lc_entries sample_small_cache) ''a'' = Some \<lparr>ce_value = ''1'', ce_expires_at = 300\<rparr>)" for later
    by (simp add: sample_small_cache_def new_llm_cache_def cache_get_def purge_expired_def Let_def)
  show "list_all (spares ''a'' {''c''} 300) [CSet 3 3 ''c'' ''3'', CGet 4 ''c'', CDiscard ''b'']" by simp
qed simp_all

end
