(* ===== verification/Llm_Client.thy ===== *)
theory Llm_Client
  imports Llm_Cache Observability
begin

text \<open>
  The client of the language models, \<open>llm/llm_client.py\<close>: the reading of its settings from arguments,
  environment variables and a profile file, the keys and headers, the two wire formats, and \<open>chat\<close> with
  the cache of Llm_Cache and the trail of its cache events.

  Parameters are the environment variables, the \<open>n\<close>-th reading of the monotonic clock, the \<open>n\<close>-th answer of
  the response provider or of the HTTP exchange (already read as JSON), \<open>json.dumps\<close>, SHA-256, and the
  file system of the profiles. Floats are rationals: \<open>float('inf')\<close> and \<open>float('nan')\<close> are not modelled.
  An API key holds no backslash, which \<open>re.sub\<close> would read as an escape.
\<close>

section \<open>Reading settings\<close>

definition as_text :: "pyval \<Rightarrow> string" where
  "as_text raw = (if raw = PNone then [] else strip (py_str raw))"

fun pick_object :: "pyval list \<Rightarrow> pyval" where
  "pick_object [] = PNone"
| "pick_object (v # vs) =
     (case v of PNone \<Rightarrow> pick_object vs
      | PStr s \<Rightarrow> if strip s = [] then pick_object vs else v
      | _ \<Rightarrow> v)"

definition pick_text :: "pyval list \<Rightarrow> string" where
  "pick_text vs = (case pick_object vs of PNone \<Rightarrow> [] | v \<Rightarrow> strip (py_str v))"

text \<open>\<open>float(s)\<close> of a decimal numeral.\<close>

definition parse_mantissa :: "string \<Rightarrow> rat option" where
  "parse_mantissa s =
     (let whole = takeWhile (\<lambda>c. c \<noteq> CHR ''.'') s; rest = dropWhile (\<lambda>c. c \<noteq> CHR ''.'') s; frac = tl rest;
          digits = filter (\<lambda>c. c \<noteq> CHR ''_'') frac
      in if rest = [] then map_option of_nat (parse_nat whole)
         else if whole = [] then map_option (\<lambda>f. of_nat f / 10 ^ length digits) (parse_nat frac)
         else if frac = [] then map_option of_nat (parse_nat whole)
         else case (parse_nat whole, parse_nat frac) of
                (Some w, Some f) \<Rightarrow> Some (of_nat w + of_nat f / 10 ^ length digits)
              | _ \<Rightarrow> None)"

definition parse_exponent :: "string \<Rightarrow> int option" where
  "parse_exponent s = (case s of [] \<Rightarrow> None
     | c # cs \<Rightarrow> if c = CHR ''-'' then map_option (\<lambda>n. - int n) (parse_nat cs)
                else if c = CHR ''+'' then map_option int (parse_nat cs)
                else map_option int (parse_nat s))"

definition parse_unsigned :: "string \<Rightarrow> rat option" where
  "parse_unsigned s =
     (let m = takeWhile (\<lambda>c. lower_char c \<noteq> CHR ''e'') s; rest = dropWhile (\<lambda>c. lower_char c \<noteq> CHR ''e'') s
      in if rest = [] then parse_mantissa m
         else case (parse_mantissa m, parse_exponent (tl rest)) of
                (Some q, Some e) \<Rightarrow> Some (if 0 \<le> e then q * 10 ^ nat e else q / 10 ^ nat (- e))
              | _ \<Rightarrow> None)"

definition parse_float :: "string \<Rightarrow> rat option" where
  "parse_float text = (case strip text of [] \<Rightarrow> None
     | c # cs \<Rightarrow> if c = CHR ''-'' then map_option uminus (parse_unsigned cs)
                else if c = CHR ''+'' then parse_unsigned cs
                else parse_unsigned (c # cs))"

definition to_float_or_none :: "pyval \<Rightarrow> rat option" where
  "to_float_or_none raw = (case raw of PStr s \<Rightarrow> parse_float s | _ \<Rightarrow> number_of raw)"

definition to_float :: "pyval \<Rightarrow> rat \<Rightarrow> rat" where
  "to_float raw fallback = (case to_float_or_none raw of Some q \<Rightarrow> q | None \<Rightarrow> fallback)"

definition to_int_or_none :: "pyval \<Rightarrow> int option" where
  "to_int_or_none raw =
     (if raw = PNone then None
      else case py_int raw of Inl e \<Rightarrow> None | Inr v \<Rightarrow> if v > 0 then Some v else None)"

definition to_int :: "pyval \<Rightarrow> int \<Rightarrow> int" where
  "to_int raw fallback = (case to_int_or_none raw of Some v \<Rightarrow> v | None \<Rightarrow> fallback)"

definition to_bool :: "pyval \<Rightarrow> bool \<Rightarrow> bool" where
  "to_bool raw fallback =
     (case raw of PNone \<Rightarrow> fallback | PBool b \<Rightarrow> b
      | _ \<Rightarrow> let text = lower (strip (py_str raw)) in
          if text = [] then fallback
          else if text \<in> {''1'', ''true'', ''yes'', ''on''} then True
          else if text \<in> {''0'', ''false'', ''no'', ''off''} then False
          else fallback)"

fun dedupe_non_empty :: "string list \<Rightarrow> string list \<Rightarrow> string list" where
  "dedupe_non_empty [] acc = acc"
| "dedupe_non_empty (x # xs) acc =
     (let normalized = strip x in
      if normalized = [] \<or> normalized \<in> set acc then dedupe_non_empty xs acc
      else dedupe_non_empty xs (acc @ [normalized]))"

definition of_env :: "string option \<Rightarrow> pyval" where
  "of_env v = (case v of None \<Rightarrow> PNone | Some s \<Rightarrow> PStr s)"

text \<open>The settings of the cache: at least one place, and a life of at least a second.\<close>

definition resolve_cache_settings ::
  "(string \<Rightarrow> string option) \<Rightarrow> pyval \<Rightarrow> pyval \<Rightarrow> pyval \<Rightarrow> cache_settings" where
  "resolve_cache_settings getenv enabled max_size ttl_seconds =
     (let or_env = (\<lambda>v name. if v \<noteq> PNone then v else of_env (getenv name)) in
      \<lparr>cs_enabled = to_bool (or_env enabled ''MVP_LLM_CACHE_ENABLED'') True,
       cs_max_size = max 1 (to_int (or_env max_size ''MVP_LLM_CACHE_MAX_SIZE'') 128),
       cs_ttl_seconds = max 1 (to_float (or_env ttl_seconds ''MVP_LLM_CACHE_TTL_SECONDS'') 300)\<rparr>)"

lemma resolve_cache_settings_bounds:
  "1 \<le> cs_max_size (resolve_cache_settings getenv e m t)" "1 \<le> cs_ttl_seconds (resolve_cache_settings getenv e m t)"
  by (simp_all add: resolve_cache_settings_def Let_def)

section \<open>Variables in headers\<close>

definition is_ident_char :: "char \<Rightarrow> bool" where
  "is_ident_char c = (let n = of_char (lower_char c) :: nat in (97 \<le> n \<and> n \<le> 122) \<or> (48 \<le> n \<and> n \<le> 57) \<or> n = 95)"

text \<open>A match of \<open>\$\{NAME\}\<close> at the beginning: the name and what follows.\<close>

definition match_var :: "string \<Rightarrow> (string \<times> string) option" where
  "match_var s =
     (if prefix ''${'' s
      then let name = takeWhile is_ident_char (drop 2 s); rest = dropWhile is_ident_char (drop 2 s) in
           case (name, rest) of
             (c # _, d # after) \<Rightarrow> if digit_val c = None \<and> d = CHR ''}'' then Some (name, after) else None
           | _ \<Rightarrow> None
      else None)"

fun extract_env_var_name :: "string \<Rightarrow> string" where
  "extract_env_var_name [] = []"
| "extract_env_var_name (c # s) =
     (case match_var (c # s) of Some (name, after) \<Rightarrow> strip name | None \<Rightarrow> extract_env_var_name s)"

lemma match_var_shorter: "match_var s = Some (name, after) \<Longrightarrow> length after < length s"
proof -
  assume m: "match_var s = Some (name, after)"
  then have p: "prefix ''${'' s" by (simp add: match_var_def split: if_splits)
  have "after = tl (dropWhile is_ident_char (drop 2 s))"
    using m by (auto simp: match_var_def Let_def split: if_splits list.splits)
  then have "length after \<le> length (drop 2 s)"
    by (metis length_tl length_dropWhile_le diff_le_self order_trans)
  with prefix_length_le [OF p] show ?thesis by simp
qed

function substitute_vars :: "string \<Rightarrow> string \<Rightarrow> string" where
  "substitute_vars v [] = []"
| "substitute_vars v (c # s) =
     (case match_var (c # s) of
        Some (name, after) \<Rightarrow> v @ substitute_vars v after
      | None \<Rightarrow> c # substitute_vars v s)"
  by pat_completeness auto

termination substitute_vars
  by (relation "measure (\<lambda>(v, s). length s)") (auto dest: match_var_shorter)

definition replace_first_sub :: "string \<Rightarrow> string \<Rightarrow> string \<Rightarrow> string \<times> string" where
  "replace_first_sub p v s = (case find_sub p s of
      None \<Rightarrow> (s, []) | Some i \<Rightarrow> (take i s @ v, drop (i + length p) s))"

text \<open>\<open>s.replace(p, v)\<close> for a non-empty \<open>p\<close>.\<close>

function replace_sub :: "string \<Rightarrow> string \<Rightarrow> string \<Rightarrow> string" where
  "replace_sub p v s =
     (if p = [] \<or> find_sub p s = None then s
      else fst (replace_first_sub p v s) @ replace_sub p v (snd (replace_first_sub p v s)))"
  by pat_completeness auto

termination replace_sub
proof (relation "measure (\<lambda>(p, v, s). length s)")
  fix p v s :: string
  assume a: "\<not> (p = [] \<or> find_sub p s = None)"
  then obtain i where i: "find_sub p s = Some i" by auto
  from find_sub_Some [OF this] a
  show "((p, v, snd (replace_first_sub p v s)), p, v, s) \<in> measure (\<lambda>(p, v, s). length s)"
    by (auto simp: replace_first_sub_def i dest: arg_cong [of _ _ length])
qed simp

declare replace_sub.simps [simp del]

definition has_embedded_openai_auth :: "string \<Rightarrow> bool" where
  "has_embedded_openai_auth auth_header =
     (let text = strip auth_header; lowered = lower text in
      if text = [] then False
      else if contains ''${'' text \<or> contains ''{key}'' text then False
      else if lowered = ''bearer'' then False
      else if prefix ''bearer '' lowered then strip (tl (dropWhile (\<lambda>c. c \<noteq> CHR '' '') text)) \<noteq> []
      else True)"

definition looks_like_placeholder_secret :: "string \<Rightarrow> bool" where
  "looks_like_placeholder_secret v =
     (let normalized = lower (strip v) in
      normalized \<noteq> [] \<and>
      (normalized \<in> {''dummy'', ''dummy-key'', ''test'', ''test-key'', ''fake'', ''fake-key'', ''placeholder'',
                      ''placeholder-key'', ''changeme'', ''your-api-key''} \<or>
       prefix ''dummy-'' normalized \<or> prefix ''test-'' normalized))"

section \<open>Profiles\<close>

record llm_profile =
  pr_backend :: "string option"
  pr_model :: "string option"
  pr_temperature :: "rat option"
  pr_timeout :: "int option"
  pr_base_url :: "string option"
  pr_chat_url :: "string option"
  pr_auth_header :: "string option"
  pr_key_env :: "string option"
  pr_max_tokens :: "int option"
  pr_extra_request :: pydict

definition no_profile :: llm_profile where
  "no_profile = \<lparr>pr_backend = None, pr_model = None, pr_temperature = None, pr_timeout = None,
     pr_base_url = None, pr_chat_url = None, pr_auth_header = None, pr_key_env = None,
     pr_max_tokens = None, pr_extra_request = []\<rparr>"

text \<open>The file system the profiles are read from: existence, the text read as JSON, and \<open>Path.resolve\<close>;
  \<open>pf_base\<close> is the directory of the package.\<close>

record profile_files =
  pf_base :: string
  pf_exists :: "string \<Rightarrow> bool"
  pf_load :: "string \<Rightarrow> pyval result"
  pf_resolve :: "string \<Rightarrow> string"

definition profile_path_parts :: "string \<Rightarrow> string list" where
  "profile_path_parts p = filter (\<lambda>s. s \<noteq> [] \<and> s \<noteq> ''.'') (split_char CHR ''/'' p)"

definition path_text :: "string \<Rightarrow> string" where
  "path_text p = (let t = (if prefix ''/'' p then ''/'' else []) @ join ''/'' (profile_path_parts p)
     in if t = [] then ''.'' else t)"

definition profile_path_name :: "string \<Rightarrow> string" where
  "profile_path_name p = (case rev (profile_path_parts p) of [] \<Rightarrow> [] | n # _ \<Rightarrow> n)"

text \<open>\<open>bool(path.suffix)\<close>: a dot in the name, neither first nor last.\<close>

definition has_suffix :: "string \<Rightarrow> bool" where
  "has_suffix p = (let n = profile_path_name p in CHR ''.'' \<in> set (tl n) \<and> last n \<noteq> CHR ''.'')"

definition normalize_profile_candidate :: "profile_files \<Rightarrow> pyval \<Rightarrow> string option" where
  "normalize_profile_candidate pf raw =
     (let text = as_text raw in
      if text = [] then None
      else
        let p = path_text text; p = (if has_suffix p then p else path_text (p @ ''.json'')) in
        if prefix ''/'' p then Some p
        else
          let direct = pf_resolve pf (pf_base pf @ ''/'' @ p) in
          Some (if pf_exists pf direct then direct
                else pf_resolve pf (pf_base pf @ ''/configs/'' @ profile_path_name p)))"

definition default_profile_name :: string where
  "default_profile_name = ''doubao-seed-2.0-code-high-perf.json''"

definition resolve_profile_path ::
  "profile_files \<Rightarrow> (string \<Rightarrow> string option) \<Rightarrow> pyval \<Rightarrow> string option" where
  "resolve_profile_path pf getenv config_path =
     (let candidates = map (normalize_profile_candidate pf)
            [config_path, of_env (getenv ''LLM_CONFIG_PATH''), of_env (getenv ''LLM_PROFILE'')];
          fallback = pf_base pf @ ''/configs/'' @ default_profile_name
      in case find (\<lambda>c. case c of Some p \<Rightarrow> pf_exists pf p | None \<Rightarrow> False) candidates of
           Some p \<Rightarrow> p
         | None \<Rightarrow> if pf_exists pf fallback then Some fallback else None)"

definition sub_dict :: "pydict \<Rightarrow> string \<Rightarrow> pydict" where
  "sub_dict d k = (case dget d k of PDict e \<Rightarrow> e | _ \<Rightarrow> [])"

definition some_text :: "string \<Rightarrow> string option" where
  "some_text s = (if s = [] then None else Some s)"

definition extract_openai_extra_request :: "pydict \<Rightarrow> pydict" where
  "extract_openai_extra_request request_cfg =
     map (\<lambda>k. (k, dget request_cfg k))
       (filter (has_key request_cfg)
          [''stream'', ''service_tier'', ''reasoning_effort'', ''top_p'', ''frequency_penalty'',
           ''presence_penalty'', ''response_format'', ''parallel_tool_calls''])"

definition profile_backend :: "pydict \<Rightarrow> pydict \<Rightarrow> string" where
  "profile_backend payload compat_env =
     (let backend = as_text (dget compat_env ''LLM_BACKEND'');
          provider = lower (as_text (dget payload ''provider''))
      in if backend \<noteq> [] then backend
         else if contains ''claude'' provider then ''claude''
         else if provider \<noteq> [] then ''openai'' else [])"

definition load_profile ::
  "profile_files \<Rightarrow> (string \<Rightarrow> string option) \<Rightarrow> pyval \<Rightarrow> llm_profile" where
  "load_profile pf getenv config_path =
     (case resolve_profile_path pf getenv config_path of
        None \<Rightarrow> no_profile
      | Some path \<Rightarrow>
          (case pf_load pf path of
             Inr (PDict payload) \<Rightarrow>
               (let api = sub_dict payload ''api''; request_cfg = sub_dict payload ''request'';
                    compat_env = sub_dict payload ''compat_env'';
                    auth_header = as_text (dget api ''auth_header'')
                in \<lparr>pr_backend = some_text (profile_backend payload compat_env),
                    pr_model = some_text (pick_text [dget request_cfg ''model'', dget compat_env ''LLM_MODEL'']),
                    pr_temperature = to_float_or_none
                      (pick_object [dget request_cfg ''temperature'', dget compat_env ''LLM_TEMPERATURE'']),
                    pr_timeout = to_int_or_none
                      (pick_object [dget request_cfg ''timeout_seconds'', dget compat_env ''LLM_TIMEOUT_SECONDS'']),
                    pr_base_url = some_text (pick_text [dget api ''base_url'', dget compat_env ''OPENAI_BASE_URL'']),
                    pr_chat_url = some_text (pick_text [dget api ''chat_url'', dget compat_env ''OPENAI_CHAT_URL'']),
                    pr_auth_header = some_text auth_header,
                    pr_key_env = some_text (extract_env_var_name auth_header),
                    pr_max_tokens = to_int_or_none (dget request_cfg ''max_tokens''),
                    pr_extra_request = extract_openai_extra_request request_cfg\<rparr>)
           | _ \<Rightarrow> no_profile))"

section \<open>The client\<close>

record llm_client =
  lk_backend :: string
  lk_model :: string
  lk_temperature :: rat
  lk_timeout :: int
  lk_base_url :: string
  lk_chat_url :: string
  lk_auth_header :: string
  lk_key_candidates :: "string list"
  lk_max_tokens :: int
  lk_extra_request :: pydict
  lk_cache_settings :: cache_settings

text \<open>The arguments of the constructor, \<open>None\<close> for those not given.\<close>

record llm_args =
  ka_backend :: "string option"
  ka_model :: "string option"
  ka_temperature :: "rat option"
  ka_timeout :: "int option"
  ka_config_path :: "string option"
  ka_cache_enabled :: "bool option"
  ka_cache_max_size :: "int option"
  ka_cache_ttl :: "rat option"

definition of_rat_opt :: "rat option \<Rightarrow> pyval" where
  "of_rat_opt v = (case v of None \<Rightarrow> PNone | Some q \<Rightarrow> PFloat q)"

definition of_int_opt :: "int option \<Rightarrow> pyval" where
  "of_int_opt v = (case v of None \<Rightarrow> PNone | Some i \<Rightarrow> PInt i)"

definition new_llm_client ::
  "profile_files \<Rightarrow> (string \<Rightarrow> string option) \<Rightarrow> llm_args \<Rightarrow> llm_client" where
  "new_llm_client pf getenv a =
     (let profile = load_profile pf getenv (of_env (ka_config_path a));
          env = (\<lambda>name. of_env (getenv name));
          backend0 = lower (pick_text [of_env (ka_backend a), env ''LLM_BACKEND'', of_env (pr_backend profile), PStr ''openai'']);
          temperature_raw = (case ka_temperature a of Some q \<Rightarrow> PFloat q
             | None \<Rightarrow> pick_object [env ''LLM_TEMPERATURE'', of_rat_opt (pr_temperature profile)]);
          timeout_raw = (case ka_timeout a of Some i \<Rightarrow> PInt i
             | None \<Rightarrow> pick_object [env ''LLM_TIMEOUT_SECONDS'', of_int_opt (pr_timeout profile)]);
          base_url = rstrip_char CHR ''/''
             (pick_text [env ''OPENAI_BASE_URL'', of_env (pr_base_url profile), PStr ''https://api.openai.com'']);
          auth_header = pick_text [of_env (pr_auth_header profile), PStr ''Bearer ${OPENAI_API_KEY}''];
          configured_openai_max = to_int (of_int_opt (pr_max_tokens profile)) 4096
      in \<lparr>lk_backend = (if backend0 \<in> {''openai'', ''claude''} then backend0 else ''openai''),
          lk_model = pick_text [of_env (ka_model a), env ''LLM_MODEL'', of_env (pr_model profile), PStr ''gpt-4.1-mini''],
          lk_temperature = to_float temperature_raw (2 / 10),
          lk_timeout = to_int timeout_raw 120,
          lk_base_url = base_url,
          lk_chat_url = pick_text [env ''OPENAI_CHAT_URL'', of_env (pr_chat_url profile),
                                   PStr (base_url @ ''/v1/chat/completions'')],
          lk_auth_header = auth_header,
          lk_key_candidates = dedupe_non_empty
            [pick_text [of_env (pr_key_env profile), PStr (extract_env_var_name auth_header)], ''OPENAI_API_KEY''] [],
          lk_max_tokens = (if configured_openai_max \<ge> 4096 then configured_openai_max else 4096),
          lk_extra_request = pr_extra_request profile,
          lk_cache_settings = resolve_cache_settings getenv
            (case ka_cache_enabled a of None \<Rightarrow> PNone | Some b \<Rightarrow> PBool b)
            (of_int_opt (ka_cache_max_size a)) (of_rat_opt (ka_cache_ttl a))\<rparr>)"

text \<open>\<open>os.getenv(name, "").strip()\<close>.\<close>

definition env_text :: "(string \<Rightarrow> string option) \<Rightarrow> string \<Rightarrow> string" where
  "env_text getenv name = strip (case getenv name of Some v \<Rightarrow> v | None \<Rightarrow> [])"

definition required_key_name :: "(string \<Rightarrow> string option) \<Rightarrow> llm_client \<Rightarrow> string option" where
  "required_key_name getenv cl =
     (if lk_backend cl = ''openai'' then
        if has_embedded_openai_auth (lk_auth_header cl) then None
        else if list_ex (\<lambda>k. env_text getenv k \<noteq> []) (lk_key_candidates cl) then None
        else (case lk_key_candidates cl of k # _ \<Rightarrow> Some k | [] \<Rightarrow> Some ''OPENAI_API_KEY'')
      else if env_text getenv ''ANTHROPIC_API_KEY'' \<noteq> [] then None else Some ''ANTHROPIC_API_KEY'')"

definition placeholder_key_name :: "(string \<Rightarrow> string option) \<Rightarrow> llm_client \<Rightarrow> string option" where
  "placeholder_key_name getenv cl =
     (if lk_backend cl = ''openai''
      then find (\<lambda>k. looks_like_placeholder_secret (env_text getenv k)) (lk_key_candidates cl)
      else if looks_like_placeholder_secret (env_text getenv ''ANTHROPIC_API_KEY'')
           then Some ''ANTHROPIC_API_KEY'' else None)"

definition resolve_openai_api_key :: "(string \<Rightarrow> string option) \<Rightarrow> llm_client \<Rightarrow> string" where
  "resolve_openai_api_key getenv cl =
     (case find (\<lambda>k. env_text getenv k \<noteq> []) (lk_key_candidates cl) of
        Some k \<Rightarrow> env_text getenv k | None \<Rightarrow> [])"

definition build_openai_auth_header :: "llm_client \<Rightarrow> string \<Rightarrow> string" where
  "build_openai_auth_header cl api_key =
     (let template = strip (lk_auth_header cl) in
      if template = [] then ''Bearer '' @ api_key
      else if contains ''${'' template then substitute_vars api_key template
      else if contains ''{key}'' template then replace_sub ''{key}'' api_key template
      else if api_key \<noteq> [] \<and> \<not> contains api_key template then strip (template @ '' '' @ api_key)
      else template)"

section \<open>Texts of answers\<close>

definition is_line_end :: "char \<Rightarrow> bool" where
  "is_line_end c = (let n = of_char c :: nat in (10 \<le> n \<and> n \<le> 13) \<or> (28 \<le> n \<and> n \<le> 30))"

fun join_crlf :: "string \<Rightarrow> string" where
  "join_crlf (c # d # s) =
     (if of_char c = (13 :: nat) \<and> of_char d = (10 :: nat) then d # join_crlf s else c # join_crlf (d # s))"
| "join_crlf s = s"

fun lines_from :: "string \<Rightarrow> string \<Rightarrow> string list" where
  "lines_from cur [] = (if cur = [] then [] else [cur])"
| "lines_from cur (c # s) = (if is_line_end c then cur # lines_from [] s else lines_from (cur @ [c]) s)"

definition splitlines :: "string \<Rightarrow> string list" where
  "splitlines s = lines_from [] (join_crlf s)"

definition line_feed :: string where
  "line_feed = [char_of (10 :: nat)]"

definition strip_markdown_fence :: "string \<Rightarrow> string" where
  "strip_markdown_fence text =
     (let cleaned = strip text in
      if \<not> prefix ''```'' cleaned then cleaned
      else
        let lines = splitlines cleaned in
        if lines = [] then cleaned
        else
          let lines = (if prefix ''```'' (hd lines) then tl lines else lines);
              lines = (if lines \<noteq> [] \<and> strip (last lines) = ''```'' then butlast lines else lines)
          in strip (join line_feed lines))"

section \<open>The wire\<close>

record http_post =
  hp_url :: string
  hp_headers :: "(string \<times> string) list"
  hp_body :: pydict
  hp_timeout :: int

definition client_error :: "string \<Rightarrow> py_exn" where
  "client_error m = NamedError ''LLMClientError'' m"

text \<open>\<open>v.get\<close> of a value that is no dictionary.\<close>

definition as_object :: "pyval \<Rightarrow> pydict result" where
  "as_object v = (case v of PDict d \<Rightarrow> Inr d
     | _ \<Rightarrow> Inl (NamedError ''AttributeError''
              (quote_text (type_name v) @ '' object has no attribute '' @ quote_text ''get'')))"

text \<open>\<open>"\n".join(part for part in parts if part.strip())\<close> over the texts of the items that are dictionaries.\<close>

definition item_texts :: "pyval list \<Rightarrow> string" where
  "item_texts items =
     join line_feed (filter (\<lambda>p. strip p \<noteq> [])
       (concat (map (\<lambda>i. case i of PDict d \<Rightarrow> [py_str (dget_or d ''text'' (PStr []))] | _ \<Rightarrow> []) items)))"

definition openai_request :: "(string \<Rightarrow> string option) \<Rightarrow> llm_client \<Rightarrow> pydict list \<Rightarrow> http_post" where
  "openai_request getenv cl messages =
     \<lparr>hp_url = lk_chat_url cl,
      hp_headers = [(''Authorization'', build_openai_auth_header cl (resolve_openai_api_key getenv cl)),
                    (''Content-Type'', ''application/json''), (''Accept'', ''application/json'')],
      hp_body = fold (\<lambda>(k, v) body. if k \<in> {''model'', ''messages'', ''temperature'', ''max_tokens''} then body
                                    else AList.update k v body) (lk_extra_request cl)
                  [(''model'', PStr (lk_model cl)), (''messages'', PList (map PDict messages)),
                   (''temperature'', PFloat (lk_temperature cl)), (''max_tokens'', PInt (lk_max_tokens cl))],
      hp_timeout = lk_timeout cl\<rparr>"

definition read_openai :: "pyval \<Rightarrow> string result" where
  "read_openai payload =
     (case as_object payload of Inl e \<Rightarrow> Inl e
      | Inr p \<Rightarrow>
        (case dget p ''choices'' of
           PList (c # cs) \<Rightarrow>
             (case as_object c of Inl e \<Rightarrow> Inl e
              | Inr choice \<Rightarrow>
                (case as_object (dget_or choice ''message'' (PDict [])) of Inl e \<Rightarrow> Inl e
                 | Inr message \<Rightarrow>
                   (case dget message ''content'' of
                      PStr s \<Rightarrow> Inr s
                    | PList items \<Rightarrow> Inr (item_texts items)
                    | _ \<Rightarrow> Inl (client_error ''invalid openai response: message content missing''))))
         | _ \<Rightarrow> Inl (client_error ''invalid openai response: choices missing'')))"

text \<open>The messages of a request to Claude: the system texts, one below the other, and the rest with the two
  roles it knows.\<close>

fun convert_claude :: "pydict list \<Rightarrow> string \<Rightarrow> pydict list \<Rightarrow> string \<times> pydict list" where
  "convert_claude [] system converted = (system, converted)"
| "convert_claude (item # items) system converted =
     (let role = lower (strip (py_str (dget_or item ''role'' (PStr []))));
          content = py_str (dget_or item ''content'' (PStr []))
      in if role = ''system''
         then convert_claude items (if system = [] then content else system @ line_feed @ content) converted
         else convert_claude items system
                (converted @ [[(''role'', PStr (if role \<in> {''user'', ''assistant''} then role else ''user'')),
                               (''content'', PStr content)]]))"

definition claude_request :: "(string \<Rightarrow> string option) \<Rightarrow> llm_client \<Rightarrow> pydict list \<Rightarrow> http_post" where
  "claude_request getenv cl messages =
     (let (system, converted0) = convert_claude messages [] [];
          converted = (if converted0 = [] then [[(''role'', PStr ''user''), (''content'', PStr [])]] else converted0)
      in \<lparr>hp_url = ''https://api.anthropic.com/v1/messages'',
          hp_headers = [(''x-api-key'', env_text getenv ''ANTHROPIC_API_KEY''), (''anthropic-version'', ''2023-06-01''),
                        (''Content-Type'', ''application/json''), (''Accept'', ''application/json'')],
          hp_body = [(''model'', PStr (lk_model cl)), (''temperature'', PFloat (lk_temperature cl)),
                     (''messages'', PList (map PDict converted)), (''max_tokens'', PInt 8192)] @
                    (if strip system \<noteq> [] then [(''system'', PStr system)] else []),
          hp_timeout = lk_timeout cl\<rparr>)"

definition read_claude :: "pyval \<Rightarrow> string result" where
  "read_claude payload =
     (case as_object payload of Inl e \<Rightarrow> Inl e
      | Inr p \<Rightarrow>
        (case dget p ''content'' of
           PList items \<Rightarrow>
             (let merged = item_texts items in
              if strip merged = [] then Inl (client_error ''invalid claude response: text missing'') else Inr merged)
         | _ \<Rightarrow> Inl (client_error ''invalid claude response: content missing'')))"

section \<open>Chat\<close>

text \<open>\<open>le_provider\<close> and \<open>le_post\<close> take the number of outside calls made before; \<open>le_patched\<close> says that
  \<open>urlopen\<close> was replaced.\<close>

record llm_env =
  le_getenv :: "string \<Rightarrow> string option"
  le_clock :: "nat \<Rightarrow> rat"
  le_provider :: "(nat \<Rightarrow> string \<Rightarrow> pydict list \<Rightarrow> string \<Rightarrow> rat \<Rightarrow> string result) option"
  le_marker :: string
  le_post :: "nat \<Rightarrow> http_post \<Rightarrow> pyval result"
  le_patched :: bool
  le_dumps :: "pyval \<Rightarrow> string"
  le_sha256 :: "string \<Rightarrow> string"

record cache_event =
  ev_sequence :: int
  ev_status :: string
  ev_key :: string
  ev_reason :: string
  ev_size :: int

record llm_world =
  lw_cache :: llm_cache
  lw_reads :: nat
  lw_calls :: nat
  lw_sequence :: int
  lw_history :: "cache_event list"
  lw_last_event :: "cache_event option"
  lw_last_key :: string

definition new_llm_world :: "llm_cache \<Rightarrow> llm_world" where
  "new_llm_world c = \<lparr>lw_cache = c, lw_reads = 0, lw_calls = 0, lw_sequence = 0, lw_history = [],
     lw_last_event = None, lw_last_key = []\<rparr>"

definition read_clock :: "llm_env \<Rightarrow> (llm_world, rat) act" where
  "read_clock env w = (Inr (le_clock env (lw_reads w)), w\<lparr>lw_reads := lw_reads w + 1\<rparr>)"

definition provider_marker :: "llm_env \<Rightarrow> string" where
  "provider_marker env = (if le_provider env = None then ''builtin'' else le_marker env)"

text \<open>The cache key: the digest of the request, without the limit of tokens and the credentials.\<close>

definition build_cache_key :: "llm_env \<Rightarrow> llm_client \<Rightarrow> pydict list \<Rightarrow> string" where
  "build_cache_key env cl messages =
     le_sha256 env (le_dumps env (PDict
       [(''backend'', PStr (lk_backend cl)), (''model'', PStr (lk_model cl)),
        (''temperature'', PFloat (lk_temperature cl)), (''messages'', PList (map PDict messages)),
        (''chatUrl'', PStr (if lk_backend cl = ''openai'' then lk_chat_url cl
                           else ''https://api.anthropic.com/v1/messages'')),
        (''extraRequest'', PDict (if lk_backend cl = ''openai'' then lk_extra_request cl else [])),
        (''provider'', PStr (provider_marker env))]))"

definition look_up :: "llm_env \<Rightarrow> string \<Rightarrow> (llm_world, bool \<times> string) act" where
  "look_up env key = bind (read_clock env) (\<lambda>now w.
     let (r, c) = cache_get now key (lw_cache w) in (Inr r, w\<lparr>lw_cache := c\<rparr>))"

definition store_answer :: "llm_env \<Rightarrow> string \<Rightarrow> string \<Rightarrow> (llm_world, unit) act" where
  "store_answer env key v = bind (read_clock env) (\<lambda>now. bind (read_clock env) (\<lambda>later.
     modify (\<lambda>w. w\<lparr>lw_cache := cache_set now later key v (lw_cache w)\<rparr>)))"

definition on_cache :: "(llm_cache \<Rightarrow> llm_cache) \<Rightarrow> (llm_world, unit) act" where
  "on_cache f = modify (\<lambda>w. w\<lparr>lw_cache := f (lw_cache w)\<rparr>)"

definition set_cache_event :: "llm_env \<Rightarrow> string \<Rightarrow> string \<Rightarrow> string \<Rightarrow> (llm_world, unit) act" where
  "set_cache_event env status key reason = bind (read_clock env) (\<lambda>now. modify (\<lambda>w.
     let sequence = lw_sequence w + 1; (size, c) = cache_size now (lw_cache w);
         event = \<lparr>ev_sequence = sequence, ev_status = status, ev_key = key, ev_reason = strip reason, ev_size = size\<rparr>
     in w\<lparr>lw_cache := c, lw_sequence := sequence, lw_last_key := key, lw_last_event := Some event,
          lw_history := last_n 64 (lw_history w @ [event])\<rparr>))"

text \<open>One call to the outside: the \<open>n\<close>-th, and its count.\<close>

definition raw_answer :: "llm_env \<Rightarrow> llm_client \<Rightarrow> nat \<Rightarrow> pydict list \<Rightarrow> string result" where
  "raw_answer env cl n messages =
     (case le_provider env of
        Some provider \<Rightarrow> provider n (lk_backend cl) messages (lk_model cl) (lk_temperature cl)
      | None \<Rightarrow>
          if lk_backend cl = ''openai''
          then (case le_post env n (openai_request (le_getenv env) cl messages) of Inl e \<Rightarrow> Inl e | Inr p \<Rightarrow> read_openai p)
          else (case le_post env n (claude_request (le_getenv env) cl messages) of Inl e \<Rightarrow> Inl e | Inr p \<Rightarrow> read_claude p))"

definition call_model :: "llm_env \<Rightarrow> llm_client \<Rightarrow> pydict list \<Rightarrow> (llm_world, string) act" where
  "call_model env cl messages w = (raw_answer env cl (lw_calls w) messages, w\<lparr>lw_calls := lw_calls w + 1\<rparr>)"

definition check_usable :: "llm_env \<Rightarrow> llm_client \<Rightarrow> pydict list \<Rightarrow> py_exn option" where
  "check_usable env cl messages =
     (let missing = required_key_name (le_getenv env) cl; placeholder = placeholder_key_name (le_getenv env) cl in
      if missing \<noteq> None \<and> missing \<noteq> Some [] then Some (client_error (the missing @ '' missing''))
      else if messages = [] then Some (client_error ''messages must not be empty'')
      else if le_provider env = None \<and> placeholder \<noteq> None
           then Some (client_error (the placeholder @ '' uses placeholder value''))
      else if le_provider env = None \<and> env_text (le_getenv env) ''PYTEST_CURRENT_TEST'' \<noteq> [] \<and> \<not> le_patched env
           then Some (client_error ''live llm disabled during pytest'')
      else None)"

definition ask_model :: "llm_env \<Rightarrow> llm_client \<Rightarrow> string \<Rightarrow> pydict list \<Rightarrow> (llm_world, string) act" where
  "ask_model env cl key messages =
     bind (call_model env cl messages) (\<lambda>raw.
       let text = strip_markdown_fence raw in
       if strip text = [] then throw (client_error ''empty completion from llm'')
       else
         next_act
           (if cs_enabled (lk_cache_settings cl)
            then next_act (store_answer env key text) (set_cache_event env ''miss'' key ''cache_store'')
            else set_cache_event env ''bypass'' key ''cache_disabled'')
           (ret text))"

definition chat :: "llm_env \<Rightarrow> llm_client \<Rightarrow> pydict list \<Rightarrow> (llm_world, string) act" where
  "chat env cl messages =
     (case check_usable env cl messages of
        Some e \<Rightarrow> throw e
      | None \<Rightarrow>
          let key = build_cache_key env cl messages;
              ask = try_except (ask_model env cl key messages)
                (\<lambda>exc. next_act (on_cache record_cache_failure)
                   (next_act (set_cache_event env ''failure'' key (exn_text exc)) (throw (client_error (exn_text exc)))))
          in if cs_enabled (lk_cache_settings cl)
             then bind (look_up env key) (\<lambda>(hit, cached).
                    if hit then next_act (set_cache_event env ''hit'' key ''cache_hit'') (ret cached) else ask)
             else next_act (on_cache record_bypass) ask)"

definition generate :: "llm_env \<Rightarrow> llm_client \<Rightarrow> string \<Rightarrow> string \<Rightarrow> (llm_world, string) act" where
  "generate env cl prompt system_prompt =
     chat env cl
       ((if strip system_prompt \<noteq> [] then [[(''role'', PStr ''system''), (''content'', PStr (strip system_prompt))]] else []) @
        [[(''role'', PStr ''user''), (''content'', PStr (strip prompt))]])"

section \<open>The trail of cache events\<close>

definition cache_events_since :: "int \<Rightarrow> llm_world \<Rightarrow> cache_event list" where
  "cache_events_since sequence w = filter (\<lambda>e. ev_sequence e > max 0 sequence) (lw_history w)"

definition latest_cache_events :: "llm_world \<Rightarrow> cache_event list" where
  "latest_cache_events w = (case lw_last_event w of None \<Rightarrow> [] | Some e \<Rightarrow> [e])"

definition cache_event_cursor :: "llm_world \<Rightarrow> int" where
  "cache_event_cursor w = lw_sequence w"

definition clear_cache :: "bool \<Rightarrow> llm_world \<Rightarrow> llm_world" where
  "clear_cache reset_stats w =
     w\<lparr>lw_cache := cache_clear reset_stats (lw_cache w), lw_sequence := 0, lw_history := [],
       lw_last_event := None, lw_last_key := []\<rparr>"

text \<open>\<open>self._cache.discard(key)\<close> and the event of a success.\<close>

definition discard_entry :: "llm_env \<Rightarrow> string \<Rightarrow> string \<Rightarrow> (llm_world, bool) act" where
  "discard_entry env reason key w =
     (let (removed, c) = cache_discard key (lw_cache w); w' = w\<lparr>lw_cache := c\<rparr> in
      next_act (when_do removed (set_cache_event env ''discard'' key reason)) (ret removed) w')"

definition discard_last_cache_entry :: "llm_env \<Rightarrow> string \<Rightarrow> (llm_world, bool) act" where
  "discard_last_cache_entry env reason w =
     (if lw_last_key w = [] then (Inr False, w)
      else bind (discard_entry env reason (lw_last_key w))
             (\<lambda>removed. next_act (modify (\<lambda>w. w\<lparr>lw_last_key := []\<rparr>)) (ret removed)) w)"

fun discard_events :: "llm_env \<Rightarrow> string \<Rightarrow> cache_event list \<Rightarrow> int \<Rightarrow> (llm_world, int) act" where
  "discard_events env reason [] removed = ret removed"
| "discard_events env reason (e # es) removed =
     (if ev_status e \<notin> {''hit'', ''miss''} then discard_events env reason es removed
      else bind (discard_entry env reason (ev_key e))
             (\<lambda>r. discard_events env reason es (if r then removed + 1 else removed)))"

definition discard_cache_entries_since :: "llm_env \<Rightarrow> string \<Rightarrow> int \<Rightarrow> (llm_world, int) act" where
  "discard_cache_entries_since env reason sequence w =
     discard_events env reason (cache_events_since sequence w) 0 w"

section \<open>Metrics\<close>

definition count_cache_event :: "string \<Rightarrow> string \<Rightarrow> cache_event \<Rightarrow> observation \<Rightarrow> observation" where
  "count_cache_event stage backend e ob =
     (let tags = [(''stage'', PStr stage), (''backend'', PStr backend)];
          count = (\<lambda>name ob. record_metric name 1 ''count'' tags ob);
          ob1 = record_metric ''llm_cache_event_total'' 1 ''count'' (tags @ [(''status'', PStr (ev_status e))]) ob;
          ob2 = (if ev_status e \<in> {''hit'', ''miss'', ''bypass'', ''failure''}
                 then count ''llm_cache_requests_total'' ob1 else ob1)
      in if ev_status e = ''hit'' then count ''llm_cache_hits_total'' ob2
         else if ev_status e = ''miss'' then count ''llm_cache_misses_total'' ob2
         else if ev_status e = ''bypass'' then count ''llm_cache_bypasses_total'' ob2
         else if ev_status e = ''failure'' then count ''llm_cache_failures_total'' ob2
         else if ev_status e = ''discard'' then count ''llm_cache_discards_total'' ob2
         else ob2)"

definition record_cache_metrics ::
  "llm_client \<Rightarrow> string \<Rightarrow> string \<Rightarrow> int option \<Rightarrow> llm_world \<Rightarrow> observation \<Rightarrow> observation" where
  "record_cache_metrics cl stage backend since w ob =
     (let events = (case since of Some s \<Rightarrow> cache_events_since s w | None \<Rightarrow> latest_cache_events w);
          or_text = (\<lambda>a b. if a \<noteq> [] then a else b);
          safe_stage = or_text (strip stage) ''LLM'';
          safe_backend = or_text (strip (or_text backend (lk_backend cl))) ''openai''
      in fold (count_cache_event safe_stage safe_backend) events ob)"

section \<open>Facts about single steps\<close>

lemma set_cache_event_run:
  "set_cache_event env status key reason w =
     (let now = le_clock env (lw_reads w); c = purge_expired now (lw_cache w); sequence = lw_sequence w + 1;
          event = \<lparr>ev_sequence = sequence, ev_status = status, ev_key = key, ev_reason = strip reason,
                   ev_size = int (length (lc_entries c))\<rparr>
      in (Inr (), w\<lparr>lw_reads := lw_reads w + 1, lw_cache := c, lw_sequence := sequence, lw_last_key := key,
                    lw_last_event := Some event, lw_history := last_n 64 (lw_history w @ [event])\<rparr>))"
  by (simp add: set_cache_event_def read_clock_def bind_def modify_def cache_size_def Let_def)

lemma look_up_run:
  "look_up env key w =
     (let (r, c) = cache_get (le_clock env (lw_reads w)) key (lw_cache w)
      in (Inr r, w\<lparr>lw_reads := lw_reads w + 1, lw_cache := c\<rparr>))"
  by (simp add: look_up_def read_clock_def bind_def split: prod.split)

lemma store_answer_run:
  "store_answer env key v w =
     (Inr (), w\<lparr>lw_reads := lw_reads w + 2,
        lw_cache := cache_set (le_clock env (lw_reads w)) (le_clock env (lw_reads w + 1)) key v (lw_cache w)\<rparr>)"
  by (simp add: store_answer_def read_clock_def bind_def modify_def)

lemma on_cache_run: "on_cache f w = (Inr (), w\<lparr>lw_cache := f (lw_cache w)\<rparr>)"
  by (simp add: on_cache_def modify_def)

text \<open>What happens on the way from a missed lookup to the answer: one outside call, and the answer or the
  reason of the failure recorded.\<close>

definition model_answer :: "llm_env \<Rightarrow> llm_client \<Rightarrow> nat \<Rightarrow> pydict list \<Rightarrow> string result" where
  "model_answer env cl n messages =
     (case raw_answer env cl n messages of Inl e \<Rightarrow> Inl e
       | Inr raw \<Rightarrow> let text = strip_markdown_fence raw in
           if strip text = [] then Inl (client_error ''empty completion from llm'') else Inr text)"

text \<open>What \<open>chat\<close> makes of the answer: its exceptions are turned into the client's own.\<close>

definition client_result :: "string result \<Rightarrow> string result" where
  "client_result r =
     (case r of Inr t \<Rightarrow> Inr t | Inl e \<Rightarrow> Inl (if is_Exception e then client_error (exn_text e) else e))"

definition ask_guarded :: "llm_env \<Rightarrow> llm_client \<Rightarrow> string \<Rightarrow> pydict list \<Rightarrow> (llm_world, string) act" where
  "ask_guarded env cl key messages =
     try_except (ask_model env cl key messages)
       (\<lambda>exc. next_act (on_cache record_cache_failure)
          (next_act (set_cache_event env ''failure'' key (exn_text exc)) (throw (client_error (exn_text exc)))))"

lemma chat_cases:
  "chat env cl messages w =
     (case check_usable env cl messages of
        Some e \<Rightarrow> (Inl e, w)
      | None \<Rightarrow>
          let key = build_cache_key env cl messages in
          if cs_enabled (lk_cache_settings cl)
          then (case look_up env key w of
                  (Inr (True, v), w') \<Rightarrow> (Inr v, snd (set_cache_event env ''hit'' key ''cache_hit'' w'))
                | (_, w') \<Rightarrow> ask_guarded env cl key messages w')
          else ask_guarded env cl key messages (snd (on_cache record_bypass w)))"
  by (auto simp: chat_def ask_guarded_def throw_def Let_def bind_def next_act_def ret_def look_up_run
      set_cache_event_run on_cache_run split: option.split prod.split)

text \<open>The four ways of asking the model.\<close>

lemma ask_guarded_run:
  fixes w :: llm_world
  defines "w1 \<equiv> w\<lparr>lw_calls := lw_calls w + 1\<rparr>"
  shows "ask_guarded env cl key messages w =
    (case model_answer env cl (lw_calls w) messages of
       Inr t \<Rightarrow> (Inr t,
         if cs_enabled (lk_cache_settings cl)
         then snd (set_cache_event env ''miss'' key ''cache_store'' (snd (store_answer env key t w1)))
         else snd (set_cache_event env ''bypass'' key ''cache_disabled'' w1))
     | Inl e \<Rightarrow> (client_result (Inl e),
         if is_Exception e
         then snd (set_cache_event env ''failure'' key (exn_text e) (snd (on_cache record_cache_failure w1)))
         else w1))"
  unfolding w1_def
  by (auto simp: ask_guarded_def ask_model_def model_answer_def call_model_def Let_def bind_def next_act_def throw_def
      ret_def catching_def store_answer_run set_cache_event_run on_cache_run client_result_def client_error_def
      split: sum.split)

lemma ask_guarded_answer:
  "fst (ask_guarded env cl key messages w) = client_result (model_answer env cl (lw_calls w) messages)"
  by (simp add: ask_guarded_run client_result_def split: sum.split)

lemma ask_guarded_calls: "lw_calls (snd (ask_guarded env cl key messages w)) = lw_calls w + 1"
  by (simp add: ask_guarded_run store_answer_run set_cache_event_run on_cache_run Let_def split: sum.split)

lemma event_shrinks: "cache_shrinks (lw_cache w) (lw_cache (snd (set_cache_event env s k r w)))"
  by (auto simp: set_cache_event_run Let_def cache_shrinks_def entries_purge)

lemma count_shrinks:
  "cache_shrinks c (record_cache_failure c)" "cache_shrinks c (record_bypass c)"
  by (simp_all add: cache_shrinks_def record_cache_failure_def record_bypass_def)

lemma cache_shrinks_refl [simp]: "cache_shrinks c c"
  by (simp add: cache_shrinks_def)

lemma cache_shrinks_trans: "cache_shrinks a b \<Longrightarrow> cache_shrinks b c \<Longrightarrow> cache_shrinks a c"
  by (auto simp: cache_shrinks_def)

text \<open>A failure leaves nothing in the cache that was not there.\<close>

lemma ask_guarded_failure:
  "model_answer env cl (lw_calls w) messages = Inl e \<Longrightarrow>
   cache_shrinks (lw_cache w) (lw_cache (snd (ask_guarded env cl key messages w)))"
  using event_shrinks [of "w\<lparr>lw_calls := lw_calls w + 1, lw_cache := record_cache_failure (lw_cache w)\<rparr>"]
  by (auto simp: ask_guarded_run on_cache_run intro: cache_shrinks_trans [OF count_shrinks(1)])

lemma right_ask:
  assumes "resp_cache.right R (lw_cache w)"
    and "\<And>t. model_answer env cl (lw_calls w) messages = Inr t \<Longrightarrow> R key t"
  shows "resp_cache.right R (lw_cache (snd (ask_guarded env cl key messages w)))"
proof (cases "model_answer env cl (lw_calls w) messages")
  case (Inl e)
  then show ?thesis by (rule resp_cache.right_other [OF assms(1) ask_guarded_failure])
next
  case (Inr t)
  let ?w = "w\<lparr>lw_calls := lw_calls w + 1\<rparr>"
  have "resp_cache.right R (lw_cache (snd (store_answer env key t ?w)))"
    using resp_cache.right_store [OF assms(1) assms(2) [OF Inr]] by (simp add: store_answer_run)
  then have "resp_cache.right R (lw_cache (snd (set_cache_event env s key r (snd (store_answer env key t ?w)))))" for s r
    by (rule resp_cache.right_other [OF _ event_shrinks])
  moreover have "resp_cache.right R (lw_cache (snd (set_cache_event env s key r ?w)))" for s r
    using resp_cache.right_other [OF _ event_shrinks, of R ?w] assms(1) by simp
  ultimately show ?thesis by (simp add: ask_guarded_run Inr)
qed

section \<open>The cache is invisible\<close>

text \<open>A model whose answer depends on nothing but what the cache key tells.\<close>

definition steady_model :: "llm_env \<Rightarrow> llm_client \<Rightarrow> (string \<Rightarrow> string result) \<Rightarrow> bool" where
  "steady_model env cl A \<longleftrightarrow>
     (\<forall>n messages. model_answer env cl n messages = A (build_cache_key env cl messages))"

definition right_for :: "(string \<Rightarrow> string result) \<Rightarrow> llm_world \<Rightarrow> bool" where
  "right_for A w \<longleftrightarrow> resp_cache.right (\<lambda>k v. A k = Inr v) (lw_cache w)"

definition steady_result :: "llm_env \<Rightarrow> llm_client \<Rightarrow> (string \<Rightarrow> string result) \<Rightarrow> pydict list \<Rightarrow> string result" where
  "steady_result env cl A messages =
     (case check_usable env cl messages of
        Some e \<Rightarrow> Inl e | None \<Rightarrow> client_result (A (build_cache_key env cl messages)))"

lemma steady_modelD: "steady_model env cl A \<Longrightarrow> model_answer env cl n messages = A (build_cache_key env cl messages)"
  by (simp add: steady_model_def)

lemma steady_ask:
  fixes messages :: "pydict list"
  assumes "steady_model env cl A" "right_for A w"
  defines "key \<equiv> build_cache_key env cl messages"
  shows "fst (ask_guarded env cl key messages w) = client_result (A key)"
    "right_for A (snd (ask_guarded env cl key messages w))"
  using steady_modelD [OF assms(1)] right_ask [of _ w env cl messages key] assms(2)
  by (auto simp: ask_guarded_answer right_for_def key_def)

lemma right_for_bypass: "right_for A w \<Longrightarrow> right_for A (snd (on_cache record_bypass w))"
  unfolding right_for_def on_cache_run by (auto intro: resp_cache.right_other [OF _ count_shrinks(2)])

lemma right_for_look_up: "right_for A w \<Longrightarrow> right_for A (snd (look_up env key w))"
  unfolding right_for_def look_up_run
  by (auto split: prod.split dest!: resp_cache.right_lookup [of _ "lw_cache w" "le_clock env (lw_reads w)" key])

lemma right_for_hit: "right_for A w \<Longrightarrow> look_up env key w = (Inr (True, v), w') \<Longrightarrow> A key = Inr v"
  unfolding right_for_def look_up_run by (auto split: prod.splits dest: resp_cache.right_hit)

lemma right_for_event: "right_for A w \<Longrightarrow> right_for A (snd (set_cache_event env s k r w))"
  unfolding right_for_def by (rule resp_cache.right_other [OF _ event_shrinks])

lemma steady_chat:
  assumes "steady_model env cl A" "right_for A w"
  shows "fst (chat env cl messages w) = steady_result env cl A messages \<and> right_for A (snd (chat env cl messages w))"
proof (cases "check_usable env cl messages")
  case None
  let ?key = "build_cache_key env cl messages"
  obtain r w' where l: "look_up env ?key w = (Inr r, w')" and r': "right_for A w'"
    using right_for_look_up [OF assms(2), of env ?key] by (auto simp: look_up_run split: prod.splits)
  have hit: "A ?key = Inr (snd r)" if "fst r"
    using right_for_hit [OF assms(2), of env ?key "snd r" w'] l that by (cases r) simp
  show ?thesis
    using steady_ask [OF assms(1) r', of messages] steady_ask [OF assms(1) right_for_bypass [OF assms(2)], of messages]
      right_for_event [OF r'] hit
    by (cases r) (auto simp: chat_cases Let_def None l steady_result_def client_result_def split: bool.split)
qed (simp add: chat_cases steady_result_def assms(2))

fun chat_all :: "llm_env \<Rightarrow> llm_client \<Rightarrow> pydict list list \<Rightarrow> llm_world \<Rightarrow> string result list" where
  "chat_all env cl [] w = []"
| "chat_all env cl (m # ms) w = (let (r, w') = chat env cl m w in r # chat_all env cl ms w')"

lemma steady_chat_all:
  "steady_model env cl A \<Longrightarrow> right_for A w \<Longrightarrow> chat_all env cl ms w = map (steady_result env cl A) ms"
proof (induction ms arbitrary: w)
  case (Cons m ms)
  from steady_chat [OF Cons.prems, of m] Cons.IH [OF Cons.prems(1)] show ?case
    by (simp add: split_def)
qed simp

lemma right_for_new: "right_for A (new_llm_world (new_llm_cache s))"
  by (simp add: right_for_def new_llm_world_def new_llm_cache_def resp_cache.right_def held_answers_def)

definition without_cache :: "llm_client \<Rightarrow> llm_client" where
  "without_cache cl = cl\<lparr>lk_cache_settings := (lk_cache_settings cl)\<lparr>cs_enabled := False\<rparr>\<rparr>"

lemma without_cache_sel [simp]:
  "lk_backend (without_cache cl) = lk_backend cl" "lk_model (without_cache cl) = lk_model cl"
  "lk_temperature (without_cache cl) = lk_temperature cl" "lk_timeout (without_cache cl) = lk_timeout cl"
  "lk_chat_url (without_cache cl) = lk_chat_url cl" "lk_auth_header (without_cache cl) = lk_auth_header cl"
  "lk_key_candidates (without_cache cl) = lk_key_candidates cl" "lk_max_tokens (without_cache cl) = lk_max_tokens cl"
  "lk_extra_request (without_cache cl) = lk_extra_request cl"
  by (simp_all add: without_cache_def)

lemma without_cache_same:
  "check_usable env (without_cache cl) m = check_usable env cl m"
  "build_cache_key env (without_cache cl) m = build_cache_key env cl m"
  "model_answer env (without_cache cl) n m = model_answer env cl n m"
  unfolding check_usable_def required_key_name_def placeholder_key_name_def openai_request_def claude_request_def
    resolve_openai_api_key_def build_openai_auth_header_def build_cache_key_def model_answer_def raw_answer_def
    without_cache_sel
  by (rule refl)+

text \<open>C3. The cache is invisible: when the model answers requests with equal cache keys alike, whatever
  the number of the call, then a sequence of requests gets the same answers and the same errors from a client
  with a cache, starting empty, as from the same client without one, for any size and life of the entries and
  any course of the clock.\<close>

theorem cache_is_invisible:
  assumes "steady_model env cl A"
  shows "chat_all env cl requests (new_llm_world (new_llm_cache s)) =
         chat_all env (without_cache cl) requests (new_llm_world (new_llm_cache s'))"
proof -
  have "steady_model env (without_cache cl) A"
    using assms by (simp add: steady_model_def without_cache_same)
  then show ?thesis
    using assms by (simp add: steady_chat_all right_for_new steady_result_def without_cache_same cong: option.case_cong)
qed

section \<open>The settings of a client\<close>

definition llm_client_ok :: "llm_client \<Rightarrow> bool" where
  "llm_client_ok cl \<longleftrightarrow>
     lk_backend cl \<in> {''openai'', ''claude''} \<and> lk_model cl \<noteq> [] \<and> 0 < lk_timeout cl \<and>
     lk_chat_url cl \<noteq> [] \<and> lk_auth_header cl \<noteq> [] \<and> 4096 \<le> lk_max_tokens cl \<and>
     ''OPENAI_API_KEY'' \<in> set (lk_key_candidates cl) \<and> distinct (lk_key_candidates cl) \<and>
     1 \<le> cs_max_size (lk_cache_settings cl) \<and> 1 \<le> cs_ttl_seconds (lk_cache_settings cl)"

lemma pick_text_nonempty: "strip s \<noteq> [] \<Longrightarrow> pick_text (map of_env vs @ [PStr s]) \<noteq> []"
  by (induction vs) (auto simp: pick_text_def of_env_def py_str_def split: option.split)

lemma pick_text_nonempty_insts:
  "strip s \<noteq> [] \<Longrightarrow> pick_text [of_env a, PStr s] \<noteq> []"
  "strip s \<noteq> [] \<Longrightarrow> pick_text [of_env a, of_env b, PStr s] \<noteq> []"
  "strip s \<noteq> [] \<Longrightarrow> pick_text [of_env a, of_env b, of_env c, PStr s] \<noteq> []"
  using pick_text_nonempty [of s "[a]"] pick_text_nonempty [of s "[a, b]"] pick_text_nonempty [of s "[a, b, c]"]
  by simp_all

lemma set_dedupe: "set (dedupe_non_empty xs acc) = set acc \<union> (strip ` set xs - {[]})"
  by (induction xs acc rule: dedupe_non_empty.induct) (auto simp: Let_def)

lemma distinct_dedupe: "distinct acc \<Longrightarrow> distinct (dedupe_non_empty xs acc)"
  by (induction xs acc rule: dedupe_non_empty.induct) (auto simp: Let_def)

lemma to_int_positive: "0 < d \<Longrightarrow> 0 < to_int raw d"
  by (auto simp: to_int_def to_int_or_none_def split: option.splits sum.splits if_splits)

lemma strip_append_nonblank:
  assumes "c \<in> set s" "\<not> is_space c"
  shows "strip s \<noteq> []"
proof
  assume "strip s = []"
  then have "\<forall>x\<in>set (dropWhile is_space s). is_space x" by (simp add: strip_def dropWhile_eq_Nil_conv)
  then have "dropWhile is_space s = []" using dropWhile_hd [of is_space s] hd_in_set by blast
  with assms show False by (simp add: dropWhile_eq_Nil_conv)
qed

text \<open>Whatever the arguments, the environment and the profile file are, a client is well formed: one of
  the two backends, a model, a URL and a header, a positive timeout, at least 4096 tokens, distinct key names
  that include the standard one, and a cache with at least one place and a life of at least a second.\<close>

theorem new_client_well_formed: "llm_client_ok (new_llm_client pf getenv a)"
proof -
  have "strip ''openai'' \<noteq> []" "strip ''gpt-4.1-mini'' \<noteq> []" "strip ''Bearer ${OPENAI_API_KEY}'' \<noteq> []"
    "strip ''OPENAI_API_KEY'' = ''OPENAI_API_KEY''"
    by (simp_all add: strip_def is_space_def)
  moreover have "strip (u @ ''/v1/chat/completions'') \<noteq> []" for u
    by (rule strip_append_nonblank [of "CHR ''v''"]) (simp_all add: is_space_def)
  ultimately show ?thesis
    by (auto simp: llm_client_ok_def new_llm_client_def Let_def pick_text_nonempty_insts set_dedupe
        distinct_dedupe to_int_positive resolve_cache_settings_bounds image_iff)
qed

section \<open>Hits, misses and failures\<close>

lemma look_up_returns: "\<exists>r w'. look_up env key w = (Inr r, w')"
  by (simp add: look_up_run split_def Let_def prod_eq_iff)

lemma look_up_hit:
  "look_up env key w = (Inr r, w') \<Longrightarrow>
     r = fst (cache_get (le_clock env (lw_reads w)) key (lw_cache w)) \<and>
     lw_cache w' = snd (cache_get (le_clock env (lw_reads w)) key (lw_cache w)) \<and>
     lw_calls w' = lw_calls w \<and> lw_history w' = lw_history w"
  by (auto simp: look_up_run split: prod.splits)

lemma get_shrinks: "cache_shrinks c (snd (cache_get now k c))"
  by (simp add: cache_shrinks_def entries_get)

text \<open>C19. A request that finds its answer in the cache gets it without a call to the model. Any other request
  makes exactly one call, and gets its answer or, as the client's own error, its failure; an empty answer is a
  failure, and a failure leaves nothing in the cache that was not there before.\<close>

theorem chat_outcome:
  fixes w :: llm_world
  assumes "check_usable env cl messages = None" "cs_enabled (lk_cache_settings cl)"
  defines "found \<equiv> fst (cache_get (le_clock env (lw_reads w)) (build_cache_key env cl messages) (lw_cache w))"
    and "answer \<equiv> model_answer env cl (lw_calls w) messages"
  shows "if fst found
     then fst (chat env cl messages w) = Inr (snd found) \<and> lw_calls (snd (chat env cl messages w)) = lw_calls w
     else fst (chat env cl messages w) = client_result answer \<and>
          lw_calls (snd (chat env cl messages w)) = lw_calls w + 1 \<and>
          (answer \<in> range Inr \<or> held_answers (lw_cache (snd (chat env cl messages w))) \<subseteq> held_answers (lw_cache w))"
proof -
  let ?key = "build_cache_key env cl messages"
  obtain r w' where l: "look_up env ?key w = (Inr r, w')" using look_up_returns by blast
  note found = look_up_hit [OF l]
  have "held_answers (lw_cache (snd (ask_guarded env cl ?key messages w'))) \<subseteq> held_answers (lw_cache w)"
    if "answer = Inl e" for e
    using ask_guarded_failure [of env cl w' messages e ?key] that found
      get_shrinks [of "lw_cache w" "le_clock env (lw_reads w)" ?key]
    by (auto simp: answer_def held_answers_def cache_shrinks_def)
  then have "answer \<in> range Inr \<or>
      held_answers (lw_cache (snd (ask_guarded env cl ?key messages w'))) \<subseteq> held_answers (lw_cache w)"
    by (cases answer) auto
  moreover have "found = r" "lw_calls w' = lw_calls w" using found by (simp_all add: found_def)
  ultimately show ?thesis
    using assms(1,2) l
    by (cases r) (simp add: answer_def chat_cases Let_def ask_guarded_answer ask_guarded_calls
        set_cache_event_run split: bool.split)
qed

section \<open>The books of the cache\<close>

text \<open>\<open>books n c\<close>: the counters of \<open>c\<close> add up, with \<open>n\<close> requests under way.\<close>

definition books :: "int \<Rightarrow> llm_cache \<Rightarrow> bool" where
  "books n c \<longleftrightarrow> cache_ok c \<and> 0 \<le> lc_hits c \<and> 0 \<le> lc_misses c \<and> 0 \<le> lc_bypasses c \<and> 0 \<le> lc_failures c \<and>
     lc_failures c + int (length (lc_entries c)) + n \<le> lc_misses c + lc_bypasses c"

lemma books_purge: "books n c \<Longrightarrow> books n (purge_expired now c)"
proof -
  assume b: "books n c"
  have "length (lc_entries (purge_expired now c)) \<le> length (lc_entries c)" by (simp add: entries_purge)
  with b show ?thesis by (simp add: books_def cache_ok_purge)
qed

lemma books_get:
  assumes "books 0 c"
  shows "books (if fst (fst (cache_get now k c)) then 0 else 1) (snd (cache_get now k c))"
  using books_purge [OF assms, of now] cache_ok_get [of c now k] assms
  by (auto simp: cache_get_def Let_def books_def length_move_to_end cache_ok_def cache_keys_def split: option.splits)

lemma cache_set_counters [simp]:
  "lc_hits (cache_set now later k v c) = lc_hits c" "lc_misses (cache_set now later k v c) = lc_misses c"
  "lc_bypasses (cache_set now later k v c) = lc_bypasses c" "lc_failures (cache_set now later k v c) = lc_failures c"
  by (simp_all add: cache_set_def Let_def split: prod.split)

lemma length_delete_le: "length (AList.delete k xs) \<le> length xs"
  unfolding delete_filter by (rule length_filter_le)

lemma books_set: "books (n + 1) c \<Longrightarrow> books n (cache_set now later k v c)"
proof -
  assume b: "books (n + 1) c"
  then have "0 \<le> cs_max_size (lc_settings c)" by (simp add: books_def cache_ok_def)
  then have "length (lc_entries (cache_set now later k v c)) \<le>
      Suc (length (AList.delete k (lc_entries (purge_expired now c))))"
    by (simp add: entries_set Let_def)
  also have "\<dots> \<le> Suc (length (lc_entries c))"
    using length_delete_le [of k "lc_entries (purge_expired now c)"]
    by (simp add: entries_purge) (meson length_filter_le order_trans)
  finally show ?thesis using b by (simp add: books_def cache_ok_set)
qed

lemma books_counts: "books n c \<Longrightarrow> books (n + 1) (record_bypass c)" "books (n + 1) c \<Longrightarrow> books n (record_cache_failure c)"
  by (auto simp: books_def cache_ok_counts) (auto simp: record_bypass_def record_cache_failure_def)

lemma books_weaken: "books m c \<Longrightarrow> n \<le> m \<Longrightarrow> books n c"
  by (simp add: books_def)

lemma books_discard: "books n c \<Longrightarrow> books n (snd (cache_discard k c))"
proof -
  assume b: "books n c"
  have ok: "cache_ok (snd (cache_discard k c))"
    using b cache_ok_step [of c "CDiscard k"] by (simp add: books_def)
  have "length (AList.delete k (lc_entries c)) < length (lc_entries c)" if "map_of (lc_entries c) k = Some e" for e
    using map_of_SomeD [OF that] unfolding delete_filter by (intro length_filter_less [of "(k, e)"]) auto
  then show ?thesis using b ok by (fastforce simp: books_def cache_discard_def)
qed

definition world_ok :: "llm_world \<Rightarrow> bool" where
  "world_ok w \<longleftrightarrow> books 0 (lw_cache w) \<and> length (lw_history w) \<le> 64"

lemma event_ok: "books 0 (lw_cache w) \<Longrightarrow> world_ok (snd (set_cache_event env s k r w))"
  by (simp add: world_ok_def set_cache_event_run Let_def books_purge last_n_def)

lemma world_ok_ask:
  assumes "books 1 (lw_cache w)" "length (lw_history w) \<le> 64"
  shows "world_ok (snd (ask_guarded env cl key messages w))"
  using assms books_set [of 0 "lw_cache w"] books_counts(2) [of 0 "lw_cache w"] books_weaken [of 1 _ 0]
  by (auto simp: ask_guarded_run store_answer_run on_cache_run world_ok_def [of "w\<lparr>lw_calls := _\<rparr>"] intro!: event_ok
      split: sum.split)

lemma world_ok_chat:
  assumes "world_ok w"
  shows "world_ok (snd (chat env cl messages w))"
proof -
  let ?key = "build_cache_key env cl messages"
  obtain r w' where l: "look_up env ?key w = (Inr r, w')" using look_up_returns by blast
  note found = look_up_hit [OF l]
  have b: "books (if fst r then 0 else 1) (lw_cache w')" "length (lw_history w') \<le> 64"
    using books_get [of "lw_cache w"] assms found by (auto simp: world_ok_def)
  have "world_ok (snd (ask_guarded env cl ?key messages (snd (on_cache record_bypass w))))"
    using assms books_counts(1) [of 0] by (auto simp: world_ok_def on_cache_run intro!: world_ok_ask [unfolded world_ok_def])
  then show ?thesis
    using b assms world_ok_ask [of w'] event_ok [of w']
    by (cases r) (auto simp: chat_cases Let_def l split: option.split bool.split)
qed

lemma world_ok_discard_entry: "world_ok w \<Longrightarrow> world_ok (snd (discard_entry env reason key w))"
  using books_discard [of 0 "lw_cache w" key] event_ok [of "w\<lparr>lw_cache := snd (cache_discard key (lw_cache w))\<rparr>"]
  by (auto simp: discard_entry_def next_act_def bind_def when_do_def ret_def world_ok_def set_cache_event_run Let_def
      split: prod.split)

lemma discard_entry_returns: "\<exists>b w'. discard_entry env reason key w = (Inr b, w')"
  by (auto simp: discard_entry_def next_act_def bind_def when_do_def ret_def set_cache_event_run Let_def split: prod.split)

lemma world_ok_discard_last: "world_ok w \<Longrightarrow> world_ok (snd (discard_last_cache_entry env reason w))"
proof -
  assume w: "world_ok w"
  obtain b w' where d: "discard_entry env reason (lw_last_key w) w = (Inr b, w')"
    using discard_entry_returns by blast
  have "world_ok w'" using world_ok_discard_entry [OF w, of env reason "lw_last_key w"] d by simp
  then show ?thesis
    using w by (simp add: discard_last_cache_entry_def bind_def d next_act_def modify_def ret_def world_ok_def)
qed

lemma world_ok_discard_events: "world_ok w \<Longrightarrow> world_ok (snd (discard_events env reason es n w))"
proof (induction env reason es n arbitrary: w rule: discard_events.induct)
  case (2 env reason e es n)
  obtain b w' where d: "discard_entry env reason (ev_key e) w = (Inr b, w')"
    using discard_entry_returns by blast
  have "world_ok w'" using world_ok_discard_entry [OF 2(3), of env reason "ev_key e"] d by simp
  then show ?case using 2 by (simp add: bind_def d)
qed (simp add: ret_def)

lemma world_ok_clear: "world_ok w \<Longrightarrow> world_ok (clear_cache r w)"
  using cache_ok_clear [of "lw_cache w" r]
  by (auto simp: world_ok_def books_def clear_cache_def) (auto simp: cache_clear_def Let_def)

datatype llm_op =
    Chat "pydict list"
  | DiscardLast string
  | DiscardSince int string
  | ClearCache bool

fun llm_step :: "llm_env \<Rightarrow> llm_client \<Rightarrow> llm_op \<Rightarrow> llm_world \<Rightarrow> llm_world" where
  "llm_step env cl (Chat messages) w = snd (chat env cl messages w)"
| "llm_step env cl (DiscardLast reason) w = snd (discard_last_cache_entry env reason w)"
| "llm_step env cl (DiscardSince sequence reason) w = snd (discard_cache_entries_since env reason sequence w)"
| "llm_step env cl (ClearCache reset_stats) w = clear_cache reset_stats w"

lemma world_ok_run: "world_ok w \<Longrightarrow> world_ok (fold (llm_step env cl) ops w)"
proof (induction ops arbitrary: w)
  case (Cons x xs)
  have "world_ok (llm_step env cl x w)"
    using Cons.prems by (cases x) (simp_all add: world_ok_chat world_ok_discard_last world_ok_clear
        discard_cache_entries_since_def world_ok_discard_events)
  with Cons.IH show ?case by simp
qed simp

lemma world_ok_new: "1 \<le> cs_max_size s \<Longrightarrow> world_ok (new_llm_world (new_llm_cache s))"
  using cache_ok_new [of s] by (simp add: world_ok_def new_llm_world_def books_def) (simp add: new_llm_cache_def)

lemma round_half_even_bounds: "0 \<le> q \<Longrightarrow> q \<le> of_int n \<Longrightarrow> 0 \<le> round_half_even q \<and> round_half_even q \<le> n"
proof -
  assume q: "0 \<le> q" "q \<le> of_int n"
  then have "0 \<le> \<lfloor>q\<rfloor>" "\<lfloor>q\<rfloor> \<le> n" by (simp_all add: floor_le_iff)
  moreover have "\<lfloor>q\<rfloor> = n \<Longrightarrow> q = of_int n" using q(2) of_int_floor_le [of q] by simp
  ultimately show ?thesis by (cases "\<lfloor>q\<rfloor> = n") (auto simp: round_half_even_def Let_def)
qed

lemma safe_ratio_bounds: "0 \<le> a \<Longrightarrow> a \<le> b \<Longrightarrow> 0 \<le> safe_ratio a b \<and> safe_ratio a b \<le> 1"
proof (cases "b \<le> 0")
  case False
  assume a: "0 \<le> a" "a \<le> b"
  then have "(of_int a / of_int b * 10 ^ 4 :: rat) \<le> of_int 10000" using False by (simp add: field_simps)
  with False a round_half_even_bounds [of "of_int a / of_int b * 10 ^ 4" 10000]
  show ?thesis by (auto simp: safe_ratio_def round_to_def)
qed (simp add: safe_ratio_def)

text \<open>Whatever requests, discards and clearings a client makes, of an answering or a failing model, the
  statistics of its cache are consistent: it never holds more answers than it has places, as many requests
  as hits, misses and bypasses are counted, never more failures than requests, the three rates lie between
  0 and 1, and the trail holds at most 64 events.\<close>

theorem cache_statistics_consistent:
  fixes env :: llm_env and cl :: llm_client and ops :: "llm_op list" and now :: rat
  assumes "1 \<le> cs_max_size s"
  defines "w \<equiv> fold (llm_step env cl) ops (new_llm_world (new_llm_cache s))"
  defines "st \<equiv> fst (cache_stats now (lw_cache w))"
  shows "st_size st \<le> st_max_size st \<and> st_requests st = st_hits st + st_misses st + st_bypasses st \<and>
    0 \<le> st_failures st \<and> st_failures st \<le> st_requests st \<and>
    0 \<le> st_hit_rate st \<and> st_hit_rate st \<le> 1 \<and> 0 \<le> st_bypass_rate st \<and> st_bypass_rate st \<le> 1 \<and>
    0 \<le> st_failure_rate st \<and> st_failure_rate st \<le> 1 \<and> length (lw_history w) \<le> 64"
proof -
  have w: "world_ok w" unfolding w_def by (rule world_ok_run [OF world_ok_new [OF assms(1)]])
  then have "books 0 (purge_expired now (lw_cache w))" by (simp add: world_ok_def books_purge)
  then show ?thesis
    using w by (auto simp: st_def cache_stats_def Let_def books_def cache_ok_def world_ok_def
        intro!: safe_ratio_bounds [THEN conjunct1] safe_ratio_bounds [THEN conjunct2])
qed

section \<open>Rejected answers\<close>

lemma chat_last_key:
  assumes "chat env cl messages w = (Inr t, w1)"
  shows "check_usable env cl messages = None" "lw_last_key w1 = build_cache_key env cl messages"
  using assms look_up_returns [of env "build_cache_key env cl messages" w]
  by (auto simp: chat_cases Let_def set_cache_event_run ask_guarded_run store_answer_run on_cache_run client_result_def
      split: option.splits sum.splits if_splits bool.splits prod.splits)

lemma discard_entry_gone:
  "discard_entry env reason key w = (r, w') \<Longrightarrow> key \<notin> fst ` set (lc_entries (lw_cache w')) \<and> lw_calls w' = lw_calls w"
  by (auto simp: discard_entry_def next_act_def bind_def when_do_def ret_def set_cache_event_run Let_def
      cache_discard_def entries_purge delete_filter map_of_eq_None_iff split: prod.splits if_splits)

lemma get_missing: "key \<notin> fst ` set (lc_entries c) \<Longrightarrow> \<not> fst (fst (cache_get now key c))"
proof -
  assume "key \<notin> fst ` set (lc_entries c)"
  then have "map_of (lc_entries (purge_expired now c)) key = None"
    by (force simp: map_of_eq_None_iff entries_purge)
  then show ?thesis by (simp add: cache_get_def Let_def)
qed

text \<open>A request whose key the cache does not hold asks the model.\<close>

lemma chat_when_gone:
  assumes "check_usable env cl messages = None" "build_cache_key env cl messages \<notin> fst ` set (lc_entries (lw_cache w))"
  shows "fst (chat env cl messages w) = client_result (model_answer env cl (lw_calls w) messages) \<and>
    lw_calls (snd (chat env cl messages w)) = lw_calls w + 1"
proof -
  obtain r w'' where l: "look_up env (build_cache_key env cl messages) w = (Inr r, w'')" using look_up_returns by blast
  have "\<not> fst r" "lw_calls w'' = lw_calls w"
    using look_up_hit [OF l] get_missing [OF assms(2)] by auto
  then show ?thesis
    by (cases r) (simp add: chat_cases assms(1) Let_def l ask_guarded_answer ask_guarded_calls on_cache_run)
qed

text \<open>An answer that the caller discards is not given again: after a request that succeeded, by the cache or
  by the model, and \<open>discard_last_cache_entry\<close>, the same request asks the model once more.\<close>

theorem discarded_answer_is_not_reused:
  assumes "chat env cl messages w = (Inr t, w1)" "discard_last_cache_entry env reason w1 = (b, w2)"
    "build_cache_key env cl messages \<noteq> []"
  shows "fst (chat env cl messages w2) = client_result (model_answer env cl (lw_calls w2) messages) \<and>
    lw_calls (snd (chat env cl messages w2)) = lw_calls w2 + 1"
proof -
  let ?key = "build_cache_key env cl messages"
  note last = chat_last_key [OF assms(1)]
  obtain b' w' where d: "discard_entry env reason ?key w1 = (Inr b', w')"
    using discard_entry_returns by blast
  then have "w2 = w'\<lparr>lw_last_key := []\<rparr>"
    using assms(2,3) by (simp add: discard_last_cache_entry_def last bind_def next_act_def modify_def ret_def)
  then have gone: "?key \<notin> fst ` set (lc_entries (lw_cache w2))"
    using discard_entry_gone [OF d] by simp
  show ?thesis by (rule chat_when_gone [OF last(1) gone])
qed

text \<open>Every answer leaves a hit or a miss in the trail, so that the discard of what happened since a moment
  before the request finds its key.\<close>

lemma chat_event:
  assumes "chat env cl messages w = (Inr t, w1)" "cs_enabled (lk_cache_settings cl)"
  shows "\<exists>e\<in>set (lw_history w1). ev_sequence e = lw_sequence w + 1 \<and> ev_status e \<in> {''hit'', ''miss''} \<and>
    ev_key e = build_cache_key env cl messages"
  using assms look_up_returns [of env "build_cache_key env cl messages" w]
  by (auto simp: chat_cases Let_def set_cache_event_run ask_guarded_run store_answer_run client_result_def last_n_def
      look_up_run split: option.splits sum.splits if_splits bool.splits prod.splits)

definition held_keys :: "llm_world \<Rightarrow> string set" where
  "held_keys w = fst ` set (lc_entries (lw_cache w))"

lemma discard_entry_keys: "discard_entry env reason key w = (r, w') \<Longrightarrow> held_keys w' \<subseteq> held_keys w - {key}"
  by (force simp: held_keys_def discard_entry_def next_act_def bind_def when_do_def ret_def set_cache_event_run Let_def
      cache_discard_def entries_purge delete_filter map_of_eq_None_iff split: prod.splits if_splits)

lemma discard_events_calls: "discard_events env reason es n w = (r, w') \<Longrightarrow> lw_calls w' = lw_calls w"
proof (induction env reason es n arbitrary: w rule: discard_events.induct)
  case (2 env reason x es n)
  obtain b w' where d: "discard_entry env reason (ev_key x) w = (Inr b, w')" using discard_entry_returns by blast
  show ?case using 2 discard_entry_gone [OF d] by (auto simp: bind_def d split: if_splits)
qed (simp add: ret_def)

lemma discard_events_run:
  "\<exists>r w'. discard_events env reason es n w = (Inr r, w') \<and>
     held_keys w' \<subseteq> held_keys w - ev_key ` {e \<in> set es. ev_status e \<in> {''hit'', ''miss''}}"
proof (induction env reason es n arbitrary: w rule: discard_events.induct)
  case (2 env reason x es n)
  show ?case
  proof (cases "ev_status x \<in> {''hit'', ''miss''}")
    case True
    obtain b w' where d: "discard_entry env reason (ev_key x) w = (Inr b, w')" using discard_entry_returns by blast
    obtain r w'' where r: "discard_events env reason es (if b then n + 1 else n) w' = (Inr r, w'')"
      "held_keys w'' \<subseteq> held_keys w' - ev_key ` {e \<in> set es. ev_status e \<in> {''hit'', ''miss''}}"
      using 2(2) [of b w'] True by blast
    have "held_keys w'' \<subseteq> held_keys w - ev_key ` {e \<in> set (x # es). ev_status e \<in> {''hit'', ''miss''}}"
      using r(2) discard_entry_keys [OF d] by auto
    then show ?thesis using True r(1) by (simp add: bind_def d)
  next
    case False
    then have "{e \<in> set (x # es). ev_status e \<in> {''hit'', ''miss''}} = {e \<in> set es. ev_status e \<in> {''hit'', ''miss''}}"
      by auto
    with 2(1) [of w] False show ?thesis by simp
  qed
qed (simp add: ret_def)

lemma discard_since_gone:
  assumes "chat env cl messages w = (Inr t, w1)" "cs_enabled (lk_cache_settings cl)" "0 \<le> lw_sequence w"
  shows "\<exists>r w2. discard_cache_entries_since env reason (cache_event_cursor w) w1 = (Inr r, w2) \<and>
    build_cache_key env cl messages \<notin> held_keys w2"
proof -
  let ?es = "cache_events_since (cache_event_cursor w) w1"
  obtain r w2 where r: "discard_events env reason ?es 0 w1 = (Inr r, w2)"
    "held_keys w2 \<subseteq> held_keys w1 - ev_key ` {e \<in> set ?es. ev_status e \<in> {''hit'', ''miss''}}"
    using discard_events_run by blast
  show ?thesis
  proof (rule bexE [OF chat_event [OF assms(1,2)]])
    fix e assume e: "e \<in> set (lw_history w1)"
      "ev_sequence e = lw_sequence w + 1 \<and> ev_status e \<in> {''hit'', ''miss''} \<and> ev_key e = build_cache_key env cl messages"
    then have "e \<in> {e \<in> set ?es. ev_status e \<in> {''hit'', ''miss''}}"
      using assms(3) by (simp add: cache_events_since_def cache_event_cursor_def)
    then have "ev_key e \<in> ev_key ` {e \<in> set ?es. ev_status e \<in> {''hit'', ''miss''}}" by (rule imageI)
    with r(2) e(2) have "build_cache_key env cl messages \<notin> held_keys w2" by auto
    with r(1) show ?thesis by (simp add: discard_cache_entries_since_def)
  qed
qed

section \<open>Witnesses\<close>

definition sample_llm_env :: llm_env where
  "sample_llm_env = \<lparr>le_getenv = (\<lambda>k. if k = ''OPENAI_API_KEY'' then Some ''sk-1'' else None), le_clock = of_nat,
     le_provider = Some (\<lambda>n backend messages model temperature. Inr ''pong''), le_marker = ''tests:reply'',
     le_post = (\<lambda>n request. Inl (RuntimeError ''no network'')), le_patched = False, le_dumps = py_str,
     le_sha256 = (\<lambda>s. s)\<rparr>"

definition sample_cache_settings :: cache_settings where
  "sample_cache_settings = \<lparr>cs_enabled = True, cs_max_size = 2, cs_ttl_seconds = 300\<rparr>"

definition sample_llm_client :: llm_client where
  "sample_llm_client = \<lparr>lk_backend = ''openai'', lk_model = ''gpt-4.1-mini'', lk_temperature = 2 / 10, lk_timeout = 120,
     lk_base_url = ''https://api.openai.com'', lk_chat_url = ''https://api.openai.com/v1/chat/completions'',
     lk_auth_header = ''Bearer ${OPENAI_API_KEY}'', lk_key_candidates = [''OPENAI_API_KEY''],
     lk_max_tokens = 4096, lk_extra_request = [], lk_cache_settings = sample_cache_settings\<rparr>"

definition sample_ping :: "pydict list" where
  "sample_ping = [[(''role'', PStr ''user''), (''content'', PStr ''ping'')]]"

abbreviation sample_llm_start :: llm_world where
  "sample_llm_start \<equiv> new_llm_world (new_llm_cache sample_cache_settings)"

lemma sample_usable: "check_usable sample_llm_env sample_llm_client sample_ping = None"
  by (simp add: check_usable_def required_key_name_def placeholder_key_name_def sample_llm_env_def
      sample_llm_client_def sample_ping_def env_text_def strip_def is_space_def Let_def)

lemma sample_steady: "steady_model sample_llm_env sample_llm_client (\<lambda>_. Inr ''pong'')"
  by (simp add: steady_model_def model_answer_def raw_answer_def sample_llm_env_def strip_markdown_fence_def
      strip_def is_space_def Let_def)

lemma sample_key: "build_cache_key sample_llm_env sample_llm_client sample_ping \<noteq> []"
  by (simp add: build_cache_key_def sample_llm_env_def py_str_def)

lemma sample_chat: "fst (chat sample_llm_env sample_llm_client sample_ping sample_llm_start) = Inr ''pong''"
  using steady_chat [OF sample_steady right_for_new] by (simp add: steady_result_def sample_usable client_result_def)

lemma cache_is_invisible_witness:
  "steady_model sample_llm_env sample_llm_client (\<lambda>_. Inr ''pong'') \<and>
   chat_all sample_llm_env sample_llm_client [sample_ping, sample_ping] sample_llm_start =
   chat_all sample_llm_env (without_cache sample_llm_client) [sample_ping, sample_ping] sample_llm_start"
  using sample_steady cache_is_invisible [OF sample_steady] by blast

lemma chat_outcome_witness:
  "fst (chat sample_llm_env sample_llm_client sample_ping sample_llm_start) =
     client_result (model_answer sample_llm_env sample_llm_client 0 sample_ping) \<and>
   lw_calls (snd (chat sample_llm_env sample_llm_client sample_ping sample_llm_start)) = 1"
  using chat_outcome [OF sample_usable, of sample_llm_start]
  by (simp add: sample_llm_client_def sample_cache_settings_def new_llm_world_def new_llm_cache_def cache_get_def
      purge_expired_def Let_def)

end
