(* ===== verification/Workflows.thy ===== *)
theory Workflows
  imports Workflow_Base Llm_Client Fix_Loop Task_Payloads
begin

text \<open>
  The five LangGraph workflows, \<open>workflows/analyze_workflow.py\<close>, \<open>test_workflow.py\<close>,
  \<open>code_change_workflow.py\<close>, \<open>backend_generation_workflow.py\<close> and \<open>fullstack_workflow.py\<close>: the initial
  state, the nodes and the graph of each. The state holds dictionaries, texts and lists where the initial
  state and the nodes put them, so reading them does not fail. The language model, the sandbox and the
  generators are parameters; the gate and the fix loop are the ones of Validation_Gate and Fix_Loop, on files
  in a temporary directory that is removed in the end.
\<close>

section \<open>The state\<close>

definition metadata_of :: "pydict \<Rightarrow> pydict" where
  "metadata_of state = dict_of (dget state ''metadata'')"

definition plan_of :: "pydict \<Rightarrow> pydict" where
  "plan_of state = dict_of (dget state ''plan'')"

definition text_at :: "pydict \<Rightarrow> string \<Rightarrow> string" where
  "text_at d k = str_of (dget_or d k (PStr []))"

definition text_at_or :: "pydict \<Rightarrow> string \<Rightarrow> string \<Rightarrow> string" where
  "text_at_or d k fallback = str_of (dget_or d k (PStr fallback))"

definition arg_text :: "pydict \<Rightarrow> string \<Rightarrow> string" where
  "arg_text task k = strip (py_str (dget_or task k (PStr [])))"

definition initial_state :: "string \<Rightarrow> pydict \<Rightarrow> pydict \<Rightarrow> pydict" where
  "initial_state intent metadata task =
     [(''task_id'', PStr (py_str (dget_or task ''task_id'' (PStr [])))), (''intent'', PStr intent), (''plan'', PDict []),
      (''code'', PDict []), (''errors'', PList []),
      (''metadata'', PDict (metadata @ [(''raw_task'', PDict task)])),
      (''stage'', PStr ''init''), (''retry_count'', PInt 0)]"

definition put :: "string \<Rightarrow> pyval \<Rightarrow> pydict \<Rightarrow> pydict" where
  "put k v d = AList.update k v d"

definition chain_graph :: "(string \<times> (pydict \<Rightarrow> ('w, pydict) act)) list \<Rightarrow> 'w wf_graph" where
  "chain_graph nodes = \<lparr>wg_nodes = nodes, wg_entry = fst (hd nodes),
     wg_edges = zip (map fst nodes) (tl (map fst nodes) @ [''__end__''])\<rparr>"

definition workflow_result :: "string \<Rightarrow> pydict \<Rightarrow> pydict" where
  "workflow_result key final = dict_of (dget (metadata_of final) key)"

section \<open>Analyze\<close>

type_synonym 'w asker = "string \<Rightarrow> string \<Rightarrow> ('w, string) act"

definition analyze_initial :: "pydict \<Rightarrow> pydict" where
  "analyze_initial task = initial_state ''analyze''
     [(''prompt'', PStr (arg_text task ''prompt'')), (''plan_name'', PStr (arg_text task ''planName''))] task"

definition analyze_sub_intent :: "string \<Rightarrow> string" where
  "analyze_sub_intent prompt =
     (let p = lower prompt in
      if mentions_any [''test'', ''spec'', ''coverage''] p then ''test_analysis''
      else if mentions_any [''backend'', ''api'', ''route'', ''endpoint''] p then ''backend_analysis''
      else if mentions_any [''frontend'', ''ui'', ''html'', ''css''] p then ''frontend_analysis''
      else if mentions_any [''security'', ''auth'', ''permission''] p then ''security_analysis''
      else ''general_analysis'')"

definition intent_classification_node :: "pydict \<Rightarrow> ('w, pydict) act" where
  "intent_classification_node state =
     (let metadata = metadata_of state;
          metadata = put ''classified'' (PBool True)
            (put ''sub_intent'' (PStr (analyze_sub_intent (text_at metadata ''prompt''))) metadata)
      in ret (put ''intent'' (PStr ''analyze'') (put ''metadata'' (PDict metadata)
           (put ''stage'' (PStr ''intent_classification'') state))))"

definition answer_lines :: "string \<Rightarrow> string list" where
  "answer_lines text = filter (\<lambda>l. l \<noteq> []) (map strip (splitlines text))"

definition analysis_steps :: "string \<Rightarrow> string list" where
  "analysis_steps text =
     (let lines = answer_lines text;
          steps = map (\<lambda>l. strip (dropWhile (\<lambda>c. c \<in> set ''0123456789.-) '') l))
            (filter (\<lambda>l. digit_val (hd l) \<noteq> None \<or> prefix ''-'' l \<or> prefix ''*'' l) lines)
      in if steps \<noteq> [] then steps else take 5 lines)"

definition analyze_system_prompt :: string where
  "analyze_system_prompt = ''You are a code analysis assistant. '' @
     ''Analyze the given task and provide a structured plan with steps. '' @
     ''Respond with a brief summary and a list of action steps.''"

definition analyze_prompt :: "string \<Rightarrow> string" where
  "analyze_prompt prompt = ''Analyze this task and provide steps:'' @ line_feed @ prompt"

definition run_analysis :: "'w asker \<Rightarrow> string \<Rightarrow> string \<Rightarrow> ('w, pydict) act" where
  "run_analysis ask sub_intent prompt =
     (let result = (\<lambda>steps summary rest.
            [(''sub_intent'', PStr sub_intent), (''prompt'', PStr prompt), (''steps'', PList (map PStr steps)),
             (''summary'', PStr summary)] @ rest)
      in if prompt = [] then ret (result [] [] [])
         else try_except
           (bind (ask (analyze_prompt prompt) analyze_system_prompt)
              (\<lambda>answer. ret (result (analysis_steps answer) answer [])))
           (\<lambda>e. ret (result [''Analyze: '' @ take 80 prompt] (''Analysis pending: '' @ take 100 prompt)
                       [(''llm_error'', PStr (exn_text e))])))"

definition code_analysis_node :: "'w asker \<Rightarrow> pydict \<Rightarrow> ('w, pydict) act" where
  "code_analysis_node ask state =
     (let metadata = metadata_of state; sub_intent = text_at_or metadata ''sub_intent'' ''general_analysis'' in
      bind (run_analysis ask sub_intent (text_at metadata ''prompt'')) (\<lambda>output.
        ret (put ''plan'' (PDict [(''steps'', dget output ''steps''), (''summary'', dget output ''summary''),
                                  (''sub_intent'', PStr sub_intent)])
               (put ''metadata'' (PDict (put ''analysis_output'' (PDict output) metadata))
                 (put ''stage'' (PStr ''code_analysis'') state)))))"

definition result_formatting_node :: "pydict \<Rightarrow> ('w, pydict) act" where
  "result_formatting_node state =
     (let metadata = metadata_of state; plan = plan_of state;
          plan_name = (let n = text_at metadata ''plan_name'' in if n = [] then ''analyze_plan'' else n);
          analyze_result = PDict [(''result'', PStr ''planned''), (''intent'', PStr ''analyze''),
            (''planName'', PStr plan_name), (''steps'', dget_or plan ''steps'' (PList [])),
            (''executionPath'', PStr ''langgraph''), (''summary'', dget_or plan ''summary'' (PStr [])),
            (''sub_intent'', dget_or plan ''sub_intent'' (PStr ''general_analysis''))];
          memory = PDict [(''intent'', PStr ''analyze''), (''planName'', PStr plan_name), (''status'', PStr ''done''),
            (''result'', PStr ''planned''), (''executionPath'', PStr ''langgraph'')]
      in ret (put ''metadata'' (PDict (put ''memory_record'' memory (put ''analyze_result'' analyze_result metadata)))
           (put ''stage'' (PStr ''completed'') state)))"

definition analyze_graph :: "'w asker \<Rightarrow> 'w wf_graph" where
  "analyze_graph ask = chain_graph
     [(''intent_classification'', intent_classification_node), (''code_analysis'', code_analysis_node ask),
      (''result_formatting'', result_formatting_node)]"

definition analyze_run :: "'w wf_env \<Rightarrow> 'w asker \<Rightarrow> pydict \<Rightarrow> ('w wf_world, pydict) act" where
  "analyze_run env ask task = run_workflow env (analyze_graph ask) analyze_initial task"

section \<open>Test\<close>

definition test_initial :: "pydict \<Rightarrow> pydict" where
  "test_initial task = initial_state ''test''
     [(''prompt'', PStr (arg_text task ''prompt'')), (''plan_name'', PStr (arg_text task ''planName'')),
      (''test_command'', PStr (arg_text task ''testCommand''))] task"

definition default_workflow_command :: string where
  "default_workflow_command = ''echo test_from_python_agent''"

definition resolve_workflow_command :: "(string \<Rightarrow> string option) \<Rightarrow> pydict \<Rightarrow> string" where
  "resolve_workflow_command getenv metadata =
     (let own = strip (text_at metadata ''test_command''); env = env_text getenv ''MVP_TEST_COMMAND''
      in if own \<noteq> [] then own else if env \<noteq> [] then env else default_workflow_command)"

definition test_planning_node :: "(string \<Rightarrow> string option) \<Rightarrow> pydict \<Rightarrow> ('w, pydict) act" where
  "test_planning_node getenv state =
     (let metadata = metadata_of state; command = resolve_workflow_command getenv metadata in
      ret (put ''plan'' (PDict [(''test_command'', PStr command),
              (''plan_name'', dget_or metadata ''plan_name'' (PStr ''test_plan'')), (''strategy'', PStr ''sandbox_execution'')])
           (put ''metadata'' (PDict (put ''resolved_test_command'' (PStr command) metadata))
             (put ''stage'' (PStr ''test_planning'') state))))"

definition opt_text :: "string option \<Rightarrow> pyval" where
  "opt_text v = (case v of None \<Rightarrow> PNone | Some s \<Rightarrow> PStr s)"

definition exec_data :: "exec_result \<Rightarrow> string \<Rightarrow> pydict" where
  "exec_data r command =
     [(''ok'', PBool (ex_ok r)), (''status'', PStr (ex_status r)),
      (''exit_code'', case ex_exit_code r of None \<Rightarrow> PNone | Some i \<Rightarrow> PInt i), (''output'', PStr (ex_output r)),
      (''retryable'', PBool (ex_retryable r)), (''reason'', opt_text (ex_reason r)),
      (''trace_id'', opt_text (ex_trace_id r)), (''run_id'', opt_text (ex_run_id r)), (''command'', PStr command)]"

definition not_executed :: "string \<Rightarrow> pyval \<Rightarrow> string \<Rightarrow> pydict" where
  "not_executed sts reason command =
     [(''ok'', PBool False), (''status'', PStr sts), (''exit_code'', PNone), (''output'', PStr []),
      (''retryable'', PBool False), (''reason'', reason), (''trace_id'', PNone), (''run_id'', PNone),
      (''command'', PStr command)]"

type_synonym 'w sandbox = "pydict \<Rightarrow> string \<Rightarrow> string \<Rightarrow> string \<Rightarrow> ('w, exec_result) act"

definition test_execution_node :: "'w sandbox \<Rightarrow> pydict \<Rightarrow> ('w, pydict) act" where
  "test_execution_node exec state =
     (let metadata = metadata_of state; plan = plan_of state;
          command = text_at_or plan ''test_command'' default_workflow_command;
          raw_task = dict_of (dget metadata ''raw_task'');
          task_id = strip (py_str (py_or (dget_or raw_task ''taskId'' (PStr [])) (dget_or state ''task_id'' (PStr []))));
          exec_task = (if has_key raw_task ''taskId'' then raw_task else raw_task @ [(''taskId'', PStr task_id)])
      in bind
           (if task_id = [] then ret (not_executed ''not_executed'' PNone command)
            else try_except
              (bind (exec exec_task command (text_at metadata ''prompt'') ''test'') (\<lambda>r. ret (exec_data r command)))
              (\<lambda>e. ret (not_executed ''sandbox_request_failed'' (PStr (exn_text e)) command)))
           (\<lambda>data. ret (put ''metadata'' (PDict (put ''exec_result'' (PDict data) metadata))
              (put ''stage'' (PStr ''test_execution'') state))))"

definition test_payloads :: "pydict \<Rightarrow> pydict \<Rightarrow> pydict \<times> pydict" where
  "test_payloads metadata plan =
     (let r = dict_of (dget metadata ''exec_result'');
          n = text_at plan ''plan_name'';
          plan_name = PStr (if n \<noteq> [] then n else text_at_or metadata ''plan_name'' ''test_plan'');
          command = dget_or r ''command'' (dget_or plan ''test_command'' (PStr default_workflow_command));
          sts = py_str (dget_or r ''status'' (PStr ''not_executed''));
          reason = dget r ''reason''; trace_id = dget r ''trace_id''; run_id = dget r ''run_id'';
          error_reason = (if sts \<noteq> [] then PStr sts else py_or reason (PStr ''test_failed''))
      in if truthy (dget_or r ''ok'' (PBool False))
         then ([(''result'', PStr ''executed''), (''intent'', PStr ''test''), (''planName'', plan_name), (''status'', PStr sts),
                (''command'', command), (''executionPath'', PStr ''langgraph''), (''success'', PBool True)] @
               (if truthy trace_id then [(''traceId'', trace_id)] else []) @
               (if truthy run_id then [(''runId'', run_id)] else []),
               [(''intent'', PStr ''test''), (''planName'', plan_name), (''status'', PStr ''done''), (''command'', command),
                (''result'', PStr ''executed''), (''traceId'', trace_id), (''runId'', run_id), (''executionPath'', PStr ''langgraph'')])
         else ([(''result'', PStr ''failed''), (''intent'', PStr ''test''), (''planName'', plan_name), (''status'', PStr sts),
                (''command'', command), (''reason'', error_reason), (''detail'', reason), (''executionPath'', PStr ''langgraph''),
                (''success'', PBool False)],
               [(''intent'', PStr ''test''), (''planName'', plan_name), (''status'', PStr ''failed''), (''reason'', error_reason),
                (''detail'', reason), (''command'', command), (''traceId'', trace_id), (''runId'', run_id),
                (''executionPath'', PStr ''langgraph'')]))"

definition result_collection_node :: "pydict \<Rightarrow> ('w, pydict) act" where
  "result_collection_node state =
     (let metadata = metadata_of state; (result, memory) = test_payloads metadata (plan_of state);
          ok = truthy (dget_or (dict_of (dget metadata ''exec_result'')) ''ok'' (PBool False))
      in ret (put ''metadata'' (PDict (put ''memory_record'' (PDict memory) (put ''test_result'' (PDict result) metadata)))
           (put ''stage'' (PStr (if ok then ''completed'' else ''failed'')) state)))"

definition test_graph :: "(string \<Rightarrow> string option) \<Rightarrow> 'w sandbox \<Rightarrow> 'w wf_graph" where
  "test_graph getenv exec = chain_graph
     [(''test_planning'', test_planning_node getenv), (''test_execution'', test_execution_node exec),
      (''result_collection'', result_collection_node)]"

definition test_run :: "'w wf_env \<Rightarrow> (string \<Rightarrow> string option) \<Rightarrow> 'w sandbox \<Rightarrow> pydict \<Rightarrow> ('w wf_world, pydict) act" where
  "test_run env getenv exec task = run_workflow env (test_graph getenv exec) test_initial task"

section \<open>Code change\<close>

definition code_change_initial :: "pydict \<Rightarrow> pydict" where
  "code_change_initial task = initial_state ''code_change''
     [(''prompt'', PStr (arg_text task ''prompt'')), (''plan_name'', PStr (arg_text task ''planName''))] task"

definition change_type_of :: "string \<Rightarrow> string" where
  "change_type_of prompt =
     (let p = lower prompt in
      if mentions_any [''add'', ''create'', ''implement'', ''new''] p then ''addition''
      else if mentions_any [''fix'', ''repair'', ''correct'', ''bug''] p then ''bugfix''
      else if mentions_any [''refactor'', ''restructure'', ''reorganize''] p then ''refactor''
      else if mentions_any [''remove'', ''delete'', ''drop''] p then ''removal''
      else if mentions_any [''update'', ''modify'', ''change'', ''edit''] p then ''modification''
      else ''general_change'')"

definition parse_change_request_node :: "pydict \<Rightarrow> ('w, pydict) act" where
  "parse_change_request_node state =
     (let metadata = metadata_of state; prompt = text_at metadata ''prompt''; change_type = change_type_of prompt in
      ret (put ''plan'' (PDict [(''change_type'', PStr change_type), (''prompt'', PStr prompt), (''changes'', PList [])])
           (put ''metadata'' (PDict (put ''parsed'' (PBool True) (put ''change_type'' (PStr change_type) metadata)))
             (put ''stage'' (PStr ''parse_change_request'') state))))"

definition change_record :: "string \<Rightarrow> string \<Rightarrow> pyval" where
  "change_record change_type description =
     PDict [(''description'', PStr description), (''change_type'', PStr change_type), (''generated'', PBool True)]"

definition changes_of_answer :: "string \<Rightarrow> string \<Rightarrow> string \<Rightarrow> pyval list" where
  "changes_of_answer change_type prompt answer =
     (let lines = take 10 (answer_lines answer) in
      if lines \<noteq> [] then map (change_record change_type) lines
      else [change_record change_type (''Apply '' @ change_type @ '': '' @ take 80 prompt)])"

definition change_system_prompt :: string where
  "change_system_prompt = ''You are a code modification assistant. '' @
     ''Given a change request, generate the specific code changes needed. '' @
     ''Describe each change with the file path, the type of change, and the new content.''"

definition change_prompt :: "string \<Rightarrow> string" where
  "change_prompt prompt = ''Generate code changes for this request:'' @ line_feed @ prompt"

text \<open>The handler means to raise an \<open>LLMError\<close>, but passes a keyword that its constructor does not have.\<close>

definition generate_changes :: "'w asker \<Rightarrow> string \<Rightarrow> string \<Rightarrow> ('w, pyval list) act" where
  "generate_changes ask change_type prompt =
     (if prompt = [] then ret []
      else try_except
        (bind (ask (change_prompt prompt) change_system_prompt)
           (\<lambda>answer. ret (changes_of_answer change_type prompt answer)))
        (\<lambda>e. throw (unexpected_keyword ''LLMError'' ''error_code'')))"

definition enumerate_changes :: "pyval list \<Rightarrow> pydict" where
  "enumerate_changes changes =
     map (\<lambda>(i, c). (''change_'' @ show_nat i, dget_or (dict_of c) ''description'' (PStr []))) (zip [0..<length changes] changes)"

definition generate_code_change_node :: "'w asker \<Rightarrow> pydict \<Rightarrow> ('w, pydict) act" where
  "generate_code_change_node ask state =
     (let metadata = metadata_of state; plan = plan_of state;
          change_type = text_at_or metadata ''change_type'' ''general_change'' in
      bind (generate_changes ask change_type (text_at metadata ''prompt'')) (\<lambda>changes.
        ret (put ''metadata'' (PDict (put ''generation_complete'' (PBool True) metadata))
              (put ''code'' (PDict (enumerate_changes changes))
                (put ''plan'' (PDict (put ''changes'' (PList changes) plan))
                  (put ''stage'' (PStr ''generate_code_change'') state))))))"

definition validate_change_node :: "pydict \<Rightarrow> ('w, pydict) act" where
  "validate_change_node state =
     (let metadata = metadata_of state; changes = list_of (dget_or (plan_of state) ''changes'' (PList []));
          finish = (\<lambda>passed. ret (put ''metadata'' (PDict (put ''validation_passed'' (PBool passed) metadata))
                                    (put ''stage'' (PStr ''validate_change'') state)))
      in if changes = []
         then (if text_at metadata ''prompt'' \<noteq> [] then throw (unexpected_keyword ''ValidationError'' ''error_code'')
               else finish False)
         else if list_ex (\<lambda>c. \<not> is_dict c) changes then throw (unexpected_keyword ''ValidationError'' ''error_code'')
         else finish True)"

definition apply_change_node :: "pydict \<Rightarrow> ('w, pydict) act" where
  "apply_change_node state =
     (let metadata = metadata_of state;
          n = text_at metadata ''plan_name''; plan_name = PStr (if n \<noteq> [] then n else ''code_change_plan'');
          changes = dget_or (plan_of state) ''changes'' (PList []);
          success = (truthy (dget_or metadata ''validation_passed'' (PBool False)) \<and> truthy changes);
          result = PStr (if success then ''applied'' else ''failed'');
          code_change_result = PDict [(''intent'', PStr ''code_change''), (''result'', result), (''success'', PBool success),
            (''changes'', changes), (''executionPath'', PStr ''langgraph''), (''planName'', plan_name),
            (''change_type'', dget_or metadata ''change_type'' (PStr ''general_change''))];
          memory = PDict [(''intent'', PStr ''code_change''), (''planName'', plan_name), (''status'', PStr ''done''),
            (''result'', result), (''executionPath'', PStr ''langgraph'')]
      in ret (put ''metadata'' (PDict (put ''memory_record'' memory (put ''code_change_result'' code_change_result metadata)))
           (put ''stage'' (PStr ''completed'') state)))"

definition code_change_graph :: "'w asker \<Rightarrow> 'w wf_graph" where
  "code_change_graph ask = chain_graph
     [(''parse_change_request'', parse_change_request_node), (''generate_code_change'', generate_code_change_node ask),
      (''validate_change'', validate_change_node), (''apply_change'', apply_change_node)]"

definition code_change_run :: "'w wf_env \<Rightarrow> 'w asker \<Rightarrow> pydict \<Rightarrow> ('w wf_world, pydict) act" where
  "code_change_run env ask task = run_workflow env (code_change_graph ask) code_change_initial task"

section \<open>Generation\<close>

record generated =
  gn_files :: "(string \<times> string) list"
  gn_used_fallback :: bool

text \<open>The generators, the gate and the fix loop of a workflow, and the name of the temporary directory.\<close>

record 's gen_env =
  gv_backend :: "string \<Rightarrow> ('s fix_world, generated) act"
  gv_fullstack :: "string \<Rightarrow> pydict \<Rightarrow> ('s fix_world, generated) act"
  gv_fix :: "'s fix_env"
  gv_temp :: fs_path

definition generation_initial :: "string \<Rightarrow> pydict \<Rightarrow> pydict" where
  "generation_initial intent task = initial_state intent
     [(''prompt'', PStr (arg_text task ''prompt'')),
      (''framework'', PStr (let f = lower (strip (py_str (dget_or task ''framework'' (PStr ''flask'')))) in if f = [] then ''flask'' else f)),
      (''plan_name'', PStr (arg_text task ''planName''))] task"

definition parse_request_node :: "pydict \<Rightarrow> ('w, pydict) act" where
  "parse_request_node state =
     (let metadata = metadata_of state; framework0 = text_at_or metadata ''framework'' ''flask'';
          known = framework0 \<in> {''flask'', ''fastapi''}; framework = (if known then framework0 else ''flask'');
          metadata = put ''parsed'' (PBool True) (if known then metadata else put ''framework'' (PStr framework) metadata)
      in ret (put ''plan'' (PDict [(''prompt'', dget_or metadata ''prompt'' (PStr [])), (''framework'', PStr framework), (''files'', PList [])])
           (put ''metadata'' (PDict metadata) (put ''stage'' (PStr ''parse_request'') state))))"

definition file_dict :: "(string \<times> string) list \<Rightarrow> pydict" where
  "file_dict files = map (\<lambda>(k, v). (k, PStr v)) files"

definition generate_node ::
  "string \<Rightarrow> (string \<Rightarrow> pydict \<Rightarrow> ('w, generated) act) \<Rightarrow> pydict \<Rightarrow> ('w, pydict) act" where
  "generate_node stage generator state =
     (let metadata = metadata_of state; plan = plan_of state; raw_task = dict_of (dget metadata ''raw_task'') in
      try_except
        (bind (generator (text_at metadata ''prompt'') raw_task) (\<lambda>r.
           ret (put ''metadata'' (PDict (put ''used_fallback'' (PBool (gn_used_fallback r))
                                          (put ''generation_complete'' (PBool True) metadata)))
                 (put ''code'' (PDict (file_dict (gn_files r)))
                   (put ''plan'' (PDict (put ''generated_files'' (PDict (file_dict (gn_files r)))
                                          (put ''files'' (PList (map (PStr \<circ> fst) (gn_files r))) plan)))
                     (put ''stage'' (PStr stage) state))))))
        (\<lambda>e. throw (unexpected_keyword ''LLMError'' ''error_code'')))"

text \<open>The files written under a directory, with the directories they need.\<close>

fun write_generated :: "fs_path \<Rightarrow> (string \<times> string) list \<Rightarrow> fs \<Rightarrow> unit result \<times> fs" where
  "write_generated ws [] f = (Inr (), f)"
| "write_generated ws ((rel, content) # rest) f =
     (let p = join_path ws rel in
      case fs_mkdirs f [] (butlast p) of
        (Inl e, f1) \<Rightarrow> (Inl e, f1)
      | (Inr d, f1) \<Rightarrow>
          (case fs_write f1 (d @ [last p]) content of
             Inl e \<Rightarrow> (Inl e, f1)
           | Inr f2 \<Rightarrow> write_generated ws rest f2))"

definition write_into :: "fs_path \<Rightarrow> (string \<times> string) list \<Rightarrow> ('s fix_world, unit) act" where
  "write_into ws files w = (let (r, f) = write_generated ws files (fw_files w) in (r, w\<lparr>fw_files := f\<rparr>))"

definition in_temp_dir :: "fs_path \<Rightarrow> ('s fix_world, 'a) act \<Rightarrow> ('s fix_world, 'a) act" where
  "in_temp_dir tmp body =
     finally_do (next_act (modify (\<lambda>w. w\<lparr>fw_files := AList.update tmp FDir (fw_files w)\<rparr>)) body)
       (\<lambda>w. w\<lparr>fw_files := filter (\<lambda>(p, _). \<not> prefix tmp p) (fw_files w)\<rparr>)"

definition validation_task :: "string \<Rightarrow> pydict \<Rightarrow> pydict" where
  "validation_task target metadata =
     put ''prompt'' (dget_or metadata ''prompt'' (PStr []))
       (put ''target'' (PStr target) (put ''_generated_target'' (PStr target) (dict_of (dget metadata ''raw_task''))))"

definition files_of_plan :: "pydict \<Rightarrow> (string \<times> string) list" where
  "files_of_plan plan = map (\<lambda>(k, v). (k, str_of v)) (dict_of (dget plan ''generated_files''))"



definition generation_payloads :: "string \<Rightarrow> string \<Rightarrow> pydict \<Rightarrow> pydict \<Rightarrow> bool \<times> pydict \<times> pyval \<times> pyval" where
  "generation_payloads intent plan_default metadata plan =
     (let n = text_at metadata ''plan_name''; plan_name = PStr (if n \<noteq> [] then n else plan_default);
          files = py_or (dget plan ''files'') (PList []);
          success = (truthy (dget_or metadata ''validation_passed'' (PBool False)) \<and> truthy files);
          result = PStr (if success then ''generated'' else ''failed'')
      in (success,
          [(''intent'', PStr intent), (''planName'', plan_name), (''status'', PStr ''done''), (''result'', result),
           (''executionPath'', PStr ''langgraph'')], files, plan_name))"




section \<open>Full stack\<close>

definition classify_files :: "string list \<Rightarrow> string list \<times> string list" where
  "classify_files names = (filter (prefix ''frontend/'') names, filter (\<lambda>n. \<not> prefix ''frontend/'' n) names)"

definition text_list :: "string list \<Rightarrow> pyval" where
  "text_list xs = PList (map PStr xs)"

definition fullstack_validate_node :: "'s gen_env \<Rightarrow> pydict \<Rightarrow> ('s fix_world, pydict) act" where
  "fullstack_validate_node genv state =
     (let metadata = metadata_of state; plan = plan_of state; files = files_of_plan plan;
          (frontend, backend) = classify_files (map fst files); tmp = gv_temp genv;
          finish = (\<lambda>metadata. ret (put ''plan'' (PDict plan) (put ''metadata'' (PDict metadata)
             (put ''stage'' (PStr ''validate_output'') state))))
      in if files = [] then finish (put ''validation_passed'' (PBool False) metadata)
         else bind (in_temp_dir tmp (next_act (write_into tmp files)
                      (gate_call (gv_fix genv) tmp (validation_task ''fullstack'' metadata)))) (\<lambda>r.
           let metadata = put ''backend_files'' (text_list backend) (put ''frontend_files'' (text_list frontend)
                            (put ''validation_passed'' (PBool (vr_ok r)) metadata))
           in finish (if vr_ok r then metadata else put ''validation_errors'' (text_list (vr_errors r)) metadata)))"

definition fullstack_package_node :: "pydict \<Rightarrow> ('w, pydict) act" where
  "fullstack_package_node state =
     (let metadata = metadata_of state;
          (success, memory, files, plan_name) =
            generation_payloads ''fullstack_generation'' ''fullstack_generation_plan'' metadata (plan_of state);
          frontend0 = list_of (dget metadata ''frontend_files''); backend0 = list_of (dget metadata ''backend_files'');
          passed = truthy (dget_or metadata ''validation_passed'' (PBool False));
          (frontend, backend) =
            (if \<not> passed \<and> truthy files \<and> frontend0 = [] \<and> backend0 = []
             then let (a, b) = classify_files (map str_of (list_of files)) in (map PStr a, map PStr b)
             else (frontend0, backend0));
          result = PDict [(''intent'', PStr ''fullstack_generation''), (''result'', dget memory ''result''), (''success'', PBool success),
            (''framework'', dget_or metadata ''framework'' (PStr ''flask'')), (''frontend_files'', PList frontend),
            (''backend_files'', PList backend), (''all_files'', files),
            (''executionPath'', PStr ''langgraph''), (''planName'', plan_name)]
      in ret (put ''metadata'' (PDict (put ''memory_record'' (PDict memory) (put ''fullstack_generation_result'' result metadata)))
           (put ''stage'' (PStr ''completed'') state)))"

definition fullstack_graph :: "'s gen_env \<Rightarrow> 's fix_world wf_graph" where
  "fullstack_graph genv = chain_graph
     [(''parse_request'', parse_request_node),
      (''generate_fullstack'', generate_node ''generate_fullstack'' (gv_fullstack genv)),
      (''validate_output'', fullstack_validate_node genv), (''package_artifact'', fullstack_package_node)]"

definition fullstack_run :: "'s fix_world wf_env \<Rightarrow> 's gen_env \<Rightarrow> pydict \<Rightarrow> ('s fix_world wf_world, pydict) act" where
  "fullstack_run env genv task = run_workflow env (fullstack_graph genv) (generation_initial ''fullstack_generation'') task"

section \<open>Running a chain\<close>

text \<open>A node returns its state with some keys put, so merging that into the state gives what it returned.\<close>

definition grows :: "pydict \<Rightarrow> pydict \<Rightarrow> bool" where
  "grows st d \<longleftrightarrow> (\<exists>ks. map fst d = map fst st @ ks) \<and> distinct (map fst d)"

lemma update_after: "k \<notin> fst ` set xs \<Longrightarrow> AList.update k v (xs @ ys) = xs @ AList.update k v ys"
  by (induction xs) auto

lemma fold_update_same:
  "map fst d = map fst st \<Longrightarrow> distinct (map fst xs @ map fst d) \<Longrightarrow>
   fold (\<lambda>(k, v) d. AList.update k v d) d (xs @ st) = xs @ d"
proof (induction d arbitrary: xs st)
  case (Cons e d)
  obtain k v s rest where e: "e = (k, v)" and st: "st = s # rest" "fst s = k" using Cons.prems(1) by (cases e, cases st) auto
  have "AList.update k v (xs @ st) = (xs @ [(k, v)]) @ rest"
    using Cons.prems(2) st e by (cases s) (simp add: update_after)
  then show ?case
    using Cons.IH [of rest "xs @ [(k, v)]"] Cons.prems st e by simp
qed simp

lemma fold_update_new: "distinct (map fst st @ map fst d) \<Longrightarrow> fold (\<lambda>(k, v) d. AList.update k v d) d st = st @ d"
proof (induction d arbitrary: st)
  case (Cons e d)
  obtain k v where e: "e = (k, v)" by force
  have "AList.update k v st = st @ [(k, v)]" using Cons.prems e update_after [of k st v "[]"] by simp
  then show ?case using Cons.IH [of "st @ [(k, v)]"] Cons.prems e by simp
qed simp

lemma merge_grows:
  assumes "grows st d"
  shows "merge_state st d = d"
proof -
  obtain ks where k: "map fst d = map fst st @ ks" "distinct (map fst d)" using assms by (auto simp: grows_def)
  define a b where "a = take (length st) d" and "b = drop (length st) d"
  have d: "d = a @ b" by (simp add: a_def b_def)
  have fa: "map fst a = map fst st" using k(1) unfolding a_def take_map [symmetric] by simp
  have "fold (\<lambda>(k, v) d. AList.update k v d) a st = a"
    using fold_update_same [of a st "[]"] fa k(2) unfolding d by simp
  then show ?thesis
    using fold_update_new [of a b] k(2) unfolding merge_state_def d by simp
qed

lemma grows_refl: "distinct (map fst st) \<Longrightarrow> grows st st"
  by (simp add: grows_def)

lemma grows_put: "grows st d \<Longrightarrow> grows st (put k v d)"
  by (auto simp: grows_def put_def AList.update_keys AList.distinct_update)

lemma distinct_put [simp]: "distinct (map fst d) \<Longrightarrow> distinct (map fst (put k v d))"
  by (simp add: put_def AList.distinct_update)

lemma dget_put [simp]: "dget (put k v d) k' = (if k' = k then v else dget d k')"
  by (simp add: put_def)

lemma dget_or_put [simp]: "dget_or (put k v d) k' x = (if k' = k then v else dget_or d k' x)"
  by (simp add: put_def dget_or_def AList.update_conv')

lemma state_of_put [simp]:
  "metadata_of (put ''metadata'' (PDict m) st) = m" "k \<noteq> ''metadata'' \<Longrightarrow> metadata_of (put k v st) = metadata_of st"
  "plan_of (put ''plan'' (PDict m) st) = m" "k \<noteq> ''plan'' \<Longrightarrow> plan_of (put k v st) = plan_of st"
  "text_at (put k (PStr s) d) k' = (if k' = k then s else text_at d k')"
  "text_at_or (put k (PStr s) d) k' x = (if k' = k then s else text_at_or d k' x)"
  by (simp_all add: metadata_of_def plan_of_def dict_of_def text_at_def text_at_or_def str_of_def)

lemma text_at_put_other [simp]: "k' \<noteq> k \<Longrightarrow> text_at (put k v d) k' = text_at d k'"
  "k' \<noteq> k \<Longrightarrow> text_at_or (put k v d) k' x = text_at_or d k' x"
  by (simp_all add: text_at_def text_at_or_def)

lemma run_nodes_put:
  "f st w = (Inr d, w') \<Longrightarrow> grows st d \<Longrightarrow> run_nodes (f # fs) st w = run_nodes fs d w'"
  by (simp add: bind_def merge_grows)

lemma run_nodes_raise: "f st w = (Inl e, w') \<Longrightarrow> run_nodes (f # fs) st w = (Inl e, w')"
  by (simp add: bind_def)

lemma distinct_initial: "distinct (map fst (initial_state intent m task))"
  by (simp add: initial_state_def)

lemma initial_parts [simp]:
  "metadata_of (initial_state intent m task) = m @ [(''raw_task'', PDict task)]"
  "plan_of (initial_state intent m task) = []"
  "dget (initial_state intent m task) ''errors'' = PList []"
  "retry_count_of (initial_state intent m task) = Inr 0"
  by (simp_all add: initial_state_def metadata_of_def plan_of_def dget_def dict_of_def retry_count_of_def py_or_def)

lemma run_workflow_Inr:
  assumes "0 < to_max_task (wf_timeouts env)" "wf_invoke env g (init task) (wf_rest w) = (Inr final, v)"
  shows "run_workflow env g init task w =
    (if run_late env (wf_rest w) v then Inl (run_timeout_error env task) else Inr final,
     \<lparr>wf_invocations = wf_invocations w + 1, wf_rest = v\<rparr>)"
proof -
  have "run_with_retry env g (init task) w = (Inr final, \<lparr>wf_invocations = wf_invocations w + 1, wf_rest = v\<rparr>)"
    by (simp add: run_with_retry.simps [of env g] call_graph_def assms(2) Let_def)
  from run_workflow_limit [where init = init, OF assms(1) this] show ?thesis by simp
qed

lemma run_workflow_plain_error:
  assumes "0 < to_max_task (wf_timeouts env)" "wf_invoke env g (init task) (wf_rest w) = (Inl e, v)"
    "is_Exception e" "\<not> is_agent_error e" "retry_count_of (init task) = Inr 0"
  shows "run_workflow env g init task w =
    (if run_late env (wf_rest w) v then Inl (run_timeout_error env task)
     else Inr (failed_state (wf_max_retries env) (wf_now env v) (init task) e 0),
     \<lparr>wf_invocations = wf_invocations w + 1, wf_rest = v\<rparr>)"
  using run_workflow_limit [where init = init, OF assms(1) run_outcome_of_errors [OF assms(2,3,5)]] assms(4) by simp

lemma TypeError_plain: "is_Exception (TypeError m)" "\<not> is_agent_error (TypeError m)"
  "categorize_exception (TypeError m) \<noteq> Some ''ProtocolError''"
  by (simp_all add: is_agent_error_def agent_error_classes_def)
    (code_simp)

lemma failed_state_parts:
  "categorize_exception e \<noteq> Some ''ProtocolError'' \<Longrightarrow> dget (failed_state m now st e n) ''stage'' = PStr ''failed''"
  "text_at (dict_of (last (list_of (dget (failed_state m now st e n) ''errors'')))) ''errorType'' = exn_class e"
  by (simp_all add: failed_state_def list_of_def dict_of_def text_at_def dget_or_def str_of_def)

section \<open>How an analyze workflow ends\<close>

lemma analyze_chain:
  "graph_chain (analyze_graph ask) =
     Some [intent_classification_node, code_analysis_node ask, result_formatting_node]"
  by (simp add: graph_chain_def analyze_graph_def chain_graph_def eval_nat_numeral)

definition analysis_outcome :: "'w asker \<Rightarrow> string \<Rightarrow> 'w \<Rightarrow> string list" where
  "analysis_outcome ask prompt w =
     (if prompt = [] then []
      else case fst (ask (analyze_prompt prompt) analyze_system_prompt w) of
             Inr answer \<Rightarrow> analysis_steps answer
           | Inl e \<Rightarrow> [''Analyze: '' @ take 80 prompt])"

text \<open>A client that raises no \<open>BaseException\<close>.\<close>

definition tame_asker :: "'w asker \<Rightarrow> bool" where
  "tame_asker ask \<longleftrightarrow> (\<forall>p q w e w'. ask p q w = (Inl e, w') \<longrightarrow> is_Exception e)"

definition analysis_world :: "'w asker \<Rightarrow> string \<Rightarrow> 'w \<Rightarrow> 'w" where
  "analysis_world ask prompt w =
     (if prompt = [] then w else snd (ask (analyze_prompt prompt) analyze_system_prompt w))"

lemma run_analysis_total:
  assumes "\<And>e w'. ask (analyze_prompt prompt) analyze_system_prompt w = (Inl e, w') \<Longrightarrow> is_Exception e"
  shows "\<exists>output. run_analysis ask sub_intent prompt w = (Inr output, analysis_world ask prompt w) \<and>
     dget output ''steps'' = PList (map PStr (analysis_outcome ask prompt w))"
  using assms by (cases "ask (analyze_prompt prompt) analyze_system_prompt w")
    (auto simp: run_analysis_def analysis_outcome_def analysis_world_def ret_def catching_def bind_def dget_def split: sum.split)

lemma intent_classification_run:
  "\<exists>d. intent_classification_node st w = (Inr d, w) \<and> (distinct (map fst st) \<longrightarrow> grows st d) \<and>
     text_at (metadata_of d) ''prompt'' = text_at (metadata_of st) ''prompt''"
  by (simp add: intent_classification_node_def Let_def ret_def grows_put grows_refl)

lemma code_analysis_run:
  "run_analysis ask (text_at_or (metadata_of st) ''sub_intent'' ''general_analysis'') (text_at (metadata_of st) ''prompt'') w = (Inr out, w')
   \<Longrightarrow> \<exists>d. code_analysis_node ask st w = (Inr d, w') \<and> (distinct (map fst st) \<longrightarrow> grows st d) \<and>
         dget (plan_of d) ''steps'' = dget out ''steps'' \<and> has_key (plan_of d) ''steps''"
  by (simp add: code_analysis_node_def Let_def bind_def ret_def grows_put grows_refl dget_def [of "_ # _"] has_key_def)

lemma result_formatting_run:
  "\<exists>d. result_formatting_node st w = (Inr d, w) \<and> (distinct (map fst st) \<longrightarrow> grows st d) \<and>
     dget d ''stage'' = PStr ''completed'' \<and> dget (workflow_result ''analyze_result'' d) ''result'' = PStr ''planned'' \<and>
     dget (workflow_result ''analyze_result'' d) ''executionPath'' = PStr ''langgraph'' \<and>
     dget (workflow_result ''analyze_result'' d) ''steps'' = dget_or (plan_of st) ''steps'' (PList [])"
  by (simp add: result_formatting_node_def Let_def ret_def grows_put grows_refl workflow_result_def dict_of_def
      dget_def [of "_ # _"])

lemma grows_distinct: "grows st d \<Longrightarrow> distinct (map fst d)"
  by (simp add: grows_def)

lemma dget_or_has: "has_key d k \<Longrightarrow> dget_or d k x = dget d k"
  by (auto simp: has_key_def dget_or_def dget_def)

lemma analyze_run_completes:
  assumes "runs_chains env" "0 < to_max_task (wf_timeouts env)" "tame_asker ask"
  shows "\<exists>final. analyze_run env ask task w =
      (if run_late env (wf_rest w) (analysis_world ask (arg_text task ''prompt'') (wf_rest w))
       then Inl (run_timeout_error env task) else Inr final,
       \<lparr>wf_invocations = wf_invocations w + 1, wf_rest = analysis_world ask (arg_text task ''prompt'') (wf_rest w)\<rparr>) \<and>
     dget final ''stage'' = PStr ''completed'' \<and>
     dget (workflow_result ''analyze_result'' final) ''result'' = PStr ''planned'' \<and>
     dget (workflow_result ''analyze_result'' final) ''executionPath'' = PStr ''langgraph'' \<and>
     dget (workflow_result ''analyze_result'' final) ''steps'' =
       PList (map PStr (analysis_outcome ask (arg_text task ''prompt'') (wf_rest w)))"
proof -
  let ?i = "analyze_initial task" and ?v = "wf_rest w" and ?v' = "analysis_world ask (arg_text task ''prompt'') (wf_rest w)"
  have i: "text_at (metadata_of ?i) ''prompt'' = arg_text task ''prompt''" "distinct (map fst ?i)"
    by (simp_all add: analyze_initial_def distinct_initial text_at_def dget_or_def str_of_def)
  obtain s1 where n1: "intent_classification_node ?i ?v = (Inr s1, ?v)" and g1: "grows ?i s1"
    and m1: "text_at (metadata_of s1) ''prompt'' = arg_text task ''prompt''"
    using intent_classification_run [of ?i ?v] i by auto
  obtain out where a: "run_analysis ask (text_at_or (metadata_of s1) ''sub_intent'' ''general_analysis'') (arg_text task ''prompt'') ?v = (Inr out, ?v')"
    and steps: "dget out ''steps'' = PList (map PStr (analysis_outcome ask (arg_text task ''prompt'') ?v))"
    using run_analysis_total assms(3) unfolding tame_asker_def by meson
  obtain s2 where n2: "code_analysis_node ask s1 ?v = (Inr s2, ?v')" and g2: "grows s1 s2"
    and m2: "dget_or (plan_of s2) ''steps'' (PList []) = dget out ''steps''"
    using code_analysis_run [of ask s1 ?v out ?v'] a m1 grows_distinct [OF g1] by (auto simp: dget_or_has)
  obtain s3 where n3: "result_formatting_node s2 ?v' = (Inr s3, ?v')" and g3: "grows s2 s3"
    and fin: "dget s3 ''stage'' = PStr ''completed''"
      "dget (workflow_result ''analyze_result'' s3) ''result'' = PStr ''planned''"
      "dget (workflow_result ''analyze_result'' s3) ''executionPath'' = PStr ''langgraph''"
      "dget (workflow_result ''analyze_result'' s3) ''steps'' = dget out ''steps''"
    using result_formatting_run [of s2 ?v'] grows_distinct [OF g2] m2 by auto
  have "wf_invoke env (analyze_graph ask) ?i ?v = (Inr s3, ?v')"
    using assms(1) analyze_chain [of ask]
    by (simp add: runs_chains_def run_nodes_put [of intent_classification_node, OF n1 g1]
        run_nodes_put [of "code_analysis_node ask", OF n2 g2] run_nodes_put [of result_formatting_node, OF n3 g3] ret_def
        del: run_nodes.simps(2))
  from run_workflow_Inr [where init = analyze_initial, OF assms(2) this] fin steps show ?thesis
    unfolding analyze_run_def by auto
qed

text \<open>C33. How an analyze workflow ends, when its client raises no \<open>BaseException\<close>. Whatever the model answers and
  whatever exception its client raises, also the alarm of the workflow's own time limit in the middle of the call,
  the graph ends completed with the steps read from the answer, or one made up from the prompt, after one
  invocation. On POSIX that state is what the run returns. Elsewhere it is returned when the time limit was kept,
  and lost when it was not: leaving the block raises the \<open>TimeoutError\<close>. An alarm that ends the graph at any other
  place is not raised either: the run returns a failed state that records it.\<close>

theorem analyze_run_outcome:
  assumes "0 < to_max_task (wf_timeouts env)" "tame_asker ask"
  shows "(runs_chains env \<longrightarrow>
      (\<exists>final. analyze_run env ask task w =
          (if run_late env (wf_rest w) (analysis_world ask (arg_text task ''prompt'') (wf_rest w))
           then Inl (run_timeout_error env task) else Inr final,
           \<lparr>wf_invocations = wf_invocations w + 1, wf_rest = analysis_world ask (arg_text task ''prompt'') (wf_rest w)\<rparr>) \<and>
         dget final ''stage'' = PStr ''completed'' \<and>
         dget (workflow_result ''analyze_result'' final) ''result'' = PStr ''planned'' \<and>
         dget (workflow_result ''analyze_result'' final) ''executionPath'' = PStr ''langgraph'' \<and>
         dget (workflow_result ''analyze_result'' final) ''steps'' =
           PList (map PStr (analysis_outcome ask (arg_text task ''prompt'') (wf_rest w))))) \<and>
    (wf_posix env \<and>
     wf_invoke env (analyze_graph ask) (analyze_initial task) (wf_rest w) = (Inl (run_timeout_error env task), v) \<longrightarrow>
      (\<exists>final. analyze_run env ask task w =
          (Inr final, \<lparr>wf_invocations = wf_invocations w + 1, wf_rest = v\<rparr>) \<and>
         dget final ''stage'' = PStr ''failed'' \<and>
         text_at (dict_of (last (list_of (dget final ''errors'')))) ''errorType'' = ''TimeoutError''))"
proof -
  have alarm: "is_Exception (run_timeout_error env task)" "\<not> is_agent_error (run_timeout_error env task)"
    "exn_class (run_timeout_error env task) = ''TimeoutError''"
    by (simp_all add: run_timeout_error_def stage_timeout_error_def is_agent_error_def agent_error_classes_def)
  then have cat: "categorize_exception (run_timeout_error env task) \<noteq> Some ''ProtocolError''"
    unfolding categorize_exception_def by (simp add: Let_def) (code_simp)
  have count: "retry_count_of (analyze_initial task) = Inr 0" by (simp add: analyze_initial_def)
  show ?thesis
    using analyze_run_completes [of env ask task w] assms alarm cat count
      run_workflow_plain_error [where init = analyze_initial and env = env and g = "analyze_graph ask" and task = task and w = w]
    by (auto simp: analyze_run_def failed_state_parts run_late_def)
qed

section \<open>Code changes: failures and successes\<close>

lemma code_change_chain:
  "graph_chain (code_change_graph ask) = Some [parse_change_request_node, generate_code_change_node ask,
     validate_change_node, apply_change_node]"
  by (simp add: graph_chain_def code_change_graph_def chain_graph_def eval_nat_numeral)

lemma parse_change_request_run:
  "\<exists>d. parse_change_request_node st w = (Inr d, w) \<and> (distinct (map fst st) \<longrightarrow> grows st d) \<and>
     text_at (metadata_of d) ''prompt'' = text_at (metadata_of st) ''prompt'' \<and>
     text_at_or (metadata_of d) ''change_type'' ''general_change'' = change_type_of (text_at (metadata_of st) ''prompt'')"
  by (simp add: parse_change_request_node_def Let_def ret_def grows_put grows_refl)

lemma generate_code_change_run:
  "generate_changes ask (text_at_or (metadata_of st) ''change_type'' ''general_change'') (text_at (metadata_of st) ''prompt'') w
     = (Inr cs, w')
   \<Longrightarrow> \<exists>d. generate_code_change_node ask st w = (Inr d, w') \<and> (distinct (map fst st) \<longrightarrow> grows st d) \<and>
         dget_or (plan_of d) ''changes'' (PList []) = PList cs \<and>
         text_at (metadata_of d) ''prompt'' = text_at (metadata_of st) ''prompt''"
  by (simp add: generate_code_change_node_def Let_def bind_def ret_def grows_put grows_refl)

lemma generate_code_change_raises:
  "generate_changes ask (text_at_or (metadata_of st) ''change_type'' ''general_change'') (text_at (metadata_of st) ''prompt'') w
     = (Inl e, w') \<Longrightarrow> generate_code_change_node ask st w = (Inl e, w')"
  by (simp add: generate_code_change_node_def Let_def bind_def)

lemma validate_change_run:
  "dget_or (plan_of st) ''changes'' (PList []) = PList cs \<Longrightarrow> cs \<noteq> [] \<Longrightarrow> list_all is_dict cs \<Longrightarrow>
   \<exists>d. validate_change_node st w = (Inr d, w) \<and> (distinct (map fst st) \<longrightarrow> grows st d) \<and>
     plan_of d = plan_of st \<and> dget_or (metadata_of d) ''validation_passed'' (PBool False) = PBool True"
  by (simp add: validate_change_node_def Let_def ret_def grows_put grows_refl list_of_def list_all_iff list_ex_iff)

lemma apply_change_run:
  "dget_or (plan_of st) ''changes'' (PList []) = PList cs \<Longrightarrow> cs \<noteq> [] \<Longrightarrow>
   dget_or (metadata_of st) ''validation_passed'' (PBool False) = PBool True \<Longrightarrow>
   \<exists>d. apply_change_node st w = (Inr d, w) \<and> (distinct (map fst st) \<longrightarrow> grows st d) \<and>
     dget d ''stage'' = PStr ''completed'' \<and> dget (workflow_result ''code_change_result'' d) ''result'' = PStr ''applied'' \<and>
     dget (workflow_result ''code_change_result'' d) ''changes'' = PList cs"
  by (simp add: apply_change_node_def Let_def ret_def grows_put grows_refl workflow_result_def dict_of_def
      dget_def [of "_ # _"])

lemma changes_of_answer_ok:
  "changes_of_answer t p a \<noteq> []" "list_all is_dict (changes_of_answer t p a)" "length (changes_of_answer t p a) \<le> 10"
  by (auto simp: changes_of_answer_def Let_def change_record_def list_all_iff)

lemma not_protocol: "categorize_exception (unexpected_keyword ''LLMError'' ''error_code'') \<noteq> Some ''ProtocolError''"
  by code_simp

lemma unexpected_keyword_class: "exn_class (unexpected_keyword cls kw) = ''TypeError''"
  by (simp add: unexpected_keyword_def)

text \<open>What a code change workflow does with a prompt, on POSIX. When the model answers, the workflow reports
  \<open>applied\<close> with at most ten changes read from the answer, yet the only thing it did was to ask: the world is the
  one the model left. When the model fails, the error meant to be retried turns into a \<open>TypeError\<close>, and the run
  ends after this one try with a failed state that names that error.\<close>

theorem code_change_outcome:
  assumes "runs_chains env" "0 < to_max_task (wf_timeouts env)" "wf_posix env" "arg_text task ''prompt'' \<noteq> []"
    "ask (change_prompt (arg_text task ''prompt'')) change_system_prompt (wf_rest w) = (answer, v)"
    "\<And>e. answer = Inl e \<Longrightarrow> is_Exception e"
  shows "case answer of
      Inr text \<Rightarrow>
        (\<exists>final. code_change_run env ask task w = (Inr final, \<lparr>wf_invocations = wf_invocations w + 1, wf_rest = v\<rparr>) \<and>
           dget final ''stage'' = PStr ''completed'' \<and>
           dget (workflow_result ''code_change_result'' final) ''result'' = PStr ''applied'' \<and>
           dget (workflow_result ''code_change_result'' final) ''changes'' =
             PList (changes_of_answer (change_type_of (arg_text task ''prompt'')) (arg_text task ''prompt'') text) \<and>
           length (changes_of_answer (change_type_of (arg_text task ''prompt'')) (arg_text task ''prompt'') text) \<le> 10)
    | Inl e \<Rightarrow>
        (\<exists>final. fst (code_change_run env ask task w) = Inr final \<and> dget final ''stage'' = PStr ''failed'' \<and>
           text_at (dict_of (last (list_of (dget final ''errors'')))) ''errorType'' = ''TypeError'')"
proof -
  let ?i = "code_change_initial task" and ?v = "wf_rest w" and ?p = "arg_text task ''prompt''"
  have i: "text_at (metadata_of ?i) ''prompt'' = ?p" "distinct (map fst ?i)" "retry_count_of ?i = Inr 0"
    by (simp_all add: code_change_initial_def distinct_initial text_at_def dget_or_def str_of_def)
  obtain s1 where n1: "parse_change_request_node ?i ?v = (Inr s1, ?v)" and g1: "grows ?i s1"
    and m1: "text_at (metadata_of s1) ''prompt'' = ?p"
      "text_at_or (metadata_of s1) ''change_type'' ''general_change'' = change_type_of ?p"
    using parse_change_request_run [of ?i ?v] i by auto
  note run1 = run_nodes_put [of parse_change_request_node, OF n1 g1]
  have inv: "wf_invoke env (code_change_graph ask) ?i = run_nodes [parse_change_request_node, generate_code_change_node ask,
      validate_change_node, apply_change_node] ?i"
    using assms(1) code_change_chain [of ask] by (simp add: runs_chains_def)
  show ?thesis
  proof (cases answer)
    case (Inl e)
    then have "generate_changes ask (change_type_of ?p) ?p ?v = (Inl (unexpected_keyword ''LLMError'' ''error_code''), v)"
      using assms(4,5,6) by (simp add: generate_changes_def catching_def bind_def throw_def)
    then have "generate_code_change_node ask s1 ?v = (Inl (unexpected_keyword ''LLMError'' ''error_code''), v)"
      using m1 by (intro generate_code_change_raises) simp
    from run_nodes_raise [of "generate_code_change_node ask", OF this]
    have "wf_invoke env (code_change_graph ask) ?i ?v = (Inl (unexpected_keyword ''LLMError'' ''error_code''), v)"
      unfolding inv run1 .
    from run_workflow_plain_error [where init = code_change_initial, OF assms(2) this _ _ i(3)] assms(3)
    show ?thesis by (simp add: Inl code_change_run_def failed_state_parts not_protocol unexpected_keyword_class
        TypeError_plain unexpected_keyword_def run_late_def)
  next
    case (Inr a)
    let ?cs = "changes_of_answer (change_type_of ?p) ?p a"
    have "generate_changes ask (change_type_of ?p) ?p ?v = (Inr ?cs, v)"
      using assms(4,5) Inr by (simp add: generate_changes_def catching_def bind_def ret_def)
    then obtain s2 where n2: "generate_code_change_node ask s1 ?v = (Inr s2, v)" and g2: "grows s1 s2"
      and m2: "dget_or (plan_of s2) ''changes'' (PList []) = PList ?cs"
      using generate_code_change_run [of ask s1 ?v ?cs v] m1 grows_distinct [OF g1] by auto
    obtain s3 where n3: "validate_change_node s2 v = (Inr s3, v)" and g3: "grows s2 s3"
      and m3: "plan_of s3 = plan_of s2" "dget_or (metadata_of s3) ''validation_passed'' (PBool False) = PBool True"
      using validate_change_run [OF m2 changes_of_answer_ok(1,2), of v] grows_distinct [OF g2] by auto
    obtain s4 where n4: "apply_change_node s3 v = (Inr s4, v)" and g4: "grows s3 s4"
      and fin: "dget s4 ''stage'' = PStr ''completed''"
        "dget (workflow_result ''code_change_result'' s4) ''result'' = PStr ''applied''"
        "dget (workflow_result ''code_change_result'' s4) ''changes'' = PList ?cs"
      using apply_change_run [of s3 ?cs v] m2 m3 changes_of_answer_ok(1) grows_distinct [OF g3] by auto
    have "wf_invoke env (code_change_graph ask) ?i ?v = (Inr s4, v)"
      unfolding inv run1 by (simp add: run_nodes_put [of "generate_code_change_node ask", OF n2 g2]
          run_nodes_put [of validate_change_node, OF n3 g3] run_nodes_put [of apply_change_node, OF n4 g4] ret_def
          del: run_nodes.simps(2))
    from run_workflow_Inr [where init = code_change_initial, OF assms(2) this] fin changes_of_answer_ok(3) assms(3)
    show ?thesis unfolding code_change_run_def Inr by (simp add: run_late_def)
  qed
qed

section \<open>Generated files that the gate rejects\<close>













section \<open>Examples\<close>

definition chain_invoke :: "'w wf_graph \<Rightarrow> pydict \<Rightarrow> ('w, pydict) act" where
  "chain_invoke g state =
     (case graph_chain g of Some fs \<Rightarrow> run_nodes fs state | None \<Rightarrow> throw (RuntimeError ''no chain''))"

definition sample_chains :: "'w wf_env" where
  "sample_chains = \<lparr>wf_now = (\<lambda>w. 0), wf_invoke = chain_invoke, wf_max_retries = 3, wf_timeouts = default_timeouts,
     wf_posix = True, wf_overran = (\<lambda>n w w'. False)\<rparr>"

lemma sample_chains_ok: "runs_chains sample_chains" "0 < to_max_task (wf_timeouts sample_chains)" "wf_posix sample_chains"
  by (auto simp: runs_chains_def sample_chains_def chain_invoke_def default_timeouts_def fun_eq_iff)

definition sample_change_task :: pydict where
  "sample_change_task = [(''task_id'', PStr ''t1''), (''prompt'', PStr ''add a button'')]"

lemma sample_change_prompt: "arg_text sample_change_task ''prompt'' = ''add a button''"
  by code_simp

text \<open>The time limit of the workflow itself, as the model's client meets it.\<close>

definition sample_alarm :: "unit asker" where
  "sample_alarm prompt system = throw (stage_timeout_error ''coder'' 1800 ''t1'')"

lemma sample_alarm_tame: "tame_asker sample_alarm"
  by (auto simp: tame_asker_def sample_alarm_def throw_def stage_timeout_error_def)

text \<open>A graph library in which the alarm goes off between two nodes.\<close>

definition sample_interrupted :: "unit wf_env" where
  "sample_interrupted = sample_chains\<lparr>wf_invoke := \<lambda>g state. throw (stage_timeout_error ''coder'' 1800 ''t1'')\<rparr>"

lemma analyze_run_outcome_witness:
  "(\<exists>final w'. analyze_run sample_chains sample_alarm sample_change_task \<lparr>wf_invocations = 0, wf_rest = ()\<rparr> = (Inr final, w') \<and>
     dget final ''stage'' = PStr ''completed'' \<and>
     dget (workflow_result ''analyze_result'' final) ''steps'' = PList [PStr ''Analyze: add a button'']) \<and>
   (\<exists>final w'. analyze_run sample_interrupted sample_alarm sample_change_task \<lparr>wf_invocations = 0, wf_rest = ()\<rparr> = (Inr final, w') \<and>
     dget final ''stage'' = PStr ''failed'' \<and>
     text_at (dict_of (last (list_of (dget final ''errors'')))) ''errorType'' = ''TimeoutError'') \<and>
   fst (analyze_run (sample_chains\<lparr>wf_posix := False, wf_overran := \<lambda>n v v'. True\<rparr>) sample_alarm sample_change_task
     \<lparr>wf_invocations = 0, wf_rest = ()\<rparr>) = Inl (stage_timeout_error ''coder'' 1800 ''t1'')"
proof -
  let ?w = "\<lparr>wf_invocations = 0, wf_rest = ()\<rparr>" and ?late = "sample_chains\<lparr>wf_posix := False, wf_overran := \<lambda>n v v'. True\<rparr>"
  have steps: "analysis_outcome sample_alarm ''add a button'' () = [''Analyze: add a button'']"
    by (simp add: analysis_outcome_def sample_alarm_def throw_def)
  have error: "run_timeout_error env sample_change_task = stage_timeout_error ''coder'' 1800 ''t1''"
    if "wf_timeouts env = default_timeouts" for env :: "unit wf_env"
    using that by (simp add: run_timeout_error_def default_timeouts_def sample_change_task_def dget_or_def py_str_def)
  have limits: "wf_timeouts sample_interrupted = default_timeouts" "wf_timeouts ?late = default_timeouts"
    "0 < to_max_task (wf_timeouts sample_interrupted)" "0 < to_max_task (wf_timeouts ?late)"
    by (simp_all add: sample_interrupted_def sample_chains_def default_timeouts_def)
  have "\<exists>final w'. analyze_run sample_chains sample_alarm sample_change_task ?w = (Inr final, w') \<and>
     dget final ''stage'' = PStr ''completed'' \<and>
     dget (workflow_result ''analyze_result'' final) ''steps'' = PList [PStr ''Analyze: add a button'']"
    using analyze_run_outcome [OF sample_chains_ok(2) sample_alarm_tame, of sample_change_task ?w] sample_chains_ok steps
    by (auto simp: sample_change_prompt run_late_def)
  moreover have "wf_posix sample_interrupted"
    "wf_invoke sample_interrupted g st v = (Inl (stage_timeout_error ''coder'' 1800 ''t1''), v)" for g st v
    by (simp_all add: sample_interrupted_def sample_chains_ok throw_def)
  then have "\<exists>final w'. analyze_run sample_interrupted sample_alarm sample_change_task ?w = (Inr final, w') \<and>
     dget final ''stage'' = PStr ''failed'' \<and>
     text_at (dict_of (last (list_of (dget final ''errors'')))) ''errorType'' = ''TimeoutError''"
    using analyze_run_outcome [OF limits(3) sample_alarm_tame, of sample_change_task ?w "()"] error [OF limits(1)] by auto
  moreover have "runs_chains ?late" "run_late ?late v v'" for v v'
    using sample_chains_ok(1) by (simp_all add: runs_chains_def run_late_def)
  then have "fst (analyze_run ?late sample_alarm sample_change_task ?w) = Inl (stage_timeout_error ''coder'' 1800 ''t1'')"
    using analyze_run_outcome [OF limits(4) sample_alarm_tame, of sample_change_task ?w] error [OF limits(2)] by auto
  ultimately show ?thesis by blast
qed









end
