(* ===== verification/Comparison.thy ===== *)
theory Comparison
  imports Workflows
begin

text \<open>
  The comparison of the legacy and the LangGraph engine, \<open>workflows/comparison_framework.py\<close>: the two engines
  are run one after the other for a task, their payloads compared key by key, and a tracker of many
  comparisons decides on a rollback. The clock is a reading of the world; logging is left out.
\<close>

section \<open>Equality of values\<close>

text \<open>Python's \<open>==\<close>: numbers by value, dictionaries without their order.\<close>

fun py_eq :: "pyval \<Rightarrow> pyval \<Rightarrow> bool" where
  "py_eq (PList xs) (PList ys) = list_all2 py_eq xs ys"
| "py_eq (PDict d) (PDict e) =
     (length d = length e \<and>
      list_all (\<lambda>(k, v). case map_of e k of None \<Rightarrow> False | Some u \<Rightarrow> py_eq v u) d)"
| "py_eq (PStr s) (PStr t) = (s = t)"
| "py_eq PNone PNone = True"
| "py_eq a b = (number_of a \<noteq> None \<and> number_of a = number_of b)"

section \<open>Data\<close>

record engine_result =
  er_engine :: string
  er_success :: bool
  er_payload :: pydict
  er_latency :: rat
  er_error :: "string option"

record comparison_result =
  cr_consistent :: bool
  cr_score :: rat
  cr_discrepancies :: "string list"

record comparison_metrics =
  cm_intent :: string
  cm_legacy_success :: bool
  cm_langgraph_success :: bool
  cm_success_rate :: rat
  cm_score :: rat
  cm_latency :: "rat \<times> rat \<times> rat"
  cm_discrepancies :: "string list"

section \<open>Comparing two results\<close>

definition succeeded_result :: "pydict \<Rightarrow> bool" where
  "succeeded_result d \<longleftrightarrow> d \<noteq> [] \<and> \<not> has_key d ''error''"

definition key_difference :: "pydict \<Rightarrow> pydict \<Rightarrow> string \<Rightarrow> string list" where
  "key_difference a b k =
     (if py_eq (dget a k) (dget b k) then []
      else [''Key '' @ quote_text k @ '' differs: legacy='' @ py_repr (dget a k) @ '' langgraph='' @ py_repr (dget b k)])"

definition compare_results :: "pydict \<Rightarrow> pydict \<Rightarrow> comparison_result" where
  "compare_results legacy langgraph =
     (let ok1 = succeeded_result legacy; ok2 = succeeded_result langgraph;
          base_score = (if ok1 = ok2 then 1 else 1 / 2);
          first = (if ok1 = ok2 then []
                   else [''Success mismatch: legacy_success='' @ py_repr (PBool ok1) @
                         '' langgraph_success='' @ py_repr (PBool ok2)]);
          all_keys = remdups (map fst legacy @ map fst langgraph);
          key_matches = length (filter (\<lambda>k. py_eq (dget legacy k) (dget langgraph k)) all_keys);
          score = (if all_keys \<noteq> []
                   then (base_score + of_nat key_matches / of_nat (length all_keys)) / 2 else base_score);
          discrepancies = first @ concat (map (key_difference legacy langgraph) (sort all_keys))
      in \<lparr>cr_consistent = (discrepancies = []), cr_score = max 0 (min 1 score), cr_discrepancies = discrepancies\<rparr>)"

definition compute_consistency :: "pydict \<Rightarrow> pydict \<Rightarrow> string list \<Rightarrow> rat \<times> string list" where
  "compute_consistency legacy langgraph keys =
     (if keys = [] then (1, [])
      else (of_nat (length (filter (\<lambda>k. py_eq (dget legacy k) (dget langgraph k)) keys)) / of_nat (length keys),
            concat (map (key_difference legacy langgraph) keys)))"

definition compute_metrics :: "string \<Rightarrow> engine_result \<Rightarrow> engine_result \<Rightarrow> string list \<Rightarrow> comparison_metrics" where
  "compute_metrics intent legacy langgraph keys =
     (let ok1 = er_success legacy; ok2 = er_success langgraph;
          (score, found) = compute_consistency (er_payload legacy) (er_payload langgraph) keys;
          mismatch = (if ok1 \<noteq> ok2 then [''Success mismatch: legacy='' @ py_repr (PBool ok1) @
                                         '' langgraph='' @ py_repr (PBool ok2)] else []);
          t1 = er_latency legacy; t2 = er_latency langgraph
      in \<lparr>cm_intent = intent, cm_legacy_success = ok1, cm_langgraph_success = ok2,
          cm_success_rate = (of_bool ok1 + of_bool ok2) / 2, cm_score = score,
          cm_latency = (t1, t2, if t2 > 0 then t1 / t2 else 0), cm_discrepancies = found @ mismatch\<rparr>)"

section \<open>Running the engines\<close>

definition run_engine :: "string \<Rightarrow> ('w \<Rightarrow> rat) \<Rightarrow> ('w, bool \<times> pydict) act \<Rightarrow> ('w, engine_result) act" where
  "run_engine name now body w =
     (case body w of
        (Inr (ok, payload), w') \<Rightarrow>
          (Inr \<lparr>er_engine = name, er_success = ok, er_payload = payload, er_latency = now w' - now w, er_error = None\<rparr>, w')
      | (Inl e, w') \<Rightarrow>
          if is_Exception e
          then (Inr \<lparr>er_engine = name, er_success = False, er_payload = [], er_latency = now w' - now w,
                     er_error = Some (exn_text e)\<rparr>, w')
          else (Inl e, w'))"

type_synonym 'w handler = "pydict \<Rightarrow> ('w, pydict) act"

definition run_legacy :: "('w \<Rightarrow> rat) \<Rightarrow> 'w handler \<Rightarrow> pydict \<Rightarrow> ('w, engine_result) act" where
  "run_legacy now handler task = run_engine ''legacy'' now (bind (handler task) (\<lambda>payload. ret (True, payload)))"

definition or_text :: "string \<Rightarrow> string \<Rightarrow> string" where
  "or_text s fallback = (if s \<noteq> [] then s else fallback)"

definition default_legacy_analyze :: "'w handler" where
  "default_legacy_analyze task = ret
     [(''result'', PStr ''planned''), (''intent'', PStr ''analyze''),
      (''planName'', PStr (or_text (arg_text task ''planName'') ''analyze_plan'')), (''steps'', PList []),
      (''executionPath'', PStr ''legacy'')]"

definition default_legacy_test :: "'w handler" where
  "default_legacy_test task = ret
     [(''result'', PStr ''executed''), (''intent'', PStr ''test''),
      (''planName'', PStr (or_text (arg_text task ''planName'') ''test_plan'')), (''status'', PStr ''ok''),
      (''command'', PStr (strip (py_str (dget_or task ''testCommand'' (PStr ''echo test_from_python_agent''))))),
      (''executionPath'', PStr ''legacy'')]"

definition default_legacy_code_change :: "'w handler" where
  "default_legacy_code_change task = ret
     [(''result'', PStr ''applied''), (''intent'', PStr ''code_change''), (''success'', PBool True),
      (''planName'', PStr (or_text (arg_text task ''planName'') ''code_change_plan'')),
      (''change_type'', PStr ''general_change''), (''changes'', PList []), (''executionPath'', PStr ''legacy'')]"

definition run_langgraph :: "('w \<Rightarrow> rat) \<Rightarrow> ('w, pydict) act \<Rightarrow> string \<Rightarrow> (pydict \<Rightarrow> bool) \<Rightarrow> ('w, engine_result) act" where
  "run_langgraph now run key success = run_engine ''langgraph'' now
     (bind run (\<lambda>final. let payload = workflow_result key final in ret (payload \<noteq> [] \<and> success payload, payload)))"

definition compare_engines ::
  "string \<Rightarrow> string list \<Rightarrow> ('w, engine_result) act \<Rightarrow> ('w, engine_result) act \<Rightarrow> ('w, comparison_metrics) act" where
  "compare_engines intent keys legacy langgraph =
     bind legacy (\<lambda>a. bind langgraph (\<lambda>b. ret (compute_metrics intent a b keys)))"

definition analyze_consistency_keys :: "string list" where
  "analyze_consistency_keys = [''result'', ''intent'', ''planName'', ''executionPath'']"

definition test_consistency_keys :: "string list" where
  "test_consistency_keys = [''result'', ''intent'', ''planName'', ''status'', ''executionPath'']"

definition code_change_consistency_keys :: "string list" where
  "code_change_consistency_keys = [''result'', ''intent'', ''success'', ''planName'', ''change_type'', ''executionPath'']"

definition compare_analyze ::
  "('w wf_world \<Rightarrow> rat) \<Rightarrow> 'w wf_env \<Rightarrow> 'w asker \<Rightarrow> 'w wf_world handler \<Rightarrow> pydict \<Rightarrow> ('w wf_world, comparison_metrics) act" where
  "compare_analyze now env ask legacy task =
     compare_engines ''analyze'' analyze_consistency_keys (run_legacy now legacy task)
       (run_langgraph now (analyze_run env ask task) ''analyze_result'' (\<lambda>p. True))"

definition compare_test ::
  "('w wf_world \<Rightarrow> rat) \<Rightarrow> 'w wf_env \<Rightarrow> (string \<Rightarrow> string option) \<Rightarrow> 'w sandbox \<Rightarrow> 'w wf_world handler \<Rightarrow> pydict
     \<Rightarrow> ('w wf_world, comparison_metrics) act" where
  "compare_test now env getenv exec legacy task =
     compare_engines ''test'' test_consistency_keys (run_legacy now legacy task)
       (run_langgraph now (test_run env getenv exec task) ''test_result'' (\<lambda>p. True))"

definition compare_code_change ::
  "('w wf_world \<Rightarrow> rat) \<Rightarrow> 'w wf_env \<Rightarrow> 'w asker \<Rightarrow> 'w wf_world handler \<Rightarrow> pydict \<Rightarrow> ('w wf_world, comparison_metrics) act" where
  "compare_code_change now env ask legacy task =
     compare_engines ''code_change'' code_change_consistency_keys (run_legacy now legacy task)
       (run_langgraph now (code_change_run env ask task) ''code_change_result''
         (\<lambda>p. truthy (dget_or p ''success'' (PBool False))))"

section \<open>The tracker\<close>

definition record_comparison :: "comparison_metrics \<Rightarrow> comparison_metrics list \<Rightarrow> comparison_metrics list" where
  "record_comparison m records = records @ [m]"

definition count_records :: "(comparison_metrics \<Rightarrow> bool) \<Rightarrow> comparison_metrics list \<Rightarrow> nat" where
  "count_records P records = length (filter P records)"

definition should_rollback :: "rat \<Rightarrow> comparison_metrics list \<Rightarrow> bool" where
  "should_rollback threshold records =
     (if records = [] then False
      else of_nat (count_records cm_legacy_success records) / of_nat (length records) -
           of_nat (count_records cm_langgraph_success records) / of_nat (length records) > threshold)"

record comparison_summary =
  sm_total :: nat
  sm_legacy_rate :: rat
  sm_langgraph_rate :: rat
  sm_avg_score :: rat
  sm_rollback :: bool

definition get_summary :: "comparison_metrics list \<Rightarrow> comparison_summary" where
  "get_summary records =
     (if records = []
      then \<lparr>sm_total = 0, sm_legacy_rate = 0, sm_langgraph_rate = 0, sm_avg_score = 0, sm_rollback = False\<rparr>
      else \<lparr>sm_total = length records,
            sm_legacy_rate = of_nat (count_records cm_legacy_success records) / of_nat (length records),
            sm_langgraph_rate = of_nat (count_records cm_langgraph_success records) / of_nat (length records),
            sm_avg_score = max 0 (min 1 (sum_list (map cm_score records) / of_nat (length records))),
            sm_rollback = should_rollback (1 / 10) records\<rparr>)"

section \<open>Scores\<close>

lemma share_bounds: "0 \<le> (of_nat (length (filter P xs)) / of_nat (length xs) :: rat) \<and>
    (of_nat (length (filter P xs)) / of_nat (length xs) :: rat) \<le> 1"
  by (cases "xs = []") (simp_all add: field_simps)

lemma share_one: "xs \<noteq> [] \<Longrightarrow> (of_nat (length (filter P xs)) / of_nat (length xs) :: rat) = 1 \<longleftrightarrow> list_all P xs"
proof -
  assume "xs \<noteq> []"
  then have "(of_nat (length (filter P xs)) / of_nat (length xs) :: rat) = 1 \<longleftrightarrow> length (filter P xs) = length xs"
    by (auto simp: field_simps)
  also have "\<dots> \<longleftrightarrow> list_all P xs"
    unfolding list_all_iff by (metis filter_True length_filter_less less_irrefl)
  finally show ?thesis .
qed

lemma no_differences:
  "concat (map (key_difference a b) ks) = [] \<longleftrightarrow> list_all (\<lambda>k. py_eq (dget a k) (dget b k)) ks"
  by (auto simp: key_difference_def list_all_iff)

text \<open>The score of a comparison lies between 0 and 1, and is 1 exactly when the two results are reported
  consistent, which is when both or neither count as successes and no key of either has different values.\<close>

theorem comparison_score_exact:
  "0 \<le> cr_score (compare_results a b) \<and> cr_score (compare_results a b) \<le> 1 \<and>
   (cr_score (compare_results a b) = 1 \<longleftrightarrow> cr_consistent (compare_results a b)) \<and>
   (cr_consistent (compare_results a b) \<longleftrightarrow>
      succeeded_result a = succeeded_result b \<and>
      list_all (\<lambda>k. py_eq (dget a k) (dget b k)) (map fst a @ map fst b))"
proof -
  let ?ks = "remdups (map fst a @ map fst b)"
  let ?P = "\<lambda>k. py_eq (dget a k) (dget b k)"
  let ?s = "of_nat (length (filter ?P ?ks)) / of_nat (length ?ks) :: rat"
  have consistent: "cr_consistent (compare_results a b) \<longleftrightarrow>
      succeeded_result a = succeeded_result b \<and> list_all ?P (map fst a @ map fst b)"
    by (simp add: compare_results_def Let_def no_differences del: concat_eq_Nil_conv) (auto simp: list_all_iff)
  define x where "x = ?s"
  have x: "0 \<le> x" "x \<le> 1" unfolding x_def using share_bounds [of ?P ?ks] by blast+
  have score: "cr_score (compare_results a b) =
      max 0 (min 1 (if ?ks \<noteq> [] then ((if succeeded_result a = succeeded_result b then 1 else 1 / 2) + x) / 2
       else if succeeded_result a = succeeded_result b then 1 else 1 / 2))"
    unfolding x_def by (simp add: compare_results_def Let_def)
  have all: "?ks \<noteq> [] \<Longrightarrow> x = 1 \<longleftrightarrow> list_all ?P (map fst a @ map fst b)"
    using share_one [of ?ks ?P] unfolding x_def by (simp add: list_all_iff)
  have none: "?ks = [] \<Longrightarrow> list_all ?P (map fst a @ map fst b)" by simp
  show ?thesis
    unfolding consistent score using x all none
    by (cases "?ks = []"; cases "succeeded_result a = succeeded_result b") (auto simp: max_def min_def)
qed

section \<open>Rollbacks\<close>

lemma rate_bounds: "0 \<le> (of_nat (count_records P rs) / of_nat (length rs) :: rat)"
  "(of_nat (count_records P rs) / of_nat (length rs) :: rat) \<le> 1"
  using share_bounds [of P rs] by (simp_all add: count_records_def)

text \<open>The tracker recommends a rollback exactly when, over all recorded comparisons, the legacy engine
  succeeded in more cases than the LangGraph engine by over the tolerated share of them; the rates and the mean
  score of its summary lie between 0 and 1, and its recommendation is the one for a tenth. Without records it
  recommends nothing.\<close>

theorem rollback_decision:
  "(should_rollback t rs \<longleftrightarrow> rs \<noteq> [] \<and>
      of_nat (count_records cm_legacy_success rs) > of_nat (count_records cm_langgraph_success rs) + t * of_nat (length rs)) \<and>
   0 \<le> sm_legacy_rate (get_summary rs) \<and> sm_legacy_rate (get_summary rs) \<le> 1 \<and>
   0 \<le> sm_langgraph_rate (get_summary rs) \<and> sm_langgraph_rate (get_summary rs) \<le> 1 \<and>
   0 \<le> sm_avg_score (get_summary rs) \<and> sm_avg_score (get_summary rs) \<le> 1 \<and>
   sm_total (get_summary rs) = length rs \<and> sm_rollback (get_summary rs) = should_rollback (1 / 10) rs"
  using rate_bounds
  by (cases "rs = []") (auto simp: should_rollback_def get_summary_def field_simps)

section \<open>The built-in legacy stubs\<close>

text \<open>On POSIX, compared with the built-in legacy stub, the LangGraph analysis of any task is reported to differ: the
  two payloads never agree on the execution path, so at most three of the four compared keys agree, and the mean
  score of any number of such comparisons stays at most three quarters.\<close>

theorem analysis_never_matches_stub:
  assumes "runs_chains env" "0 < to_max_task (wf_timeouts env)" "wf_posix env" "tame_asker ask"
  shows "\<exists>m w'. compare_analyze now env ask default_legacy_analyze task w = (Inr m, w') \<and>
    cm_legacy_success m \<and> cm_langgraph_success m \<and> cm_score m \<le> 3 / 4 \<and> cm_discrepancies m \<noteq> []"
proof -
  obtain final w' where run: "analyze_run env ask task w = (Inr final, w')"
    and path: "dget (workflow_result ''analyze_result'' final) ''executionPath'' = PStr ''langgraph''"
    using analyze_run_completes [OF assms(1,2,4), of task w] assms(3) by (auto simp: run_late_def)
  then have ne: "workflow_result ''analyze_result'' final \<noteq> []" by (auto simp: dget_def)
  define g where "g = workflow_result ''analyze_result'' final"
  define l where "l = [(''result'', PStr ''planned''), (''intent'', PStr ''analyze''),
      (''planName'', PStr (or_text (arg_text task ''planName'') ''analyze_plan'')), (''steps'', PList []),
      (''executionPath'', PStr ''legacy'')]"
  let ?P = "\<lambda>k. py_eq (dget l k) (dget g k)" and ?rest = "[''result'', ''intent'', ''planName'']"
  have no: "\<not> ?P ''executionPath''" by (simp add: l_def g_def path dget_def [of "_ # _"])
  have keys: "analyze_consistency_keys = ?rest @ [''executionPath'']" by (simp add: analyze_consistency_keys_def)
  have "length (filter ?P analyze_consistency_keys) = length (filter ?P ?rest)"
    unfolding keys filter_append using no by simp
  also have "\<dots> \<le> 3" using length_filter_le [of ?P ?rest] by simp
  finally have score: "fst (compute_consistency l g analyze_consistency_keys) \<le> 3 / 4"
    by (simp add: compute_consistency_def) (simp add: analyze_consistency_keys_def)
  have "\<not> list_all ?P analyze_consistency_keys" using no unfolding keys by simp
  then have found: "snd (compute_consistency l g analyze_consistency_keys) \<noteq> []"
    unfolding no_differences [symmetric] by (simp add: compute_consistency_def analyze_consistency_keys_def)
  define a where "a = \<lparr>er_engine = ''legacy'', er_success = True, er_payload = l, er_latency = 0, er_error = None\<rparr>"
  define b where "b = \<lparr>er_engine = ''langgraph'', er_success = True, er_payload = g,
      er_latency = now w' - now w, er_error = None\<rparr>"
  have "compare_analyze now env ask default_legacy_analyze task w =
      (Inr (compute_metrics ''analyze'' a b analyze_consistency_keys), w')"
    using ne by (simp add: compare_analyze_def compare_engines_def run_legacy_def run_langgraph_def run_engine_def
        bind_def ret_def default_legacy_analyze_def run Let_def a_def b_def l_def g_def)
  moreover have "er_payload a = l" "er_payload b = g" "er_success a" "er_success b"
    by (simp_all add: a_def b_def)
  ultimately show ?thesis using score found by (auto simp: compute_metrics_def Let_def split_def)
qed

end
