(* ===== verification/Answer_Agents.thy ===== *)
theory Answer_Agents
  imports Test_Agent Llm_Client Workspace
begin

text \<open>
  The agents that put one question to a language model and read its answer: \<open>agents/intent_agent.py\<close>,
  \<open>agents/planner_agent.py\<close> and \<open>agents/reviewer_agent.py\<close>, with \<open>tools/search_tool.py\<close>, which the reviewer
  falls back on. Every one of them reads a JSON object out of the answer, checks and normalises its fields, and
  on any \<open>Exception\<close> throws the answer out of the cache of \<open>Llm_Client\<close> and decides without it; planner and
  reviewer ask through a breaker of \<open>Circuit_Breaker\<close>.

  The client and the breaker of an agent are parts of the outside of \<open>Base_Agent\<close>, reached through the
  functions of \<open>llm_seat\<close>; \<open>json.loads\<close> is a parameter, with the text of its \<open>JSONDecodeError\<close> on the left.
  A text with characters outside ASCII is the sequence of its UTF-8 bytes; \<open>uni\<close> spells such words by their
  code points.
\<close>

section \<open>Words outside ASCII\<close>

definition uni_char :: "nat \<Rightarrow> string" where
  "uni_char n = [char_of (224 + n div 4096), char_of (128 + n div 64 mod 64), char_of (128 + n mod 64)]"

definition uni :: "nat list \<Rightarrow> string" where
  "uni ns = concat (map uni_char ns)"

definition any_word :: "string list \<Rightarrow> string \<Rightarrow> bool" where
  "any_word ws s = list_ex (\<lambda>v. contains v s) ws"

section \<open>Objects in answers\<close>

text \<open>\<open>re.search(r"\{.*\}", s, re.DOTALL)\<close>: from the first opening to the last closing brace.\<close>

definition json_block :: "string \<Rightarrow> string option" where
  "json_block s =
     (let block = rev (dropWhile (\<lambda>c. c \<noteq> CHR ''}'') (rev (dropWhile (\<lambda>c. c \<noteq> CHR ''{'') s)))
      in if block = [] then None else Some block)"

definition object_or_error :: "string \<Rightarrow> pyval \<Rightarrow> pydict result" where
  "object_or_error who v =
     (case v of PDict d \<Rightarrow> Inr d
      | _ \<Rightarrow> Inl (ValueError (who @ '' response must be an object: '' @ py_repr v)))"

definition decode_error :: "string \<Rightarrow> py_exn" where
  "decode_error m = NamedError ''JSONDecodeError'' m"

definition read_object :: "string \<Rightarrow> (string \<Rightarrow> string + pyval) \<Rightarrow> string \<Rightarrow> pydict result" where
  "read_object who parse raw =
     (let text = strip raw in
      if text = [] then Inl (ValueError (''empty '' @ who @ '' response''))
      else case parse text of
          Inr v \<Rightarrow> object_or_error who v
        | Inl m \<Rightarrow>
            (case json_block text of
               None \<Rightarrow> Inl (ValueError (who @ '' response is not valid JSON: '' @ text))
             | Some block \<Rightarrow>
                 (case parse block of Inr v \<Rightarrow> object_or_error who v | Inl m \<Rightarrow> Inl (decode_error m))))"

text \<open>\<open>str(value or "")\<close>, and the non-blank items of a list of texts.\<close>

definition text_or_empty :: "pyval \<Rightarrow> string" where
  "text_or_empty v = py_str (py_or v (PStr []))"

definition text_items :: "pyval list \<Rightarrow> string list" where
  "text_items vs = filter (\<lambda>s. s \<noteq> []) (map (\<lambda>v. strip (py_str v)) vs)"

definition text_list :: "pyval \<Rightarrow> string list" where
  "text_list v = (case v of PList vs \<Rightarrow> text_items vs
     | PStr s \<Rightarrow> if strip s \<noteq> [] then [strip s] else []
     | _ \<Rightarrow> [])"

definition text_or_default :: "string \<Rightarrow> pyval \<Rightarrow> string" where
  "text_or_default d v = (let s = strip (py_str (py_or v (PStr d))) in if s = [] then d else s)"

definition system_message :: "string \<Rightarrow> pydict" where
  "system_message s = [(''role'', PStr ''system''), (''content'', PStr s)]"

definition user_message :: "string \<Rightarrow> pydict" where
  "user_message s = [(''role'', PStr ''user''), (''content'', PStr s)]"

section \<open>Intents\<close>

definition supported_intents :: "string list" where
  "supported_intents = [''code_change'', ''deploy'', ''test'', ''analyze'']"

definition intent_messages :: "string \<Rightarrow> pydict list" where
  "intent_messages prompt =
     [system_message (''You are an intent classifier for software tasks. '' @
        ''Return strict JSON with keys: intent, confidence, reason. '' @
        ''intent must be one of: code_change, deploy, test, analyze.''),
      user_message (strip prompt)]"

definition parse_intent_object :: "(string \<Rightarrow> string + pyval) \<Rightarrow> string \<Rightarrow> pydict result" where
  "parse_intent_object parse raw = read_object ''intent'' parse raw"

definition normalize_intent :: "pyval \<Rightarrow> string result" where
  "normalize_intent v =
     (let intent = lower (strip (text_or_empty v)) in
      if intent \<in> set supported_intents then Inr intent
      else Inl (ValueError (''unsupported intent from llm: '' @ intent)))"

text \<open>\<open>float(value)\<close> and the check of the range, which NaN passes, because no comparison with it holds: the JSON
  token \<open>NaN\<close> and the texts that \<open>float\<close> reads as NaN. The infinities are out of range, and an integer that is
  too large for a float raises an error that is not caught here.\<close>

definition unsigned_text :: "string \<Rightarrow> string" where
  "unsigned_text s = (let t = lower (strip s) in if prefix ''+'' t \<or> prefix ''-'' t then tl t else t)"

definition is_nan :: "pyval \<Rightarrow> bool" where
  "is_nan v = (case v of PNaN \<Rightarrow> True | PStr s \<Rightarrow> unsigned_text s = ''nan'' | _ \<Rightarrow> False)"

definition is_infinite :: "pyval \<Rightarrow> bool" where
  "is_infinite v = (case v of PStr s \<Rightarrow> unsigned_text s \<in> {''inf'', ''infinity''} | _ \<Rightarrow> False)"

definition overflows :: "pyval \<Rightarrow> bool" where
  "overflows v = (case v of PInt i \<Rightarrow> \<bar>i\<bar> \<ge> 2 ^ 1024 - 2 ^ 970 | _ \<Rightarrow> False)"

definition normalize_confidence :: "pyval \<Rightarrow> pyval result" where
  "normalize_confidence v =
     (if v = PNone then Inr (PFloat (3 / 4))
      else if is_nan v then Inr PNaN
      else if is_infinite v then Inl (ValueError ''intent confidence must be within [0,1]'')
      else if overflows v then Inl (NamedError ''OverflowError'' ''int too large to convert to float'')
      else case to_float_or_none v of
             None \<Rightarrow> Inl (ValueError ''intent confidence must be numeric'')
           | Some c \<Rightarrow>
               if c < 0 \<or> c > 1 then Inl (ValueError ''intent confidence must be within [0,1]'') else Inr (PFloat c))"

definition heuristic_intent :: "string \<Rightarrow> string \<Rightarrow> intent_decision" where
  "heuristic_intent prompt backend =
     (let normalized = lower (strip prompt);
          decide = (\<lambda>intent confidence reason.
            \<lparr>id_backend = backend, id_intent = intent, id_confidence = PFloat confidence, id_reason = reason\<rparr>)
      in if any_word [''deploy'', ''release'', ''publish'', uni [0x90E8, 0x7F72], uni [0x53D1, 0x5E03],
              uni [0x4E0A, 0x7EBF], uni [0x6295, 0x4EA7]] normalized
         then decide ''deploy'' (9 / 10) ''deploy keywords''
         else if any_word [''test'', ''pytest'', ''mvn test'', uni [0x6D4B, 0x8BD5], uni [0x9A8C, 0x6536],
              uni [0x9A8C, 0x8BC1], uni [0x56DE, 0x5F52]] normalized
         then decide ''test'' (82 / 100) ''test keywords''
         else if any_word [''fix'', ''refactor'', ''code'', ''implement'', ''flask'', ''fastapi'', ''route'', ''endpoint'',
              ''api'', ''controller'', ''service'', uni [0x4FEE, 0x590D], uni [0x91CD, 0x6784], uni [0x4F18, 0x5316],
              uni [0x63A5, 0x53E3], ''/health''] normalized
         then decide ''code_change'' (86 / 100) ''coding keywords''
         else if any_word [''web'', ''html'', ''website'', ''page'', uni [0x751F, 0x6210], uni [0x5F00, 0x53D1],
              uni [0x5B9E, 0x73B0], uni [0x9875, 0x9762], uni [0x7F51, 0x9875], uni [0x524D, 0x7AEF],
              uni [0x5E94, 0x7528], uni [0x7CFB, 0x7EDF], uni [0x7BA1, 0x7406, 0x7CFB, 0x7EDF], ''backend'',
              ''fullstack'', uni [0x540E, 0x7AEF], uni [0x5168, 0x6808]] normalized
         then decide ''code_change'' (88 / 100) ''generation keywords''
         else decide ''analyze'' (68 / 100) ''default heuristic'')"

text \<open>What \<open>infer\<close> makes of an answer.\<close>

definition read_intent :: "(string \<Rightarrow> string + pyval) \<Rightarrow> string \<Rightarrow> string \<Rightarrow> intent_decision result" where
  "read_intent parse backend raw =
     (case parse_intent_object parse raw of Inl e \<Rightarrow> Inl e
      | Inr payload \<Rightarrow>
        (case normalize_intent (dget payload ''intent'') of Inl e \<Rightarrow> Inl e
         | Inr intent \<Rightarrow>
           (case normalize_confidence (dget payload ''confidence'') of Inl e \<Rightarrow> Inl e
            | Inr confidence \<Rightarrow>
                Inr \<lparr>id_backend = backend, id_intent = intent, id_confidence = confidence,
                     id_reason = text_or_default ''llm'' (dget payload ''reason'')\<rparr>)))"

definition intent_fallback :: "string \<Rightarrow> string \<Rightarrow> py_exn \<Rightarrow> intent_decision" where
  "intent_fallback prompt backend e =
     (heuristic_intent prompt backend)\<lparr>id_reason := ''llm_fallback:'' @ exn_text e\<rparr>"

definition infer ::
  "llm_env \<Rightarrow> llm_client \<Rightarrow> (string \<Rightarrow> string + pyval) \<Rightarrow> string \<Rightarrow> (llm_world, intent_decision) act" where
  "infer env cl parse prompt =
     (let backend = lk_backend cl; missing = required_key_name (le_getenv env) cl in
      if missing \<noteq> None \<and> missing \<noteq> Some []
      then ret \<lparr>id_backend = backend, id_intent = ''llm_key_missing'', id_confidence = PFloat 0,
                id_reason = the missing @ '' missing''\<rparr>
      else bind (get_with cache_event_cursor) (\<lambda>cursor.
        try_except
          (bind (chat env cl (intent_messages prompt)) (\<lambda>raw. lift_result (read_intent parse backend raw)))
          (\<lambda>e. next_act (discard_cache_entries_since env ''invalid_intent_response'' cursor)
                 (ret (intent_fallback prompt backend e)))))"

section \<open>The seat of an agent\<close>

text \<open>Where an agent finds its client and its breaker in the outside.\<close>

record 's llm_seat =
  st_client :: llm_client
  st_env :: llm_env
  st_parse :: "string \<Rightarrow> string + pyval"
  st_llm :: "'s \<Rightarrow> llm_world"
  st_set_llm :: "llm_world \<Rightarrow> 's \<Rightarrow> 's"
  st_breaker :: "'s \<Rightarrow> breaker"
  st_set_breaker :: "breaker \<Rightarrow> 's \<Rightarrow> 's"

definition on_llm :: "'s llm_seat \<Rightarrow> (llm_world, 'a) act \<Rightarrow> ('s agent_world, 'a) act" where
  "on_llm seat m w = (let (r, x) = m (st_llm seat (aw_ext w)) in (r, w\<lparr>aw_ext := st_set_llm seat x (aw_ext w)\<rparr>))"

definition put_breaker :: "'s llm_seat \<Rightarrow> (breaker \<Rightarrow> breaker) \<Rightarrow> 's agent_world \<Rightarrow> 's agent_world" where
  "put_breaker seat f w = w\<lparr>aw_ext := st_set_breaker seat (f (st_breaker seat (aw_ext w))) (aw_ext w)\<rparr>"

text \<open>\<open>self.circuit_breaker.call(operation)\<close>.\<close>

definition guarded_call :: "'s agent_env \<Rightarrow> 's llm_seat \<Rightarrow> ('s agent_world, 'a) act \<Rightarrow> ('s agent_world, 'a) act" where
  "guarded_call env seat operation w =
     (case before_call (ae_monotonic env (aw_ext w)) (st_breaker seat (aw_ext w)) of
        Inl e \<Rightarrow> (Inl e, w)
      | Inr b \<Rightarrow>
          (case operation (put_breaker seat (\<lambda>_. b) w) of
             (Inl e, w') \<Rightarrow> (Inl e, if is_Exception e then put_breaker seat (after_failure (ae_monotonic env (aw_ext w'))) w' else w')
           | (Inr x, w') \<Rightarrow> (Inr x, put_breaker seat after_success w')))"

definition seat_cursor :: "'s llm_seat \<Rightarrow> ('s agent_world, int) act" where
  "seat_cursor seat = get_with (\<lambda>w. cache_event_cursor (st_llm seat (aw_ext w)))"

definition seat_metrics :: "'s llm_seat \<Rightarrow> string \<Rightarrow> string \<Rightarrow> int \<Rightarrow> ('s agent_world, unit) act" where
  "seat_metrics seat stage backend cursor = modify (\<lambda>w.
     w\<lparr>aw_obs := map_option (record_cache_metrics (st_client seat) stage backend (Some cursor) (st_llm seat (aw_ext w))) (aw_obs w)\<rparr>)"

definition seat_discard :: "'s llm_seat \<Rightarrow> string \<Rightarrow> int \<Rightarrow> ('s agent_world, int) act" where
  "seat_discard seat reason cursor = on_llm seat (discard_cache_entries_since (st_env seat) reason cursor)"

definition seat_chat :: "'s agent_env \<Rightarrow> 's llm_seat \<Rightarrow> pydict list \<Rightarrow> ('s agent_world, string) act" where
  "seat_chat env seat messages = guarded_call env seat (on_llm seat (chat (st_env seat) (st_client seat) messages))"

text \<open>The orchestrator's \<open>_infer_intent\<close>, which records the cache's part in the observation of the task.\<close>

definition infer_intent :: "'s llm_seat \<Rightarrow> string \<Rightarrow> ('s agent_world, intent_decision) act" where
  "infer_intent seat prompt =
     bind (seat_cursor seat) (\<lambda>cursor.
     bind (on_llm seat (infer (st_env seat) (st_client seat) (st_parse seat) prompt)) (\<lambda>decision.
     next_act (seat_metrics seat ''IntentAgent'' (lk_backend (st_client seat)) cursor) (ret decision)))"

section \<open>Plans\<close>

definition planner_messages :: "string \<Rightarrow> string \<Rightarrow> pydict list" where
  "planner_messages prompt intent =
     [system_message (''You are a planning agent for software tasks. '' @
        ''Return strict JSON with keys: plan_name, steps. '' @
        ''steps must be a non-empty list of concise strings.''),
      user_message (''intent='' @ intent @ line_feed @ ''prompt='' @ prompt)]"

definition fallback_plan :: "string \<Rightarrow> plan_result" where
  "fallback_plan intent =
     (if intent = ''deploy''
      then \<lparr>pl_name = ''deploy_pipeline'', pl_steps = [''collect release context'', ''verify artifact and environment'',
              ''request approval if required'', ''execute deployment and report result''], pl_reason = []\<rparr>
      else if intent = ''test''
      then \<lparr>pl_name = ''test_pipeline'', pl_steps = [''inspect test target'', ''run test command'',
              ''summarize failures and retries''], pl_reason = []\<rparr>
      else if intent = ''code_change''
      then \<lparr>pl_name = ''code_change_pipeline'', pl_steps = [''read relevant files'', ''propose minimal patch'',
              ''run validation command'', ''report change summary''], pl_reason = []\<rparr>
      else \<lparr>pl_name = ''analysis_pipeline'', pl_steps = [''clarify task intent'', ''gather context'',
              ''produce structured next actions''], pl_reason = []\<rparr>)"

definition parse_plan_object :: "(string \<Rightarrow> string + pyval) \<Rightarrow> string \<Rightarrow> pydict result" where
  "parse_plan_object parse raw = read_object ''planner'' parse raw"

definition normalize_plan_name :: "pyval \<Rightarrow> string \<Rightarrow> string" where
  "normalize_plan_name v intent =
     (let raw = replace_char CHR ''-'' CHR ''_'' (replace_char CHR '' '' CHR ''_'' (lower (strip (text_or_empty v))))
      in if raw \<noteq> [] then raw else pl_name (fallback_plan intent))"

definition normalize_steps :: "pyval \<Rightarrow> string list" where
  "normalize_steps v = text_list v"

definition read_plan :: "(string \<Rightarrow> string + pyval) \<Rightarrow> string \<Rightarrow> string \<Rightarrow> plan_result result" where
  "read_plan parse intent raw =
     (case parse_plan_object parse raw of Inl e \<Rightarrow> Inl e
      | Inr payload \<Rightarrow>
        (let steps = normalize_steps (dget payload ''steps'') in
         if steps = [] then Inl (ValueError ''planner response steps must not be empty'')
         else Inr \<lparr>pl_name = normalize_plan_name (dget payload ''plan_name'') intent, pl_steps = steps, pl_reason = ''llm''\<rparr>))"

definition build_plan_with_observability ::
  "'s agent_env \<Rightarrow> 's llm_seat \<Rightarrow> bool \<Rightarrow> string \<Rightarrow> intent_decision \<Rightarrow> ('s agent_world, plan_result) act" where
  "build_plan_with_observability env seat observed prompt d =
     (if id_intent d = ''llm_key_missing''
      then ret \<lparr>pl_name = ''blocked_missing_key'',
                pl_steps = [''report missing LLM API key requirement'', ''stop execution until key is configured''],
                pl_reason = id_reason d\<rparr>
      else bind (seat_cursor seat) (\<lambda>cursor.
        let note = when_do observed (seat_metrics seat ''PlannerAgent'' (id_backend d) cursor) in
        try_except
          (bind (seat_chat env seat (planner_messages prompt (id_intent d))) (\<lambda>response.
           bind (lift_result (read_plan (st_parse seat) (id_intent d) response)) (\<lambda>plan.
             next_act note (ret plan))))
          (\<lambda>e. next_act (seat_discard seat ''invalid_planner_response'' cursor)
                 (next_act note (ret ((fallback_plan (id_intent d))\<lparr>pl_reason := ''llm_fallback:'' @ exn_text e\<rparr>))))))"

definition build_plan :: "'s agent_env \<Rightarrow> 's llm_seat \<Rightarrow> string \<Rightarrow> intent_decision \<Rightarrow> ('s agent_world, plan_result) act" where
  "build_plan env seat prompt d = build_plan_with_observability env seat False prompt d"

section \<open>Searching files\<close>

text \<open>\<open>Path(name).suffix\<close>.\<close>

definition path_suffix :: "string \<Rightarrow> string" where
  "path_suffix name =
     (let ext = rev (takeWhile (\<lambda>c. c \<noteq> CHR ''.'') (rev name))
      in if CHR ''.'' \<in> set name \<and> ext \<noteq> [] \<and> length ext + 1 < length name then CHR ''.'' # ext else [])"

definition search_exts :: "string list" where
  "search_exts = [''.py'', ''.java'', ''.kt'', ''.md'', ''.txt'', ''.json'', ''.yaml'', ''.yml'']"

definition search_files :: "fs \<Rightarrow> fs_path \<Rightarrow> string \<Rightarrow> string list \<Rightarrow> int \<Rightarrow> fs_path list" where
  "search_files f base query include_exts max_results =
     (let needle = lower (strip query) in
      if \<not> fs_is_dir f base \<or> needle = [] then []
      else take (nat max_results) (filter
        (\<lambda>p. (include_exts = [] \<or> lower (path_suffix (last p)) \<in> set include_exts) \<and>
             (case fs_get f p of Some (FText content) \<Rightarrow> contains needle (lower content) | _ \<Rightarrow> False))
        (fs_rglob f base [])))"

section \<open>Reviews\<close>

text \<open>\<open>rw_path\<close> is \<open>Path(...).resolve\<close>, \<open>rw_files\<close> the files.\<close>

record 's review_env =
  rw_work :: "'s work_env"
  rw_seat :: "'s llm_seat"
  rw_files :: "'s \<Rightarrow> fs"
  rw_path :: "string \<Rightarrow> fs_path"

definition review_workspace :: "pydict \<Rightarrow> string" where
  "review_workspace task = (let ws = field_text task ''workspacePath'' in if ws = [] then ''.'' else ws)"

definition text_diff :: "pydict \<Rightarrow> string \<Rightarrow> string list" where
  "text_diff task k = (case dget task k of PStr s \<Rightarrow> if strip s \<noteq> [] then [s] else [] | _ \<Rightarrow> [])"

definition list_diff :: "pydict \<Rightarrow> string \<Rightarrow> string list" where
  "list_diff task k = (case dget task k of
     PList items \<Rightarrow> if text_items items \<noteq> [] then [join (line_feed @ line_feed) (text_items items)] else []
   | _ \<Rightarrow> [])"

definition resolve_diff_text :: "pydict \<Rightarrow> string" where
  "resolve_diff_text task =
     (case concat (map (text_diff task) [''latestDiff'', ''diff'', ''patch''] @
                   map (list_diff task) [''generatedDiffs'', ''diffs'']) of
        d # _ \<Rightarrow> d | [] \<Rightarrow> [])"

definition parse_review_object :: "(string \<Rightarrow> string + pyval) \<Rightarrow> string \<Rightarrow> pydict result" where
  "parse_review_object parse raw = read_object ''reviewer'' parse raw"

definition normalize_risk_level :: "pyval \<Rightarrow> string" where
  "normalize_risk_level v =
     (let normalized = lower (strip (text_or_empty v)) in
      if normalized \<in> {''high'', ''medium'', ''low''} then normalized else ''medium'')"

definition normalize_issues :: "pyval \<Rightarrow> string list" where
  "normalize_issues v = text_list v"

definition review_messages :: "string \<Rightarrow> pydict list" where
  "review_messages diff_text =
     [system_message (''You are a code reviewer. Return strict JSON with keys: risk_level, issues, summary. '' @
        ''risk_level must be one of high, medium, low. issues must be a list of strings.''),
      user_message (''Review this unified diff:'' @ line_feed @ diff_text)]"

definition read_review :: "(string \<Rightarrow> string + pyval) \<Rightarrow> string \<Rightarrow> reviewer_result result" where
  "read_review parse raw =
     (case parse_review_object parse raw of Inl e \<Rightarrow> Inl e
      | Inr payload \<Rightarrow>
        (let risk = normalize_risk_level (dget payload ''risk_level'') in
         Inr \<lparr>rv_approved = risk \<noteq> ''high'', rv_summary = text_or_default ''LLM review completed.'' (dget payload ''summary''),
              rv_issues = normalize_issues (dget payload ''issues''), rv_risk_level = risk\<rparr>))"

definition review_with_llm :: "'s review_env \<Rightarrow> string \<Rightarrow> ('s agent_world, reviewer_result) act" where
  "review_with_llm env diff_text =
     bind (seat_chat (we_agent (rw_work env)) (rw_seat env) (review_messages diff_text)) (\<lambda>raw.
       lift_result (read_review (st_parse (rw_seat env)) raw))"

text \<open>\<open>relative_to(workspace)\<close>, or the name of the file outside of it.\<close>

definition review_path :: "fs_path \<Rightarrow> fs_path \<Rightarrow> string" where
  "review_path ws p =
     replace_char (char_of (92 :: nat)) CHR ''/'' (if prefix ws p then relative_path ws p else last p)"

definition marker_review :: "fs \<Rightarrow> fs_path \<Rightarrow> reviewer_result" where
  "marker_review f ws =
     (let blockers = map (review_path ws) (search_files f ws ''REVIEW_BLOCKER'' search_exts 5) in
      \<lparr>rv_approved = (blockers = []),
       rv_summary = (if blockers \<noteq> [] then ''Review blocked by REVIEW_BLOCKER marker.''
                     else ''LLM unavailable; fallback review passed with no blockers.''),
       rv_issues = blockers, rv_risk_level = (if blockers \<noteq> [] then ''high'' else ''low'')\<rparr>)"

definition default_review :: reviewer_result where
  "default_review = \<lparr>rv_approved = True, rv_summary = ''No diff provided, review accepted by default.'',
     rv_issues = [], rv_risk_level = ''low''\<rparr>"

definition tell_review :: "'s review_env \<Rightarrow> plan_result \<Rightarrow> reviewer_result \<Rightarrow> ('s agent_world, reviewer_result) act" where
  "tell_review env plan r = next_act (emit (rw_work env) (review_payload plan r)) (ret r)"

definition llm_review :: "'s review_env \<Rightarrow> plan_result \<Rightarrow> string \<Rightarrow> ('s agent_world, reviewer_result option) act" where
  "llm_review env plan diff_text =
     next_act (ensure_own (we_agent (rw_work env)))
      (bind (seat_cursor (rw_seat env)) (\<lambda>cursor.
        let note = seat_metrics (rw_seat env) ''ReviewerAgent'' (lk_backend (st_client (rw_seat env))) cursor in
        try_except
          (bind (review_with_llm env diff_text) (\<lambda>r.
             next_act note (bind (tell_review env plan r) (\<lambda>r. ret (Some r)))))
          (\<lambda>e. next_act (seat_discard (rw_seat env) ''invalid_reviewer_response'' cursor)
                 (next_act note (ret None)))))"

definition review :: "'s review_env \<Rightarrow> plan_result \<Rightarrow> ('s agent_world, reviewer_result) act" where
  "review env plan =
     bind (get_with aw_task) (\<lambda>task.
       let ws = rw_path env (review_workspace task); diff_text = resolve_diff_text task;
           by_marker = bind (get_with (\<lambda>w. marker_review (rw_files env (aw_ext w)) ws)) (tell_review env plan)
       in if strip diff_text = [] then tell_review env plan default_review
          else if required_key_name (le_getenv (st_env (rw_seat env))) (st_client (rw_seat env)) = None
          then bind (llm_review env plan diff_text) (\<lambda>r.
                 case r of Some x \<Rightarrow> ret x | None \<Rightarrow> by_marker)
          else by_marker)"

section \<open>Decisions\<close>

text \<open>The model may fail, but nothing interrupts the program while it is asked.\<close>

definition uninterrupted :: "llm_env \<Rightarrow> llm_client \<Rightarrow> bool" where
  "uninterrupted env cl \<longleftrightarrow> (\<forall>n messages e. raw_answer env cl n messages = Inl e \<longrightarrow> is_Exception e)"

lemma client_error_Exception [simp]: "is_Exception (client_error m)"
  by (simp add: client_error_def)

lemma check_usable_Exception: "check_usable env cl messages = Some e \<Longrightarrow> is_Exception e"
  by (auto simp: check_usable_def Let_def split: if_splits)

lemma model_answer_Exception: "uninterrupted env cl \<Longrightarrow> model_answer env cl n messages = Inl e \<Longrightarrow> is_Exception e"
  by (auto simp: model_answer_def uninterrupted_def Let_def split: sum.splits if_splits)

lemma chat_Exception:
  assumes "uninterrupted env cl" "chat env cl messages w = (Inl e, w')"
  shows "is_Exception e"
  using assms look_up_returns [of env "build_cache_key env cl messages" w] model_answer_Exception [OF assms(1)]
  by (auto simp: chat_cases Let_def ask_guarded_run client_result_def check_usable_Exception on_cache_run
      split: option.splits sum.splits if_splits bool.splits prod.splits)

lemma read_object_Exception: "read_object who parse raw = Inl e \<Longrightarrow> is_Exception e"
  by (auto simp: read_object_def object_or_error_def decode_error_def Let_def
      split: if_splits sum.splits option.splits pyval.splits)

lemma read_intent_Exception: "read_intent parse backend raw = Inl e \<Longrightarrow> is_Exception e"
  by (auto simp: read_intent_def parse_intent_object_def normalize_intent_def normalize_confidence_def Let_def
      dest: read_object_Exception split: sum.splits if_splits option.splits)

definition decision_ok :: "llm_client \<Rightarrow> intent_decision \<Rightarrow> bool" where
  "decision_ok cl d \<longleftrightarrow> id_backend d = lk_backend cl \<and> id_reason d \<noteq> [] \<and>
     (case id_confidence d of PFloat q \<Rightarrow> 0 \<le> q \<and> q \<le> 1 | PNaN \<Rightarrow> True | _ \<Rightarrow> False) \<and>
     (id_intent d \<in> set supported_intents \<or> id_intent d = ''llm_key_missing'' \<and> id_confidence d = PFloat 0)"

lemma text_or_nonempty: "d \<noteq> [] \<Longrightarrow> text_or_default d v \<noteq> []"
  by (simp add: text_or_default_def Let_def)

lemma read_intent_ok: "read_intent parse (lk_backend cl) raw = Inr d \<Longrightarrow> decision_ok cl d \<and> id_intent d \<noteq> ''llm_key_missing''"
  by (auto simp: read_intent_def decision_ok_def normalize_intent_def normalize_confidence_def Let_def text_or_nonempty
      supported_intents_def split: sum.splits if_splits option.splits)

lemma heuristic_intent_ok:
  "decision_ok cl (heuristic_intent prompt (lk_backend cl)) \<and> id_intent (heuristic_intent prompt b) \<noteq> ''llm_key_missing''"
  by (auto simp: heuristic_intent_def Let_def decision_ok_def supported_intents_def)

lemma intent_fallback_ok:
  "decision_ok cl (intent_fallback prompt (lk_backend cl) e) \<and> id_intent (intent_fallback prompt b e) \<noteq> ''llm_key_missing''"
  using heuristic_intent_ok [of cl prompt b] by (simp add: intent_fallback_def decision_ok_def)

lemma discard_since_returns: "\<exists>r w'. discard_cache_entries_since env reason c w = (Inr r, w')"
  unfolding discard_cache_entries_since_def using discard_events_run by blast

text \<open>How \<open>infer\<close> ends: by the missing key, with the answer, or with the reason of a failure.\<close>

definition key_missing :: "llm_env \<Rightarrow> llm_client \<Rightarrow> bool" where
  "key_missing env cl \<longleftrightarrow> required_key_name (le_getenv env) cl \<notin> {None, Some []}"

lemma infer_run:
  "infer env cl parse prompt w =
     (if key_missing env cl
      then (Inr \<lparr>id_backend = lk_backend cl, id_intent = ''llm_key_missing'', id_confidence = PFloat 0,
                 id_reason = the (required_key_name (le_getenv env) cl) @ '' missing''\<rparr>, w)
      else case chat env cl (intent_messages prompt) w of
          (Inl e, w') \<Rightarrow>
            if is_Exception e
            then (Inr (intent_fallback prompt (lk_backend cl) e),
                  snd (discard_cache_entries_since env ''invalid_intent_response'' (cache_event_cursor w) w'))
            else (Inl e, w')
        | (Inr raw, w') \<Rightarrow>
            (case read_intent parse (lk_backend cl) raw of
               Inr d \<Rightarrow> (Inr d, w')
             | Inl e \<Rightarrow> (Inr (intent_fallback prompt (lk_backend cl) e),
                  snd (discard_cache_entries_since env ''invalid_intent_response'' (cache_event_cursor w) w'))))"
  using discard_since_returns [of env "''invalid_intent_response''" "cache_event_cursor w"]
  by (auto simp: infer_def key_missing_def Let_def get_with_def bind_def next_act_def ret_def lift_result_def catching_def
      read_intent_Exception split: prod.splits sum.splits) (metis Inr_not_Inl prod.inject)+

lemma infer_decides:
  assumes "uninterrupted env cl"
  shows "\<exists>d w'. infer env cl parse prompt w = (Inr d, w') \<and> decision_ok cl d \<and>
    (id_intent d = ''llm_key_missing'' \<longleftrightarrow> key_missing env cl) \<and>
    (id_intent d = ''llm_key_missing'' \<longrightarrow> (\<exists>k. id_reason d = k @ '' missing''))"
proof (cases "key_missing env cl")
  case True
  then show ?thesis by (simp add: infer_run decision_ok_def)
next
  case False
  obtain r w' where c: "chat env cl (intent_messages prompt) w = (r, w')" by fastforce
  show ?thesis
  proof (cases r)
    case (Inl e)
    with chat_Exception [OF assms] c show ?thesis by (auto simp: infer_run False intent_fallback_ok)
  next
    case (Inr raw)
    then show ?thesis
      by (cases "read_intent parse (lk_backend cl) raw")
        (use c in \<open>auto simp: infer_run False intent_fallback_ok dest: read_intent_ok\<close>)
  qed
qed

text \<open>Where a decision without a confidence comes from.\<close>

lemma read_intent_nan:
  "read_intent parse backend raw = Inr d \<Longrightarrow> id_confidence d = PNaN \<Longrightarrow>
   \<exists>payload. parse_intent_object parse raw = Inr payload \<and> is_nan (dget payload ''confidence'')"
  by (auto simp: read_intent_def normalize_confidence_def split: sum.splits if_splits option.splits)

lemma heuristic_confidence: "id_confidence (intent_fallback prompt b e) \<noteq> PNaN"
  by (auto simp: intent_fallback_def heuristic_intent_def Let_def)

lemma infer_nan:
  assumes "infer env cl parse prompt w = (Inr d, w')" "id_confidence d = PNaN"
  shows "\<exists>raw w1 payload. chat env cl (intent_messages prompt) w = (Inr raw, w1) \<and>
    parse_intent_object parse raw = Inr payload \<and> is_nan (dget payload ''confidence'')"
  using assms read_intent_nan heuristic_confidence
  by (auto simp: infer_run split: if_splits prod.splits sum.splits)

text \<open>C11. Whatever the model answers and however it fails, short of a \<open>BaseException\<close>, the intent agent decides: the
  intent is one of the four supported ones, or says that the key is missing, exactly when it is; the backend is the
  client's and a reason is given. The confidence is a number between 0 and 1, with one exception: when the object
  that the model answered gives NaN as its confidence, the check of the range lets it pass, and the decision has
  NaN for its confidence.\<close>

theorem intent_always_decided:
  assumes "uninterrupted env cl"
  shows "\<exists>d w'. infer env cl parse prompt w = (Inr d, w') \<and>
    id_backend d = lk_backend cl \<and> id_reason d \<noteq> [] \<and>
    (id_intent d \<in> set supported_intents \<or> id_intent d = ''llm_key_missing'') \<and>
    (id_intent d = ''llm_key_missing'' \<longleftrightarrow> key_missing env cl) \<and>
    (case id_confidence d of
       PFloat q \<Rightarrow> 0 \<le> q \<and> q \<le> 1
     | PNaN \<Rightarrow> \<exists>raw w1 payload. chat env cl (intent_messages prompt) w = (Inr raw, w1) \<and>
         parse_intent_object parse raw = Inr payload \<and> is_nan (dget payload ''confidence'')
     | _ \<Rightarrow> False) \<and>
    normalize_confidence PNaN = Inr PNaN \<and> normalize_confidence (PStr '' NaN'') = Inr PNaN"
proof -
  obtain d w' where d: "infer env cl parse prompt w = (Inr d, w')" "decision_ok cl d"
    "id_intent d = ''llm_key_missing'' \<longleftrightarrow> key_missing env cl"
    using infer_decides [OF assms] by blast
  have "normalize_confidence PNaN = Inr PNaN" "normalize_confidence (PStr '' NaN'') = Inr PNaN"
    by code_simp+
  with d infer_nan [OF d(1)] show ?thesis by (cases "id_confidence d") (auto simp: decision_ok_def)
qed

text \<open>C12. An answer of the model that the intent agent cannot use is not kept: the agent decides by the words of
  the prompt, and when the same prompt comes again, the model is asked again instead of the cache.\<close>

theorem rejected_intent_is_asked_again:
  assumes "chat env cl (intent_messages prompt) w = (Inr t, w1)" "read_intent parse (lk_backend cl) t = Inl e"
    and "cs_enabled (lk_cache_settings cl)" "0 \<le> lw_sequence w"
  shows "\<exists>w2. infer env cl parse prompt w = (Inr (intent_fallback prompt (lk_backend cl) e), w2) \<and>
    fst (chat env cl (intent_messages prompt) w2) =
      client_result (model_answer env cl (lw_calls w2) (intent_messages prompt)) \<and>
    lw_calls (snd (chat env cl (intent_messages prompt) w2)) = lw_calls w2 + 1"
proof -
  note usable = chat_last_key(1) [OF assms(1)]
  then have "\<not> key_missing env cl" by (auto simp: key_missing_def check_usable_def Let_def split: if_splits)
  moreover obtain r w2 where "discard_cache_entries_since env ''invalid_intent_response'' (cache_event_cursor w) w1 = (Inr r, w2)"
    "build_cache_key env cl (intent_messages prompt) \<notin> held_keys w2"
    using discard_since_gone [OF assms(1,3,4)] by blast
  ultimately show ?thesis
    using chat_when_gone [OF usable] assms(1,2) by (simp add: infer_run held_keys_def)
qed

section \<open>Asking through the breaker\<close>

text \<open>Client and breaker are separate parts of the outside.\<close>

definition seat_ok :: "'s llm_seat \<Rightarrow> bool" where
  "seat_ok seat \<longleftrightarrow>
     (\<forall>x s. st_llm seat (st_set_llm seat x s) = x \<and> st_breaker seat (st_set_llm seat x s) = st_breaker seat s) \<and>
     (\<forall>b s. st_breaker seat (st_set_breaker seat b s) = b \<and> st_llm seat (st_set_breaker seat b s) = st_llm seat s)"

definition model_calls :: "'s llm_seat \<Rightarrow> 's agent_world \<Rightarrow> nat" where
  "model_calls seat w = lw_calls (st_llm seat (aw_ext w))"

lemma before_call_Exception: "before_call now b = Inl e \<Longrightarrow> is_Exception e"
  by (auto simp: before_call_def open_error_def split: if_splits)

lemma guarded_call_cases:
  obtains e where "before_call (ae_monotonic env (aw_ext w)) (st_breaker seat (aw_ext w)) = Inl e"
      "guarded_call env seat m w = (Inl e, w)"
  | b r w1 f where "before_call (ae_monotonic env (aw_ext w)) (st_breaker seat (aw_ext w)) = Inr b"
      "m (put_breaker seat (\<lambda>_. b) w) = (r, w1)" "guarded_call env seat m w = (r, put_breaker seat f w1)"
  | b e w1 where "m (put_breaker seat (\<lambda>_. b) w) = (Inl e, w1)" "\<not> is_Exception e" "guarded_call env seat m w = (Inl e, w1)"
proof (cases "before_call (ae_monotonic env (aw_ext w)) (st_breaker seat (aw_ext w))")
  case (Inl e)
  then show thesis by (intro that(1)) (simp_all add: guarded_call_def)
next
  case (Inr b)
  obtain r w1 where m: "m (put_breaker seat (\<lambda>_. b) w) = (r, w1)" by fastforce
  show thesis
    by (cases r; cases "\<exists>e. r = Inl e \<and> \<not> is_Exception e")
      (use Inr m in \<open>auto intro: that(2,3) simp: guarded_call_def\<close>)
qed

lemma seat_chat_Exception:
  assumes "uninterrupted (st_env seat) (st_client seat)" "seat_chat env seat messages w = (Inl e, w')"
  shows "is_Exception e"
proof -
  have *: "is_Exception e" if "on_llm seat (chat (st_env seat) (st_client seat) messages) v = (Inl e, v')" for v v' e
    using that chat_Exception [OF assms(1)] by (auto simp: on_llm_def split: prod.splits)
  show ?thesis
    by (rule guarded_call_cases [of env w seat "on_llm seat (chat (st_env seat) (st_client seat) messages)"])
      (use assms(2) * before_call_Exception in \<open>auto simp: seat_chat_def\<close>)
qed

lemma seat_discard_run:
  assumes "seat_ok seat"
  shows "\<exists>r s. seat_discard seat reason c w = (Inr r, w\<lparr>aw_ext := s\<rparr>) \<and>
     lw_calls (st_llm seat s) = lw_calls (st_llm seat (aw_ext w)) \<and> st_breaker seat s = st_breaker seat (aw_ext w)"
proof -
  obtain r x where "discard_cache_entries_since (st_env seat) reason c (st_llm seat (aw_ext w)) = (Inr r, x)"
    using discard_since_returns by blast
  moreover from this have "lw_calls x = lw_calls (st_llm seat (aw_ext w))"
    using discard_events_calls unfolding discard_cache_entries_since_def by blast
  ultimately show ?thesis using assms by (auto simp: seat_discard_def on_llm_def seat_ok_def)
qed

section \<open>Plans\<close>

definition plan_ok :: "plan_result \<Rightarrow> bool" where
  "plan_ok pl \<longleftrightarrow> pl_name pl \<noteq> [] \<and> pl_steps pl \<noteq> [] \<and> [] \<notin> set (pl_steps pl)"

lemma fallback_plan_ok: "plan_ok (fallback_plan intent)"
  by (simp add: plan_ok_def fallback_plan_def)

lemma text_list_nonblank: "[] \<notin> set (text_list v)"
  by (auto simp: text_list_def text_items_def split: pyval.split)

lemma read_plan_ok: "read_plan parse intent raw = Inr pl \<Longrightarrow> plan_ok pl"
  using fallback_plan_ok [of intent] text_list_nonblank
  by (auto simp: read_plan_def normalize_plan_name_def normalize_steps_def plan_ok_def Let_def split: sum.splits if_splits)

lemma read_plan_Exception: "read_plan parse intent raw = Inl e \<Longrightarrow> is_Exception e"
  by (auto simp: read_plan_def parse_plan_object_def Let_def dest: read_object_Exception split: sum.splits if_splits)

definition plan_fallback :: "string \<Rightarrow> py_exn \<Rightarrow> plan_result" where
  "plan_fallback intent e = (fallback_plan intent)\<lparr>pl_reason := ''llm_fallback:'' @ exn_text e\<rparr>"

lemma plan_fallback_ok: "plan_ok (plan_fallback intent e)"
  using fallback_plan_ok [of intent] by (simp add: plan_fallback_def plan_ok_def)

text \<open>How \<open>build_plan\<close> ends; the fallback changes nothing but the cache and the observation.\<close>

lemma build_plan_run:
  assumes "uninterrupted (st_env seat) (st_client seat)" "id_intent d \<noteq> ''llm_key_missing''"
    and "seat_chat env seat (planner_messages prompt (id_intent d)) w = (r, w1)"
  defines "outcome \<equiv> (case r of Inl e \<Rightarrow> Inl e | Inr raw \<Rightarrow> read_plan (st_parse seat) (id_intent d) raw)"
  shows "\<exists>w2. build_plan_with_observability env seat observed prompt d w =
      (Inr (case outcome of Inr pl \<Rightarrow> pl | Inl e \<Rightarrow> plan_fallback (id_intent d) e), w2) \<and>
    (seat_ok seat \<longrightarrow> model_calls seat w2 = model_calls seat w1)"
proof -
  let ?cursor = "cache_event_cursor (st_llm seat (aw_ext w))"
  let ?note = "when_do observed (seat_metrics seat ''PlannerAgent'' (id_backend d) ?cursor)"
  obtain x s where x: "seat_discard seat ''invalid_planner_response'' ?cursor w1 = (Inr x, w1\<lparr>aw_ext := s\<rparr>)"
    "seat_ok seat \<longrightarrow> lw_calls (st_llm seat s) = lw_calls (st_llm seat (aw_ext w1))"
    using discard_since_returns [of "st_env seat" "''invalid_planner_response''" ?cursor "st_llm seat (aw_ext w1)"]
      seat_discard_run [of seat "''invalid_planner_response''" ?cursor w1]
    by (cases "seat_ok seat") (auto simp: seat_discard_def on_llm_def)
  have noted: "\<exists>ob. ?note v = (Inr (), v\<lparr>aw_obs := ob\<rparr>)" for v
    by (cases observed) (auto simp: when_do_def ret_def seat_metrics_def modify_def intro: exI [of _ "aw_obs v"])
  obtain ob1 where n1: "?note w1 = (Inr (), w1\<lparr>aw_obs := ob1\<rparr>)" using noted by blast
  obtain ob2 where n2: "?note (w1\<lparr>aw_ext := s\<rparr>) = (Inr (), w1\<lparr>aw_ext := s, aw_obs := ob2\<rparr>)" using noted by blast
  have exn: "r = Inl e \<Longrightarrow> is_Exception e" "r = Inr raw \<Longrightarrow> read_plan (st_parse seat) (id_intent d) raw = Inl e \<Longrightarrow> is_Exception e"
    for e raw using assms(3) seat_chat_Exception [OF assms(1)] read_plan_Exception by blast+
  show ?thesis
    using assms(2,3) x n1 n2 exn
    by (cases r; cases "read_plan (st_parse seat) (id_intent d) (projr r)")
      (auto simp: build_plan_with_observability_def seat_cursor_def get_with_def bind_def next_act_def catching_def Let_def
        lift_result_def ret_def outcome_def plan_fallback_def model_calls_def)
qed

text \<open>C14. Whatever the model answers and however it fails, there is a plan, with a name, at least one step and no blank
  one. While the breaker is open, the model is not called, and the plan is the built-in one for the intent.\<close>

theorem plan_always_made:
  assumes "uninterrupted (st_env seat) (st_client seat)" "seat_ok seat"
  shows "\<exists>pl w'. build_plan_with_observability env seat observed prompt d w = (Inr pl, w') \<and> plan_ok pl \<and>
    (\<forall>e. id_intent d \<noteq> ''llm_key_missing'' \<and>
       before_call (ae_monotonic env (aw_ext w)) (st_breaker seat (aw_ext w)) = Inl e \<longrightarrow>
       pl = plan_fallback (id_intent d) e \<and> model_calls seat w' = model_calls seat w)"
proof (cases "id_intent d = ''llm_key_missing''")
  case True
  then show ?thesis by (simp add: build_plan_with_observability_def ret_def plan_ok_def)
next
  case False
  obtain r w1 where c: "seat_chat env seat (planner_messages prompt (id_intent d)) w = (r, w1)" by fastforce
  define outcome where "outcome = (case r of Inl e \<Rightarrow> Inl e | Inr raw \<Rightarrow> read_plan (st_parse seat) (id_intent d) raw)"
  obtain w2 where b: "build_plan_with_observability env seat observed prompt d w =
      (Inr (case outcome of Inr pl \<Rightarrow> pl | Inl e \<Rightarrow> plan_fallback (id_intent d) e), w2)"
    "model_calls seat w2 = model_calls seat w1"
    using build_plan_run [OF assms(1) False c, of observed] assms(2) by (auto simp: outcome_def)
  have "plan_ok (case outcome of Inr pl \<Rightarrow> pl | Inl e \<Rightarrow> plan_fallback (id_intent d) e)"
    by (auto simp: outcome_def plan_fallback_ok dest: read_plan_ok split: sum.splits)
  moreover have "r = Inl e \<and> w1 = w"
    if "before_call (ae_monotonic env (aw_ext w)) (st_breaker seat (aw_ext w)) = Inl e" for e
    using c that by (simp add: seat_chat_def guarded_call_def)
  ultimately show ?thesis using b by (auto simp: outcome_def)
qed

section \<open>Reviews\<close>

text \<open>Between publications, with \<open>evs\<close> received by the client so far.\<close>

definition at_report :: "string \<Rightarrow> ('s \<Rightarrow> pydict list) \<Rightarrow> pydict list \<Rightarrow> 's agent_world \<Rightarrow> bool" where
  "at_report tid rcv evs w \<longleftrightarrow> outbox_ok w \<and> task_id_of w = tid \<and> pending_outbox tid w = [] \<and> rcv (aw_ext w) = evs"

lemma reported_obs [simp]: "at_report tid rcv evs (w\<lparr>aw_obs := ob\<rparr>) = at_report tid rcv evs w"
  by (simp add: at_report_def outbox_ok_def pending_outbox_def)

lemma reported_ext: "rcv s = rcv (aw_ext w) \<Longrightarrow> at_report tid rcv evs (w\<lparr>aw_ext := s\<rparr>) = at_report tid rcv evs w"
  by (simp add: at_report_def outbox_ok_def pending_outbox_def)

definition carries :: "pydict \<Rightarrow> pydict \<Rightarrow> bool" where
  "carries ev d \<longleftrightarrow> (\<exists>ob. dget ev ''payload'' = PDict (enrich_payload ob d))"

lemma emit_reported:
  assumes "takes_all (we_agent env) rcv" "tid \<noteq> []"
  shows "triple (at_report tid rcv evs) (emit env d) (\<lambda>_ w. \<exists>ev. at_report tid rcv (evs @ [ev]) w \<and> carries ev d) (\<lambda>_ _. False)"
proof -
  have "\<exists>w' ev. emit env d w = (Inr (), w') \<and> at_report tid rcv (evs @ [ev]) w' \<and> carries ev d" if "at_report tid rcv evs w" for w
  proof (rule publish_any_logs [OF assms(1), of w tid "PDict d" d "PStr ''ASSISTANT_OUTPUT''"])
    fix w' ob ev
    assume "publish_any (we_agent env) (PStr ''ASSISTANT_OUTPUT'') (PDict d) w = (Inr (), w')"
      "rcv (aw_ext w') = rcv (aw_ext w) @ [ev]" "dget ev ''payload'' = PDict (enrich_payload ob d)"
      "task_id_of w' = tid" "pending_outbox tid w' = []" "outbox_ok w'"
    then show ?thesis
      using that by (intro exI [of _ w'] exI [of _ ev]) (auto simp: emit_def publish_def at_report_def carries_def)
  qed (use that assms(2) in \<open>auto simp: at_report_def payload_dict_def\<close>)
  then show ?thesis by (fastforce simp: triple_def)
qed

text \<open>The client of the control plane does not see what the seat changes.\<close>

definition seat_unseen :: "'s llm_seat \<Rightarrow> ('s \<Rightarrow> pydict list) \<Rightarrow> bool" where
  "seat_unseen seat rcv \<longleftrightarrow> (\<forall>x s. rcv (st_set_llm seat x s) = rcv s) \<and> (\<forall>b s. rcv (st_set_breaker seat b s) = rcv s)"

text \<open>What survives the changes of the seat survives every use of it.\<close>

definition seat_stable :: "'s llm_seat \<Rightarrow> ('s agent_world \<Rightarrow> bool) \<Rightarrow> bool" where
  "seat_stable seat I \<longleftrightarrow>
     (\<forall>x w. I w \<longrightarrow> I (w\<lparr>aw_ext := st_set_llm seat x (aw_ext w)\<rparr>)) \<and>
     (\<forall>b w. I w \<longrightarrow> I (w\<lparr>aw_ext := st_set_breaker seat b (aw_ext w)\<rparr>)) \<and>
     (\<forall>f w. I w \<longrightarrow> I (w\<lparr>aw_obs := map_option f (aw_obs w)\<rparr>))"

lemma reported_stable: "seat_unseen seat rcv \<Longrightarrow> seat_stable seat (at_report tid rcv evs)"
  by (simp add: seat_stable_def seat_unseen_def reported_ext)

lemma on_llm_keeps: "seat_stable seat I \<Longrightarrow> I w \<Longrightarrow> I (snd (on_llm seat m w))"
  by (simp add: on_llm_def seat_stable_def split: prod.split)

lemma put_breaker_keeps: "seat_stable seat I \<Longrightarrow> I w \<Longrightarrow> I (put_breaker seat f w)"
  by (simp add: put_breaker_def seat_stable_def)

lemma guarded_call_keeps:
  assumes "seat_stable seat I" "\<And>v. I v \<Longrightarrow> I (snd (m v))" "I w"
  shows "I (snd (guarded_call env seat m w))"
proof (rule guarded_call_cases [of env w seat m])
  fix b r w1 f
  assume m: "m (put_breaker seat (\<lambda>_. b) w) = (r, w1)" and c: "guarded_call env seat m w = (r, put_breaker seat f w1)"
  have "I w1" using assms(2) [OF put_breaker_keeps [OF assms(1,3)]] m by (metis snd_conv)
  with c put_breaker_keeps [OF assms(1)] show ?thesis by simp
next
  fix b e w1
  assume m: "m (put_breaker seat (\<lambda>_. b) w) = (Inl e, w1)" and c: "guarded_call env seat m w = (Inl e, w1)"
  with assms(2) [OF put_breaker_keeps [OF assms(1,3)]] show ?thesis by (metis snd_conv)
qed (use assms(3) in simp)

lemma seat_chat_keeps:
  assumes "uninterrupted (st_env seat) (st_client seat)" "seat_stable seat I"
  shows "triple I (seat_chat env seat messages) (\<lambda>_. I) (\<lambda>e w. is_Exception e \<and> I w)"
proof -
  have "I (snd (seat_chat env seat messages w))" if "I w" for w
    unfolding seat_chat_def by (rule guarded_call_keeps [OF assms(2) _ that]) (rule on_llm_keeps [OF assms(2)])
  then show ?thesis
    using seat_chat_Exception [OF assms(1)] by (intro tripleI) (metis snd_conv)+
qed

lemma seat_discard_keeps:
  assumes "seat_stable seat I"
  shows "triple I (seat_discard seat reason c) (\<lambda>_. I) (\<lambda>_ _. False)"
proof (rule tripleI)
  fix w e w' assume "seat_discard seat reason c w = (Inl e, w')"
  then show False
    using discard_since_returns [of "st_env seat" reason c "st_llm seat (aw_ext w)"] by (auto simp: seat_discard_def on_llm_def)
next
  fix w a w' assume "I w" "seat_discard seat reason c w = (Inr a, w')"
  then show "I w'" using on_llm_keeps [OF assms] unfolding seat_discard_def by (metis snd_conv)
qed

lemma seat_metrics_keeps: "seat_stable seat I \<Longrightarrow> triple I (seat_metrics seat stage backend c) (\<lambda>_. I) (\<lambda>_ _. False)"
  by (simp add: seat_metrics_def triple_modify seat_stable_def)

lemma read_review_Exception: "read_review parse raw = Inl e \<Longrightarrow> is_Exception e"
  by (auto simp: read_review_def parse_review_object_def Let_def dest: read_object_Exception split: sum.splits)

text \<open>A review is approved unless the risk is high.\<close>

definition review_ok :: "reviewer_result \<Rightarrow> bool" where
  "review_ok r \<longleftrightarrow> rv_risk_level r \<in> {''high'', ''medium'', ''low''} \<and>
     (rv_approved r \<longleftrightarrow> rv_risk_level r \<noteq> ''high'') \<and> rv_summary r \<noteq> []"

lemma review_oks: "review_ok default_review" "review_ok (marker_review f ws)"
  "read_review parse raw = Inr r \<Longrightarrow> review_ok r"
  by (auto simp: review_ok_def default_review_def marker_review_def read_review_def normalize_risk_level_def Let_def
      text_or_nonempty split: sum.splits)

definition told :: "string \<Rightarrow> ('s \<Rightarrow> pydict list) \<Rightarrow> pydict list \<Rightarrow> plan_result \<Rightarrow> reviewer_result \<Rightarrow> 's agent_world \<Rightarrow> bool" where
  "told tid rcv evs plan r w \<longleftrightarrow>
     review_ok r \<and> (\<exists>ev. at_report tid rcv (evs @ [ev]) w \<and> carries ev (review_payload plan r))"

lemma tell_review_told:
  assumes "takes_all (we_agent (rw_work env)) rcv" "tid \<noteq> []" "review_ok r"
  shows "triple (at_report tid rcv evs) (tell_review env plan r) (told tid rcv evs plan) (\<lambda>_ _. False)"
  unfolding tell_review_def
  by (rule triple_next [OF emit_reported [OF assms(1,2)]]) (auto intro!: triple_ret simp: told_def assms(3))

lemma tell_good_review:
  assumes "takes_all (we_agent (rw_work env)) rcv" "tid \<noteq> []"
  shows "triple (\<lambda>w. review_ok r \<and> at_report tid rcv evs w) (tell_review env plan r) (told tid rcv evs plan) F"
  using triple_conseq [OF tell_review_told [OF assms], of r "\<lambda>w. review_ok r \<and> at_report tid rcv evs w" evs]
  by (cases "review_ok r") (auto simp: triple_def)

lemma ensure_own_reported:
  assumes "takes_all env rcv"
  shows "triple (at_report tid rcv evs) (ensure_own env) (\<lambda>_. at_report tid rcv evs) (\<lambda>_ _. False)"
proof -
  have "\<exists>ob w'. ensure_own env w = (Inr ob, w') \<and> at_report tid rcv evs w'" if w: "at_report tid rcv evs w" for w
  proof -
    obtain ob d s' where e: "ensure_own env w = (Inr ob, w\<lparr>aw_obs := Some ob, aw_task := d, aw_ext := s'\<rparr>)"
      "same_fields (aw_task w) d" "(uuid_step env)\<^sup>*\<^sup>* (aw_ext w) s'"
      using ensure_own_spec [of env w] by blast
    define w1 where "w1 = w\<lparr>aw_obs := Some ob, aw_task := d, aw_ext := s'\<rparr>"
    have c: "agent_core w1 = agent_core w" using e(2) by (simp add: w1_def agent_core_observed)
    have "rcv (aw_ext w1) = rcv (aw_ext w)" using uuid_steps_log [OF assms e(3)] by (simp add: w1_def)
    then have "at_report tid rcv evs w1"
      using w by (simp add: at_report_def outbox_ok_core [OF c] pending_core [OF c] task_id_core [OF c])
    with e(1) show ?thesis by (simp add: w1_def)
  qed
  then show ?thesis by (fastforce simp: triple_def)
qed

lemma review_with_llm_ok:
  assumes "uninterrupted (st_env (rw_seat env)) (st_client (rw_seat env))" "seat_stable (rw_seat env) I"
  shows "triple I (review_with_llm env diff_text) (\<lambda>r w. review_ok r \<and> I w) (\<lambda>e w. is_Exception e \<and> I w)"
  unfolding review_with_llm_def
  by (rule triple_bind [OF seat_chat_keeps [OF assms]], rule triple_lift)
    (auto dest: review_oks(3) read_review_Exception)

lemma llm_review_told:
  assumes "takes_all (we_agent (rw_work env)) rcv" "tid \<noteq> []"
    and "uninterrupted (st_env (rw_seat env)) (st_client (rw_seat env))" "seat_unseen (rw_seat env) rcv"
  shows "triple (at_report tid rcv evs) (llm_review env plan diff_text)
    (\<lambda>r w. case r of Some x \<Rightarrow> told tid rcv evs plan x w | None \<Rightarrow> at_report tid rcv evs w) (\<lambda>_ _. False)"
proof -
  note stable = reported_stable [OF assms(4), of tid evs]
  note tell = tell_good_review [OF assms(1,2)]
  have noted: "triple (\<lambda>w. p \<and> at_report tid rcv evs w) (seat_metrics (rw_seat env) stage backend c) (\<lambda>_ w. p \<and> at_report tid rcv evs w) F"
    for p stage backend c F
    by (rule triple_conseq [OF seat_metrics_keeps [of _ "\<lambda>w. p \<and> at_report tid rcv evs w"]])
      (use stable in \<open>auto simp: seat_stable_def\<close>)
  have passed_over: "triple (at_report tid rcv evs) (next_act (seat_discard (rw_seat env) reason c)
      (next_act (seat_metrics (rw_seat env) stage backend c) (ret None))) (\<lambda>r w. r = None \<and> at_report tid rcv evs w) (\<lambda>_ _. False)"
    for reason c stage backend
    by (rule triple_next [OF seat_discard_keeps [OF stable]], rule triple_next [OF seat_metrics_keeps [OF stable]])
      (simp add: triple_ret)
  show ?thesis
    unfolding llm_review_def seat_cursor_def Let_def
    apply (rule triple_next [OF ensure_own_reported [OF assms(1)]])
    apply (rule triple_bind [OF triple_get [where Q = "\<lambda>_. at_report tid rcv evs"]], assumption)
    apply (rule triple_catching [where F = "\<lambda>e w. is_Exception e \<and> at_report tid rcv evs w"])
      apply (rule triple_bind [OF review_with_llm_ok [OF assms(3) stable]])
      apply (rule triple_next [OF noted])
      apply (rule triple_bind [OF tell])
      apply (rule triple_ret, simp)
     apply (rule triple_conseq [OF passed_over])
       apply simp_all
    done
qed

text \<open>What the reviewer returns is a proper review, whatever the client and the model do.\<close>

lemma triple_any: "triple (\<lambda>_. True) m (\<lambda>_ _. True) (\<lambda>_ _. True)"
  by (auto simp: triple_def split: prod.splits sum.splits)

lemma review_returns_ok:
  "triple (\<lambda>_. True) (review env plan) (\<lambda>r _. review_ok r) (\<lambda>_ _. True)"
proof -
  have tell: "triple (\<lambda>w. review_ok r) (tell_review env plan r) (\<lambda>x _. review_ok x) (\<lambda>_ _. True)" for r
    unfolding tell_review_def by (auto simp: triple_def next_act_def bind_def ret_def split: prod.splits sum.splits)
  have marker: "triple (\<lambda>_. True) (bind (get_with (\<lambda>w. marker_review (rw_files env (aw_ext w)) ws)) (tell_review env plan))
      (\<lambda>x _. review_ok x) (\<lambda>_ _. True)" for ws
    by (rule triple_bind [OF triple_get tell]) (simp add: review_oks)
  have made: "triple (\<lambda>_. True) (review_with_llm env diff_text) (\<lambda>r _. review_ok r) (\<lambda>_ _. True)" for diff_text
    unfolding review_with_llm_def
    by (rule triple_bind [OF triple_any], rule triple_lift) (auto dest: review_oks(3))
  have llm: "triple (\<lambda>_. True) (llm_review env plan diff_text) (\<lambda>r _. case r of Some x \<Rightarrow> review_ok x | None \<Rightarrow> True) (\<lambda>_ _. True)"
    for diff_text
    unfolding llm_review_def Let_def
    apply (rule triple_next [OF triple_any], rule triple_bind [OF triple_any])
    apply (rule triple_catching [where F = "\<lambda>_ _. True"])
      apply (rule triple_bind [OF made])
      apply (rule triple_next [where R = "\<lambda>_ _. review_ok a" for a])
       apply (auto simp: triple_def split: prod.splits sum.splits)[1]
      apply (rule triple_bind [OF tell], rule triple_ret, simp)
     apply (rule triple_next [OF triple_any], rule triple_next [OF triple_any], simp add: triple_ret)
    apply simp
    done
  show ?thesis
    unfolding review_def Let_def
    apply (rule triple_bind [OF triple_any])
    apply (rule triple_if)
     apply (rule triple_conseq [OF tell [of default_review]])
       apply (simp_all add: review_oks)[3]
    apply (rule triple_if [OF _ marker])
    apply (rule triple_bind [OF llm])
    subgoal for task r by (cases r) (auto intro: marker triple_ret)
    done
qed

lemma review_reported_once:
  assumes "takes_all (we_agent (rw_work env)) rcv" "tid \<noteq> []"
    and "uninterrupted (st_env (rw_seat env)) (st_client (rw_seat env))" "seat_unseen (rw_seat env) rcv"
    and "outbox_ok w" "task_id_of w = tid" "pending_outbox tid w = []"
  shows "\<exists>r w' ev. review env plan w = (Inr r, w') \<and> review_ok r \<and> rcv (aw_ext w') = rcv (aw_ext w) @ [ev] \<and>
    carries ev (review_payload plan r)"
proof -
  let ?P = "at_report tid rcv (rcv (aw_ext w))"
  have marker: "triple ?P (bind (get_with (\<lambda>w. marker_review (rw_files env (aw_ext w)) ws)) (tell_review env plan))
      (told tid rcv (rcv (aw_ext w)) plan) (\<lambda>_ _. False)" for ws
    by (rule triple_bind [OF triple_get tell_good_review [OF assms(1,2)]]) (simp add: review_oks)
  have "triple ?P (review env plan) (told tid rcv (rcv (aw_ext w)) plan) (\<lambda>_ _. False)"
    unfolding review_def Let_def
    apply (rule triple_bind [OF triple_get [where Q = "\<lambda>_. ?P"]], assumption)
    apply (rule triple_if)
     apply (rule tell_review_told [OF assms(1,2) review_oks(1)])
    apply (rule triple_if [OF _ marker])
    apply (rule triple_bind [OF llm_review_told [OF assms(1-4)]])
    subgoal for task r by (cases r) (auto intro: marker triple_ret)
    done
  note reviewed = this
  have w: "?P w" using assms(5-7) by (simp add: at_report_def)
  obtain r w' where r: "review env plan w = (r, w')" by fastforce
  show ?thesis
  proof (cases r)
    case (Inl e)
    with tripleD_Inl [OF reviewed w] r show ?thesis by simp
  next
    case (Inr x)
    with tripleD_Inr [OF reviewed w] r have "told tid rcv (rcv (aw_ext w)) plan x w'" by simp
    with r Inr show ?thesis by (auto simp: told_def at_report_def)
  qed
qed

text \<open>C17. Whatever the model, the client and the outbox do, a review that the reviewer returns has one of the three
  risk levels and is approved exactly unless the risk is high. When moreover the client takes every event, the task
  has an id, its outbox is empty and nothing but an \<open>Exception\<close> interrupts the model, the reviewer does return a
  review, and the client receives exactly one event for it, with that review. (A client that refuses the event of the
  model's review is sent a second, other one: the event is published inside the \<open>try\<close>.)\<close>

theorem review_made_and_reported:
  "(review env plan w = (Inr r, w') \<longrightarrow>
      rv_risk_level r \<in> {''high'', ''medium'', ''low''} \<and> (rv_approved r \<longleftrightarrow> rv_risk_level r \<noteq> ''high'')) \<and>
   (takes_all (we_agent (rw_work env)) rcv \<and> seat_unseen (rw_seat env) rcv \<and>
      uninterrupted (st_env (rw_seat env)) (st_client (rw_seat env)) \<and>
      task_id_of w \<noteq> [] \<and> outbox_ok w \<and> pending_outbox (task_id_of w) w = [] \<longrightarrow>
      (\<exists>r w' ev. review env plan w = (Inr r, w') \<and> rcv (aw_ext w') = rcv (aw_ext w) @ [ev] \<and>
         carries ev (review_payload plan r)))"
  using tripleD_Inr [OF review_returns_ok [of env plan], of w r w'] review_reported_once [of env rcv "task_id_of w" w plan]
  by (auto simp: review_ok_def)

section \<open>Examples\<close>

text \<open>Outside there are the events received, a counter for identifiers, the client's world and the breaker. The
  model's answer is no JSON.\<close>

type_synonym seat_ext = "(pydict list \<times> nat) \<times> llm_world \<times> breaker"

definition sample_seat :: "seat_ext llm_seat" where
  "sample_seat = \<lparr>st_client = sample_llm_client, st_env = sample_llm_env, st_parse = (\<lambda>t. Inl ''no JSON''),
     st_llm = (\<lambda>(e, x, b). x), st_set_llm = (\<lambda>x' (e, x, b). (e, x', b)),
     st_breaker = (\<lambda>(e, x, b). b), st_set_breaker = (\<lambda>b' (e, x, b). (e, x, b'))\<rparr>"

definition seated_agent_env :: "seat_ext agent_env" where
  "seated_agent_env = \<lparr>ae_uuid = (\<lambda>((l, n), x). (show_nat n, ((l, n + 1), x))), ae_timestamp = (\<lambda>s. ''now''),
     ae_monotonic = (\<lambda>s. 1), ae_client = PlainPublish (\<lambda>tid ev ((l, n), x). (Inr (), ((l @ [ev], n), x)))\<rparr>"

definition seated_work_env :: "seat_ext work_env" where
  "seated_work_env = \<lparr>we_agent = seated_agent_env, we_getenv = (\<lambda>k. None),
     we_exec = (\<lambda>task c p i s. (Inr ok_exec, s)), we_runtime = (\<lambda>s. new_runtime_manager (\<lambda>t. None) (Some 3) (Some 30) [] []),
     we_set_runtime = (\<lambda>m s. s), we_policy = empty_policy [], we_testers = [], we_reviewers = [], we_supports = (\<lambda>m. True),
     we_test_plugin = (\<lambda>m. ret PNone), we_review_plugin = (\<lambda>m. throw (RuntimeError ''none''))\<rparr>"

definition seated_review_env :: "seat_ext review_env" where
  "seated_review_env = \<lparr>rw_work = seated_work_env, rw_seat = sample_seat, rw_files = (\<lambda>s. []), rw_path = path_parts\<rparr>"

definition open_breaker :: breaker where
  "open_breaker = (new_breaker ''planner-llm'' 3 30)\<lparr>status := Open, failure_count := 3, opened_at := 0\<rparr>"

definition seated_world :: "pydict \<Rightarrow> breaker \<Rightarrow> seat_ext agent_world" where
  "seated_world task b =
     \<lparr>aw_task = task, aw_obs = None, aw_seq = Map.empty, aw_outbox = Map.empty, aw_ext = (([], 0), sample_llm_start, b)\<rparr>"

lemma sample_seat_facts:
  "uninterrupted sample_llm_env sample_llm_client" "seat_ok sample_seat" "seat_unseen sample_seat (\<lambda>s. fst (fst s))"
  "takes_all seated_agent_env (\<lambda>s. fst (fst s))"
  by (auto simp: uninterrupted_def raw_answer_def sample_llm_env_def seat_ok_def sample_seat_def seat_unseen_def
      takes_all_def client_call_def seated_agent_env_def)

lemma sample_answer:
  assumes "messages \<noteq> []"
  shows "fst (chat sample_llm_env sample_llm_client messages sample_llm_start) = Inr ''pong''"
proof -
  have "check_usable sample_llm_env sample_llm_client messages = None"
    using assms by (simp add: check_usable_def required_key_name_def placeholder_key_name_def sample_llm_env_def
        sample_llm_client_def env_text_def strip_def is_space_def Let_def)
  then show ?thesis
    using steady_chat [OF sample_steady right_for_new] by (simp add: steady_result_def client_result_def)
qed

lemma intent_always_decided_witness:
  "(\<exists>d w'. infer sample_llm_env sample_llm_client (\<lambda>t. Inl ''no JSON'') ''fix it'' sample_llm_start = (Inr d, w') \<and>
     id_intent d \<in> set supported_intents \<and> (\<exists>q. id_confidence d = PFloat q \<and> q \<le> 1)) \<and>
   (\<exists>d w'. infer sample_llm_env sample_llm_client
       (\<lambda>t. Inr (PDict [(''intent'', PStr ''test''), (''confidence'', PNaN)])) ''fix it'' sample_llm_start = (Inr d, w') \<and>
     id_reason d \<noteq> [])"
proof -
  have key: "\<not> key_missing sample_llm_env sample_llm_client"
    using sample_usable(1) by (auto simp: key_missing_def check_usable_def Let_def split: if_splits)
  have no: "parse_intent_object (\<lambda>t. Inl ''no JSON'') raw \<noteq> Inr payload" for raw payload
    by (auto simp: parse_intent_object_def read_object_def Let_def split: if_splits option.splits)
  have "\<exists>d w'. infer sample_llm_env sample_llm_client (\<lambda>t. Inl ''no JSON'') ''fix it'' sample_llm_start = (Inr d, w') \<and>
      id_intent d \<in> set supported_intents \<and> (\<exists>q. id_confidence d = PFloat q \<and> q \<le> 1)"
  proof -
    from intent_always_decided [OF sample_seat_facts(1), of "\<lambda>t. Inl ''no JSON''" "''fix it''" sample_llm_start]
    obtain d w' where d: "infer sample_llm_env sample_llm_client (\<lambda>t. Inl ''no JSON'') ''fix it'' sample_llm_start = (Inr d, w')"
      "id_intent d \<in> set supported_intents \<or> id_intent d = ''llm_key_missing''"
      "id_intent d = ''llm_key_missing'' \<longleftrightarrow> key_missing sample_llm_env sample_llm_client"
      "case id_confidence d of PFloat q \<Rightarrow> 0 \<le> q \<and> q \<le> 1
       | PNaN \<Rightarrow> \<exists>raw w1 payload. chat sample_llm_env sample_llm_client (intent_messages ''fix it'') sample_llm_start = (Inr raw, w1) \<and>
         parse_intent_object (\<lambda>t. Inl ''no JSON'') raw = Inr payload \<and> is_nan (dget payload ''confidence'') | _ \<Rightarrow> False"
      by (elim exE conjE)
    then have "\<exists>q. id_confidence d = PFloat q \<and> q \<le> 1" using no by (cases "id_confidence d") auto
    with d(1-3) key show ?thesis by blast
  qed
  then show ?thesis
    using intent_always_decided [OF sample_seat_facts(1),
        of "\<lambda>t. Inr (PDict [(''intent'', PStr ''test''), (''confidence'', PNaN)])" "''fix it''" sample_llm_start]
    by blast
qed

lemma rejected_intent_is_asked_again_witness:
  "\<exists>e w2. infer sample_llm_env sample_llm_client (\<lambda>t. Inl ''no JSON'') ''fix it'' sample_llm_start =
      (Inr (intent_fallback ''fix it'' ''openai'' e), w2) \<and>
    lw_calls (snd (chat sample_llm_env sample_llm_client (intent_messages ''fix it'') w2)) = lw_calls w2 + 1"
proof -
  have r: "read_intent (\<lambda>t. Inl ''no JSON'') (lk_backend sample_llm_client) ''pong'' =
      Inl (ValueError ''intent response is not valid JSON: pong'')"
    by code_simp
  have c: "chat sample_llm_env sample_llm_client (intent_messages ''fix it'') sample_llm_start =
      (Inr ''pong'', snd (chat sample_llm_env sample_llm_client (intent_messages ''fix it'') sample_llm_start))"
    using sample_answer [of "intent_messages ''fix it''"] by (simp add: prod_eq_iff intent_messages_def)
  show ?thesis
    using rejected_intent_is_asked_again [OF c r] by (auto simp: sample_llm_client_def sample_cache_settings_def new_llm_world_def)
qed

lemma plan_always_made_witness:
  "\<exists>pl w'. build_plan_with_observability seated_agent_env sample_seat True ''fix it''
      (heuristic_intent ''fix it'' ''openai'') (seated_world [] open_breaker) = (Inr pl, w') \<and>
    pl_reason pl = ''llm_fallback:circuit breaker open: planner-llm'' \<and> model_calls sample_seat w' = 0"
proof -
  have o: "before_call (ae_monotonic seated_agent_env (aw_ext (seated_world [] open_breaker)))
      (st_breaker sample_seat (aw_ext (seated_world [] open_breaker))) = Inl (open_error open_breaker)"
    by (simp add: seated_agent_env_def seated_world_def sample_seat_def before_call_def open_breaker_def new_breaker_def)
  have "id_intent (heuristic_intent ''fix it'' ''openai'') \<noteq> ''llm_key_missing''" using heuristic_intent_ok by blast
  moreover have "exn_text (open_error open_breaker) = ''circuit breaker open: planner-llm''" by code_simp
  moreover have "model_calls sample_seat (seated_world [] open_breaker) = 0"
    by (simp add: model_calls_def sample_seat_def seated_world_def new_llm_world_def)
  moreover have u: "uninterrupted (st_env sample_seat) (st_client sample_seat)"
    using sample_seat_facts(1) by (simp add: sample_seat_def)
  ultimately show ?thesis
    using plan_always_made [OF u sample_seat_facts(2), of seated_agent_env True "''fix it''"
        "heuristic_intent ''fix it'' ''openai''" "seated_world [] open_breaker"] o
    by (auto simp: plan_fallback_def)
qed

lemma review_made_and_reported_witness:
  "\<exists>r w' ev. review seated_review_env (fallback_plan ''test'')
      (seated_world [(''taskId'', PStr ''t1''), (''diff'', PStr ''+x'')] (new_breaker ''reviewer-llm'' 3 30)) = (Inr r, w') \<and>
    (rv_approved r \<longleftrightarrow> rv_risk_level r \<noteq> ''high'') \<and> fst (fst (aw_ext w')) = [ev] \<and>
    carries ev (review_payload (fallback_plan ''test'') r)"
proof -
  let ?w = "seated_world [(''taskId'', PStr ''t1''), (''diff'', PStr ''+x'')] (new_breaker ''reviewer-llm'' 3 30)"
  have "task_id_of ?w = ''t1''" by (simp add: seated_world_def field_text_def dget_or_def py_str_def strip_id is_space_def)
  moreover have "outbox_ok ?w" "pending_outbox ''t1'' ?w = []"
    by (simp_all add: seated_world_def outbox_ok_def pending_outbox_def)
  ultimately show ?thesis
    using review_made_and_reported [of seated_review_env "fallback_plan ''test''" ?w _ _ "\<lambda>s. fst (fst s)"] sample_seat_facts
    by (fastforce simp: seated_review_env_def seated_work_env_def sample_seat_def seated_world_def)
qed

end
