(* ===== verification/Artifacts.thy ===== *)
theory Artifacts
  imports Task_Payloads Workspace
begin

text \<open>
  The export of a workspace, \<open>utils/artifact_utils.py\<close>: which files go into the archive and what is known of it.
  The bytes of the archive and SHA-256 are parameters.
\<close>

text \<open>\<open>Path.resolve\<close> of an absolute path without links.\<close>

definition resolve_dots :: "fs_path \<Rightarrow> fs_path" where
  "resolve_dots p = fold (\<lambda>c q. if c = ''..'' then butlast q else q @ [c]) p []"

definition clean_relative :: "string \<Rightarrow> string" where
  "clean_relative rel = replace_char (char_of (92 :: nat)) CHR ''/'' (strip rel)"

fun export_sources :: "fs \<Rightarrow> fs_path \<Rightarrow> string list \<Rightarrow> (string \<times> string) list result" where
  "export_sources f base [] = Inr []"
| "export_sources f base (rel # rels) =
     (let cleaned = clean_relative rel in
      if cleaned = [] then export_sources f base rels
      else case fs_get f (resolve_dots (join_path base cleaned)) of
             Some (FText s) \<Rightarrow>
               (case export_sources f base rels of Inl e \<Rightarrow> Inl e | Inr xs \<Rightarrow> Inr ((cleaned, s) # xs))
           | _ \<Rightarrow> Inl (FileNotFoundError (''artifact source file not found: '' @ cleaned)))"

text \<open>The archive holds every file once, in the order of the names.\<close>

definition build_export_zip ::
  "((string \<times> string) list \<Rightarrow> string) \<Rightarrow> (string \<Rightarrow> string) \<Rightarrow> fs_path \<Rightarrow> string list \<Rightarrow> string \<Rightarrow> fs
    \<Rightarrow> artifact_bundle result \<times> fs" where
  "build_export_zip archive sha256 ws relative_files file_name f =
     (let base = resolve_dots ws; output_path = base @ [file_name] in
      if relative_files = [] then (Inl (ValueError ''relative_files must not be empty''), f)
      else case export_sources f base relative_files of
             Inl e \<Rightarrow> (Inl e, f)
           | Inr sources \<Rightarrow>
               if sources = [] then (Inl (ValueError ''no valid files to package''), f)
               else
                 let bytes = archive (map (\<lambda>r. (r, the (map_of sources r))) (sort (remdups (map fst sources)))); sha = sha256 bytes
                 in case fs_write f output_path bytes of
                      Inl e \<Rightarrow> (Inl e, f)
                    | Inr f' \<Rightarrow>
                        (Inr \<lparr>ab_artifact_id = ''art_zip_'' @ take 12 sha, ab_file_path = output_path, ab_file_name = file_name,
                              ab_sha256 = sha, ab_size_bytes = int (length bytes),
                              ab_mime_type = ''application/zip'', ab_artifact_type = ''zip''\<rparr>, f'))"

lemma export_sources_missing:
  assumes "rel \<in> set rels" "clean_relative rel \<noteq> []"
    and "\<forall>s. fs_get f (resolve_dots (join_path base (clean_relative rel))) \<noteq> Some (FText s)"
  shows "\<exists>m. export_sources f base rels = Inl (FileNotFoundError m)"
  using assms
  by (induction f base rels rule: export_sources.induct)
    (fastforce simp: Let_def split: option.splits fs_entry.splits sum.splits)+

end
