(* ===== verification/Coder_Agent.thy ===== *)
theory Coder_Agent
  imports Answer_Agents Agent_Frames Artifacts
begin

text \<open>
  The agent that changes files, \<open>agents/coder_agent.py\<close>, on the files of \<open>tools/file_tool.py\<close>: it generates a
  project, by a plugin or a built-in generator, when the task asks for one, and otherwise edits one file, with
  the language model or by a note.

  The files are a part of the outside, read and written through \<open>ca_files\<close> and \<open>ca_set_files\<close> (no links; a
  path exists when the path it resolves to does), and \<open>ca_path\<close> is \<open>Path(...).expanduser().resolve()\<close>. The
  generators, the plugins and the unified diff of \<open>difflib\<close> are parameters.
\<close>

section \<open>The file tool\<close>

definition read_allowed_prefixes :: "(string \<Rightarrow> string option) \<Rightarrow> string list" where
  "read_allowed_prefixes getenv =
     (case getenv ''MVP_ALLOWED_WORKSPACE_PREFIXES'' of None \<Rightarrow> []
      | Some raw \<Rightarrow> if strip raw = [] then [] else filter (\<lambda>s. s \<noteq> []) (map strip (split_char CHR '','' raw)))"

definition normalize_prefixes :: "(string \<Rightarrow> fs_path) \<Rightarrow> string list \<Rightarrow> fs_path list" where
  "normalize_prefixes path allowed = map path allowed"

definition check_write_allowed :: "fs_path list \<Rightarrow> fs_path \<Rightarrow> unit result" where
  "check_write_allowed allowed p =
     (if allowed = [] then Inl (PermissionError ''MVP_ALLOWED_WORKSPACE_PREFIXES is empty; write denied'')
      else if list_ex (\<lambda>q. prefix q p) allowed then Inr ()
      else Inl (PermissionError (''path is outside MVP_ALLOWED_WORKSPACE_PREFIXES: '' @ show_path p)))"

text \<open>\<open>write_text\<close>: the directories made on the way stay when it fails.\<close>

definition tool_write_file :: "fs_path list \<Rightarrow> fs_path \<Rightarrow> string \<Rightarrow> fs \<Rightarrow> unit result \<times> fs" where
  "tool_write_file allowed p content f =
     (case check_write_allowed allowed p of Inl e \<Rightarrow> (Inl e, f)
      | Inr _ \<Rightarrow>
        (case fs_mkdirs f [] (butlast p) of
           (Inl e, f1) \<Rightarrow> (Inl e, f1)
         | (Inr _, f1) \<Rightarrow> (case fs_write f1 p content of Inl e \<Rightarrow> (Inl e, f1) | Inr f2 \<Rightarrow> (Inr (), f2))))"

section \<open>The environment of the coder\<close>

record generated_project =
  gp_files :: "(string \<times> string) list"
  gp_used_fallback :: bool
  gp_reason :: string

record 's coder_env =
  ca_work :: "'s work_env"
  ca_seat :: "'s llm_seat"
  ca_files :: "'s \<Rightarrow> fs"
  ca_set_files :: "fs \<Rightarrow> 's \<Rightarrow> 's"
  ca_path :: "string \<Rightarrow> fs_path"
  ca_prefixes :: "fs_path list"
  ca_diff :: "string \<Rightarrow> string \<Rightarrow> string \<Rightarrow> string"
  ca_plugins :: "plugin_manifest list"
  ca_plugin_generate :: "plugin_manifest \<Rightarrow> ('s agent_world, generated_project) act"
  ca_generate :: "string \<Rightarrow> string \<Rightarrow> ('s agent_world, generated_project) act"

definition with_files :: "'s coder_env \<Rightarrow> (fs \<Rightarrow> 'a result \<times> fs) \<Rightarrow> ('s agent_world, 'a) act" where
  "with_files env m w =
     (let (r, f) = m (ca_files env (aw_ext w)) in (r, w\<lparr>aw_ext := ca_set_files env f (aw_ext w)\<rparr>))"

definition see_files :: "'s coder_env \<Rightarrow> (fs \<Rightarrow> 'a result) \<Rightarrow> ('s agent_world, 'a) act" where
  "see_files env f w = (f (ca_files env (aw_ext w)), w)"

section \<open>What is asked for\<close>

definition strip_both :: "char \<Rightarrow> string \<Rightarrow> string" where
  "strip_both c s = rstrip_char c (dropWhile (\<lambda>d. d = c) s)"

definition sanitize_workspace_value :: "pyval \<Rightarrow> string" where
  "sanitize_workspace_value raw =
     (if raw = PNone then []
      else let text = strip_both (char_of (39 :: nat)) (strip_both (char_of (34 :: nat)) (strip (py_str raw))) in
        if lower text \<in> {''none'', ''null'', ''undefined'', ''nil'', ''nan''} then [] else text)"

definition coder_workspace :: "(string \<Rightarrow> string option) \<Rightarrow> pydict \<Rightarrow> string" where
  "coder_workspace getenv task =
     (let ws = sanitize_workspace_value (dget task ''workspacePath'');
          allowed = env_text getenv ''MVP_ALLOWED_WORKSPACE_PREFIXES''
      in if ws \<noteq> [] then ws
         else case filter (\<lambda>s. s \<noteq> []) (map (\<lambda>s. sanitize_workspace_value (PStr s)) (split_char CHR '','' allowed)) of
                p # _ \<Rightarrow> p | [] \<Rightarrow> ''.'')"

definition should_generate_web :: "string \<Rightarrow> bool" where
  "should_generate_web prompt \<longleftrightarrow>
     any_word [''website'', ''web page'', ''webapp'', ''landing page'', ''dashboard'', ''calculator'', ''todo'', ''weather'',
       ''portfolio'', ''gallery'', ''form'', ''html'', ''css'', ''javascript'', uni [0x7F51, 0x9875], uni [0x9875, 0x9762],
       uni [0x4EEA, 0x8868, 0x76D8], uni [0x8BA1, 0x7B97, 0x5668], uni [0x5F85, 0x529E], uni [0x5929, 0x6C14],
       uni [0x5C55, 0x793A], uni [0x8868, 0x5355], uni [0x7BA1, 0x7406, 0x7CFB, 0x7EDF]] prompt \<or>
     (any_word [''generate'', ''build'', ''create'', ''make'', uni [0x751F, 0x6210], uni [0x642D, 0x5EFA],
        uni [0x505A, 0x4E00, 0x4E2A], uni [0x505A, 0x4E2A]] prompt \<and>
      any_word [''web'', uni [0x7F51, 0x7AD9], uni [0x5E94, 0x7528]] prompt)"

text \<open>The last three words are what became of three Chinese words when the file was saved in a wrong encoding.\<close>

definition generation_words :: "string list" where
  "generation_words = [''generate'', ''build'', ''create'', ''make'', ''scaffold'', ''bootstrap'', ''new project'',
     ''from scratch'', uni [0x9422, 0x71B8, 0x579A], uni [0x93BC, 0xE15E, 0x7F13], uni [0x93C2, 0x677F, 0x7F13]]"

definition looks_like_generation_request :: "string \<Rightarrow> bool" where
  "looks_like_generation_request prompt \<longleftrightarrow> any_word generation_words prompt"

definition resolve_generation_target :: "string \<Rightarrow> string \<Rightarrow> string \<Rightarrow> string option" where
  "resolve_generation_target target assistant prompt =
     (let t = lower (strip target); a = lower (strip assistant); text = lower (strip prompt) in
      if t \<in> {''web'', ''backend'', ''fullstack''} then Some t
      else if a \<in> {''web'', ''website''} then Some ''web''
      else if text = [] then None
      else if \<not> looks_like_generation_request text then (if should_generate_web text then Some ''web'' else None)
      else if any_word [''fullstack'', uni [0x5168, 0x6808], uni [0x524D, 0x540E, 0x7AEF]] text then Some ''fullstack''
      else if any_word [''backend'', ''api service'', ''flask app'', ''fastapi'', uni [0x540E, 0x7AEF],
                        uni [0x63A5, 0x53E3, 0x670D, 0x52A1]] text then Some ''backend''
      else if should_generate_web text then Some ''web'' else None)"

definition should_generate_project :: "string \<Rightarrow> string \<Rightarrow> string \<Rightarrow> bool" where
  "should_generate_project target assistant prompt \<longleftrightarrow> resolve_generation_target target assistant prompt \<noteq> None"

section \<open>Editing one file\<close>

definition target_exts :: "string list" where
  "target_exts = [''.md'', ''.txt'', ''.py'', ''.java'', ''.kt'', ''.js'', ''.ts'']"

definition choose_target_file :: "fs \<Rightarrow> fs_path \<Rightarrow> string \<Rightarrow> fs_path" where
  "choose_target_file f ws prompt =
     (let prompt_lower = lower prompt; readme = ws @ [''README.md''];
          found = search_files f ws ''todo'' search_exts 1;
          candidates = sort (filter (\<lambda>p. \<not> fs_is_dir f p \<and> lower (path_suffix (last p)) \<in> set target_exts) (fs_rglob f ws []))
      in if any_word [''readme'', ''docs'', uni [0x6587, 0x6863]] prompt_lower \<and> fs_exists f readme then readme
         else if found \<noteq> [] then hd found
         else if candidates \<noteq> [] then hd candidates
         else if contains ''readme'' prompt_lower then readme
         else ws @ [''AGENT_PATCH_PREVIEW.md''])"

definition fix_attempt_of :: "pydict \<Rightarrow> int result" where
  "fix_attempt_of task = py_int (py_or (dget task ''fixLoopAttempt'') (PInt 0))"

definition should_use_llm_for_edit :: "string \<Rightarrow> pydict \<Rightarrow> fs_path \<Rightarrow> bool result" where
  "should_use_llm_for_edit prompt task target_file =
     (case fix_attempt_of task of Inl e \<Rightarrow> Inl e
      | Inr n \<Rightarrow> Inr (0 < n \<or>
          lower (path_suffix (last target_file)) \<in> {''.py'', ''.java'', ''.kt'', ''.js'', ''.ts''} \<and>
          any_word [''flask'', ''fastapi'', ''spring'', ''endpoint'', ''route'', ''api'', ''controller'', ''service'', ''health'',
            uni [0x63A5, 0x53E3], ''/health''] (lower (strip prompt))))"

definition edit_messages :: "string \<Rightarrow> string \<Rightarrow> int \<Rightarrow> string \<Rightarrow> string \<Rightarrow> pydict list" where
  "edit_messages prompt relative attempt last_error old =
     [system_message (''You are a coding assistant editing exactly one file. '' @
        ''Return the full updated file content only. '' @
        ''Do not wrap the answer in markdown fences.''),
      user_message (join line_feed
        [''Task:'', strip prompt, [], ''Target file:'', relative, [], ''Fix loop attempt: '' @ show_int attempt,
         ''Last test error: '' @ (if last_error = [] then ''n/a'' else last_error), [], ''Current file content:'', old])]"

definition edit_with_llm :: "'s coder_env \<Rightarrow> string \<Rightarrow> string \<Rightarrow> fs_path \<Rightarrow> ('s agent_world, string) act" where
  "edit_with_llm env old prompt target_file =
     bind (get_with aw_task) (\<lambda>task.
       let ws = ca_path env (coder_workspace (we_getenv (ca_work env)) task) in
       bind (lift_result (fix_attempt_of task)) (\<lambda>attempt.
       next_act (ensure_own (we_agent (ca_work env)))
       (bind (seat_cursor (ca_seat env)) (\<lambda>cursor.
        bind (finally_do
               (on_llm (ca_seat env) (chat (st_env (ca_seat env)) (st_client (ca_seat env))
                 (edit_messages prompt (review_path ws target_file) attempt (field_text task ''lastTestError'') old)))
               (\<lambda>w. snd (seat_metrics (ca_seat env) ''CoderAgent'' (lk_backend (st_client (ca_seat env))) cursor w))) (\<lambda>raw.
        let text = strip raw in
        if text = [] then throw (ValueError ''empty coder llm response'')
        else ret (if suffix line_feed text then text else text @ line_feed))))))"

definition add_note :: "string \<Rightarrow> string \<Rightarrow> string" where
  "add_note old prompt =
     (let note = ''# coder-agent-note: '' @ (if strip prompt = [] then ''applied structured update'' else strip prompt) @ line_feed
      in if suffix line_feed old then old @ note else old @ line_feed @ note)"

definition propose_content :: "'s coder_env \<Rightarrow> string \<Rightarrow> string \<Rightarrow> fs_path \<Rightarrow> ('s agent_world, string) act" where
  "propose_content env old prompt target_file =
     bind (get_with aw_task) (\<lambda>task.
     bind (lift_result (should_use_llm_for_edit prompt task target_file)) (\<lambda>use_llm.
       if use_llm
       then try_except
              (guarded_call (we_agent (ca_work env)) (ca_seat env) (edit_with_llm env old prompt target_file))
              (\<lambda>e. ret (add_note old prompt))
       else ret (add_note old prompt)))"

section \<open>Ends of the coder\<close>

definition coder_say :: "'s coder_env \<Rightarrow> string \<Rightarrow> pydict \<Rightarrow> ('s agent_world, unit) act" where
  "coder_say env message rest =
     emit (ca_work env) ([(''stage'', PStr ''CoderAgent''), (''message'', PStr message)] @ rest)"

definition coder_fails :: "'s coder_env \<Rightarrow> string \<Rightarrow> py_exn \<Rightarrow> ('s agent_world, unit) act" where
  "coder_fails env reason e =
     publish (we_agent (ca_work env)) ''TASK_FAILED'' [(''reason'', PStr reason), (''detail'', PStr (exn_text e))]"

fun is_permission_error :: "py_exn \<Rightarrow> bool" where
  "is_permission_error (PermissionError _) = True"
| "is_permission_error _ = False"

text \<open>The two \<open>except\<close> clauses, with the message and the reason of the second one.\<close>

definition coder_stops :: "'s coder_env \<Rightarrow> string \<Rightarrow> string \<Rightarrow> pydict \<Rightarrow> py_exn \<Rightarrow> ('s agent_world, 'a option) act" where
  "coder_stops env message reason extra e =
     (if is_permission_error e
      then next_act (coder_say env ''Write blocked by workspace allowlist.'' [(''error'', PStr (exn_text e))])
             (next_act (coder_fails env ''path_not_allowed'' e) (ret None))
      else next_act (coder_say env message ([(''error'', PStr (exn_text e))] @ extra))
             (next_act (coder_fails env reason e) (ret None)))"

definition preview_patch :: "'s coder_env \<Rightarrow> string \<Rightarrow> string \<Rightarrow> string \<Rightarrow> bool \<Rightarrow> ('s agent_world, unit) act" where
  "preview_patch env old after relative existed =
     publish (we_agent (ca_work env)) ''FILE_PATCH_PREVIEW''
       [(''format'', PStr ''unified''), (''patch'', PStr (ca_diff env old after relative)),
        (''files'', PList [PDict [(''path'', PStr relative), (''changeType'', PStr (if existed then ''modify'' else ''add''))]])]"

definition read_before :: "'s coder_env \<Rightarrow> fs_path \<Rightarrow> ('s agent_world, bool \<times> string) act" where
  "read_before env p =
     see_files env (\<lambda>f. if fs_exists f p then (case fs_read f p of Inl e \<Rightarrow> Inl e | Inr s \<Rightarrow> Inr (True, s)) else Inr (False, []))"

definition write_text :: "'s coder_env \<Rightarrow> fs_path \<Rightarrow> string \<Rightarrow> ('s agent_world, unit) act" where
  "write_text env p content = with_files env (tool_write_file (ca_prefixes env) p content)"

section \<open>Generating a project\<close>

text \<open>A new project: its files are written one after the other, each change announced by its diff.\<close>

definition save_generated ::
  "'s coder_env \<Rightarrow> fs_path \<Rightarrow> string \<Rightarrow> string \<Rightarrow> ('s agent_world, bool) act" where
  "save_generated env ws relative content =
     (let p = resolve_dots (join_path ws relative) in
      bind (read_before env p) (\<lambda>(existed, old).
        if old = content then ret False
        else next_act (write_text env p content)
               (next_act (preview_patch env old content relative existed) (ret True))))"

fun save_all_generated ::
  "'s coder_env \<Rightarrow> fs_path \<Rightarrow> (string \<times> string) list \<Rightarrow> string list \<Rightarrow> ('s agent_world, string list) act" where
  "save_all_generated env ws [] changed = ret changed"
| "save_all_generated env ws ((relative, content) # files) changed =
     bind (save_generated env ws relative content) (\<lambda>b.
       save_all_generated env ws files (if b then changed @ [relative] else changed))"

definition run_generator_plugin :: "'s coder_env \<Rightarrow> plugin_manifest \<Rightarrow> ('s agent_world, generated_project option) act" where
  "run_generator_plugin env m =
     bind (execute_plugin (ca_work env) (plugin_id m) (ca_plugin_generate env m)) (\<lambda>p. ret (Some p))"

definition resolve_generation_template :: "'s coder_env \<Rightarrow> string \<Rightarrow> string \<Rightarrow> ('s agent_world, generated_project) act" where
  "resolve_generation_template env target prompt =
     next_act (modify (\<lambda>w. w\<lparr>aw_task := set_default ''intent'' (PStr ''code_change'') (aw_task w)\<rparr>))
      (bind (get_with (\<lambda>w. resolve_generator_plugins (we_supports (ca_work env)) (we_policy (ca_work env)) (aw_task w) target
                            (ca_plugins env))) (\<lambda>plugins.
       bind (offer_plugins (ca_work env) ''_activeGeneratorPlugin'' ''GeneratorPlugin'' ''Executing generator plugin.''
               ''Generator plugin failed, falling back to built-in generator.'' [(''target'', PStr target)]
               (run_generator_plugin env) plugins) (\<lambda>r.
         case r of
           Some p \<Rightarrow> ret p
         | None \<Rightarrow> next_act (pop_task ''_activeGeneratorPlugin'')
             (if target \<in> {''web'', ''backend'', ''fullstack''} then ca_generate env target prompt
              else throw (ValueError ''unsupported_target'')))))"

definition generation_done ::
  "'s coder_env \<Rightarrow> plan_result \<Rightarrow> string \<Rightarrow> generated_project \<Rightarrow> string list \<Rightarrow> ('s agent_world, unit) act" where
  "generation_done env plan target p changed =
     (let told = [(''fallbackUsed'', PBool (gp_used_fallback p)), (''reason'', PStr (gp_reason p))];
          known = [(''planName'', PStr (pl_name plan)), (''target'', PStr target)]
      in if changed = [] then coder_say env ''Project generation produced no file changes.'' (known @ told)
         else coder_say env ''Project template generated.''
                (known @ [(''fileCount'', PInt (int (length changed)))] @ told))"

definition generate_project ::
  "'s coder_env \<Rightarrow> plan_result \<Rightarrow> fs_path \<Rightarrow> string \<Rightarrow> string \<Rightarrow> ('s agent_world, bool) act" where
  "generate_project env plan ws prompt target =
     bind (try_except
        (bind (resolve_generation_template env target prompt) (\<lambda>p.
         next_act (modify (\<lambda>w. w\<lparr>aw_task := AList.update ''_llm_generation_reason'' (PStr (gp_reason p))
             (AList.update ''_llm_fallback'' (PBool (gp_used_fallback p))
             (AList.update ''_generated_files'' (of_texts (map fst (gp_files p)))
             (AList.update ''_generated_target'' (PStr target) (aw_task w))))\<rparr>))
          (bind (save_all_generated env ws (gp_files p) []) (\<lambda>changed.
           next_act (generation_done env plan target p changed) (ret (Some ()))))))
        (coder_stops env ''Failed to generate project.'' ''generation_failed'' [(''target'', PStr target)])) (\<lambda>r.
       ret (r \<noteq> None))"

section \<open>The coder\<close>

definition coder_change_file :: "'s coder_env \<Rightarrow> fs_path \<Rightarrow> string \<Rightarrow> ('s agent_world, fs_path \<times> bool \<times> string \<times> string) act" where
  "coder_change_file env ws prompt =
     bind (see_files env (\<lambda>f. Inr (choose_target_file f ws prompt))) (\<lambda>target_file.
     bind (read_before env target_file) (\<lambda>(existed, old).
     bind (propose_content env old prompt target_file) (\<lambda>after.
     next_act (write_text env target_file after) (ret (target_file, existed, old, after)))))"

definition coder_edit_file :: "'s coder_env \<Rightarrow> plan_result \<Rightarrow> fs_path \<Rightarrow> string \<Rightarrow> ('s agent_world, bool) act" where
  "coder_edit_file env plan ws prompt =
     bind (try_except (bind (coder_change_file env ws prompt) (\<lambda>x. ret (Some x)))
        (coder_stops env ''Failed to prepare code change.'' ''coder_error'' [])) (\<lambda>r.
       case r of
         None \<Rightarrow> ret False
       | Some (target_file, existed, old, after) \<Rightarrow>
           let relative = review_path ws target_file in
           next_act (coder_say env ''Code change prepared.'' [(''file'', PStr relative), (''planName'', PStr (pl_name plan))])
             (next_act (preview_patch env old after relative existed) (ret True)))"

definition coder_execute :: "'s coder_env \<Rightarrow> plan_result \<Rightarrow> ('s agent_world, bool) act" where
  "coder_execute env plan =
     bind (get_with aw_task) (\<lambda>task.
       let ws = ca_path env (coder_workspace (we_getenv (ca_work env)) task); prompt = field_text task ''prompt'' in
       case resolve_generation_target (lower (field_text task ''target'')) (lower (field_text task ''assistant'')) prompt of
         Some target \<Rightarrow>
           next_act (set_task ''_requestedGenerationTarget'' (PStr target)) (generate_project env plan ws prompt target)
       | None \<Rightarrow> coder_edit_file env plan ws prompt)"

section \<open>Methods without a caller\<close>

text \<open>\<open>ix\<close> is the summary of the code index, when there is one with files.\<close>

definition resolve_target_files ::
  "'s coder_env \<Rightarrow> (string \<times> fs_path) option \<Rightarrow> ('s agent_world, string list) act" where
  "resolve_target_files env ix =
     (let wrong = throw (NamedError ''AttributeError''
            (quote_text ''PlanResult'' @ '' object has no attribute '' @ quote_text ''lower''))
      in case ix of None \<Rightarrow> wrong
         | Some (summary, base) \<Rightarrow>
             try_except
               (bind (get_with aw_task) (\<lambda>task.
                bind (on_llm (ca_seat env) (generate (st_env (ca_seat env)) (st_client (ca_seat env))
                  (join line_feed [''Project structure:'', summary, [], ''Task: '' @ py_str (dget_or task ''prompt'' (PStr [])), [],
                     ''List the files that need to be modified, one per line. Only list files that exist.''])
                  ''You are a code navigation assistant. List only file paths.'')) (\<lambda>response.
                see_files env (\<lambda>f. Inr (filter (\<lambda>p. fs_exists f (resolve_dots (join_path base p)))
                  (map strip (filter (\<lambda>l. strip l \<noteq> [] \<and> \<not> prefix ''#'' l)
                    (split_char (char_of (10 :: nat)) (strip response)))))))))
               (\<lambda>e. wrong))"

definition apply_incremental_edit ::
  "'s coder_env \<Rightarrow> string option \<Rightarrow> string \<Rightarrow> string \<Rightarrow> fs_path \<Rightarrow> ('s agent_world, string) act" where
  "apply_incremental_edit env summary file_path prompt ws =
     bind (read_before env (resolve_dots (join_path ws file_path))) (\<lambda>(existed, content).
       on_llm (ca_seat env) (generate (st_env (ca_seat env)) (st_client (ca_seat env))
         (join line_feed [''File: '' @ file_path, ''Existing content:'', ''```'', take 4000 content, ''```'', [],
            ''Project context:'', take 2000 (case summary of None \<Rightarrow> [] | Some s \<Rightarrow> s), [],
            ''Modification request: '' @ prompt, [],
            ''Return the COMPLETE modified file content. No explanations.''])
         ''You are a precise code editor. Return only the file content.''))"

section \<open>Where the coder writes\<close>

definition text_at :: "fs \<Rightarrow> fs_path \<Rightarrow> string option" where
  "text_at f p = (case fs_get f p of Some (FText s) \<Rightarrow> Some s | _ \<Rightarrow> None)"

lemma text_at_Some: "text_at f p = Some s \<longleftrightarrow> fs_get f p = Some (FText s)"
  by (auto simp: text_at_def split: option.splits fs_entry.splits)

lemma text_at_mkdirs: "text_at (snd (fs_mkdirs f q cs)) p = text_at f p"
proof -
  have "text_at (snd (fs_mkdirs f q cs)) p = Some s \<longleftrightarrow> text_at f p = Some s" for s
    by (simp add: text_at_Some fs_mkdirs_text)
  then show ?thesis by (metis option.exhaust)
qed

lemma write_file_text:
  "tool_write_file allowed p c f = (r, f') \<Longrightarrow>
     text_at f' q = (if q = p \<and> r = Inr () then Some c else text_at f q) \<and>
     (r = Inr () \<longrightarrow> (\<exists>a\<in>set allowed. prefix a p))"
  using text_at_mkdirs [of f "[]" "butlast p" q]
  by (auto simp: tool_write_file_def check_write_allowed_def list_ex_iff text_at_def
      split: sum.splits prod.splits if_splits dest!: fs_write_Inr)

text \<open>The texts outside of the allowed directories.\<close>

definition forbidden_texts :: "fs_path list \<Rightarrow> fs \<Rightarrow> fs_path \<Rightarrow> string option" where
  "forbidden_texts allowed f = (\<lambda>p. if \<exists>a\<in>set allowed. prefix a p then None else text_at f p)"

lemma write_file_forbidden: "forbidden_texts allowed (snd (tool_write_file allowed p c f)) = forbidden_texts allowed f"
proof -
  obtain r f' where w: "tool_write_file allowed p c f = (r, f')" by fastforce
  from write_file_text [OF w] show ?thesis by (fastforce simp: forbidden_texts_def w)
qed

text \<open>What the collaborators of the coder leave alone.\<close>

definition coder_apart :: "'s coder_env \<Rightarrow> ('s \<Rightarrow> 'v) \<Rightarrow> bool" where
  "coder_apart env v \<longleftrightarrow>
     work_apart (ca_work env) v \<and>
     (\<forall>x s. v (st_set_llm (ca_seat env) x s) = v s) \<and> (\<forall>b s. v (st_set_breaker (ca_seat env) b s) = v s) \<and>
     (\<forall>m x. leaves v x (ca_plugin_generate env m)) \<and> (\<forall>t p x. leaves v x (ca_generate env t p))"

lemma coder_apart_parts:
  assumes "coder_apart env v"
  shows "work_apart (ca_work env) v" "unobserved (we_agent (ca_work env)) v"
    "seat_stable (ca_seat env) (\<lambda>w. v (aw_ext w) = x)"
    "leaves v x (ca_plugin_generate env m)" "leaves v x (ca_generate env t p)"
  using assms by (simp_all add: coder_apart_def work_apart_def seat_stable_def)

definition files_lens :: "'s coder_env \<Rightarrow> bool" where
  "files_lens env \<longleftrightarrow> (\<forall>f s. ca_files env (ca_set_files env f s) = f)"

named_theorems apart_rules

lemma apart_say [apart_rules]: "coder_apart env v \<Longrightarrow> leaves v x (coder_say env m d)"
  unfolding coder_say_def by (intro leaves_emit coder_apart_parts)

lemma apart_fails [apart_rules]: "coder_apart env v \<Longrightarrow> leaves v x (coder_fails env m e)"
  unfolding coder_fails_def by (intro leaves_publish coder_apart_parts)

lemma apart_preview [apart_rules]: "coder_apart env v \<Longrightarrow> leaves v x (preview_patch env b a r e)"
  unfolding preview_patch_def by (intro leaves_publish coder_apart_parts)

lemma apart_stops [apart_rules]: "coder_apart env v \<Longrightarrow> leaves v x (coder_stops env m r d e)"
  unfolding coder_stops_def by (intro keeps_rules apart_rules)

lemma keeps_see_files [keeps_rules]: "keeps I (see_files env f)"
  by (simp add: keeps_iff see_files_def)

lemma keeps_prod [keeps_rules]: "(\<And>a b. keeps I (f a b)) \<Longrightarrow> keeps I (case p of (a, b) \<Rightarrow> f a b)"
  by (cases p) simp

lemma apart_read [apart_rules]: "leaves v x (read_before env p)"
  unfolding read_before_def by (rule keeps_see_files)

lemma apart_seat:
  assumes "coder_apart env v"
  shows "leaves v x (on_llm (ca_seat env) m)"
    "leaves v x op \<Longrightarrow> leaves v x (guarded_call a (ca_seat env) op)"
proof -
  show "leaves v x (on_llm (ca_seat env) m)"
    by (rule keepsI) (rule on_llm_keeps [OF coder_apart_parts(3) [OF assms]])
  assume op: "leaves v x op"
  show "leaves v x (guarded_call a (ca_seat env) op)"
    by (rule keepsI, rule guarded_call_keeps [OF coder_apart_parts(3) [OF assms]]) (use keepsD [OF op] in auto)
qed

lemma apart_edit [apart_rules]:
  assumes "coder_apart env v"
  shows "leaves v x (edit_with_llm env b p t)"
proof -
  have "v (aw_ext (snd (seat_metrics s st k c w))) = v (aw_ext w)" for s :: "'a llm_seat" and st k c w
    by (simp add: seat_metrics_def modify_def)
  then show ?thesis
    unfolding edit_with_llm_def seat_cursor_def Let_def
    by (intro keeps_rules leaves_ensure_own apart_seat coder_apart_parts assms) simp_all
qed

lemma apart_propose [apart_rules]: "coder_apart env v \<Longrightarrow> leaves v x (propose_content env b p t)"
  unfolding propose_content_def by (intro keeps_rules apart_seat apart_rules)

lemma apart_template [apart_rules]:
  assumes "coder_apart env v"
  shows "leaves v x (resolve_generation_template env t p)"
proof -
  have "leaves v x (run_generator_plugin env m)" for m
    unfolding run_generator_plugin_def
    by (intro keeps_rules leaves_execute_plugin coder_apart_parts assms)
  then show ?thesis
    unfolding resolve_generation_template_def
    by (intro keeps_rules leaves_modify leaves_offer leaves_pop_task coder_apart_parts assms) simp_all
qed

text \<open>Everything the coder does besides \<open>write_text\<close> leaves \<open>v\<close> alone; so the coder does what \<open>write_text\<close> does.\<close>

lemma apart_coder:
  assumes "coder_apart env v" and "\<And>p c. leaves v x (write_text env p c)"
  shows "leaves v x (coder_execute env plan)"
proof -
  have one: "leaves v x (save_generated env ws r c)" for ws r c
    unfolding save_generated_def Let_def by (intro keeps_rules apart_rules assms)
  have all: "leaves v x (save_all_generated env ws files ch)" for ws files ch
    by (induction files arbitrary: ch) (auto intro!: keeps_rules one)
  have gen: "leaves v x (generate_project env plan ws p t)" for ws p t
    unfolding generate_project_def generation_done_def Let_def
    by (intro keeps_rules apart_rules leaves_modify all assms) simp_all
  have ch: "leaves v x (coder_change_file env ws p)" for ws p
    unfolding coder_change_file_def by (intro keeps_rules apart_rules assms)
  have ed: "leaves v x (coder_edit_file env plan ws p)" for ws p
    unfolding coder_edit_file_def Let_def by (intro keeps_rules apart_rules ch assms)
  show ?thesis
    unfolding coder_execute_def Let_def by (intro keeps_rules leaves_set_task gen ed)
qed

text \<open>C8. Whatever the task, the model, the generators and the plugins, and however it ends, the coder changes no text
  file outside of the directories it may write in: none when there are none.\<close>

theorem coder_writes_only_where_allowed:
  assumes "coder_apart env (\<lambda>s. forbidden_texts (ca_prefixes env) (ca_files env s))"
    and "files_lens env" and "\<not> (\<exists>a\<in>set (ca_prefixes env). prefix a p)"
  shows "text_at (ca_files env (aw_ext (snd (coder_execute env plan w)))) p = text_at (ca_files env (aw_ext w)) p"
proof -
  let ?v = "\<lambda>s. forbidden_texts (ca_prefixes env) (ca_files env s)"
  have "leaves ?v x (write_text env q c)" for q c x
    by (rule keepsI) (simp add: write_text_def with_files_def split_beta assms(2) [unfolded files_lens_def] write_file_forbidden)
  from keepsD [OF apart_coder [OF assms(1) this, where plan = plan], of w] assms(3) show ?thesis
    by (metis forbidden_texts_def)
qed

section \<open>What a generated project leaves\<close>

definition generated_path :: "fs_path \<Rightarrow> string \<Rightarrow> fs_path" where
  "generated_path ws r = resolve_dots (join_path ws r)"

definition text_of_option :: "string option \<Rightarrow> string" where
  "text_of_option t = (case t of None \<Rightarrow> [] | Some s \<Rightarrow> s)"

abbreviation files_of :: "'s coder_env \<Rightarrow> 's agent_world \<Rightarrow> fs" where
  "files_of env w \<equiv> ca_files env (aw_ext w)"

lemma preview_files: "coder_apart env (ca_files env) \<Longrightarrow> files_of env (snd (preview_patch env b a r e w)) = files_of env w"
  using keepsD [OF apart_preview [of env "ca_files env" "files_of env w"]] by simp

text \<open>One file: it is written unless the file, or the empty text where there is none, equals it.\<close>

lemma save_generated_text:
  assumes "coder_apart env (ca_files env)" "files_lens env" "save_generated env ws r c w = (Inr b, w')"
  shows "b \<longleftrightarrow> text_of_option (text_at (files_of env w) (generated_path ws r)) \<noteq> c"
    "text_at (files_of env w') q = (if b \<and> q = generated_path ws r then Some c else text_at (files_of env w) q)"
proof -
  let ?f = "files_of env w" and ?p = "generated_path ws r"
  obtain ex old where rd: "read_before env ?p w = (Inr (ex, old), w)" "old = text_of_option (text_at ?f ?p)"
    using assms(3)
    by (auto simp: save_generated_def generated_path_def [symmetric] Let_def bind_def read_before_def see_files_def
        fs_exists_def fs_read_def text_at_def text_of_option_def split: prod.splits sum.splits option.splits fs_entry.splits if_splits)
  have "b = (old \<noteq> c) \<and> text_at (files_of env w') q = (if b \<and> q = ?p then Some c else text_at ?f q)"
  proof (cases "old = c")
    case True
    with assms(3) rd show ?thesis
      by (simp add: save_generated_def generated_path_def [symmetric] Let_def bind_Inr [of "read_before env (generated_path ws r)", OF rd(1)] ret_def)
  next
    case False
    obtain r1 f1 where wf: "tool_write_file (ca_prefixes env) ?p c ?f = (r1, f1)" by fastforce
    let ?w1 = "w\<lparr>aw_ext := ca_set_files env f1 (aw_ext w)\<rparr>"
    have wt: "write_text env ?p c w = (r1, ?w1)" by (simp add: write_text_def with_files_def wf)
    have run: "(case r1 of Inl e \<Rightarrow> (Inl e, ?w1) | Inr u \<Rightarrow> next_act (preview_patch env old c r ex) (ret True) ?w1) = (Inr b, w')"
      using assms(3) False
      by (simp add: save_generated_def generated_path_def [symmetric] Let_def bind_Inr [of "read_before env (generated_path ws r)", OF rd(1)] next_act_def [of "write_text _ _ _"]
          bind_def [of "write_text _ _ _"] wt split: sum.splits)
    then have r1: "r1 = Inr ()" by (cases r1) auto
    obtain x w2 where pv: "preview_patch env old c r ex ?w1 = (x, w2)" by fastforce
    have "files_of env w2 = files_of env ?w1" using preview_files [OF assms(1), of old c r ex ?w1] pv by simp
    moreover have "b" "w' = w2" using run pv by (cases x; simp add: r1 next_act_def bind_def ret_def)+
    ultimately show ?thesis
      using False write_file_text [OF wf, of q] assms(2) r1 by (simp add: files_lens_def)
  qed
  then show "b \<longleftrightarrow> text_of_option (text_at (files_of env w) (generated_path ws r)) \<noteq> c"
    "text_at (files_of env w') q = (if b \<and> q = generated_path ws r then Some c else text_at (files_of env w) q)"
    using rd(2) by auto
qed

lemma save_all_generated_text:
  assumes "coder_apart env (ca_files env)" "files_lens env"
  shows "save_all_generated env ws files ch w = (Inr changed, w') \<Longrightarrow> distinct (map (generated_path ws \<circ> fst) files) \<Longrightarrow>
    (\<forall>(r, c)\<in>set files. text_at (files_of env w') (generated_path ws r) =
       (if c = [] \<and> text_at (files_of env w) (generated_path ws r) = None then None else Some c)) \<and>
    (\<forall>q. q \<notin> generated_path ws ` fst ` set files \<longrightarrow> text_at (files_of env w') q = text_at (files_of env w) q) \<and>
    changed = ch @ map fst (filter (\<lambda>(r, c). text_of_option (text_at (files_of env w) (generated_path ws r)) \<noteq> c) files)"
proof (induction files arbitrary: ch w)
  case Nil
  then show ?case by (simp add: ret_def)
next
  case (Cons x files)
  obtain r c where x: "x = (r, c)" by fastforce
  from Cons.prems(1) obtain b w1 where g: "save_generated env ws r c w = (Inr b, w1)"
    and rest: "save_all_generated env ws files (if b then ch @ [r] else ch) w1 = (Inr changed, w')"
    by (auto simp: x bind_def split: prod.splits sum.splits)
  note one = save_generated_text [OF assms g]
  note ih = Cons.IH [OF rest]
  have d: "generated_path ws r \<notin> generated_path ws ` fst ` set files" "distinct (map (generated_path ws \<circ> fst) files)"
    using Cons.prems(2) by (auto simp: x image_image o_def)
  have same: "text_at (files_of env w1) (generated_path ws r') = text_at (files_of env w) (generated_path ws r')"
    if "(r', c') \<in> set files" for r' c'
    using one(2) d(1) that by (auto simp: image_iff)
  have "text_at (files_of env w') (generated_path ws r) =
      (if c = [] \<and> text_at (files_of env w) (generated_path ws r) = None then None else Some c)"
    using ih [OF d(2)] d(1) one by (auto simp: text_of_option_def split: option.splits)
  moreover have "filter (\<lambda>(r, c). text_of_option (text_at (files_of env w1) (generated_path ws r)) \<noteq> c) files =
      filter (\<lambda>(r, c). text_of_option (text_at (files_of env w) (generated_path ws r)) \<noteq> c) files"
    by (rule filter_cong) (use same in auto)
  ultimately show ?case using ih [OF d(2)] one same by (auto simp: x split: if_splits)
qed

text \<open>C13. A project is generated as given: when all its files have been processed without an error, every one of them
  holds its text, but for an empty one that was not there before, which is not created; all other files keep their
  texts, and the changed files are those that held another text.\<close>

theorem generated_files_written:
  assumes "coder_apart env (ca_files env)" "files_lens env"
    and "distinct (map (generated_path ws \<circ> fst) files)"
    and "save_all_generated env ws files [] w = (Inr changed, w')"
  shows "(\<forall>(r, c)\<in>set files. text_at (ca_files env (aw_ext w')) (generated_path ws r) =
       (if c = [] \<and> text_at (ca_files env (aw_ext w)) (generated_path ws r) = None then None else Some c)) \<and>
    (\<forall>q. q \<notin> generated_path ws ` fst ` set files \<longrightarrow>
       text_at (ca_files env (aw_ext w')) q = text_at (ca_files env (aw_ext w)) q) \<and>
    changed = map fst (filter (\<lambda>(r, c). text_of_option (text_at (ca_files env (aw_ext w)) (generated_path ws r)) \<noteq> c) files)"
  using save_all_generated_text [OF assms(1,2,4,3)] by simp

text \<open>C15. The empty files of a project, like the \<open>__init__.py\<close> of a Python package, break its export: the coder does
  not create them but reports them as generated, and packaging the generated files raises
  \<open>FileNotFoundError\<close>.\<close>

theorem empty_generated_file_breaks_export:
  assumes "coder_apart env (ca_files env)" "files_lens env"
    and "distinct (map (generated_path ws \<circ> fst) files)"
    and "save_all_generated env ws files [] w = (Inr changed, w')"
    and "(r, []) \<in> set files" "text_at (ca_files env (aw_ext w)) (generated_path ws r) = None"
    and "clean_relative r = r" "r \<noteq> []" "resolve_dots ws = ws"
  shows "\<exists>m. build_export_zip archive sha256 ws (map fst (gp_files \<lparr>gp_files = files, gp_used_fallback = fb, gp_reason = why\<rparr>))
      file_name (ca_files env (aw_ext w')) = (Inl (FileNotFoundError m), ca_files env (aw_ext w'))"
proof -
  have "text_at (ca_files env (aw_ext w')) (generated_path ws r) = None"
    using save_all_generated_text [OF assms(1,2,4,3)] assms(5,6) by fastforce
  then have "\<forall>s. fs_get (ca_files env (aw_ext w')) (resolve_dots (join_path ws (clean_relative r))) \<noteq> Some (FText s)"
    using assms(7) by (simp add: generated_path_def text_at_Some [symmetric])
  then obtain m where "export_sources (ca_files env (aw_ext w')) ws (map fst files) = Inl (FileNotFoundError m)"
    using export_sources_missing [of r "map fst files" "ca_files env (aw_ext w')" ws] assms(5,7,8) by force
  moreover have "map fst files \<noteq> []" using assms(5) by auto
  ultimately show ?thesis by (simp add: build_export_zip_def assms(9))
qed

section \<open>Words that ask for a project\<close>

lemma of_char_uni: "n < 65536 \<Longrightarrow> c \<in> set (uni_char n) \<Longrightarrow> 128 \<le> (of_char c :: nat)"
  by (auto simp: uni_char_def take_bit_eq_mod)

lemma uni_high: "list_all (\<lambda>n. n < 65536) ns \<Longrightarrow> c \<in> set (uni ns) \<Longrightarrow> 128 \<le> (of_char c :: nat)"
  using of_char_uni by (auto simp: uni_def list_all_iff)

lemma lower_uni: "list_all (\<lambda>n. n < 65536) ns \<Longrightarrow> lower (uni ns) = uni ns"
  unfolding lower_def by (rule map_idI) (use uni_high [of ns] in \<open>fastforce simp: lower_char_def Let_def\<close>)

lemma strip_uni: "list_all (\<lambda>n. n < 65536) ns \<Longrightarrow> strip (uni ns) = uni ns"
proof (cases "uni ns = []")
  case False
  assume ns: "list_all (\<lambda>n. n < 65536) ns"
  have "\<not> is_space c" if "c \<in> set (uni ns)" for c
    using uni_high [OF ns that] by (auto simp: is_space_def Let_def)
  with False show ?thesis by (intro strip_id) simp_all
qed simp

lemma uni_append: "uni (a @ b) = uni a @ uni b"
  by (simp add: uni_def)

lemma contains_hd: "contains (c # v) s \<Longrightarrow> c \<in> set s"
  by (auto simp: contains_iff)

text \<open>A word of ASCII characters does not occur in a text of Chinese ones.\<close>

lemma ascii_not_in_uni: "list_all (\<lambda>n. n < 65536) ns \<Longrightarrow> of_char c < (128 :: nat) \<Longrightarrow> \<not> contains (c # v) (uni ns)"
  using uni_high [of ns c] contains_hd [of c v "uni ns"] by fastforce

text \<open>The Chinese for: generate a full-stack application.\<close>

definition chinese_request :: "nat list" where
  "chinese_request = [0x751F, 0x6210, 0x5168, 0x6808, 0x5E94, 0x7528]"

lemma chinese_request_chars: "list_all (\<lambda>n. n < 65536) chinese_request"
  by (simp add: chinese_request_def)

lemma chinese_request_words:
  "\<not> any_word generation_words (uni chinese_request)" "should_generate_web (uni chinese_request)"
proof -
  have m: "\<not> contains (uni [0x9422, 0x71B8, 0x579A]) (uni chinese_request)"
    "\<not> contains (uni [0x93BC, 0xE15E, 0x7F13]) (uni chinese_request)"
    "\<not> contains (uni [0x93C2, 0x677F, 0x7F13]) (uni chinese_request)"
    by (simp_all add: contains_def uni_def uni_char_def chinese_request_def char_of_eq_iff take_bit_eq_mod)
  then show "\<not> any_word generation_words (uni chinese_request)"
    by (simp add: any_word_def generation_words_def ascii_not_in_uni [OF chinese_request_chars])
  have "contains (uni [0x751F, 0x6210]) (uni chinese_request)" "contains (uni [0x5E94, 0x7528]) (uni chinese_request)"
    unfolding contains_iff chinese_request_def
    by (intro exI [of _ "[]"] exI [of _ "uni [0x5168, 0x6808, 0x5E94, 0x7528]"]; simp add: uni_append [symmetric])
      (intro exI [of _ "uni [0x751F, 0x6210, 0x5168, 0x6808]"] exI [of _ "[]"]; simp add: uni_append [symmetric])
  then show "should_generate_web (uni chinese_request)"
    by (simp add: should_generate_web_def any_word_def)
qed

text \<open>A target that is named is taken. Without one, a prompt that has none of the generation words never gets a backend
  or a full stack: it gets a web page or nothing. The Chinese words for generating are not among those words,
  as a prompt shows that asks, in Chinese, to generate a full-stack application and gets a web page.\<close>

theorem generation_target_by_words:
  assumes "lower (strip target) \<notin> {''web'', ''backend'', ''fullstack''}" "\<not> any_word generation_words (lower (strip prompt))"
  shows "resolve_generation_target target assistant prompt \<in> {None, Some ''web''} \<and>
    (\<forall>t\<in>{''web'', ''backend'', ''fullstack''}. resolve_generation_target t assistant prompt = Some t) \<and>
    resolve_generation_target [] [] (uni chinese_request) = Some ''web''"
proof (intro conjI)
  show "resolve_generation_target target assistant prompt \<in> {None, Some ''web''}"
    using assms by (auto simp: resolve_generation_target_def looks_like_generation_request_def Let_def)
  have "lower (strip ''web'') = ''web''" "lower (strip ''backend'') = ''backend''" "lower (strip ''fullstack'') = ''fullstack''"
    by code_simp+
  then show "\<forall>t\<in>{''web'', ''backend'', ''fullstack''}. resolve_generation_target t assistant prompt = Some t"
    by (auto simp: resolve_generation_target_def Let_def)
  show "resolve_generation_target [] [] (uni chinese_request) = Some ''web''"
  proof -
    have "uni chinese_request \<noteq> []" by (simp add: chinese_request_def uni_def uni_char_def)
    then show ?thesis
      using chinese_request_words lower_uni [OF chinese_request_chars] strip_uni [OF chinese_request_chars]
      by (simp add: resolve_generation_target_def looks_like_generation_request_def Let_def)
  qed
qed

section \<open>Examples\<close>

text \<open>Outside there are the files, the client's world, the breaker, the events received and a counter.\<close>

type_synonym coder_ext = "fs \<times> llm_world \<times> breaker \<times> pydict list \<times> nat"

definition coder_sample_agent :: "coder_ext agent_env" where
  "coder_sample_agent = \<lparr>ae_uuid = (\<lambda>(f, x, b, l, n). (show_nat n, (f, x, b, l, n + 1))), ae_timestamp = (\<lambda>s. ''now''),
     ae_monotonic = (\<lambda>s. 1), ae_client = PlainPublish (\<lambda>tid ev (f, x, b, l, n). (Inr (), (f, x, b, l @ [ev], n)))\<rparr>"

definition coder_sample_work :: "coder_ext work_env" where
  "coder_sample_work = \<lparr>we_agent = coder_sample_agent, we_getenv = (\<lambda>k. None),
     we_exec = (\<lambda>task c p i s. (Inr ok_exec, s)), we_runtime = (\<lambda>s. new_runtime_manager (\<lambda>t. None) (Some 3) (Some 30) [] []),
     we_set_runtime = (\<lambda>m s. s), we_policy = empty_policy [], we_testers = [], we_reviewers = [], we_supports = (\<lambda>m. True),
     we_test_plugin = (\<lambda>m. ret PNone), we_review_plugin = (\<lambda>m. throw (RuntimeError ''none''))\<rparr>"

definition coder_sample_seat :: "coder_ext llm_seat" where
  "coder_sample_seat = \<lparr>st_client = sample_llm_client, st_env = sample_llm_env, st_parse = (\<lambda>t. Inl ''no JSON''),
     st_llm = (\<lambda>(f, x, r). x), st_set_llm = (\<lambda>x' (f, x, r). (f, x', r)),
     st_breaker = (\<lambda>(f, x, b, r). b), st_set_breaker = (\<lambda>b' (f, x, b, r). (f, x, b', r))\<rparr>"

definition coder_sample_project :: generated_project where
  "coder_sample_project = \<lparr>gp_files = [(''app/__init__.py'', []), (''app/main.py'', ''x'')], gp_used_fallback = False, gp_reason = ''r''\<rparr>"

definition coder_sample_env :: "coder_ext coder_env" where
  "coder_sample_env = \<lparr>ca_work = coder_sample_work, ca_seat = coder_sample_seat, ca_files = fst, ca_set_files = (\<lambda>f (_, r). (f, r)),
     ca_path = path_parts, ca_prefixes = [[''w'']], ca_diff = (\<lambda>a b r. b), ca_plugins = [],
     ca_plugin_generate = (\<lambda>m. throw (RuntimeError ''none'')), ca_generate = (\<lambda>t p. ret coder_sample_project)\<rparr>"

definition coder_sample_world :: "coder_ext agent_world" where
  "coder_sample_world = \<lparr>aw_task = [(''taskId'', PStr ''t1'')], aw_obs = None, aw_seq = Map.empty, aw_outbox = Map.empty,
     aw_ext = ([([''w''], FDir), ([''etc''], FText ''root'')], sample_llm_start, new_breaker ''coder-llm'' 3 30, [], 0)\<rparr>"

lemma coder_sample_apart: "(\<And>f r r'. v (f, r) = v (f, r')) \<Longrightarrow> coder_apart coder_sample_env v"
  unfolding coder_apart_def work_apart_def unobserved_def
  by (auto simp: coder_sample_env_def coder_sample_work_def coder_sample_agent_def coder_sample_seat_def client_call_def
      split: prod.split intro: keeps_ret keeps_throw)

lemma coder_sample_lens: "files_lens coder_sample_env" "coder_apart coder_sample_env (ca_files coder_sample_env)"
    "coder_apart coder_sample_env (\<lambda>s. forbidden_texts (ca_prefixes coder_sample_env) (ca_files coder_sample_env s))"
  by (auto simp: files_lens_def coder_sample_env_def intro!: coder_sample_apart [unfolded coder_sample_env_def])

lemma coder_writes_only_where_allowed_witness:
  "text_at (ca_files coder_sample_env (aw_ext (snd (coder_execute coder_sample_env (fallback_plan ''test'') coder_sample_world)))) [''etc''] = Some ''root''"
  using coder_writes_only_where_allowed [OF coder_sample_lens(3,1), of "[''etc'']" "fallback_plan ''test''" coder_sample_world]
  by (simp add: coder_sample_env_def coder_sample_world_def text_at_def fs_get_def)

lemma coder_sample_run:
  "fst (save_all_generated coder_sample_env [''w''] (gp_files coder_sample_project) [] coder_sample_world) = Inr [''app/main.py'']"
  by code_simp

lemma coder_sample_run':
  "save_all_generated coder_sample_env [''w''] (gp_files coder_sample_project) [] coder_sample_world =
    (Inr [''app/main.py''], snd (save_all_generated coder_sample_env [''w''] (gp_files coder_sample_project) [] coder_sample_world))"
  using coder_sample_run by (simp add: prod_eq_iff)

lemma coder_sample_paths: "distinct (map (generated_path [''w''] \<circ> fst) (gp_files coder_sample_project))"
  by code_simp

lemma generated_files_written_witness:
  "text_at (files_of coder_sample_env (snd (save_all_generated coder_sample_env [''w''] (gp_files coder_sample_project) [] coder_sample_world)))
     (generated_path [''w''] ''app/main.py'') = Some ''x''"
  using generated_files_written [OF coder_sample_lens(2,1) coder_sample_paths coder_sample_run']
  by (simp add: coder_sample_project_def)

lemma empty_generated_file_breaks_export_witness:
  "\<exists>m. fst (build_export_zip (\<lambda>xs. concat (map snd xs)) (\<lambda>s. s) [''w''] [''app/__init__.py'', ''app/main.py''] ''export.zip''
     (files_of coder_sample_env (snd (save_all_generated coder_sample_env [''w''] (gp_files coder_sample_project) [] coder_sample_world)))) =
     Inl (FileNotFoundError m)"
proof -
  have "text_at (ca_files coder_sample_env (aw_ext coder_sample_world)) (generated_path [''w''] ''app/__init__.py'') = None"
    "clean_relative ''app/__init__.py'' = ''app/__init__.py''" "resolve_dots [''w''] = [''w'']"
    by code_simp+
  moreover have "(''app/__init__.py'', []) \<in> set (gp_files coder_sample_project)" by (simp add: coder_sample_project_def)
  ultimately show ?thesis
    using empty_generated_file_breaks_export [OF coder_sample_lens(2,1) coder_sample_paths coder_sample_run',
        of "''app/__init__.py''" "\<lambda>xs. concat (map snd xs)" "\<lambda>s. s" False "[]" "''export.zip''"]
    by (auto simp: coder_sample_project_def)
qed

end
