(* ===== verification/Project_Memory.thy ===== *)
theory Project_Memory
  imports Llm_Client
begin

text \<open>
  What the agent remembers of a project and asks about a request: \<open>memory/redis_memory.py\<close>,
  \<open>memory/knowledge_extractor.py\<close> and \<open>agents/dialogue_manager.py\<close>.

  The Redis client is a parameter with its documented laws, each call over a \<open>link\<close> that may fail before or after
  the server did the work; so are \<open>json.dumps\<close> (with sorted keys), \<open>json.loads\<close> and MD5. Bytes are strings. The
  local store belongs to the module, \<open>_LOCAL_STORE\<close>: it is shared by all memories of a process.
\<close>

section \<open>The memory\<close>

record 'r memory_server =
  mc_rpush :: "string \<Rightarrow> string \<Rightarrow> 'r \<Rightarrow> 'r"
  mc_ltrim :: "string \<Rightarrow> int \<Rightarrow> int \<Rightarrow> 'r \<Rightarrow> 'r"
  mc_lrange :: "string \<Rightarrow> int \<Rightarrow> int \<Rightarrow> 'r \<Rightarrow> string list"
  mc_hset :: "string \<Rightarrow> (string \<times> string) list \<Rightarrow> 'r \<Rightarrow> unit result \<times> 'r"
  mc_hgetall :: "string \<Rightarrow> 'r \<Rightarrow> (string \<times> string) list"
  mc_hget :: "string \<Rightarrow> string \<Rightarrow> 'r \<Rightarrow> string option"

record redis_memory =
  rm_namespace :: string
  rm_max_entries :: int
  rm_client :: bool
  rm_enabled :: bool

record 'r memory_env =
  me_server :: "'r memory_server"
  me_dumps :: "pyval \<Rightarrow> string"
  me_loads :: "string \<Rightarrow> pyval option"
  me_timestamp :: "string"
  me_md5 :: "string \<Rightarrow> string"
  me_link_error :: py_exn

record 'r memory_world =
  mw_server :: 'r
  mw_local :: "string \<Rightarrow> string list"

text \<open>The constructor: \<open>given\<close> when a client is passed in, \<open>connects\<close> when the configured server answers a ping.\<close>

definition new_redis_memory ::
  "(string \<Rightarrow> string option) \<Rightarrow> string option \<Rightarrow> string \<Rightarrow> int \<Rightarrow> bool \<Rightarrow> bool \<Rightarrow> redis_memory" where
  "new_redis_memory getenv backend namespace max_entries given connects =
     (let raw = (case backend of Some b \<Rightarrow> if b = [] then None else Some b | None \<Rightarrow> None);
          chosen = lower (strip (case raw of Some b \<Rightarrow> b
             | None \<Rightarrow> (case getenv ''MVP_MEMORY_BACKEND'' of Some b \<Rightarrow> b | None \<Rightarrow> ''redis'')));
          redis = (chosen = [] \<or> chosen = ''redis'')
      in \<lparr>rm_namespace = (if strip namespace = [] then ''autocode:memory'' else strip namespace),
          rm_max_entries = max 1 max_entries,
          rm_client = given \<or> redis \<and> connects,
          rm_enabled = redis \<and> (given \<or> connects)\<rparr>)"

definition normalize_project_key :: "string \<Rightarrow> string" where
  "normalize_project_key raw =
     (let key = lower (strip raw) in
      if key = [] then ''default''
      else replace_char CHR '' '' CHR ''_'' (replace_char CHR '':'' CHR ''_''
             (replace_char (char_of (92 :: nat)) CHR ''/'' key)))"

definition project_key_fields :: "string list" where
  "project_key_fields = [''projectId'', ''project'', ''workspacePath'', ''workspaceRef'', ''sessionId'', ''sessionKey'']"

definition project_key_for_task :: "pydict \<Rightarrow> string" where
  "project_key_for_task task =
     (case filter (\<lambda>s. s \<noteq> []) (map (\<lambda>k. if dget task k = PNone then [] else strip (py_str (dget task k))) project_key_fields) of
        text # _ \<Rightarrow> normalize_project_key text | [] \<Rightarrow> ''default'')"

definition memory_key :: "redis_memory \<Rightarrow> string \<Rightarrow> string" where
  "memory_key m project_key = rm_namespace m @ '':'' @ normalize_project_key project_key"

fun decode_records :: "(string \<Rightarrow> pyval option) \<Rightarrow> string list \<Rightarrow> pydict list" where
  "decode_records js [] = []"
| "decode_records js (raw # rest) =
     (case js raw of Some (PDict d) \<Rightarrow> d # decode_records js rest | _ \<Rightarrow> decode_records js rest)"

definition recent_raw :: "'r memory_env \<Rightarrow> redis_memory \<Rightarrow> link \<Rightarrow> string \<Rightarrow> int \<Rightarrow> 'r memory_world \<Rightarrow> string list \<times> 'r memory_world" where
  "recent_raw env m l key limit w =
     (if rm_enabled m
      then case round_trip l (\<lambda>r. (mc_lrange (me_server env) key (- limit) (- 1) r, r)) (mw_server w) of
             (Some values, r) \<Rightarrow> (values, w\<lparr>mw_server := r\<rparr>)
           | (None, r) \<Rightarrow> ([], w\<lparr>mw_server := r\<rparr>)
      else (last_n (nat limit) (mw_local w key), w))"

definition recent_records :: "'r memory_env \<Rightarrow> redis_memory \<Rightarrow> link \<Rightarrow> string \<Rightarrow> int \<Rightarrow> 'r memory_world \<Rightarrow> pydict list \<times> 'r memory_world" where
  "recent_records env m l project_key limit w =
     (let (raw, w') = recent_raw env m l (memory_key m project_key) (max 1 limit) w
      in (decode_records (me_loads env) raw, w'))"

definition encode_record :: "'r memory_env \<Rightarrow> pydict \<Rightarrow> string" where
  "encode_record env rc =
     me_dumps env (PDict (if has_key rc ''timestamp'' then rc else rc @ [(''timestamp'', PStr (me_timestamp env))]))"

definition append_local :: "redis_memory \<Rightarrow> string \<Rightarrow> string \<Rightarrow> 'r memory_world \<Rightarrow> 'r memory_world" where
  "append_local m key encoded w =
     w\<lparr>mw_local := (mw_local w)(key := push_bounded (nat (rm_max_entries m)) encoded (mw_local w key))\<rparr>"

text \<open>\<open>append\<close>, with a link for each of its two calls.\<close>

definition append_record :: "'r memory_env \<Rightarrow> redis_memory \<Rightarrow> link \<Rightarrow> link \<Rightarrow> string \<Rightarrow> pydict \<Rightarrow> 'r memory_world \<Rightarrow> 'r memory_world" where
  "append_record env m l1 l2 project_key rc w =
     (let encoded = encode_record env rc; key = memory_key m project_key in
      if \<not> rm_enabled m then append_local m key encoded w
      else case round_trip l1 (\<lambda>r. ((), mc_rpush (me_server env) key encoded r)) (mw_server w) of
             (None, r) \<Rightarrow> append_local m key encoded (w\<lparr>mw_server := r\<rparr>)
           | (Some _, r) \<Rightarrow>
               (case round_trip l2 (\<lambda>r. ((), mc_ltrim (me_server env) key (- rm_max_entries m) (- 1) r)) r of
                  (None, r') \<Rightarrow> append_local m key encoded (w\<lparr>mw_server := r'\<rparr>)
                | (Some _, r') \<Rightarrow> w\<lparr>mw_server := r'\<rparr>))"

section \<open>Knowledge of a project\<close>

text \<open>These calls are not guarded: without a client they do nothing, an error of the link is raised. Their keys
  are not normalised.\<close>

definition knowledge_key :: "redis_memory \<Rightarrow> string \<Rightarrow> string \<Rightarrow> string" where
  "knowledge_key m project_key what = rm_namespace m @ '':'' @ project_key @ '':'' @ what"

definition memory_hset :: "'r memory_env \<Rightarrow> redis_memory \<Rightarrow> link \<Rightarrow> string \<Rightarrow> (string \<times> string) list \<Rightarrow> ('r memory_world, unit) act" where
  "memory_hset env m l key items w =
     (if \<not> rm_client m then (Inr (), w)
      else case round_trip l (mc_hset (me_server env) key items) (mw_server w) of
             (Some a, r) \<Rightarrow> (a, w\<lparr>mw_server := r\<rparr>) | (None, r) \<Rightarrow> (Inl (me_link_error env), w\<lparr>mw_server := r\<rparr>))"

definition memory_read :: "'r memory_env \<Rightarrow> redis_memory \<Rightarrow> link \<Rightarrow> 'a \<Rightarrow> ('r \<Rightarrow> 'a) \<Rightarrow> ('r memory_world, 'a) act" where
  "memory_read env m l nothing f w =
     (if \<not> rm_client m then (Inr nothing, w)
      else case round_trip l (\<lambda>r. (f r, r)) (mw_server w) of
             (Some a, r) \<Rightarrow> (Inr a, w\<lparr>mw_server := r\<rparr>) | (None, r) \<Rightarrow> (Inl (me_link_error env), w\<lparr>mw_server := r\<rparr>))"

fun knowledge_text :: "(pyval \<Rightarrow> string) \<Rightarrow> pyval \<Rightarrow> string" where
  "knowledge_text js (PDict d) = js (PDict d)"
| "knowledge_text js (PList xs) = js (PList xs)"
| "knowledge_text js v = py_str v"

definition store_code_knowledge :: "'r memory_env \<Rightarrow> redis_memory \<Rightarrow> link \<Rightarrow> string \<Rightarrow> pydict \<Rightarrow> ('r memory_world, unit) act" where
  "store_code_knowledge env m l project_key knowledge =
     memory_hset env m l (knowledge_key m project_key ''knowledge'') (map (\<lambda>(k, v). (k, knowledge_text (me_dumps env) v)) knowledge)"

definition get_code_knowledge :: "'r memory_env \<Rightarrow> redis_memory \<Rightarrow> link \<Rightarrow> string \<Rightarrow> ('r memory_world, (string \<times> string) list) act" where
  "get_code_knowledge env m l project_key =
     memory_read env m l [] (mc_hgetall (me_server env) (knowledge_key m project_key ''knowledge''))"

definition store_file_summary :: "'r memory_env \<Rightarrow> redis_memory \<Rightarrow> link \<Rightarrow> string \<Rightarrow> string \<Rightarrow> string \<Rightarrow> ('r memory_world, unit) act" where
  "store_file_summary env m l project_key file_path summary =
     memory_hset env m l (knowledge_key m project_key ''file_summaries'') [(file_path, summary)]"

definition get_file_summaries :: "'r memory_env \<Rightarrow> redis_memory \<Rightarrow> link \<Rightarrow> string \<Rightarrow> ('r memory_world, (string \<times> string) list) act" where
  "get_file_summaries env m l project_key =
     memory_read env m l [] (mc_hgetall (me_server env) (knowledge_key m project_key ''file_summaries''))"

definition fix_separator :: string where
  "fix_separator = char_of (10 :: nat) # ''---'' @ [char_of (10 :: nat)]"

text \<open>\<open>text.split(sep, 1)[-1]\<close>.\<close>

definition after_first :: "string \<Rightarrow> string \<Rightarrow> string" where
  "after_first sep s = (case find_sub sep s of Some i \<Rightarrow> drop (i + length sep) s | None \<Rightarrow> s)"

definition store_error_pattern :: "'r memory_env \<Rightarrow> redis_memory \<Rightarrow> link \<Rightarrow> string \<Rightarrow> string \<Rightarrow> string \<Rightarrow> ('r memory_world, unit) act" where
  "store_error_pattern env m l project_key err fx =
     memory_hset env m l (knowledge_key m project_key ''error_fixes'') [(take 12 (me_md5 env err), err @ fix_separator @ fx)]"

definition get_error_fixes :: "'r memory_env \<Rightarrow> redis_memory \<Rightarrow> link \<Rightarrow> string \<Rightarrow> string \<Rightarrow> ('r memory_world, string list) act" where
  "get_error_fixes env m l project_key err =
     bind (memory_read env m l None (mc_hget (me_server env) (knowledge_key m project_key ''error_fixes'') (take 12 (me_md5 env err)))) (\<lambda>raw.
       ret (case raw of Some s \<Rightarrow> if s = [] then [] else [after_first fix_separator s] | None \<Rightarrow> []))"

section \<open>Extracting knowledge\<close>

text \<open>\<open>ask\<close> is the client's \<open>generate\<close>, when there is a client.\<close>

type_synonym 'w asker = "string \<Rightarrow> string \<Rightarrow> ('w, string) act"

definition file_summary_prompt :: string where
  "file_summary_prompt = ''Summarize this source file in 2-3 sentences. Include: what it does, '' @
     ''key classes/functions, and dependencies. Be concise and factual.''"

definition architecture_prompt :: string where
  "architecture_prompt = ''Given this project'' @ [char_of (39 :: nat)] @ ''s code index summary, extract: '' @
     ''1. Overall architecture pattern 2. Key modules and their responsibilities '' @ ''3. Entry points and data flow. '' @
     ''Respond as JSON: {'' @ [char_of (34 :: nat)] @ ''architecture'' @ [char_of (34 :: nat)] @ '': str, '' @ [char_of (34 :: nat)] @
     ''modules'' @ [char_of (34 :: nat)] @ '': [str], '' @ [char_of (34 :: nat)] @ ''entry_points'' @ [char_of (34 :: nat)] @
     '': [str], '' @ [char_of (34 :: nat)] @ ''data_flow'' @ [char_of (34 :: nat)] @ '': str}''"

definition extract_file_summary :: "'w asker option \<Rightarrow> string \<Rightarrow> string \<Rightarrow> ('w, string) act" where
  "extract_file_summary ask file_path content =
     (let nl = [char_of (10 :: nat)] in
      case ask of None \<Rightarrow> ret []
      | Some asked \<Rightarrow>
          try_except
            (bind (asked (''File: '' @ file_path @ nl @ nl @ ''```'' @ nl @ take 3000 content @ nl @ ''```'') file_summary_prompt)
              (\<lambda>answer. ret (strip answer)))
            (\<lambda>e. ret []))"

definition extract_project_architecture :: "'w asker option \<Rightarrow> (string \<Rightarrow> string + pyval) \<Rightarrow> string \<Rightarrow> ('w, pyval) act" where
  "extract_project_architecture ask parse summary =
     (case ask of None \<Rightarrow> ret (PDict [])
      | Some asked \<Rightarrow>
          if summary = [] then ret (PDict [])
          else try_except
            (bind (asked summary architecture_prompt) (\<lambda>raw.
               lift_result (case parse raw of Inr v \<Rightarrow> Inr v | Inl m \<Rightarrow> Inl (ValueError m))))
            (\<lambda>e. ret (PDict [])))"

section \<open>Asking back\<close>

record clarification_question =
  cq_question :: pyval
  cq_options :: pyval
  cq_context :: pyval
  cq_stage :: pyval

definition clarification_prompt :: string where
  "clarification_prompt = ''You are a requirements clarification assistant. '' @
     ''Given a user request and the current stage, determine if the request is clear enough to proceed. '' @
     ''Respond with JSON: {'' @ [char_of (34 :: nat)] @ ''needs_clarification'' @ [char_of (34 :: nat)] @ '': bool, '' @
     [char_of (34 :: nat)] @ ''question'' @ [char_of (34 :: nat)] @ '': str?, '' @ [char_of (34 :: nat)] @ ''options'' @
     [char_of (34 :: nat)] @ '': [str]?, '' @ [char_of (34 :: nat)] @ ''context'' @ [char_of (34 :: nat)] @ '': str?, '' @
     [char_of (34 :: nat)] @ ''stage'' @ [char_of (34 :: nat)] @ '': str?}''"

text \<open>The world is the list of turns beside what the model's client works on. What \<open>generate\<close>, \<open>json.dumps\<close> and
  \<open>json.loads\<close> raise ends in no question, but the answer is read outside of the \<open>try\<close>.\<close>

definition read_clarification :: "string \<Rightarrow> pyval \<Rightarrow> clarification_question option result" where
  "read_clarification stage v =
     (case v of
        PDict d \<Rightarrow>
          if \<not> truthy (dget d ''needs_clarification'') then Inr None
          else Inr (Some \<lparr>cq_question = dget_or d ''question'' (PStr ''Could you clarify your request?''),
                  cq_options = dget d ''options'', cq_context = dget_or d ''context'' (PStr []),
                  cq_stage = dget_or d ''stage'' (PStr stage)\<rparr>)
      | _ \<Rightarrow> Inl (NamedError ''AttributeError'' (quote_text (type_name v) @ '' object has no attribute '' @ quote_text ''get'')))"

definition dialogue_turn :: "string \<Rightarrow> ('w \<times> string list, unit) act" where
  "dialogue_turn content = modify (\<lambda>(w, turns). (w, turns @ [content]))"

definition on_client :: "('w, 'a) act \<Rightarrow> ('w \<times> 't, 'a) act" where
  "on_client m = (\<lambda>(w, t). let (r, w') = m w in (r, (w', t)))"

definition needs_clarification ::
  "'w asker option \<Rightarrow> (pydict \<Rightarrow> string result) \<Rightarrow> (string \<Rightarrow> string + pyval) \<Rightarrow> string \<Rightarrow> string \<Rightarrow> pydict
    \<Rightarrow> ('w \<times> string list, clarification_question option) act" where
  "needs_clarification ask js parse prompt stage context =
     (case ask of None \<Rightarrow> ret None
      | Some asked \<Rightarrow>
          bind (lift_result (js context)) (\<lambda>shown.
          let nl = [char_of (10 :: nat)];
              user_msg = ''Stage: '' @ stage @ nl @ ''Context: '' @ take 500 shown @ nl @ ''User request: '' @ prompt in
          next_act (dialogue_turn prompt)
          (bind (try_except
             (bind (on_client (asked user_msg clarification_prompt)) (\<lambda>raw.
                ret (case parse raw of Inr v \<Rightarrow> Some v | Inl _ \<Rightarrow> None)))
             (\<lambda>e. ret None)) (\<lambda>answer.
             case answer of None \<Rightarrow> ret None | Some v \<Rightarrow> lift_result (read_clarification stage v)))))"

text \<open>The words in between are Chinese: additional information.\<close>

definition incorporate_clarification :: "string \<Rightarrow> string \<Rightarrow> ('w \<times> string list, string) act" where
  "incorporate_clarification original_prompt answer =
     next_act (dialogue_turn answer)
       (ret (original_prompt @ '' ('' @
         map char_of [0xE8 :: nat, 0xA1, 0xA5, 0xE5, 0x85, 0x85, 0xE8, 0xAF, 0xB4, 0xE6, 0x98, 0x8E] @ '': '' @ answer @ '')''))"

definition summarize_context :: "int \<Rightarrow> string list \<Rightarrow> string" where
  "summarize_context max_turns turns =
     join [char_of (10 :: nat)]
       (map (\<lambda>c. ''user: '' @ c) (if 0 < max_turns then last_n (nat max_turns) turns else drop (nat (- max_turns)) turns))"

section \<open>A bounded log of records\<close>

lemma last_n_append: "last_n n (last_n n xs @ ys) = last_n n (xs @ ys)"
  by (cases "length xs \<le> n") (simp_all add: last_n_def add.commute)

lemma last_n_last_n: "last_n a (last_n b xs) = last_n (min a b) xs"
  by (cases "length xs \<le> b"; cases "a \<le> b") (simp_all add: last_n_def)

lemma length_last_records: "length (last_n n xs) = min n (length xs)"
  by (simp add: last_n_def)

lemma last_n_map: "last_n n (map f xs) = map f (last_n n xs)"
  by (simp add: last_n_def drop_map)

lemma last_n_Nil [simp]: "last_n n [] = []"
  by (simp add: last_n_def)

definition entries_for :: "'k \<Rightarrow> ('k \<times> 'x) list \<Rightarrow> 'x list" where
  "entries_for j calls = map snd (filter (\<lambda>c. fst c = j) calls)"

text \<open>What a memory promises to those who write to it: for each key the latest \<open>cap\<close> entries, in order.\<close>

locale record_log =
  fixes held :: "'s \<Rightarrow> 'k \<Rightarrow> 'x list" and add :: "'k \<Rightarrow> 'x \<Rightarrow> 's \<Rightarrow> 's" and cap :: nat
  assumes held_add: "held (add k x s) j = (if j = k then last_n cap (held s j @ [x]) else held s j)"
begin

lemma held_adds:
  "length (held s j) \<le> cap \<Longrightarrow>
     held (fold (\<lambda>(k, x). add k x) calls s) j = last_n cap (held s j @ entries_for j calls)"
proof (induction calls arbitrary: s)
  case Nil
  then show ?case by (simp add: entries_for_def last_n_def)
next
  case (Cons c calls)
  obtain k x where c: "c = (k, x)" by fastforce
  have "length (held (add k x s) j) \<le> cap" using Cons.prems by (simp add: held_add length_last_records)
  from Cons.IH [OF this] show ?case
    using last_n_append [of cap "held s j @ [x]"] by (cases "j = k") (simp_all add: c held_add entries_for_def)
qed

end

interpretation local_records: record_log mw_local "append_local m" "nat (rm_max_entries m)"
  by unfold_locales (simp add: append_local_def push_bounded_def)

text \<open>What is documented of the commands, with \<open>lst k r\<close> the list that the server holds for \<open>k\<close>.\<close>

definition memory_server_laws :: "'r memory_server \<Rightarrow> (string \<Rightarrow> 'r \<Rightarrow> string list) \<Rightarrow> bool" where
  "memory_server_laws srv lst \<longleftrightarrow>
     (\<forall>k x r j. lst j (mc_rpush srv k x r) = (if j = k then lst j r @ [x] else lst j r)) \<and>
     (\<forall>k n r j. 0 < n \<longrightarrow> lst j (mc_ltrim srv k (- n) (- 1) r) = (if j = k then last_n (nat n) (lst j r) else lst j r)) \<and>
     (\<forall>k n r. 0 < n \<longrightarrow> mc_lrange srv k (- n) (- 1) r = last_n (nat n) (lst k r))"

definition append_redis :: "'r memory_env \<Rightarrow> redis_memory \<Rightarrow> string \<Rightarrow> string \<Rightarrow> 'r memory_world \<Rightarrow> 'r memory_world" where
  "append_redis env m key encoded w =
     w\<lparr>mw_server := mc_ltrim (me_server env) key (- rm_max_entries m) (- 1) (mc_rpush (me_server env) key encoded (mw_server w))\<rparr>"

lemma redis_records:
  assumes "memory_server_laws (me_server env) lst" "0 < rm_max_entries m"
  shows "record_log (\<lambda>w k. lst k (mw_server w)) (append_redis env m) (nat (rm_max_entries m))"
  using assms by unfold_locales (simp add: append_redis_def memory_server_laws_def)

text \<open>The list of a key, wherever the memory keeps it.\<close>

definition held_raw :: "(string \<Rightarrow> 'r \<Rightarrow> string list) \<Rightarrow> redis_memory \<Rightarrow> 'r memory_world \<Rightarrow> string \<Rightarrow> string list" where
  "held_raw lst m w key = (if rm_enabled m then lst key (mw_server w) else mw_local w key)"

definition add_raw :: "'r memory_env \<Rightarrow> redis_memory \<Rightarrow> string \<Rightarrow> string \<Rightarrow> 'r memory_world \<Rightarrow> 'r memory_world" where
  "add_raw env m = (if rm_enabled m then append_redis env m else append_local m)"

lemma append_record_ok:
  "append_record env m LinkOk LinkOk k rc w = add_raw env m (memory_key m k) (encode_record env rc) w"
  by (simp add: append_record_def add_raw_def append_redis_def Let_def)

lemma all_records:
  assumes "rm_enabled m \<longrightarrow> memory_server_laws (me_server env) lst" "0 < rm_max_entries m"
  shows "record_log (held_raw lst m) (add_raw env m) (nat (rm_max_entries m))"
proof (cases "rm_enabled m")
  case True
  with redis_records assms show ?thesis by (simp add: held_raw_def [abs_def] add_raw_def)
next
  case False
  then show ?thesis using local_records.record_log_axioms by (simp add: held_raw_def [abs_def] add_raw_def)
qed

lemma appends_fold:
  "fold (\<lambda>(k, rc). append_record env m LinkOk LinkOk k rc) calls w =
     fold (\<lambda>(k, x). add_raw env m k x) (map (\<lambda>(k, rc). (memory_key m k, encode_record env rc)) calls) w"
  by (induction calls arbitrary: w) (auto simp: append_record_ok)

definition stamped :: "'r memory_env \<Rightarrow> pydict \<Rightarrow> pydict" where
  "stamped env rc = (if has_key rc ''timestamp'' then rc else rc @ [(''timestamp'', PStr (me_timestamp env))])"

lemma decode_encoded:
  assumes "\<And>d. me_loads env (me_dumps env (PDict d)) = Some (PDict (nf d))"
  shows "decode_records (me_loads env) (map (encode_record env) rcs) = map (nf \<circ> stamped env) rcs"
  by (induction rcs) (simp_all add: encode_record_def stamped_def assms)

text \<open>C26. Whether it keeps them in Redis or in the process, the memory gives back the latest records of a project, in
  order and with their time, at most as many as were asked for and as it may keep: while all calls get
  through, and for all names that the project goes by after their normalisation.\<close>

theorem memory_recalls_latest:
  assumes "rm_enabled m \<longrightarrow> memory_server_laws (me_server env) lst" "0 < rm_max_entries m"
    and "\<And>d. me_loads env (me_dumps env (PDict d)) = Some (PDict (nf d))"
    and "held_raw lst m w (memory_key m project) = []"
  shows "fst (recent_records env m LinkOk project limit (fold (\<lambda>(k, rc). append_record env m LinkOk LinkOk k rc) calls w)) =
    map (nf \<circ> stamped env) (last_n (nat (min (max 1 limit) (rm_max_entries m)))
      (map snd (filter (\<lambda>(k, _). normalize_project_key k = normalize_project_key project) calls)))"
proof -
  let ?key = "memory_key m project" and ?cap = "nat (rm_max_entries m)"
  let ?enc = "map (\<lambda>(k, rc). (memory_key m k, encode_record env rc)) calls"
  let ?mine = "map snd (filter (\<lambda>(k, _). normalize_project_key k = normalize_project_key project) calls)"
  let ?w = "fold (\<lambda>(k, rc). append_record env m LinkOk LinkOk k rc) calls w"
  have mine: "entries_for ?key ?enc = map (encode_record env) ?mine"
    by (induction calls) (auto simp: entries_for_def memory_key_def)
  have held: "held_raw lst m ?w ?key = last_n ?cap (map (encode_record env) ?mine)"
    using record_log.held_adds [OF all_records [OF assms(1,2)], of w ?key ?enc] assms(4)
    by (simp add: appends_fold mine)
  have raw: "fst (recent_raw env m LinkOk ?key (max 1 limit) ?w) = last_n (nat (max 1 limit)) (held_raw lst m ?w ?key)"
    using assms(1) by (simp add: recent_raw_def held_raw_def memory_server_laws_def)
  have "min (nat a) (nat b) = nat (min a b)" for a b :: int by (auto simp: min_def)
  then show ?thesis
    unfolding recent_records_def Let_def prod.case_eq_if fst_conv raw held last_n_last_n last_n_map decode_encoded [OF assms(3)]
    by simp
qed

text \<open>C27. A record that is appended while Redis is not reached goes to the store of the process, which nobody reads while Redis
  is enabled: whatever is asked for afterwards, the answers are those from before. When only the reply of the
  first call is lost, the record is kept twice.\<close>

theorem outage_record_is_never_read:
  assumes "rm_enabled m" "0 < rm_max_entries m"
  shows "fst (recent_records env m l project limit (append_record env m LinkDown l2 k rc w)) =
      fst (recent_records env m l project limit w) \<and>
    encode_record env rc \<in> set (mw_local (append_record env m LinkDown l2 k rc w) (memory_key m k)) \<and>
    (memory_server_laws (me_server env) lst \<longrightarrow>
       (let w' = append_record env m ReplyLost l2 k rc w in
        encode_record env rc \<in> set (mw_local w' (memory_key m k)) \<and>
        lst (memory_key m k) (mw_server w') = lst (memory_key m k) (mw_server w) @ [encode_record env rc]))"
proof -
  have last: "x \<in> set (push_bounded (nat (rm_max_entries m)) x xs)" for x :: string and xs
    using assms(2) by (simp add: push_bounded_def last_n_def in_set_conv_decomp)
  have down: "append_record env m LinkDown l2 k rc w = append_local m (memory_key m k) (encode_record env rc) w"
    using assms(1) by (simp add: append_record_def Let_def)
  have same: "fst (recent_raw env m l key n (append_local m k' x w)) = fst (recent_raw env m l key n w)" for key n k' x
    using assms(1) by (cases l) (simp_all add: recent_raw_def append_local_def)
  have lost: "append_record env m ReplyLost l2 k rc w = append_local m (memory_key m k) (encode_record env rc)
      (w\<lparr>mw_server := mc_rpush (me_server env) (memory_key m k) (encode_record env rc) (mw_server w)\<rparr>)"
    using assms(1) by (simp add: append_record_def Let_def)
  show ?thesis
    unfolding recent_records_def Let_def prod.case_eq_if fst_conv down same lost
    by (auto simp: append_local_def last memory_server_laws_def)
qed

section \<open>Asking back\<close>

text \<open>An answer that is JSON but no object, a list for example, leaves \<open>needs_clarification\<close> as an AttributeError.\<close>

lemma clarification_not_an_object:
  assumes "js context = Inr shown" "\<And>p s w. asked p s w = (Inr raw, w)" "parse raw = Inr (PList xs)"
  shows "\<exists>e w'. needs_clarification (Some asked) js parse prompt stage context w = (Inl e, w') \<and> is_Exception e"
  using assms
  by (cases w) (simp add: needs_clarification_def lift_result_def bind_def next_act_def dialogue_turn_def modify_def
      catching_def on_client_def ret_def read_clarification_def)

section \<open>Examples\<close>

text \<open>A server that holds lists and tables of texts, and a codec that knows two records.\<close>

definition list_memory_server :: "(string \<Rightarrow> string list) memory_server" where
  "list_memory_server = \<lparr>mc_rpush = (\<lambda>k x r. r(k := r k @ [x])), mc_ltrim = (\<lambda>k a b r. r(k := last_n (nat (- a)) (r k))),
     mc_lrange = (\<lambda>k a b r. last_n (nat (- a)) (r k)), mc_hset = (\<lambda>k items r. (Inr (), r)),
     mc_hgetall = (\<lambda>k r. []), mc_hget = (\<lambda>k f r. None)\<rparr>"

lemma list_memory_server_laws: "memory_server_laws list_memory_server (\<lambda>k r. r k)"
  by (simp add: memory_server_laws_def list_memory_server_def)

definition list_memory_env :: "(string \<Rightarrow> string list) memory_env" where
  "list_memory_env = \<lparr>me_server = list_memory_server, me_dumps = py_str, me_loads = (\<lambda>s. Some (PDict [])),
     me_timestamp = ''now'', me_md5 = (\<lambda>s. s), me_link_error = RuntimeError ''no Redis''\<rparr>"

definition sample_memory :: redis_memory where
  "sample_memory = \<lparr>rm_namespace = ''autocode:memory'', rm_max_entries = 2, rm_client = True, rm_enabled = True\<rparr>"

definition sample_memory_world :: "(string \<Rightarrow> string list) memory_world" where
  "sample_memory_world = \<lparr>mw_server = (\<lambda>k. []), mw_local = (\<lambda>k. [])\<rparr>"

lemma memory_recalls_latest_witness:
  "length (fst (recent_records list_memory_env sample_memory LinkOk ''P 1'' 5
     (fold (\<lambda>(k, rc). append_record list_memory_env sample_memory LinkOk LinkOk k rc)
       [(''p_1'', []), (''p 1'', []), (''P 1'', []), (''q'', [])] sample_memory_world))) = 2"
proof -
  have n: "normalize_project_key ''p_1'' = ''p_1''" "normalize_project_key ''p 1'' = ''p_1''"
    "normalize_project_key ''P 1'' = ''p_1''" "normalize_project_key ''q'' = ''q''"
    by code_simp+
  have l: "rm_enabled sample_memory \<longrightarrow> memory_server_laws (me_server list_memory_env) (\<lambda>k r. r k)"
    by (simp add: list_memory_env_def list_memory_server_laws)
  show ?thesis
    using memory_recalls_latest [OF l, where nf = "\<lambda>d. []" and project = "''P 1''" and limit = 5 and w = sample_memory_world
        and calls = "[(''p_1'', []), (''p 1'', []), (''P 1'', []), (''q'', [])]"]
    by (simp add: n sample_memory_def list_memory_env_def held_raw_def sample_memory_world_def length_last_records)
qed

lemma outage_record_is_never_read_witness:
  "fst (recent_records list_memory_env sample_memory LinkOk ''p'' 5
     (append_record list_memory_env sample_memory LinkDown LinkOk ''p'' [] sample_memory_world)) = []"
  using outage_record_is_never_read [of sample_memory list_memory_env LinkOk "''p''" 5 LinkOk "''p''" "[]" sample_memory_world]
  by (simp add: sample_memory_def sample_memory_world_def recent_records_def recent_raw_def list_memory_env_def
      list_memory_server_def)

end
