(* ===== verification/Agent_System.thy ===== *)
theory Agent_System
  imports Terminal_Events Coder_Agent Project_Memory
begin

text \<open>
  The agent as \<open>main.py\<close> and the constructor of the orchestrator put it together: the orchestrator with the intent,
  planner, coder and reviewer agents, the dialogue manager, the memory and the export of this development in their
  places. What is left open is outside of the program: the control plane, the model, the plugins and generators, the
  sandbox, and the clone of a repository, which no task reaches.
\<close>

section \<open>The parts together\<close>







text \<open>What is asked of the parts: they work on the same client of the control plane, which does not see their other
  work, nothing interrupts the model, and generators and plugins publish no terminal event.\<close>

definition seat_fits :: "'s llm_seat \<Rightarrow> ('s \<Rightarrow> pydict list) \<Rightarrow> bool" where
  "seat_fits seat rcv \<longleftrightarrow> seat_unseen seat rcv \<and> uninterrupted (st_env seat) (st_client seat)"


section \<open>Actions that may raise\<close>

text \<open>Like \<open>quiet\<close>, but the exception may have no text.\<close>

definition calm :: "string \<Rightarrow> ('s \<Rightarrow> pydict list) \<Rightarrow> ('s agent_world, 'a) act \<Rightarrow> bool" where
  "calm tid rcv m \<longleftrightarrow>
     (\<forall>ts. triple (settled tid rcv ts) m (\<lambda>_. settled tid rcv ts) (\<lambda>e w. is_Exception e \<and> settled tid rcv ts w))"

named_theorems calm_rules



lemma calm_basic [calm_rules]: "calm tid rcv (ret x)" "calm tid rcv (get_with f)" "is_Exception e \<Longrightarrow> calm tid rcv (throw e)"
  by (simp_all add: calm_def triple_ret triple_get triple_throw)

lemma calm_lift [calm_rules]: "(\<And>e. r = Inl e \<Longrightarrow> is_Exception e) \<Longrightarrow> calm tid rcv (lift_result r)"
  by (simp add: calm_def triple_lift)

lemma calm_bind [calm_rules]: "calm tid rcv m \<Longrightarrow> (\<And>a. calm tid rcv (f a)) \<Longrightarrow> calm tid rcv (bind m f)"
  by (auto simp: calm_def intro: triple_bind)

lemma calm_next [calm_rules]: "calm tid rcv m \<Longrightarrow> calm tid rcv n \<Longrightarrow> calm tid rcv (next_act m n)"
  by (simp add: next_act_def calm_bind)

lemma calm_if [calm_rules]: "calm tid rcv m \<Longrightarrow> calm tid rcv n \<Longrightarrow> calm tid rcv (if b then m else n)"
  by simp

lemma calm_prod [calm_rules]: "(\<And>a b. calm tid rcv (f a b)) \<Longrightarrow> calm tid rcv (case p of (a, b) \<Rightarrow> f a b)"
  by (cases p) simp

lemma settled_any_obs [simp]: "settled tid rcv ts (w\<lparr>aw_obs := ob\<rparr>) = settled tid rcv ts w"
  by (auto simp: settled_def stands_def event_types_def outbox_ok_def pending_outbox_def)

lemma settled_stable: "seat_unseen seat rcv \<Longrightarrow> seat_stable seat (settled tid rcv ts)"
  by (simp add: seat_stable_def seat_unseen_def settled_ext)



section \<open>The agents that ask the model\<close>



lemma on_llm_settled: "seat_unseen seat rcv \<Longrightarrow> settled tid rcv ts w \<Longrightarrow> settled tid rcv ts (snd (on_llm seat m w))"
  by (rule on_llm_keeps [OF settled_stable])

lemma calm_chat [calm_rules]:
  assumes "seat_fits seat rcv"
  shows "calm tid rcv (on_llm seat (chat (st_env seat) (st_client seat) messages))"
  unfolding calm_def
proof (intro allI tripleI)
  fix ts w e w' assume w: "settled tid rcv ts w" and c: "on_llm seat (chat (st_env seat) (st_client seat) messages) w = (Inl e, w')"
  have "is_Exception e" using c chat_Exception assms by (fastforce simp: on_llm_def seat_fits_def split: prod.splits)
  moreover have "settled tid rcv ts w'" using on_llm_settled [OF _ w] assms c unfolding seat_fits_def by (metis snd_conv)
  ultimately show "is_Exception e \<and> settled tid rcv ts w'" ..
next
  fix ts w a w' assume w: "settled tid rcv ts w" and c: "on_llm seat (chat (st_env seat) (st_client seat) messages) w = (Inr a, w')"
  show "settled tid rcv ts w'" using on_llm_settled [OF _ w] assms c unfolding seat_fits_def by (metis snd_conv)
qed




section \<open>The coder\<close>

















section \<open>The system\<close>











section \<open>Example\<close>













end
