(* ===== verification/Stack_Selector.thy ===== *)
theory Stack_Selector
  imports Prelude
begin

text \<open>
  The choice of a framework and a database for a project, \<open>generators/stack_selector.py\<close>: rules add to the scores
  of the candidates, an explicit preference adds ten, and the best of each kind is recommended with a confidence,
  reasons and two alternatives. The dictionaries of scores are functions on the candidates, whose order is that
  of \<open>frameworks\<close> and \<open>databases\<close>.
\<close>

section \<open>Candidates and requirements\<close>

datatype framework = FLASK | FASTAPI | DJANGO | EXPRESS

datatype database = SQLITE | POSTGRESQL | MONGODB

fun framework_value :: "framework \<Rightarrow> string" where
  "framework_value FLASK = ''flask''"
| "framework_value FASTAPI = ''fastapi''"
| "framework_value DJANGO = ''django''"
| "framework_value EXPRESS = ''express''"

fun database_value :: "database \<Rightarrow> string" where
  "database_value SQLITE = ''sqlite''"
| "database_value POSTGRESQL = ''postgresql''"
| "database_value MONGODB = ''mongodb''"

definition frameworks :: "framework list" where
  "frameworks = [FLASK, FASTAPI, DJANGO, EXPRESS]"

definition databases :: "database list" where
  "databases = [SQLITE, POSTGRESQL, MONGODB]"

record stack_requirements =
  rq_users :: int
  rq_response_ms :: int
  rq_admin :: bool
  rq_async :: bool
  rq_orm :: bool
  rq_docs :: bool
  rq_language :: string
  rq_experience :: string
  rq_platform :: string
  rq_database :: "string option"
  rq_framework :: "string option"
  rq_complexity :: string
  rq_prototyping :: bool
  rq_production :: bool

definition default_requirements :: stack_requirements where
  "default_requirements = \<lparr>rq_users = 100, rq_response_ms = 500, rq_admin = False, rq_async = False, rq_orm = True,
     rq_docs = False, rq_language = ''python'', rq_experience = ''intermediate'', rq_platform = ''docker'',
     rq_database = None, rq_framework = None, rq_complexity = ''simple'', rq_prototyping = True, rq_production = False\<rparr>"

record stack_scores =
  sc_framework :: "framework \<Rightarrow> rat"
  sc_database :: "database \<Rightarrow> rat"

record stack_recommendation =
  sr_framework :: framework
  sr_database :: database
  sr_confidence :: rat
  sr_reasoning :: "string list"
  sr_alternatives :: "(framework \<times> database \<times> string) list"

definition recommendation_to_dict :: "stack_recommendation \<Rightarrow> pydict" where
  "recommendation_to_dict r =
     [(''framework'', PStr (framework_value (sr_framework r))), (''database'', PStr (database_value (sr_database r))),
      (''confidence_score'', PFloat (sr_confidence r)), (''reasoning'', PList (map PStr (sr_reasoning r))),
      (''alternatives'', PList (map (\<lambda>(fw, db, reason). PDict
         [(''framework'', PStr (framework_value fw)), (''database'', PStr (database_value db)), (''reason'', PStr reason)])
         (sr_alternatives r)))]"

section \<open>Scoring\<close>

definition no_scores :: stack_scores where
  "no_scores = \<lparr>sc_framework = (\<lambda>_. 0), sc_database = (\<lambda>_. 0)\<rparr>"

definition add_framework :: "framework \<Rightarrow> rat \<Rightarrow> stack_scores \<Rightarrow> stack_scores" where
  "add_framework fw x s = s\<lparr>sc_framework := (sc_framework s)(fw := sc_framework s fw + x)\<rparr>"

definition add_database :: "database \<Rightarrow> rat \<Rightarrow> stack_scores \<Rightarrow> stack_scores" where
  "add_database db x s = s\<lparr>sc_database := (sc_database s)(db := sc_database s db + x)\<rparr>"

definition add_when :: "bool \<Rightarrow> (framework \<times> rat) list \<Rightarrow> (database \<times> rat) list \<Rightarrow> stack_scores \<Rightarrow> stack_scores" where
  "add_when b fws dbs s =
     (if b then fold (\<lambda>(db, x). add_database db x) dbs (fold (\<lambda>(fw, x). add_framework fw x) fws s) else s)"

definition score_by_language :: "stack_requirements \<Rightarrow> stack_scores \<Rightarrow> stack_scores" where
  "score_by_language rq s =
     add_when (rq_language rq = ''javascript'') [(EXPRESS, 3)] []
     (add_when (rq_language rq = ''python'') [(FLASK, 2), (FASTAPI, 2), (DJANGO, 2)] [] s)"

definition score_by_performance :: "stack_requirements \<Rightarrow> stack_scores \<Rightarrow> stack_scores" where
  "score_by_performance rq s =
     add_when (rq_async rq) [(FASTAPI, 3), (EXPRESS, 2), (DJANGO, 1)] []
     (add_when (rq_users rq > 1000 \<or> rq_response_ms rq < 200)
        [(FASTAPI, 3), (EXPRESS, 5 / 2), (FLASK, 1), (DJANGO, 1 / 2)]
        [(POSTGRESQL, 3), (MONGODB, 2), (SQLITE, 1 / 2)] s)"

definition score_by_features :: "stack_requirements \<Rightarrow> stack_scores \<Rightarrow> stack_scores" where
  "score_by_features rq s =
     add_when (rq_orm rq) [(DJANGO, 2), (FASTAPI, 3 / 2), (FLASK, 3 / 2), (EXPRESS, 1)] []
     (add_when (rq_docs rq) [(FASTAPI, 3), (DJANGO, 2), (EXPRESS, 1)] []
     (add_when (rq_admin rq) [(DJANGO, 5), (FLASK, 1 / 2), (FASTAPI, 1 / 2)] [] s))"

definition score_by_experience :: "stack_requirements \<Rightarrow> stack_scores \<Rightarrow> stack_scores" where
  "score_by_experience rq s =
     add_when (rq_experience rq = ''advanced'') [(FASTAPI, 2), (DJANGO, 3 / 2)] [(POSTGRESQL, 2), (MONGODB, 3 / 2)]
     (add_when (rq_experience rq = ''beginner'') [(FLASK, 2), (EXPRESS, 2), (DJANGO, 1), (FASTAPI, 3 / 2)]
        [(SQLITE, 2), (POSTGRESQL, 1), (MONGODB, 1)] s)"

definition score_by_project :: "stack_requirements \<Rightarrow> stack_scores \<Rightarrow> stack_scores" where
  "score_by_project rq s =
     add_when (rq_complexity rq = ''simple'') [(FLASK, 2), (EXPRESS, 2)] [(SQLITE, 2)]
     (add_when (rq_complexity rq = ''complex'') [(DJANGO, 4), (FASTAPI, 2)] [(POSTGRESQL, 2)]
     (add_when (rq_production rq) [(DJANGO, 2), (FASTAPI, 3 / 2)] [(POSTGRESQL, 3), (MONGODB, 2)]
     (add_when (rq_prototyping rq) [(FLASK, 2), (FASTAPI, 2), (EXPRESS, 2)] [(SQLITE, 2)] s)))"

definition score_by_platform :: "stack_requirements \<Rightarrow> stack_scores \<Rightarrow> stack_scores" where
  "score_by_platform rq s =
     add_when (rq_platform rq = ''docker'') [] [(POSTGRESQL, 3 / 2), (MONGODB, 3 / 2)]
     (add_when (rq_platform rq = ''serverless'') [(FASTAPI, 2), (EXPRESS, 2), (FLASK, 3 / 2)]
        [(MONGODB, 2), (POSTGRESQL, 1)] s)"

text \<open>\<open>Framework(text.lower())\<close> and \<open>Database(text.lower())\<close>; an unknown or empty name is ignored.\<close>

definition find_framework :: "string option \<Rightarrow> framework option" where
  "find_framework t = (case t of None \<Rightarrow> None | Some s \<Rightarrow> find (\<lambda>fw. framework_value fw = lower s) frameworks)"

definition find_database :: "string option \<Rightarrow> database option" where
  "find_database t = (case t of None \<Rightarrow> None | Some s \<Rightarrow> find (\<lambda>db. database_value db = lower s) databases)"

definition apply_explicit_preferences :: "stack_requirements \<Rightarrow> stack_scores \<Rightarrow> stack_scores" where
  "apply_explicit_preferences rq s =
     (let s1 = (case find_framework (rq_framework rq) of None \<Rightarrow> s | Some fw \<Rightarrow> add_framework fw 10 s)
      in case find_database (rq_database rq) of None \<Rightarrow> s1 | Some db \<Rightarrow> add_database db 10 s1)"

definition total_scores :: "stack_requirements \<Rightarrow> stack_scores" where
  "total_scores rq =
     apply_explicit_preferences rq (score_by_platform rq (score_by_project rq (score_by_experience rq
       (score_by_features rq (score_by_performance rq (score_by_language rq no_scores))))))"

section \<open>The recommendation\<close>

definition margin :: "rat list \<Rightarrow> rat" where
  "margin xs = (case rev (sort xs) of a # b # _ \<Rightarrow> (a - b) / max a 1 | _ \<Rightarrow> 1)"

definition calculate_confidence :: "stack_scores \<Rightarrow> rat" where
  "calculate_confidence s =
     min (max ((margin (map (sc_framework s) frameworks) + margin (map (sc_database s) databases)) / 2) 0) 1"

definition framework_reasons :: "stack_requirements \<Rightarrow> framework \<Rightarrow> string list" where
  "framework_reasons rq fw =
     (case fw of
        FLASK \<Rightarrow> [''Flask selected for its simplicity and flexibility''] @
          (if rq_prototyping rq then [''Flask is excellent for rapid prototyping''] else [])
      | FASTAPI \<Rightarrow> [''FastAPI selected for modern async support and automatic API documentation''] @
          (if rq_async rq then [''FastAPI provides native async/await support''] else []) @
          (if rq_docs rq then [''FastAPI generates interactive API documentation automatically''] else [])
      | DJANGO \<Rightarrow> [''Django selected for its batteries-included approach''] @
          (if rq_admin rq then [''Django provides a powerful built-in admin interface''] else []) @
          (if rq_complexity rq = ''complex'' then [''Django is well-suited for complex applications''] else [])
      | EXPRESS \<Rightarrow> [''Express.js selected for its minimalist and flexible design''] @
          (if rq_language rq = ''javascript'' then [''Express.js matches team'' @ [char_of (39 :: nat)] @ ''s JavaScript preference''] else []))"

definition database_reasons :: "stack_requirements \<Rightarrow> database \<Rightarrow> string list" where
  "database_reasons rq db =
     (case db of
        SQLITE \<Rightarrow> [''SQLite selected for easy setup and zero configuration''] @
          (if rq_prototyping rq then [''SQLite is perfect for prototyping and development''] else [])
      | POSTGRESQL \<Rightarrow> [''PostgreSQL selected for production-grade reliability and features''] @
          (if rq_production rq then [''PostgreSQL is battle-tested for production workloads''] else []) @
          (if rq_users rq > 1000 then [''PostgreSQL handles high concurrency well''] else [])
      | MONGODB \<Rightarrow> [''MongoDB selected for flexible schema and scalability''] @
          (if rq_platform rq = ''serverless'' then [''MongoDB works well with serverless architectures''] else []))"

definition generate_reasoning :: "stack_requirements \<Rightarrow> framework \<Rightarrow> database \<Rightarrow> string list" where
  "generate_reasoning rq fw db = framework_reasons rq fw @ database_reasons rq db"

definition generate_alternatives :: "stack_scores \<Rightarrow> framework \<Rightarrow> database \<Rightarrow> (framework \<times> database \<times> string) list" where
  "generate_alternatives s fw db =
     (let fws = take 2 (sort_desc (sc_framework s) (filter (\<lambda>x. x \<noteq> fw) frameworks));
          dbs = take 2 (sort_desc (sc_database s) (filter (\<lambda>x. x \<noteq> db) databases))
      in take 2
        ((if fws \<noteq> [] \<and> dbs \<noteq> []
          then [(hd fws, hd dbs, ''Alternative with '' @ framework_value (hd fws) @ '' and '' @ database_value (hd dbs))] else []) @
         (if length fws > 1 \<and> dbs \<noteq> []
          then [(fws ! 1, db, ''Keep '' @ database_value db @ '' but use '' @ framework_value (fws ! 1) @ '' framework'')] else [])))"

definition select_stack :: "stack_requirements \<Rightarrow> stack_recommendation" where
  "select_stack rq =
     (let s = total_scores rq;
          fw = max_by (sc_framework s) (hd frameworks) (tl frameworks);
          db = max_by (sc_database s) (hd databases) (tl databases)
      in \<lparr>sr_framework = fw, sr_database = db, sr_confidence = calculate_confidence s,
          sr_reasoning = generate_reasoning rq fw db, sr_alternatives = generate_alternatives s fw db\<rparr>)"

definition prompt_has :: "string \<Rightarrow> string list \<Rightarrow> bool" where
  "prompt_has prompt ws = list_ex (\<lambda>v. contains v (lower prompt)) ws"

definition prompt_complexity :: "string \<Rightarrow> string" where
  "prompt_complexity prompt =
     (if prompt_has prompt [''complex'', ''enterprise'', ''large-scale''] then ''complex''
      else if prompt_has prompt [''moderate'', ''medium''] then ''moderate'' else ''simple'')"

definition select_optimal_stack ::
  "string \<Rightarrow> int \<Rightarrow> bool \<Rightarrow> bool \<Rightarrow> string \<Rightarrow> string option \<Rightarrow> string option \<Rightarrow> stack_recommendation" where
  "select_optimal_stack prompt users admin async language framework_hint database_hint =
     select_stack (default_requirements\<lparr>rq_users := users, rq_admin := admin, rq_async := async, rq_language := language,
       rq_framework := framework_hint, rq_database := database_hint, rq_complexity := prompt_complexity prompt,
       rq_production := prompt_has prompt [''production'', ''deploy'', ''scale''],
       rq_prototyping := prompt_has prompt [''prototype'', ''quick'', ''mvp'', ''demo'']\<rparr>)"

section \<open>The best candidates\<close>

lemma max_frameworks: "sc fw \<le> sc (max_by sc (hd frameworks) (tl frameworks))" for sc :: "framework \<Rightarrow> rat"
  by (rule max_by_ge) (cases fw; simp add: frameworks_def)

lemma max_databases: "sc db \<le> sc (max_by sc (hd databases) (tl databases))" for sc :: "database \<Rightarrow> rat"
  by (rule max_by_ge) (cases db; simp add: databases_def)

lemma best_others:
  assumes "length xs = n" "2 \<le> n" "distinct xs"
  obtains a b rest where "sort_desc f xs = a # b # rest" "set (a # b # rest) = set xs" "a \<noteq> b"
    "\<forall>x\<in>set xs. f x \<le> f a" "\<forall>x\<in>set xs - {a}. f x \<le> f b"
proof -
  have l: "length (sort_desc f xs) = n" by (simp add: assms(1))
  obtain a b rest where s: "sort_desc f xs = a # b # rest"
    by (cases "sort_desc f xs"; cases "tl (sort_desc f xs)") (use l assms(2) in auto)
  have "distinct (sort_desc f xs)" using assms(3) by (simp add: sort_desc_def)
  then have "a \<noteq> b" by (simp add: s)
  moreover have set: "set xs = set (a # b # rest)" using set_sort_desc [of f xs] by (simp add: s)
  moreover have "\<forall>x\<in>set (b # rest). f x \<le> f a" "\<forall>x\<in>set rest. f x \<le> f b"
    using sort_desc_sorted [of f xs] by (simp_all add: s)
  ultimately show thesis by (intro that [OF s]) auto
qed

lemma other_candidates:
  "length (filter (\<lambda>x. x \<noteq> fw) frameworks) = 3" "distinct (filter (\<lambda>x. x \<noteq> fw) frameworks)"
  "set (filter (\<lambda>x. x \<noteq> fw) frameworks) = UNIV - {fw}"
  "length (filter (\<lambda>x. x \<noteq> db) databases) = 2" "distinct (filter (\<lambda>x. x \<noteq> db) databases)"
  "set (filter (\<lambda>x. x \<noteq> db) databases) = UNIV - {db}"
proof -
  have fws: "x \<in> set frameworks" for x by (cases x) (simp_all add: frameworks_def)
  have dbs: "x \<in> set databases" for x by (cases x) (simp_all add: databases_def)
  show "length (filter (\<lambda>x. x \<noteq> fw) frameworks) = 3" by (cases fw) (simp_all add: frameworks_def)
  show "length (filter (\<lambda>x. x \<noteq> db) databases) = 2" by (cases db) (simp_all add: databases_def)
  show "distinct (filter (\<lambda>x. x \<noteq> fw) frameworks)" "distinct (filter (\<lambda>x. x \<noteq> db) databases)"
    by (simp_all add: frameworks_def databases_def)
  show "set (filter (\<lambda>x. x \<noteq> fw) frameworks) = UNIV - {fw}" "set (filter (\<lambda>x. x \<noteq> db) databases) = UNIV - {db}"
    using fws dbs by auto
qed

text \<open>The recommended framework and database have the highest scores, and the confidence lies in [0, 1]. There are two
  alternatives: the best other framework with the best other database, and the second best other framework with
  the recommended database.\<close>

theorem recommended_stack_is_best:
  fixes rq :: stack_requirements
  defines "s \<equiv> total_scores rq" and "r \<equiv> select_stack rq"
  shows "(\<forall>fw. sc_framework s fw \<le> sc_framework s (sr_framework r)) \<and>
    (\<forall>db. sc_database s db \<le> sc_database s (sr_database r)) \<and> 0 \<le> sr_confidence r \<and> sr_confidence r \<le> 1 \<and>
    (\<exists>fw1 fw2 db1 t1 t2. sr_alternatives r = [(fw1, db1, t1), (fw2, sr_database r, t2)] \<and>
       distinct [sr_framework r, fw1, fw2] \<and> db1 \<noteq> sr_database r \<and>
       (\<forall>fw. fw \<noteq> sr_framework r \<longrightarrow> sc_framework s fw \<le> sc_framework s fw1) \<and>
       (\<forall>fw. fw \<notin> {sr_framework r, fw1} \<longrightarrow> sc_framework s fw \<le> sc_framework s fw2) \<and>
       (\<forall>db. db \<noteq> sr_database r \<longrightarrow> sc_database s db \<le> sc_database s db1))"
proof -
  let ?fw = "sr_framework r" and ?db = "sr_database r"
  obtain f1 f2 fs where f: "sort_desc (sc_framework s) (filter (\<lambda>x. x \<noteq> ?fw) frameworks) = f1 # f2 # fs"
    "set (f1 # f2 # fs) = UNIV - {?fw}" "f1 \<noteq> f2" "\<forall>x\<in>UNIV - {?fw}. sc_framework s x \<le> sc_framework s f1"
    "\<forall>x\<in>UNIV - {?fw} - {f1}. sc_framework s x \<le> sc_framework s f2"
    by (rule best_others [where f = "sc_framework s", OF other_candidates(1) [of ?fw] _ other_candidates(2)])
      (simp, unfold other_candidates(3), rule that, assumption+)
  obtain d1 d2 ds where d: "sort_desc (sc_database s) (filter (\<lambda>x. x \<noteq> ?db) databases) = d1 # d2 # ds"
    "set (d1 # d2 # ds) = UNIV - {?db}" "\<forall>x\<in>UNIV - {?db}. sc_database s x \<le> sc_database s d1"
    by (rule best_others [where f = "sc_database s", OF other_candidates(4) [of ?db] _ other_candidates(5)])
      (simp, unfold other_candidates(6), rule that, assumption+)
  have alt: "sr_alternatives r = generate_alternatives s ?fw ?db" by (simp add: r_def s_def select_stack_def Let_def)
  have "\<exists>t1 t2. sr_alternatives r = [(f1, d1, t1), (f2, ?db, t2)]"
    unfolding alt generate_alternatives_def f(1) d(1) by simp
  then obtain t1 t2 where alts: "sr_alternatives r = [(f1, d1, t1), (f2, ?db, t2)]" by blast
  have "f1 \<noteq> ?fw" "f2 \<noteq> ?fw" and db: "d1 \<noteq> ?db" using f(2) d(2) by auto
  then have dist: "distinct [?fw, f1, f2]" using f(3) by simp
  have others: "\<forall>fw. fw \<noteq> ?fw \<longrightarrow> sc_framework s fw \<le> sc_framework s f1"
    "\<forall>fw. fw \<notin> {?fw, f1} \<longrightarrow> sc_framework s fw \<le> sc_framework s f2"
    "\<forall>db. db \<noteq> ?db \<longrightarrow> sc_database s db \<le> sc_database s d1"
    using f(4,5) d(3) by simp_all
  have "0 \<le> sr_confidence r \<and> sr_confidence r \<le> 1" by (simp add: r_def select_stack_def calculate_confidence_def Let_def)
  moreover have "sc_framework s fw \<le> sc_framework s ?fw" for fw
    using max_frameworks [of "sc_framework s" fw] by (simp add: r_def s_def select_stack_def Let_def)
  moreover have "sc_database s db \<le> sc_database s ?db" for db
    using max_databases [of "sc_database s" db] by (simp add: r_def s_def select_stack_def Let_def)
  moreover note alts dist db others
  ultimately show ?thesis by blast
qed

section \<open>Hints\<close>

text \<open>What a rule adds to the score of one candidate.\<close>

definition share :: "('c \<times> rat) list \<Rightarrow> 'c \<Rightarrow> rat" where
  "share xs c = sum_list (map snd (filter (\<lambda>x. fst x = c) xs))"

lemma share_simps [simp]: "share [] c = 0" "share ((a, x) # xs) c = (if a = c then x else 0) + share xs c"
  by (simp_all add: share_def)

lemma fold_add_framework [simp]:
  "sc_framework (fold (\<lambda>(fw, x). add_framework fw x) fws s) fw = sc_framework s fw + share fws fw"
  "sc_database (fold (\<lambda>(fw, x). add_framework fw x) fws s) = sc_database s"
  by (induction fws arbitrary: s) (auto simp: add_framework_def)

lemma fold_add_database [simp]:
  "sc_database (fold (\<lambda>(db, x). add_database db x) dbs s) db = sc_database s db + share dbs db"
  "sc_framework (fold (\<lambda>(db, x). add_database db x) dbs s) = sc_framework s"
  by (induction dbs arbitrary: s) (auto simp: add_database_def)

lemma when_scores [simp]:
  "sc_framework (add_when b fws dbs s) fw = sc_framework s fw + (if b then share fws fw else 0)"
  "sc_database (add_when b fws dbs s) db = sc_database s db + (if b then share dbs db else 0)"
  by (simp_all add: add_when_def)

lemma preference_scores [simp]:
  "sc_framework (apply_explicit_preferences rq s) fw =
     sc_framework s fw + (if find_framework (rq_framework rq) = Some fw then 10 else 0)"
  "sc_database (apply_explicit_preferences rq s) db =
     sc_database s db + (if find_database (rq_database rq) = Some db then 10 else 0)"
  by (auto simp: apply_explicit_preferences_def Let_def add_framework_def add_database_def split: option.split)

lemmas total_scores_defs = total_scores_def default_requirements_def score_by_language_def
  score_by_performance_def score_by_features_def score_by_experience_def score_by_project_def score_by_platform_def
  no_scores_def

lemma select_database: "(\<And>d. d \<noteq> db \<Longrightarrow> sc_database (total_scores rq) d < sc_database (total_scores rq) db) \<Longrightarrow>
    sr_database (select_stack rq) = db"
  using max_databases [of "sc_database (total_scores rq)" db]
  by (simp add: select_stack_def Let_def) (metis leD)

text \<open>C16. A database named to \<open>select_optimal_stack\<close> is chosen, whatever the other arguments are. A framework is not: for a
  complex product with an admin interface Django beats the Flask that was asked for.\<close>

theorem database_hint_is_obeyed:
  assumes "find_database database_hint = Some db"
  shows "sr_database (select_optimal_stack prompt users admin async language framework_hint database_hint) = db \<and>
    sr_framework (select_optimal_stack ''complex production system'' 2000 True True ''python'' (Some ''flask'') database_hint) = DJANGO"
proof
  show "sr_database (select_optimal_stack prompt users admin async language framework_hint database_hint) = db"
    unfolding select_optimal_stack_def
  proof (rule select_database)
    fix d assume "d \<noteq> db"
    then show "sc_database (total_scores (default_requirements\<lparr>rq_users := users, rq_admin := admin, rq_async := async,
         rq_language := language, rq_framework := framework_hint, rq_database := database_hint,
         rq_complexity := prompt_complexity prompt, rq_production := prompt_has prompt [''production'', ''deploy'', ''scale''],
         rq_prototyping := prompt_has prompt [''prototype'', ''quick'', ''mvp'', ''demo'']\<rparr>)) d <
       sc_database (total_scores (default_requirements\<lparr>rq_users := users, rq_admin := admin, rq_async := async,
         rq_language := language, rq_framework := framework_hint, rq_database := database_hint,
         rq_complexity := prompt_complexity prompt, rq_production := prompt_has prompt [''production'', ''deploy'', ''scale''],
         rq_prototyping := prompt_has prompt [''prototype'', ''quick'', ''mvp'', ''demo'']\<rparr>)) db"
      by (cases db; cases d; cases "1000 < users"; cases "prompt_has prompt [''production'', ''deploy'', ''scale'']";
          cases "prompt_has prompt [''prototype'', ''quick'', ''mvp'', ''demo'']")
        (simp_all add: total_scores_defs assms)
  qed
  have p: "prompt_complexity ''complex production system'' = ''complex''"
    "prompt_has ''complex production system'' [''production'', ''deploy'', ''scale'']"
    "\<not> prompt_has ''complex production system'' [''prototype'', ''quick'', ''mvp'', ''demo'']"
    by code_simp+
  have f: "find_framework (Some ''flask'') = Some FLASK" by code_simp
  show "sr_framework (select_optimal_stack ''complex production system'' 2000 True True ''python'' (Some ''flask'') database_hint) = DJANGO"
    by (simp add: select_optimal_stack_def select_stack_def Let_def total_scores_defs frameworks_def p f assms)
qed

lemma database_hint_is_obeyed_witness:
  "sr_database (select_optimal_stack ''enterprise shop'' 5000 True False ''python'' None (Some ''SQLite'')) = SQLITE"
proof -
  have "find_database (Some ''SQLite'') = Some SQLITE" by code_simp
  from database_hint_is_obeyed [OF this] show ?thesis by simp
qed

end
