(* ===== verification/Cache_Manager.thy ===== *)
theory Cache_Manager
  imports Llm_Client
begin

text \<open>
  The second cache of answers, \<open>llm/enhanced_cache_manager.py\<close>, with its settings of \<open>config/cache_config.py\<close>: keys
  made of properties of the messages, a copy in Redis, judgements of answers, and metrics.

  Redis, the serialised form of an entry, JSON, MD5 and SHA-256 are parameters; so are the \<open>n\<close>-th reading of the
  clock and how the \<open>n\<close>-th call of Redis goes. The regular expressions are read on words of ASCII letters, digits
  and underscores; other bytes count as letters. The contents of messages are texts.
\<close>

section \<open>Settings\<close>

record cache_config =
  cf_task_ttl :: int
  cf_event_ttl :: int
  cf_artifact_ttl :: int
  cf_llm_response_ttl :: int
  cf_redis_max_connections :: int
  cf_redis_socket_connect_timeout :: int
  cf_redis_socket_timeout :: int
  cf_redis_retry_on_timeout :: bool
  cf_redis_max_retries :: int

definition default_cache_config :: cache_config where
  "default_cache_config = \<lparr>cf_task_ttl = 300, cf_event_ttl = 60, cf_artifact_ttl = 3600, cf_llm_response_ttl = 86400,
     cf_redis_max_connections = 50, cf_redis_socket_connect_timeout = 5, cf_redis_socket_timeout = 5,
     cf_redis_retry_on_timeout = True, cf_redis_max_retries = 3\<rparr>"

definition new_cache_config :: "cache_config \<Rightarrow> cache_config result" where
  "new_cache_config c =
     (case filter (\<lambda>(attr, v). v \<le> 0)
        [(''task_ttl'', cf_task_ttl c), (''event_ttl'', cf_event_ttl c), (''artifact_ttl'', cf_artifact_ttl c),
         (''llm_response_ttl'', cf_llm_response_ttl c), (''redis_max_connections'', cf_redis_max_connections c)] of
        (attr, v) # _ \<Rightarrow> Inl (ValueError (attr @ '' must be positive, got '' @ show_int v))
      | [] \<Rightarrow> Inr c)"

definition get_ttl :: "cache_config \<Rightarrow> string \<Rightarrow> int result" where
  "get_ttl c data_type =
     (case map_of [(''task'', cf_task_ttl c), (''event'', cf_event_ttl c), (''artifact'', cf_artifact_ttl c),
            (''llm_response'', cf_llm_response_ttl c)] (lower (strip data_type)) of
        Some ttl \<Rightarrow> Inr ttl
      | None \<Rightarrow> Inl (ValueError (''Unknown data type '' @ quote_text data_type @ ''. Valid types: '' @
          py_repr (PList (map PStr [''artifact'', ''event'', ''llm_response'', ''task''])))))"

definition redis_connection_kwargs :: "cache_config \<Rightarrow> pydict" where
  "redis_connection_kwargs c =
     [(''max_connections'', PInt (cf_redis_max_connections c)),
      (''socket_connect_timeout'', PInt (cf_redis_socket_connect_timeout c)),
      (''socket_timeout'', PInt (cf_redis_socket_timeout c)),
      (''retry_on_timeout'', PBool (cf_redis_retry_on_timeout c))]"

section \<open>The state\<close>

record key_components =
  kc_backend :: string
  kc_model :: string
  kc_temperature :: rat
  kc_messages :: "pydict list"
  kc_intent_hash :: string
  kc_context_hash :: string
  kc_template_hash :: string
  kc_complexity :: rat
  kc_priority :: string

record cache_metrics =
  mt_total_requests :: int
  mt_cache_hits :: int
  mt_cache_misses :: int
  mt_cache_bypasses :: int
  mt_cache_failures :: int
  mt_semantic_hits :: int
  mt_bad_detections :: int
  mt_invalidations :: int
  mt_warmings :: int
  mt_avg_cached :: rat
  mt_avg_uncached :: rat
  mt_size_bytes :: int
  mt_last_reset :: rat

definition ratio :: "int \<Rightarrow> int \<Rightarrow> rat" where
  "ratio a b = (if b > 0 then of_int a / of_int b else 0)"

definition hit_rate :: "cache_metrics \<Rightarrow> rat" where
  "hit_rate mt = ratio (mt_cache_hits mt) (mt_cache_hits mt + mt_cache_misses mt)"

definition semantic_hit_rate :: "cache_metrics \<Rightarrow> rat" where
  "semantic_hit_rate mt = ratio (mt_semantic_hits mt) (mt_cache_hits mt)"

definition bad_cache_rate :: "cache_metrics \<Rightarrow> rat" where
  "bad_cache_rate mt = ratio (mt_bad_detections mt) (mt_total_requests mt)"

definition new_cache_metrics :: "rat \<Rightarrow> cache_metrics" where
  "new_cache_metrics now = \<lparr>mt_total_requests = 0, mt_cache_hits = 0, mt_cache_misses = 0, mt_cache_bypasses = 0,
     mt_cache_failures = 0, mt_semantic_hits = 0, mt_bad_detections = 0, mt_invalidations = 0, mt_warmings = 0,
     mt_avg_cached = 0, mt_avg_uncached = 0, mt_size_bytes = 0, mt_last_reset = now\<rparr>"

record cache_item =
  ci_value :: string
  ci_created_at :: rat
  ci_last_accessed :: rat
  ci_access_count :: int
  ci_components :: key_components
  ci_response_time :: rat
  ci_quality :: rat
  ci_warmed :: bool
  ci_validated :: bool
  ci_scheduled :: bool

text \<open>The metrics are an object that callers keep: \<open>km_old\<close> are the objects that a reset has replaced, and the object
  number \<open>n\<close> is one of them or the present one.\<close>

record cache_manager =
  km_redis :: bool
  km_namespace :: string
  km_config :: cache_config
  km_local :: "(string \<times> cache_item) list"
  km_metrics :: cache_metrics
  km_old :: "cache_metrics list"
  km_patterns :: "(string \<times> int) list"
  km_bad :: "string list"
  km_queue :: "key_components list"
  km_intents :: "(string \<times> string list) list"
  km_templates :: "(string \<times> string list) list"

definition metrics_at :: "cache_manager \<Rightarrow> nat \<Rightarrow> cache_metrics" where
  "metrics_at km n = (if n < length (km_old km) then km_old km ! n else km_metrics km)"

record 'r cache_env =
  ce_md5 :: "string \<Rightarrow> string"
  ce_sha256 :: "string \<Rightarrow> string"
  ce_json :: "pydict list \<Rightarrow> string"
  ce_dumps :: "cache_item \<Rightarrow> string"
  ce_loads :: "string \<Rightarrow> cache_item option"
  ce_clock :: "nat \<Rightarrow> rat"
  ce_link :: "nat \<Rightarrow> link"
  ce_get :: "string \<Rightarrow> 'r \<Rightarrow> string option"
  ce_setex :: "string \<Rightarrow> int \<Rightarrow> string \<Rightarrow> 'r \<Rightarrow> 'r"
  ce_delete :: "string list \<Rightarrow> 'r \<Rightarrow> 'r"
  ce_keys :: "string \<Rightarrow> 'r \<Rightarrow> string list"

record 'r cache_world =
  kw_server :: 'r
  kw_calls :: nat
  kw_reads :: nat
  kw_manager :: cache_manager

definition new_cache_manager :: "cache_config option \<Rightarrow> string \<Rightarrow> bool \<Rightarrow> bool \<Rightarrow> rat \<Rightarrow> cache_manager" where
  "new_cache_manager config namespace given connects now =
     \<lparr>km_redis = (given \<or> connects), km_namespace = namespace,
      km_config = (case config of Some c \<Rightarrow> c | None \<Rightarrow> default_cache_config), km_local = [],
      km_metrics = new_cache_metrics now, km_old = [], km_patterns = [], km_bad = [], km_queue = [],
      km_intents = [], km_templates = []\<rparr>"

type_synonym ('r, 'a) cache_act = "('r cache_world, 'a) act"

definition read_time :: "'r cache_env \<Rightarrow> ('r, rat) cache_act" where
  "read_time env w = (Inr (ce_clock env (kw_reads w)), w\<lparr>kw_reads := kw_reads w + 1\<rparr>)"

text \<open>A call of Redis: \<open>None\<close> when the client raises.\<close>

definition redis_call :: "'r cache_env \<Rightarrow> ('r \<Rightarrow> 'a \<times> 'r) \<Rightarrow> ('r, 'a option) cache_act" where
  "redis_call env f w =
     (let (a, r) = round_trip (ce_link env (kw_calls w)) f (kw_server w)
      in (Inr a, w\<lparr>kw_server := r, kw_calls := kw_calls w + 1\<rparr>))"

definition on_manager :: "(cache_manager \<Rightarrow> cache_manager) \<Rightarrow> ('r, unit) cache_act" where
  "on_manager f = modify (\<lambda>w. w\<lparr>kw_manager := f (kw_manager w)\<rparr>)"

definition count_metric :: "(cache_metrics \<Rightarrow> cache_metrics) \<Rightarrow> ('r, unit) cache_act" where
  "count_metric f = on_manager (\<lambda>km. km\<lparr>km_metrics := f (km_metrics km)\<rparr>)"

definition see_manager :: "(cache_manager \<Rightarrow> 'a) \<Rightarrow> ('r, 'a) cache_act" where
  "see_manager f = get_with (\<lambda>w. f (kw_manager w))"

section \<open>Words of a text\<close>

definition is_word_char :: "char \<Rightarrow> bool" where
  "is_word_char c = (let n = of_char c :: nat in
     (48 \<le> n \<and> n \<le> 57) \<or> (65 \<le> n \<and> n \<le> 90) \<or> (97 \<le> n \<and> n \<le> 122) \<or> n = 95 \<or> 128 \<le> n)"

fun word_runs :: "string \<Rightarrow> string \<Rightarrow> string list" where
  "word_runs acc [] = (if acc = [] then [] else [acc])"
| "word_runs acc (c # s) =
     (if is_word_char c then word_runs (acc @ [c]) s else (if acc = [] then [] else [acc]) @ word_runs [] s)"

fun map_runs :: "(string \<Rightarrow> string) \<Rightarrow> string \<Rightarrow> string \<Rightarrow> string" where
  "map_runs f acc [] = (if acc = [] then [] else f acc)"
| "map_runs f acc (c # s) =
     (if is_word_char c then map_runs f (acc @ [c]) s else (if acc = [] then [] else f acc) @ c # map_runs f [] s)"

text \<open>The search for one of some words between word boundaries, ignoring case.\<close>

definition has_word :: "string list \<Rightarrow> string \<Rightarrow> bool" where
  "has_word ws s \<longleftrightarrow> list_ex (\<lambda>r. lower r \<in> set ws) (word_runs [] s)"

text \<open>A run of digits becomes \<open>NUM\<close>, an identifier \<open>VAR\<close>, and white space a single blank.\<close>

definition number_run :: "string \<Rightarrow> string" where
  "number_run r = (if list_all (\<lambda>c. digit_val c \<noteq> None) r then ''NUM'' else r)"

definition identifier_run :: "string \<Rightarrow> string" where
  "identifier_run r = (if digit_val (hd r) = None \<and> list_all (\<lambda>c. of_char c < (128 :: nat)) r then ''VAR'' else r)"

fun squeeze_spaces :: "string \<Rightarrow> string" where
  "squeeze_spaces [] = []"
| "squeeze_spaces (c # s) =
     (if is_space c then (case s of d # _ \<Rightarrow> if is_space d then squeeze_spaces s else CHR '' '' # squeeze_spaces s | [] \<Rightarrow> '' '')
      else c # squeeze_spaces s)"

text \<open>\<open>s.count(p)\<close> for a non-empty \<open>p\<close>: occurrences that do not overlap.\<close>

fun count_sub_from :: "nat \<Rightarrow> string \<Rightarrow> string \<Rightarrow> nat" where
  "count_sub_from k p [] = 0"
| "count_sub_from (Suc k) p (c # s) = count_sub_from k p s"
| "count_sub_from 0 p (c # s) =
     (if prefix p (c # s) then Suc (count_sub_from (length p - 1) p s) else count_sub_from 0 p s)"

definition count_sub :: "string \<Rightarrow> string \<Rightarrow> nat" where
  "count_sub p s = count_sub_from 0 p s"

section \<open>Keys\<close>

definition msg_text :: "string \<Rightarrow> pydict \<Rightarrow> string" where
  "msg_text k m = (case dget_or m k (PStr []) of PStr s \<Rightarrow> s | _ \<Rightarrow> [])"

definition role_content :: "string \<Rightarrow> pydict list \<Rightarrow> string" where
  "role_content role messages =
     join '' '' (map (msg_text ''content'') (filter (\<lambda>m. dget m ''role'' = PStr role) messages))"

definition intent_word_groups :: "(string \<times> string list) list" where
  "intent_word_groups =
     [(''generate'', [''generate'', ''create'', ''build'', ''make'']), (''fix'', [''fix'', ''repair'', ''debug'', ''solve'']),
      (''analyze'', [''analyze'', ''review'', ''check'', ''examine'']), (''test'', [''test'', ''validate'', ''verify'']),
      (''code'', [''function'', ''class'', ''method'', ''api'']), (''web'', [''frontend'', ''backend'', ''fullstack'', ''web''])]"

definition extract_intent_hash :: "'r cache_env \<Rightarrow> pydict list \<Rightarrow> string" where
  "extract_intent_hash env messages =
     (let user_content = role_content ''user'' messages;
          keywords = map fst (filter (\<lambda>(k, ws). has_word ws user_content) intent_word_groups)
      in take 8 (ce_md5 env (join ''|'' (sort keywords))))"

definition extract_context_hash :: "'r cache_env \<Rightarrow> pydict list \<Rightarrow> string" where
  "extract_context_hash env messages =
     take 8 (ce_md5 env (squeeze_spaces (strip (lower (role_content ''system'' messages)))))"

definition template_part :: "pydict \<Rightarrow> string" where
  "template_part m =
     msg_text ''role'' m @ '':'' @
       take 100 (squeeze_spaces (strip (map_runs identifier_run [] (map_runs number_run [] (msg_text ''content'' m)))))"

definition extract_template_hash :: "'r cache_env \<Rightarrow> pydict list \<Rightarrow> string" where
  "extract_template_hash env messages = take 8 (ce_md5 env (join ''|'' (map template_part messages)))"

definition content_indicators :: "string \<Rightarrow> nat" where
  "content_indicators s =
     (if contains ''```'' s then 1 else 0) +
     (if length (filter (\<lambda>c. c = char_of (10 :: nat)) s) > 10 then 1 else 0) +
     (if has_word [''algorithm'', ''optimization'', ''performance''] s then 1 else 0)"

definition calculate_complexity_score :: "pydict list \<Rightarrow> rat" where
  "calculate_complexity_score messages =
     (let contents = map (msg_text ''content'') messages;
          length_score = min (of_nat (sum_list (map length contents)) / 5000) 1;
          count_score = min (of_nat (length messages) / 10) 1;
          bonus = min (of_nat (sum_list (map content_indicators contents)) * (1 / 5)) (1 / 2)
      in min (length_score + count_score + bonus) 1)"

definition determine_cache_priority :: "rat \<Rightarrow> string" where
  "determine_cache_priority score = (if score > 7 / 10 then ''high'' else if score > 4 / 10 then ''medium'' else ''low'')"

definition build_semantic_cache_key :: "'r cache_env \<Rightarrow> key_components \<Rightarrow> string" where
  "build_semantic_cache_key env kc =
     join '':''
       [kc_backend kc, kc_model kc, ''temp_'' @ show_fixed 1 (kc_temperature kc), ''intent_'' @ kc_intent_hash kc,
        ''ctx_'' @ kc_context_hash kc, ''tpl_'' @ kc_template_hash kc, ''pri_'' @ kc_priority kc,
        ''msg_'' @ take 16 (ce_sha256 env (ce_json env (kc_messages kc)))]"

definition components_of :: "'r cache_env \<Rightarrow> pydict list \<Rightarrow> string \<Rightarrow> string \<Rightarrow> rat \<Rightarrow> key_components" where
  "components_of env messages backend model temperature =
     (let score = calculate_complexity_score messages in
      \<lparr>kc_backend = backend, kc_model = model, kc_temperature = temperature, kc_messages = messages,
       kc_intent_hash = extract_intent_hash env messages, kc_context_hash = extract_context_hash env messages,
       kc_template_hash = extract_template_hash env messages, kc_complexity = score,
       kc_priority = determine_cache_priority score\<rparr>)"

definition track_key_patterns :: "key_components \<Rightarrow> ('r, unit) cache_act" where
  "track_key_patterns kc = on_manager (\<lambda>km.
     km\<lparr>km_patterns := AList.map_default (kc_intent_hash kc @ '':'' @ kc_template_hash kc) 1 (\<lambda>n. n + 1) (km_patterns km),
        km_intents := AList.map_default (kc_intent_hash kc) [kc_priority kc] (\<lambda>xs. xs @ [kc_priority kc]) (km_intents km),
        km_templates := AList.map_default (kc_template_hash kc) [kc_backend kc] (\<lambda>xs. xs @ [kc_backend kc]) (km_templates km)\<rparr>)"

definition generate_cache_key ::
  "'r cache_env \<Rightarrow> pydict list \<Rightarrow> string \<Rightarrow> string \<Rightarrow> rat \<Rightarrow> ('r, string \<times> key_components) cache_act" where
  "generate_cache_key env messages backend model temperature =
     (let kc = components_of env messages backend model temperature in
      next_act (track_key_patterns kc) (ret (build_semantic_cache_key env kc, kc)))"

section \<open>Looking up\<close>

definition redis_key :: "string \<Rightarrow> string \<Rightarrow> string" where
  "redis_key namespace key = namespace @ '':'' @ key"

definition get_from_redis :: "'r cache_env \<Rightarrow> string \<Rightarrow> ('r, cache_item option option) cache_act" where
  "get_from_redis env key =
     bind (see_manager km_namespace) (\<lambda>ns.
     bind (redis_call env (\<lambda>r. (ce_get env (redis_key ns key) r, r))) (\<lambda>a.
       ret (case a of None \<Rightarrow> None | Some None \<Rightarrow> Some None | Some (Some data) \<Rightarrow> Some (ce_loads env data))))"

text \<open>A hit: the entry that is passed in is changed, too.\<close>

definition count_hit :: "rat \<Rightarrow> cache_metrics \<Rightarrow> cache_metrics" where
  "count_hit lookup_time mt =
     (let hits = mt_cache_hits mt + 1 in
      mt\<lparr>mt_cache_hits := hits,
         mt_avg_cached := (if hits = 1 then lookup_time
           else (mt_avg_cached mt * of_int (hits - 1) + lookup_time) / of_int hits)\<rparr>)"

definition record_cache_hit :: "'r cache_env \<Rightarrow> cache_item \<Rightarrow> rat \<Rightarrow> ('r, cache_item) cache_act" where
  "record_cache_hit env item lookup_time =
     bind (read_time env) (\<lambda>now.
       next_act (count_metric (count_hit lookup_time))
         (ret (item\<lparr>ci_access_count := ci_access_count item + 1, ci_last_accessed := now\<rparr>)))"

definition look_in_redis :: "'r cache_env \<Rightarrow> string \<Rightarrow> rat \<Rightarrow> ('r, cache_item option) cache_act" where
  "look_in_redis env key start_time =
     bind (see_manager km_redis) (\<lambda>redis.
       if \<not> redis then ret None
       else bind (get_from_redis env key) (\<lambda>a.
         case a of
           None \<Rightarrow> next_act (count_metric (\<lambda>mt. mt\<lparr>mt_cache_failures := mt_cache_failures mt + 1\<rparr>)) (ret None)
         | Some None \<Rightarrow> ret None
         | Some (Some item) \<Rightarrow>
             bind (read_time env) (\<lambda>now.
             bind (record_cache_hit env item (now - start_time)) (\<lambda>item'. ret (Some item')))))"

definition drop_local :: "string \<Rightarrow> cache_manager \<Rightarrow> cache_manager" where
  "drop_local key km = km\<lparr>km_local := AList.delete key (km_local km)\<rparr>"

definition look_in_local :: "'r cache_env \<Rightarrow> string \<Rightarrow> rat \<Rightarrow> ('r, cache_item option) cache_act" where
  "look_in_local env key start_time =
     bind (see_manager (\<lambda>km. (map_of (km_local km) key, cf_llm_response_ttl (km_config km)))) (\<lambda>(found, ttl).
       case found of
         None \<Rightarrow> ret None
       | Some item \<Rightarrow>
           bind (read_time env) (\<lambda>now.
             if now - ci_created_at item < of_int ttl
             then bind (read_time env) (\<lambda>now'.
                  bind (record_cache_hit env item (now' - start_time)) (\<lambda>item'.
                    next_act (on_manager (\<lambda>km. km\<lparr>km_local := AList.update key item' (km_local km)\<rparr>)) (ret (Some item'))))
             else next_act (on_manager (drop_local key)) (ret None)))"

definition get_cached_response :: "'r cache_env \<Rightarrow> string \<Rightarrow> ('r, cache_item option) cache_act" where
  "get_cached_response env key =
     bind (read_time env) (\<lambda>start_time.
     next_act (count_metric (\<lambda>mt. mt\<lparr>mt_total_requests := mt_total_requests mt + 1\<rparr>))
     (bind (see_manager (\<lambda>km. key \<in> set (km_bad km))) (\<lambda>bad.
       if bad then next_act (count_metric (\<lambda>mt. mt\<lparr>mt_cache_bypasses := mt_cache_bypasses mt + 1\<rparr>)) (ret None)
       else bind (look_in_redis env key start_time) (\<lambda>found.
         case found of
           Some item \<Rightarrow> ret (Some item)
         | None \<Rightarrow>
             bind (look_in_local env key start_time) (\<lambda>found.
               case found of
                 Some item \<Rightarrow> ret (Some item)
               | None \<Rightarrow> next_act (count_metric (\<lambda>mt. mt\<lparr>mt_cache_misses := mt_cache_misses mt + 1\<rparr>)) (ret None))))))"

section \<open>Storing\<close>

definition assess_response_quality :: "string \<Rightarrow> rat" where
  "assess_response_quality response =
     (let s1 = (if length (strip response) < 20 then - (4 / 10) else if length (strip response) > 1000 then 1 / 10 else 0);
          s2 = (if contains ''error'' (lower response) then - (3 / 10) else 0);
          s3 = (if contains ''sorry'' (lower response) then - (2 / 10) else 0);
          s4 = (if contains ''I cannot'' response \<or> contains (''I don'' @ [char_of (39 :: nat)] @ ''t know'') response then - (5 / 10) else 0);
          s5 = (if contains ''```'' response then 2 / 10 else 0);
          s6 = (if length (filter (\<lambda>c. c = char_of (10 :: nat)) response) > 5 then 1 / 10 else 0)
      in max 0 (min 1 (1 + s1 + s2 + s3 + s4 + s5 + s6)))"

definition store_in_redis :: "'r cache_env \<Rightarrow> string \<Rightarrow> cache_item \<Rightarrow> ('r, unit option) cache_act" where
  "store_in_redis env key item =
     bind (see_manager (\<lambda>km. (km_namespace km, cf_llm_response_ttl (km_config km)))) (\<lambda>(ns, ttl).
       redis_call env (\<lambda>r. ((), ce_setex env (redis_key ns key) ttl (ce_dumps env item) r)))"

definition evict_local :: "cache_manager \<Rightarrow> cache_manager" where
  "evict_local km =
     (if length (km_local km) > 1000
      then case km_local km of [] \<Rightarrow> km
           | e # es \<Rightarrow> drop_local (fst (min_by (\<lambda>x. ci_last_accessed (snd x)) e es)) km
      else km)"

definition put_local :: "string \<Rightarrow> cache_item \<Rightarrow> cache_manager \<Rightarrow> cache_manager" where
  "put_local key item km = evict_local (km\<lparr>km_local := AList.update key item (km_local km)\<rparr>)"

definition store_cached_response ::
  "'r cache_env \<Rightarrow> string \<Rightarrow> string \<Rightarrow> key_components \<Rightarrow> rat \<Rightarrow> ('r, unit) cache_act" where
  "store_cached_response env key response kc response_time =
     (let quality = assess_response_quality response in
      if quality < 3 / 10 then ret ()
      else
        bind (read_time env) (\<lambda>t1.
        bind (read_time env) (\<lambda>t2.
          let item = \<lparr>ci_value = response, ci_created_at = t1, ci_last_accessed = t2, ci_access_count = 1, ci_components = kc,
                ci_response_time = response_time, ci_quality = quality, ci_warmed = False, ci_validated = False,
                ci_scheduled = False\<rparr> in
          bind (see_manager km_redis) (\<lambda>redis.
          next_act
            (if \<not> redis then ret ()
             else bind (store_in_redis env key item) (\<lambda>a.
               when_do (a = None) (count_metric (\<lambda>mt. mt\<lparr>mt_cache_failures := mt_cache_failures mt + 1\<rparr>))))
            (on_manager (put_local key item))))))"

section \<open>Bad answers\<close>

definition is_bad_answer :: "string \<Rightarrow> bool" where
  "is_bad_answer response \<longleftrightarrow>
     length (strip response) < 10 \<or> count_sub ''error'' response > 2 \<or> count_sub ''sorry'' response > 1 \<or>
     contains ''I cannot'' response \<or> contains (''I don'' @ [char_of (39 :: nat)] @ ''t know'') response"

definition invalidate_cache_entry :: "'r cache_env \<Rightarrow> string \<Rightarrow> ('r, unit) cache_act" where
  "invalidate_cache_entry env key =
     bind (see_manager (\<lambda>km. (km_redis km, km_namespace km))) (\<lambda>(redis, ns).
       next_act
         (if redis then bind (redis_call env (\<lambda>r. ((), ce_delete env [redis_key ns key] r))) (\<lambda>a. ret ()) else ret ())
         (on_manager (drop_local key)))"

definition detect_bad_cache :: "'r cache_env \<Rightarrow> string \<Rightarrow> string \<Rightarrow> ('r, bool) cache_act" where
  "detect_bad_cache env key response =
     (if is_bad_answer response
      then next_act (on_manager (\<lambda>km. km\<lparr>km_bad := List.insert key (km_bad km),
               km_metrics := (km_metrics km)\<lparr>mt_bad_detections := mt_bad_detections (km_metrics km) + 1\<rparr>\<rparr>))
             (next_act (invalidate_cache_entry env key) (ret True))
      else ret False)"

section \<open>Warming and invalidation\<close>

text \<open>Nothing takes an entry out of the warming queue.\<close>

definition warming_candidates :: "cache_manager \<Rightarrow> key_components list" where
  "warming_candidates km =
     map (\<lambda>(pattern, n).
        \<lparr>kc_backend = ''openai'', kc_model = ''gpt-4'', kc_temperature = 2 / 10,
         kc_messages = [[(''role'', PStr ''user''), (''content'', PStr ''warming_placeholder'')]],
         kc_intent_hash = takeWhile (\<lambda>c. c \<noteq> CHR '':'') pattern, kc_context_hash = ''warming'',
         kc_template_hash = tl (dropWhile (\<lambda>c. c \<noteq> CHR '':'') pattern), kc_complexity = 1 / 2, kc_priority = ''medium''\<rparr>)
       (take 5 (filter (\<lambda>(p, n). n \<ge> 3) (km_patterns km)))"

fun warm_all :: "'r cache_env \<Rightarrow> key_components list \<Rightarrow> int \<Rightarrow> ('r, int) cache_act" where
  "warm_all env [] warmed = ret warmed"
| "warm_all env (kc # kcs) warmed =
     bind (get_cached_response env (build_semantic_cache_key env kc)) (\<lambda>hit.
       if hit \<noteq> None then warm_all env kcs warmed
       else next_act (on_manager (\<lambda>km. km\<lparr>km_queue := km_queue km @ [kc]\<rparr>)) (warm_all env kcs (warmed + 1)))"

definition warm_cache :: "'r cache_env \<Rightarrow> key_components list option \<Rightarrow> ('r, int) cache_act" where
  "warm_cache env patterns =
     bind (case patterns of Some kcs \<Rightarrow> ret kcs | None \<Rightarrow> see_manager warming_candidates) (\<lambda>kcs.
     bind (warm_all env (take 10 kcs) 0) (\<lambda>warmed.
       next_act (count_metric (\<lambda>mt. mt\<lparr>mt_warmings := mt_warmings mt + warmed\<rparr>)) (ret warmed)))"

definition invalidate_redis :: "'r cache_env \<Rightarrow> string \<Rightarrow> ('r, int) cache_act" where
  "invalidate_redis env pattern =
     bind (see_manager km_namespace) (\<lambda>ns.
     bind (redis_call env (\<lambda>r. (ce_keys env (ns @ '':*'' @ pattern @ ''*'') r, r))) (\<lambda>a.
       case a of
         None \<Rightarrow> ret 0
       | Some ks \<Rightarrow>
           if ks = [] then ret 0
           else bind (redis_call env (\<lambda>r. ((), ce_delete env ks r))) (\<lambda>b.
             ret (if b = None then 0 else int (length ks)))))"

definition invalidate_preemptively :: "'r cache_env \<Rightarrow> string \<Rightarrow> ('r, int) cache_act" where
  "invalidate_preemptively env pattern =
     bind (see_manager km_redis) (\<lambda>redis.
     bind (if redis then invalidate_redis env pattern else ret 0) (\<lambda>n.
     bind (see_manager (\<lambda>km. filter (\<lambda>k. contains pattern k) (map fst (km_local km)))) (\<lambda>ks.
       let total = n + int (length ks) in
       next_act (on_manager (\<lambda>km. km\<lparr>km_local := filter (\<lambda>e. fst e \<notin> set ks) (km_local km),
          km_metrics := (km_metrics km)\<lparr>mt_invalidations := mt_invalidations (km_metrics km) + total\<rparr>\<rparr>)) (ret total))))"

section \<open>Metrics\<close>

definition calculate_cache_size :: "cache_manager \<Rightarrow> int" where
  "calculate_cache_size km = sum_list (map (\<lambda>e. int (length (ci_value (snd e))) + 200) (km_local km))"

text \<open>The caller gets the object itself, by its number.\<close>

definition get_cache_metrics :: "('r, nat) cache_act" where
  "get_cache_metrics =
     next_act (on_manager (\<lambda>km. km\<lparr>km_metrics := (km_metrics km)\<lparr>mt_size_bytes := calculate_cache_size km\<rparr>\<rparr>))
       (see_manager (\<lambda>km. length (km_old km)))"

definition reset_metrics :: "'r cache_env \<Rightarrow> ('r, unit) cache_act" where
  "reset_metrics env =
     bind (read_time env) (\<lambda>now.
       on_manager (\<lambda>km. km\<lparr>km_old := km_old km @ [km_metrics km], km_metrics := new_cache_metrics now\<rparr>))"

definition manager_record_metrics :: "string \<Rightarrow> cache_metrics \<Rightarrow> observation \<Rightarrow> observation" where
  "manager_record_metrics stage mt ob =
     fold (\<lambda>(name, v, unit_text). record_metric name v unit_text [(''stage'', PStr stage)])
       ([(''llm_cache_hit_rate'', hit_rate mt, ''ratio''), (''llm_cache_requests_total'', of_int (mt_total_requests mt), ''count''),
         (''llm_cache_hits_total'', of_int (mt_cache_hits mt), ''count''), (''llm_cache_misses_total'', of_int (mt_cache_misses mt), ''count''),
         (''llm_cache_semantic_hit_rate'', semantic_hit_rate mt, ''ratio''),
         (''llm_cache_bad_detections_total'', of_int (mt_bad_detections mt), ''count''),
         (''llm_cache_warmings_total'', of_int (mt_warmings mt), ''count''),
         (''llm_cache_invalidations_total'', of_int (mt_invalidations mt), ''count'')] @
        (if mt_avg_cached mt > 0 then [(''llm_cache_response_time_cached'', mt_avg_cached mt, ''seconds'')] else []) @
        (if mt_avg_uncached mt > 0 then [(''llm_cache_response_time_uncached'', mt_avg_uncached mt, ''seconds'')] else []) @
        [(''llm_cache_size_bytes'', of_int (mt_size_bytes mt), ''bytes'')]) ob"

section \<open>The books of the manager\<close>

text \<open>\<open>k\<close> requests are under way: they have been counted, but their outcome has not.\<close>

definition books_balance :: "int \<Rightarrow> cache_metrics \<Rightarrow> bool" where
  "books_balance k mt \<longleftrightarrow>
     mt_total_requests mt = mt_cache_hits mt + mt_cache_misses mt + mt_cache_bypasses mt + k \<and>
     0 \<le> mt_cache_hits mt \<and> 0 \<le> mt_cache_misses mt \<and> 0 \<le> mt_cache_bypasses mt \<and>
     mt_semantic_hits mt = 0 \<and> mt_avg_uncached mt = 0"

definition manager_ok :: "int \<Rightarrow> cache_manager \<Rightarrow> bool" where
  "manager_ok k km \<longleftrightarrow> books_balance k (km_metrics km) \<and> (\<forall>mt\<in>set (km_old km). books_balance 0 mt) \<and>
     distinct (map fst (km_local km)) \<and> length (km_local km) \<le> 1000"

definition balanced :: "int \<Rightarrow> int \<Rightarrow> ('r, 'a) cache_act \<Rightarrow> bool" where
  "balanced k j m \<longleftrightarrow> triple (\<lambda>w. manager_ok k (kw_manager w)) m (\<lambda>_ w. manager_ok j (kw_manager w)) (\<lambda>_ _. False)"

text \<open>A look-up that settles the request when it finds an entry.\<close>

definition settles :: "('r, 'a option) cache_act \<Rightarrow> bool" where
  "settles m \<longleftrightarrow> triple (\<lambda>w. manager_ok 1 (kw_manager w)) m
     (\<lambda>r w. manager_ok (if r = None then 1 else 0) (kw_manager w)) (\<lambda>_ _. False)"

named_theorems balance_rules

lemma balanced_ret [balance_rules]: "balanced k k (ret x)" "balanced k k (see_manager f)"
  by (simp_all add: balanced_def triple_ret see_manager_def triple_get)

lemma balanced_read [balance_rules]: "balanced k k (read_time env)"
  by (simp add: balanced_def triple_def read_time_def)

lemma balanced_call [balance_rules]: "balanced k k (redis_call env f)"
  by (simp add: balanced_def triple_def redis_call_def split: prod.split)

lemma balanced_bind [balance_rules]: "balanced k k m \<Longrightarrow> (\<And>a. balanced k j (f a)) \<Longrightarrow> balanced k j (bind m f)"
  unfolding balanced_def by (rule triple_bind)

lemma balanced_then: "balanced k i m \<Longrightarrow> balanced i j n \<Longrightarrow> balanced k j (next_act m n)"
  unfolding balanced_def by (rule triple_next)

lemmas balanced_next [balance_rules] = balanced_then [where i = k and k = k for k]

lemma balanced_if [balance_rules]: "(b \<Longrightarrow> balanced k j m) \<Longrightarrow> (\<not> b \<Longrightarrow> balanced k j n) \<Longrightarrow> balanced k j (if b then m else n)"
  by simp

lemma balanced_when [balance_rules]: "balanced k k m \<Longrightarrow> balanced k k (when_do b m)"
  by (simp add: when_do_def balanced_ret)

lemma balanced_option [balance_rules]:
  "balanced k j m \<Longrightarrow> (\<And>x. balanced k j (f x)) \<Longrightarrow> balanced k j (case a of None \<Rightarrow> m | Some x \<Rightarrow> f x)"
  by (cases a) simp_all

lemma balanced_prod [balance_rules]: "(\<And>a b. balanced k j (f a b)) \<Longrightarrow> balanced k j (case p of (a, b) \<Rightarrow> f a b)"
  by (cases p) simp

lemma balanced_manager: "(\<And>km. manager_ok k km \<Longrightarrow> manager_ok j (f km)) \<Longrightarrow> balanced k j (on_manager f)"
  by (simp add: balanced_def on_manager_def triple_modify)

lemma balanced_count: "(\<And>mt. books_balance k mt \<Longrightarrow> books_balance j (f mt)) \<Longrightarrow> balanced k j (count_metric f)"
  unfolding count_metric_def by (rule balanced_manager) (simp add: manager_ok_def)

lemma drop_local_ok: "manager_ok k km \<Longrightarrow> manager_ok k (drop_local key km)"
  using length_delete_le [of key "km_local km"] by (simp add: manager_ok_def drop_local_def distinct_delete)

lemma update_length: "length (AList.update k v xs) \<le> Suc (length xs)"
  by (induction xs) auto

lemma put_local_ok:
  assumes "manager_ok k km"
  shows "manager_ok k (put_local key item km)"
proof -
  let ?l = "AList.update key item (km_local km)"
  have d: "distinct (map fst ?l)" and n: "length ?l \<le> 1001"
    using assms by (auto simp: manager_ok_def distinct_update intro: order_trans [OF update_length])
  have del: "length (AList.delete (fst (min_by g e es)) (e # es)) \<le> length es"
    for g :: "string \<times> cache_item \<Rightarrow> rat" and e es
  proof -
    have "fst (min_by g e es) \<in> fst ` set (e # es)" using min_by_in [of g e es] by auto
    then obtain x where "x \<in> set (e # es)" "fst (min_by g e es) = fst x" by blast
    then have "length (filter (\<lambda>(k, _). fst (min_by g e es) \<noteq> k) (e # es)) < length (e # es)"
      by (intro length_filter_less [of x]) (simp_all add: split_beta)
    then show ?thesis by (simp add: AList.delete_eq)
  qed
  show ?thesis
  proof (cases ?l)
    case (Cons e es)
    let ?k = "fst (min_by (\<lambda>x. ci_last_accessed (snd x)) e es)"
    have "length (AList.delete ?k ?l) \<le> 1000" "distinct (map fst (AList.delete ?k ?l))"
      using del [of "\<lambda>x. ci_last_accessed (snd x)" e es] n d unfolding Cons by (simp_all del: delete_simps add: distinct_delete)
    then show ?thesis
      using assms d by (simp add: manager_ok_def put_local_def evict_local_def drop_local_def Cons del: delete_simps)
  qed (use assms in \<open>simp add: manager_ok_def put_local_def evict_local_def\<close>)
qed

lemma settles_None: "balanced 1 1 m \<Longrightarrow> settles (next_act m (ret None))"
  unfolding balanced_def settles_def by (erule triple_next) (simp add: triple_ret)

lemma settles_ret: "settles (ret None)"
  by (simp add: settles_def triple_ret)

lemma settles_Some: "balanced 1 0 m \<Longrightarrow> settles (bind m (\<lambda>x. ret (Some x)))"
  unfolding balanced_def settles_def by (erule triple_bind) (simp add: triple_ret)

lemma settles_bind: "balanced 1 1 m \<Longrightarrow> (\<And>a. settles (f a)) \<Longrightarrow> settles (bind m f)"
  unfolding balanced_def settles_def by (rule triple_bind)

lemma balanced_hit [balance_rules]: "balanced 1 0 (record_cache_hit env item t)"
  unfolding record_cache_hit_def
  by (rule balanced_bind [OF balanced_read balanced_then [where i = 0, OF balanced_count balanced_ret(1)]])
    (simp add: books_balance_def count_hit_def Let_def)

lemma redis_settles: "settles (look_in_redis env key t)"
proof -
  have got: "balanced 1 1 (get_from_redis env key)" unfolding get_from_redis_def by (intro balance_rules)
  have failed: "settles (next_act (count_metric (\<lambda>mt. mt\<lparr>mt_cache_failures := mt_cache_failures mt + 1\<rparr>)) (ret None))"
    by (intro settles_None balanced_count) (simp add: books_balance_def)
  show ?thesis
    unfolding look_in_redis_def
    by (auto intro!: settles_bind balance_rules got failed settles_ret settles_Some split: option.split)
qed

lemma update_held_length: "map_of xs k = Some v \<Longrightarrow> length (AList.update k v' xs) = length xs"
  by (induction xs) auto

lemma local_settles: "settles (look_in_local env key t)"
  unfolding settles_def triple_def
proof (intro allI impI)
  fix w :: "'a cache_world" assume w: "manager_ok 1 (kw_manager w)"
  let ?l = "km_local (kw_manager w)"
  have hit: "books_balance 1 mt \<Longrightarrow> books_balance 0 (count_hit x mt)" for x mt
    by (simp add: books_balance_def count_hit_def Let_def)
  have up: "length (AList.update key v' ?l) \<le> 1000 \<and> distinct (map fst (AList.update key v' ?l))"
    if "map_of ?l key = Some v" for v v'
    using w that by (simp add: manager_ok_def update_held_length distinct_update)
  show "case look_in_local env key t w of (Inl e, w') \<Rightarrow> False
      | (Inr r, w') \<Rightarrow> manager_ok (if r = None then 1 else 0) (kw_manager w')"
  proof (cases "map_of ?l key")
    case None
    with w show ?thesis by (simp add: look_in_local_def act_simps see_manager_def)
  next
    case (Some v)
    show ?thesis
      using w Some up [OF Some] drop_local_ok [OF w, of key] hit
      by (auto simp: look_in_local_def act_simps see_manager_def read_time_def record_cache_hit_def count_metric_def
          on_manager_def manager_ok_def)
  qed
qed

lemma lookup_balanced [balance_rules]: "balanced 0 0 (get_cached_response env key)"
proof -
  have total: "balanced 0 1 (count_metric (\<lambda>mt. mt\<lparr>mt_total_requests := mt_total_requests mt + 1\<rparr>))"
    and bypass: "balanced 1 0 (count_metric (\<lambda>mt. mt\<lparr>mt_cache_bypasses := mt_cache_bypasses mt + 1\<rparr>))"
    and miss: "balanced 1 0 (count_metric (\<lambda>mt. mt\<lparr>mt_cache_misses := mt_cache_misses mt + 1\<rparr>))"
    by (auto intro!: balanced_count simp: books_balance_def)
  have settled_bind: "balanced 1 0 (bind m (\<lambda>found. case found of Some item \<Rightarrow> ret (Some item) | None \<Rightarrow> n))"
    if "settles m" "balanced 1 0 n" for m n :: "('a, cache_item option) cache_act"
    unfolding balanced_def
  proof (rule triple_bind [OF that(1) [unfolded settles_def]])
    fix r
    show "triple (\<lambda>w. manager_ok (if r = None then 1 else 0) (kw_manager w))
        (case r of Some item \<Rightarrow> ret (Some item) | None \<Rightarrow> n) (\<lambda>_ w. manager_ok 0 (kw_manager w)) (\<lambda>_ _. False)"
      using that(2) by (cases r) (simp_all add: balanced_def triple_ret)
  qed
  show ?thesis
    unfolding get_cached_response_def
    by (intro balanced_bind [OF balanced_read] balanced_then [where i = 1, OF total] balanced_bind [OF balanced_ret(2)]
        balanced_if balanced_then [where i = 0, OF bypass] balanced_then [where i = 0, OF miss]
        settled_bind redis_settles local_settles balanced_ret)
qed

lemma store_balanced [balance_rules]: "balanced 0 0 (store_cached_response env key response kc t)"
proof -
  have failed: "balanced 0 0 (count_metric (\<lambda>mt. mt\<lparr>mt_cache_failures := mt_cache_failures mt + 1\<rparr>))"
    by (intro balanced_count) (simp add: books_balance_def)
  show ?thesis
    unfolding store_cached_response_def store_in_redis_def Let_def
    by (intro balance_rules failed balanced_manager put_local_ok)
qed

lemma detect_balanced [balance_rules]: "balanced 0 0 (detect_bad_cache env key response)"
  unfolding detect_bad_cache_def invalidate_cache_entry_def
  by (intro balance_rules balanced_manager drop_local_ok) (simp_all add: manager_ok_def books_balance_def)

lemma warm_all_balanced [balance_rules]: "balanced 0 0 (warm_all env kcs n)"
proof (induction kcs arbitrary: n)
  case (Cons kc kcs)
  then show ?case
    unfolding warm_all.simps by (intro balance_rules balanced_manager) (simp_all add: manager_ok_def)
qed (simp add: balanced_ret)

lemma warm_balanced [balance_rules]: "balanced 0 0 (warm_cache env patterns)"
  unfolding warm_cache_def
  by (intro balance_rules balanced_count) (simp add: books_balance_def)

lemma invalidate_balanced [balance_rules]: "balanced 0 0 (invalidate_preemptively env pattern)"
proof -
  have less: "length (filter P (km_local km)) \<le> 1000" if "manager_ok 0 km" for P km
    using that length_filter_le [of P "km_local km"] unfolding manager_ok_def by linarith
  show ?thesis
    unfolding invalidate_preemptively_def invalidate_redis_def Let_def
    by (intro balance_rules balanced_manager) (auto simp: manager_ok_def books_balance_def distinct_map_filter less)
qed

lemma metrics_balanced [balance_rules]: "balanced 0 0 get_cache_metrics" "balanced 0 0 (reset_metrics env)"
  "balanced 0 0 (generate_cache_key env ms b m t)"
proof -
  show "balanced 0 0 get_cache_metrics"
    unfolding get_cache_metrics_def by (intro balance_rules balanced_manager) (simp add: manager_ok_def books_balance_def)
  show "balanced 0 0 (reset_metrics env)"
    unfolding reset_metrics_def
    by (intro balance_rules balanced_manager) (simp add: manager_ok_def books_balance_def new_cache_metrics_def)
  show "balanced 0 0 (generate_cache_key env ms b m t)"
    unfolding generate_cache_key_def track_key_patterns_def Let_def
    by (intro balance_rules balanced_manager) (simp add: manager_ok_def)
qed

section \<open>Calls of the manager\<close>

datatype manager_op =
    GenerateKey "pydict list" string string rat
  | LookUp string
  | StoreResponse string string key_components rat
  | DetectBad string string
  | WarmCache "key_components list option"
  | InvalidatePattern string
  | ReadMetrics
  | ResetMetrics

fun manager_step :: "'r cache_env \<Rightarrow> manager_op \<Rightarrow> 'r cache_world \<Rightarrow> 'r cache_world" where
  "manager_step env (GenerateKey ms b m t) w = snd (generate_cache_key env ms b m t w)"
| "manager_step env (LookUp key) w = snd (get_cached_response env key w)"
| "manager_step env (StoreResponse key response kc t) w = snd (store_cached_response env key response kc t w)"
| "manager_step env (DetectBad key response) w = snd (detect_bad_cache env key response w)"
| "manager_step env (WarmCache patterns) w = snd (warm_cache env patterns w)"
| "manager_step env (InvalidatePattern pattern) w = snd (invalidate_preemptively env pattern w)"
| "manager_step env ReadMetrics w = snd (get_cache_metrics w)"
| "manager_step env ResetMetrics w = snd (reset_metrics env w)"

lemma balanced_snd: "balanced k j m \<Longrightarrow> manager_ok k (kw_manager w) \<Longrightarrow> manager_ok j (kw_manager (snd (m w)))"
  unfolding balanced_def triple_def by (cases "m w"; cases "fst (m w)") fastforce+

lemma manager_step_ok: "manager_ok 0 (kw_manager w) \<Longrightarrow> manager_ok 0 (kw_manager (manager_step env op w))"
  by (cases op) (simp_all add: balanced_snd [OF metrics_balanced(1)] balanced_snd [OF metrics_balanced(2)]
      balanced_snd [OF metrics_balanced(3)] balanced_snd [OF lookup_balanced] balanced_snd [OF store_balanced]
      balanced_snd [OF detect_balanced] balanced_snd [OF warm_balanced] balanced_snd [OF invalidate_balanced])

lemma manager_steps_ok: "manager_ok 0 (kw_manager w) \<Longrightarrow> manager_ok 0 (kw_manager (fold (manager_step env) ops w))"
  by (induction ops arbitrary: w) (simp_all add: manager_step_ok)

lemma new_manager_ok: "manager_ok 0 (new_cache_manager config namespace given connects now)"
  by (simp add: manager_ok_def new_cache_manager_def books_balance_def new_cache_metrics_def)

text \<open>C23. After any calls of a new manager its books balance: every request since the last reset was a hit, a miss or
  a bypass, the hit rate lies in [0, 1], and at most a thousand answers are kept, one for each key. Two
  of its metrics never move: no hit counts as semantic, and no time of an answer that was not cached is
  measured.\<close>

theorem cache_manager_consistent:
  fixes ops :: "manager_op list" and env :: "'r cache_env" and w :: "'r cache_world"
  defines "km \<equiv> kw_manager (fold (manager_step env) ops w)" 
  assumes "kw_manager w = new_cache_manager config namespace given connects now"
  shows "mt_total_requests (km_metrics km) =
      mt_cache_hits (km_metrics km) + mt_cache_misses (km_metrics km) + mt_cache_bypasses (km_metrics km) \<and>
    0 \<le> hit_rate (km_metrics km) \<and> hit_rate (km_metrics km) \<le> 1 \<and>
    semantic_hit_rate (km_metrics km) = 0 \<and> mt_avg_uncached (km_metrics km) = 0 \<and>
    length (km_local km) \<le> 1000 \<and> distinct (map fst (km_local km))"
proof -
  have ok: "manager_ok 0 km"
    unfolding km_def by (rule manager_steps_ok) (simp add: assms(2) new_manager_ok)
  have "ratio a (a + b) \<le> 1 \<and> 0 \<le> ratio a (a + b)" if "0 \<le> a" "0 \<le> b" for a b
    using that by (simp add: ratio_def divide_simps)
  then show ?thesis
    using ok by (simp add: manager_ok_def books_balance_def hit_rate_def semantic_hit_rate_def ratio_def [of 0])
qed

section \<open>Bad keys\<close>

text \<open>No call takes a key out of the set of bad ones, and only a reset replaces the metrics: a condition \<open>P\<close> on the bad
  keys and the number of replaced metrics that further bad keys do not break is kept by the calls.\<close>

definition lasting :: "(string list \<Rightarrow> nat \<Rightarrow> bool) \<Rightarrow> bool" where
  "lasting P \<longleftrightarrow> (\<forall>bad n k. P bad n \<longrightarrow> P (List.insert k bad) n)"

definition at_manager :: "(string list \<Rightarrow> nat \<Rightarrow> bool) \<Rightarrow> cache_manager \<Rightarrow> bool" where
  "at_manager P km \<longleftrightarrow> P (km_bad km) (length (km_old km))"

definition bars :: "(string list \<Rightarrow> nat \<Rightarrow> bool) \<Rightarrow> ('r, 'a) cache_act \<Rightarrow> bool" where
  "bars P m \<longleftrightarrow> keeps (\<lambda>w. lasting P \<and> at_manager P (kw_manager w)) m"

named_theorems bars_rules

lemma bars_basic [bars_rules]: "bars P (ret x)" "bars P (see_manager f)" "bars P (read_time env)" "bars P (redis_call env g)"
  by (auto simp: bars_def see_manager_def keeps_iff ret_def get_with_def read_time_def redis_call_def split: prod.split)

lemma bars_on: "(\<And>km. lasting P \<Longrightarrow> at_manager P km \<Longrightarrow> at_manager P (f km)) \<Longrightarrow> bars P (on_manager f)"
  unfolding bars_def on_manager_def by (rule keeps_modify) simp

lemma bars_manager: "(\<And>km. km_bad (f km) = km_bad km \<and> km_old (f km) = km_old km) \<Longrightarrow> bars P (on_manager f)"
  by (rule bars_on) (simp add: at_manager_def)

lemma bars_count [bars_rules]: "bars P (count_metric f)"
  unfolding count_metric_def by (rule bars_manager) simp

lemma bars_bind [bars_rules]: "bars P m \<Longrightarrow> (\<And>a. bars P (f a)) \<Longrightarrow> bars P (bind m f)"
  unfolding bars_def by (rule keeps_bind)

lemma bars_next [bars_rules]: "bars P m \<Longrightarrow> bars P n \<Longrightarrow> bars P (next_act m n)"
  unfolding bars_def by (rule keeps_next)

lemma bars_if [bars_rules]: "bars P m \<Longrightarrow> bars P n \<Longrightarrow> bars P (if b then m else n)"
  by simp

lemma bars_when [bars_rules]: "bars P m \<Longrightarrow> bars P (when_do b m)"
  unfolding bars_def by (rule keeps_when)

lemma bars_option [bars_rules]: "bars P m \<Longrightarrow> (\<And>x. bars P (f x)) \<Longrightarrow> bars P (case a of None \<Rightarrow> m | Some x \<Rightarrow> f x)"
  by (cases a) simp_all

lemma bars_prod [bars_rules]: "(\<And>a b. bars P (f a b)) \<Longrightarrow> bars P (case p of (a, b) \<Rightarrow> f a b)"
  by (cases p) simp

lemma bad_drop_local [simp]: "km_bad (drop_local k km) = km_bad km" "km_bad (put_local k item km) = km_bad km"
  "km_old (drop_local k km) = km_old km" "km_old (put_local k item km) = km_old km"
  by (auto simp: drop_local_def put_local_def evict_local_def split: list.split)

lemma bars_lookup [bars_rules]: "bars P (get_cached_response env k)"
  unfolding get_cached_response_def look_in_redis_def look_in_local_def get_from_redis_def record_cache_hit_def
  by (intro bars_rules bars_manager) simp_all

lemma bars_warm_all [bars_rules]: "bars P (warm_all env kcs n)"
proof (induction kcs arbitrary: n)
  case (Cons kc kcs)
  then show ?case unfolding warm_all.simps by (intro bars_rules bars_manager) simp_all
qed (simp add: bars_basic)

lemma bars_invalidate [bars_rules]: "bars P (invalidate_cache_entry env k)"
  unfolding invalidate_cache_entry_def by (intro bars_rules bars_manager) simp_all

lemma bars_calls [bars_rules]:
  "bars P (generate_cache_key env ms b m t)" "bars P (store_cached_response env k response kc t)"
  "bars P (detect_bad_cache env k response)" "bars P (warm_cache env ps)" "bars P (invalidate_preemptively env p)"
  "bars P get_cache_metrics" "bars (\<lambda>bad _. Q bad) (reset_metrics env)"
proof -
  show "bars P (generate_cache_key env ms b m t)"
    unfolding generate_cache_key_def track_key_patterns_def Let_def by (intro bars_rules bars_manager) simp
  show "bars P (store_cached_response env k response kc t)"
    unfolding store_cached_response_def store_in_redis_def Let_def by (intro bars_rules bars_manager) simp
  have mark: "bars P (on_manager (\<lambda>km. km\<lparr>km_bad := List.insert k (km_bad km), km_metrics := g km\<rparr>))" for g
    by (rule bars_on) (simp add: lasting_def at_manager_def)
  show "bars P (detect_bad_cache env k response)"
    unfolding detect_bad_cache_def by (intro bars_rules mark)
  show "bars P (warm_cache env ps)" unfolding warm_cache_def by (intro bars_rules)
  show "bars P (invalidate_preemptively env p)"
    unfolding invalidate_preemptively_def invalidate_redis_def Let_def by (intro bars_rules bars_manager) simp
  show "bars P get_cache_metrics" unfolding get_cache_metrics_def by (intro bars_rules bars_manager) simp
  show "bars (\<lambda>bad _. Q bad) (reset_metrics env)"
    unfolding reset_metrics_def by (intro bars_rules bars_on) (simp add: at_manager_def)
qed

lemma bars_snd:
  "bars P m \<Longrightarrow> lasting P \<Longrightarrow> at_manager P (kw_manager w) \<Longrightarrow> at_manager P (kw_manager (snd (m w)))"
  unfolding bars_def by (drule keepsD [where w = w]) auto

definition has_bad :: "string \<Rightarrow> string list \<Rightarrow> nat \<Rightarrow> bool" where
  "has_bad key bad n \<longleftrightarrow> key \<in> set bad"

lemma lasting_bad: "lasting (has_bad key)" "has_bad key = (\<lambda>bad _. key \<in> set bad)"
  by (auto simp: lasting_def has_bad_def fun_eq_iff)

lemma bars_reset: "bars (has_bad key) (reset_metrics env)"
  unfolding lasting_bad(2) by (rule bars_calls(7))

lemma bars_step: "at_manager (has_bad key) (kw_manager w) \<Longrightarrow> at_manager (has_bad key) (kw_manager (manager_step env op w))"
  by (cases op) (simp_all add: bars_snd bars_lookup bars_calls(1-6) bars_reset lasting_bad(1))

lemma bars_steps:
  "at_manager (has_bad key) (kw_manager w) \<Longrightarrow> at_manager (has_bad key) (kw_manager (fold (manager_step env) ops w))"
  by (induction ops arbitrary: w) (simp_all add: bars_step)

lemma bad_lookup: "at_manager (has_bad key) (kw_manager w) \<Longrightarrow> fst (get_cached_response env key w) = Inr None"
  by (simp add: get_cached_response_def act_simps read_time_def count_metric_def on_manager_def see_manager_def
      at_manager_def has_bad_def)

lemma detect_marks:
  "is_bad_answer response \<Longrightarrow> at_manager (has_bad key) (kw_manager (snd (detect_bad_cache env key response w)))"
proof -
  have "bars (has_bad key) (next_act (invalidate_cache_entry env k) (ret True))" for k
    by (intro bars_rules)
  note kept = bars_snd [OF this lasting_bad(1)]
  assume "is_bad_answer response"
  then show ?thesis
    by (simp add: detect_bad_cache_def on_manager_def next_act_def [of "modify _"] bind_def modify_def kept)
      (rule kept, simp add: at_manager_def has_bad_def)
qed

text \<open>C24. One answer that is judged bad, and every answer of less than ten characters is, bars its key for good: whatever is
  called afterwards, also the storing of a good answer for the key, no look-up finds one.\<close>

theorem bad_key_never_answered:
  assumes "is_bad_answer response"
  shows "fst (get_cached_response env key (fold (manager_step env) ops (snd (detect_bad_cache env key response w)))) = Inr None \<and>
    (\<forall>short. length short < 10 \<longrightarrow> is_bad_answer short)"
proof -
  have "length (strip s) \<le> length s" for s
    unfolding strip_def using length_dropWhile_le [of is_space s] length_dropWhile_le [of is_space "rev (dropWhile is_space s)"]
    by (simp del: length_dropWhile_le)
  then have "is_bad_answer short" if "length short < 10" for short
    using that le_less_trans unfolding is_bad_answer_def by blast
  then show ?thesis using bad_lookup [OF bars_steps [OF detect_marks [OF assms]]] by blast
qed

section \<open>Storing and finding\<close>

lemma take_clock: "read_time env w = (Inr (ce_clock env (kw_reads w)), w\<lparr>kw_reads := Suc (kw_reads w)\<rparr>)"
  by (simp add: read_time_def)

text \<open>Without Redis, an answer of sufficient quality is found again under its key, unchanged, as long as its time has not
  run out, its key is not a bad one and the cache was not full; one of lower quality is not kept.\<close>

theorem stored_answer_found:
  assumes "\<not> km_redis (kw_manager w)" "key \<notin> set (km_bad (kw_manager w))" "length (km_local (kw_manager w)) < 1000"
    and "\<And>i j. i \<le> j \<Longrightarrow> ce_clock env j - ce_clock env i < of_int (cf_llm_response_ttl (km_config (kw_manager w)))"
  shows "if assess_response_quality response < 3 / 10
    then store_cached_response env key response kc t w = (Inr (), w)
    else \<exists>item w'. get_cached_response env key (snd (store_cached_response env key response kc t w)) = (Inr (Some item), w') \<and>
      ci_value item = response \<and> ci_components item = kc"
proof (cases "assess_response_quality response < 3 / 10")
  case True
  then show ?thesis by (simp add: store_cached_response_def ret_def)
next
  case False
  let ?km = "kw_manager w" and ?n = "kw_reads w"
  define item where "item = \<lparr>ci_value = response, ci_created_at = ce_clock env ?n, ci_last_accessed = ce_clock env (Suc ?n),
    ci_access_count = 1, ci_components = kc, ci_response_time = t, ci_quality = assess_response_quality response,
    ci_warmed = False, ci_validated = False, ci_scheduled = False\<rparr>"
  let ?km' = "?km\<lparr>km_local := AList.update key item (km_local ?km)\<rparr>"
  have "length (AList.update key item (km_local ?km)) \<le> 1000"
    using order_trans [OF update_length, of "km_local ?km" 1000 key item] assms(3) by simp
  then have put: "put_local key item ?km = ?km'" by (simp add: put_local_def evict_local_def)
  have store: "snd (store_cached_response env key response kc t w) = w\<lparr>kw_reads := Suc (Suc ?n), kw_manager := ?km'\<rparr>"
    using False assms(1) put
    by (simp add: store_cached_response_def take_clock act_simps see_manager_def on_manager_def Let_def item_def)
  have found: "map_of (AList.update key item (km_local ?km)) key = Some item" by (simp add: update_conv')
  have "ce_clock env (Suc (Suc (Suc ?n))) - ci_created_at item < of_int (cf_llm_response_ttl (km_config ?km))"
    using assms(4) [of ?n "Suc (Suc (Suc ?n))"] by (simp add: item_def)
  then show ?thesis
    unfolding store using False assms(1,2) found
    by (simp add: get_cached_response_def look_in_redis_def look_in_local_def record_cache_hit_def take_clock act_simps
        see_manager_def on_manager_def count_metric_def item_def)
qed

section \<open>Examples\<close>

definition sample_cache_env :: "unit cache_env" where
  "sample_cache_env = \<lparr>ce_md5 = (\<lambda>s. s), ce_sha256 = (\<lambda>s. s), ce_json = (\<lambda>ms. []), ce_dumps = ci_value, ce_loads = (\<lambda>s. None),
     ce_clock = (\<lambda>n. 0), ce_link = (\<lambda>n. LinkOk), ce_get = (\<lambda>k r. None), ce_setex = (\<lambda>k n v r. r), ce_delete = (\<lambda>ks r. r),
     ce_keys = (\<lambda>p r. [])\<rparr>"

definition sample_cache_world :: "unit cache_world" where
  "sample_cache_world = \<lparr>kw_server = (), kw_calls = 0, kw_reads = 0,
     kw_manager = new_cache_manager None ''autocode:llm_cache'' False False 0\<rparr>"

definition sample_components :: key_components where
  "sample_components = components_of sample_cache_env [[(''role'', PStr ''user''), (''content'', PStr ''fix it'')]] ''openai'' ''gpt-4'' 0"

lemma cache_manager_consistent_witness:
  "length (km_local (kw_manager (fold (manager_step sample_cache_env)
     [LookUp ''k'', StoreResponse ''k'' ''an answer that is long enough'' sample_components 1, LookUp ''k''] sample_cache_world))) \<le> 1000"
proof -
  have "kw_manager sample_cache_world = new_cache_manager None ''autocode:llm_cache'' False False 0"
    by (simp add: sample_cache_world_def)
  from cache_manager_consistent [OF this] show ?thesis by blast
qed

lemma bad_key_never_answered_witness:
  "fst (get_cached_response sample_cache_env ''k'' (fold (manager_step sample_cache_env)
     [StoreResponse ''k'' ''an answer that is long enough'' sample_components 1]
     (snd (detect_bad_cache sample_cache_env ''k'' ''yes'' sample_cache_world)))) = Inr None"
proof -
  have "is_bad_answer ''yes''" by code_simp
  then show ?thesis by (rule bad_key_never_answered [THEN conjunct1])
qed

lemma stored_answer_found_witness:
  "\<exists>item w'. get_cached_response sample_cache_env ''k'' (snd (store_cached_response sample_cache_env ''k''
     ''an answer that is long enough'' sample_components 1 sample_cache_world)) = (Inr (Some item), w') \<and>
     ci_value item = ''an answer that is long enough''"
proof -
  have "\<not> assess_response_quality ''an answer that is long enough'' < 3 / 10" by code_simp
  then show ?thesis
    using stored_answer_found [of sample_cache_world "''k''" sample_cache_env "''an answer that is long enough''" sample_components 1]
    by (auto simp: sample_cache_world_def new_cache_manager_def sample_cache_env_def default_cache_config_def)
qed

end
