(* ===== verification/Cache_Monitor.thy ===== *)
theory Cache_Monitor
  imports Cache_Manager
begin

text \<open>
  The monitor of the second cache, \<open>llm/cache_monitor.py\<close>, and the client that puts this cache before the one of
  \<open>Llm_Client\<close>, \<open>llm/enhanced_llm_client.py\<close>.

  A check of the monitor is one step, as are the calls of the client: the threads interleave between them. The
  callback for alerts is a parameter, as is whether the thread of the monitor starts.
\<close>

section \<open>The state of the monitor\<close>

record cache_alert =
  al_type :: string
  al_severity :: string
  al_message :: string
  al_metrics :: nat
  al_timestamp :: rat
  al_acknowledged :: bool

record cache_thresholds =
  th_min_hit_rate :: rat
  th_warning_hit_rate :: rat
  th_max_bad_rate :: rat
  th_warning_bad_rate :: rat
  th_max_ratio :: rat
  th_max_size_mb :: rat
  th_interval :: rat
  th_cooldown :: rat

definition default_cache_thresholds :: cache_thresholds where
  "default_cache_thresholds = \<lparr>th_min_hit_rate = 95 / 100, th_warning_hit_rate = 90 / 100, th_max_bad_rate = 5 / 100,
     th_warning_bad_rate = 2 / 100, th_max_ratio = 2, th_max_size_mb = 500, th_interval = 60, th_cooldown = 300\<rparr>"

text \<open>The history holds the metrics objects, by their number.\<close>

record cache_monitor =
  cm_thresholds :: cache_thresholds
  cm_monitoring :: bool
  cm_alerts :: "cache_alert list"
  cm_last_times :: "(string \<times> rat) list"
  cm_history :: "nat list"

record 'r monitor_world =
  mo_cache :: "'r cache_world"
  mo_monitor :: cache_monitor

type_synonym ('r, 'a) monitor_act = "('r monitor_world, 'a) act"

type_synonym 'r alert_callback = "(cache_alert \<Rightarrow> ('r, unit) monitor_act) option"

definition new_cache_monitor :: "cache_thresholds option \<Rightarrow> cache_monitor" where
  "new_cache_monitor thresholds =
     \<lparr>cm_thresholds = (case thresholds of Some t \<Rightarrow> t | None \<Rightarrow> default_cache_thresholds), cm_monitoring = False, cm_alerts = [],
      cm_last_times = [], cm_history = []\<rparr>"

definition of_manager :: "('r, 'a) cache_act \<Rightarrow> ('r, 'a) monitor_act" where
  "of_manager m w = (let (r, c) = m (mo_cache w) in (r, w\<lparr>mo_cache := c\<rparr>))"

definition on_monitor :: "(cache_monitor \<Rightarrow> cache_monitor) \<Rightarrow> ('r, unit) monitor_act" where
  "on_monitor f = modify (\<lambda>w. w\<lparr>mo_monitor := f (mo_monitor w)\<rparr>)"

definition see_metrics :: "nat \<Rightarrow> 'r monitor_world \<Rightarrow> cache_metrics" where
  "see_metrics n w = metrics_at (kw_manager (mo_cache w)) n"

definition start_monitoring :: "cache_monitor \<Rightarrow> cache_monitor" where
  "start_monitoring mo = (if cm_monitoring mo then mo else mo\<lparr>cm_monitoring := True\<rparr>)"

definition stop_monitoring :: "cache_monitor \<Rightarrow> cache_monitor" where
  "stop_monitoring mo = (if \<not> cm_monitoring mo then mo else mo\<lparr>cm_monitoring := False\<rparr>)"

definition create_cache_monitor :: "cache_thresholds option \<Rightarrow> bool \<Rightarrow> cache_monitor" where
  "create_cache_monitor thresholds auto_start =
     (if auto_start then start_monitoring (new_cache_monitor thresholds) else new_cache_monitor thresholds)"

section \<open>Alerts\<close>

text \<open>\<open>log_structured(task, *, level, message, **extra)\<close> of \<open>utils/observability.py\<close>, called with a text in the place of the
  task and with the keywords \<open>given\<close>: a missing keyword is an error, and a text has no \<open>get\<close>.\<close>

definition log_structured_text :: "string list \<Rightarrow> unit result" where
  "log_structured_text given =
     (case filter (\<lambda>k. k \<notin> set given) [''level'', ''message''] of
        [] \<Rightarrow> Inl (NamedError ''AttributeError'' (quote_text ''str'' @ '' object has no attribute '' @ quote_text ''get''))
      | [k] \<Rightarrow> Inl (TypeError (''log_structured() missing 1 required keyword-only argument: '' @ quote_text k))
      | ks \<Rightarrow> Inl (TypeError (''log_structured() missing 2 required keyword-only arguments: '' @
                 join '' and '' (map quote_text ks))))"

definition attempt_automatic_remediation :: "'r cache_env \<Rightarrow> string \<Rightarrow> ('r, unit) monitor_act" where
  "attempt_automatic_remediation env alert_type =
     try_except
       (if alert_type = ''hit_rate_low'' then bind (of_manager (warm_cache env None)) (\<lambda>_. ret ())
        else if alert_type = ''bad_cache_high'' then bind (of_manager (invalidate_preemptively env ''error'')) (\<lambda>_. ret ())
        else ret ())
       (\<lambda>_. ret ())"

definition add_alert :: "cache_alert \<Rightarrow> rat \<Rightarrow> cache_monitor \<Rightarrow> cache_monitor" where
  "add_alert alert now mo =
     (let alerts = cm_alerts mo @ [alert] in
      mo\<lparr>cm_alerts := (if length alerts > 100 then drop (length alerts - 50) alerts else alerts),
         cm_last_times := AList.update (al_type alert) now (cm_last_times mo)\<rparr>)"

definition generate_alert ::
  "'r cache_env \<Rightarrow> 'r alert_callback \<Rightarrow> string \<Rightarrow> string \<Rightarrow> string \<Rightarrow> nat \<Rightarrow> ('r, unit) monitor_act" where
  "generate_alert env callback alert_type severity message metrics =
     bind (of_manager (read_time env)) (\<lambda>now.
     bind (get_with mo_monitor) (\<lambda>mo.
       if now - (case map_of (cm_last_times mo) alert_type of Some t \<Rightarrow> t | None \<Rightarrow> 0) < th_cooldown (cm_thresholds mo)
       then ret ()
       else
         bind (of_manager (read_time env)) (\<lambda>created.
           let alert = \<lparr>al_type = alert_type, al_severity = severity, al_message = message, al_metrics = metrics,
                 al_timestamp = created, al_acknowledged = False\<rparr> in
           next_act (on_monitor (add_alert alert now))
           (next_act (lift_result (log_structured_text [''level'', ''stage'', ''error_code'', ''extra'']))
           (next_act (case callback of None \<Rightarrow> ret () | Some f \<Rightarrow> try_except (f alert) (\<lambda>_. ret ()))
             (when_do (severity = ''critical'') (attempt_automatic_remediation env alert_type)))))))"

section \<open>Checks\<close>

definition show_percent :: "rat \<Rightarrow> string" where
  "show_percent q = show_fixed 2 (100 * q) @ ''%''"

definition check_hit_rate :: "'r cache_env \<Rightarrow> 'r alert_callback \<Rightarrow> nat \<Rightarrow> ('r, unit) monitor_act" where
  "check_hit_rate env callback n =
     bind (get_with (\<lambda>w. (see_metrics n w, cm_thresholds (mo_monitor w)))) (\<lambda>(mt, th).
       if mt_total_requests mt < 10 then ret ()
       else if hit_rate mt < th_min_hit_rate th
       then generate_alert env callback ''hit_rate_low'' ''critical''
              (''Cache hit rate '' @ show_percent (hit_rate mt) @ '' below minimum '' @ show_percent (th_min_hit_rate th)) n
       else if hit_rate mt < th_warning_hit_rate th
       then generate_alert env callback ''hit_rate_warning'' ''warning''
              (''Cache hit rate '' @ show_percent (hit_rate mt) @ '' below warning threshold '' @
               show_percent (th_warning_hit_rate th)) n
       else ret ())"

definition check_bad_cache_rate :: "'r cache_env \<Rightarrow> 'r alert_callback \<Rightarrow> nat \<Rightarrow> ('r, unit) monitor_act" where
  "check_bad_cache_rate env callback n =
     bind (get_with (\<lambda>w. (see_metrics n w, cm_thresholds (mo_monitor w)))) (\<lambda>(mt, th).
       if bad_cache_rate mt > th_max_bad_rate th
       then generate_alert env callback ''bad_cache_high'' ''critical''
              (''Bad cache rate '' @ show_percent (bad_cache_rate mt) @ '' above maximum '' @ show_percent (th_max_bad_rate th)) n
       else if bad_cache_rate mt > th_warning_bad_rate th
       then generate_alert env callback ''bad_cache_warning'' ''warning''
              (''Bad cache rate '' @ show_percent (bad_cache_rate mt) @ '' above warning threshold '' @
               show_percent (th_warning_bad_rate th)) n
       else ret ())"

definition size_mb :: "cache_metrics \<Rightarrow> rat" where
  "size_mb mt = of_int (mt_size_bytes mt) / (1024 * 1024)"

definition check_cache_size :: "'r cache_env \<Rightarrow> 'r alert_callback \<Rightarrow> nat \<Rightarrow> ('r, unit) monitor_act" where
  "check_cache_size env callback n =
     bind (get_with (\<lambda>w. (see_metrics n w, cm_thresholds (mo_monitor w)))) (\<lambda>(mt, th).
       if size_mb mt > th_max_size_mb th
       then generate_alert env callback ''size_limit'' ''warning''
              (''Cache size '' @ show_fixed 1 (size_mb mt) @ ''MB exceeds limit '' @ show_fixed 1 (th_max_size_mb th) @ ''MB'') n
       else ret ())"

definition check_performance_degradation :: "'r cache_env \<Rightarrow> 'r alert_callback \<Rightarrow> nat \<Rightarrow> ('r, unit) monitor_act" where
  "check_performance_degradation env callback n =
     bind (get_with (\<lambda>w. (see_metrics n w, cm_thresholds (mo_monitor w)))) (\<lambda>(mt, th).
       if mt_avg_cached mt > 0 \<and> mt_avg_uncached mt > 0 \<and> mt_avg_uncached mt / mt_avg_cached mt < th_max_ratio th
       then generate_alert env callback ''performance_degraded'' ''warning''
              (''Cache performance ratio '' @ show_fixed 1 (mt_avg_uncached mt / mt_avg_cached mt) @ ''x below expected '' @
               show_fixed 1 (th_max_ratio th) @ ''x'') n
       else ret ())"

definition remember_metrics :: "nat \<Rightarrow> cache_monitor \<Rightarrow> cache_monitor" where
  "remember_metrics n mo =
     (let history = cm_history mo @ [n] in mo\<lparr>cm_history := (if length history > 100 then tl history else history)\<rparr>)"

definition check_cache_performance :: "'r cache_env \<Rightarrow> 'r alert_callback \<Rightarrow> ('r, unit) monitor_act" where
  "check_cache_performance env callback =
     bind (of_manager get_cache_metrics) (\<lambda>n.
     next_act (on_monitor (remember_metrics n))
     (next_act (check_hit_rate env callback n)
     (next_act (check_bad_cache_rate env callback n)
     (next_act (check_cache_size env callback n)
     (next_act (check_performance_degradation env callback n)
     (bind (get_with (\<lambda>w. length (cm_history (mo_monitor w)))) (\<lambda>k.
       if k mod 10 = 0 then lift_result (log_structured_text [''level'', ''stage'', ''extra'']) else ret ())))))))"

text \<open>A round of \<open>_monitor_loop\<close>: nothing happens once the monitor has been stopped.\<close>

definition monitor_round :: "'r cache_env \<Rightarrow> 'r alert_callback \<Rightarrow> ('r, unit) monitor_act" where
  "monitor_round env callback =
     bind (get_with (\<lambda>w. cm_monitoring (mo_monitor w))) (\<lambda>monitoring.
       if monitoring then try_except (check_cache_performance env callback) (\<lambda>_. ret ()) else ret ())"

section \<open>Status\<close>

definition mean_hit_rate :: "nat list \<Rightarrow> 'r monitor_world \<Rightarrow> rat" where
  "mean_hit_rate ns w = sum_list (map (\<lambda>n. hit_rate (see_metrics n w)) ns) / of_nat (length ns)"

definition get_performance_trend :: "'r monitor_world \<Rightarrow> pydict" where
  "get_performance_trend w =
     (let h = cm_history (mo_monitor w); recent = last_n 5 h;
          older = (if length h \<ge> 10 then take 5 (last_n 10 h) else []) in
      if length h < 2 then [(''trend'', PStr ''insufficient_data'')]
      else if older = [] then [(''trend'', PStr ''insufficient_history'')]
      else
        let change = mean_hit_rate recent w - mean_hit_rate older w in
        [(''trend'', PStr (if \<bar>change\<bar> < 1 / 100 then ''stable'' else if change > 0 then ''improving'' else ''declining'')),
         (''hit_rate_change'', PFloat change), (''recent_hit_rate'', PFloat (mean_hit_rate recent w)),
         (''older_hit_rate'', PFloat (mean_hit_rate older w))])"

definition alert_dict :: "cache_alert \<Rightarrow> pyval" where
  "alert_dict a = PDict [(''type'', PStr (al_type a)), (''severity'', PStr (al_severity a)), (''message'', PStr (al_message a)),
     (''timestamp'', PFloat (al_timestamp a))]"

definition recent_alerts :: "cache_monitor \<Rightarrow> pyval list" where
  "recent_alerts mo = map alert_dict (last_n 5 (cm_alerts mo))"

definition get_current_status :: "('r, pydict) monitor_act" where
  "get_current_status =
     bind (of_manager get_cache_metrics) (\<lambda>n.
       get_with (\<lambda>w. let mt = see_metrics n w; mo = mo_monitor w; th = cm_thresholds mo in
         [(''monitoring_active'', PBool (cm_monitoring mo)),
          (''metrics'', PDict [(''hit_rate'', PFloat (hit_rate mt)), (''total_requests'', PInt (mt_total_requests mt)),
             (''cache_hits'', PInt (mt_cache_hits mt)), (''cache_misses'', PInt (mt_cache_misses mt)),
             (''bad_cache_rate'', PFloat (bad_cache_rate mt)), (''semantic_hit_rate'', PFloat (semantic_hit_rate mt)),
             (''cache_size_mb'', PFloat (size_mb mt))]),
          (''thresholds'', PDict [(''min_hit_rate'', PFloat (th_min_hit_rate th)),
             (''max_bad_cache_rate'', PFloat (th_max_bad_rate th)), (''max_cache_size_mb'', PFloat (th_max_size_mb th))]),
          (''alerts'', PDict [(''total_alerts'', PInt (int (length (cm_alerts mo)))),
             (''unacknowledged_alerts'', PInt (int (length (filter (\<lambda>a. \<not> al_acknowledged a) (cm_alerts mo))))),
             (''recent_alerts'', PList (recent_alerts mo))]),
          (''performance_trend'', PDict (get_performance_trend w))]))"

definition wants_alert :: "string list option \<Rightarrow> cache_alert \<Rightarrow> bool" where
  "wants_alert alert_types a \<longleftrightarrow>
     \<not> al_acknowledged a \<and> (case alert_types of None \<Rightarrow> True | Some ts \<Rightarrow> al_type a \<in> set ts)"

definition acknowledge_alerts :: "string list option \<Rightarrow> cache_monitor \<Rightarrow> int \<times> cache_monitor" where
  "acknowledge_alerts alert_types mo =
     (int (length (filter (wants_alert alert_types) (cm_alerts mo))),
      mo\<lparr>cm_alerts := map (\<lambda>a. if wants_alert alert_types a then a\<lparr>al_acknowledged := True\<rparr> else a) (cm_alerts mo)\<rparr>)"

text \<open>The result: the actions, and the metrics before and after, by their numbers.\<close>

definition force_cache_optimization :: "'r cache_env \<Rightarrow> ('r, string list \<times> nat \<times> nat) monitor_act" where
  "force_cache_optimization env =
     bind (of_manager get_cache_metrics) (\<lambda>before_opt.
     bind (of_manager (warm_cache env None)) (\<lambda>warmed.
     bind (of_manager (invalidate_preemptively env ''error'')) (\<lambda>invalidated.
     bind (of_manager get_cache_metrics) (\<lambda>after_opt.
       ret ((if warmed > 0 then [''warmed_'' @ show_int warmed @ ''_entries''] else []) @
            (if invalidated > 0 then [''invalidated_'' @ show_int invalidated @ ''_bad_entries''] else []),
            before_opt, after_opt)))))"

section \<open>The enhanced client\<close>

record enhanced_client =
  en_base :: llm_client
  en_enabled :: bool
  en_monitored :: bool

record 'r enhanced_world =
  ew_cached :: "'r monitor_world"
  ew_llm :: llm_world

type_synonym ('r, 'a) enhanced_act = "('r enhanced_world, 'a) act"

text \<open>When the thread of the monitor does not start, the client goes on without the second cache.\<close>

definition new_enhanced_client :: "llm_client \<Rightarrow> bool \<Rightarrow> bool \<Rightarrow> bool \<Rightarrow> enhanced_client" where
  "new_enhanced_client base caching monitoring starts =
     (let enabled = (caching \<and> (monitoring \<longrightarrow> starts)) in
      \<lparr>en_base = base, en_enabled = enabled, en_monitored = (enabled \<and> monitoring)\<rparr>)"

definition new_enhanced_world ::
  "enhanced_client \<Rightarrow> bool \<Rightarrow> rat \<Rightarrow> 'r \<Rightarrow> llm_world \<Rightarrow> 'r enhanced_world" where
  "new_enhanced_world cl connects now server lw =
     \<lparr>ew_cached = \<lparr>mo_cache = \<lparr>kw_server = server, kw_calls = 0, kw_reads = 0,
         kw_manager = new_cache_manager None ''autocode:llm_cache'' False connects now\<rparr>,
       mo_monitor = create_cache_monitor None (en_monitored cl)\<rparr>, ew_llm = lw\<rparr>"

definition create_enhanced_llm_client ::
  "profile_files \<Rightarrow> (string \<Rightarrow> string option) \<Rightarrow> llm_args \<Rightarrow> bool \<Rightarrow> bool \<Rightarrow> bool \<Rightarrow> enhanced_client" where
  "create_enhanced_llm_client pf getenv a caching monitoring starts =
     new_enhanced_client (new_llm_client pf getenv a) caching monitoring starts"

definition of_monitor :: "('r, 'a) monitor_act \<Rightarrow> ('r, 'a) enhanced_act" where
  "of_monitor m w = (let (r, c) = m (ew_cached w) in (r, w\<lparr>ew_cached := c\<rparr>))"

abbreviation of_cache :: "('r, 'a) cache_act \<Rightarrow> ('r, 'a) enhanced_act" where
  "of_cache m \<equiv> of_monitor (of_manager m)"

definition of_base :: "(llm_world, 'a) act \<Rightarrow> ('r, 'a) enhanced_act" where
  "of_base m w = (let (r, c) = m (ew_llm w) in (r, w\<lparr>ew_llm := c\<rparr>))"

text \<open>A cached answer that is found, not empty and not judged bad.\<close>

definition usable_answer :: "'r cache_env \<Rightarrow> string \<Rightarrow> ('r, string option) cache_act" where
  "usable_answer env key =
     bind (get_cached_response env key) (\<lambda>found.
       case found of
         None \<Rightarrow> ret None
       | Some item \<Rightarrow>
           if ci_value item = [] then ret None
           else bind (detect_bad_cache env key (ci_value item)) (\<lambda>bad. ret (if bad then None else Some (ci_value item))))"

definition chat_through_cache ::
  "'r cache_env \<Rightarrow> llm_env \<Rightarrow> enhanced_client \<Rightarrow> rat \<Rightarrow> pydict list \<Rightarrow> ('r, string) enhanced_act" where
  "chat_through_cache env le cl start_time messages =
     bind (of_cache (generate_cache_key env messages (lk_backend (en_base cl)) (lk_model (en_base cl))
              (lk_temperature (en_base cl)))) (\<lambda>(key, kc).
     bind (of_cache (usable_answer env key)) (\<lambda>cached.
       case cached of
         Some answer \<Rightarrow> ret answer
       | None \<Rightarrow>
           bind (of_base (chat le (en_base cl) messages)) (\<lambda>response.
           bind (of_cache (read_time env)) (\<lambda>now.
           next_act (of_cache (store_cached_response env key response kc (now - start_time)))
           (bind (of_cache (detect_bad_cache env key response)) (\<lambda>_. ret response))))))"

definition enhanced_chat :: "'r cache_env \<Rightarrow> llm_env \<Rightarrow> enhanced_client \<Rightarrow> pydict list \<Rightarrow> ('r, string) enhanced_act" where
  "enhanced_chat env le cl messages =
     (if \<not> en_enabled cl then of_base (chat le (en_base cl) messages)
      else bind (of_cache (read_time env)) (\<lambda>start_time.
        try_except (chat_through_cache env le cl start_time messages)
          (\<lambda>_. of_base (chat le (en_base cl) messages))))"

definition enhanced_generate ::
  "'r cache_env \<Rightarrow> llm_env \<Rightarrow> enhanced_client \<Rightarrow> string \<Rightarrow> string \<Rightarrow> ('r, string) enhanced_act" where
  "enhanced_generate env le cl prompt system_prompt =
     enhanced_chat env le cl
       ((if strip system_prompt \<noteq> [] then [[(''role'', PStr ''system''), (''content'', PStr (strip system_prompt))]] else []) @
        [[(''role'', PStr ''user''), (''content'', PStr (strip prompt))]])"

definition enhanced_clear_cache :: "'r cache_env \<Rightarrow> enhanced_client \<Rightarrow> bool \<Rightarrow> ('r, unit) enhanced_act" where
  "enhanced_clear_cache env cl reset_stats =
     next_act (of_base (modify (clear_cache reset_stats)))
       (when_do (en_enabled cl \<and> reset_stats) (of_cache (reset_metrics env)))"

definition enhanced_discard_last :: "llm_env \<Rightarrow> string \<Rightarrow> ('r, bool) enhanced_act" where
  "enhanced_discard_last le reason = of_base (discard_last_cache_entry le reason)"

definition enhanced_discard_since :: "llm_env \<Rightarrow> string \<Rightarrow> int \<Rightarrow> ('r, int) enhanced_act" where
  "enhanced_discard_since le reason sequence = of_base (discard_cache_entries_since le reason sequence)"

definition enhanced_event_cursor :: "('r, int) enhanced_act" where
  "enhanced_event_cursor = of_base (get_with cache_event_cursor)"

definition enhanced_last_event :: "('r, cache_event option) enhanced_act" where
  "enhanced_last_event = of_base (get_with lw_last_event)"

text \<open>The statistics are the metrics object of the second cache, or those of the first.\<close>

definition enhanced_cache_stats ::
  "enhanced_client \<Rightarrow> (llm_world \<Rightarrow> 'a) \<Rightarrow> ('r, nat + 'a) enhanced_act" where
  "enhanced_cache_stats cl base_stats =
     (if en_enabled cl then bind (of_cache get_cache_metrics) (\<lambda>n. ret (Inl n))
      else bind (of_base (get_with base_stats)) (\<lambda>s. ret (Inr s)))"

definition enhanced_warm_cache :: "'r cache_env \<Rightarrow> enhanced_client \<Rightarrow> key_components list option \<Rightarrow> ('r, int) enhanced_act" where
  "enhanced_warm_cache env cl patterns = (if \<not> en_enabled cl then ret 0 else of_cache (warm_cache env patterns))"

definition invalidate_cache_pattern :: "'r cache_env \<Rightarrow> enhanced_client \<Rightarrow> string \<Rightarrow> ('r, int) enhanced_act" where
  "invalidate_cache_pattern env cl pattern =
     (if \<not> en_enabled cl then ret 0 else of_cache (invalidate_preemptively env pattern))"

definition optimize_cache :: "'r cache_env \<Rightarrow> enhanced_client \<Rightarrow> ('r, pydict) enhanced_act" where
  "optimize_cache env cl =
     (if \<not> en_enabled cl then ret [(''error'', PStr ''Enhanced caching not enabled'')]
      else
        bind (of_cache (warm_cache env None)) (\<lambda>warmed.
        bind (of_cache (invalidate_preemptively env ''error'')) (\<lambda>invalidated.
        bind (of_cache (read_time env)) (\<lambda>now.
          ret [(''cache_warmed'', PInt warmed), (''bad_cache_invalidated'', PInt invalidated), (''timestamp'', PFloat now)]))))"

definition get_monitoring_alerts :: "enhanced_client \<Rightarrow> ('r, pyval list) enhanced_act" where
  "get_monitoring_alerts cl =
     (if \<not> en_monitored cl then ret []
      else next_act (of_monitor get_current_status) (get_with (\<lambda>w. recent_alerts (mo_monitor (ew_cached w)))))"

definition enhanced_acknowledge_alerts :: "enhanced_client \<Rightarrow> string list option \<Rightarrow> ('r, int) enhanced_act" where
  "enhanced_acknowledge_alerts cl alert_types w =
     (if \<not> en_monitored cl then (Inr 0, w)
      else let (n, mo) = acknowledge_alerts alert_types (mo_monitor (ew_cached w)) in
        (Inr n, w\<lparr>ew_cached := (ew_cached w)\<lparr>mo_monitor := mo\<rparr>\<rparr>))"

definition shutdown_client :: "enhanced_client \<Rightarrow> ('r, unit) enhanced_act" where
  "shutdown_client cl = when_do (en_monitored cl) (of_monitor (on_monitor stop_monitoring))"

definition base_cache_stats :: "llm_env \<Rightarrow> (llm_world, llm_cache_stats) act" where
  "base_cache_stats le =
     bind (read_clock le) (\<lambda>now w. (Inr (fst (cache_stats now (lw_cache w))), w\<lparr>lw_cache := snd (cache_stats now (lw_cache w))\<rparr>))"

definition get_cache_status :: "llm_env \<Rightarrow> enhanced_client \<Rightarrow> ('r, pydict) enhanced_act" where
  "get_cache_status le cl =
     bind (of_base (base_cache_stats le)) (\<lambda>st.
     bind (if en_enabled cl
           then bind (of_cache get_cache_metrics) (\<lambda>n. get_with (\<lambda>w. let mt = see_metrics n (ew_cached w) in
             [(''enhanced_cache'', PDict [(''hit_rate'', PFloat (hit_rate mt)),
                (''semantic_hit_rate'', PFloat (semantic_hit_rate mt)), (''bad_cache_rate'', PFloat (bad_cache_rate mt)),
                (''total_requests'', PInt (mt_total_requests mt)), (''cache_warmings'', PInt (mt_warmings mt)),
                (''preemptive_invalidations'', PInt (mt_invalidations mt))])]))
           else ret []) (\<lambda>second.
     bind (if en_monitored cl then bind (of_monitor get_current_status) (\<lambda>s. ret [(''monitoring'', PDict s)]) else ret [])
       (\<lambda>monitoring.
       ret ([(''enhanced_caching_enabled'', PBool (en_enabled cl)),
             (''base_client_configured'', PBool (required_key_name (le_getenv le) (en_base cl) = None)),
             (''base_cache'', PDict [(''enabled'', PBool (st_enabled st)), (''hit_rate'', PFloat (st_hit_rate st)),
                (''size'', PInt (st_size st)), (''requests'', PInt (st_requests st))])] @ second @ monitoring))))"

definition enhanced_record_metrics ::
  "enhanced_client \<Rightarrow> string \<Rightarrow> string \<Rightarrow> int option \<Rightarrow> observation \<Rightarrow> ('r, observation) enhanced_act" where
  "enhanced_record_metrics cl stage backend since ob =
     bind (get_with (\<lambda>w. record_cache_metrics (en_base cl) stage backend since (ew_llm w) ob)) (\<lambda>ob'.
       if en_enabled cl
       then bind (of_cache get_cache_metrics) (\<lambda>n.
              get_with (\<lambda>w. manager_record_metrics stage (see_metrics n (ew_cached w)) ob'))
       else ret ob')"

section \<open>Alerts go nowhere\<close>

lemma next_throw: "next_act (lift_result (Inl e)) m = throw e" "next_act (throw e) m = throw e"
  by (simp_all add: fun_eq_iff act_simps)

text \<open>A part of a check: the manager is left alone, and it raises when it adds an alert.\<close>

definition mute :: "('r, 'a) monitor_act \<Rightarrow> bool" where
  "mute m \<longleftrightarrow> (\<forall>km alerts. triple
     (\<lambda>w. kw_manager (mo_cache w) = km \<and> cm_alerts (mo_monitor w) = alerts) m
     (\<lambda>_ w. kw_manager (mo_cache w) = km \<and> cm_alerts (mo_monitor w) = alerts)
     (\<lambda>e w. kw_manager (mo_cache w) = km \<and> (\<exists>text. e = TypeError text)))"

named_theorems mute_rules

lemma mute_ret [mute_rules]: "mute (ret x)" "mute (get_with f)"
  by (simp_all add: mute_def triple_ret triple_get)

lemma mute_bind [mute_rules]: "mute m \<Longrightarrow> (\<And>a. mute (f a)) \<Longrightarrow> mute (bind m f)"
  unfolding mute_def by (blast intro: triple_bind)

lemma mute_next [mute_rules]: "mute m \<Longrightarrow> mute n \<Longrightarrow> mute (next_act m n)"
  unfolding mute_def by (blast intro: triple_next)

lemma mute_if [mute_rules]: "mute m \<Longrightarrow> mute n \<Longrightarrow> mute (if b then m else n)"
  by simp

lemma mute_prod [mute_rules]: "(\<And>a b. mute (f a b)) \<Longrightarrow> mute (case p of (a, b) \<Rightarrow> f a b)"
  by (cases p) simp

lemma mute_clock [mute_rules]: "mute (of_manager (read_time env))"
  by (simp add: mute_def triple_def of_manager_def read_time_def)

lemma mute_remember [mute_rules]: "mute (on_monitor (remember_metrics n))"
  by (simp add: mute_def on_monitor_def triple_def modify_def remember_metrics_def Let_def)

lemma mute_raise: "mute (next_act (on_monitor f) (throw (TypeError text)))"
  by (simp add: mute_def triple_def on_monitor_def act_simps)

lemma log_without_message:
  "log_structured_text [''level'', ''stage'', ''error_code'', ''extra''] =
     Inl (TypeError (''log_structured() missing 1 required keyword-only argument: '' @ quote_text ''message''))"
  "log_structured_text [''level'', ''stage'', ''extra''] =
     Inl (TypeError (''log_structured() missing 1 required keyword-only argument: '' @ quote_text ''message''))"
  by (simp_all add: log_structured_text_def)

lemma mute_log [mute_rules]: "mute (lift_result (log_structured_text [''level'', ''stage'', ''extra'']))"
  by (simp add: log_without_message mute_def triple_def lift_result_def)

lemmas generate_alert_raises = generate_alert_def [unfolded log_without_message next_throw]

lemma mute_alert [mute_rules]: "mute (generate_alert env callback t s text n)"
  unfolding generate_alert_raises Let_def by (intro mute_rules mute_raise)

lemma generate_alert_deaf: "generate_alert env callback = generate_alert env None"
  by (simp add: fun_eq_iff generate_alert_raises)

lemma check_deaf: "check_cache_performance env callback = check_cache_performance env None"
  unfolding check_cache_performance_def check_hit_rate_def check_bad_cache_rate_def check_cache_size_def
    check_performance_degradation_def generate_alert_deaf [of env callback] ..

lemma mute_checks [mute_rules]:
  "mute (check_hit_rate env callback n)" "mute (check_bad_cache_rate env callback n)" "mute (check_cache_size env callback n)"
  "mute (check_performance_degradation env callback n)"
  unfolding check_hit_rate_def check_bad_cache_rate_def check_cache_size_def check_performance_degradation_def
  by (intro mute_rules)+

definition sized :: "cache_manager \<Rightarrow> cache_manager" where
  "sized km = km\<lparr>km_metrics := (km_metrics km)\<lparr>mt_size_bytes := calculate_cache_size km\<rparr>\<rparr>"

lemma get_metrics_run: "get_cache_metrics c = (Inr (length (km_old (kw_manager c))), c\<lparr>kw_manager := sized (kw_manager c)\<rparr>)"
  by (simp add: get_cache_metrics_def act_simps on_manager_def see_manager_def sized_def)

lemma check_mute:
  assumes "check_cache_performance env callback w = (r, w')"
  shows "kw_manager (mo_cache w') = sized (kw_manager (mo_cache w))"
    "cm_alerts (mo_monitor w') = cm_alerts (mo_monitor w) \<or> (\<exists>text. r = Inl (TypeError text))"
    "r = Inr () \<or> (\<exists>text. r = Inl (TypeError text))"
proof -
  let ?n = "length (km_old (kw_manager (mo_cache w)))"
  let ?w = "w\<lparr>mo_cache := (mo_cache w)\<lparr>kw_manager := sized (kw_manager (mo_cache w))\<rparr>\<rparr>"
  let ?m = "next_act (on_monitor (remember_metrics ?n)) (next_act (check_hit_rate env callback ?n)
     (next_act (check_bad_cache_rate env callback ?n) (next_act (check_cache_size env callback ?n)
     (next_act (check_performance_degradation env callback ?n)
     (bind (get_with (\<lambda>w. length (cm_history (mo_monitor w)))) (\<lambda>k.
       if k mod 10 = 0 then lift_result (log_structured_text [''level'', ''stage'', ''extra'']) else ret ()))))))"
  have m: "mute ?m" by (intro mute_rules)
  have run: "?m ?w = (r, w')"
    using assms by (simp add: check_cache_performance_def of_manager_def get_metrics_run bind_def [of "of_manager _"])
  show "kw_manager (mo_cache w') = sized (kw_manager (mo_cache w))"
    "cm_alerts (mo_monitor w') = cm_alerts (mo_monitor w) \<or> (\<exists>text. r = Inl (TypeError text))"
    "r = Inr () \<or> (\<exists>text. r = Inl (TypeError text))"
    using m [unfolded mute_def triple_def, rule_format, of ?w] by (auto simp: run split: sum.splits)
qed

text \<open>C21. An alert reaches nobody: whoever listens, a round of the monitor does the same, it changes nothing of the cache but
  the size on record, so that nothing is repaired either, and a check that adds an alert to the list
  ends with a \<open>TypeError\<close>, which the loop swallows.\<close>

theorem cache_alerts_reach_nobody:
  fixes w :: "'r monitor_world"
  shows "monitor_round env callback w = monitor_round env None w \<and> fst (monitor_round env callback w) = Inr () \<and>
    kw_manager (mo_cache (snd (monitor_round env callback w))) \<in> {kw_manager (mo_cache w), sized (kw_manager (mo_cache w))} \<and>
    (cm_alerts (mo_monitor (snd (check_cache_performance env callback w))) = cm_alerts (mo_monitor w) \<or>
     (\<exists>text. fst (check_cache_performance env callback w) = Inl (TypeError text)))"
proof -
  obtain r w' where c: "check_cache_performance env callback w = (r, w')" by fastforce
  note m = check_mute [OF c]
  have "monitor_round env callback w = (Inr (), w') \<or> monitor_round env callback w = (Inr (), w)"
    using m(3) c by (auto simp: monitor_round_def act_simps)
  moreover have "monitor_round env callback w = monitor_round env None w"
    unfolding monitor_round_def check_deaf [of env callback] ..
  ultimately show ?thesis using m(1,2) c by auto
qed

section \<open>What the monitor cannot see\<close>

datatype monitor_op =
    MonitorRound
  | ManagerCall manager_op
  | ReadStatus
  | AcknowledgeAlerts "string list option"
  | ForceOptimization
  | StartMonitoring
  | StopMonitoring

fun monitor_step :: "'r cache_env \<Rightarrow> 'r alert_callback \<Rightarrow> monitor_op \<Rightarrow> 'r monitor_world \<Rightarrow> 'r monitor_world" where
  "monitor_step env callback MonitorRound w = snd (monitor_round env callback w)"
| "monitor_step env callback (ManagerCall op) w = w\<lparr>mo_cache := manager_step env op (mo_cache w)\<rparr>"
| "monitor_step env callback ReadStatus w = snd (get_current_status w)"
| "monitor_step env callback (AcknowledgeAlerts ts) w = w\<lparr>mo_monitor := snd (acknowledge_alerts ts (mo_monitor w))\<rparr>"
| "monitor_step env callback ForceOptimization w = snd (force_cache_optimization env w)"
| "monitor_step env callback StartMonitoring w = w\<lparr>mo_monitor := start_monitoring (mo_monitor w)\<rparr>"
| "monitor_step env callback StopMonitoring w = w\<lparr>mo_monitor := stop_monitoring (mo_monitor w)\<rparr>"

definition seen_types :: "string list" where
  "seen_types = [''hit_rate_low'', ''bad_cache_high'', ''bad_cache_warning'', ''size_limit'']"

definition unreset :: "string list \<Rightarrow> nat \<Rightarrow> bool" where
  "unreset bad n \<longleftrightarrow> n = 0"

text \<open>The metrics have not been reset: every entry of the history is the same object.\<close>

definition steady :: "cache_manager \<Rightarrow> bool" where
  "steady km \<longleftrightarrow> manager_ok 0 km \<and> at_manager unreset km"

definition monitor_ok :: "cache_thresholds \<Rightarrow> 'r monitor_world \<Rightarrow> bool" where
  "monitor_ok th w \<longleftrightarrow> steady (kw_manager (mo_cache w)) \<and> cm_thresholds (mo_monitor w) = th \<and>
     set (cm_history (mo_monitor w)) \<subseteq> {0} \<and> length (cm_history (mo_monitor w)) \<le> 100 \<and>
     length (cm_alerts (mo_monitor w)) \<le> 100 \<and> al_type ` set (cm_alerts (mo_monitor w)) \<subseteq> set seen_types"

lemma lasting_unreset: "lasting unreset"
  by (simp add: lasting_def unreset_def)

lemma steady_call: "balanced 0 0 m \<Longrightarrow> bars unreset m \<Longrightarrow> steady (kw_manager c) \<Longrightarrow> steady (kw_manager (snd (m c)))"
  unfolding steady_def using balanced_snd bars_snd lasting_unreset by blast

lemma steady_step: "op \<noteq> ResetMetrics \<Longrightarrow> steady (kw_manager c) \<Longrightarrow> steady (kw_manager (manager_step env op c))"
  unfolding steady_def using manager_step_ok [of c env op]
  by (cases op) (simp_all add: bars_snd [OF _ lasting_unreset] bars_lookup bars_calls(1-6))

lemma keeps_manager: "balanced 0 0 m \<Longrightarrow> bars unreset m \<Longrightarrow> keeps (monitor_ok th) (of_manager m)"
proof (rule keepsI)
  fix w :: "'a monitor_world"
  assume "balanced 0 0 m" "bars unreset m" "monitor_ok th w"
  then show "monitor_ok th (snd (of_manager m w))"
    using steady_call [of m "mo_cache w"] by (cases "m (mo_cache w)") (simp add: of_manager_def monitor_ok_def)
qed

lemma steady_metrics: "steady km \<Longrightarrow> metrics_at km 0 = km_metrics km \<and> length (km_old km) = 0"
  by (simp add: steady_def at_manager_def unreset_def metrics_at_def)

lemma add_alert_few: "length (cm_alerts mo) \<le> 100 \<Longrightarrow> length (cm_alerts (add_alert a now mo)) \<le> 100"
  by (simp add: add_alert_def Let_def)

lemma add_alert_types: "set (cm_alerts (add_alert a now mo)) \<subseteq> insert a (set (cm_alerts mo))"
  using set_drop_subset [of "Suc (length (cm_alerts mo)) - 50" "cm_alerts mo @ [a]"] by (auto simp: add_alert_def Let_def)

lemma keeps_alert: "t \<in> set seen_types \<Longrightarrow> keeps (monitor_ok th) (generate_alert env callback t s text n)"
proof -
  assume t: "t \<in> set seen_types"
  have add: "keeps (monitor_ok th) (on_monitor (add_alert a now))" if "al_type a = t" for a now
    unfolding on_monitor_def
  proof (rule keeps_modify)
    fix w assume "monitor_ok th w"
    then show "monitor_ok th (w\<lparr>mo_monitor := add_alert a now (mo_monitor w)\<rparr>)"
      using add_alert_types [of a now "mo_monitor w"] that t add_alert_few [of "mo_monitor w" a now]
      by (auto simp: monitor_ok_def) (auto simp: add_alert_def Let_def)
  qed
  show ?thesis
    unfolding generate_alert_raises Let_def
    by (intro keeps_rules keeps_manager balance_rules bars_rules add) simp
qed

lemma keeps_check_at:
  assumes "\<And>mt. mt = see_metrics n w \<Longrightarrow> keeps (monitor_ok th) (f (mt, cm_thresholds (mo_monitor w)))" "monitor_ok th w"
  shows "monitor_ok th (snd (bind (get_with (\<lambda>w. (see_metrics n w, cm_thresholds (mo_monitor w)))) f w))"
  using keepsD [OF assms(1) [OF refl] assms(2)] by (simp add: bind_def get_with_def)

lemma keeps_checks:
  assumes "th_warning_hit_rate th \<le> th_min_hit_rate th"
  shows "keeps (monitor_ok th) (check_hit_rate env callback n)" "keeps (monitor_ok th) (check_bad_cache_rate env callback n)"
    "keeps (monitor_ok th) (check_cache_size env callback n)" "keeps (monitor_ok th) (check_performance_degradation env callback 0)"
proof -
  note seen = keeps_alert [unfolded seen_types_def]
  show "keeps (monitor_ok th) (check_hit_rate env callback n)"
    unfolding check_hit_rate_def
  proof (rule keepsI, rule keeps_check_at)
    fix w :: "'a monitor_world" assume "monitor_ok th w"
    then have "cm_thresholds (mo_monitor w) = th" by (simp add: monitor_ok_def)
    then show "keeps (monitor_ok th) (case (mt, cm_thresholds (mo_monitor w)) of (mt, th) \<Rightarrow>
       if mt_total_requests mt < 10 then ret ()
       else if hit_rate mt < th_min_hit_rate th
       then generate_alert env callback ''hit_rate_low'' ''critical''
              (''Cache hit rate '' @ show_percent (hit_rate mt) @ '' below minimum '' @ show_percent (th_min_hit_rate th)) n
       else if hit_rate mt < th_warning_hit_rate th
       then generate_alert env callback ''hit_rate_warning'' ''warning''
              (''Cache hit rate '' @ show_percent (hit_rate mt) @ '' below warning threshold '' @
               show_percent (th_warning_hit_rate th)) n
       else ret ())" for mt
      using assms by (auto intro!: keeps_ret seen)
  qed
  show "keeps (monitor_ok th) (check_bad_cache_rate env callback n)" "keeps (monitor_ok th) (check_cache_size env callback n)"
    unfolding check_bad_cache_rate_def check_cache_size_def
    by (auto intro!: keeps_bind keeps_ret keeps_get seen split: prod.split)
  show "keeps (monitor_ok th) (check_performance_degradation env callback 0)"
    unfolding check_performance_degradation_def
  proof (rule keepsI, rule keeps_check_at)
    fix w :: "'a monitor_world" and mt
    assume w: "monitor_ok th w" and "mt = see_metrics 0 w"
    then have "mt_avg_uncached mt = 0"
      using steady_metrics [of "kw_manager (mo_cache w)"]
      by (simp add: see_metrics_def monitor_ok_def) (simp add: steady_def manager_ok_def books_balance_def)
    then show "keeps (monitor_ok th) (case (mt, cm_thresholds (mo_monitor w)) of (mt, th) \<Rightarrow>
       if mt_avg_cached mt > 0 \<and> mt_avg_uncached mt > 0 \<and> mt_avg_uncached mt / mt_avg_cached mt < th_max_ratio th
       then generate_alert env callback ''performance_degraded'' ''warning''
              (''Cache performance ratio '' @ show_fixed 1 (mt_avg_uncached mt / mt_avg_cached mt) @ ''x below expected '' @
               show_fixed 1 (th_max_ratio th) @ ''x'') 0
       else ret ())"
      by (simp add: keeps_ret)
  qed
qed

lemma keeps_perform:
  assumes "th_warning_hit_rate th \<le> th_min_hit_rate th"
  shows "keeps (monitor_ok th) (check_cache_performance env callback)"
proof (rule keepsI)
  fix w :: "'a monitor_world"
  let ?w = "w\<lparr>mo_cache := (mo_cache w)\<lparr>kw_manager := sized (kw_manager (mo_cache w))\<rparr>\<rparr>"
  assume w: "monitor_ok th w"
  then have zero: "length (km_old (kw_manager (mo_cache w))) = 0"
    using steady_metrics by (simp add: monitor_ok_def)
  have "keeps (monitor_ok th) (of_manager get_cache_metrics)"
    by (intro keeps_manager balance_rules bars_rules)
  from keepsD [OF this w] have w': "monitor_ok th ?w" by (simp add: of_manager_def get_metrics_run)
  have "keeps (monitor_ok th) (on_monitor (remember_metrics 0))"
    unfolding on_monitor_def
  proof (rule keeps_modify)
    fix v assume v: "monitor_ok th v"
    have "set (tl xs) \<subseteq> set xs" for xs :: "nat list" by (cases xs) auto
    from this [of "cm_history (mo_monitor v) @ [0]"] show "monitor_ok th (v\<lparr>mo_monitor := remember_metrics 0 (mo_monitor v)\<rparr>)"
      using v by (auto simp: monitor_ok_def remember_metrics_def Let_def)
  qed
  then have "keeps (monitor_ok th) (next_act (on_monitor (remember_metrics 0)) (next_act (check_hit_rate env callback 0)
     (next_act (check_bad_cache_rate env callback 0) (next_act (check_cache_size env callback 0)
     (next_act (check_performance_degradation env callback 0)
     (bind (get_with (\<lambda>w. length (cm_history (mo_monitor w)))) (\<lambda>k.
       if k mod 10 = 0 then lift_result (log_structured_text [''level'', ''stage'', ''extra'']) else ret ())))))))"
    by (intro keeps_rules keeps_checks assms)
  from keepsD [OF this w'] show "monitor_ok th (snd (check_cache_performance env callback w))"
    using zero by (simp add: check_cache_performance_def bind_def [of "of_manager _"] of_manager_def get_metrics_run)
qed

lemma keeps_round:
  "th_warning_hit_rate th \<le> th_min_hit_rate th \<Longrightarrow> keeps (monitor_ok th) (monitor_round env callback)"
  unfolding monitor_round_def by (intro keeps_rules keeps_perform)

lemma keeps_services:
  "keeps (monitor_ok th) get_current_status" "keeps (monitor_ok th) (force_cache_optimization env)"
  unfolding get_current_status_def force_cache_optimization_def
  by (intro keeps_rules keeps_manager balance_rules bars_rules)+

lemma monitor_step_ok:
  "th_warning_hit_rate th \<le> th_min_hit_rate th \<Longrightarrow> ManagerCall ResetMetrics \<noteq> op \<Longrightarrow> monitor_ok th w \<Longrightarrow>
   monitor_ok th (monitor_step env callback op w)"
proof (cases op)
  case (ManagerCall x)
  assume "ManagerCall ResetMetrics \<noteq> op" "monitor_ok th w"
  then show ?thesis using ManagerCall steady_step [of x "mo_cache w" env] by (simp add: monitor_ok_def)
qed (auto simp: keepsD [OF keeps_round] keepsD [OF keeps_services(1)] keepsD [OF keeps_services(2)],
    auto simp: monitor_ok_def acknowledge_alerts_def start_monitoring_def stop_monitoring_def)

lemma monitor_steps_ok:
  "th_warning_hit_rate th \<le> th_min_hit_rate th \<Longrightarrow> ManagerCall ResetMetrics \<notin> set ops \<Longrightarrow> monitor_ok th w \<Longrightarrow>
   monitor_ok th (fold (monitor_step env callback) ops w)"
  by (induction ops arbitrary: w) (simp_all add: monitor_step_ok)

lemma new_monitor_ok:
  "kw_manager (mo_cache w) = new_cache_manager config namespace given connects now \<Longrightarrow> mo_monitor w = create_cache_monitor (Some th) start \<Longrightarrow>
   monitor_ok th w"
  by (simp add: monitor_ok_def steady_def new_manager_ok create_cache_monitor_def start_monitoring_def new_cache_monitor_def)
    (simp add: at_manager_def unreset_def new_cache_manager_def)

lemma mean_same: "ns \<noteq> [] \<Longrightarrow> set ns \<subseteq> {0} \<Longrightarrow> mean_hit_rate ns w = hit_rate (see_metrics 0 w)"
proof -
  assume "ns \<noteq> []" "set ns \<subseteq> {0}"
  then have "ns = replicate (length ns) 0" using replicate_length_same [of ns 0] by force
  then obtain n where "ns = replicate n 0" "0 < n" using \<open>ns \<noteq> []\<close> by (metis length_greater_0_conv)
  then show ?thesis by (simp add: mean_hit_rate_def sum_list_replicate)
qed

lemma trend_same:
  assumes "set (cm_history (mo_monitor w)) \<subseteq> {0}"
  shows "get_performance_trend w = [(''trend'', PStr ''insufficient_data'')] \<or>
    get_performance_trend w = [(''trend'', PStr ''insufficient_history'')] \<or>
    map_of (get_performance_trend w) ''trend'' = Some (PStr ''stable'')"
proof -
  let ?h = "cm_history (mo_monitor w)"
  let ?change = "mean_hit_rate (last_n 5 ?h) w - mean_hit_rate (take 5 (last_n 10 ?h)) w"
  have "set (last_n 5 ?h) \<subseteq> {0}" "set (take 5 (last_n 10 ?h)) \<subseteq> {0}"
    using assms set_drop_subset [of _ ?h] set_take_subset [of 5 "last_n 10 ?h"] unfolding last_n_def by blast+
  moreover have "last_n 5 ?h \<noteq> []" "take 5 (last_n 10 ?h) \<noteq> []" if "10 \<le> length ?h"
    using that by (auto simp: last_n_def)
  ultimately have "?change = 0" if "10 \<le> length ?h" using that by (simp add: mean_same)
  then show ?thesis by (auto simp: get_performance_trend_def Let_def split: if_splits)
qed

text \<open>C22. As long as nobody resets the metrics, the monitor reports no trend but a stable one, because its history is one and
  the same object many times; it never reports slow answers, and no warning of the hit rate when the warning lies below
  the minimum, as it does by default. The lists of alerts and checks stay within a hundred.\<close>

theorem monitor_blind_spots:
  fixes ops :: "monitor_op list" and env :: "'r cache_env" and w :: "'r monitor_world" and callback :: "'r alert_callback"
  defines "w' \<equiv> fold (monitor_step env callback) ops w"
  assumes "kw_manager (mo_cache w) = new_cache_manager config namespace given connects now"
    and "mo_monitor w = create_cache_monitor (Some th) start" "th_warning_hit_rate th \<le> th_min_hit_rate th"
    and "ManagerCall ResetMetrics \<notin> set ops"
  shows "map_of (get_performance_trend w') ''trend''
      \<in> {Some (PStr ''insufficient_data''), Some (PStr ''insufficient_history''), Some (PStr ''stable'')} \<and>
    al_type ` set (cm_alerts (mo_monitor w')) \<subseteq> {''hit_rate_low'', ''bad_cache_high'', ''bad_cache_warning'', ''size_limit''} \<and>
    length (cm_alerts (mo_monitor w')) \<le> 100 \<and> length (cm_history (mo_monitor w')) \<le> 100"
proof -
  have ok: "monitor_ok th w'"
    unfolding w'_def by (rule monitor_steps_ok [OF assms(4,5) new_monitor_ok [OF assms(2,3)]])
  then show ?thesis
    using trend_same [of w'] by (auto simp: monitor_ok_def seen_types_def)
qed

section \<open>The client and its two caches\<close>

lemma chat_failure_calls:
  assumes "check_usable le cl messages = None" "fst (chat le cl messages w) = Inl e"
  shows "lw_calls (snd (chat le cl messages w)) = lw_calls w + 1"
proof (cases "cs_enabled (lk_cache_settings cl)")
  case True
  obtain r w'' where l: "look_up le (build_cache_key le cl messages) w = (Inr r, w'')" using look_up_returns by blast
  have "lw_calls w'' = lw_calls w" using look_up_hit [OF l] by auto
  then show ?thesis
    using assms True by (cases r; cases "fst r") (simp_all add: chat_cases Let_def l ask_guarded_calls)
next
  case False
  then show ?thesis using assms(1) by (simp add: chat_cases Let_def ask_guarded_calls on_cache_run)
qed

lemma balanced_runs:
  assumes "balanced k j m" "manager_ok k (kw_manager c)"
  obtains a c' where "m c = (Inr a, c')" "manager_ok j (kw_manager c')"
  using assms unfolding balanced_def triple_def by (cases "m c"; cases "fst (m c)") fastforce+

lemma usable_balanced [balance_rules]: "balanced 0 0 (usable_answer env key)"
  unfolding usable_answer_def by (intro balance_rules)

text \<open>What the second cache finds for the messages, when it is asked for them next.\<close>

definition found_answer :: "'r cache_env \<Rightarrow> llm_client \<Rightarrow> pydict list \<Rightarrow> 'r cache_world \<Rightarrow> string option result" where
  "found_answer env base messages c =
     fst (bind (read_time env) (\<lambda>_. bind (generate_cache_key env messages (lk_backend base) (lk_model base) (lk_temperature base))
       (\<lambda>(key, kc). usable_answer env key)) c)"

lemma of_cache_run: "m (mo_cache (ew_cached w)) = (r, c) \<Longrightarrow>
  of_cache m w = (r, w\<lparr>ew_cached := (ew_cached w)\<lparr>mo_cache := c\<rparr>\<rparr>)"
  by (simp add: of_monitor_def of_manager_def)

lemma chat_through_run:
  assumes "manager_ok 0 (kw_manager (mo_cache (ew_cached w)))"
  obtains found where "fst (bind (generate_cache_key env messages (lk_backend (en_base cl)) (lk_model (en_base cl))
        (lk_temperature (en_base cl))) (\<lambda>(key, kc). usable_answer env key) (mo_cache (ew_cached w))) = Inr found"
    "fst (chat_through_cache env le cl t messages w) =
       (case found of Some a \<Rightarrow> Inr a | None \<Rightarrow> fst (chat le (en_base cl) messages (ew_llm w)))"
    "ew_llm (snd (chat_through_cache env le cl t messages w)) =
       (case found of Some a \<Rightarrow> ew_llm w | None \<Rightarrow> snd (chat le (en_base cl) messages (ew_llm w)))"
proof -
  let ?gen = "generate_cache_key env messages (lk_backend (en_base cl)) (lk_model (en_base cl)) (lk_temperature (en_base cl))"
  have "balanced 0 0 ?gen" by (intro balance_rules)
  then obtain kk c1 where g: "?gen (mo_cache (ew_cached w)) = (Inr kk, c1)" "manager_ok 0 (kw_manager c1)"
    by (rule balanced_runs) (rule assms)
  obtain key kc where kk: "kk = (key, kc)" by fastforce
  have "balanced 0 0 (usable_answer env key)" by (intro balance_rules)
  then obtain found c2 where u: "usable_answer env key c1 = (Inr found, c2)" "manager_ok 0 (kw_manager c2)"
    by (rule balanced_runs) (rule g(2))
  let ?w1 = "w\<lparr>ew_cached := (ew_cached w)\<lparr>mo_cache := c1\<rparr>\<rparr>"
  let ?w = "w\<lparr>ew_cached := (ew_cached w)\<lparr>mo_cache := c2\<rparr>\<rparr>"
  have gen: "of_cache ?gen w = (Inr kk, ?w1)" using of_cache_run [where m = ?gen and w = w] g(1) by simp
  have use: "of_cache (usable_answer env key) ?w1 = (Inr found, ?w)"
    using of_cache_run [where m = "usable_answer env key" and w = ?w1] u(1) by simp
  have run: "chat_through_cache env le cl t messages w =
     (case found of Some a \<Rightarrow> ret a | None \<Rightarrow>
           bind (of_base (chat le (en_base cl) messages)) (\<lambda>response.
           bind (of_cache (read_time env)) (\<lambda>now.
           next_act (of_cache (store_cached_response env key response kc (now - t)))
           (bind (of_cache (detect_bad_cache env key response)) (\<lambda>_. ret response))))) ?w"
    by (simp add: chat_through_cache_def bind_def [of "of_monitor (of_manager _)"] gen use kk)
  obtain r l where c: "chat le (en_base cl) messages (ew_llm w) = (r, l)" by fastforce
  have rest: "fst (bind (of_cache (read_time env)) (\<lambda>now.
      next_act (of_cache (store_cached_response env key response kc (now - t)))
        (bind (of_cache (detect_bad_cache env key response)) (\<lambda>_. ret response))) v) = Inr response \<and> ew_llm (snd (bind (of_cache (read_time env)) (\<lambda>now.
      next_act (of_cache (store_cached_response env key response kc (now - t)))
        (bind (of_cache (detect_bad_cache env key response)) (\<lambda>_. ret response))) v)) = ew_llm v"
    if ok: "manager_ok 0 (kw_manager (mo_cache (ew_cached v)))" for response and v :: "'a enhanced_world"
  proof -
    have "balanced 0 0 (bind (read_time env) (\<lambda>now. next_act (store_cached_response env key response kc (now - t))
        (bind (detect_bad_cache env key response) (\<lambda>_. ret response))))" by (intro balance_rules)
    then obtain a c3 where b: "bind (read_time env) (\<lambda>now. next_act (store_cached_response env key response kc (now - t))
        (bind (detect_bad_cache env key response) (\<lambda>_. ret response))) (mo_cache (ew_cached v)) = (Inr a, c3)"
      using ok by (rule balanced_runs) blast
    then show ?thesis
      by (auto simp: bind_def next_act_def of_monitor_def of_manager_def ret_def split: prod.splits sum.splits)
  qed
  have "fst (chat_through_cache env le cl t messages w) =
       (case found of Some a \<Rightarrow> Inr a | None \<Rightarrow> fst (chat le (en_base cl) messages (ew_llm w)))"
    "ew_llm (snd (chat_through_cache env le cl t messages w)) =
       (case found of Some a \<Rightarrow> ew_llm w | None \<Rightarrow> snd (chat le (en_base cl) messages (ew_llm w)))"
    using rest [of "?w\<lparr>ew_llm := l\<rparr>"] u(2)
    by (auto simp: run ret_def bind_def [of "of_base _"] of_base_def c split: option.split sum.split)
  then show thesis using that g u kk by (simp add: bind_def)
qed

text \<open>The way through the second cache, and what is done when it ends with an exception.\<close>

lemma enhanced_chat_parts:
  fixes w :: "'r enhanced_world" and messages :: "pydict list" and le :: llm_env and cl :: enhanced_client
  defines "ask \<equiv> chat le (en_base cl) messages"
  assumes "en_enabled cl" "manager_ok 0 (kw_manager (mo_cache (ew_cached w)))"
  obtains found q where "found_answer env (en_base cl) messages (mo_cache (ew_cached w)) = Inr found"
    "fst q = (case found of Some a \<Rightarrow> Inr a | None \<Rightarrow> fst (ask (ew_llm w)))"
    "ew_llm (snd q) = (case found of Some a \<Rightarrow> ew_llm w | None \<Rightarrow> snd (ask (ew_llm w)))"
    "enhanced_chat env le cl messages w =
      (case fst q of Inr t \<Rightarrow> q | Inl e \<Rightarrow> if is_Exception e then of_base ask (snd q) else q)"
proof -
  let ?c = "mo_cache (ew_cached w)"
  let ?w = "w\<lparr>ew_cached := (ew_cached w)\<lparr>mo_cache := ?c\<lparr>kw_reads := kw_reads ?c + 1\<rparr>\<rparr>\<rparr>"
  let ?t = "ce_clock env (kw_reads ?c)"
  define q where "q = chat_through_cache env le cl ?t messages ?w"
  have ok: "manager_ok 0 (kw_manager (mo_cache (ew_cached ?w)))" using assms(3) by simp
  let ?gen = "generate_cache_key env messages (lk_backend (en_base cl)) (lk_model (en_base cl)) (lk_temperature (en_base cl))"
  obtain found where f0: "fst (bind ?gen (\<lambda>(key, kc). usable_answer env key) (mo_cache (ew_cached ?w))) = Inr found"
    and r0: "fst q = (case found of Some a \<Rightarrow> Inr a | None \<Rightarrow> fst (chat le (en_base cl) messages (ew_llm ?w)))"
    and l0: "ew_llm (snd q) = (case found of Some a \<Rightarrow> ew_llm ?w | None \<Rightarrow> snd (chat le (en_base cl) messages (ew_llm ?w)))"
    unfolding q_def by (rule chat_through_run [OF ok])
  have f: "found_answer env (en_base cl) messages ?c = Inr found"
    using f0 by (simp add: found_answer_def bind_def [of "read_time _"] read_time_def)
  have r: "fst q = (case found of Some a \<Rightarrow> Inr a | None \<Rightarrow> fst (ask (ew_llm w)))"
    and l: "ew_llm (snd q) = (case found of Some a \<Rightarrow> ew_llm w | None \<Rightarrow> snd (ask (ew_llm w)))"
    using r0 l0 by (cases found; simp add: ask_def)+
  have chat: "enhanced_chat env le cl messages w =
      (case fst q of Inr t \<Rightarrow> q | Inl e \<Rightarrow> if is_Exception e then of_base ask (snd q) else q)"
  proof -
    have "of_cache (read_time env) w = (Inr ?t, ?w)" by (simp add: of_monitor_def of_manager_def read_time_def)
    then have "enhanced_chat env le cl messages w =
        try_except (chat_through_cache env le cl ?t messages) (\<lambda>_. of_base ask) ?w"
      using assms(2) by (simp add: enhanced_chat_def bind_def [of "of_monitor _"] ask_def)
    from this [unfolded catching_def, folded q_def] show ?thesis by (cases "fst q"; cases q) simp_all
  qed
  show thesis by (rule that [OF f r l chat])
qed

text \<open>C20. With the second cache, a request is answered from it without the model, or the first client is asked; when that fails,
  for whatever reason, it is asked a second time, and that outcome is the caller's. A model that is down is
  called twice for every request.\<close>

theorem failed_request_asked_twice:
  fixes w :: "'r enhanced_world" and messages :: "pydict list" and le :: llm_env and cl :: enhanced_client
  defines "ask \<equiv> chat le (en_base cl) messages" and "lw \<equiv> ew_llm w"
  assumes "en_enabled cl" "manager_ok 0 (kw_manager (mo_cache (ew_cached w)))"
  shows "(fst (enhanced_chat env le cl messages w), ew_llm (snd (enhanced_chat env le cl messages w))) =
      (case found_answer env (en_base cl) messages (mo_cache (ew_cached w)) of
         Inr (Some a) \<Rightarrow> (Inr a, lw)
       | _ \<Rightarrow> (case fst (ask lw) of
                Inr t \<Rightarrow> ask lw
              | Inl e \<Rightarrow> if is_Exception e then ask (snd (ask lw)) else ask lw)) \<and>
    (\<forall>e e'. found_answer env (en_base cl) messages (mo_cache (ew_cached w)) = Inr None \<and> fst (ask lw) = Inl e \<and>
       is_Exception e \<and> fst (ask (snd (ask lw))) = Inl e' \<and> check_usable le (en_base cl) messages = None \<longrightarrow>
       lw_calls (ew_llm (snd (enhanced_chat env le cl messages w))) = lw_calls lw + 2)"
proof -
  obtain found q where f: "found_answer env (en_base cl) messages (mo_cache (ew_cached w)) = Inr found"
    and r: "fst q = (case found of Some a \<Rightarrow> Inr a | None \<Rightarrow> fst (ask lw))"
    and l: "ew_llm (snd q) = (case found of Some a \<Rightarrow> lw | None \<Rightarrow> snd (ask lw))"
    and chat: "enhanced_chat env le cl messages w =
      (case fst q of Inr t \<Rightarrow> q | Inl e \<Rightarrow> if is_Exception e then of_base ask (snd q) else q)"
    using enhanced_chat_parts [OF assms(3,4)] unfolding ask_def lw_def by blast
  have base: "fst (of_base ask v) = fst (ask (ew_llm v))" "ew_llm (snd (of_base ask v)) = snd (ask (ew_llm v))"
    for v :: "'r enhanced_world"
    by (simp_all add: of_base_def split: prod.split)
  have calls: "lw_calls (snd (ask v)) = lw_calls v + 1"
    if "check_usable le (en_base cl) messages = None" "fst (ask v) = Inl e" for v e
    using chat_failure_calls [OF that(1)] that(2) unfolding ask_def by blast
  show ?thesis
  proof (cases found)
    case None
    show ?thesis
    proof (cases "fst (ask lw)")
      case (Inl e)
      then have "fst q = Inl e" "ew_llm (snd q) = snd (ask lw)" using r l None by simp_all
      then show ?thesis using Inl calls by (cases "is_Exception e") (auto simp: f None chat base prod_eq_iff)
    next
      case (Inr t)
      then have "fst q = Inr t" "ew_llm (snd q) = snd (ask lw)" using r l None by simp_all
      then show ?thesis using Inr by (simp add: f None chat prod_eq_iff)
    qed
  next
    case (Some a)
    then show ?thesis using r l by (simp add: f chat)
  qed
qed

section \<open>Examples\<close>

definition sample_monitor_world :: "unit monitor_world" where
  "sample_monitor_world = \<lparr>mo_cache = sample_cache_world, mo_monitor = create_cache_monitor (Some default_cache_thresholds) True\<rparr>"

lemma monitor_blind_spots_witness:
  "length (cm_alerts (mo_monitor (fold (monitor_step sample_cache_env None)
     [ManagerCall (LookUp ''k''), MonitorRound, ReadStatus, MonitorRound] sample_monitor_world))) \<le> 100"
proof -
  have "kw_manager (mo_cache sample_monitor_world) = new_cache_manager None ''autocode:llm_cache'' False False 0"
    "mo_monitor sample_monitor_world = create_cache_monitor (Some default_cache_thresholds) True"
    by (simp_all add: sample_monitor_world_def sample_cache_world_def)
  from monitor_blind_spots [OF this, of "[ManagerCall (LookUp ''k''), MonitorRound, ReadStatus, MonitorRound]" sample_cache_env None]
  show ?thesis by (simp add: default_cache_thresholds_def)
qed

definition sample_enhanced :: enhanced_client where
  "sample_enhanced = new_enhanced_client (without_cache sample_llm_client) True True True"

definition sample_enhanced_world :: "unit enhanced_world" where
  "sample_enhanced_world = new_enhanced_world sample_enhanced False 0 () sample_llm_start"

definition down_llm_env :: llm_env where
  "down_llm_env = sample_llm_env\<lparr>le_provider := Some (\<lambda>n backend messages model temperature. Inl (RuntimeError ''down''))\<rparr>"

lemma down_chat:
  "check_usable down_llm_env (en_base sample_enhanced) sample_ping = None"
  "fst (chat down_llm_env (en_base sample_enhanced) sample_ping v) = Inl (client_error ''down'')"
proof -
  show usable: "check_usable down_llm_env (en_base sample_enhanced) sample_ping = None"
    by (simp add: check_usable_def required_key_name_def placeholder_key_name_def sample_llm_env_def down_llm_env_def
        sample_enhanced_def new_enhanced_client_def without_cache_def sample_llm_client_def sample_ping_def env_text_def
        strip_def is_space_def Let_def)
  have off: "\<not> cs_enabled (lk_cache_settings (en_base sample_enhanced))"
    by (simp add: sample_enhanced_def new_enhanced_client_def without_cache_def Let_def)
  show "fst (chat down_llm_env (en_base sample_enhanced) sample_ping v) = Inl (client_error ''down'')"
    by (simp add: chat_cases usable off Let_def ask_guarded_answer)
      (simp add: model_answer_def raw_answer_def down_llm_env_def client_result_def)
qed

lemma failed_request_asked_twice_witness:
  "lw_calls (ew_llm (snd (enhanced_chat sample_cache_env down_llm_env sample_enhanced sample_ping sample_enhanced_world))) = 2"
proof -
  have en: "en_enabled sample_enhanced" by (simp add: sample_enhanced_def new_enhanced_client_def Let_def)
  have ok: "manager_ok 0 (kw_manager (mo_cache (ew_cached sample_enhanced_world)))"
    by (simp add: sample_enhanced_world_def new_enhanced_world_def new_manager_ok)
  have found: "found_answer sample_cache_env (en_base sample_enhanced) sample_ping (mo_cache (ew_cached sample_enhanced_world)) = Inr None"
    by code_simp
  have start: "lw_calls (ew_llm sample_enhanced_world) = 0"
    by (simp add: sample_enhanced_world_def new_enhanced_world_def new_llm_world_def)
  show ?thesis
    using failed_request_asked_twice [OF en ok, of sample_cache_env down_llm_env sample_ping, THEN conjunct2, rule_format,
        of "client_error ''down''" "client_error ''down''"]
    by (simp add: found down_chat start client_error_def)
qed

end
