(* ===== verification/Spec2Isabelle.thy ===== *)
theory Spec2Isabelle
  imports Circuit_Breaker Task_Lock Dag_Scheduler Feature_Flags Plugin_Policy Plugin_Gates
    Outbox Recovery Resource_Optimizer Task_Queue Fix_Loop
    Control_Plane Base_Agent Task_Outcome Terminal_Events Comparison Agent_System Stack_Selector Cache_Monitor
begin

text \<open>
  AutoCode: a verification development for the Python agent (\<open>src/python-agent\<close>).

  \<^bold>\<open>The program.\<close> A control plane (Java) hands tasks to the agent. For each task the orchestrator takes a
  lock, runs the stages of a plan as a graph of nodes, lets plugins take part where the policy allows
  it, and reports every step as an event. Events that could not be delivered wait in an outbox and are
  recovered after a restart. What a generator wrote is validated, and a fix loop is meant to repair what the
  validation complains about, with rules, with known fixes and with a language model. Around it stand
  feature flags with canary rollout, a priority queue that batches tasks, and an optimizer that watches
  resources and cost. The agents (intent, planner, coder, reviewer, tester) ask a language model through a
  client with a cache of answers; a second set of entry points runs the same work as graphs of LangGraph.

  \<^bold>\<open>Theories and code.\<close> Each theory follows one or two files of the agent, in the order of the code;
  names are those of the source where HOL allows it.

  \<^item> \<open>Prelude\<close>: exceptions as values (\<open>py_exn\<close>, results in \<open>py_exn + 'a\<close>), the dynamic values of Python
    (\<open>pyval\<close>, dictionaries as association lists in insertion order), the string functions the code calls
    (\<open>strip\<close>, \<open>lower\<close>, \<open>join\<close>, \<open>parse_int\<close>, \<open>show_int\<close>), stable sorting, bounded histories
    (\<open>deque(maxlen=n)\<close>), and the facts about them that all theories use.
  \<^item> \<open>Circuit_Breaker\<close>: \<open>utils/circuit_breaker.py\<close> and \<open>plugins/runtime.py\<close>. The state of a breaker is a
    record; \<open>before_call\<close>, \<open>after_success\<close> and \<open>after_failure\<close> are its locked steps, \<open>call\<close> composes them
    around an operation that may see other threads change the breaker. \<open>breaker_step\<close> interleaves them.
  \<^item> \<open>Task_Lock\<close>: \<open>orchestrator/distributed_lock.py\<close>. The leases of the process are a map from keys to
    tokens with expiry; the Redis server is a parameter (its four commands) reached over a link that can
    fail before or after the server acts. The renewal thread is a sequence of rounds.
  \<^item> \<open>Dag_Scheduler\<close>: \<open>orchestrator/dag_scheduler.py\<close>. Nodes run in waves; the executor is a function that
    says which futures of a wave are done first. The model returns the waves besides the result.
  \<^item> \<open>Feature_Flags\<close>: \<open>utils/feature_flags.py\<close>, \<open>utils/artifact_router.py\<close>. Redis is a pair of functions
    (get, transactional write) that may fail; MD5 of the task id is a parameter.
  \<^item> \<open>Plugin_Policy\<close>: \<open>plugins/contracts.py\<close>, \<open>plugins/loader.py\<close>, \<open>plugins/registry.py\<close>: how a manifest is
    read, which plugins a policy lets through, and in which order they are offered.
  \<^item> \<open>Plugin_Gates\<close>: what stands between a selected plugin and its execution: risk and approval
    (\<open>plugins/approval_workflow.py\<close>), the human gate (\<open>plugins/human_gate.py\<close>), the reviewer of diffs
    (\<open>plugins/diff_risk_reviewer_agent.py\<close>), resource limits (\<open>plugins/resource_limits.py\<close>) and the audit
    trail (\<open>plugins/audit_trail.py\<close>).
  \<^item> \<open>Outbox\<close>: \<open>outbox/redis_outbox.py\<close>, in memory and on Redis with its Lua script for acknowledgements; a list
    of Redis lives for its time to live after each \<open>EXPIRE\<close>, and time passes between the calls.
  \<^item> \<open>Recovery\<close>: \<open>outbox/recovery_service.py\<close>, which delivers what the outbox holds; it imports \<open>Outbox\<close>
    and is proved against the contract of an outbox.
  \<^item> \<open>Heap_List\<close>: Python's \<open>heapq\<close> on a list. \<open>Batching\<close>: the loops that cut groups of tasks into
    batches, shared by the optimizer and the queue, which have the same loops in the source.
  \<^item> \<open>Resource_Optimizer\<close>: \<open>utils/resource_optimizer.py\<close>. \<open>Task_Queue\<close>: \<open>utils/task_queue_manager.py\<close>;
    task objects are shared between the heap, the look-up table and the batches, so they live in a store
    and the other structures hold their addresses.
  \<^item> \<open>Control_Plane\<close>: \<open>client/control_plane_client.py\<close>. Requests with their authorization, the publication
    of an event with its bounded retries behind a breaker of \<open>Circuit_Breaker\<close>, and the upload of an
    artifact. The HTTP transport and the JSON codec are parameters over a state of the environment.
  \<^item> \<open>Workspace\<close>: the files of a workspace, a map from paths to texts, with the operations of \<open>pathlib\<close>
    and the regular expressions the code calls, and a matcher for them that is proved correct.
    \<open>Validation_Gate\<close>: \<open>generators/validation_gate.py\<close>, which decides whether what was generated passes.
    \<open>Fix_Loop\<close>: \<open>generators/fix_loop.py\<close>: the errors are classified, the repairs are edits of a
    workspace, and the loop would validate again until it passes or the attempts are used up; but its call of
    \<open>log_fix_loop_attempt\<close> does not fit the parameters of \<open>utils/observability.py\<close> and raises after the first repair.
  \<^item> \<open>Effects\<close>: actions that change a state and may raise, with the control structures of Python, Hoare triples
    and the invariants an action keeps. \<open>Observability\<close>: \<open>utils/observability.py\<close>, the spans and metrics of a
    task. \<open>Base_Agent\<close>: \<open>agents/base_agent.py\<close>, the numbering and delivery of events; its world is the task, its
    observation, the outbox of the agent and an outside of any type, which clients and clocks read and change.
    \<open>Agent_Frames\<close>: what such actions leave alone.
  \<^item> \<open>Task_Payloads\<close>, \<open>Test_Agent\<close>, \<open>Orchestrator\<close>: the results and payloads, the tester
    (\<open>agents/tester_agent.py\<close>) with the running of plugins, and \<open>orchestrator/agent_orchestrator.py\<close> with
    \<open>orchestrator/langgraph_runtime.py\<close>. \<open>Task_Outcome\<close> and \<open>Terminal_Events\<close> hold its theorems.
  \<^item> \<open>Llm_Cache\<close> and \<open>Llm_Client\<close>: \<open>llm/llm_client.py\<close>, the cache of answers and the client with its settings,
    wire formats and trail of cache events.
  \<^item> \<open>Answer_Agents\<close>: \<open>agents/intent_agent.py\<close>, \<open>agents/planner_agent.py\<close>, \<open>agents/reviewer_agent.py\<close> and
    \<open>tools/search_tool.py\<close>, on the client and the breaker. \<open>Coder_Agent\<close>: \<open>agents/coder_agent.py\<close> and
    \<open>tools/file_tool.py\<close>. \<open>Artifacts\<close>: \<open>utils/artifact_utils.py\<close>.
  \<^item> \<open>Workflow_Base\<close> and \<open>Workflows\<close>: \<open>workflows/base_workflow.py\<close>, the retry loop and the handling of errors,
    the time limit of a run with the alarm of POSIX and with the watching thread of other platforms
    (\<open>config/timeout_config.py\<close>), and the five workflows on it. \<open>Comparison\<close>: \<open>workflows/comparison_framework.py\<close>.
  \<^item> \<open>Stack_Selector\<close>: \<open>generators/stack_selector.py\<close>, the scores of technology stacks.
    \<open>Project_Memory\<close>: \<open>memory/redis_memory.py\<close>, \<open>memory/knowledge_extractor.py\<close>, \<open>agents/dialogue_manager.py\<close>.
  \<^item> \<open>Cache_Manager\<close> and \<open>Cache_Monitor\<close>: the second cache of answers, \<open>llm/enhanced_cache_manager.py\<close> with
    \<open>config/cache_config.py\<close>, its monitor \<open>llm/cache_monitor.py\<close>, and the client that combines them with
    \<open>Llm_Client\<close>, \<open>llm/enhanced_llm_client.py\<close>.
  \<^item> \<open>Agent_System\<close> puts the agents, the dialogue manager, the memory and the export in the places of the
    orchestrator, as \<open>main.py\<close> does.

  \<^bold>\<open>Interfaces.\<close> Where one part relies on another, a locale states the contract, its lemmas are proved
  once, and an interpretation discharges it on the model: \<open>guarded_entry\<close> (a guarded run gives the
  outcome of the operation or a rejection), \<open>lease_store\<close> (what acquire, renew and release promise each
  other), \<open>percentage_rollout\<close> (a decision that is monotone in the percentage), \<open>event_outbox\<close> (what is
  pending after a store, an acknowledgement and a clean-up), \<open>recovery_contract\<close> (what the recovery needs
  of the outbox and the publisher), \<open>task_bag\<close> (a heap keeps its elements), \<open>answer_store\<close> (a cache gives back
  only what was stored) and \<open>record_log\<close> (a bounded list gives back its latest records).

  \<^bold>\<open>What is proved.\<close> For each part: an invariant that every operation keeps (breakers, leases, the queue);
  the behaviour of its operations on every branch, errors included; for the outbox a refinement of the
  abstract set of unacknowledged events by the memory and, while the time to live does not pass, by the Redis
  implementation; for a breaker its state after any history of calls; for the
  scheduler that it succeeds exactly on valid graphs whose nodes succeed, in an order that respects the
  dependencies; for the validation of a web page that it passes exactly when a list of plain conditions
  holds, and for the fix loop that it never returns once a repair was needed, and which faults its repairs clear; for the
  workflows how their runs end, also over the time limit; for the publication
  of events how often it is tried, how long it waits and when an outage stops it; for batching that the loops return and lose nothing but what the theorem names; for the agents that intent, plan and review
  come out, in which range the confidence of an intent lies (in [0,1], or NaN), that the coder writes only where it may,
  and, put together, that a task ends with exactly one terminal event unless it names a repository or the dialogue manager
  asks back, and with an exception and no event otherwise; for the caches of answers that the first is invisible to its callers, and what the second
  and its monitor keep, bar and miss. Where the code does something it should not, the theorem says what it does (failed batches are queued twice,
  a cancelled task is processed, an idle queue divides by zero, a failed Redis call grants the lock).

  \<^bold>\<open>Bounds and fuel.\<close> The batching loop of the source may run forever when the maximal size of a batch is
  not positive, so \<open>plan_group\<close> takes fuel; one more than the number of tasks is enough when it is
  positive, and the theorems prove that the result is \<open>Some\<close>. A publication is tried five times at most, the
  bound of the source, and its loop counts down the attempts that remain. All other loops are structural or have a
  termination proof (the waves of the scheduler: the nodes that remain decrease; the heap: the distance to
  its end decreases). Python's integers are \<open>int\<close>; its floats are exact rationals (\<open>rat\<close>), so rounding is
  outside the model, and NaN is a value of its own (\<open>PNaN\<close>) where the code can meet it; text is bytes: ASCII, and the Chinese words of the source as UTF-8.

  \<^bold>\<open>Parameters.\<close> Clocks and fresh identifiers, Redis, the JSON codec and the schema check of events,
  \<open>setrlimit\<close>, the HTTP transport, Python's parser, started processes, the language model with the store
  of known fixes, SHA-256 and MD5, the files of profiles, the invocation of a graph by LangGraph, the generators of
  projects, the unified diff, alarms, and the callbacks of a user of a class are arguments of the definitions;
  what a theorem relies on is a named hypothesis with a witness on a concrete instance.

  \<^bold>\<open>Not modelled.\<close> Logging, metrics export and threads as such (a thread appears as the sequence of its
  steps); the prompts and templates of agents and generators, which are text; git, and of files their
  permissions, links and encodings.
  The manifest lists these parts with the reason.
\<close>

end
